(* ===== verification/Prelude.thy ===== *)
theory Prelude
  imports Complex_Main "HOL-Library.Sublist"
begin

text \<open>
  Shared vocabulary of the development.

  \<^item> Python values: a \<open>str\<close> is the list of its UTF-8 bytes (\<open>string\<close>), a \<open>float\<close> is a
    \<open>real\<close> (rounding is not modelled), an \<open>int\<close> is an \<open>int\<close>. \<open>py_len\<close> counts code points;
    \<open>py_lower\<close>, \<open>py_strip\<close> and \<open>py_split\<close> act on ASCII letters and ASCII white space and
    leave every other byte as it is.
  \<^item> Exceptions are the left summand of a sum type; HTTP replies are the type \<open>reply\<close>.
  \<^item> A PostgreSQL pool is absent, unreachable or up (\<open>pool\<close>); tables are lists of records
    and the SQL text of the sources is translated to list operations on them.
  \<^item> Locales for state machines, used by several components.
\<close>

subsection \<open>Automation shared by the components\<close>

named_theorems ops_defs \<open>definitions of the operations of a component\<close>
named_theorems inv_intros \<open>preservation of a component's invariant by its operations\<close>

subsection \<open>Exceptions, replies, pools\<close>

datatype exn = Exn (exn_msg: string)

type_synonym 'a res = "exn + 'a"

fun bind_res :: "'a res \<Rightarrow> ('a \<Rightarrow> 'b res) \<Rightarrow> 'b res" where
  "bind_res (Inl e) f = Inl e"
| "bind_res (Inr x) f = f x"

lemma bind_res_Inr: "bind_res r f = Inr y \<longleftrightarrow> (\<exists>x. r = Inr x \<and> f x = Inr y)"
  by (cases r) simp_all

text \<open>\<open>try: return r; except Exception: return d\<close>.\<close>

fun or_else :: "'a res \<Rightarrow> 'a \<Rightarrow> 'a" where
  "or_else (Inl e) d = d"
| "or_else (Inr x) d = x"

text \<open>An HTTP reply: an error envelope (status and machine code) or a success body.\<close>

datatype 'a reply = Err (err_status: nat) (err_code: string) | Ok (ok_body: 'a)

datatype pool = NoPool | PgDown | PgUp

type_synonym tenant = string

definition the_or :: "'a \<Rightarrow> 'a option \<Rightarrow> 'a" where
  "the_or d x = (case x of None \<Rightarrow> d | Some v \<Rightarrow> v)"

lemma the_or_simps [simp]: "the_or d None = d" "the_or d (Some v) = v"
  by (simp_all add: the_or_def)

subsection \<open>Python strings\<close>

definition is_cont_byte :: "char \<Rightarrow> bool" where
  "is_cont_byte c \<longleftrightarrow> (of_char c :: nat) div 64 = 2"

definition py_len :: "string \<Rightarrow> nat" where
  "py_len s = length (filter (\<lambda>c. \<not> is_cont_byte c) s)"

definition is_space :: "char \<Rightarrow> bool" where
  "is_space c \<longleftrightarrow> (let n = (of_char c :: nat) in n = 32 \<or> (9 \<le> n \<and> n \<le> 13) \<or> (28 \<le> n \<and> n \<le> 31))"

definition lower_char :: "char \<Rightarrow> char" where
  "lower_char c = (let n = (of_char c :: nat) in if 65 \<le> n \<and> n \<le> 90 then char_of (n + 32) else c)"

definition py_lower :: "string \<Rightarrow> string" where
  "py_lower s = map lower_char s"

definition py_lstrip :: "string \<Rightarrow> string" where
  "py_lstrip s = dropWhile is_space s"

definition py_strip :: "string \<Rightarrow> string" where
  "py_strip s = rev (dropWhile is_space (rev (dropWhile is_space s)))"

text \<open>\<open>str.split()\<close>: the maximal runs of non-space characters.\<close>

fun split_acc :: "string \<Rightarrow> string \<Rightarrow> string list" where
  "split_acc cur [] = (if cur = [] then [] else [rev cur])"
| "split_acc cur (c # cs) =
     (if is_space c then (if cur = [] then [] else [rev cur]) @ split_acc [] cs
      else split_acc (c # cur) cs)"

definition py_split :: "string \<Rightarrow> string list" where
  "py_split s = split_acc [] s"

fun py_join :: "string \<Rightarrow> string list \<Rightarrow> string" where
  "py_join sep [] = []"
| "py_join sep [s] = s"
| "py_join sep (s # t # ts) = s @ sep @ py_join sep (t # ts)"

text \<open>\<open>sub in s\<close>.\<close>

fun str_in :: "string \<Rightarrow> string \<Rightarrow> bool" where
  "str_in sub [] = (sub = [])"
| "str_in sub (c # cs) = (prefix sub (c # cs) \<or> str_in sub cs)"

text \<open>The code points of a text, and \<open>s[:n]\<close>.\<close>

function code_points :: "string \<Rightarrow> string list" where
  "code_points [] = []"
| "code_points (c # cs) = (c # takeWhile is_cont_byte cs) # code_points (dropWhile is_cont_byte cs)"
  by pat_completeness auto

termination
  by (relation "measure length") (auto simp: le_imp_less_Suc length_dropWhile_le)

definition py_take :: "nat \<Rightarrow> string \<Rightarrow> string" where
  "py_take n s = concat (take n (code_points s))"

lemma lower_char_idem [simp]: "lower_char (lower_char c) = lower_char c"
proof (cases "65 \<le> (of_char c :: nat) \<and> (of_char c :: nat) \<le> 90")
  case True
  then have "(of_char (char_of (of_char c + 32 :: nat)) :: nat) = of_char c + 32"
    by (simp add: of_char_of)
  with True show ?thesis by (simp add: lower_char_def Let_def)
qed (auto simp: lower_char_def Let_def)

lemma py_lower_idem [simp]: "py_lower (py_lower s) = py_lower s"
  by (simp add: py_lower_def)

lemma py_strip_no_leading: "py_strip s = c # cs \<Longrightarrow> \<not> is_space c"
proof -
  assume a: "py_strip s = c # cs"
  let ?d = "dropWhile is_space s"
  have "prefix (py_strip s) ?d"
    unfolding py_strip_def using suffix_dropWhile [of is_space "rev ?d"]
    by (simp add: suffix_to_prefix)
  then obtain zs where d: "?d = c # cs @ zs"
    using a by (auto elim!: prefixE)
  then have "?d \<noteq> []" "hd ?d = c" by auto
  with hd_dropWhile [of is_space s] show ?thesis by simp
qed

text \<open>A separator that does not occur to its right splits a key in one way only.\<close>

lemma append_sep_inj:
  assumes "x \<notin> set b" "x \<notin> set d"
  shows "a @ x # b = c @ x # d \<longleftrightarrow> a = c \<and> b = d"
proof (induction a arbitrary: c)
  case Nil
  with assms show ?case by (cases c) auto
next
  case (Cons y a)
  show ?case
  proof (cases c)
    case Nil
    with assms show ?thesis by auto
  next
    case (Cons z c')
    with Cons.IH [of c'] show ?thesis by auto
  qed
qed

subsection \<open>SQL on tables\<close>

text \<open>\<open>UPDATE ... SET f WHERE p\<close> on a table of records.\<close>

definition update_where :: "('a \<Rightarrow> bool) \<Rightarrow> ('a \<Rightarrow> 'a) \<Rightarrow> 'a list \<Rightarrow> 'a list" where
  "update_where p f rows = map (\<lambda>r. if p r then f r else r) rows"

lemma update_where_simps [simp]:
  "update_where p f [] = []"
  "update_where p f (r # rs) = (if p r then f r else r) # update_where p f rs"
  "length (update_where p f rs) = length rs"
  by (simp_all add: update_where_def)

lemma set_update_where: "set (update_where p f rs) = (\<lambda>r. if p r then f r else r) ` set rs"
  by (simp add: update_where_def)

lemma map_update_where: "(\<And>r. g (f r) = g r) \<Longrightarrow> map g (update_where p f rs) = map g rs"
  by (induction rs) auto

lemma filter_update_where_frame:
  assumes "\<And>r. p r \<Longrightarrow> \<not> q r" and "\<And>r. p r \<Longrightarrow> \<not> q (f r)"
  shows "filter q (update_where p f rs) = filter q rs"
  using assms by (induction rs) auto

lemma find_filter_hd: "find p xs = (case filter p xs of [] \<Rightarrow> None | x # _ \<Rightarrow> Some x)"
  by (induction xs) auto

lemma find_SomeD: "find p xs = Some x \<Longrightarrow> x \<in> set xs \<and> p x"
  by (induction xs) (auto split: if_splits)

lemma find_update_where_same:
  "(\<And>r. p (f r) = p r) \<Longrightarrow> find p (update_where p f rs) = map_option f (find p rs)"
  by (induction rs) auto

lemma find_NoneD: "find p xs = None \<Longrightarrow> x \<in> set xs \<Longrightarrow> \<not> p x"
  by (induction xs) (auto split: if_splits)

subsection \<open>State machines\<close>

text \<open>
  A component with a step function: an invariant that every step keeps holds after every run.
\<close>

locale invariant_machine =
  fixes step :: "'s \<Rightarrow> 'e \<Rightarrow> 's"
    and inv :: "'s \<Rightarrow> bool"
  assumes step_inv: "inv s \<Longrightarrow> inv (step s e)"
begin

lemma run_inv: "inv s \<Longrightarrow> inv (foldl step s es)"
  by (induction es arbitrary: s) (auto intro: step_inv)

end

text \<open>A measure that no step lowers (an append-only log, a replay counter, a version).\<close>

locale monotone_machine = invariant_machine step inv
  for step :: "'s \<Rightarrow> 'e \<Rightarrow> 's" and inv :: "'s \<Rightarrow> bool" +
  fixes measure_of :: "'s \<Rightarrow> 'm::order"
  assumes step_mono: "inv s \<Longrightarrow> measure_of s \<le> measure_of (step s e)"
begin

lemma run_mono: "inv s \<Longrightarrow> measure_of s \<le> measure_of (foldl step s es)"
proof (induction es arbitrary: s)
  case Nil
  then show ?case by simp
next
  case (Cons e es)
  from step_inv [OF Cons.prems] have "measure_of (step s e) \<le> measure_of (foldl step (step s e) es)"
    by (rule Cons.IH)
  with step_mono [OF Cons.prems, of e] show ?case by simp
qed

end

text \<open>Under the invariant, an event leaves the views it does not touch alone.\<close>

locale framed_machine = invariant_machine step inv
  for step :: "'s \<Rightarrow> 'e \<Rightarrow> 's" and inv :: "'s \<Rightarrow> bool" +
  fixes view :: "'k \<Rightarrow> 's \<Rightarrow> 'v"
    and touches :: "'e \<Rightarrow> 'k \<Rightarrow> bool"
  assumes step_untouched: "inv s \<Longrightarrow> \<not> touches e k \<Longrightarrow> view k (step s e) = view k s"
begin

lemma run_untouched:
  "inv s \<Longrightarrow> \<forall>e\<in>set es. \<not> touches e k \<Longrightarrow> view k (foldl step s es) = view k s"
proof (induction es arbitrary: s)
  case Nil
  then show ?case by simp
next
  case (Cons e es)
  have "view k (foldl step (step s e) es) = view k (step s e)"
    using Cons.prems by (intro Cons.IH step_inv) auto
  with Cons.prems show ?case by (simp add: step_untouched)
qed

end

text \<open>
  Tenant isolation: every event has an owner, an event leaves the view of every other tenant
  alone, and what it does to its owner's view depends on that view only. Then a tenant's view
  after any run is the one its own events alone produce.
\<close>

locale isolated_machine =
  fixes step :: "'s \<Rightarrow> 'e \<Rightarrow> 's"
    and view :: "'s \<Rightarrow> 'k \<Rightarrow> 'v"
    and owner :: "'e \<Rightarrow> 'k"
    and effect :: "'e \<Rightarrow> 'v \<Rightarrow> 'v"
  assumes step_frame: "k \<noteq> owner e \<Longrightarrow> view (step s e) k = view s k"
    and step_own: "view (step s e) (owner e) = effect e (view s (owner e))"
begin

lemma run_view: "view (foldl step s es) k = fold effect (filter (\<lambda>e. owner e = k) es) (view s k)"
  by (induction es arbitrary: s) (auto simp: step_frame step_own)

lemma run_isolated:
  "view (foldl step s es) k = view (foldl step s (filter (\<lambda>e. owner e = k) es)) k"
  by (simp add: run_view)

lemma run_frame: "(\<And>e. e \<in> set es \<Longrightarrow> owner e \<noteq> k) \<Longrightarrow> view (foldl step s es) k = view s k"
  by (simp add: run_view filter_False)

end

end
