(* ===== verification/PyVal.thy ===== *)
theory PyVal
  imports Prelude
begin

text \<open>
  Dynamically typed Python values: JSON documents, request payloads, Elasticsearch bodies,
  values read back from Redis. A \<open>dict\<close> is an association list in insertion order;
  \<open>dict_set\<close> is item assignment. Also the decimal representation of integers (cache keys
  are built from it) and \<open>float(...)\<close> on decimal literals.
\<close>

datatype pyv =
    VNone
  | VBool bool
  | VInt int
  | VNum real
  | VStr string
  | VList "pyv list"
  | VDict "(string \<times> pyv) list"

type_synonym py_dict = "(string \<times> pyv) list"

fun truthy :: "pyv \<Rightarrow> bool" where
  "truthy VNone = False"
| "truthy (VBool b) = b"
| "truthy (VInt i) = (i \<noteq> 0)"
| "truthy (VNum x) = (x \<noteq> 0)"
| "truthy (VStr s) = (s \<noteq> [])"
| "truthy (VList xs) = (xs \<noteq> [])"
| "truthy (VDict d) = (d \<noteq> [])"

text \<open>Python's \<open>a or b\<close>.\<close>

definition py_or :: "pyv \<Rightarrow> pyv \<Rightarrow> pyv" where
  "py_or a b = (if truthy a then a else b)"

subsection \<open>Dictionaries\<close>

definition dict_get :: "py_dict \<Rightarrow> string \<Rightarrow> pyv" where
  "dict_get d k = the_or VNone (map_of d k)"

fun dict_set :: "'k \<Rightarrow> 'v \<Rightarrow> ('k \<times> 'v) list \<Rightarrow> ('k \<times> 'v) list" where
  "dict_set k v [] = [(k, v)]"
| "dict_set k v ((k', v') # d) = (if k = k' then (k, v) # d else (k', v') # dict_set k v d)"

lemma map_of_dict_set [simp]: "map_of (dict_set k v d) = (map_of d)(k \<mapsto> v)"
  by (induction d) auto

lemma dict_set_keys: "set (map fst (dict_set k v d)) = insert k (set (map fst d))"
proof (induction d)
  case (Cons p d)
  then show ?case by (cases p) (auto simp: insert_commute)
qed simp

lemma distinct_dict_set [simp]:
  "distinct (map fst d) \<Longrightarrow> distinct (map fst (dict_set k v d))"
proof (induction d)
  case (Cons p d)
  then show ?case by (cases p) (simp add: dict_set_keys del: set_map)
qed simp

lemma dict_get_dict_set [simp]:
  "dict_get (dict_set k v d) k' = (if k' = k then v else dict_get d k')"
  by (simp add: dict_get_def)

text \<open>\<open>d.pop(k, None)\<close> and \<open>d.update(e)\<close>.\<close>

definition dict_del :: "'k \<Rightarrow> ('k \<times> 'v) list \<Rightarrow> ('k \<times> 'v) list" where
  "dict_del k d = filter (\<lambda>p. fst p \<noteq> k) d"

lemma map_of_dict_del [simp]: "map_of (dict_del k d) = (map_of d)(k := None)"
  by (induction d) (auto simp: dict_del_def fun_eq_iff)

definition dict_update :: "('k \<times> 'v) list \<Rightarrow> ('k \<times> 'v) list \<Rightarrow> ('k \<times> 'v) list" where
  "dict_update d e = fold (\<lambda>(k, v). dict_set k v) e d"

subsection \<open>Decimal representation of integers\<close>

definition digit_char :: "nat \<Rightarrow> char" where
  "digit_char n = ''0123456789'' ! n"

fun nat_str :: "nat \<Rightarrow> string" where
  "nat_str n = (if n < 10 then [digit_char n] else nat_str (n div 10) @ [digit_char (n mod 10)])"

declare nat_str.simps [simp del]

definition int_str :: "int \<Rightarrow> string" where
  "int_str i = (if i < 0 then ''-'' @ nat_str (nat (- i)) else nat_str (nat i))"

definition is_digit :: "char \<Rightarrow> bool" where
  "is_digit c \<longleftrightarrow> 48 \<le> (of_char c :: nat) \<and> (of_char c :: nat) \<le> 57"

definition digits_val :: "string \<Rightarrow> nat" where
  "digits_val s = foldl (\<lambda>a c. a * 10 + (of_char c - 48)) 0 s"

lemma of_char_digit [simp]: "n < 10 \<Longrightarrow> (of_char (digit_char n) :: nat) = 48 + n"
proof -
  assume "n < 10"
  then have "n \<in> {0, 1, 2, 3, 4, 5, 6, 7, 8, 9}" by auto
  then show ?thesis by (auto simp: digit_char_def)
qed

lemma nat_str_roundtrip: "digits_val (nat_str n) = n"
proof (induction n rule: nat_str.induct)
  case (1 n)
  show ?case
  proof (cases "n < 10")
    case True
    then show ?thesis by (simp add: nat_str.simps digits_val_def)
  next
    case False
    with 1 show ?thesis
      by (subst nat_str.simps) (simp add: digits_val_def)
  qed
qed

lemma nat_str_inj [simp]: "nat_str m = nat_str n \<longleftrightarrow> m = n"
  by (metis nat_str_roundtrip)

lemma nat_str_digits: "c \<in> set (nat_str n) \<Longrightarrow> is_digit c"
proof (induction n rule: nat_str.induct)
  case (1 n)
  show ?case
  proof (cases "n < 10")
    case True
    with 1 show ?thesis by (simp add: nat_str.simps is_digit_def)
  next
    case False
    with 1 show ?thesis
      by (subst (asm) (2) nat_str.simps) (auto simp: is_digit_def)
  qed
qed

lemma nat_str_not_neg: "nat_str n \<noteq> CHR ''-'' # s"
proof
  assume "nat_str n = CHR ''-'' # s"
  with nat_str_digits [of "CHR ''-''" n] have "is_digit (CHR ''-'')" by simp
  then show False by (simp add: is_digit_def)
qed

lemma int_str_inj [simp]: "int_str i = int_str j \<longleftrightarrow> i = j"
  using nat_str_not_neg by (auto simp: int_str_def dest: sym)

text \<open>\<open>str(...)\<close>: the representation of floats and containers is the argument \<open>repr\<close>.\<close>

definition py_str :: "(pyv \<Rightarrow> string) \<Rightarrow> pyv \<Rightarrow> string" where
  "py_str repr v =
     (case v of VStr s \<Rightarrow> s | VInt i \<Rightarrow> int_str i | VBool b \<Rightarrow> (if b then ''True'' else ''False'')
      | VNone \<Rightarrow> ''None'' | _ \<Rightarrow> repr v)"

lemma py_str_simps [simp]: "py_str repr (VStr s) = s" "py_str repr (VInt i) = int_str i"
  "py_str repr VNone = ''None''"
  by (simp_all add: py_str_def)

text \<open>\<open>payload.get(k, default)\<close>.\<close>

definition dict_get_or :: "py_dict \<Rightarrow> string \<Rightarrow> pyv \<Rightarrow> pyv" where
  "dict_get_or d k v = the_or v (map_of d k)"

subsection \<open>\<open>float(...)\<close>\<close>

text \<open>
  Decimal literals only: an optional sign, digits with an optional point, an optional exponent.
  Python also reads \<open>inf\<close>, \<open>nan\<close> and digits grouped by underscores; those are not modelled and
  are \<open>None\<close> here.
\<close>

definition parse_unsigned :: "string \<Rightarrow> (real \<times> string) option" where
  "parse_unsigned s =
     (let ip = takeWhile is_digit s; r = dropWhile is_digit s;
          (fp, r') = (case r of
                        c # cs \<Rightarrow> if c = CHR ''.'' then (takeWhile is_digit cs, dropWhile is_digit cs) else ([], r)
                      | [] \<Rightarrow> ([], r))
      in if ip = [] \<and> fp = [] then None
         else Some (of_nat (digits_val (ip @ fp)) / 10 ^ length fp, r'))"

definition parse_exponent :: "string \<Rightarrow> int option" where
  "parse_exponent s =
     (case s of
        [] \<Rightarrow> Some 0
      | c # cs \<Rightarrow>
          if c \<noteq> CHR ''e'' \<and> c \<noteq> CHR ''E'' then None
          else (let neg = (case cs of d # _ \<Rightarrow> d = CHR ''-'' | [] \<Rightarrow> False);
                    ds = (case cs of d # ds \<Rightarrow> if d = CHR ''-'' \<or> d = CHR ''+'' then ds else cs | [] \<Rightarrow> cs)
                in if ds = [] \<or> \<not> list_all is_digit ds then None
                   else Some (if neg then - int (digits_val ds) else int (digits_val ds))))"

definition parse_float :: "string \<Rightarrow> real option" where
  "parse_float s0 =
     (let s = py_strip s0;
          neg = (case s of c # _ \<Rightarrow> c = CHR ''-'' | [] \<Rightarrow> False);
          u = (case s of c # cs \<Rightarrow> if c = CHR ''-'' \<or> c = CHR ''+'' then cs else s | [] \<Rightarrow> s)
      in case parse_unsigned u of
           None \<Rightarrow> None
         | Some (m, r) \<Rightarrow>
             (case parse_exponent r of
                None \<Rightarrow> None
              | Some e \<Rightarrow>
                  let x = (if 0 \<le> e then m * 10 ^ nat e else m / 10 ^ nat (- e))
                  in Some (if neg then - x else x)))"

definition py_float :: "pyv \<Rightarrow> real res" where
  "py_float v =
     (case v of
        VNum x \<Rightarrow> Inr x
      | VInt i \<Rightarrow> Inr (of_int i)
      | VBool b \<Rightarrow> Inr (if b then 1 else 0)
      | VStr s \<Rightarrow> (case parse_float s of None \<Rightarrow> Inl (Exn ''ValueError'') | Some x \<Rightarrow> Inr x)
      | _ \<Rightarrow> Inl (Exn ''TypeError''))"

lemma py_float_num [simp]: "py_float (VNum x) = Inr x" "py_float (VInt i) = Inr (of_int i)"
  by (simp_all add: py_float_def)

end
