(* ===== verification/Redis.thy ===== *)
theory Redis
  imports PyVal
begin

text \<open>
  Redis is a service outside the repository: its client is a record of operations over an
  abstract server state, a parameter of every definition that uses it. Each operation may raise
  (\<open>Inl\<close>). A stored value is the reading of the stored bytes: \<open>str(x)\<close> of a number is kept as
  the number and a JSON text as the value it encodes, so \<open>float(str(x))\<close> and
  \<open>json.loads(json.dumps(v))\<close> are the identity here. The laws that the clients rely on are the
  predicates \<open>redis_kv\<close>, \<open>redis_counter\<close> and \<open>redis_list\<close>; \<open>mem_redis\<close> is a concrete server
  that satisfies them and is used by the witnesses.
\<close>

record 'r redis =
  rd_get :: "string \<Rightarrow> 'r \<Rightarrow> pyv option res"
  rd_set :: "string \<Rightarrow> pyv \<Rightarrow> nat option \<Rightarrow> 'r \<Rightarrow> unit res \<times> 'r"
  rd_delete :: "string \<Rightarrow> 'r \<Rightarrow> unit res \<times> 'r"
  rd_incr :: "string \<Rightarrow> 'r \<Rightarrow> int res \<times> 'r"
  rd_incrbyfloat :: "string \<Rightarrow> real \<Rightarrow> 'r \<Rightarrow> unit res \<times> 'r"
  rd_expire :: "string \<Rightarrow> nat \<Rightarrow> 'r \<Rightarrow> unit res \<times> 'r"
  rd_rpush :: "string \<Rightarrow> pyv \<Rightarrow> 'r \<Rightarrow> unit res \<times> 'r"
  rd_lpush :: "string \<Rightarrow> pyv \<Rightarrow> 'r \<Rightarrow> unit res \<times> 'r"
  rd_ltrim :: "string \<Rightarrow> int \<Rightarrow> int \<Rightarrow> 'r \<Rightarrow> unit res \<times> 'r"
  rd_lrange :: "string \<Rightarrow> int \<Rightarrow> int \<Rightarrow> 'r \<Rightarrow> pyv list res"

subsection \<open>Documented behaviour\<close>

text \<open>
  GET, SET and DEL (SET always overwrites). A failed write leaves the key-value view alone. Expiry
  is the server's own step, not one of these operations.
\<close>

definition redis_kv :: "('r, 'x) redis_scheme \<Rightarrow> bool" where
  "redis_kv R \<longleftrightarrow>
     (\<forall>k v t s. fst (rd_set R k v t s) = Inr () \<longrightarrow> rd_get R k (snd (rd_set R k v t s)) = Inr (Some v)) \<and>
     (\<forall>k v t s k'. k' \<noteq> k \<longrightarrow> rd_get R k' (snd (rd_set R k v t s)) = rd_get R k' s) \<and>
     (\<forall>k v t s e. fst (rd_set R k v t s) = Inl e \<longrightarrow> rd_get R k (snd (rd_set R k v t s)) = rd_get R k s) \<and>
     (\<forall>k s. fst (rd_delete R k s) = Inr () \<longrightarrow> rd_get R k (snd (rd_delete R k s)) = Inr None) \<and>
     (\<forall>k s k'. k' \<noteq> k \<longrightarrow> rd_get R k' (snd (rd_delete R k s)) = rd_get R k' s) \<and>
     (\<forall>k s e. fst (rd_delete R k s) = Inl e \<longrightarrow> rd_get R k (snd (rd_delete R k s)) = rd_get R k s)"

definition counter_of :: "pyv option \<Rightarrow> int" where
  "counter_of v = (case v of Some (VInt i) \<Rightarrow> i | _ \<Rightarrow> 0)"

text \<open>INCR: a missing key counts as 0, the new value is returned and stored; EXPIRE keeps values.\<close>

definition redis_counter :: "('r, 'x) redis_scheme \<Rightarrow> bool" where
  "redis_counter R \<longleftrightarrow>
     (\<forall>k s n. fst (rd_incr R k s) = Inr n \<longrightarrow>
        (\<exists>v. rd_get R k s = Inr v \<and> n = counter_of v + 1) \<and>
        rd_get R k (snd (rd_incr R k s)) = Inr (Some (VInt n))) \<and>
     (\<forall>k s k'. k' \<noteq> k \<longrightarrow> rd_get R k' (snd (rd_incr R k s)) = rd_get R k' s) \<and>
     (\<forall>k s e. fst (rd_incr R k s) = Inl e \<longrightarrow> rd_get R k (snd (rd_incr R k s)) = rd_get R k s) \<and>
     (\<forall>k t s k'. rd_get R k' (snd (rd_expire R k t s)) = rd_get R k' s)"

text \<open>Redis index ranges: negative indices count from the end, both ends are included.\<close>

definition redis_range :: "int \<Rightarrow> int \<Rightarrow> 'a list \<Rightarrow> 'a list" where
  "redis_range a b xs =
     (let n = int (length xs); i = max 0 (if a < 0 then n + a else a);
          j = (if b < 0 then n + b else b)
      in if j < i then [] else take (nat (j - i + 1)) (drop (nat i) xs))"

text \<open>Lists: RPUSH appends, LPUSH prepends, LTRIM keeps a range, LRANGE reads one. \<open>rd_list\<close> is the whole list.\<close>

definition redis_list :: "('r, 'x) redis_scheme \<Rightarrow> (string \<Rightarrow> 'r \<Rightarrow> pyv list) \<Rightarrow> bool" where
  "redis_list R rd_list \<longleftrightarrow>
     (\<forall>k v s. fst (rd_rpush R k v s) = Inr () \<longrightarrow> rd_list k (snd (rd_rpush R k v s)) = rd_list k s @ [v]) \<and>
     (\<forall>k v s k'. k' \<noteq> k \<longrightarrow> rd_list k' (snd (rd_rpush R k v s)) = rd_list k' s) \<and>
     (\<forall>k v s e. fst (rd_rpush R k v s) = Inl e \<longrightarrow> rd_list k (snd (rd_rpush R k v s)) = rd_list k s) \<and>
     (\<forall>k v s. fst (rd_lpush R k v s) = Inr () \<longrightarrow> rd_list k (snd (rd_lpush R k v s)) = v # rd_list k s) \<and>
     (\<forall>k v s k'. k' \<noteq> k \<longrightarrow> rd_list k' (snd (rd_lpush R k v s)) = rd_list k' s) \<and>
     (\<forall>k v s e. fst (rd_lpush R k v s) = Inl e \<longrightarrow> rd_list k (snd (rd_lpush R k v s)) = rd_list k s) \<and>
     (\<forall>k a b s. fst (rd_ltrim R k a b s) = Inr () \<longrightarrow>
        rd_list k (snd (rd_ltrim R k a b s)) = redis_range a b (rd_list k s)) \<and>
     (\<forall>k a b s k'. k' \<noteq> k \<longrightarrow> rd_list k' (snd (rd_ltrim R k a b s)) = rd_list k' s) \<and>
     (\<forall>k a b s e. fst (rd_ltrim R k a b s) = Inl e \<longrightarrow> rd_list k (snd (rd_ltrim R k a b s)) = rd_list k s) \<and>
     (\<forall>k a b s xs. rd_lrange R k a b s = Inr xs \<longrightarrow> xs = redis_range a b (rd_list k s)) \<and>
     (\<forall>k t s k'. rd_list k' (snd (rd_expire R k t s)) = rd_list k' s)"

text \<open>A list operation on one key leaves the values of the others, and INCR leaves the lists.\<close>

definition redis_frame :: "('r, 'x) redis_scheme \<Rightarrow> (string \<Rightarrow> 'r \<Rightarrow> pyv list) \<Rightarrow> bool" where
  "redis_frame R rd_list \<longleftrightarrow>
     (\<forall>k k' v s. k' \<noteq> k \<longrightarrow> rd_get R k' (snd (rd_lpush R k v s)) = rd_get R k' s) \<and>
     (\<forall>k k' a b s. k' \<noteq> k \<longrightarrow> rd_get R k' (snd (rd_ltrim R k a b s)) = rd_get R k' s) \<and>
     (\<forall>k k' t s. rd_get R k' (snd (rd_expire R k t s)) = rd_get R k' s) \<and>
     (\<forall>k k' s. k' \<noteq> k \<longrightarrow> rd_list k' (snd (rd_incr R k s)) = rd_list k' s)"

lemma redis_frame_laws:
  assumes "redis_frame R rd_list"
  shows "k' \<noteq> k \<Longrightarrow> rd_get R k' (snd (rd_lpush R k v s)) = rd_get R k' s"
    and "k' \<noteq> k \<Longrightarrow> rd_get R k' (snd (rd_ltrim R k a b s)) = rd_get R k' s"
    and "rd_get R k' (snd (rd_expire R k t s)) = rd_get R k' s"
    and "k' \<noteq> k \<Longrightarrow> rd_list k' (snd (rd_incr R k s)) = rd_list k' s"
  using assms by (simp_all add: redis_frame_def)

lemma redis_kv_laws:
  assumes "redis_kv R"
  shows "fst (rd_set R k v t s) = Inr () \<Longrightarrow> rd_get R k (snd (rd_set R k v t s)) = Inr (Some v)"
    and "fst (rd_set R k v t s) = Inl e \<Longrightarrow> rd_get R k (snd (rd_set R k v t s)) = rd_get R k s"
    and "k' \<noteq> k \<Longrightarrow> rd_get R k' (snd (rd_set R k v t s)) = rd_get R k' s"
    and "fst (rd_delete R k s) = Inr () \<Longrightarrow> rd_get R k (snd (rd_delete R k s)) = Inr None"
    and "fst (rd_delete R k s) = Inl e \<Longrightarrow> rd_get R k (snd (rd_delete R k s)) = rd_get R k s"
    and "k' \<noteq> k \<Longrightarrow> rd_get R k' (snd (rd_delete R k s)) = rd_get R k' s"
  using assms by (simp_all add: redis_kv_def)

lemma redis_counter_laws:
  assumes "redis_counter R"
  shows "fst (rd_incr R k s) = Inr n \<Longrightarrow>
           (\<exists>v. rd_get R k s = Inr v \<and> n = counter_of v + 1) \<and>
           rd_get R k (snd (rd_incr R k s)) = Inr (Some (VInt n))"
    and "fst (rd_incr R k s) = Inl e \<Longrightarrow> rd_get R k (snd (rd_incr R k s)) = rd_get R k s"
    and "k' \<noteq> k \<Longrightarrow> rd_get R k' (snd (rd_incr R k s)) = rd_get R k' s"
    and "rd_get R k' (snd (rd_expire R k t s)) = rd_get R k' s"
  using assms by (simp_all add: redis_counter_def)

lemma redis_list_laws:
  assumes "redis_list R rd_list"
  shows "fst (rd_rpush R k v s) = Inr () \<Longrightarrow> rd_list k (snd (rd_rpush R k v s)) = rd_list k s @ [v]"
    and "k' \<noteq> k \<Longrightarrow> rd_list k' (snd (rd_rpush R k v s)) = rd_list k' s"
    and "fst (rd_rpush R k v s) = Inl e \<Longrightarrow> rd_list k (snd (rd_rpush R k v s)) = rd_list k s"
    and "fst (rd_ltrim R k a b s) = Inr () \<Longrightarrow> rd_list k (snd (rd_ltrim R k a b s)) = redis_range a b (rd_list k s)"
    and "k' \<noteq> k \<Longrightarrow> rd_list k' (snd (rd_ltrim R k a b s)) = rd_list k' s"
    and "fst (rd_ltrim R k a b s) = Inl e \<Longrightarrow> rd_list k (snd (rd_ltrim R k a b s)) = rd_list k s"
    and "rd_lrange R k a b s = Inr xs \<Longrightarrow> xs = redis_range a b (rd_list k s)"
    and "rd_list k' (snd (rd_expire R k t s)) = rd_list k' s"
    and "fst (rd_lpush R k v s) = Inr () \<Longrightarrow> rd_list k (snd (rd_lpush R k v s)) = v # rd_list k s"
    and "k' \<noteq> k \<Longrightarrow> rd_list k' (snd (rd_lpush R k v s)) = rd_list k' s"
    and "fst (rd_lpush R k v s) = Inl e \<Longrightarrow> rd_list k (snd (rd_lpush R k v s)) = rd_list k s"
  using assms by (simp_all add: redis_list_def)

subsection \<open>A server in memory\<close>

record mem =
  mem_kv :: "(string \<times> pyv) list"
  mem_lists :: "(string \<times> pyv list) list"

definition mem_empty :: mem where
  "mem_empty = \<lparr>mem_kv = [], mem_lists = []\<rparr>"

definition mem_list :: "string \<Rightarrow> mem \<Rightarrow> pyv list" where
  "mem_list k s = the_or [] (map_of (mem_lists s) k)"

definition mem_redis :: "mem redis" where
  "mem_redis = \<lparr>
     rd_get = (\<lambda>k s. Inr (map_of (mem_kv s) k)),
     rd_set = (\<lambda>k v t s. (Inr (), s\<lparr>mem_kv := dict_set k v (mem_kv s)\<rparr>)),
     rd_delete = (\<lambda>k s. (Inr (), s\<lparr>mem_kv := dict_del k (mem_kv s), mem_lists := dict_del k (mem_lists s)\<rparr>)),
     rd_incr = (\<lambda>k s. let n = counter_of (map_of (mem_kv s) k) + 1
                      in (Inr n, s\<lparr>mem_kv := dict_set k (VInt n) (mem_kv s)\<rparr>)),
     rd_incrbyfloat = (\<lambda>k x s.
        case map_of (mem_kv s) k of
          None \<Rightarrow> (Inr (), s\<lparr>mem_kv := dict_set k (VNum x) (mem_kv s)\<rparr>)
        | Some (VNum y) \<Rightarrow> (Inr (), s\<lparr>mem_kv := dict_set k (VNum (y + x)) (mem_kv s)\<rparr>)
        | Some _ \<Rightarrow> (Inl (Exn ''ResponseError''), s)),
     rd_expire = (\<lambda>k t s. (Inr (), s)),
     rd_rpush = (\<lambda>k v s. (Inr (), s\<lparr>mem_lists := dict_set k (mem_list k s @ [v]) (mem_lists s)\<rparr>)),
     rd_lpush = (\<lambda>k v s. (Inr (), s\<lparr>mem_lists := dict_set k (v # mem_list k s) (mem_lists s)\<rparr>)),
     rd_ltrim = (\<lambda>k a b s. (Inr (), s\<lparr>mem_lists := dict_set k (redis_range a b (mem_list k s)) (mem_lists s)\<rparr>)),
     rd_lrange = (\<lambda>k a b s. Inr (redis_range a b (mem_list k s)))\<rparr>"

lemma mem_redis_kv [simp]: "redis_kv mem_redis"
  by (auto simp: redis_kv_def mem_redis_def)

lemma mem_redis_counter [simp]: "redis_counter mem_redis"
  by (auto simp: redis_counter_def mem_redis_def Let_def)

lemma mem_redis_list [simp]: "redis_list mem_redis mem_list"
  by (auto simp: redis_list_def mem_redis_def mem_list_def)

lemma mem_redis_frame [simp]: "redis_frame mem_redis mem_list"
  by (auto simp: redis_frame_def mem_redis_def mem_list_def Let_def)

end
