(* ===== verification/Resilience.thy ===== *)
theory Resilience
  imports Redis
begin

text \<open>
  \<open>packages/acip_core/resilience.py\<close> (circuit breaker), \<open>packages/acip_core/ratelimit.py\<close>
  (fixed-window limiter on Redis) and \<open>packages/acip_core/health.py\<close> (readiness registry).
  Clocks are arguments. The bulkhead is an \<open>asyncio.Semaphore\<close> and is not modelled.
\<close>

subsection \<open>Circuit breaker\<close>

datatype circuit_state = CLOSED | OPEN | HALF_OPEN

record breaker =
  cb_threshold :: int
  cb_reset :: real
  cb_failures :: int
  cb_opened_at :: real
  cb_state :: circuit_state

definition new_breaker :: "int \<Rightarrow> real \<Rightarrow> breaker" where
  "new_breaker threshold reset =
     \<lparr>cb_threshold = threshold, cb_reset = reset, cb_failures = 0, cb_opened_at = 0, cb_state = CLOSED\<rparr>"

definition cb_allow :: "real \<Rightarrow> breaker \<Rightarrow> bool \<times> breaker" where
  "cb_allow now b =
     (if cb_state b = OPEN then
        (if now - cb_opened_at b \<ge> cb_reset b then (True, b\<lparr>cb_state := HALF_OPEN\<rparr>) else (False, b))
      else (True, b))"

definition cb_record_success :: "breaker \<Rightarrow> breaker" where
  "cb_record_success b = b\<lparr>cb_failures := 0, cb_state := CLOSED\<rparr>"

definition cb_record_failure :: "real \<Rightarrow> breaker \<Rightarrow> breaker" where
  "cb_record_failure now b =
     (let b1 = b\<lparr>cb_failures := cb_failures b + 1\<rparr>
      in if cb_failures b1 \<ge> cb_threshold b1
         then b1\<lparr>cb_state := OPEN, cb_opened_at := now\<rparr> else b1)"

datatype cb_event = Probe (cb_time: real) | Success | Failure (cb_time: real)

fun cb_step :: "breaker \<Rightarrow> cb_event \<Rightarrow> breaker" where
  "cb_step b (Probe t) = snd (cb_allow t b)"
| "cb_step b Success = cb_record_success b"
| "cb_step b (Failure t) = cb_record_failure t b"

text \<open>
  What the breaker promises, read off the history of calls alone (newest event first): the
  failures since the last success, the time of the last failure, and whether a call was admitted
  after the reset time since that failure.
\<close>

fun trailing_failures :: "cb_event list \<Rightarrow> int" where
  "trailing_failures [] = 0"
| "trailing_failures (Probe t # es) = trailing_failures es"
| "trailing_failures (Success # es) = 0"
| "trailing_failures (Failure t # es) = trailing_failures es + 1"

fun last_failure :: "cb_event list \<Rightarrow> real" where
  "last_failure [] = 0"
| "last_failure (Failure t # es) = t"
| "last_failure (_ # es) = last_failure es"

fun probed :: "real \<Rightarrow> cb_event list \<Rightarrow> bool" where
  "probed r [] = False"
| "probed r (Probe t # es) = (probed r es \<or> t - last_failure es \<ge> r)"
| "probed r (Success # es) = False"
| "probed r (Failure t # es) = False"

definition cb_inv :: "breaker \<Rightarrow> bool" where
  "cb_inv b \<longleftrightarrow> 0 < cb_threshold b \<and> 0 \<le> cb_failures b \<and>
     (cb_state b = CLOSED \<longleftrightarrow> cb_failures b < cb_threshold b)"

lemmas cb_defs = cb_allow_def cb_record_success_def cb_record_failure_def new_breaker_def Let_def

lemma cb_step_inv: "cb_inv b \<Longrightarrow> cb_inv (cb_step b e)"
  by (cases e) (auto simp: cb_inv_def cb_defs)

interpretation cb: invariant_machine cb_step cb_inv
  by unfold_locales (rule cb_step_inv)

lemma cb_config [simp]:
  "cb_threshold (cb_step b e) = cb_threshold b" "cb_reset (cb_step b e) = cb_reset b"
  by (cases e; simp add: cb_defs)+

lemma cb_run_config [simp]:
  "cb_threshold (foldl cb_step b es) = cb_threshold b" "cb_reset (foldl cb_step b es) = cb_reset b"
  by (induction es arbitrary: b) simp_all

lemma cb_run_history:
  fixes n :: int and r :: real
  assumes "0 < n"
  defines "b \<equiv> \<lambda>es. foldl cb_step (new_breaker n r) es"
  shows "cb_failures (b es) = trailing_failures (rev es) \<and>
     (cb_state (b es) = CLOSED \<longleftrightarrow> trailing_failures (rev es) < n) \<and>
     (n \<le> trailing_failures (rev es) \<longrightarrow> cb_opened_at (b es) = last_failure (rev es) \<and>
        (cb_state (b es) = HALF_OPEN \<longleftrightarrow> probed r (rev es)))"
proof (induction es rule: rev_induct)
  case Nil
  then show ?case using assms by (simp add: b_def new_breaker_def)
next
  case (snoc e es)
  have b: "b (es @ [e]) = cb_step (b es) e" by (simp add: b_def)
  have cfg: "cb_threshold (b es) = n" "cb_reset (b es) = r"
    by (simp_all add: b_def) (simp_all add: new_breaker_def)
  have "cb_state (b es) = CLOSED \<or> cb_state (b es) = OPEN \<or> cb_state (b es) = HALF_OPEN"
    by (cases "cb_state (b es)") auto
  then show ?case
    using snoc assms(1) unfolding b by (cases e) (auto simp: cb_defs cfg)
qed

subsection \<open>Rate limiter\<close>

definition rl_window :: "real \<Rightarrow> int" where
  "rl_window now = floor (now / 60)"

definition rl_key :: "tenant \<Rightarrow> int \<Rightarrow> string" where
  "rl_key t w = ''ratelimit:'' @ t @ '':'' @ int_str w"

text \<open>\<open>RateLimiter.allow\<close>; the client is absent when Redis is not configured.\<close>

definition rl_allow ::
  "('r, 'x) redis_scheme option \<Rightarrow> int \<Rightarrow> tenant \<Rightarrow> int option \<Rightarrow> real \<Rightarrow> 'r \<Rightarrow> bool \<times> 'r" where
  "rl_allow redis default_per_min t limit now s =
     (case redis of
        None \<Rightarrow> (True, s)
      | Some R \<Rightarrow>
          let lim = (case limit of Some l \<Rightarrow> if l \<noteq> 0 then l else default_per_min | None \<Rightarrow> default_per_min);
              key = rl_key t (rl_window now)
          in case rd_incr R key s of
               (Inl e, s1) \<Rightarrow> (True, s1)
             | (Inr count, s1) \<Rightarrow>
                 if count = 1 then
                   (case rd_expire R key 60 s1 of
                      (Inl e, s2) \<Rightarrow> (True, s2)
                    | (Inr _, s2) \<Rightarrow> (count \<le> lim, s2))
                 else (count \<le> lim, s1))"

text \<open>A sequence of requests \<open>(tenant, time)\<close> with the default limit; the answers in order.\<close>

fun rl_run ::
  "('r, 'x) redis_scheme \<Rightarrow> int \<Rightarrow> (tenant \<times> real) list \<Rightarrow> 'r \<Rightarrow> ((tenant \<times> real) \<times> bool) list" where
  "rl_run R d [] s = []"
| "rl_run R d ((t, now) # qs) s =
     (let (b, s1) = rl_allow (Some R) d t None now s in ((t, now), b) # rl_run R d qs s1)"

definition in_window :: "tenant \<Rightarrow> int \<Rightarrow> tenant \<times> real \<Rightarrow> bool" where
  "in_window t w q \<longleftrightarrow> fst q = t \<and> rl_window (snd q) = w"

definition admitted :: "tenant \<Rightarrow> int \<Rightarrow> ((tenant \<times> real) \<times> bool) list \<Rightarrow> nat" where
  "admitted t w answers = length (filter (\<lambda>(q, b). in_window t w q \<and> b) answers)"

text \<open>Redis answers every INCR.\<close>

definition incr_up :: "('r, 'x) redis_scheme \<Rightarrow> bool" where
  "incr_up R \<longleftrightarrow> (\<forall>k s. \<exists>n s'. rd_incr R k s = (Inr n, s'))"

lemma int_str_no_colon: "CHR '':'' \<notin> set (int_str w)"
proof
  assume "CHR '':'' \<in> set (int_str w)"
  then have "is_digit (CHR '':'') \<or> CHR '':'' = CHR ''-''"
    by (auto simp: int_str_def dest: nat_str_digits split: if_splits)
  then show False by (simp add: is_digit_def)
qed

lemma rl_key_inj [simp]: "rl_key t w = rl_key t' w' \<longleftrightarrow> t = t' \<and> w = w'"
  unfolding rl_key_def
  using append_sep_inj [of "CHR '':''" "int_str w" "int_str w'" t t'] int_str_no_colon
  by simp

lemma rl_allow_counts:
  assumes R: "redis_counter R" and up: "incr_up R" and d: "1 \<le> d"
    and a: "rl_allow (Some R) d t None now s = (b, s')"
    and key: "rd_get R (rl_key u w) s = Inr v"
  shows "\<exists>v'. rd_get R (rl_key u w) s' = Inr v' \<and>
     (if in_window u w (t, now) then counter_of v' = counter_of v + 1 \<and> (b \<longleftrightarrow> counter_of v' \<le> d)
      else counter_of v' = counter_of v)"
proof -
  let ?k = "rl_key t (rl_window now)"
  obtain n s1 where i: "rd_incr R ?k s = (Inr n, s1)" using up unfolding incr_up_def by blast
  then have f: "fst (rd_incr R ?k s) = Inr n" and s1: "snd (rd_incr R ?k s) = s1" by simp_all
  obtain x s2 where e: "rd_expire R ?k 60 s1 = (x, s2)" by fastforce
  then have s2: "s2 = snd (rd_expire R ?k 60 s1)" by simp
  have keep: "\<And>k. rd_get R k s2 = rd_get R k s1"
    unfolding s2 by (rule redis_counter_laws(4) [OF R])
  have s': "rd_get R (rl_key u w) s' = rd_get R (rl_key u w) s1 \<and> (b \<longleftrightarrow> n \<le> d)"
    using a i e d keep by (auto simp: rl_allow_def split: if_splits sum.splits)
  show ?thesis
  proof (cases "in_window u w (t, now)")
    case True
    then have k: "?k = rl_key u w" by (simp add: in_window_def)
    from redis_counter_laws(1) [OF R f] have
      "n = counter_of v + 1" "rd_get R (rl_key u w) s1 = Inr (Some (VInt n))"
      using key unfolding s1 by (auto simp: k)
    with s' True show ?thesis by (simp add: counter_of_def)
  next
    case False
    then have "rl_key u w \<noteq> ?k" by (auto simp: in_window_def)
    from redis_counter_laws(3) [OF R this, of s] s' key False show ?thesis
      unfolding s1 by auto
  qed
qed

lemma rl_run_admitted:
  assumes R: "redis_counter R" and up: "incr_up R" and d: "1 \<le> d"
    and key: "rd_get R (rl_key u w) s = Inr v" and c: "0 \<le> counter_of v"
  shows "int (admitted u w (rl_run R d qs s)) =
     min (int (length (filter (in_window u w) qs))) (max 0 (d - counter_of v))"
  using key c
proof (induction qs arbitrary: s v)
  case Nil
  then show ?case by (simp add: admitted_def)
next
  case (Cons q qs)
  obtain t now where q: "q = (t, now)" by (cases q)
  obtain b s' where a: "rl_allow (Some R) d t None now s = (b, s')" by fastforce
  from rl_allow_counts [OF R up d a Cons.prems(1)] obtain v' where
    v': "rd_get R (rl_key u w) s' = Inr v'" and
    eff: "if in_window u w (t, now) then counter_of v' = counter_of v + 1 \<and> (b \<longleftrightarrow> counter_of v' \<le> d)
          else counter_of v' = counter_of v" by blast
  from eff Cons.prems(2) have "0 \<le> counter_of v'" by (auto split: if_splits)
  from Cons.IH [OF v' this] eff Cons.prems(2) show ?case
    by (auto simp: q a admitted_def split: if_splits)
qed

subsection \<open>Readiness registry\<close>

text \<open>A registered check: its name and what calling it yields (a Boolean, or it raises).\<close>

type_synonym dep_check = "string \<times> bool res"

definition rr_register :: "string \<Rightarrow> bool res \<Rightarrow> dep_check list \<Rightarrow> dep_check list" where
  "rr_register name chk checks = checks @ [(name, chk)]"

definition check_healthy :: "bool res \<Rightarrow> bool" where
  "check_healthy r = (case r of Inl _ \<Rightarrow> False | Inr h \<Rightarrow> h)"

definition check_word :: "bool \<Rightarrow> string" where
  "check_word healthy = (if healthy then ''ok'' else ''unavailable'')"

definition rr_evaluate :: "dep_check list \<Rightarrow> bool \<times> (string \<times> string) list" where
  "rr_evaluate checks =
     foldl (\<lambda>(ok, results) (name, r).
              let healthy = check_healthy r
              in (ok \<and> healthy, dict_set name (check_word healthy) results))
           (True, []) checks"

lemma rr_evaluate_snoc:
  "rr_evaluate (cs @ [(n, r)]) =
     (fst (rr_evaluate cs) \<and> check_healthy r,
      dict_set n (check_word (check_healthy r)) (snd (rr_evaluate cs)))"
  by (simp add: rr_evaluate_def case_prod_beta Let_def)

lemma rr_evaluate_ok: "fst (rr_evaluate cs) \<longleftrightarrow> (\<forall>c\<in>set cs. check_healthy (snd c))"
proof (induction cs rule: rev_induct)
  case Nil
  then show ?case by (simp add: rr_evaluate_def)
next
  case (snoc c cs)
  then show ?case by (cases c) (auto simp: rr_evaluate_snoc)
qed

lemma rr_evaluate_results:
  "map_of (snd (rr_evaluate cs)) n =
     map_option (check_word \<circ> check_healthy) (map_of (rev cs) n)"
proof (induction cs rule: rev_induct)
  case Nil
  then show ?case by (simp add: rr_evaluate_def)
next
  case (snoc c cs)
  then show ?case by (cases c) (simp add: rr_evaluate_snoc)
qed

subsection \<open>Properties\<close>

text \<open>After any history of calls, a breaker with a positive threshold refuses a call exactly
  when at least \<open>threshold\<close> failures were recorded since the last success, the last of them less
  than \<open>reset\<close> seconds ago, and no call was admitted as a probe since that failure.\<close>

theorem breaker_allow_iff:
  assumes "0 < n"
  shows "fst (cb_allow now (foldl cb_step (new_breaker n r) es)) \<longleftrightarrow>
     trailing_failures (rev es) < n \<or> probed r (rev es) \<or> now - last_failure (rev es) \<ge> r"
proof -
  let ?b = "foldl cb_step (new_breaker n r) es"
  have r: "cb_reset ?b = r" by (simp add: new_breaker_def)
  have "cb_state ?b = CLOSED \<or> cb_state ?b = OPEN \<or> cb_state ?b = HALF_OPEN"
    by (cases "cb_state ?b") auto
  with cb_run_history [OF assms, of r es] r show ?thesis
    by (auto simp: cb_allow_def)
qed

theorem breaker_allow_iff_witness:
  "\<not> fst (cb_allow 40 (foldl cb_step (new_breaker 2 30) [Failure 10, Failure 12])) \<and>
   fst (cb_allow 42 (foldl cb_step (new_breaker 2 30) [Failure 10, Failure 12]))"
  using breaker_allow_iff [of 2 40 30 "[Failure 10, Failure 12]"]
    breaker_allow_iff [of 2 42 30 "[Failure 10, Failure 12]"] by simp

text \<open>C14: With Redis answering, a tenant whose window counter is still unset gets exactly the first
  \<open>default_per_min\<close> of its requests of that window through, whatever other requests (other
  tenants, other windows) are interleaved with them.\<close>

theorem limiter_window_exact:
  assumes "redis_counter R" and "incr_up R" and "1 \<le> d"
    and "rd_get R (rl_key t w) s = Inr None"
  shows "int (admitted t w (rl_run R d qs s)) = min (int (length (filter (in_window t w) qs))) d"
  using rl_run_admitted [OF assms(1-4), of qs] assms(3) by (simp add: counter_of_def)

lemma mem_incr_up: "incr_up mem_redis"
  by (simp add: incr_up_def mem_redis_def Let_def)

theorem limiter_window_exact_witness:
  "admitted ''a'' 0 (rl_run mem_redis 2 [(''a'', 1), (''b'', 2), (''a'', 3), (''a'', 59), (''a'', 60)] mem_empty) = 2"
proof -
  have "int (admitted ''a'' 0
          (rl_run mem_redis 2 [(''a'', 1), (''b'', 2), (''a'', 3), (''a'', 59), (''a'', 60)] mem_empty)) = 2"
    by (subst limiter_window_exact)
      (simp_all add: mem_incr_up mem_empty_def in_window_def rl_window_def, simp add: mem_redis_def)
  then show ?thesis by simp
qed

lemma check_healthy_iff: "check_healthy r \<longleftrightarrow> r = Inr True"
  by (cases r) (auto simp: check_healthy_def)

text \<open>The readiness probe reports ready exactly when every registered check answered true
  (a check that raises counts as false), and each name carries the word of its last check.\<close>

theorem readiness_evaluate_spec:
  "(fst (rr_evaluate cs) \<longleftrightarrow> list_all (\<lambda>c. snd c = Inr True) cs) \<and>
   map_of (snd (rr_evaluate cs)) n = map_option (check_word \<circ> check_healthy) (map_of (rev cs) n)"
  by (simp add: rr_evaluate_ok rr_evaluate_results check_healthy_iff list_all_iff)

end
