(* ===== verification/Tools.thy ===== *)
theory Tools
  imports PyVal
begin

text \<open>
  \<open>packages/acip_assistant/tools.py\<close>: the registry of agent tools with its audit trail, the
  gates of money-moving tools and the idempotency cache. A handler acts on the outside world
  \<open>'w\<close> and may raise.
\<close>

type_synonym 'w tool_fn = "tenant \<Rightarrow> py_dict \<Rightarrow> 'w \<Rightarrow> py_dict res \<times> 'w"

record 'w tool_spec =
  ts_name :: string
  ts_handler :: "'w tool_fn"
  ts_money_moving :: bool
  ts_enabled :: bool
  ts_requires_confirmation :: bool

record audit_entry =
  ae_tool :: string
  ae_tenant :: tenant
  ae_args :: py_dict
  ae_confirmed :: bool

record 'w tool_registry =
  tr_tools :: "(string \<times> 'w tool_spec) list"
  tr_audit :: "audit_entry list"
  tr_seen :: "(string \<times> py_dict) list"

definition empty_registry :: "'w tool_registry" where
  "empty_registry = \<lparr>tr_tools = [], tr_audit = [], tr_seen = []\<rparr>"

text \<open>The flag is \<open>get_settings().agent_actions_enabled\<close> at the time of the registration.\<close>

definition tool_register :: "bool \<Rightarrow> 'w tool_spec \<Rightarrow> 'w tool_registry \<Rightarrow> 'w tool_registry" where
  "tool_register agent_actions_enabled spec reg =
     (let spec1 = (if ts_money_moving spec
                   then spec\<lparr>ts_requires_confirmation := True, ts_enabled := agent_actions_enabled\<rparr>
                   else spec)
      in reg\<lparr>tr_tools := dict_set (ts_name spec1) spec1 (tr_tools reg)\<rparr>)"

definition tool_error :: "string \<Rightarrow> string \<Rightarrow> py_dict" where
  "tool_error err reason = [(''error'', VStr err), (''reason'', VStr reason)]"

record tool_call =
  tc_name :: string
  tc_tenant :: tenant
  tc_args :: py_dict
  tc_confirmed :: bool
  tc_permitted :: bool
  tc_key :: "string option"

definition tool_invoke ::
  "tool_call \<Rightarrow> 'w tool_registry \<times> 'w \<Rightarrow> py_dict res \<times> 'w tool_registry \<times> 'w" where
  "tool_invoke c rw =
     (let reg = fst rw; w = snd rw in
      case map_of (tr_tools reg) (tc_name c) of
        None \<Rightarrow> (Inr [(''error'', VStr ''unknown_tool'')], reg, w)
      | Some spec \<Rightarrow>
          let reg1 = reg\<lparr>tr_audit := tr_audit reg @
                 [\<lparr>ae_tool = tc_name c, ae_tenant = tc_tenant c, ae_args = tc_args c,
                   ae_confirmed = tc_confirmed c\<rparr>]\<rparr>;
              key = the_or [] (tc_key c)
          in if \<not> ts_enabled spec then
               (Inr (tool_error ''tool_disabled'' ''agent actions are off (enable in Phase 4)''), reg1, w)
             else if \<not> tc_permitted c then
               (Inr (tool_error ''forbidden'' ''tenant lacks permission for this tool''), reg1, w)
             else if ts_requires_confirmation spec \<and> \<not> tc_confirmed c then
               (Inr [(''status'', VStr ''confirmation_required''), (''tool'', VStr (tc_name c)),
                     (''message'', VStr ''explicit confirmation is required before executing this action'')],
                reg1, w)
             else if key \<noteq> [] \<and> map_of (tr_seen reg1) key \<noteq> None then
               (Inr (the (map_of (tr_seen reg1) key)), reg1, w)
             else
               (case ts_handler spec (tc_tenant c) (tc_args c) w of
                  (Inl e, w1) \<Rightarrow> (Inl e, reg1, w1)
                | (Inr result, w1) \<Rightarrow>
                    (Inr result,
                     (if key \<noteq> [] then reg1\<lparr>tr_seen := dict_set key result (tr_seen reg1)\<rparr> else reg1),
                     w1)))"

text \<open>The four declared tools: their handlers do not touch the outside world.\<close>

definition h_check_stock :: "'w tool_fn" where
  "h_check_stock t args w =
     (Inr [(''product_id'', dict_get args ''product_id''), (''in_stock'', VNone),
           (''note'', VStr ''wired to live data'')], w)"

definition h_order_lookup :: "'w tool_fn" where
  "h_order_lookup t args w =
     (Inr [(''order_id'', dict_get args ''order_id''), (''status'', VNone),
           (''note'', VStr ''wired to live data'')], w)"

definition h_payment_link :: "'w tool_fn" where
  "h_payment_link t args w =
     (Inr [(''payment_link'', VNone), (''amount'', dict_get args ''amount''),
           (''note'', VStr ''executed via PSP'')], w)"

definition h_apply_discount :: "'w tool_fn" where
  "h_apply_discount t args w =
     (Inr [(''applied'', VBool True), (''code'', dict_get args ''code''),
           (''note'', VStr ''executed in Phase 4'')], w)"

definition mk_tool :: "string \<Rightarrow> 'w tool_fn \<Rightarrow> bool \<Rightarrow> 'w tool_spec" where
  "mk_tool name h money =
     \<lparr>ts_name = name, ts_handler = h, ts_money_moving = money, ts_enabled = True,
      ts_requires_confirmation = False\<rparr>"

definition default_registry :: "bool \<Rightarrow> 'w tool_registry" where
  "default_registry flag =
     (let reg = tool_register flag (mk_tool ''check_stock'' h_check_stock False) empty_registry;
          reg = tool_register flag (mk_tool ''order_lookup'' h_order_lookup False) reg;
          reg = tool_register flag (mk_tool ''create_payment_link'' h_payment_link True) reg
      in tool_register flag (mk_tool ''apply_discount'' h_apply_discount True) reg)"

subsection \<open>The registry as a machine\<close>

datatype 'w tool_event = Register bool "'w tool_spec" | Invoke tool_call

fun tool_step :: "'w tool_registry \<times> 'w \<Rightarrow> 'w tool_event \<Rightarrow> 'w tool_registry \<times> 'w" where
  "tool_step (reg, w) (Register flag spec) = (tool_register flag spec reg, w)"
| "tool_step rw (Invoke c) = snd (tool_invoke c rw)"

text \<open>Every registered money-moving tool asks for a confirmation.\<close>

definition tool_inv :: "'w tool_registry \<times> 'w \<Rightarrow> bool" where
  "tool_inv rw \<longleftrightarrow>
     (\<forall>n spec. map_of (tr_tools (fst rw)) n = Some spec \<longrightarrow>
        ts_money_moving spec \<longrightarrow> ts_requires_confirmation spec)"

lemma tool_invoke_tools [simp]: "tr_tools (fst (snd (tool_invoke c rw))) = tr_tools (fst rw)"
  by (simp add: tool_invoke_def Let_def split: option.splits prod.splits sum.splits)

lemma tool_step_inv: "tool_inv rw \<Longrightarrow> tool_inv (tool_step rw e)"
  by (cases rw; cases e) (auto simp: tool_inv_def tool_register_def Let_def)

lemma tool_invoke_audit:
  "tr_audit (fst (snd (tool_invoke c rw))) =
     (if map_of (tr_tools (fst rw)) (tc_name c) = None then tr_audit (fst rw)
      else tr_audit (fst rw) @
        [\<lparr>ae_tool = tc_name c, ae_tenant = tc_tenant c, ae_args = tc_args c, ae_confirmed = tc_confirmed c\<rparr>])"
  by (simp add: tool_invoke_def Let_def split: option.splits prod.splits sum.splits)

lemma tool_step_audit:
  "length (tr_audit (fst rw)) \<le> length (tr_audit (fst (tool_step rw e)))"
  by (cases rw; cases e) (simp_all add: tool_invoke_audit tool_register_def Let_def)

interpretation tools: monotone_machine tool_step tool_inv "\<lambda>rw. length (tr_audit (fst rw))"
  by unfold_locales (rule tool_step_inv tool_step_audit, assumption?)+

subsection \<open>Properties\<close>

text \<open>C13: Whatever was registered and invoked before, an invocation of a money-moving tool that is
  disabled, not permitted or not confirmed changes nothing but the audit trail, to which it adds
  its entry: the handler does not run and no result is cached.\<close>

theorem money_tool_gated:
  assumes "tool_inv rw0" and "(reg, w) = foldl tool_step rw0 es"
    and "map_of (tr_tools reg) (tc_name c) = Some spec" and "ts_money_moving spec"
    and "\<not> (ts_enabled spec \<and> tc_permitted c \<and> tc_confirmed c)"
  shows "snd (tool_invoke c (reg, w)) =
     (reg\<lparr>tr_audit := tr_audit reg @
        [\<lparr>ae_tool = tc_name c, ae_tenant = tc_tenant c, ae_args = tc_args c, ae_confirmed = tc_confirmed c\<rparr>]\<rparr>, w)"
proof -
  have "tool_inv (reg, w)" unfolding assms(2) by (rule tools.run_inv [OF assms(1)])
  with assms(3,4) have "ts_requires_confirmation spec" by (auto simp: tool_inv_def)
  with assms(3,5) show ?thesis by (simp add: tool_invoke_def Let_def)
qed

definition link_call :: "bool \<Rightarrow> tool_call" where
  "link_call confirmed =
     \<lparr>tc_name = ''create_payment_link'', tc_tenant = ''t1'', tc_args = [(''amount'', VInt 5)],
      tc_confirmed = confirmed, tc_permitted = True, tc_key = Some ''k1''\<rparr>"

theorem money_tool_gated_witness:
  "snd (snd (tool_invoke (link_call False) (default_registry True, 0 :: nat))) = 0 \<and>
   tr_seen (fst (snd (tool_invoke (link_call False) (default_registry True, 0 :: nat)))) = []"
proof -
  let ?s = "mk_tool ''create_payment_link'' h_payment_link True\<lparr>ts_requires_confirmation := True,
              ts_enabled := True\<rparr> :: nat tool_spec"
  have inv: "tool_inv (default_registry True, 0 :: nat)"
    by (simp add: tool_inv_def default_registry_def tool_register_def mk_tool_def empty_registry_def Let_def)
  have get: "map_of (tr_tools (default_registry True)) (tc_name (link_call False)) = Some ?s"
    by (simp add: default_registry_def tool_register_def mk_tool_def empty_registry_def link_call_def Let_def)
  have "tr_seen (default_registry True :: nat tool_registry) = []"
    by (simp add: default_registry_def tool_register_def mk_tool_def empty_registry_def Let_def)
  then show ?thesis
    using money_tool_gated [OF inv, of "default_registry True" 0 "[]" "link_call False" ?s] get
    by (simp add: mk_tool_def link_call_def)
qed

lemma tool_seen_kept:
  "map_of (tr_seen (fst rw)) k = Some r \<Longrightarrow> k \<noteq> [] \<Longrightarrow>
   map_of (tr_seen (fst (tool_step rw e))) k = Some r"
  by (cases rw; cases e)
    (auto simp: tool_register_def tool_invoke_def Let_def split: option.splits prod.splits sum.splits)

lemma tool_seen_run:
  "map_of (tr_seen (fst rw)) k = Some r \<Longrightarrow> k \<noteq> [] \<Longrightarrow>
   map_of (tr_seen (fst (foldl tool_step rw es))) k = Some r"
  by (induction es arbitrary: rw) (simp_all add: tool_seen_kept)

text \<open>The gates a call has to pass before its handler may run.\<close>

definition tool_passes :: "'w tool_registry \<Rightarrow> tool_call \<Rightarrow> bool" where
  "tool_passes reg c \<longleftrightarrow>
     (case map_of (tr_tools reg) (tc_name c) of
        None \<Rightarrow> False
      | Some spec \<Rightarrow> ts_enabled spec \<and> tc_permitted c \<and> (ts_requires_confirmation spec \<longrightarrow> tc_confirmed c))"

lemma tool_passes_seen:
  assumes "tool_passes (fst rw) c" "tc_key c = Some k" "k \<noteq> []" "map_of (tr_seen (fst rw)) k = Some r"
  shows "fst (tool_invoke c rw) = Inr r \<and> snd (snd (tool_invoke c rw)) = snd rw"
  using assms by (auto simp: tool_passes_def tool_invoke_def Let_def split: option.splits)

lemma tool_result_cached:
  assumes "tool_passes (fst rw) c" "tc_key c = Some k" "k \<noteq> []" "fst (tool_invoke c rw) = Inr r"
  shows "map_of (tr_seen (fst (snd (tool_invoke c rw)))) k = Some r"
  using assms
  by (auto simp: tool_passes_def tool_invoke_def Let_def split: option.splits prod.splits sum.splits if_splits)

text \<open>A call with a non-empty idempotency key that ran its handler and returned a result is not
  run again: every later call with that key that passes the gates returns the same result and
  leaves the world alone, whatever its arguments, its tool and its tenant.\<close>

theorem tool_idempotent:
  assumes "tool_passes (fst rw) c" and "tc_key c = Some k" and "k \<noteq> []"
    and "fst (tool_invoke c rw) = Inr r"
    and "rw' = foldl tool_step (snd (tool_invoke c rw)) es"
    and "tool_passes (fst rw') c'" and "tc_key c' = Some k"
  shows "fst (tool_invoke c' rw') = Inr r \<and> snd (snd (tool_invoke c' rw')) = snd rw'"
  using tool_passes_seen [OF assms(6,7,3)] tool_seen_run [OF tool_result_cached [OF assms(1-4)] assms(3), of es]
  unfolding assms(5) by blast

text \<open>The key is not scoped: the discount call of tenant \<open>t2\<close> gets the payment link of \<open>t1\<close>.\<close>

definition discount_call :: tool_call where
  "discount_call =
     \<lparr>tc_name = ''apply_discount'', tc_tenant = ''t2'', tc_args = [(''code'', VStr ''x'')],
      tc_confirmed = True, tc_permitted = True, tc_key = Some ''k1''\<rparr>"

theorem tool_idempotent_witness:
  "fst (tool_invoke discount_call (snd (tool_invoke (link_call True) (default_registry True, ())))) =
     Inr [(''payment_link'', VNone), (''amount'', VInt 5), (''note'', VStr ''executed via PSP'')]"
proof -
  let ?rw = "(default_registry True, ()) :: unit tool_registry \<times> unit"
  note d = default_registry_def tool_register_def mk_tool_def empty_registry_def Let_def
  have 1: "tool_passes (fst ?rw) (link_call True)"
    by (simp add: tool_passes_def d link_call_def)
  have 2: "fst (tool_invoke (link_call True) ?rw) =
     Inr [(''payment_link'', VNone), (''amount'', VInt 5), (''note'', VStr ''executed via PSP'')]"
    by (simp add: tool_invoke_def d link_call_def h_payment_link_def dict_get_def)
  have 3: "tool_passes (fst (snd (tool_invoke (link_call True) ?rw))) discount_call"
    by (simp add: tool_passes_def, simp add: d discount_call_def)
  show ?thesis
    using tool_idempotent [OF 1 _ _ 2, of "''k1''" _ "[]" discount_call] 3
    by (simp add: link_call_def discount_call_def)
qed

end
