(* ===== verification/Db.thy ===== *)
theory Db
  imports PyVal
begin

text \<open>
  The control-plane tables of \<open>db/migrations\<close> that the billing components read and write, as one
  record of lists of rows (newest row last), \<open>NUMERIC\<close> columns with the rounding of their scale,
  Python's \<open>round\<close>, the best-effort audit writer of \<open>packages/acip_core/audit.py\<close> and the reply
  of a handler whose database is not reachable. Row identifiers generated by the database and
  the clock are arguments of the operations.
\<close>

subsection \<open>Rounding\<close>

text \<open>\<open>NUMERIC(_, d)\<close> rounds half away from zero; Python's \<open>round(x, d)\<close> rounds half to even.\<close>

definition pg_numeric :: "nat \<Rightarrow> real \<Rightarrow> real" where
  "pg_numeric d x =
     (if 0 \<le> x then of_int (floor (x * 10 ^ d + 1 / 2)) / 10 ^ d
      else - of_int (floor (- x * 10 ^ d + 1 / 2)) / 10 ^ d)"

definition round_even :: "real \<Rightarrow> int" where
  "round_even x =
     (let f = floor x; r = x - of_int f
      in if r < 1 / 2 then f else if 1 / 2 < r then f + 1 else if even f then f else f + 1)"

definition py_round :: "nat \<Rightarrow> real \<Rightarrow> real" where
  "py_round d x = of_int (round_even (x * 10 ^ d)) / 10 ^ d"

lemma pg_numeric_0 [simp]: "pg_numeric d 0 = 0"
proof -
  have "floor (1 / 2 :: real) = 0" by simp
  then show ?thesis by (simp add: pg_numeric_def)
qed

lemma floor_half_close: "\<bar>of_int (floor (y + 1 / 2)) - (y :: real)\<bar> \<le> 1 / 2"
  by linarith

lemma pg_numeric_close: "\<bar>pg_numeric d x - x\<bar> \<le> 1 / (2 * 10 ^ d)"
proof -
  have scale: "\<bar>of_int k / 10 ^ d - y\<bar> \<le> 1 / (2 * 10 ^ d)"
    if "\<bar>of_int k - y * 10 ^ d\<bar> \<le> 1 / 2" for k and y :: real
  proof -
    have "of_int k / 10 ^ d - y = (of_int k - y * 10 ^ d) / 10 ^ d" by (simp add: field_simps)
    then have "\<bar>of_int k / 10 ^ d - y\<bar> = \<bar>of_int k - y * 10 ^ d\<bar> / 10 ^ d" by simp
    also have "\<dots> \<le> (1 / 2) / 10 ^ d" using that by (rule divide_right_mono) simp
    finally show ?thesis by simp
  qed
  show ?thesis
  proof (cases "0 \<le> x")
    case True
    then show ?thesis
      using scale [of "floor (x * 10 ^ d + 1 / 2)" x] floor_half_close [of "x * 10 ^ d"]
      by (simp add: pg_numeric_def)
  next
    case False
    then show ?thesis
      using scale [of "floor (- x * 10 ^ d + 1 / 2)" "- x"] floor_half_close [of "- x * 10 ^ d"]
      by (simp add: pg_numeric_def)
  qed
qed

lemma pg_numeric_nonneg: "0 \<le> x \<Longrightarrow> 0 \<le> pg_numeric d x"
  by (simp add: pg_numeric_def)

lemma pg_numeric_neg: "pg_numeric d (- x) = - pg_numeric d x"
  by (cases "x = 0") (auto simp: pg_numeric_def)

lemma pg_numeric_nonpos: "x \<le> 0 \<Longrightarrow> pg_numeric d x \<le> 0"
  using pg_numeric_nonneg [of "- x" d] by (simp add: pg_numeric_neg)

lemma round_even_nonneg: "0 \<le> x \<Longrightarrow> 0 \<le> round_even x"
  by (auto simp: round_even_def Let_def)

lemma py_round_nonneg: "0 \<le> x \<Longrightarrow> 0 \<le> py_round d x"
  by (simp add: py_round_def round_even_nonneg)

subsection \<open>Rows\<close>

record plan_row =
  pl_id :: string
  pl_code :: string
  pl_name :: string
  pl_price :: real
  pl_currency :: string
  pl_credits :: real
  pl_cap :: real
  pl_rate :: int
  pl_public :: bool

record tenant_row =
  tn_id :: tenant
  tn_name :: string
  tn_plan :: "string option"
  tn_status :: string
  tn_notes :: "string option"
  tn_slug :: string
  tn_settings :: py_dict
  tn_tracking :: bool

record sub_row =
  sb_tenant :: tenant
  sb_plan :: string
  sb_status :: string
  sb_period_end :: "real option"
  sb_cancel :: bool

record order_row =
  od_id :: string
  od_tenant :: tenant
  od_plan :: "string option"
  od_amount :: real
  od_currency :: string
  od_status :: string
  od_provider :: string
  od_ref :: "string option"
  od_paid_at :: "real option"
  od_kind :: string
  od_credits :: real

record invoice_row =
  iv_number :: nat
  iv_tenant :: tenant
  iv_order :: string
  iv_description :: string
  iv_amount :: real
  iv_currency :: string
  iv_status :: string

record ledger_row =
  lg_tenant :: tenant
  lg_delta :: real
  lg_rung :: string
  lg_reason :: string
  lg_at :: real

record usage_row =
  us_tenant :: tenant
  us_route :: string
  us_rung :: string
  us_tokens_in :: int
  us_tokens_out :: int
  us_cache_outcome :: string
  us_latency_ms :: "int option"
  us_cost :: real
  us_provider :: "string option"
  us_model :: "string option"
  us_provider_cost :: real

record audit_row =
  au_actor :: string
  au_action :: string
  au_tenant :: "tenant option"
  au_detail :: py_dict

record db =
  plans :: "plan_row list"
  tenants :: "tenant_row list"
  subs :: "sub_row list"
  orders :: "order_row list"
  invoices :: "invoice_row list"
  invoice_seq :: nat
  ledger :: "ledger_row list"
  usage_events :: "usage_row list"
  audit_log :: "audit_row list"

definition empty_db :: db where
  "empty_db = \<lparr>plans = [], tenants = [], subs = [], orders = [], invoices = [], invoice_seq = 0, ledger = [],
     usage_events = [], audit_log = []\<rparr>"

definition plan_by_code :: "string \<Rightarrow> db \<Rightarrow> plan_row option" where
  "plan_by_code c d = find (\<lambda>p. pl_code p = c) (plans d)"

definition plan_by_id :: "string \<Rightarrow> db \<Rightarrow> plan_row option" where
  "plan_by_id i d = find (\<lambda>p. pl_id p = i) (plans d)"

definition tenant_exists :: "tenant \<Rightarrow> db \<Rightarrow> bool" where
  "tenant_exists t d \<longleftrightarrow> (\<exists>r\<in>set (tenants d). tn_id r = t)"

text \<open>\<open>INSERT INTO credit_ledger\<close>: the column is \<open>NUMERIC(14, 4)\<close>.\<close>

definition ledger_insert :: "tenant \<Rightarrow> real \<Rightarrow> string \<Rightarrow> string \<Rightarrow> real \<Rightarrow> db \<Rightarrow> db" where
  "ledger_insert t delta rung reason now d =
     d\<lparr>ledger := ledger d @
        [\<lparr>lg_tenant = t, lg_delta = pg_numeric 4 delta, lg_rung = rung, lg_reason = reason, lg_at = now\<rparr>]\<rparr>"

lemma ledger_insert_frame [simp]:
  "plans (ledger_insert t x r s n d) = plans d" "tenants (ledger_insert t x r s n d) = tenants d"
  "subs (ledger_insert t x r s n d) = subs d" "orders (ledger_insert t x r s n d) = orders d"
  "invoices (ledger_insert t x r s n d) = invoices d"
  "invoice_seq (ledger_insert t x r s n d) = invoice_seq d"
  "usage_events (ledger_insert t x r s n d) = usage_events d"
  "audit_log (ledger_insert t x r s n d) = audit_log d"
  by (simp_all add: ledger_insert_def)

text \<open>\<open>uuid.UUID(value)\<close> accepts 32 hexadecimal digits after the prefixes \<open>urn:\<close> and \<open>uuid:\<close>, the
  braces and the hyphens are removed (\<open>_valid_uuid\<close>, \<open>admin_common.py\<close>).\<close>

definition is_hex_digit :: "char \<Rightarrow> bool" where
  "is_hex_digit c \<longleftrightarrow> is_digit c \<or> c \<in> set ''abcdefABCDEF''"

fun remove_str :: "string \<Rightarrow> string \<Rightarrow> string" where
  "remove_str p [] = []"
| "remove_str p (c # cs) =
     (if p \<noteq> [] \<and> prefix p (c # cs) then remove_str p (drop (length p - 1) cs) else c # remove_str p cs)"

definition strip_chars :: "string \<Rightarrow> string \<Rightarrow> string" where
  "strip_chars cs s = rev (dropWhile (\<lambda>c. c \<in> set cs) (rev (dropWhile (\<lambda>c. c \<in> set cs) s)))"

definition valid_uuid :: "string \<Rightarrow> bool" where
  "valid_uuid s =
     (let h = filter (\<lambda>c. c \<noteq> CHR ''-'') (strip_chars ''{}'' (remove_str ''uuid:'' (remove_str ''urn:'' s)))
      in length h = 32 \<and> list_all is_hex_digit h)"

subsection \<open>Audit log\<close>

text \<open>\<open>audit(...)\<close> never raises: without a reachable database nothing is written.\<close>

definition audit ::
  "pool \<Rightarrow> string \<Rightarrow> string \<Rightarrow> tenant option \<Rightarrow> py_dict \<Rightarrow> db \<Rightarrow> db" where
  "audit p actor action t detail d =
     (if p = PgUp then d\<lparr>audit_log := audit_log d @
        [\<lparr>au_actor = actor, au_action = action, au_tenant = t, au_detail = detail\<rparr>]\<rparr> else d)"

lemma audit_frame [simp]:
  "plans (audit p a b t e d) = plans d" "tenants (audit p a b t e d) = tenants d"
  "subs (audit p a b t e d) = subs d" "orders (audit p a b t e d) = orders d"
  "invoice_seq (audit p a b t e d) = invoice_seq d"
  "invoices (audit p a b t e d) = invoices d" "ledger (audit p a b t e d) = ledger d"
  "usage_events (audit p a b t e d) = usage_events d"
  by (simp_all add: audit_def)

text \<open>A handler that does not catch database errors: the exception handler of the application
  (\<open>unhandled_exception_handler\<close>, \<open>packages/acip_core/errors.py\<close>) answers 500.\<close>

definition with_pg :: "pool \<Rightarrow> 'd \<Rightarrow> 'a reply \<times> 'd \<Rightarrow> 'a reply \<times> 'd" where
  "with_pg p d r = (if p = PgUp then r else (Err 500 ''internal_error'', d))"

lemma with_pg_up [simp]: "with_pg PgUp d r = r"
  by (simp add: with_pg_def)

text \<open>A library function with its branch for an absent pool, and its exception for one that is down.\<close>

definition pg_call :: "pool \<Rightarrow> 'a \<Rightarrow> 'd \<Rightarrow> 'a \<times> 'd \<Rightarrow> 'a res \<times> 'd" where
  "pg_call p none d r =
     (case p of NoPool \<Rightarrow> (Inr none, d) | PgDown \<Rightarrow> (Inl (Exn ''PostgresError''), d)
      | PgUp \<Rightarrow> (Inr (fst r), snd r))"

lemma pg_call_simps [simp]:
  "pg_call PgUp none d r = (Inr (fst r), snd r)" "pg_call NoPool none d r = (Inr none, d)"
  "pg_call PgDown none d r = (Inl (Exn ''PostgresError''), d)"
  by (simp_all add: pg_call_def)

end
