(* ===== verification/Pricing.thy ===== *)
theory Pricing
  imports PyVal
begin

text \<open>
  \<open>packages/acip_billing/pricing.py\<close>: provider cost from a price sheet, tenant credits from a
  cost, and the charge of one turn on every rung. Rungs are the string values of \<open>Rung\<close>.
\<close>

record model_price =
  mp_provider :: string
  mp_model :: string
  mp_input :: real
  mp_output :: real

record pricing_config =
  usd_per_credit :: real
  margin_percent :: real
  search_credits :: real
  local_input :: real
  local_output :: real

definition default_pricing :: pricing_config where
  "default_pricing =
     \<lparr>usd_per_credit = 1 / 10000, margin_percent = 30, search_credits = 1 / 100,
      local_input = 0, local_output = 0\<rparr>"

definition fallback_rung_credits :: "(string \<times> real) list" where
  "fallback_rung_credits =
     [(''cache'', 0), (''rule'', 0), (''search'', 1 / 100), (''local'', 1 / 10), (''frontier'', 1)]"

definition provider_cost_usd :: "model_price \<Rightarrow> int \<Rightarrow> int \<Rightarrow> real" where
  "provider_cost_usd price tokens_in tokens_out =
     (of_int (max tokens_in 0) * mp_input price + of_int (max tokens_out 0) * mp_output price) / 1000000"

definition credits_from_cost :: "real \<Rightarrow> pricing_config \<Rightarrow> real" where
  "credits_from_cost cost_usd cfg =
     (if cost_usd \<le> 0 \<or> usd_per_credit cfg \<le> 0 then 0
      else cost_usd * (1 + margin_percent cfg / 100) / usd_per_credit cfg)"

text \<open>The result is \<open>(credits_charged, provider_cost_usd)\<close>.\<close>

definition charge_for_turn ::
  "string \<Rightarrow> pricing_config \<Rightarrow> model_price option \<Rightarrow> int \<Rightarrow> int \<Rightarrow> real \<times> real" where
  "charge_for_turn rung cfg price tokens_in tokens_out =
     (if rung = ''cache'' \<or> rung = ''rule'' then (0, 0)
      else if rung = ''search'' then (search_credits cfg, 0)
      else if rung = ''local'' then
        (let local_price = \<lparr>mp_provider = ''local'', mp_model = '''', mp_input = local_input cfg,
                            mp_output = local_output cfg\<rparr>;
             cost = provider_cost_usd local_price tokens_in tokens_out
         in if cost \<le> 0 then (the (map_of fallback_rung_credits ''local''), 0)
            else (credits_from_cost cost cfg, cost))
      else case price of
          Some pr \<Rightarrow>
            if mp_input pr > 0 \<or> mp_output pr > 0 then
              (let cost = provider_cost_usd pr tokens_in tokens_out in (credits_from_cost cost cfg, cost))
            else (the_or (the (map_of fallback_rung_credits ''frontier'')) (map_of fallback_rung_credits rung), 0)
        | None \<Rightarrow>
            (the_or (the (map_of fallback_rung_credits ''frontier'')) (map_of fallback_rung_credits rung), 0))"

text \<open>The \<open>pricing_settings\<close> row holds the same five numbers.\<close>

definition parse_pricing_row :: "pricing_config option \<Rightarrow> pricing_config" where
  "parse_pricing_row row = the_or default_pricing row"

subsection \<open>Lemmas\<close>

text \<open>The knobs an operator can store without inverting the prices.\<close>

definition cfg_ok :: "pricing_config \<Rightarrow> bool" where
  "cfg_ok cfg \<longleftrightarrow> 0 < usd_per_credit cfg \<and> 0 \<le> margin_percent cfg \<and> 0 \<le> search_credits cfg \<and>
     0 \<le> local_input cfg \<and> 0 \<le> local_output cfg"

definition sheet_ok :: "model_price option \<Rightarrow> bool" where
  "sheet_ok price \<longleftrightarrow> (\<forall>pr. price = Some pr \<longrightarrow> 0 \<le> mp_input pr \<and> 0 \<le> mp_output pr)"

lemma default_pricing_ok [simp]: "cfg_ok default_pricing"
  by (simp add: cfg_ok_def default_pricing_def)

lemma provider_cost_nonneg:
  "0 \<le> mp_input p \<Longrightarrow> 0 \<le> mp_output p \<Longrightarrow> 0 \<le> provider_cost_usd p i j"
  by (simp add: provider_cost_usd_def)

lemma provider_cost_mono:
  assumes "0 \<le> mp_input p" "0 \<le> mp_output p" "i \<le> i'" "j \<le> j'"
  shows "provider_cost_usd p i j \<le> provider_cost_usd p i' j'"
proof -
  have "of_int (max i 0) * mp_input p \<le> of_int (max i' 0) * mp_input p"
    by (rule mult_right_mono) (use assms in auto)
  moreover have "of_int (max j 0) * mp_output p \<le> of_int (max j' 0) * mp_output p"
    by (rule mult_right_mono) (use assms in auto)
  ultimately show ?thesis by (simp add: provider_cost_usd_def divide_right_mono)
qed

lemma credits_cover_cost:
  assumes "cfg_ok cfg"
  shows "0 \<le> credits_from_cost c cfg \<and> c \<le> credits_from_cost c cfg * usd_per_credit cfg"
proof (cases "c \<le> 0")
  case True
  then show ?thesis using assms by (simp add: credits_from_cost_def)
next
  case False
  have "c * 1 \<le> c * (1 + margin_percent cfg / 100)"
    by (rule mult_left_mono) (use False assms in \<open>auto simp: cfg_ok_def\<close>)
  with False assms show ?thesis
    by (auto simp: credits_from_cost_def cfg_ok_def)
qed

lemma fallback_nonneg: "0 \<le> the_or (the (map_of fallback_rung_credits ''frontier'')) (map_of fallback_rung_credits rung)"
  by (simp add: fallback_rung_credits_def)

subsection \<open>Properties\<close>

text \<open>C7: Under a configuration with a positive credit value and no negative knob, and price sheets
  without negative prices, no turn is sold below cost: the credits charged are non-negative and
  worth at least the provider cost recorded beside them.\<close>

theorem turn_never_below_cost:
  assumes "cfg_ok cfg" and "sheet_ok price"
    and "charge_for_turn rung cfg price ti to = (credits, cost)"
  shows "0 \<le> credits \<and> 0 \<le> cost \<and> cost \<le> credits * usd_per_credit cfg"
proof -
  let ?lp = "\<lparr>mp_provider = ''local'', mp_model = '''', mp_input = local_input cfg, mp_output = local_output cfg\<rparr>"
  have l: "0 \<le> provider_cost_usd ?lp ti to"
    using assms(1) by (intro provider_cost_nonneg) (simp_all add: cfg_ok_def)
  have s: "0 \<le> provider_cost_usd pr ti to" if "price = Some pr" for pr
    using assms(2) that by (intro provider_cost_nonneg) (simp_all add: sheet_ok_def)
  have u: "0 \<le> usd_per_credit cfg" "0 \<le> search_credits cfg" using assms(1) by (simp_all add: cfg_ok_def)
  show ?thesis
    using assms(3) l s u credits_cover_cost [OF assms(1)] fallback_nonneg [of rung]
    unfolding charge_for_turn_def Let_def
    by (auto simp: fallback_rung_credits_def split: if_splits option.splits)
qed

theorem turn_never_below_cost_witness:
  "charge_for_turn ''frontier'' default_pricing
      (Some \<lparr>mp_provider = ''openai'', mp_model = ''m'', mp_input = 2, mp_output = 8\<rparr>) 1000 500 = (78, 6 / 1000) \<and>
   (6 / 1000 :: real) \<le> 78 * usd_per_credit default_pricing"
proof -
  have 1: "charge_for_turn ''frontier'' default_pricing
      (Some \<lparr>mp_provider = ''openai'', mp_model = ''m'', mp_input = 2, mp_output = 8\<rparr>) 1000 500 = (78, 6 / 1000)"
    by (simp add: charge_for_turn_def default_pricing_def provider_cost_usd_def credits_from_cost_def Let_def)
  have 2: "sheet_ok (Some \<lparr>mp_provider = ''openai'', mp_model = ''m'', mp_input = 2, mp_output = 8\<rparr>)"
    by (simp add: sheet_ok_def)
  show ?thesis using 1 turn_never_below_cost [OF default_pricing_ok 2 1] by simp
qed

end
