(* ===== verification/Ledger.thy ===== *)
theory Ledger
  imports Db Pricing
begin

text \<open>
  The credit ledger: \<open>packages/acip_billing/ledger.py\<close>, the usage records of
  \<open>packages/acip_cache/metering.py\<close>, the meter and the pricer of \<open>services/api/runtime.py\<close>, the
  manual adjustment of \<open>admin_tenant_ops.py\<close> and the signup grant of \<open>auth.py\<close>. The
  ledger is append-only; every reading of it is a sum over one tenant's rows.
\<close>

subsection \<open>Operations\<close>

definition record_charge :: "pool \<Rightarrow> tenant \<Rightarrow> string \<Rightarrow> real \<Rightarrow> string \<Rightarrow> real \<Rightarrow> db \<Rightarrow> db" where
  "record_charge p t rung cost reason now d =
     (if p = NoPool \<or> cost \<le> 0 then d
      else if p = PgDown then d
      else ledger_insert t (- \<bar>cost\<bar>) rung reason now d)"

definition tenant_rows :: "tenant \<Rightarrow> db \<Rightarrow> ledger_row list" where
  "tenant_rows t d = filter (\<lambda>r. lg_tenant r = t) (ledger d)"

definition sum_delta :: "ledger_row list \<Rightarrow> real" where
  "sum_delta rows = sum_list (map lg_delta rows)"

definition ledger_balance :: "pool \<Rightarrow> tenant \<Rightarrow> db \<Rightarrow> real" where
  "ledger_balance p t d = (if p = PgUp then sum_delta (tenant_rows t d) else 0)"

record plan_status =
  ps_spent :: real
  ps_cap :: "real option"
  ps_within :: bool
  ps_balance :: real

definition tenant_cap :: "tenant \<Rightarrow> db \<Rightarrow> real option" where
  "tenant_cap t d =
     (case find (\<lambda>r. tn_id r = t) (tenants d) of
        None \<Rightarrow> None
      | Some r \<Rightarrow> (case tn_plan r of
                    None \<Rightarrow> None
                  | Some i \<Rightarrow> map_option pl_cap (plan_by_id i d)))"

definition month_spent :: "(real \<Rightarrow> real) \<Rightarrow> real \<Rightarrow> tenant \<Rightarrow> db \<Rightarrow> real" where
  "month_spent trunc_month now t d =
     - sum_delta (filter (\<lambda>r. lg_delta r < 0 \<and> trunc_month now \<le> lg_at r) (tenant_rows t d))"

definition plan_status :: "pool \<Rightarrow> (real \<Rightarrow> real) \<Rightarrow> real \<Rightarrow> tenant \<Rightarrow> db \<Rightarrow> plan_status" where
  "plan_status p trunc_month now t d =
     (if p = NoPool then \<lparr>ps_spent = 0, ps_cap = None, ps_within = True, ps_balance = 0\<rparr>
      else
        let cap = (if p = PgUp then tenant_cap t d else None);
            spent = (if p = PgUp then month_spent trunc_month now t d else 0);
            wallet = ledger_balance p t d;
            ok = (case cap of None \<Rightarrow> True | Some c \<Rightarrow> spent \<le> c)
        in \<lparr>ps_spent = spent, ps_cap = cap, ps_within = ok, ps_balance = wallet\<rparr>)"

text \<open>\<open>(used, granted)\<close>.\<close>

definition usage_summary :: "pool \<Rightarrow> tenant \<Rightarrow> db \<Rightarrow> real \<times> real" where
  "usage_summary p t d =
     (if p = PgUp then
        (- sum_delta (filter (\<lambda>r. lg_delta r < 0) (tenant_rows t d)),
         sum_delta (filter (\<lambda>r. lg_delta r > 0) (tenant_rows t d)))
      else (0, 0))"

text \<open>\<open>usage_events.cost\<close> and \<open>provider_cost\<close> are \<open>NUMERIC\<close> columns; an empty name becomes NULL.\<close>

definition opt_str :: "string \<Rightarrow> string option" where
  "opt_str s = (if s = [] then None else Some s)"

record usage_args =
  ua_route :: string
  ua_rung :: string
  ua_tokens_in :: int
  ua_tokens_out :: int
  ua_cache_outcome :: string
  ua_latency_ms :: "int option"
  ua_cost :: real
  ua_provider :: string
  ua_model :: string
  ua_provider_cost :: real

definition record_usage :: "pool \<Rightarrow> tenant \<Rightarrow> usage_args \<Rightarrow> db \<Rightarrow> db" where
  "record_usage p t a d =
     (if p = PgUp then d\<lparr>usage_events := usage_events d @
        [\<lparr>us_tenant = t, us_route = ua_route a, us_rung = ua_rung a, us_tokens_in = ua_tokens_in a,
          us_tokens_out = ua_tokens_out a, us_cache_outcome = ua_cache_outcome a,
          us_latency_ms = ua_latency_ms a, us_cost = pg_numeric 6 (ua_cost a),
          us_provider = opt_str (ua_provider a), us_model = opt_str (ua_model a),
          us_provider_cost = pg_numeric 8 (ua_provider_cost a)\<rparr>]\<rparr> else d)"

text \<open>\<open>_meter\<close>: the usage record, then the charge.\<close>

definition meter :: "pool \<Rightarrow> tenant \<Rightarrow> usage_args \<Rightarrow> real \<Rightarrow> db \<Rightarrow> db" where
  "meter p t a now d =
     (let d1 = record_usage p t a d
      in if ua_cost a > 0 then record_charge p t (ua_rung a) (ua_cost a) ''turn'' now d1 else d1)"

text \<open>\<open>_pricer\<close>: the registry supplies the configuration and the sheet of \<open>(provider, model)\<close>.\<close>

definition pricer ::
  "pricing_config \<Rightarrow> (string \<Rightarrow> string \<Rightarrow> model_price option) \<Rightarrow> string \<Rightarrow> string \<Rightarrow> string \<Rightarrow> int \<Rightarrow> int
     \<Rightarrow> real \<times> real" where
  "pricer cfg price_for rung provider model ti to =
     charge_for_turn rung cfg (if provider \<noteq> [] \<and> model \<noteq> [] then price_for provider model else None) ti to"

text \<open>\<open>POST /admin/tenants/{id}/credits\<close>; the guards of the admin plane are Booleans here.\<close>

definition adjust_tenant_credits ::
  "(pyv \<Rightarrow> string) \<Rightarrow> bool \<Rightarrow> bool \<Rightarrow> pool \<Rightarrow> real \<Rightarrow> tenant \<Rightarrow> py_dict \<Rightarrow> db \<Rightarrow> (real \<times> real) reply \<times> db" where
  "adjust_tenant_credits repr admin_ok rate_ok p now t payload d =
     (if \<not> admin_ok then (Err 401 ''unauthorized'', d)
      else if \<not> valid_uuid t then (Err 404 ''not_found'', d)
      else if \<not> rate_ok then (Err 429 ''rate_limited'', d)
      else
        let delta = or_else (py_float (dict_get_or payload ''delta'' (VInt 0))) 0 in
        if delta = 0 then (Err 422 ''invalid_request'', d)
        else
          let r0 = py_strip (py_str repr (dict_get_or payload ''reason'' (VStr [])));
              reason = (if r0 = [] then ''manual adjustment'' else r0)
          in with_pg p d
               (if \<not> tenant_exists t d then (Err 404 ''not_found'', d)
                else
                  let d1 = ledger_insert t delta ''manual'' reason now d;
                      d2 = audit p ''operator'' ''tenant.credit_adjust'' (Some t)
                             [(''delta'', VNum delta), (''reason'', VStr reason)] d1
                  in (Ok (usage_summary p t d2), d2)))"

text \<open>\<open>_grant_signup_credit\<close>: the policy row is \<open>(auto_grant_enabled, signup_credits)\<close>.\<close>

definition grant_signup_credit :: "(bool \<times> real) option \<Rightarrow> tenant \<Rightarrow> real \<Rightarrow> db \<Rightarrow> db" where
  "grant_signup_credit policy t now d =
     (case policy of
        Some (enabled, _) \<Rightarrow> if \<not> enabled then d else
          (let amount = snd (the policy) in if amount \<le> 0 then d
           else ledger_insert t amount ''grant'' ''signup_bonus'' now d)
      | None \<Rightarrow> d)"

subsection \<open>Sums over a ledger\<close>

lemma sum_delta_simps [simp]:
  "sum_delta [] = 0" "sum_delta (r # rs) = lg_delta r + sum_delta rs"
  "sum_delta (rs @ rs') = sum_delta rs + sum_delta rs'"
  by (simp_all add: sum_delta_def)

lemma tenant_rows_insert [simp]:
  "tenant_rows u (ledger_insert t x r s n d) =
     tenant_rows u d @ (if u = t then [\<lparr>lg_tenant = t, lg_delta = pg_numeric 4 x, lg_rung = r, lg_reason = s, lg_at = n\<rparr>] else [])"
  by (simp add: tenant_rows_def ledger_insert_def)

lemma tenant_rows_frame [simp]:
  "tenant_rows t (audit p a b u e d) = tenant_rows t d"
  "tenant_rows t (record_usage p w ua d) = tenant_rows t d"
  by (simp_all add: tenant_rows_def record_usage_def)

lemma sum_delta_split:
  "sum_delta rs = sum_delta (filter (\<lambda>r. lg_delta r > 0) rs) + sum_delta (filter (\<lambda>r. lg_delta r < 0) rs)"
  by (induction rs) auto

lemma sum_delta_nonpos: "(\<And>r. r \<in> set rs \<Longrightarrow> lg_delta r \<le> 0) \<Longrightarrow> sum_delta rs \<le> 0"
  by (induction rs) (simp_all add: add_nonpos_nonpos)

lemma sum_delta_filter_mono:
  assumes "\<And>r. r \<in> set rs \<Longrightarrow> P r \<Longrightarrow> Q r" "\<And>r. r \<in> set rs \<Longrightarrow> Q r \<Longrightarrow> lg_delta r \<le> 0"
  shows "sum_delta (filter Q rs) \<le> sum_delta (filter P rs)"
  using assms
proof (induction rs)
  case (Cons r rs)
  then have "sum_delta (filter Q rs) \<le> sum_delta (filter P rs)" by simp
  moreover have "P r \<Longrightarrow> Q r" "Q r \<Longrightarrow> lg_delta r \<le> 0" using Cons.prems by simp_all
  ultimately show ?case by (cases "P r"; cases "Q r") simp_all
qed simp

subsection \<open>The ledger as a machine\<close>

datatype ledger_event =
    LMeter (le_tenant: tenant) usage_args real
  | LAdjust (le_tenant: tenant) py_dict real
  | LSignup (le_tenant: tenant) "(bool \<times> real) option" real

fun ledger_step :: "(pyv \<Rightarrow> string) \<Rightarrow> db \<Rightarrow> ledger_event \<Rightarrow> db" where
  "ledger_step repr d (LMeter t a now) = meter PgUp t a now d"
| "ledger_step repr d (LAdjust t payload now) = snd (adjust_tenant_credits repr True True PgUp now t payload d)"
| "ledger_step repr d (LSignup t policy now) = grant_signup_credit policy t now d"

lemma ledger_step_prefix: "prefix (ledger d) (ledger (ledger_step repr d e))"
  by (cases e)
    (auto simp: meter_def record_charge_def record_usage_def ledger_insert_def adjust_tenant_credits_def
      grant_signup_credit_def Let_def split: option.splits)

lemma ledger_step_tenants [simp]: "tenants (ledger_step repr d e) = tenants d"
  by (cases e)
    (auto simp: meter_def record_charge_def record_usage_def adjust_tenant_credits_def
      grant_signup_credit_def Let_def split: option.splits)

interpretation ledger_run: monotone_machine "ledger_step repr" "\<lambda>_. True" "\<lambda>d. length (ledger d)" for repr
  by unfold_locales (simp_all add: prefix_length_le ledger_step_prefix)

lemma ledger_step_other:
  "t \<noteq> le_tenant e \<Longrightarrow> tenant_rows t (ledger_step repr d e) = tenant_rows t d"
  by (cases e)
    (auto simp: meter_def record_charge_def adjust_tenant_credits_def grant_signup_credit_def Let_def
      split: option.splits)

text \<open>A tenant's view: does it exist, and its rows.\<close>

definition ledger_view :: "db \<Rightarrow> tenant \<Rightarrow> bool \<times> ledger_row list" where
  "ledger_view d t = (tenant_exists t d, tenant_rows t d)"

definition view_db :: "tenant \<Rightarrow> bool \<times> ledger_row list \<Rightarrow> db" where
  "view_db t v = empty_db\<lparr>tenants := (if fst v then
       [\<lparr>tn_id = t, tn_name = [], tn_plan = None, tn_status = [], tn_notes = None, tn_slug = [],
          tn_settings = [], tn_tracking = True\<rparr>] else []),
     ledger := snd v\<rparr>"

definition ledger_effect ::
  "(pyv \<Rightarrow> string) \<Rightarrow> ledger_event \<Rightarrow> bool \<times> ledger_row list \<Rightarrow> bool \<times> ledger_row list" where
  "ledger_effect repr e v = (fst v, snd v @ tenant_rows (le_tenant e) (ledger_step repr (view_db (le_tenant e) (fst v, [])) e))"

lemma tenant_exists_step [simp]: "tenant_exists t (ledger_step repr d e) = tenant_exists t d"
  by (simp add: tenant_exists_def)

lemma ledger_step_own:
  "tenant_rows (le_tenant e) (ledger_step repr d e) =
   tenant_rows (le_tenant e) d @
     tenant_rows (le_tenant e) (ledger_step repr (view_db (le_tenant e) (tenant_exists (le_tenant e) d, [])) e)"
proof -
  have v: "tenant_rows t (view_db t (b, [])) = []" "tenant_exists t (view_db t (b, rs)) = b" for t b rs
    by (simp_all add: view_db_def tenant_rows_def tenant_exists_def)
  show ?thesis
    by (cases e) (auto simp: v meter_def record_charge_def adjust_tenant_credits_def
        grant_signup_credit_def Let_def split: option.splits)
qed

interpretation ledger_iso: isolated_machine "ledger_step repr" ledger_view le_tenant "ledger_effect repr" for repr
proof
  show "t \<noteq> le_tenant e \<Longrightarrow> ledger_view (ledger_step repr d e) t = ledger_view d t" for t d e
    by (simp add: ledger_view_def ledger_step_other)
  show "ledger_view (ledger_step repr d e) (le_tenant e) = ledger_effect repr e (ledger_view d (le_tenant e))" for d e
    unfolding ledger_view_def ledger_effect_def by (simp, rule ledger_step_own)
qed

subsection \<open>Properties\<close>

text \<open>For every ledger, the balance of a tenant is what was granted minus what was used, both of
  which are non-negative, and the month's spend never exceeds what was used in total.\<close>

theorem balance_is_granted_minus_used:
  assumes "usage_summary PgUp t d = (used, granted)"
  shows "ledger_balance PgUp t d = granted - used \<and> 0 \<le> used \<and> 0 \<le> granted \<and>
     month_spent tm now t d \<le> used"
proof -
  let ?rs = "tenant_rows t d"
  have u: "used = - sum_delta (filter (\<lambda>r. lg_delta r < 0) ?rs)"
    and g: "granted = sum_delta (filter (\<lambda>r. lg_delta r > 0) ?rs)"
    using assms by (simp_all add: usage_summary_def)
  have "sum_delta (filter (\<lambda>r. lg_delta r < 0) ?rs) \<le> 0"
    by (rule sum_delta_nonpos) simp
  moreover have "0 \<le> sum_delta (filter (\<lambda>r. lg_delta r > 0) rs)" for rs
    by (induction rs) auto
  moreover have "sum_delta (filter (\<lambda>r. lg_delta r < 0) ?rs) \<le>
      sum_delta (filter (\<lambda>r. lg_delta r < 0 \<and> tm now \<le> lg_at r) ?rs)"
    by (rule sum_delta_filter_mono) auto
  ultimately show ?thesis
    using sum_delta_split [of ?rs] by (simp add: u g ledger_balance_def month_spent_def)
qed

theorem balance_is_granted_minus_used_witness:
  "ledger_balance PgUp ''a'' (ledger_insert ''a'' (- 3) ''local'' ''turn'' 5 (ledger_insert ''a'' 10 ''grant'' ''topup'' 1 empty_db)) = 7"
proof -
  let ?d = "ledger_insert ''a'' (- 3) ''local'' ''turn'' 5 (ledger_insert ''a'' 10 ''grant'' ''topup'' 1 empty_db)"
  have "floor (60001 / 2 :: real) = 30000" "floor (200001 / 2 :: real) = 100000" by linarith+
  then have n: "pg_numeric 4 (- 3) = - 3" "pg_numeric 4 10 = 10"
    by (simp_all add: pg_numeric_def)
  have "usage_summary PgUp ''a'' ?d = (3, 10)"
    by (simp add: usage_summary_def n) (simp add: tenant_rows_def empty_db_def)
  from balance_is_granted_minus_used [OF this, of id 0] show ?thesis by simp
qed

text \<open>Tenant isolation of the ledger. After any sequence of metered turns, manual adjustments and
  signup grants of all tenants, a tenant's ledger rows are those its own events alone produce
  from the same start, and the rows it had are still there, in front, unchanged.\<close>

theorem ledger_isolated_append_only:
  "tenant_rows t (foldl (ledger_step repr) d es) =
     tenant_rows t (foldl (ledger_step repr) d (filter (\<lambda>e. le_tenant e = t) es)) \<and>
   prefix (ledger d) (ledger (foldl (ledger_step repr) d es))"
proof
  show "tenant_rows t (foldl (ledger_step repr) d es) =
     tenant_rows t (foldl (ledger_step repr) d (filter (\<lambda>e. le_tenant e = t) es))"
    using ledger_iso.run_isolated [of repr d es t] by (simp add: ledger_view_def)
  show "prefix (ledger d) (ledger (foldl (ledger_step repr) d es))"
    by (induction es arbitrary: d) (auto intro: prefix_order.trans [OF ledger_step_prefix])
qed

definition meter_all :: "tenant \<Rightarrow> (usage_args \<times> real) list \<Rightarrow> db \<Rightarrow> db" where
  "meter_all t turns d = foldl (\<lambda>d (a, now). meter PgUp t a now d) d turns"

lemma meter_balance:
  "\<bar>ledger_balance PgUp t (meter PgUp t a now d) - (ledger_balance PgUp t d - max 0 (ua_cost a))\<bar> \<le> 1 / 20000"
proof (cases "ua_cost a > 0")
  case True
  then have "ledger_balance PgUp t (meter PgUp t a now d) = ledger_balance PgUp t d - pg_numeric 4 (ua_cost a)"
    by (simp add: meter_def record_charge_def ledger_balance_def pg_numeric_neg)
  with True pg_numeric_close [of 4 "ua_cost a"] show ?thesis by (simp add: abs_minus_commute)
next
  case False
  then show ?thesis by (simp add: meter_def ledger_balance_def)
qed

lemma drift_add:
  "\<bar>b - (b1 - s)\<bar> \<le> e \<Longrightarrow> \<bar>b1 - (b0 - c)\<bar> \<le> e' \<Longrightarrow> \<bar>b - (b0 - (c + s))\<bar> \<le> e + (e' :: real)"
  by linarith

text \<open>Metering \<open>n\<close> turns moves the tenant's balance by the sum of the positive costs, up to the
  rounding of the \<open>NUMERIC(14, 4)\<close> column: at most half of 0.0001 per turn.\<close>

theorem metered_balance_drift:
  "\<bar>ledger_balance PgUp t (meter_all t turns d) -
      (ledger_balance PgUp t d - sum_list (map (\<lambda>(a, _). max 0 (ua_cost a)) turns))\<bar>
   \<le> real (length turns) / 20000"
proof (induction turns arbitrary: d)
  case Nil
  then show ?case by (simp add: meter_all_def)
next
  case (Cons x turns)
  obtain a now where x: "x = (a, now)" by (cases x)
  let ?d = "meter PgUp t a now d"
  have m: "meter_all t (x # turns) d = meter_all t turns ?d" by (simp add: meter_all_def x)
  have n: "real (length (x # turns)) / 20000 = real (length turns) / 20000 + 1 / 20000"
    by (simp add: add_divide_distrib)
  show ?case
    using drift_add [OF Cons.IH [of ?d] meter_balance [of t a now d]]
    unfolding m n by (simp add: x)
qed

end
