(* ===== verification/Budget.thy ===== *)
theory Budget
  imports Redis Ledger
begin

text \<open>
  \<open>packages/acip_gateway/budget.py\<close> (per-tenant spend, cap and kill switches in Redis) and
  \<open>packages/acip_billing/wallet.py\<close> (the same guard bounded by the prepaid wallet, whose balance is
  read from the ledger and cached in Redis). Keys hold text, so every stored value is true.
\<close>

datatype rung = CACHE | RULE | SEARCH | LOCAL | FRONTIER

fun rung_str :: "rung \<Rightarrow> string" where
  "rung_str CACHE = ''cache''"
| "rung_str RULE = ''rule''"
| "rung_str SEARCH = ''search''"
| "rung_str LOCAL = ''local''"
| "rung_str FRONTIER = ''frontier''"

fun rung_cost :: "rung \<Rightarrow> real" where
  "rung_cost CACHE = 0"
| "rung_cost RULE = 0"
| "rung_cost SEARCH = 1 / 100"
| "rung_cost LOCAL = 1 / 10"
| "rung_cost FRONTIER = 1"

record budget_state =
  bs_spent :: real
  bs_cap :: real
  bs_local_only :: bool

definition near_ceiling :: "budget_state \<Rightarrow> bool" where
  "near_ceiling b \<longleftrightarrow> bs_cap b > 0 \<and> bs_spent b \<ge> 8 / 10 * bs_cap b"

definition spend_key :: "tenant \<Rightarrow> string" where "spend_key t = ''budget:spent:'' @ t"
definition cap_key :: "tenant \<Rightarrow> string" where "cap_key t = ''budget:cap:'' @ t"
definition kill_key :: "tenant \<Rightarrow> string" where "kill_key t = ''killswitch:'' @ t"
definition wallet_key :: "tenant \<Rightarrow> string" where "wallet_key t = ''wallet:balance:'' @ t"

text \<open>Truth of a stored text: only the empty one is false.\<close>

definition rd_truthy :: "pyv option \<Rightarrow> bool" where
  "rd_truthy v = (case v of None \<Rightarrow> False | Some x \<Rightarrow> x \<noteq> VStr [])"

text \<open>\<open>float(await redis.get(key) or default)\<close>.\<close>

definition rd_float :: "('r, 'x) redis_scheme \<Rightarrow> string \<Rightarrow> real \<Rightarrow> 'r \<Rightarrow> real res" where
  "rd_float R key dflt s =
     bind_res (rd_get R key s)
       (\<lambda>v. if rd_truthy v then py_float (the v) else Inr dflt)"

definition global_kill :: "('r, 'x) redis_scheme option \<Rightarrow> 'r \<Rightarrow> bool" where
  "global_kill redis s =
     (case redis of None \<Rightarrow> False
      | Some R \<Rightarrow> or_else (bind_res (rd_get R ''killswitch:__global__'' s) (\<lambda>v. Inr (rd_truthy v))) False)"

definition budget_read ::
  "('r, 'x) redis_scheme \<Rightarrow> real \<Rightarrow> tenant \<Rightarrow> 'r \<Rightarrow> (real \<times> real \<times> bool) res" where
  "budget_read R default_cap t s =
     bind_res (rd_float R (spend_key t) 0 s) (\<lambda>spent.
     bind_res (rd_float R (cap_key t) default_cap s) (\<lambda>cap.
     bind_res (rd_get R (kill_key t) s) (\<lambda>k.
       Inr (spent, cap, rd_truthy k \<or> global_kill (Some R) s))))"

definition budget_state ::
  "('r, 'x) redis_scheme option \<Rightarrow> real \<Rightarrow> tenant \<Rightarrow> 'r \<Rightarrow> budget_state" where
  "budget_state redis default_cap t s =
     (case redis of
        None \<Rightarrow> \<lparr>bs_spent = 0, bs_cap = default_cap, bs_local_only = False\<rparr>
      | Some R \<Rightarrow>
          (case budget_read R default_cap t s of
             Inl e \<Rightarrow> \<lparr>bs_spent = 0, bs_cap = default_cap, bs_local_only = True\<rparr>
           | Inr (spent, cap, killed) \<Rightarrow>
               let hard_capped = cap > 0 \<and> spent \<ge> cap
               in \<lparr>bs_spent = spent, bs_cap = cap, bs_local_only = (killed \<or> hard_capped)\<rparr>))"

definition budget_charge :: "('r, 'x) redis_scheme option \<Rightarrow> tenant \<Rightarrow> real \<Rightarrow> 'r \<Rightarrow> 'r" where
  "budget_charge redis t cost s =
     (case redis of None \<Rightarrow> s
      | Some R \<Rightarrow> if cost \<le> 0 then s else snd (rd_incrbyfloat R (spend_key t) cost s))"

definition set_kill_switch :: "('r, 'x) redis_scheme option \<Rightarrow> tenant \<Rightarrow> bool \<Rightarrow> 'r \<Rightarrow> 'r" where
  "set_kill_switch redis t on s =
     (case redis of None \<Rightarrow> s
      | Some R \<Rightarrow> if on then snd (rd_set R (kill_key t) (VStr ''1'') None s)
                  else snd (rd_delete R (kill_key t) s))"

subsection \<open>The wallet\<close>

text \<open>\<open>_wallet_balance\<close>: \<open>None\<close> is an unknown balance. The client of an absent database raises.\<close>

definition wallet_cached :: "('r, 'x) redis_scheme option \<Rightarrow> tenant \<Rightarrow> 'r \<Rightarrow> real option" where
  "wallet_cached redis t s =
     (case redis of
        None \<Rightarrow> None
      | Some R \<Rightarrow>
          (case rd_get R (wallet_key t) s of
             Inl _ \<Rightarrow> None
           | Inr None \<Rightarrow> None
           | Inr (Some v) \<Rightarrow> (case py_float v of Inl _ \<Rightarrow> None | Inr x \<Rightarrow> Some x)))"

definition wallet_balance ::
  "('r, 'x) redis_scheme option \<Rightarrow> nat \<Rightarrow> pool \<Rightarrow> tenant \<Rightarrow> db \<Rightarrow> 'r \<Rightarrow> real option \<times> 'r" where
  "wallet_balance redis ttl p t d s =
     (case wallet_cached redis t s of
        Some x \<Rightarrow> (Some x, s)
      | None \<Rightarrow>
          if p \<noteq> PgUp then (None, s)
          else
            let balance = sum_delta (tenant_rows t d);
                s1 = (case redis of None \<Rightarrow> s
                      | Some R \<Rightarrow> snd (rd_set R (wallet_key t) (VNum balance) (Some ttl) s))
            in (Some balance, s1))"

definition wallet_state ::
  "('r, 'x) redis_scheme option \<Rightarrow> real \<Rightarrow> nat \<Rightarrow> pool \<Rightarrow> tenant \<Rightarrow> db \<Rightarrow> 'r \<Rightarrow> budget_state \<times> 'r" where
  "wallet_state redis default_cap ttl p t d s =
     (let base = budget_state redis default_cap t s
      in if bs_local_only base then (base, s)
         else
           let (balance, s1) = wallet_balance redis ttl p t d s
           in (case balance of
                 Some b \<Rightarrow> if b \<le> 0 then (base\<lparr>bs_local_only := True\<rparr>, s1) else (base, s1)
               | None \<Rightarrow> (base, s1)))"

definition invalidate_wallet :: "('r, 'x) redis_scheme option \<Rightarrow> tenant \<Rightarrow> 'r \<Rightarrow> 'r" where
  "invalidate_wallet redis t s =
     (case redis of None \<Rightarrow> s | Some R \<Rightarrow> snd (rd_delete R (wallet_key t) s))"

subsection \<open>Lemmas\<close>

lemma budget_keys_distinct [simp]:
  "wallet_key t \<noteq> spend_key u" "wallet_key t \<noteq> cap_key u" "wallet_key t \<noteq> kill_key u"
  "wallet_key t \<noteq> ''killswitch:__global__''"
  "spend_key t \<noteq> cap_key u" "spend_key t \<noteq> kill_key u" "spend_key t \<noteq> ''killswitch:__global__''"
  "kill_key t = kill_key u \<longleftrightarrow> t = u" "wallet_key t = wallet_key u \<longleftrightarrow> t = u"
  "spend_key t = spend_key u \<longleftrightarrow> t = u"
  by (auto simp: wallet_key_def spend_key_def cap_key_def kill_key_def)

text \<open>INCRBYFLOAT adds to a number (a missing key is 0) and touches no other key.\<close>

definition num_at :: "('r, 'x) redis_scheme \<Rightarrow> string \<Rightarrow> 'r \<Rightarrow> real \<Rightarrow> bool" where
  "num_at R k s x \<longleftrightarrow> rd_get R k s = Inr (Some (VNum x)) \<or> (rd_get R k s = Inr None \<and> x = 0)"

definition redis_incrfloat :: "('r, 'x) redis_scheme \<Rightarrow> bool" where
  "redis_incrfloat R \<longleftrightarrow>
     (\<forall>k x s old. num_at R k s old \<longrightarrow>
        (\<exists>s'. rd_incrbyfloat R k x s = (Inr (), s') \<and> rd_get R k s' = Inr (Some (VNum (old + x))) \<and>
              (\<forall>k'. k' \<noteq> k \<longrightarrow> rd_get R k' s' = rd_get R k' s)))"

lemma rd_float_num: "num_at R k s x \<Longrightarrow> rd_float R k 0 s = Inr x"
  by (auto simp: num_at_def rd_float_def rd_truthy_def)

lemma budget_charge_spends:
  assumes "redis_incrfloat R" "num_at R (spend_key t) s old"
  shows "num_at R (spend_key t) (budget_charge (Some R) t c s) (old + max 0 c)"
proof (cases "c \<le> 0")
  case False
  from assms obtain s' where "rd_incrbyfloat R (spend_key t) c s = (Inr (), s')"
    "rd_get R (spend_key t) s' = Inr (Some (VNum (old + c)))"
    unfolding redis_incrfloat_def by blast
  with False show ?thesis by (simp add: budget_charge_def num_at_def)
qed (simp add: budget_charge_def assms)

lemma budget_charges_spend:
  assumes "redis_incrfloat R" "num_at R (spend_key t) s old"
  shows "num_at R (spend_key t) (foldl (\<lambda>s c. budget_charge (Some R) t c s) s cs)
     (old + sum_list (map (max 0) cs))"
  using assms(2)
proof (induction cs arbitrary: s old)
  case (Cons c cs)
  from Cons.IH [OF budget_charge_spends [OF assms(1) Cons.prems, of c]] show ?case
    by (simp add: algebra_simps)
qed simp

lemma budget_charge_other:
  assumes "redis_incrfloat R" "num_at R (spend_key t) s old" "k \<noteq> spend_key t"
  shows "rd_get R k (budget_charge (Some R) t c s) = rd_get R k s"
proof -
  from assms(1,2) obtain s' where "rd_incrbyfloat R (spend_key t) c s = (Inr (), s')"
    "\<forall>k'. k' \<noteq> spend_key t \<longrightarrow> rd_get R k' s' = rd_get R k' s"
    unfolding redis_incrfloat_def by blast
  with assms(3) show ?thesis by (simp add: budget_charge_def)
qed

lemma budget_charges_other:
  assumes "redis_incrfloat R" "num_at R (spend_key t) s old" "k \<noteq> spend_key t"
  shows "rd_get R k (foldl (\<lambda>s c. budget_charge (Some R) t c s) s cs) = rd_get R k s"
  using assms(2)
proof (induction cs arbitrary: s old)
  case (Cons c cs)
  show ?case
    using Cons.IH [OF budget_charge_spends [OF assms(1) Cons.prems, of c]]
      budget_charge_other [OF assms(1) Cons.prems assms(3), of c] by simp
qed simp

lemma mem_incrfloat: "redis_incrfloat mem_redis"
  by (auto simp: redis_incrfloat_def num_at_def mem_redis_def)

subsection \<open>Properties\<close>

text \<open>The hard cap. If Redis keeps the counter, then after charges that bring the recorded spend
  up to a positive cap the tenant is held to the local rungs, whatever the kill switches are.\<close>

theorem spend_reaches_hard_cap:
  assumes "redis_incrfloat R" and "num_at R (spend_key t) s old"
    and "rd_float R (cap_key t) default_cap s = Inr cap" and "0 < cap"
    and "cap \<le> old + sum_list (map (max 0) cs)"
  shows "bs_local_only (budget_state (Some R) default_cap t (foldl (\<lambda>s c. budget_charge (Some R) t c s) s cs))"
proof -
  let ?s = "foldl (\<lambda>s c. budget_charge (Some R) t c s) s cs"
  have "rd_float R (cap_key t) default_cap ?s = Inr cap"
    using budget_charges_other [OF assms(1,2), of "cap_key t" cs] assms(3)
    by (simp add: rd_float_def spend_key_def cap_key_def)
  then show ?thesis
    using rd_float_num [OF budget_charges_spend [OF assms(1,2), of cs]] assms(4,5)
    by (cases "rd_get R (kill_key t) ?s") (simp_all add: budget_state_def budget_read_def)
qed

theorem spend_reaches_hard_cap_witness:
  "bs_local_only (budget_state (Some mem_redis) 5 ''a''
     (foldl (\<lambda>s c. budget_charge (Some mem_redis) ''a'' c s) mem_empty [2, - 1, 3]))"
  by (rule spend_reaches_hard_cap [OF mem_incrfloat, of "''a''" mem_empty 0 5 5])
    (simp_all add: num_at_def rd_float_def rd_truthy_def mem_redis_def mem_empty_def)

definition known_balance ::
  "('r, 'x) redis_scheme option \<Rightarrow> pool \<Rightarrow> tenant \<Rightarrow> db \<Rightarrow> 'r \<Rightarrow> real option" where
  "known_balance redis p t d s =
     (case wallet_cached redis t s of Some x \<Rightarrow> Some x
      | None \<Rightarrow> if p = PgUp then Some (ledger_balance PgUp t d) else None)"

text \<open>The escalation guard with the wallet. A tenant may use paid rungs only when no switch and no
  hard cap holds it back and its wallet balance - the cached one, or the ledger's when nothing is
  cached and the database answers - is positive or cannot be known.\<close>

theorem wallet_state_local_only:
  "bs_local_only (fst (wallet_state redis default_cap ttl p t d s)) \<longleftrightarrow>
     bs_local_only (budget_state redis default_cap t s) \<or>
     (case known_balance redis p t d s of Some b \<Rightarrow> b \<le> 0 | None \<Rightarrow> False)"
  by (auto simp: wallet_state_def wallet_balance_def known_balance_def ledger_balance_def Let_def
      split: option.splits)

text \<open>The cached balance is stale until it is dropped: after a reading that went to the ledger, a
  later reading repeats its value whatever was written to the ledger meanwhile, and after
  \<open>invalidate_wallet\<close> it is the ledger's again.\<close>

theorem wallet_cache_stale_until_invalidated:
  assumes "redis_kv R" and "fst (rd_set R (wallet_key t) (VNum (ledger_balance PgUp t d)) (Some ttl) s) = Inr ()"
    and "wallet_cached (Some R) t s = None"
    and "s1 = snd (wallet_balance (Some R) ttl PgUp t d s)"
    and "fst (rd_delete R (wallet_key t) s1) = Inr ()"
  shows "fst (wallet_balance (Some R) ttl PgUp t d' s1) = Some (ledger_balance PgUp t d) \<and>
    fst (wallet_balance (Some R) ttl PgUp t d' (invalidate_wallet (Some R) t s1)) = Some (ledger_balance PgUp t d')"
proof -
  note kv = redis_kv_laws [OF assms(1)]
  have "s1 = snd (rd_set R (wallet_key t) (VNum (ledger_balance PgUp t d)) (Some ttl) s)"
    using assms(3,4) by (simp add: wallet_balance_def ledger_balance_def Let_def)
  with kv(1) [OF assms(2)] have "rd_get R (wallet_key t) s1 = Inr (Some (VNum (ledger_balance PgUp t d)))"
    by simp
  moreover from kv(4) [OF assms(5)] have "rd_get R (wallet_key t) (invalidate_wallet (Some R) t s1) = Inr None"
    by (simp add: invalidate_wallet_def)
  ultimately show ?thesis
    by (simp add: wallet_balance_def wallet_cached_def ledger_balance_def Let_def)
qed

theorem wallet_cache_stale_until_invalidated_witness:
  "fst (wallet_balance (Some mem_redis) 30 PgUp ''a'' (ledger_insert ''a'' 10 ''grant'' ''topup'' 1 empty_db)
     (snd (wallet_balance (Some mem_redis) 30 PgUp ''a'' empty_db mem_empty))) = Some 0"
proof -
  let ?g = "ledger_insert ''a'' 10 ''grant'' ''topup'' 1 empty_db"
  have "ledger_balance PgUp ''a'' empty_db = 0"
    by (simp add: ledger_balance_def tenant_rows_def empty_db_def)
  then show ?thesis
    using wallet_cache_stale_until_invalidated
      [of mem_redis "''a''" empty_db 30 mem_empty "snd (wallet_balance (Some mem_redis) 30 PgUp ''a'' empty_db mem_empty)" ?g]
    by (simp add: wallet_cached_def) (simp add: mem_redis_def mem_empty_def)
qed

end
