(* ===== verification/Subscription.thy ===== *)
theory Subscription
  imports Ledger
begin

text \<open>
  \<open>packages/acip_billing/subscription.py\<close>: orders, proration, activation of a plan, the payment of
  an order, cancellation, period-end renewals, and the operator's refund and plan change
  (\<open>admin_billing_ops.py\<close>, \<open>admin_tenant_ops.py\<close>). The payment of an order is a sequence of
  database transactions with a local state between them (\<open>pay_step\<close>), so that two callers can be
  interleaved and a crash is a run that stops early.
\<close>

type_synonym active_sub = "sub_row \<times> plan_row option"

definition sub_of :: "tenant \<Rightarrow> db \<Rightarrow> active_sub option" where
  "sub_of t d =
     map_option (\<lambda>s. (s, plan_by_id (sb_plan s) d)) (find (\<lambda>s. sb_tenant s = t) (subs d))"

subsection \<open>Proration and orders\<close>

definition proration_credit :: "real \<Rightarrow> real option \<Rightarrow> int \<Rightarrow> real \<Rightarrow> real" where
  "proration_credit old_price period_end period_days now =
     (case period_end of
        None \<Rightarrow> 0
      | Some e \<Rightarrow>
          if old_price \<le> 0 then 0
          else
            let remaining = max 0 (min (of_int period_days) ((e - now) / 86400))
            in py_round 2 (old_price * remaining / of_int period_days))"

text \<open>The credit of a tenant's current subscription, 0 unless it is active.\<close>

definition credit_of :: "active_sub option \<Rightarrow> int \<Rightarrow> real \<Rightarrow> real" where
  "credit_of sub period_days now =
     (case sub of
        Some (s, pl) \<Rightarrow>
          if sb_status s = ''active''
          then proration_credit (case pl of Some p \<Rightarrow> pl_price p | None \<Rightarrow> 0) (sb_period_end s) period_days now
          else 0
      | None \<Rightarrow> 0)"

record preview =
  pv_plan_code :: string
  pv_base :: real
  pv_credit :: real
  pv_due :: real

definition proration_preview ::
  "pool \<Rightarrow> tenant \<Rightarrow> string \<Rightarrow> int \<Rightarrow> real \<Rightarrow> db \<Rightarrow> preview option res" where
  "proration_preview p t plan_code period_days now d =
     fst (pg_call p None d
       (case plan_by_code plan_code d of
          None \<Rightarrow> (None, d)
        | Some plan \<Rightarrow>
            let base = pl_price plan; credit = credit_of (sub_of t d) period_days now
            in (Some \<lparr>pv_plan_code = pl_code plan, pv_base = base, pv_credit = credit,
                      pv_due = max 0 (py_round 2 (base - credit))\<rparr>, d)))"

record order_view =
  ov_id :: string
  ov_kind :: string
  ov_amount :: real
  ov_credit :: real
  ov_credits :: real
  ov_currency :: string
  ov_status :: string

definition order_insert :: "order_row \<Rightarrow> db \<Rightarrow> db" where
  "order_insert o1 d =
     d\<lparr>orders := orders d @ [o1\<lparr>od_amount := pg_numeric 2 (od_amount o1), od_credits := pg_numeric 2 (od_credits o1)\<rparr>]\<rparr>"

definition create_order ::
  "pool \<Rightarrow> string \<Rightarrow> tenant \<Rightarrow> string \<Rightarrow> string \<Rightarrow> bool \<Rightarrow> int \<Rightarrow> real \<Rightarrow> db \<Rightarrow> order_view option res \<times> db" where
  "create_order p new_id t plan_code provider apply_proration period_days now d =
     pg_call p None d
       (case plan_by_code plan_code d of
          None \<Rightarrow> (None, d)
        | Some plan \<Rightarrow>
            let sub = sub_of t d;
                prorate = (apply_proration \<and> (case sub of Some (s, _) \<Rightarrow> sb_status s = ''active'' | None \<Rightarrow> False));
                credit = (if prorate then credit_of sub period_days now else 0);
                amount = (if prorate then max 0 (py_round 2 (pl_price plan - credit)) else pl_price plan)
            in (Some \<lparr>ov_id = new_id, ov_kind = ''subscription'', ov_amount = amount, ov_credit = credit,
                      ov_credits = 0, ov_currency = pl_currency plan, ov_status = ''pending''\<rparr>,
                order_insert \<lparr>od_id = new_id, od_tenant = t, od_plan = Some (pl_id plan), od_amount = amount,
                  od_currency = pl_currency plan, od_status = ''pending'', od_provider = provider,
                  od_ref = None, od_paid_at = None, od_kind = ''subscription'', od_credits = 0\<rparr> d))"

definition create_topup_order ::
  "pool \<Rightarrow> int \<Rightarrow> string \<Rightarrow> string \<Rightarrow> tenant \<Rightarrow> real \<Rightarrow> string \<Rightarrow> db \<Rightarrow> order_view option res \<times> db" where
  "create_topup_order p credits_per_unit currency new_id t credits provider d =
     (if p = NoPool \<or> credits \<le> 0 then (Inr None, d)
      else
        let amount = py_round 2 (credits / of_int (max 1 credits_per_unit))
        in pg_call p None d
             (Some \<lparr>ov_id = new_id, ov_kind = ''topup'', ov_amount = amount, ov_credit = 0,
                    ov_credits = credits, ov_currency = currency, ov_status = ''pending''\<rparr>,
              order_insert \<lparr>od_id = new_id, od_tenant = t, od_plan = None, od_amount = amount,
                od_currency = currency, od_status = ''pending'', od_provider = provider,
                od_ref = None, od_paid_at = None, od_kind = ''topup'', od_credits = credits\<rparr> d))"

subsection \<open>Activation\<close>

text \<open>\<open>INSERT ... ON CONFLICT (tenant_id) DO UPDATE\<close>.\<close>

definition sub_upsert :: "tenant \<Rightarrow> string \<Rightarrow> string \<Rightarrow> real \<Rightarrow> sub_row list \<Rightarrow> sub_row list" where
  "sub_upsert t plan status period_end rows =
     (if \<exists>r\<in>set rows. sb_tenant r = t
      then update_where (\<lambda>r. sb_tenant r = t)
             (\<lambda>r. r\<lparr>sb_plan := plan, sb_status := status, sb_period_end := Some period_end, sb_cancel := False\<rparr>) rows
      else rows @ [\<lparr>sb_tenant = t, sb_plan = plan, sb_status = status, sb_period_end = Some period_end,
                    sb_cancel = False\<rparr>])"

definition set_tenant_plan :: "tenant \<Rightarrow> string \<Rightarrow> db \<Rightarrow> db" where
  "set_tenant_plan t plan d =
     d\<lparr>tenants := update_where (\<lambda>r. tn_id r = t) (\<lambda>r. r\<lparr>tn_plan := Some plan\<rparr>) (tenants d)\<rparr>"

text \<open>The transaction of \<open>activate_plan\<close>; the code of an order without a plan is NULL.\<close>

definition activate_up :: "tenant \<Rightarrow> string option \<Rightarrow> int \<Rightarrow> real \<Rightarrow> db \<Rightarrow> bool \<times> db" where
  "activate_up t plan_code period_days now d =
     (case plan_code of None \<Rightarrow> (False, d) | Some c \<Rightarrow>
      (case plan_by_code c d of
         None \<Rightarrow> (False, d)
       | Some plan \<Rightarrow>
           let d1 = set_tenant_plan t (pl_id plan) d;
               d2 = d1\<lparr>subs := sub_upsert t (pl_id plan) ''active'' (now + of_int period_days * 86400) (subs d1)\<rparr>;
               credits = pl_credits plan
           in (True, if credits > 0 then ledger_insert t credits ''grant'' ''plan_grant'' now d2 else d2)))"

definition activate_plan :: "pool \<Rightarrow> tenant \<Rightarrow> string \<Rightarrow> int \<Rightarrow> real \<Rightarrow> db \<Rightarrow> bool res \<times> db" where
  "activate_plan p t plan_code period_days now d =
     pg_call p False d (activate_up t (Some plan_code) period_days now d)"

definition create_invoice :: "tenant \<Rightarrow> string \<Rightarrow> string \<Rightarrow> real \<Rightarrow> string \<Rightarrow> db \<Rightarrow> nat \<times> db" where
  "create_invoice t order_id descr amount currency d =
     (let n = Suc (invoice_seq d)
      in (n, d\<lparr>invoice_seq := n, invoices := invoices d @
            [\<lparr>iv_number = n, iv_tenant = t, iv_order = order_id, iv_description = descr,
              iv_amount = pg_numeric 2 amount, iv_currency = currency, iv_status = ''paid''\<rparr>]\<rparr>))"

subsection \<open>Paying an order\<close>

type_synonym order_snapshot = "order_row \<times> plan_row option"

definition order_snapshot :: "string \<Rightarrow> db \<Rightarrow> order_snapshot option" where
  "order_snapshot oid d =
     map_option (\<lambda>r. (r, case od_plan r of None \<Rightarrow> None | Some i \<Rightarrow> plan_by_id i d))
       (find (\<lambda>r. od_id r = oid) (orders d))"

record paid_result =
  pr_order :: string
  pr_tenant :: tenant
  pr_kind :: string
  pr_plan_code :: "string option"
  pr_invoice :: "nat option"
  pr_already :: bool

definition set_paid :: "string \<Rightarrow> real \<Rightarrow> db \<Rightarrow> db" where
  "set_paid oid now d =
     d\<lparr>orders := update_where (\<lambda>r. od_id r = oid)
         (\<lambda>r. r\<lparr>od_status := ''paid'', od_paid_at := Some now\<rparr>) (orders d)\<rparr>"

definition topup_description :: "real \<Rightarrow> string" where
  "topup_description credits =
     ''Credit top-up: '' @ int_str (if 0 \<le> credits then floor credits else ceiling credits) @ '' credits''"

definition plan_description :: "plan_row option \<Rightarrow> int \<Rightarrow> string" where
  "plan_description pl days =
     (case pl of Some p \<Rightarrow> pl_name p | None \<Rightarrow> ''None'') @ '' plan '' @ [CHR 0xE2, CHR 0x80, CHR 0x94] @ '' '' @
     int_str days @ '' days''"

definition paid_reply :: "order_snapshot \<Rightarrow> nat option \<Rightarrow> bool \<Rightarrow> paid_result" where
  "paid_reply sn n already =
     \<lparr>pr_order = od_id (fst sn), pr_tenant = od_tenant (fst sn), pr_kind = od_kind (fst sn),
      pr_plan_code = map_option pl_code (snd sn), pr_invoice = n, pr_already = already\<rparr>"

text \<open>
  The program points of \<open>mark_order_paid\<close> between two statements that commit: nothing done, the
  order read, the order marked, the plan activated, returned.
\<close>

datatype pay_pc =
    PayStart
  | PayRead order_snapshot
  | PayMarked order_snapshot
  | PayActivated order_snapshot
  | PayDone "paid_result option"

fun pay_step :: "string \<Rightarrow> int \<Rightarrow> real \<Rightarrow> pay_pc \<times> db \<Rightarrow> pay_pc \<times> db" where
  "pay_step oid days now (PayStart, d) =
     (case order_snapshot oid d of
        None \<Rightarrow> (PayDone None, d)
      | Some sn \<Rightarrow>
          if od_status (fst sn) = ''paid'' then (PayDone (Some (paid_reply sn None True)), d)
          else (PayRead sn, d))"
| "pay_step oid days now (PayRead sn, d) = (PayMarked sn, set_paid oid now d)"
| "pay_step oid days now (PayMarked sn, d) =
     (if od_kind (fst sn) = ''topup'' then
        (let d1 = ledger_insert (od_tenant (fst sn)) (od_credits (fst sn)) ''grant'' ''topup'' now d;
             (n, d2) = create_invoice (od_tenant (fst sn)) oid (topup_description (od_credits (fst sn)))
                         (od_amount (fst sn)) (od_currency (fst sn)) d1
         in (PayDone (Some (paid_reply sn (Some n) False)), d2))
      else
        (PayActivated sn,
         snd (activate_up (od_tenant (fst sn)) (map_option pl_code (snd sn)) days now d)))"
| "pay_step oid days now (PayActivated sn, d) =
     (let (n, d1) = create_invoice (od_tenant (fst sn)) oid (plan_description (snd sn) days)
                      (od_amount (fst sn)) (od_currency (fst sn)) d
      in (PayDone (Some (paid_reply sn (Some n) False)), d1))"
| "pay_step oid days now (PayDone r, d) = (PayDone r, d)"

definition pay_run :: "nat \<Rightarrow> string \<Rightarrow> int \<Rightarrow> real \<Rightarrow> db \<Rightarrow> pay_pc \<times> db" where
  "pay_run k oid days now d = (pay_step oid days now ^^ k) (PayStart, d)"

fun pay_result :: "pay_pc \<Rightarrow> paid_result option" where
  "pay_result (PayDone r) = r"
| "pay_result _ = None"

text \<open>Four statements always suffice (\<open>mark_order_paid_done\<close>). asyncpg rejects a malformed id.\<close>

definition mark_order_paid ::
  "pool \<Rightarrow> string \<Rightarrow> int \<Rightarrow> real \<Rightarrow> db \<Rightarrow> paid_result option res \<times> db" where
  "mark_order_paid p oid days now d =
     (if p = PgUp \<and> \<not> valid_uuid oid then (Inl (Exn ''DataError''), d)
      else pg_call p None d (let (pc, d1) = pay_run 4 oid days now d in (pay_result pc, d1)))"

subsection \<open>Cancellation, renewals, refunds, plan changes\<close>

definition set_cancel :: "pool \<Rightarrow> tenant \<Rightarrow> bool \<Rightarrow> db \<Rightarrow> bool res \<times> db" where
  "set_cancel p t cancel d =
     pg_call p False d
       (\<exists>r\<in>set (subs d). sb_tenant r = t,
        d\<lparr>subs := update_where (\<lambda>r. sb_tenant r = t) (\<lambda>r. r\<lparr>sb_cancel := cancel\<rparr>) (subs d)\<rparr>)"

definition sub_due :: "real \<Rightarrow> sub_row \<Rightarrow> bool" where
  "sub_due now r \<longleftrightarrow>
     sb_status r = ''active'' \<and> (case sb_period_end r of None \<Rightarrow> False | Some e \<Rightarrow> e \<le> now)"

definition downgrade_one :: "string \<Rightarrow> real \<Rightarrow> db \<Rightarrow> tenant \<Rightarrow> db" where
  "downgrade_one trial_plan now d t =
     (let d1 = snd (activate_up t (Some trial_plan) 30 now d)
      in d1\<lparr>subs := update_where (\<lambda>r. sb_tenant r = t) (\<lambda>r. r\<lparr>sb_cancel := False\<rparr>) (subs d1)\<rparr>)"

definition mark_past_due :: "real \<Rightarrow> db \<Rightarrow> db" where
  "mark_past_due now d =
     d\<lparr>subs := update_where (\<lambda>r. sub_due now r \<and> \<not> sb_cancel r) (\<lambda>r. r\<lparr>sb_status := ''past_due''\<rparr>) (subs d)\<rparr>"

text \<open>\<open>(downgraded, past_due)\<close>.\<close>

definition process_renewals :: "pool \<Rightarrow> string \<Rightarrow> real \<Rightarrow> db \<Rightarrow> (nat \<times> nat) res \<times> db" where
  "process_renewals p trial_plan now d =
     pg_call p (0, 0) d
       (let to_cancel = map sb_tenant (filter (\<lambda>r. sub_due now r \<and> sb_cancel r) (subs d));
            past = map sb_tenant (filter (\<lambda>r. sub_due now r \<and> \<not> sb_cancel r) (subs d));
            d1 = mark_past_due now d
        in ((length to_cancel, length past), foldl (downgrade_one trial_plan now) d1 to_cancel))"

text \<open>\<open>POST /admin/orders/{id}/refund\<close>.\<close>

definition refund_order :: "string \<Rightarrow> db \<Rightarrow> db" where
  "refund_order oid d =
     d\<lparr>orders := update_where (\<lambda>r. od_id r = oid) (\<lambda>r. r\<lparr>od_status := ''refunded''\<rparr>) (orders d)\<rparr>"

definition admin_refund :: "bool \<Rightarrow> pool \<Rightarrow> string \<Rightarrow> db \<Rightarrow> string reply \<times> db" where
  "admin_refund admin_ok p oid d =
     (if \<not> admin_ok then (Err 401 ''unauthorized'', d)
      else if p = PgUp \<and> \<not> valid_uuid oid then (Err 500 ''internal_error'', d)
      else with_pg p d
        (case find (\<lambda>r. od_id r = oid) (orders d) of
           None \<Rightarrow> (Err 404 ''unknown_order'', d)
         | Some r \<Rightarrow> (Ok ''refunded'',
             audit p ''operator'' ''billing.refund'' (Some (od_tenant r)) [(''order_id'', VStr oid)] (refund_order oid d))))"

text \<open>\<open>PATCH /admin/tenants/{id}/plan\<close>. \<open>int(...)\<close> of the payload's period is the argument \<open>to_int\<close>
  (\<open>None\<close> when it raises); the reply is \<open>(plan_code, status, period_days)\<close>.\<close>

definition change_tenant_plan ::
  "(pyv \<Rightarrow> string) \<Rightarrow> (pyv \<Rightarrow> int option) \<Rightarrow> bool \<Rightarrow> bool \<Rightarrow> pool \<Rightarrow> real \<Rightarrow> tenant \<Rightarrow> py_dict \<Rightarrow> db
     \<Rightarrow> (string \<times> string \<times> int) reply \<times> db" where
  "change_tenant_plan repr to_int admin_ok rate_ok p now t payload d =
     (if \<not> admin_ok then (Err 401 ''unauthorized'', d)
      else if \<not> valid_uuid t then (Err 404 ''not_found'', d)
      else if \<not> rate_ok then (Err 429 ''rate_limited'', d)
      else
        let plan_code = py_strip (py_str repr (dict_get_or payload ''plan_code'' (VStr [])));
            status = py_str repr (dict_get_or payload ''status'' (VStr ''active''));
            days0 = the_or 30 (to_int (dict_get_or payload ''period_days'' (VInt 30)));
            days = max 1 (min days0 366)
        in if plan_code = [] then (Err 422 ''invalid_request'', d)
           else if status \<notin> {''trialing'', ''active'', ''past_due'', ''canceled''} then (Err 422 ''invalid_request'', d)
           else with_pg p d
             (case plan_by_code plan_code d of
                None \<Rightarrow> (Err 404 ''not_found'', d)
              | Some plan \<Rightarrow>
                  if \<not> tenant_exists t d then (Err 404 ''not_found'', d)
                  else
                    let d1 = set_tenant_plan t (pl_id plan) d;
                        d2 = d1\<lparr>subs := sub_upsert t (pl_id plan) status (now + of_int days * 86400) (subs d1)\<rparr>
                    in (Ok (plan_code, status, days),
                        audit p ''operator'' ''tenant.plan_change'' (Some t)
                          [(''plan_code'', VStr plan_code), (''status'', VStr status), (''period_days'', VInt days)] d2)))"

text \<open>\<open>list_past_due\<close>: \<open>owner_email\<close> is the join with the tenant's owners.\<close>

record dunning_row =
  dn_tenant :: tenant
  dn_email :: "string option"
  dn_plan :: "string option"
  dn_amount :: real
  dn_currency :: "string option"

definition list_past_due :: "pool \<Rightarrow> (tenant \<Rightarrow> string list) \<Rightarrow> db \<Rightarrow> dunning_row list res" where
  "list_past_due p owner_emails d =
     fst (pg_call p [] d
       (concat (map (\<lambda>s.
          let pl = plan_by_id (sb_plan s) d;
              row = (\<lambda>e. \<lparr>dn_tenant = sb_tenant s, dn_email = e, dn_plan = map_option pl_name pl,
                         dn_amount = (case pl of Some q \<Rightarrow> pl_price q | None \<Rightarrow> 0),
                         dn_currency = map_option pl_currency pl\<rparr>)
          in (case owner_emails (sb_tenant s) of [] \<Rightarrow> [row None] | es \<Rightarrow> map (\<lambda>e. row (Some e)) es))
          (filter (\<lambda>s. sb_status s = ''past_due'') (subs d))), d))"

subsection \<open>What each operation leaves alone\<close>

lemma find_cong_update: "find (\<lambda>r. k r = x) (update_where (\<lambda>r. k r = x) f rs) =
    map_option f (find (\<lambda>r. k r = x) rs)" if "\<And>r. k (f r) = k r"
  by (induction rs) (simp_all add: that)

lemma set_paid_frame [simp]:
  "plans (set_paid oid now d) = plans d" "subs (set_paid oid now d) = subs d"
  "tenants (set_paid oid now d) = tenants d" "invoices (set_paid oid now d) = invoices d"
  "invoice_seq (set_paid oid now d) = invoice_seq d" "ledger (set_paid oid now d) = ledger d"
  by (simp_all add: set_paid_def)

lemma activate_up_frame [simp]:
  "plans (snd (activate_up t c n now d)) = plans d" "orders (snd (activate_up t c n now d)) = orders d"
  "invoices (snd (activate_up t c n now d)) = invoices d"
  "invoice_seq (snd (activate_up t c n now d)) = invoice_seq d"
  by (auto simp: activate_up_def set_tenant_plan_def Let_def split: option.splits)

lemma create_invoice_frame [simp]:
  "plans (snd (create_invoice t i s a c d)) = plans d" "orders (snd (create_invoice t i s a c d)) = orders d"
  "subs (snd (create_invoice t i s a c d)) = subs d" "ledger (snd (create_invoice t i s a c d)) = ledger d"
  "tenants (snd (create_invoice t i s a c d)) = tenants d"
  by (simp_all add: create_invoice_def Let_def)

lemma create_invoice_invoices:
  "map iv_order (invoices (snd (create_invoice t i s a c d))) = map iv_order (invoices d) @ [i]"
  "map iv_number (invoices (snd (create_invoice t i s a c d))) = map iv_number (invoices d) @ [Suc (invoice_seq d)]"
  "invoice_seq (snd (create_invoice t i s a c d)) = Suc (invoice_seq d)"
  "fst (create_invoice t i s a c d) = Suc (invoice_seq d)"
  by (simp_all add: create_invoice_def Let_def)

lemma sub_upsert_tenants:
  "distinct (map sb_tenant rows) \<Longrightarrow> distinct (map sb_tenant (sub_upsert t p st e rows))"
proof -
  have "map sb_tenant (update_where (\<lambda>r. sb_tenant r = t) f rows) = map sb_tenant rows"
    if "\<And>r. sb_tenant (f r) = sb_tenant r" for f
    by (simp add: update_where_def that cong: map_cong)
  then show "distinct (map sb_tenant rows) \<Longrightarrow> ?thesis"
    by (auto simp: sub_upsert_def)
qed

lemma activate_up_subs:
  "distinct (map sb_tenant (subs d)) \<Longrightarrow> distinct (map sb_tenant (subs (snd (activate_up t c n now d))))"
  by (auto simp: activate_up_def set_tenant_plan_def Let_def sub_upsert_tenants split: option.splits)

lemma order_snapshot_frame:
  "orders d' = orders d \<Longrightarrow> plans d' = plans d \<Longrightarrow> order_snapshot oid d' = order_snapshot oid d"
  by (simp add: order_snapshot_def plan_by_id_def cong: option.case_cong)

lemma order_snapshot_set_paid:
  "order_snapshot oid (set_paid oid now d) =
     map_option (\<lambda>(r, pl). (r\<lparr>od_status := ''paid'', od_paid_at := Some now\<rparr>, pl)) (order_snapshot oid d)"
  by (simp add: order_snapshot_def set_paid_def find_cong_update plan_by_id_def option.map_comp comp_def
      cong: option.case_cong)

subsection \<open>One payment\<close>

text \<open>What the steps after the marking do to the database.\<close>

definition settle :: "order_snapshot \<Rightarrow> string \<Rightarrow> int \<Rightarrow> real \<Rightarrow> db \<Rightarrow> db" where
  "settle sn oid days now d =
     (if od_kind (fst sn) = ''topup'' then
        snd (create_invoice (od_tenant (fst sn)) oid (topup_description (od_credits (fst sn)))
          (od_amount (fst sn)) (od_currency (fst sn))
          (ledger_insert (od_tenant (fst sn)) (od_credits (fst sn)) ''grant'' ''topup'' now d))
      else
        snd (create_invoice (od_tenant (fst sn)) oid (plan_description (snd sn) days)
          (od_amount (fst sn)) (od_currency (fst sn))
          (snd (activate_up (od_tenant (fst sn)) (map_option pl_code (snd sn)) days now d))))"

lemma settle_frame [simp]:
  "plans (settle sn oid days now d) = plans d" "orders (settle sn oid days now d) = orders d"
  by (simp_all add: settle_def)

lemma settle_invoices:
  "map iv_order (invoices (settle sn oid days now d)) = map iv_order (invoices d) @ [oid]"
  "map iv_number (invoices (settle sn oid days now d)) = map iv_number (invoices d) @ [Suc (invoice_seq d)]"
  "invoice_seq (settle sn oid days now d) = Suc (invoice_seq d)"
  by (simp_all add: settle_def create_invoice_invoices)

lemma settle_subs:
  "distinct (map sb_tenant (subs d)) \<Longrightarrow> distinct (map sb_tenant (subs (settle sn oid days now d)))"
  by (simp add: settle_def activate_up_subs)

lemma pay_marked_runs:
  "(pay_step oid days now ^^ 2) (PayMarked sn, d) =
     (PayDone (Some (paid_reply sn (Some (Suc (invoice_seq d))) False)), settle sn oid days now d)"
  by (auto simp: numeral_2_eq_2 settle_def create_invoice_def ledger_insert_def Let_def)

lemma mark_order_paid_result:
  "mark_order_paid PgUp oid days now d =
     (if \<not> valid_uuid oid then (Inl (Exn ''DataError''), d)
      else case order_snapshot oid d of
          None \<Rightarrow> (Inr None, d)
        | Some sn \<Rightarrow>
            if od_status (fst sn) = ''paid'' then (Inr (Some (paid_reply sn None True)), d)
            else (Inr (Some (paid_reply sn (Some (Suc (invoice_seq d))) False)),
                  settle sn oid days now (set_paid oid now d)))"
proof (cases "order_snapshot oid d")
  case None
  then show ?thesis by (simp add: mark_order_paid_def pay_run_def eval_nat_numeral)
next
  case (Some sn)
  have four: "(4::nat) = 2 + 2" by simp
  show ?thesis
  proof (cases "od_status (fst sn) = ''paid''")
    case True
    with Some show ?thesis by (simp add: mark_order_paid_def pay_run_def eval_nat_numeral)
  next
    case False
    have two: "(pay_step oid days now ^^ 2) (PayStart, d) = (PayMarked sn, set_paid oid now d)"
      using Some False by (simp add: eval_nat_numeral)
    have "pay_run 4 oid days now d =
        (pay_step oid days now ^^ 2) ((pay_step oid days now ^^ 2) (PayStart, d))"
      unfolding pay_run_def four funpow_add by simp
    then show ?thesis
      using Some False by (simp add: mark_order_paid_def two pay_marked_runs)
  qed
qed

lemma mark_order_paid_done: "\<exists>r d'. pay_run 4 oid days now d = (PayDone r, d')"
proof (cases "order_snapshot oid d")
  case None
  then show ?thesis by (simp add: pay_run_def eval_nat_numeral)
next
  case (Some sn)
  have four: "pay_run 4 oid days now d =
      (pay_step oid days now ^^ 2) ((pay_step oid days now ^^ 2) (PayStart, d))"
    unfolding pay_run_def funpow_add [of 2 2, simplified] by simp
  show ?thesis
    using Some unfolding four
    by (cases "od_status (fst sn) = ''paid''") (simp_all add: eval_nat_numeral pay_marked_runs [unfolded eval_nat_numeral, simplified])
qed

end
