(* ===== verification/BillingProps.thy ===== *)
theory BillingProps
  imports Subscription
begin

text \<open>
  What the subscription component guarantees: payment of an order once and twice, the payment
  interleaved with another one and cut short by a crash, renewals, and the invariants of the
  billing tables under every operation.
\<close>

subsection \<open>Paying twice\<close>

definition invoices_of :: "string \<Rightarrow> db \<Rightarrow> nat" where
  "invoices_of oid d = length (filter (\<lambda>i. iv_order i = oid) (invoices d))"

lemma invoices_of_eq: "invoices_of oid d = count_list (map iv_order (invoices d)) oid"
proof -
  have "length (filter (\<lambda>i. iv_order i = oid) xs) = count_list (map iv_order xs) oid" for xs
    by (induction xs) auto
  then show ?thesis by (simp add: invoices_of_def)
qed

lemma invoices_of_settle: "invoices_of oid (settle sn oid' days now d) =
    invoices_of oid d + (if oid = oid' then 1 else 0)"
  by (simp add: invoices_of_eq settle_invoices)

lemma snapshot_after_pay:
  assumes "order_snapshot oid d = Some sn"
  shows "\<exists>sn'. order_snapshot oid (settle sn2 oid days now (set_paid oid now d)) = Some sn' \<and>
     od_status (fst sn') = ''paid'' \<and> paid_reply sn' n b = paid_reply sn n b"
proof -
  have "order_snapshot oid (settle sn2 oid days now (set_paid oid now d)) = order_snapshot oid (set_paid oid now d)"
    by (rule order_snapshot_frame) simp_all
  with assms show ?thesis
    by (cases sn) (auto simp: order_snapshot_set_paid paid_reply_def)
qed

text \<open>C1: Paying an existing unpaid order answers with a fresh invoice number and adds exactly one
  invoice for it; paying it again, at any later time and with any period, changes nothing at all and
  answers that it was already paid.\<close>

theorem mark_order_paid_twice:
  assumes "valid_uuid oid" and "order_snapshot oid d = Some sn" and "od_status (fst sn) \<noteq> ''paid''"
    and "(r, d1) = mark_order_paid PgUp oid days now d"
  shows "r = Inr (Some (paid_reply sn (Some (Suc (invoice_seq d))) False)) \<and>
     invoices_of oid d1 = invoices_of oid d + 1 \<and>
     mark_order_paid PgUp oid days' now' d1 = (Inr (Some (paid_reply sn None True)), d1)"
proof -
  have rd: "r = Inr (Some (paid_reply sn (Some (Suc (invoice_seq d))) False))"
    "d1 = settle sn oid days now (set_paid oid now d)"
    using assms by (simp_all add: mark_order_paid_result)
  obtain sn' where sn': "order_snapshot oid d1 = Some sn'" "od_status (fst sn') = ''paid''"
    "paid_reply sn' None True = paid_reply sn None True"
    using snapshot_after_pay [OF assms(2)] rd(2) by blast
  have "invoices_of oid d1 = invoices_of oid d + 1"
    unfolding rd(2) invoices_of_settle by (simp add: invoices_of_def)
  then show ?thesis
    using rd sn' assms(1) by (simp add: mark_order_paid_result)
qed

definition oid1 :: string where "oid1 = ''00000000000000000000000000000001''"

lemma oid1_valid [simp]: "valid_uuid oid1"
  by (simp add: valid_uuid_def oid1_def strip_chars_def is_hex_digit_def is_digit_def Let_def)

definition topup_order :: order_row where
  "topup_order = \<lparr>od_id = oid1, od_tenant = ''t'', od_plan = None, od_amount = 5, od_currency = ''USD'',
     od_status = ''pending'', od_provider = ''manual'', od_ref = None, od_paid_at = None,
     od_kind = ''topup'', od_credits = 5000\<rparr>"

definition topup_db :: db where
  "topup_db = empty_db\<lparr>orders := [topup_order]\<rparr>"

lemma topup_snapshot [simp]: "order_snapshot oid1 topup_db = Some (topup_order, None)"
  by (simp add: order_snapshot_def topup_db_def topup_order_def)

theorem mark_order_paid_twice_witness:
  "let (r, d1) = mark_order_paid PgUp oid1 30 7 topup_db;
       (r2, d2) = mark_order_paid PgUp oid1 30 9 d1
   in map_option pr_already (projr r) = Some False \<and> map_option pr_already (projr r2) = Some True \<and>
      d2 = d1 \<and> invoices_of oid1 d1 = 1"
proof -
  obtain r d1 where rd: "(r, d1) = mark_order_paid PgUp oid1 30 7 topup_db" by (metis prod.collapse)
  have "od_status (fst (topup_order, None :: plan_row option)) \<noteq> ''paid''" by (simp add: topup_order_def)
  from mark_order_paid_twice [OF oid1_valid topup_snapshot this rd, of 30 9] show ?thesis
    unfolding rd [symmetric] by (simp add: paid_reply_def invoices_of_def topup_db_def empty_db_def)
qed

subsection \<open>Two callers at once, and a crash\<close>

text \<open>Two calls for the same order on one database; the schedule says whose statement is next.\<close>

fun race_step :: "string \<Rightarrow> int \<Rightarrow> real \<Rightarrow> (pay_pc \<times> pay_pc) \<times> db \<Rightarrow> bool \<Rightarrow> (pay_pc \<times> pay_pc) \<times> db" where
  "race_step oid days now ((a, b), d) first =
     (if first then (let (a', d') = pay_step oid days now (a, d) in ((a', b), d'))
      else (let (b', d') = pay_step oid days now (b, d) in ((a, b'), d')))"

definition race :: "string \<Rightarrow> int \<Rightarrow> real \<Rightarrow> bool list \<Rightarrow> db \<Rightarrow> (pay_pc \<times> pay_pc) \<times> db" where
  "race oid days now sched d = foldl (race_step oid days now) ((PayStart, PayStart), d) sched"

text \<open>The check and the mark of an order are two statements, not one: a webhook delivery and a
  second one that read the top-up order before either marked it both grant its credits and both
  answer that they were the first.\<close>

theorem concurrent_payment_grants_twice:
  fixes now :: real
  assumes "order_snapshot oid d = Some sn" and "od_status (fst sn) \<noteq> ''paid''"
    and "od_kind (fst sn) = ''topup''"
  defines "grant \<equiv> \<lparr>lg_tenant = od_tenant (fst sn), lg_delta = pg_numeric 4 (od_credits (fst sn)),
     lg_rung = ''grant'', lg_reason = ''topup'', lg_at = now\<rparr>"
  shows "\<exists>d'. race oid days now [True, False, True, False, True, False] d =
       ((PayDone (Some (paid_reply sn (Some (invoice_seq d + 1)) False)),
         PayDone (Some (paid_reply sn (Some (invoice_seq d + 2)) False))), d') \<and>
     ledger d' = ledger d @ [grant, grant] \<and> invoices_of oid d' = invoices_of oid d + 2"
  using assms
  by (simp add: race_def create_invoice_def ledger_insert_def set_paid_def Let_def invoices_of_def)

theorem concurrent_payment_grants_twice_witness:
  "\<exists>d'. snd (race oid1 30 7 [True, False, True, False, True, False] topup_db) = d' \<and>
     length (ledger d') = 2"
  using concurrent_payment_grants_twice [OF topup_snapshot, of 30 7]
  by (auto simp: topup_order_def topup_db_def empty_db_def)

text \<open>A process that stops after the order was marked paid and before its credits were granted
  leaves an order that no later call settles: every later call answers that it was already paid
  and neither the ledger nor the invoices ever get the purchase.\<close>

theorem crash_after_mark_loses_grant:
  fixes now :: real and days :: int
  assumes "valid_uuid oid" and "order_snapshot oid d = Some sn" and "od_status (fst sn) \<noteq> ''paid''"
  defines "d1 \<equiv> snd (pay_run 2 oid days now d)"
  shows "mark_order_paid PgUp oid days' now' d1 = (Inr (Some (paid_reply sn None True)), d1) \<and>
     ledger d1 = ledger d \<and> invoices d1 = invoices d"
proof -
  have d1: "d1 = set_paid oid now d"
    using assms(2,3) by (simp add: d1_def pay_run_def eval_nat_numeral)
  have "order_snapshot oid d1 = Some ((fst sn)\<lparr>od_status := ''paid'', od_paid_at := Some now\<rparr>, snd sn)"
    unfolding d1 order_snapshot_set_paid assms(2) by (cases sn) simp
  with assms(1) show ?thesis by (simp add: mark_order_paid_result d1 paid_reply_def)
qed

theorem crash_after_mark_loses_grant_witness:
  "ledger (snd (mark_order_paid PgUp oid1 30 9 (snd (pay_run 2 oid1 30 7 topup_db)))) = []"
  using crash_after_mark_loses_grant [OF oid1_valid topup_snapshot, of 30 9 30 7]
  by (simp add: topup_order_def topup_db_def empty_db_def)

subsection \<open>Renewals\<close>

text \<open>What a renewal run does to one subscription.\<close>

definition renewed :: "plan_row option \<Rightarrow> real \<Rightarrow> sub_row \<Rightarrow> sub_row" where
  "renewed trial now r =
     (if \<not> sub_due now r then r
      else if \<not> sb_cancel r then r\<lparr>sb_status := ''past_due''\<rparr>
      else (case trial of
              None \<Rightarrow> r\<lparr>sb_cancel := False\<rparr>
            | Some p \<Rightarrow> r\<lparr>sb_plan := pl_id p, sb_status := ''active'',
                          sb_period_end := Some (now + 30 * 86400), sb_cancel := False\<rparr>))"

lemma renewed_tenant [simp]: "sb_tenant (renewed p now r) = sb_tenant r"
  by (simp add: renewed_def split: option.splits)

lemma renewed_id: "\<not> sub_due now r \<Longrightarrow> renewed p now r = r"
  by (simp add: renewed_def)

lemma downgrade_one_frame [simp]: "plans (downgrade_one c now d t) = plans d"
  by (simp add: downgrade_one_def Let_def)

definition cancel_row :: "plan_row option \<Rightarrow> real \<Rightarrow> sub_row \<Rightarrow> sub_row" where
  "cancel_row trial now r = (case trial of
              None \<Rightarrow> r\<lparr>sb_cancel := False\<rparr>
            | Some p \<Rightarrow> r\<lparr>sb_plan := pl_id p, sb_status := ''active'',
                          sb_period_end := Some (now + 30 * 86400), sb_cancel := False\<rparr>)"

lemma downgrade_one_subs:
  assumes "\<exists>r\<in>set (subs d). sb_tenant r = t"
  shows "subs (downgrade_one c now d t) =
     update_where (\<lambda>r. sb_tenant r = t) (cancel_row (plan_by_code c d) now) (subs d)"
  using assms
  by (auto simp: downgrade_one_def activate_up_def set_tenant_plan_def sub_upsert_def cancel_row_def
      update_where_def Let_def split: option.splits)

lemma downgrade_all_subs:
  assumes "set ts \<subseteq> set (map sb_tenant (subs d))" and "distinct ts"
  shows "subs (foldl (downgrade_one c now) d ts) =
     update_where (\<lambda>r. sb_tenant r \<in> set ts) (cancel_row (plan_by_code c d) now) (subs d)"
  using assms
proof (induction ts arbitrary: d)
  case Nil
  then show ?case by (simp add: update_where_def)
next
  case (Cons t ts)
  let ?d = "downgrade_one c now d t"
  have keep: "sb_tenant (cancel_row p now r) = sb_tenant r" for p r
    by (simp add: cancel_row_def split: option.splits)
  have s: "subs ?d = update_where (\<lambda>r. sb_tenant r = t) (cancel_row (plan_by_code c d) now) (subs d)"
    using Cons.prems by (intro downgrade_one_subs) force
  have "map sb_tenant (subs ?d) = map sb_tenant (subs d)"
    unfolding s by (simp add: update_where_def keep cong: map_cong)
  then have "set ts \<subseteq> set (map sb_tenant (subs ?d))" using Cons.prems(1) by simp
  with Cons.IH [of ?d] Cons.prems(2) have
    "subs (foldl (downgrade_one c now) ?d ts) =
       update_where (\<lambda>r. sb_tenant r \<in> set ts) (cancel_row (plan_by_code c ?d) now) (subs ?d)" by simp
  then show ?case
    using Cons.prems(2) by (auto simp: s update_where_def keep plan_by_code_def)
qed

lemma filter_unique_tenant:
  assumes "distinct (map sb_tenant rows)" "r \<in> set rows"
  shows "sb_tenant r \<in> set (map sb_tenant (filter P rows)) \<longleftrightarrow> P r"
proof
  assume "sb_tenant r \<in> set (map sb_tenant (filter P rows))"
  then obtain q where "q \<in> set rows" "P q" "sb_tenant q = sb_tenant r" by auto
  with assms show "P r" by (metis distinct_map inj_onD)
qed (use assms in auto)

lemma sub_due_past: "sub_due now (r\<lparr>sb_status := ''past_due''\<rparr>) = False"
  by (simp add: sub_due_def)

text \<open>A renewal run rewrites each subscription on its own: untouched before the end of its period,
  \<open>past_due\<close> after it, and on the trial plan for 30 days when a cancellation was scheduled - unless
  the trial plan does not exist, when the old plan stays active and only the cancellation is
  forgotten. The reply counts the two groups.\<close>

theorem process_renewals_spec:
  assumes "distinct (map sb_tenant (subs d))"
    and "(r, d') = process_renewals PgUp c now d"
  shows "subs d' = map (renewed (plan_by_code c d) now) (subs d) \<and>
     r = Inr (length (filter (\<lambda>r. sub_due now r \<and> sb_cancel r) (subs d)),
              length (filter (\<lambda>r. sub_due now r \<and> \<not> sb_cancel r) (subs d)))"
proof -
  let ?ts = "map sb_tenant (filter (\<lambda>r. sub_due now r \<and> sb_cancel r) (subs d))"
  let ?d1 = "mark_past_due now d"
  have d': "d' = foldl (downgrade_one c now) ?d1 ?ts"
    using assms(2) by (simp add: process_renewals_def Let_def)
  have s1: "subs ?d1 = map (\<lambda>r. if sub_due now r \<and> \<not> sb_cancel r then r\<lparr>sb_status := ''past_due''\<rparr> else r) (subs d)"
    by (simp add: mark_past_due_def update_where_def)
  have "map sb_tenant (subs ?d1) = map sb_tenant (subs d)" unfolding s1 by (simp cong: map_cong)
  then have m1: "set ?ts \<subseteq> set (map sb_tenant (subs ?d1))" by force
  have pl: "plan_by_code c ?d1 = plan_by_code c d" by (simp add: plan_by_code_def mark_past_due_def)
  have dts: "distinct ?ts" by (rule distinct_map_filter [OF assms(1)])
  have "subs d' = update_where (\<lambda>r. sb_tenant r \<in> set ?ts) (cancel_row (plan_by_code c d) now) (subs ?d1)"
    unfolding d' by (simp only: downgrade_all_subs [OF m1 dts] pl)
  also have "\<dots> = map (renewed (plan_by_code c d) now) (subs d)"
    unfolding s1 update_where_def map_map
  proof (rule map_cong [OF refl])
    fix r assume r: "r \<in> set (subs d)"
    have "sb_tenant r \<in> set ?ts \<longleftrightarrow> sub_due now r \<and> sb_cancel r"
      by (rule filter_unique_tenant [OF assms(1) r])
    then show "((\<lambda>r. if sb_tenant r \<in> set ?ts then cancel_row (plan_by_code c d) now r else r) \<circ>
        (\<lambda>r. if sub_due now r \<and> \<not> sb_cancel r then r\<lparr>sb_status := ''past_due''\<rparr> else r)) r =
      renewed (plan_by_code c d) now r"
      by (auto simp del: set_map simp: renewed_def cancel_row_def split: option.splits)
  qed
  finally show ?thesis using assms(2) by (simp add: process_renewals_def Let_def)
qed

definition due_sub :: "bool \<Rightarrow> tenant \<Rightarrow> sub_row" where
  "due_sub cancel t = \<lparr>sb_tenant = t, sb_plan = ''pro'', sb_status = ''active'', sb_period_end = Some 5, sb_cancel = cancel\<rparr>"

theorem process_renewals_spec_witness:
  "subs (snd (process_renewals PgUp ''free'' 9 (empty_db\<lparr>subs := [due_sub True ''a'', due_sub False ''b'']\<rparr>))) =
     [due_sub False ''a'', (due_sub False ''b'')\<lparr>sb_status := ''past_due''\<rparr>]"
  using process_renewals_spec [of "empty_db\<lparr>subs := [due_sub True ''a'', due_sub False ''b'']\<rparr>"
      "fst (process_renewals PgUp ''free'' 9 (empty_db\<lparr>subs := [due_sub True ''a'', due_sub False ''b'']\<rparr>))"
      "snd (process_renewals PgUp ''free'' 9 (empty_db\<lparr>subs := [due_sub True ''a'', due_sub False ''b'']\<rparr>))"]
  by (simp add: due_sub_def renewed_def sub_due_def plan_by_code_def empty_db_def)

end
