(* ===== verification/Tokens.thy ===== *)
theory Tokens
  imports Db
begin

text \<open>
  \<open>packages/acip_auth\<close>: HS256 tokens (\<open>tokens.py\<close>), password hashes and the strength policy
  (\<open>passwords.py\<close>), time-based one-time codes (\<open>totp.py\<close>). HMAC, PBKDF2, Base64 and the JSON text
  of a dictionary are parameters (record \<open>crypto\<close>); the only facts used of them are the
  round trips named \<open>codec_reads\<close> and \<open>salt_ok\<close>. Random values are arguments.
\<close>

record crypto =
  cr_hmac256 :: "string \<Rightarrow> string \<Rightarrow> string"
  cr_hmac1 :: "string \<Rightarrow> nat \<Rightarrow> string"
  cr_pbkdf2 :: "string \<Rightarrow> string \<Rightarrow> nat \<Rightarrow> string"
  cr_b64url :: "string \<Rightarrow> string"
  cr_unb64url :: "string \<Rightarrow> string option"
  cr_b64 :: "string \<Rightarrow> string"
  cr_unb64 :: "string \<Rightarrow> string option"
  cr_b32decode :: "string \<Rightarrow> string"
  cr_dumps :: "py_dict \<Rightarrow> string"
  cr_loads :: "string \<Rightarrow> pyv option"
  cr_sha256 :: "string \<Rightarrow> string"

subsection \<open>Strings: splitting, ASCII, code points\<close>

fun split_on :: "char \<Rightarrow> string \<Rightarrow> string list" where
  "split_on c [] = [[]]"
| "split_on c (x # xs) =
     (if x = c then [] # split_on c xs
      else (case split_on c xs of [] \<Rightarrow> [[x]] | p # ps \<Rightarrow> (x # p) # ps))"

text \<open>\<open>s.split(c, n)\<close>.\<close>

fun split_max :: "nat \<Rightarrow> char \<Rightarrow> string \<Rightarrow> string list" where
  "split_max n c [] = [[]]"
| "split_max 0 c xs = [xs]"
| "split_max (Suc n) c (x # xs) =
     (if x = c then [] # split_max n c xs
      else (case split_max (Suc n) c xs of [] \<Rightarrow> [[x]] | p # ps \<Rightarrow> (x # p) # ps))"

definition is_ascii :: "string \<Rightarrow> bool" where
  "is_ascii s \<longleftrightarrow> list_all (\<lambda>c. (of_char c :: nat) < 128) s"

lemma split_on_no_sep: "c \<notin> set s \<Longrightarrow> split_on c s = [s]"
  by (induction s) auto

lemma split_on_append: "c \<notin> set a \<Longrightarrow> split_on c (a @ c # b) = a # split_on c b"
  by (induction a) auto

lemma split_on_parts:
  "split_on c s = ps \<Longrightarrow> ps \<noteq> [] \<and> (\<forall>p\<in>set ps. c \<notin> set p) \<and> s = py_join [c] ps"
proof (induction s arbitrary: ps)
  case (Cons x xs)
  obtain q qs where q: "split_on c xs = q # qs" "c \<notin> set q" "\<forall>p\<in>set qs. c \<notin> set p"
    "xs = py_join [c] (q # qs)"
    using Cons.IH [OF refl] by (cases "split_on c xs") auto
  show ?case
  proof (cases "x = c")
    case True
    with q Cons.prems show ?thesis by auto
  next
    case False
    with q Cons.prems have "ps = (x # q) # qs" by simp
    with q False show ?thesis by (cases qs) auto
  qed
qed auto

lemma split_max_no_sep: "c \<notin> set a \<Longrightarrow> split_max n c a = [a]"
  by (induction n c a rule: split_max.induct) auto

lemma split_max_append: "c \<notin> set a \<Longrightarrow> split_max (Suc n) c (a @ c # b) = a # split_max n c b"
  by (induction a) auto

subsection \<open>Tokens\<close>

datatype token_error = TokenError | ExpiredTokenError | InvalidTokenError | OtherError string

definition token_issuer :: string where "token_issuer = ''acip-auth''"

definition token_sign :: "crypto \<Rightarrow> string \<Rightarrow> string \<Rightarrow> string" where
  "token_sign C signing_input secret = cr_b64url C (cr_hmac256 C secret signing_input)"

definition token_header :: py_dict where
  "token_header = [(''alg'', VStr ''HS256''), (''typ'', VStr ''JWT'')]"

definition token_input :: "crypto \<Rightarrow> py_dict \<Rightarrow> string" where
  "token_input C payload =
     cr_b64url C (cr_dumps C token_header) @ ''.'' @ cr_b64url C (cr_dumps C payload)"

definition token_encode :: "crypto \<Rightarrow> py_dict \<Rightarrow> string \<Rightarrow> token_error + string" where
  "token_encode C payload secret =
     (if secret = [] then Inl TokenError
      else Inr (token_input C payload @ ''.'' @ token_sign C (token_input C payload) secret))"

definition opt_vstr :: "string option \<Rightarrow> pyv" where
  "opt_vstr s = (case s of None \<Rightarrow> VNone | Some x \<Rightarrow> VStr x)"

definition access_claims :: "string \<Rightarrow> string \<Rightarrow> tenant option \<Rightarrow> string \<Rightarrow> int \<Rightarrow> int \<Rightarrow> string \<Rightarrow> py_dict" where
  "access_claims user_id role tenant_id email ttl issued jti =
     [(''iss'', VStr token_issuer), (''typ'', VStr ''access''), (''sub'', VStr user_id), (''role'', VStr role),
      (''tid'', opt_vstr tenant_id), (''email'', VStr email), (''iat'', VInt issued),
      (''exp'', VInt (issued + ttl)), (''jti'', VStr jti)]"

definition create_access_token ::
  "crypto \<Rightarrow> string \<Rightarrow> string \<Rightarrow> tenant option \<Rightarrow> string \<Rightarrow> string \<Rightarrow> int \<Rightarrow> int \<Rightarrow> string \<Rightarrow> token_error + string" where
  "create_access_token C user_id role tenant_id email secret ttl now jti =
     token_encode C (access_claims user_id role tenant_id email ttl now jti) secret"

definition refresh_claims :: "string \<Rightarrow> int \<Rightarrow> int \<Rightarrow> string \<Rightarrow> py_dict" where
  "refresh_claims user_id ttl issued jti =
     [(''iss'', VStr token_issuer), (''typ'', VStr ''refresh''), (''sub'', VStr user_id), (''iat'', VInt issued),
      (''exp'', VInt (issued + ttl)), (''jti'', VStr jti)]"

definition create_refresh_token ::
  "crypto \<Rightarrow> string \<Rightarrow> string \<Rightarrow> int \<Rightarrow> int \<Rightarrow> string \<Rightarrow> token_error + (string \<times> string)" where
  "create_refresh_token C user_id secret ttl now jti =
     map_sum id (\<lambda>t. (t, jti)) (token_encode C (refresh_claims user_id ttl now jti) secret)"

text \<open>\<open>isinstance(exp, int)\<close>, which a Boolean also is.\<close>

fun as_int :: "pyv \<Rightarrow> int option" where
  "as_int (VInt i) = Some i"
| "as_int (VBool b) = Some (if b then 1 else 0)"
| "as_int _ = None"

text \<open>
  The two uncaught branches are \<open>UnicodeEncodeError\<close> of \<open>encode("ascii")\<close> and \<open>TypeError\<close> of
  \<open>hmac.compare_digest\<close> on text that is not ASCII.
\<close>

definition decode_token :: "crypto \<Rightarrow> string \<Rightarrow> string \<Rightarrow> int \<Rightarrow> token_error + py_dict" where
  "decode_token C token secret now =
     (if secret = [] then Inl TokenError
      else case split_on (CHR ''.'') token of
        [header_seg, payload_seg, sig_seg] \<Rightarrow>
          (let signing_input = header_seg @ ''.'' @ payload_seg in
           if \<not> is_ascii signing_input then Inl (OtherError ''UnicodeEncodeError'')
           else if \<not> is_ascii sig_seg then Inl (OtherError ''TypeError'')
           else if token_sign C signing_input secret \<noteq> sig_seg then Inl InvalidTokenError
           else case Option.bind (cr_unb64url C payload_seg) (cr_loads C) of
               None \<Rightarrow> Inl InvalidTokenError
             | Some (VDict claims) \<Rightarrow>
                 (case as_int (dict_get claims ''exp'') of
                    None \<Rightarrow> Inl ExpiredTokenError
                  | Some e \<Rightarrow>
                      if now \<ge> e then Inl ExpiredTokenError
                      else if dict_get claims ''iss'' \<noteq> VStr token_issuer then Inl InvalidTokenError
                      else Inr claims)
             | Some _ \<Rightarrow> Inl (OtherError ''AttributeError''))
      | _ \<Rightarrow> Inl InvalidTokenError)"

subsection \<open>Passwords\<close>

text \<open>The Unicode classes of a code point are parameters.\<close>

record unicode_db =
  u_lower :: "string \<Rightarrow> bool"
  u_upper :: "string \<Rightarrow> bool"
  u_digit :: "string \<Rightarrow> bool"
  u_alnum :: "string \<Rightarrow> bool"

definition default_iterations :: nat where "default_iterations = 600000"
definition min_password_length :: nat where "min_password_length = 10"
definition max_password_length :: nat where "max_password_length = 256"

definition hash_algorithm :: string where "hash_algorithm = ''pbkdf2_sha256''"

definition hash_password :: "crypto \<Rightarrow> string \<Rightarrow> nat \<Rightarrow> string \<Rightarrow> string res" where
  "hash_password C salt iterations raw =
     (if raw = [] then Inl (Exn ''ValueError'')
      else Inr (hash_algorithm @ ''$'' @ nat_str iterations @ ''$'' @ cr_b64 C salt @ ''$'' @
                cr_b64 C (cr_pbkdf2 C raw salt iterations)))"

definition parse_nat :: "string \<Rightarrow> nat option" where
  "parse_nat s = (if s \<noteq> [] \<and> list_all is_digit s then Some (digits_val s) else None)"

definition verify_password :: "crypto \<Rightarrow> string \<Rightarrow> string \<Rightarrow> bool" where
  "verify_password C raw stored =
     (case split_max 3 (CHR ''$'') stored of
        [algorithm, iter_s, salt_b64, hash_b64] \<Rightarrow>
          algorithm = hash_algorithm \<and>
          (case (parse_nat iter_s, cr_unb64 C salt_b64, cr_unb64 C hash_b64) of
             (Some iterations, Some salt, Some expected) \<Rightarrow> cr_pbkdf2 C raw salt iterations = expected
           | _ \<Rightarrow> False)
      | _ \<Rightarrow> False)"

text \<open>\<open>int(iter_s)\<close> of a hash with a non-numeric iteration count raises outside the \<open>try\<close>.\<close>

definition needs_rehash :: "nat \<Rightarrow> string \<Rightarrow> bool res" where
  "needs_rehash iterations stored =
     (case split_max 3 (CHR ''$'') stored of
        [algorithm, iter_s, _, _] \<Rightarrow>
          if algorithm \<noteq> hash_algorithm then Inr True
          else (case parse_nat iter_s of None \<Rightarrow> Inl (Exn ''ValueError'') | Some n \<Rightarrow> Inr (n < iterations))
      | _ \<Rightarrow> Inr True)"

definition password_classes :: "unicode_db \<Rightarrow> string \<Rightarrow> nat" where
  "password_classes U raw =
     (let cps = code_points raw in
      (if list_ex (u_lower U) cps then 1 else 0) + (if list_ex (u_upper U) cps then 1 else 0) +
      (if list_ex (u_digit U) cps then 1 else 0) + (if list_ex (\<lambda>c. \<not> u_alnum U c) cps then 1 else 0))"

definition validate_password_strength :: "unicode_db \<Rightarrow> string \<Rightarrow> string list" where
  "validate_password_strength U raw =
     (if length (code_points raw) < min_password_length
      then [''Password must be at least '' @ nat_str min_password_length @ '' characters.''] else []) @
     (if length (code_points raw) > max_password_length
      then [''Password must be at most '' @ nat_str max_password_length @ '' characters.''] else []) @
     (if password_classes U raw < 3
      then [''Password must mix at least three of: lowercase, uppercase, digits, symbols.''] else [])"

subsection \<open>One-time codes\<close>

definition step_seconds :: real where "step_seconds = 30"
definition totp_digits :: nat where "totp_digits = 6"

definition totp_step :: "real \<Rightarrow> int" where
  "totp_step ts = floor (ts / step_seconds)"

definition byte_at :: "string \<Rightarrow> nat \<Rightarrow> nat" where
  "byte_at s i = (if i < length s then of_char (s ! i) else 0)"

text \<open>Dynamic truncation of the digest and the six decimal digits.\<close>

definition truncate_digest :: "string \<Rightarrow> nat" where
  "truncate_digest digest =
     (let off = byte_at digest (length digest - 1) mod 16
      in (byte_at digest off * 2 ^ 24 + byte_at digest (off + 1) * 2 ^ 16 +
          byte_at digest (off + 2) * 2 ^ 8 + byte_at digest (off + 3)) mod 2 ^ 31)"

definition zfill :: "nat \<Rightarrow> string \<Rightarrow> string" where
  "zfill n s = replicate (n - length s) (CHR ''0'') @ s"

definition code_at_step :: "crypto \<Rightarrow> string \<Rightarrow> int \<Rightarrow> string" where
  "code_at_step C secret step =
     zfill totp_digits (nat_str (truncate_digest (cr_hmac1 C (cr_b32decode C secret) (nat step)) mod 10 ^ totp_digits))"

definition totp_code :: "crypto \<Rightarrow> string \<Rightarrow> real \<Rightarrow> string" where
  "totp_code C secret ts = code_at_step C secret (totp_step ts)"

text \<open>The comparison raises \<open>TypeError\<close> on digits that are not ASCII.\<close>

definition verify_totp_step ::
  "unicode_db \<Rightarrow> crypto \<Rightarrow> string \<Rightarrow> string \<Rightarrow> int \<Rightarrow> real \<Rightarrow> int option res" where
  "verify_totp_step U C secret code0 window now =
     (let code = filter (\<lambda>c. c \<noteq> CHR '' '') (py_strip code0) in
      if code = [] \<or> \<not> list_all (u_digit U) (code_points code) \<or> length (code_points code) \<noteq> totp_digits
      then Inr None
      else if \<not> is_ascii code \<and> 0 \<le> window then Inl (Exn ''TypeError'')
      else Inr (foldl (\<lambda>matched off.
                  let ts = now + of_int off * step_seconds
                  in if totp_code C secret ts = code then Some (totp_step ts) else matched)
                None [- window..window]))"

definition verify_totp :: "unicode_db \<Rightarrow> crypto \<Rightarrow> string \<Rightarrow> string \<Rightarrow> int \<Rightarrow> real \<Rightarrow> bool res" where
  "verify_totp U C secret code window now =
     bind_res (verify_totp_step U C secret code window now) (\<lambda>m. Inr (m \<noteq> None))"

subsection \<open>Laws of the codecs and lemmas\<close>

text \<open>Reading back one payload: JSON and Base64 round trips, Base64 text is ASCII without a dot.\<close>

definition codec_reads :: "crypto \<Rightarrow> py_dict \<Rightarrow> bool" where
  "codec_reads C payload \<longleftrightarrow>
     (\<forall>s. CHR ''.'' \<notin> set (cr_b64url C s) \<and> is_ascii (cr_b64url C s)) \<and>
     cr_unb64url C (cr_b64url C (cr_dumps C payload)) = Some (cr_dumps C payload) \<and>
     cr_loads C (cr_dumps C payload) = Some (VDict payload)"

lemma is_ascii_append [simp]: "is_ascii (a @ b) \<longleftrightarrow> is_ascii a \<and> is_ascii b"
  by (simp add: is_ascii_def)

lemma decode_encoded:
  assumes "codec_reads C payload" "token_encode C payload secret = Inr token" "secret \<noteq> []"
  shows "decode_token C token secret now =
     (case as_int (dict_get payload ''exp'') of
        None \<Rightarrow> Inl ExpiredTokenError
      | Some e \<Rightarrow> if now \<ge> e then Inl ExpiredTokenError
                  else if dict_get payload ''iss'' \<noteq> VStr token_issuer then Inl InvalidTokenError
                  else Inr payload)"
proof -
  let ?h = "cr_b64url C (cr_dumps C token_header)"
  let ?p = "cr_b64url C (cr_dumps C payload)"
  let ?s = "token_sign C (?h @ ''.'' @ ?p) secret"
  have t: "token = ?h @ CHR ''.'' # ?p @ CHR ''.'' # ?s"
    using assms(2,3) by (auto simp: token_encode_def token_input_def)
  have nodot: "CHR ''.'' \<notin> set (cr_b64url C x)" "is_ascii (cr_b64url C x)" for x
    using assms(1) by (simp_all add: codec_reads_def)
  have "split_on (CHR ''.'') token = [?h, ?p, ?s]"
    unfolding t by (simp add: split_on_append split_on_no_sep nodot token_sign_def)
  moreover have "is_ascii (?h @ ''.'' @ ?p)" "is_ascii ?s"
    using nodot by (simp_all add: token_sign_def) (simp add: is_ascii_def)
  ultimately show ?thesis
    using assms(1,3) unfolding decode_token_def by (simp add: codec_reads_def)
qed

lemma decode_token_accepted:
  assumes "decode_token C token secret now = Inr claims"
  shows "\<exists>h p. token = h @ ''.'' @ p @ ''.'' @ token_sign C (h @ ''.'' @ p) secret \<and> secret \<noteq> [] \<and>
     Option.bind (cr_unb64url C p) (cr_loads C) = Some (VDict claims) \<and>
     (\<exists>e. as_int (dict_get claims ''exp'') = Some e \<and> now < e) \<and> dict_get claims ''iss'' = VStr token_issuer"
proof -
  obtain h p s where sp: "split_on (CHR ''.'') token = [h, p, s]"
    using assms by (auto simp: decode_token_def split: if_splits list.splits)
  then have "token = h @ ''.'' @ p @ ''.'' @ s"
    using split_on_parts [OF sp] by simp
  with assms sp show ?thesis
    by (intro exI [of _ h] exI [of _ p])
      (simp add: decode_token_def Let_def split: if_splits pyv.splits option.splits)
qed

lemma access_claims_get [simp]:
  "dict_get (access_claims u r t e ttl now j) ''exp'' = VInt (now + ttl)"
  "dict_get (access_claims u r t e ttl now j) ''iss'' = VStr token_issuer"
  "dict_get (access_claims u r t e ttl now j) ''typ'' = VStr ''access''"
  "dict_get (access_claims u r t e ttl now j) ''sub'' = VStr u"
  "dict_get (access_claims u r t e ttl now j) ''role'' = VStr r"
  "dict_get (access_claims u r t e ttl now j) ''tid'' = opt_vstr t"
  "dict_get (access_claims u r t e ttl now j) ''email'' = VStr e"
  "dict_get (access_claims u r t e ttl now j) ''jti'' = VStr j"
  by (simp_all add: access_claims_def dict_get_def)

lemma refresh_claims_get [simp]:
  "dict_get (refresh_claims u ttl now j) ''exp'' = VInt (now + ttl)"
  "dict_get (refresh_claims u ttl now j) ''iss'' = VStr token_issuer"
  "dict_get (refresh_claims u ttl now j) ''typ'' = VStr ''refresh''"
  "dict_get (refresh_claims u ttl now j) ''sub'' = VStr u"
  "dict_get (refresh_claims u ttl now j) ''jti'' = VStr j"
  by (simp_all add: refresh_claims_def dict_get_def)

lemma totp_step_shift: "totp_step (now + of_int i * step_seconds) = totp_step now + i"
proof -
  have "(now + of_int i * step_seconds) / step_seconds = now / step_seconds + of_int i"
    by (simp add: step_seconds_def add_divide_distrib)
  then show ?thesis by (simp add: totp_step_def)
qed

text \<open>The loop over the window keeps the last match.\<close>

lemma foldl_last_match:
  "(case foldl (\<lambda>m x. if P x then Some (f x) else m) None xs of
      None \<Rightarrow> \<forall>x\<in>set xs. \<not> P x
    | Some k \<Rightarrow> \<exists>x\<in>set xs. P x \<and> k = f x)"
  by (induction xs rule: rev_induct) (auto split: option.splits)

lemma verify_totp_step_spec:
  assumes "verify_totp_step U C secret code0 window now = Inr r"
  defines "code \<equiv> filter (\<lambda>c. c \<noteq> CHR '' '') (py_strip code0)"
  shows "(case r of
      Some k \<Rightarrow> code_at_step C secret k = code \<and> \<bar>k - totp_step now\<bar> \<le> window
    | None \<Rightarrow> code = [] \<or> \<not> list_all (u_digit U) (code_points code) \<or> length (code_points code) \<noteq> totp_digits \<or>
        (\<forall>k. \<bar>k - totp_step now\<bar> \<le> window \<longrightarrow> code_at_step C secret k \<noteq> code))"
proof (cases "code = [] \<or> \<not> list_all (u_digit U) (code_points code) \<or> length (code_points code) \<noteq> totp_digits")
  case True
  with assms show ?thesis by (auto simp: verify_totp_step_def code_def)
next
  case False
  let ?P = "\<lambda>i. code_at_step C secret (totp_step now + i) = code"
  have r: "r = foldl (\<lambda>m i. if ?P i then Some (totp_step now + i) else m) None [- window..window]"
    using assms(1) False
    by (simp add: verify_totp_step_def code_def totp_code_def totp_step_shift Let_def cong: if_cong split: if_splits)
  have abs: "\<bar>k - totp_step now\<bar> \<le> window \<longleftrightarrow> k - totp_step now \<in> set [- window..window]" for k
    by auto
  note m = foldl_last_match [where P = ?P and f = "\<lambda>i. totp_step now + i" and xs = "[- window..window]",
      folded r]
  show ?thesis
  proof (cases r)
    case None
    with m have no: "\<forall>i\<in>set [- window..window]. \<not> ?P i" by simp
    have "code_at_step C secret k \<noteq> code" if "\<bar>k - totp_step now\<bar> \<le> window" for k
      using bspec [OF no, of "k - totp_step now"] that by (auto simp: abs_le_iff)
    with None show ?thesis by auto
  next
    case (Some k)
    with m obtain i where "i \<in> set [- window..window]" "?P i" "k = totp_step now + i" by auto
    with Some show ?thesis by auto
  qed
qed

subsection \<open>Properties\<close>

text \<open>An access token decodes to exactly the claims it was issued with as long as the clock is
  before its expiry, and to an expiry error from that second on.\<close>

theorem access_token_roundtrip:
  assumes "codec_reads C (access_claims user role tid email ttl issued jti)"
    and "create_access_token C user role tid email secret ttl issued jti = Inr token"
    and "secret \<noteq> []"
  shows "decode_token C token secret now =
     (if now < issued + ttl then Inr (access_claims user role tid email ttl issued jti)
      else Inl ExpiredTokenError)"
  using decode_encoded [OF assms(1) _ assms(3), of token now] assms(2)
  by (simp add: create_access_token_def)

text \<open>A toy instance of the parameters: JSON texts are looked up, Base64 is the identity on them.\<close>

definition toy_crypto :: "py_dict \<Rightarrow> crypto" where
  "toy_crypto d = \<lparr>cr_hmac256 = (\<lambda>k m. [CHR ''s'']), cr_hmac1 = (\<lambda>k n. [CHR 0x00, CHR 0x00, CHR 0x00, char_of n, CHR 0x00]),
     cr_pbkdf2 = (\<lambda>p s n. p), cr_b64url = (\<lambda>s. filter (\<lambda>c. c \<noteq> CHR ''.'' \<and> (of_char c :: nat) < 128) s),
     cr_unb64url = Some, cr_b64 = (\<lambda>s. s), cr_unb64 = Some,
     cr_b32decode = (\<lambda>s. s), cr_dumps = (\<lambda>p. if p = d then ''d'' else ''x''),
     cr_loads = (\<lambda>s. if s = ''d'' then Some (VDict d) else None), cr_sha256 = (\<lambda>s. s)\<rparr>"

lemma toy_codec_reads: "codec_reads (toy_crypto d) d"
  by (simp add: codec_reads_def toy_crypto_def is_ascii_def list_all_iff)

theorem access_token_roundtrip_witness:
  "let c = access_claims ''u'' ''store_owner'' (Some ''t'') ''e'' 900 100 ''j''; C = toy_crypto c
   in map_sum id (\<lambda>t. decode_token C t ''k'' 999) (create_access_token C ''u'' ''store_owner'' (Some ''t'') ''e'' ''k'' 900 100 ''j'')
      = Inr (Inr c)"
proof -
  let ?c = "access_claims ''u'' ''store_owner'' (Some ''t'') ''e'' 900 100 ''j''"
  obtain tok where t: "create_access_token (toy_crypto ?c) ''u'' ''store_owner'' (Some ''t'') ''e'' ''k'' 900 100 ''j'' = Inr tok"
    by (simp add: create_access_token_def token_encode_def)
  from access_token_roundtrip [OF toy_codec_reads t, of 999] show ?thesis by (simp add: t)
qed

text \<open>Whatever text is presented, claims come out of it only when its third segment is the signature
  of the first two under the server's secret, the expiry is in the future and the issuer is ours.\<close>

theorem decoded_claims_are_signed:
  assumes "decode_token C token secret now = Inr claims"
  shows "secret \<noteq> [] \<and> dict_get claims ''iss'' = VStr token_issuer \<and>
     (\<exists>e. as_int (dict_get claims ''exp'') = Some e \<and> now < e) \<and>
     (\<exists>h p. token = h @ ''.'' @ p @ ''.'' @ token_sign C (h @ ''.'' @ p) secret \<and>
            Option.bind (cr_unb64url C p) (cr_loads C) = Some (VDict claims))"
  using decode_token_accepted [OF assms] by blast

theorem decoded_claims_are_signed_witness:
  "\<exists>t claims. decode_token (toy_crypto claims) t ''k'' 999 = Inr claims \<and> dict_get claims ''iss'' = VStr token_issuer"
proof -
  let ?c = "access_claims ''u'' ''store_owner'' (Some ''t'') ''e'' 900 100 ''j''"
  obtain tok where "token_encode (toy_crypto ?c) ?c ''k'' = Inr tok" by (simp add: token_encode_def)
  from decode_encoded [OF toy_codec_reads this, of 999] have
    d: "decode_token (toy_crypto ?c) tok ''k'' 999 = Inr ?c" by simp
  from d decoded_claims_are_signed [OF d] show ?thesis by blast
qed

definition salt_ok :: "crypto \<Rightarrow> bool" where
  "salt_ok C \<longleftrightarrow> (\<forall>s. cr_unb64 C (cr_b64 C s) = Some s \<and> CHR ''$'' \<notin> set (cr_b64 C s))"

lemma parse_nat_str: "parse_nat (nat_str n) = Some n"
proof -
  have "nat_str n \<noteq> []" by (subst nat_str.simps) simp
  then show ?thesis by (simp add: parse_nat_def nat_str_roundtrip list_all_iff nat_str_digits)
qed

lemma nat_str_no_dollar: "CHR ''$'' \<notin> set (nat_str n)"
  using nat_str_digits [of "CHR ''$''" n] by (auto simp: is_digit_def)

text \<open>A stored hash verifies a password exactly when PBKDF2 derives the same key from it, so the
  password it was made from always verifies.\<close>

theorem password_hash_verifies:
  assumes "salt_ok C" and "hash_password C salt n raw = Inr stored"
  shows "verify_password C raw' stored \<longleftrightarrow> cr_pbkdf2 C raw' salt n = cr_pbkdf2 C raw salt n"
proof -
  have b: "CHR ''$'' \<notin> set (cr_b64 C x)" "cr_unb64 C (cr_b64 C x) = Some x" for x
    using assms(1) by (simp_all add: salt_ok_def)
  have st: "stored = hash_algorithm @ CHR ''$'' # nat_str n @ CHR ''$'' # cr_b64 C salt @ CHR ''$'' # cr_b64 C (cr_pbkdf2 C raw salt n)"
    using assms(2) by (simp add: hash_password_def split: if_splits)
  have "split_max 3 (CHR ''$'') stored =
      [hash_algorithm, nat_str n, cr_b64 C salt, cr_b64 C (cr_pbkdf2 C raw salt n)]"
    unfolding st
    by (simp add: eval_nat_numeral split_max_append split_max_no_sep b nat_str_no_dollar hash_algorithm_def)
  then show ?thesis by (simp add: verify_password_def parse_nat_str b)
qed

text \<open>A toy Base64 whose text has no dollar sign.\<close>

fun esc :: "string \<Rightarrow> string" where
  "esc [] = []"
| "esc (c # cs) = (if c = CHR ''$'' then ''ab'' else [CHR ''c'', c]) @ esc cs"

fun unesc :: "string \<Rightarrow> string" where
  "unesc (x # c # cs) = (if x = CHR ''a'' then CHR ''$'' else c) # unesc cs"
| "unesc _ = []"

definition esc_crypto :: crypto where
  "esc_crypto = (toy_crypto [])\<lparr>cr_b64 := esc, cr_unb64 := (\<lambda>s. Some (unesc s))\<rparr>"

lemma esc_salt_ok: "salt_ok esc_crypto"
proof -
  have "unesc (esc s) = s \<and> CHR ''$'' \<notin> set (esc s)" for s
    by (induction s) auto
  then show ?thesis by (simp add: salt_ok_def esc_crypto_def)
qed

theorem password_hash_verifies_witness:
  "let stored = projr (hash_password esc_crypto ''s'' 600000 ''correct horse'')
   in verify_password esc_crypto ''correct horse'' stored \<and> \<not> verify_password esc_crypto ''battery'' stored"
proof -
  obtain st where st: "hash_password esc_crypto ''s'' 600000 ''correct horse'' = Inr st"
    by (simp add: hash_password_def)
  show ?thesis
    using password_hash_verifies [OF esc_salt_ok st] by (simp add: st) (simp add: esc_crypto_def toy_crypto_def)
qed

text \<open>A one-time code is accepted at the newest step of the window around the current time at
  which the authenticator shows it, and refused when it is not six digits or no step of the window
  shows it. The accepted step is within \<open>window\<close> steps of now.\<close>

theorem totp_accepts_within_window:
  assumes "verify_totp_step U C secret code0 window now = Inr r"
  shows "(case r of
      Some k \<Rightarrow> code_at_step C secret k = filter (\<lambda>c. c \<noteq> CHR '' '') (py_strip code0) \<and> \<bar>k - totp_step now\<bar> \<le> window
    | None \<Rightarrow> filter (\<lambda>c. c \<noteq> CHR '' '') (py_strip code0) = [] \<or>
        \<not> list_all (u_digit U) (code_points (filter (\<lambda>c. c \<noteq> CHR '' '') (py_strip code0))) \<or>
        length (code_points (filter (\<lambda>c. c \<noteq> CHR '' '') (py_strip code0))) \<noteq> totp_digits \<or>
        (\<forall>k. \<bar>k - totp_step now\<bar> \<le> window \<longrightarrow>
             code_at_step C secret k \<noteq> filter (\<lambda>c. c \<noteq> CHR '' '') (py_strip code0)))"
  using verify_totp_step_spec [OF assms] .

definition ascii_unicode :: unicode_db where
  "ascii_unicode = \<lparr>u_lower = (\<lambda>s. s \<noteq> [] \<and> hd s \<in> set ''abcdefghijklmnopqrstuvwxyz''),
     u_upper = (\<lambda>s. s \<noteq> [] \<and> hd s \<in> set ''ABCDEFGHIJKLMNOPQRSTUVWXYZ''),
     u_digit = (\<lambda>s. s \<noteq> [] \<and> is_digit (hd s)),
     u_alnum = (\<lambda>s. s \<noteq> [] \<and> (is_digit (hd s) \<or> hd s \<in> set ''abcdefghijklmnopqrstuvwxyzABCDEFGHIJKLMNOPQRSTUVWXYZ''))\<rparr>"

lemma toy_code: "code_at_step (toy_crypto d) ''k'' 3 = ''000003''"
proof -
  have r: "replicate 5 (CHR ''0'') = ''00000''" by (simp add: eval_nat_numeral)
  show ?thesis
    by (simp add: code_at_step_def toy_crypto_def truncate_digest_def byte_at_def totp_digits_def zfill_def
        nat_str.simps digit_char_def Let_def r)
qed

theorem totp_accepts_within_window_witness:
  "verify_totp_step ascii_unicode (toy_crypto []) ''k'' '' 000 003 '' 0 95 = Inr (Some 3) \<and>
   code_at_step (toy_crypto []) ''k'' 3 = ''000003''"
proof -
  have strip: "filter (\<lambda>c. c \<noteq> CHR '' '') (py_strip '' 000 003 '') = ''000003''"
    by (simp add: py_strip_def is_space_def)
  have step: "totp_step 95 = 3" by (simp add: totp_step_def step_seconds_def)
  have v: "verify_totp_step ascii_unicode (toy_crypto []) ''k'' '' 000 003 '' 0 95 = Inr (Some 3)"
    unfolding verify_totp_step_def strip Let_def totp_code_def
    by (simp add: step toy_code is_cont_byte_def ascii_unicode_def is_digit_def totp_digits_def is_ascii_def)
  from totp_accepts_within_window [OF v] show ?thesis using strip v by simp
qed

end
