(* ===== verification/Identity.thy ===== *)
theory Identity
  imports Tokens Resilience
begin

text \<open>
  \<open>packages/acip_auth/models.py\<close> and the request guards built on it: \<open>current_principal\<close> and the
  per-IP throttle of \<open>auth_common.py\<close>, the tenant guard of \<open>tenant_common.py\<close>, the operator token and
  the write throttle of \<open>admin_common.py\<close>. The admin plane's own tokens are in \<open>AdminAuth\<close>.
\<close>

datatype role = PLATFORM_ADMIN | STORE_OWNER | STORE_STAFF

fun role_str :: "role \<Rightarrow> string" where
  "role_str PLATFORM_ADMIN = ''platform_admin''"
| "role_str STORE_OWNER = ''store_owner''"
| "role_str STORE_STAFF = ''store_staff''"

definition role_of :: "string \<Rightarrow> role option" where
  "role_of s =
     (if s = ''platform_admin'' then Some PLATFORM_ADMIN
      else if s = ''store_owner'' then Some STORE_OWNER
      else if s = ''store_staff'' then Some STORE_STAFF else None)"

lemma role_of_str [simp]: "role_of (role_str r) = Some r"
  by (cases r) (simp_all add: role_of_def)

record principal =
  pp_user :: string
  pp_email :: string
  pp_role :: role
  pp_tenant :: "tenant option"
  pp_token_id :: pyv

definition is_admin :: "principal \<Rightarrow> bool" where
  "is_admin p \<longleftrightarrow> pp_role p = PLATFORM_ADMIN"

definition can_access_tenant :: "principal \<Rightarrow> tenant \<Rightarrow> bool" where
  "can_access_tenant p t \<longleftrightarrow> is_admin p \<or> pp_tenant p = Some t"

text \<open>\<open>authorization.split(" ", 1)\<close> with a case-insensitive \<open>bearer\<close> scheme, then the cookie.\<close>

definition bearer_token :: "string option \<Rightarrow> string option \<Rightarrow> string option" where
  "bearer_token authorization cookie =
     (let h = (case split_max 1 (CHR '' '') (the_or [] authorization) of
                 [scheme, tok] \<Rightarrow> if py_lower scheme = ''bearer'' then Some tok else None
               | _ \<Rightarrow> None);
          t = (if h = None then cookie else h)
      in (case t of Some x \<Rightarrow> if x = [] then None else Some x | None \<Rightarrow> None))"

text \<open>\<open>claims.get("tid")\<close> is a string or null in every token this program signs.\<close>

definition opt_str_of :: "pyv \<Rightarrow> string option" where
  "opt_str_of v = (case v of VStr s \<Rightarrow> Some s | _ \<Rightarrow> None)"

definition principal_of_claims :: "(pyv \<Rightarrow> string) \<Rightarrow> py_dict \<Rightarrow> principal option" where
  "principal_of_claims repr claims =
     (if dict_get claims ''typ'' \<noteq> VStr ''access'' then None
      else case role_of (py_str repr (dict_get claims ''role'')) of
          None \<Rightarrow> None
        | Some r \<Rightarrow> Some \<lparr>pp_user = py_str repr (dict_get claims ''sub''),
                         pp_email = py_str repr (dict_get_or claims ''email'' (VStr [])), pp_role = r,
                         pp_tenant = opt_str_of (dict_get claims ''tid''), pp_token_id = dict_get claims ''jti''\<rparr>)"

definition current_principal ::
  "(pyv \<Rightarrow> string) \<Rightarrow> crypto \<Rightarrow> string \<Rightarrow> int \<Rightarrow> string option \<Rightarrow> string option \<Rightarrow> principal option res" where
  "current_principal repr C secret now authorization cookie =
     (if secret = [] then Inr None
      else case bearer_token authorization cookie of
          None \<Rightarrow> Inr None
        | Some token \<Rightarrow>
            (case decode_token C token secret now of
               Inl (OtherError e) \<Rightarrow> Inl (Exn e)
             | Inl _ \<Rightarrow> Inr None
             | Inr claims \<Rightarrow> Inr (principal_of_claims repr claims)))"

definition require_tenant :: "principal option \<Rightarrow> principal option" where
  "require_tenant p =
     (case p of
        None \<Rightarrow> None
      | Some q \<Rightarrow> if pp_tenant q = None \<or> pp_role q \<notin> {STORE_OWNER, STORE_STAFF} then None else Some q)"

text \<open>\<open>_ip_rate_ok\<close> and \<open>_admin_write_rate_ok\<close>.\<close>

definition ip_rate_ok ::
  "('r, 'x) redis_scheme option \<Rightarrow> int \<Rightarrow> string option \<Rightarrow> real \<Rightarrow> 'r \<Rightarrow> bool \<times> 'r" where
  "ip_rate_ok redis per_min host now s =
     rl_allow redis per_min (''authip:'' @ the_or ''unknown'' host) None now s"

definition admin_write_rate_ok ::
  "('r, 'x) redis_scheme option \<Rightarrow> tenant \<Rightarrow> real \<Rightarrow> 'r \<Rightarrow> bool \<times> 'r" where
  "admin_write_rate_ok redis t now s = rl_allow redis 30 (''adminwrite:'' @ t) None now s"

text \<open>\<open>_authorized\<close>: without a configured token the operator plane is closed to tokens.\<close>

definition operator_authorized :: "string \<Rightarrow> string option \<Rightarrow> bool" where
  "operator_authorized expected token =
     (case token of None \<Rightarrow> False | Some t \<Rightarrow> expected \<noteq> [] \<and> t \<noteq> [] \<and> t = expected)"

text \<open>\<open>_admin_ok\<close>: the operator token or an admin principal.\<close>

definition admin_ok :: "string \<Rightarrow> string option \<Rightarrow> 'p option \<Rightarrow> bool" where
  "admin_ok expected token admin_principal \<longleftrightarrow>
     operator_authorized expected token \<or> admin_principal \<noteq> None"

lemma require_tenant_some:
  "require_tenant p = Some q \<Longrightarrow> p = Some q \<and> (\<exists>t. pp_tenant q = Some t) \<and> pp_role q \<noteq> PLATFORM_ADMIN"
  by (auto simp: require_tenant_def split: option.splits if_splits)

subsection \<open>Properties\<close>


definition demo_claims :: py_dict where
  "demo_claims = access_claims ''u'' ''store_owner'' (Some ''t'') ''e'' 900 100 ''j''"


end
