(* ===== verification/AuthDb.thy ===== *)
theory AuthDb
  imports PyVal
begin

text \<open>
  The identity tables of \<open>db/migrations\<close> (\<open>users\<close>, \<open>auth_sessions\<close>, \<open>password_resets\<close>,
  \<open>email_verifications\<close>) and the mails handed to the mailer, as one record. Generated row ids and
  random tokens are arguments of the operations that insert them.
\<close>

record user_row =
  ur_id :: string
  ur_email :: string
  ur_hash :: string
  ur_name :: "string option"
  ur_role :: string
  ur_tenant :: "tenant option"
  ur_status :: string
  ur_verified :: bool
  ur_failed :: int
  ur_locked :: "real option"

record session_row =
  ss_id :: string
  ss_user :: string
  ss_jti :: string
  ss_expires :: real
  ss_revoked :: bool

record once_row =
  on_id :: string
  on_user :: string
  on_hash :: string
  on_expires :: real
  on_used :: bool

record mail =
  ml_to :: string
  ml_kind :: string
  ml_token :: string

record adb =
  users :: "user_row list"
  sessions :: "session_row list"
  resets :: "once_row list"
  verifs :: "once_row list"
  outbox :: "mail list"

definition empty_adb :: adb where
  "empty_adb = \<lparr>users = [], sessions = [], resets = [], verifs = [], outbox = []\<rparr>"

definition user_by_id :: "string \<Rightarrow> adb \<Rightarrow> user_row option" where
  "user_by_id i a = find (\<lambda>u. ur_id u = i) (users a)"

definition user_by_email :: "string \<Rightarrow> adb \<Rightarrow> user_row option" where
  "user_by_email e a = find (\<lambda>u. py_lower (ur_email u) = e) (users a)"

definition send_mail :: "string \<Rightarrow> string \<Rightarrow> string \<Rightarrow> adb \<Rightarrow> adb" where
  "send_mail to kind token a = a\<lparr>outbox := outbox a @ [\<lparr>ml_to = to, ml_kind = kind, ml_token = token\<rparr>]\<rparr>"

lemma send_mail_frame [simp]:
  "users (send_mail t k x a) = users a" "sessions (send_mail t k x a) = sessions a"
  "resets (send_mail t k x a) = resets a" "verifs (send_mail t k x a) = verifs a"
  by (simp_all add: send_mail_def)

end
