(* ===== verification/Billing.thy ===== *)
theory Billing
  imports BillingProps Identity AuthDb
begin

text \<open>
  The billing endpoints: \<open>services/api/routers/billing.py\<close>, \<open>billing_common.py\<close>,
  \<open>billing_webhooks.py\<close>, the operator's billing operations of \<open>admin_billing_ops.py\<close>, and the
  ZarinPal client of \<open>packages/acip_billing/psp.py\<close>. The gateway's HTTP server is the argument
  \<open>http\<close>, the JSON parser and HMAC are parameters. Mails are appended to the outbox.
\<close>

record billing_cfg =
  bc_provider :: string
  bc_merchant :: string
  bc_verify_required :: bool
  bc_period_days :: int
  bc_trial_plan :: string
  bc_credits_per_unit :: int
  bc_currency :: string
  bc_webhook_secret :: string
  bc_api_origin :: string
  bc_zarinpal_url :: string

subsection \<open>ZarinPal\<close>

datatype http_result = HttpError | BadJson | HttpOk pyv

datatype 'a psp = PspError | PspRaise | PspOk 'a

definition psp_data :: "http_result \<Rightarrow> py_dict psp" where
  "psp_data r =
     (case r of
        HttpError \<Rightarrow> PspError
      | BadJson \<Rightarrow> PspRaise
      | HttpOk (VDict d) \<Rightarrow>
          (case py_or (dict_get d ''data'') (VDict []) of VDict x \<Rightarrow> PspOk x | _ \<Rightarrow> PspRaise)
      | HttpOk _ \<Rightarrow> PspRaise)"

fun num_is :: "pyv \<Rightarrow> int \<Rightarrow> bool" where
  "num_is (VInt i) n = (i = n)"
| "num_is (VNum x) n = (x = of_int n)"
| "num_is (VBool b) n = ((if b then 1 else 0) = n)"
| "num_is _ n = False"

definition zp_request ::
  "(string \<Rightarrow> py_dict \<Rightarrow> http_result) \<Rightarrow> (pyv \<Rightarrow> string) \<Rightarrow> billing_cfg \<Rightarrow> real \<Rightarrow> string \<Rightarrow> string
     \<Rightarrow> (string \<times> string) psp" where
  "zp_request http repr cfg amount descr email =
     (let body0 = [(''merchant_id'', VStr (bc_merchant cfg)), (''amount'', VInt (round_even amount)),
                   (''callback_url'', VStr (bc_api_origin cfg @ ''/billing/callback'')),
                   (''description'', VStr (concat (take 255 (code_points descr))))];
          body = (if email = [] then body0 else body0 @ [(''metadata'', VDict [(''email'', VStr email)])])
      in case psp_data (http ''/pg/v4/payment/request.json'' body) of
           PspError \<Rightarrow> PspError
         | PspRaise \<Rightarrow> PspRaise
         | PspOk data \<Rightarrow>
             if \<not> num_is (dict_get data ''code'') 100 \<or> \<not> truthy (dict_get data ''authority'') then PspError
             else
               let authority = py_str repr (dict_get data ''authority'')
               in PspOk (authority, bc_zarinpal_url cfg @ ''/pg/StartPay/'' @ authority))"

text \<open>The reference of a settled payment, or nothing.\<close>

definition zp_verify ::
  "(string \<Rightarrow> py_dict \<Rightarrow> http_result) \<Rightarrow> (pyv \<Rightarrow> string) \<Rightarrow> billing_cfg \<Rightarrow> string \<Rightarrow> real \<Rightarrow> string option psp" where
  "zp_verify http repr cfg authority amount =
     (case psp_data (http ''/pg/v4/payment/verify.json''
              [(''merchant_id'', VStr (bc_merchant cfg)), (''amount'', VInt (round_even amount)),
               (''authority'', VStr authority)]) of
        PspError \<Rightarrow> PspError
      | PspRaise \<Rightarrow> PspRaise
      | PspOk data \<Rightarrow>
          if num_is (dict_get data ''code'') 100 \<or> num_is (dict_get data ''code'') 101
          then PspOk (Some (py_str repr (dict_get_or data ''ref_id'' (VStr []))))
          else PspOk None)"

text \<open>\<open>_zarinpal()\<close>: configured or manual mode.\<close>

definition zarinpal_on :: "billing_cfg \<Rightarrow> bool" where
  "zarinpal_on cfg \<longleftrightarrow> bc_provider cfg = ''zarinpal'' \<and> bc_merchant cfg \<noteq> []"

subsection \<open>Tenant endpoints\<close>

text \<open>A created order as the shopper sees it: the order, what to do next, where to go.\<close>

record order_reply =
  or_order :: order_view
  or_next :: string
  or_redirect :: string

definition set_order_ref :: "string \<Rightarrow> string \<Rightarrow> db \<Rightarrow> db" where
  "set_order_ref oid r d =
     d\<lparr>orders := update_where (\<lambda>x. od_id x = oid) (\<lambda>x. x\<lparr>od_ref := Some r\<rparr>) (orders d)\<rparr>"

definition start_hosted_payment ::
  "(string \<Rightarrow> py_dict \<Rightarrow> http_result) \<Rightarrow> (pyv \<Rightarrow> string) \<Rightarrow> billing_cfg \<Rightarrow> order_view \<Rightarrow> string \<Rightarrow> string
     \<Rightarrow> db \<Rightarrow> order_reply reply \<times> db" where
  "start_hosted_payment http repr cfg order descr email d =
     (if \<not> zarinpal_on cfg then
        (Ok \<lparr>or_order = order, or_next = ''awaiting_confirmation'', or_redirect = []\<rparr>, d)
      else case zp_request http repr cfg (ov_amount order) descr email of
          PspError \<Rightarrow> (Err 502 ''psp_unavailable'', d)
        | PspRaise \<Rightarrow> (Err 500 ''internal_error'', d)
        | PspOk (authority, url) \<Rightarrow>
            (Ok \<lparr>or_order = order, or_next = ''redirect'', or_redirect = url\<rparr>,
             set_order_ref (ov_id order) authority d))"

text \<open>\<open>CheckoutRequest\<close>: a \<open>plan_code\<close> of 1 to 32 characters.\<close>

definition parse_checkout :: "py_dict \<Rightarrow> string option" where
  "parse_checkout payload =
     (case dict_get payload ''plan_code'' of
        VStr s \<Rightarrow> if 1 \<le> length (code_points s) \<and> length (code_points s) \<le> 32 then Some s else None
      | _ \<Rightarrow> None)"

text \<open>\<open>TopupRequest\<close>: a number in \<open>(0, 10_000_000]\<close>.\<close>

definition parse_topup :: "py_dict \<Rightarrow> real option" where
  "parse_topup payload =
     (case py_float (dict_get payload ''credits'') of
        Inr x \<Rightarrow> if 0 < x \<and> x \<le> 10000000 then Some x else None
      | Inl _ \<Rightarrow> None)"

definition email_ok :: "billing_cfg \<Rightarrow> principal \<Rightarrow> adb \<Rightarrow> bool" where
  "email_ok cfg p a \<longleftrightarrow>
     \<not> bc_verify_required cfg \<or> (case user_by_id (pp_user p) a of Some u \<Rightarrow> ur_verified u | None \<Rightarrow> False)"

definition checkout ::
  "(string \<Rightarrow> py_dict \<Rightarrow> http_result) \<Rightarrow> (pyv \<Rightarrow> string) \<Rightarrow> billing_cfg \<Rightarrow> pool \<Rightarrow> principal option \<Rightarrow> py_dict
     \<Rightarrow> string \<Rightarrow> real \<Rightarrow> adb \<Rightarrow> db \<Rightarrow> order_reply reply \<times> db" where
  "checkout http repr cfg pl p0 payload new_id now a d =
     (case require_tenant p0 of
        None \<Rightarrow> (Err 401 ''unauthenticated'', d)
      | Some p \<Rightarrow>
          if pp_role p \<noteq> STORE_OWNER then (Err 403 ''forbidden'', d)
          else case parse_checkout payload of
              None \<Rightarrow> (Err 422 ''invalid_request'', d)
            | Some code0 \<Rightarrow>
                let plan_code = py_strip code0; t = the (pp_tenant p) in
                with_pg pl d
                  (if \<not> email_ok cfg p a then (Err 403 ''email_unverified'', d)
                   else case create_order PgUp new_id t plan_code (bc_provider cfg) True 30 now d of
                       (Inr (Some order), d1) \<Rightarrow>
                         let d2 = audit pl (pp_email p) ''billing.checkout'' (Some t)
                                    [(''plan'', VStr plan_code), (''order_id'', VStr (ov_id order))] d1
                         in if bc_provider cfg = ''manual'' then
                              (Ok \<lparr>or_order = order, or_next = ''awaiting_confirmation'', or_redirect = []\<rparr>, d2)
                            else start_hosted_payment http repr cfg order (''Vitrin plan: '' @ plan_code) (pp_email p) d2
                     | (_, d1) \<Rightarrow> (Err 404 ''unknown_plan'', d1)))"

definition topup ::
  "(string \<Rightarrow> py_dict \<Rightarrow> http_result) \<Rightarrow> (pyv \<Rightarrow> string) \<Rightarrow> billing_cfg \<Rightarrow> pool \<Rightarrow> principal option \<Rightarrow> py_dict
     \<Rightarrow> string \<Rightarrow> adb \<Rightarrow> db \<Rightarrow> order_reply reply \<times> db" where
  "topup http repr cfg pl p0 payload new_id a d =
     (case require_tenant p0 of
        None \<Rightarrow> (Err 401 ''unauthenticated'', d)
      | Some p \<Rightarrow>
          if pp_role p \<noteq> STORE_OWNER then (Err 403 ''forbidden'', d)
          else case parse_topup payload of
              None \<Rightarrow> (Err 422 ''invalid_request'', d)
            | Some credits \<Rightarrow>
                let t = the (pp_tenant p) in
                with_pg pl d
                  (if \<not> email_ok cfg p a then (Err 403 ''email_unverified'', d)
                   else case create_topup_order PgUp (bc_credits_per_unit cfg) (bc_currency cfg) new_id t credits
                               (bc_provider cfg) d of
                       (Inr (Some order), d1) \<Rightarrow>
                         let d2 = audit pl (pp_email p) ''billing.topup'' (Some t)
                                    [(''credits'', VNum credits), (''order_id'', VStr (ov_id order))] d1
                         in if bc_provider cfg = ''manual'' then
                              (Ok \<lparr>or_order = order, or_next = ''awaiting_confirmation'', or_redirect = []\<rparr>, d2)
                            else start_hosted_payment http repr cfg order (''Vitrin credits: '' @ repr (VNum credits)) (pp_email p) d2
                     | (_, d1) \<Rightarrow> (Err 422 ''invalid_request'', d1)))"

definition my_orders :: "pool \<Rightarrow> principal option \<Rightarrow> int \<Rightarrow> int \<Rightarrow> db \<Rightarrow> order_row list reply" where
  "my_orders pl p0 limit offset d =
     (case require_tenant p0 of
        None \<Rightarrow> Err 401 ''unauthenticated''
      | Some p \<Rightarrow>
          fst (with_pg pl d
            (Ok (take (nat (max 1 (min 200 limit))) (drop (nat (max 0 offset))
                (rev (filter (\<lambda>o1. od_tenant o1 = the (pp_tenant p)) (orders d))))), d)))"

definition my_invoices :: "pool \<Rightarrow> principal option \<Rightarrow> int \<Rightarrow> int \<Rightarrow> db \<Rightarrow> invoice_row list reply" where
  "my_invoices pl p0 limit offset d =
     (case require_tenant p0 of
        None \<Rightarrow> Err 401 ''unauthenticated''
      | Some p \<Rightarrow>
          fst (with_pg pl d
            (Ok (take (nat (max 1 (min 200 limit))) (drop (nat (max 0 offset))
                (rev (filter (\<lambda>i. iv_tenant i = the (pp_tenant p)) (invoices d))))), d)))"

definition billing_preview ::
  "billing_cfg \<Rightarrow> pool \<Rightarrow> principal option \<Rightarrow> string \<Rightarrow> real \<Rightarrow> db \<Rightarrow> preview reply" where
  "billing_preview cfg pl p0 plan_code now d =
     (case require_tenant p0 of
        None \<Rightarrow> Err 401 ''unauthenticated''
      | Some p \<Rightarrow>
          (case proration_preview pl (the (pp_tenant p)) plan_code (bc_period_days cfg) now d of
             Inl _ \<Rightarrow> Err 500 ''internal_error''
           | Inr None \<Rightarrow> Err 404 ''unknown_plan''
           | Inr (Some v) \<Rightarrow> Ok v))"

definition billing_cancel :: "pool \<Rightarrow> principal option \<Rightarrow> db \<Rightarrow> string reply \<times> db" where
  "billing_cancel pl p0 d =
     (case require_tenant p0 of
        None \<Rightarrow> (Err 401 ''unauthenticated'', d)
      | Some p \<Rightarrow>
          if pp_role p \<noteq> STORE_OWNER then (Err 403 ''forbidden'', d)
          else case set_cancel pl (the (pp_tenant p)) True d of
              (Inl _, d1) \<Rightarrow> (Err 500 ''internal_error'', d1)
            | (Inr False, d1) \<Rightarrow> (Err 404 ''no_subscription'', d1)
            | (Inr True, d1) \<Rightarrow> (Ok ''cancel_scheduled'', audit pl (pp_email p) ''billing.cancel'' (pp_tenant p) [] d1))"

definition billing_resume :: "pool \<Rightarrow> principal option \<Rightarrow> db \<Rightarrow> string reply \<times> db" where
  "billing_resume pl p0 d =
     (case require_tenant p0 of
        None \<Rightarrow> (Err 401 ''unauthenticated'', d)
      | Some p \<Rightarrow>
          if pp_role p \<noteq> STORE_OWNER then (Err 403 ''forbidden'', d)
          else case set_cancel pl (the (pp_tenant p)) False d of
              (Inl _, d1) \<Rightarrow> (Err 500 ''internal_error'', d1)
            | (Inr _, d1) \<Rightarrow> (Ok ''resumed'', audit pl (pp_email p) ''billing.resume'' (pp_tenant p) [] d1))"

subsection \<open>Callbacks\<close>

text \<open>\<open>_email_invoice\<close>: the receipt goes to the tenant's oldest owner.\<close>

definition email_invoice :: "paid_result \<Rightarrow> adb \<Rightarrow> adb" where
  "email_invoice r a =
     (case pr_invoice r of None \<Rightarrow> a | Some n \<Rightarrow>
      (case find (\<lambda>u. ur_tenant u = Some (pr_tenant r) \<and> ur_role u = ''store_owner'') (users a) of
         None \<Rightarrow> a
       | Some u \<Rightarrow> if ur_email u = [] then a else send_mail (ur_email u) ''invoice'' (nat_str n) a))"

definition fail_order :: "string \<Rightarrow> db \<Rightarrow> db" where
  "fail_order oid d =
     d\<lparr>orders := update_where (\<lambda>r. od_id r = oid \<and> od_status r = ''pending'')
         (\<lambda>r. r\<lparr>od_status := ''failed''\<rparr>) (orders d)\<rparr>"

text \<open>The newest ZarinPal order with that authority.\<close>

definition order_by_authority :: "string \<Rightarrow> db \<Rightarrow> order_row option" where
  "order_by_authority authority d =
     find (\<lambda>r. od_ref r = Some authority \<and> od_provider r = ''zarinpal'') (rev (orders d))"

text \<open>\<open>GET /billing/callback\<close>: the reply is the flag of the redirect, \<open>failed\<close> or \<open>success\<close>.\<close>

definition zarinpal_callback ::
  "(string \<Rightarrow> py_dict \<Rightarrow> http_result) \<Rightarrow> (pyv \<Rightarrow> string) \<Rightarrow> billing_cfg \<Rightarrow> pool \<Rightarrow> string \<Rightarrow> string \<Rightarrow> real
     \<Rightarrow> adb \<times> db \<Rightarrow> string reply \<times> adb \<times> db" where
  "zarinpal_callback http repr cfg pl authority status now s =
     (let (a, d) = s in
      if authority = [] then (Ok ''failed'', s)
      else if pl \<noteq> PgUp then (Err 500 ''internal_error'', s)
      else case order_by_authority authority d of
          None \<Rightarrow> (Ok ''failed'', s)
        | Some order \<Rightarrow>
            if od_status order = ''paid'' then (Ok ''success'', s)
            else
              let verified = (if zarinpal_on cfg \<and> status = ''OK''
                              then zp_verify http repr cfg authority (od_amount order) else PspOk None) in
              if verified = PspRaise then (Err 500 ''internal_error'', s)
              else case (case verified of PspOk v \<Rightarrow> v | _ \<Rightarrow> None) of
                  None \<Rightarrow>
                    (Ok ''failed'', a,
                     audit pl ''zarinpal'' ''billing.payment_failed'' (Some (od_tenant order))
                       [(''authority'', VStr authority), (''status'', VStr status)] (fail_order (od_id order) d))
                | Some ref \<Rightarrow>
                    (case mark_order_paid pl (od_id order) (bc_period_days cfg) now d of
                       (Inl _, d1) \<Rightarrow> (Err 500 ''internal_error'', a, d1)
                     | (Inr res, d1) \<Rightarrow>
                         (Ok ''success'',
                          (case res of Some r \<Rightarrow> if pr_already r then a else email_invoice r a | None \<Rightarrow> a),
                          audit pl ''zarinpal'' ''billing.paid'' (Some (od_tenant order))
                            [(''authority'', VStr authority), (''ref_id'', VStr ref), (''via'', VStr ''callback'')] d1)))"

text \<open>\<open>POST /billing/webhook\<close>: the reply is \<open>(status, kind, activated plan)\<close>.\<close>

definition webhook ::
  "(string \<Rightarrow> string \<Rightarrow> string) \<Rightarrow> (string \<Rightarrow> pyv option) \<Rightarrow> (pyv \<Rightarrow> string) \<Rightarrow> billing_cfg \<Rightarrow> pool \<Rightarrow> string
     \<Rightarrow> string option \<Rightarrow> real \<Rightarrow> adb \<times> db \<Rightarrow> (string \<times> string \<times> string option) reply \<times> adb \<times> db" where
  "webhook hmac_hex json_loads repr cfg pl raw signature now s =
     (let (a, d) = s in
      if bc_webhook_secret cfg = [] then (Err 503 ''billing_unconfigured'', s)
      else if the_or [] signature = [] then (Err 401 ''bad_signature'', s)
      else if \<not> is_ascii (the_or [] signature) then (Err 500 ''internal_error'', s)
      else if hmac_hex (bc_webhook_secret cfg) raw \<noteq> the_or [] signature then (Err 401 ''bad_signature'', s)
      else case json_loads raw of
          None \<Rightarrow> (Err 400 ''invalid_body'', s)
        | Some (VDict body) \<Rightarrow>
            let oid = py_str repr (dict_get_or body ''order_id'' (VStr []));
                st = py_str repr (dict_get_or body ''status'' (VStr []))
            in if st \<noteq> ''paid'' \<or> oid = [] then (Ok (''ignored'', [], None), s)
               else if pl \<noteq> PgUp then (Err 500 ''internal_error'', s)
               else (case mark_order_paid pl oid (bc_period_days cfg) now d of
                       (Inl _, d1) \<Rightarrow> (Err 500 ''internal_error'', a, d1)
                     | (Inr None, d1) \<Rightarrow> (Err 404 ''unknown_order'', a, d1)
                     | (Inr (Some r), d1) \<Rightarrow>
                         (Ok (''ok'', pr_kind r, pr_plan_code r),
                          (if pr_already r then a else email_invoice r a),
                          audit pl ''provider'' ''billing.paid'' (Some (pr_tenant r))
                            [(''order_id'', VStr oid), (''via'', VStr ''webhook''), (''kind'', VStr (pr_kind r))] d1))
        | Some _ \<Rightarrow> (Err 500 ''internal_error'', s))"

subsection \<open>Operator endpoints\<close>

definition list_orders :: "bool \<Rightarrow> pool \<Rightarrow> db \<Rightarrow> (real \<times> order_row list) reply" where
  "list_orders ok pl d =
     (if \<not> ok then Err 401 ''unauthorized''
      else fst (with_pg pl d
        (Ok (sum_list (map od_amount (filter (\<lambda>r. od_status r = ''paid'') (orders d))),
             take 200 (rev (orders d))), d)))"

definition admin_mark_paid ::
  "bool \<Rightarrow> billing_cfg \<Rightarrow> pool \<Rightarrow> string \<Rightarrow> real \<Rightarrow> adb \<times> db \<Rightarrow> paid_result reply \<times> adb \<times> db" where
  "admin_mark_paid ok cfg pl oid now s =
     (let (a, d) = s in
      if \<not> ok then (Err 401 ''unauthorized'', s)
      else if pl \<noteq> PgUp then (Err 500 ''internal_error'', s)
      else case mark_order_paid pl oid (bc_period_days cfg) now d of
          (Inl _, d1) \<Rightarrow> (Err 500 ''internal_error'', a, d1)
        | (Inr None, d1) \<Rightarrow> (Err 404 ''unknown_order'', a, d1)
        | (Inr (Some r), d1) \<Rightarrow>
            (Ok r, (if pr_already r then a else email_invoice r a),
             audit pl ''operator'' ''billing.mark_paid'' (Some (pr_tenant r))
               [(''order_id'', VStr oid), (''kind'', VStr (pr_kind r))] d1))"

definition run_renewals :: "bool \<Rightarrow> billing_cfg \<Rightarrow> pool \<Rightarrow> real \<Rightarrow> db \<Rightarrow> (nat \<times> nat) reply \<times> db" where
  "run_renewals ok cfg pl now d =
     (if \<not> ok then (Err 401 ''unauthorized'', d)
      else with_pg pl d
        (case process_renewals pl (bc_trial_plan cfg) now d of
           (Inl _, d1) \<Rightarrow> (Err 500 ''internal_error'', d1)
         | (Inr (m, n), d1) \<Rightarrow>
             (Ok (m, n), audit pl ''operator'' ''billing.run_renewals'' None
                [(''downgraded'', VInt (int m)), (''past_due'', VInt (int n))] d1)))"

definition owner_emails :: "adb \<Rightarrow> tenant \<Rightarrow> string list" where
  "owner_emails a t = map ur_email (filter (\<lambda>u. ur_tenant u = Some t \<and> ur_role u = ''store_owner'') (users a))"

definition dun_one :: "adb \<times> nat \<Rightarrow> dunning_row \<Rightarrow> adb \<times> nat" where
  "dun_one s row =
     (case dn_email row of
        None \<Rightarrow> s
      | Some e \<Rightarrow> if e = [] then s else (send_mail e ''dunning'' (the_or ''your plan'' (dn_plan row)) (fst s), snd s + 1))"

definition run_dunning :: "bool \<Rightarrow> pool \<Rightarrow> adb \<times> db \<Rightarrow> (nat \<times> nat) reply \<times> adb \<times> db" where
  "run_dunning ok pl s =
     (let (a, d) = s in
      if \<not> ok then (Err 401 ''unauthorized'', s)
      else case list_past_due pl (owner_emails a) d of
          Inl _ \<Rightarrow> (Err 500 ''internal_error'', s)
        | Inr due \<Rightarrow>
            let (a1, sent) = foldl dun_one (a, 0) due
            in (Ok (length due, sent), a1,
                audit pl ''operator'' ''billing.run_dunning'' None
                  [(''past_due'', VInt (int (length due))), (''emailed'', VInt (int sent))] d))"

subsection \<open>The billing tables under every endpoint\<close>

datatype bill_event =
    Checkout "principal option" py_dict string real
  | Topup "principal option" py_dict string
  | Callback string string real
  | Webhook string "string option" real
  | MarkPaid string real
  | Renew real
  | Dun
  | Cancel "principal option"
  | Resume "principal option"
  | Refund string
  | PlanChange tenant py_dict real

record outside =
  ow_http :: "string \<Rightarrow> py_dict \<Rightarrow> http_result"
  ow_repr :: "pyv \<Rightarrow> string"
  ow_hmac :: "string \<Rightarrow> string \<Rightarrow> string"
  ow_loads :: "string \<Rightarrow> pyv option"
  ow_to_int :: "pyv \<Rightarrow> int option"

text \<open>The primary key refuses an order id that exists, so an insert with a used id is no step.\<close>

fun bill_step :: "outside \<Rightarrow> billing_cfg \<Rightarrow> adb \<times> db \<Rightarrow> bill_event \<Rightarrow> adb \<times> db" where
  "bill_step W cfg (a, d) (Checkout p payload i now) =
     (if i \<in> od_id ` set (orders d) then (a, d)
      else (a, snd (checkout (ow_http W) (ow_repr W) cfg PgUp p payload i now a d)))"
| "bill_step W cfg (a, d) (Topup p payload i) =
     (if i \<in> od_id ` set (orders d) then (a, d)
      else (a, snd (topup (ow_http W) (ow_repr W) cfg PgUp p payload i a d)))"
| "bill_step W cfg s (Callback authority st now) =
     snd (zarinpal_callback (ow_http W) (ow_repr W) cfg PgUp authority st now s)"
| "bill_step W cfg s (Webhook raw sig now) =
     snd (webhook (ow_hmac W) (ow_loads W) (ow_repr W) cfg PgUp raw sig now s)"
| "bill_step W cfg s (MarkPaid i now) = snd (admin_mark_paid True cfg PgUp i now s)"
| "bill_step W cfg (a, d) (Renew now) = (a, snd (run_renewals True cfg PgUp now d))"
| "bill_step W cfg s Dun = snd (run_dunning True PgUp s)"
| "bill_step W cfg (a, d) (Cancel p) = (a, snd (billing_cancel PgUp p d))"
| "bill_step W cfg (a, d) (Resume p) = (a, snd (billing_resume PgUp p d))"
| "bill_step W cfg (a, d) (Refund i) = (a, snd (admin_refund True PgUp i d))"
| "bill_step W cfg (a, d) (PlanChange t payload now) =
     (a, snd (change_tenant_plan (ow_repr W) (ow_to_int W) True True PgUp now t payload d))"

definition tables_ok :: "db \<Rightarrow> bool" where
  "tables_ok d \<longleftrightarrow> distinct (map sb_tenant (subs d)) \<and> distinct (map iv_number (invoices d)) \<and>
     (\<forall>n\<in>set (map iv_number (invoices d)). n \<le> invoice_seq d)"

definition one_invoice :: "db \<Rightarrow> bool" where
  "one_invoice d \<longleftrightarrow> distinct (map iv_order (invoices d)) \<and>
     set (map iv_order (invoices d)) \<subseteq> set (map od_id (orders d)) \<and>
     (\<forall>r\<in>set (orders d). od_id r \<in> set (map iv_order (invoices d)) \<longrightarrow> od_status r = ''paid'')"

lemma tables_ok_cong:
  "map sb_tenant (subs d') = map sb_tenant (subs d) \<Longrightarrow> invoices d' = invoices d \<Longrightarrow>
   invoice_seq d' = invoice_seq d \<Longrightarrow> tables_ok d' = tables_ok d"
  by (simp add: tables_ok_def)

lemma one_invoice_cong: "invoices d' = invoices d \<Longrightarrow> orders d' = orders d \<Longrightarrow> one_invoice d' = one_invoice d"
  by (simp add: one_invoice_def)

lemma audit_ok [simp]: "tables_ok (audit p a b t e d) = tables_ok d" "one_invoice (audit p a b t e d) = one_invoice d"
  by (simp_all add: tables_ok_def one_invoice_def)

lemma settle_ok: "tables_ok d \<Longrightarrow> tables_ok (settle sn oid days now d)"
  unfolding tables_ok_def settle_invoices by (auto simp: settle_subs dest: le_SucI)

lemma set_paid_ok [simp]: "tables_ok (set_paid oid now d) = tables_ok d"
  by (rule tables_ok_cong) simp_all

lemma mark_paid_ok:
  assumes "tables_ok d" shows "tables_ok (snd (mark_order_paid PgUp oid days now d))"
  using assms by (auto simp: mark_order_paid_result settle_ok split: option.splits)

lemma set_paid_status:
  "r \<in> set (orders (set_paid oid now d)) \<Longrightarrow>
     (od_id r = oid \<and> od_status r = ''paid'') \<or> (od_id r \<noteq> oid \<and> r \<in> set (orders d))"
  by (auto simp: set_paid_def set_update_where)

lemma set_paid_ids [simp]: "map od_id (orders (set_paid oid now d)) = map od_id (orders d)"
  by (simp add: set_paid_def update_where_def cong: map_cong)

lemma settle_one_invoice:
  assumes "one_invoice d" "order_snapshot oid d = Some sn" "od_status (fst sn) \<noteq> ''paid''"
  shows "one_invoice (settle sn oid days now (set_paid oid now d))"
proof -
  obtain r where r: "r \<in> set (orders d)" "od_id r = oid" "od_status r \<noteq> ''paid''"
    using assms(2,3) by (auto simp: order_snapshot_def dest: find_SomeD)
  with assms(1) have fresh: "oid \<notin> set (map iv_order (invoices d))" by (auto simp: one_invoice_def)
  have "od_status q = ''paid''"
    if "q \<in> set (orders (set_paid oid now d))" "od_id q \<in> insert oid (set (map iv_order (invoices d)))" for q
    using set_paid_status [OF that(1)] that(2) assms(1) by (auto simp: one_invoice_def)
  with r fresh assms(1) show ?thesis
    unfolding one_invoice_def settle_invoices settle_frame set_paid_frame set_paid_ids by auto
qed

lemma mark_paid_one_invoice:
  assumes "one_invoice d" shows "one_invoice (snd (mark_order_paid PgUp oid days now d))"
  using assms by (auto simp: mark_order_paid_result settle_one_invoice split: option.splits)

lemma fail_order_ok:
  "tables_ok (fail_order oid d) = tables_ok d" "one_invoice d \<Longrightarrow> one_invoice (fail_order oid d)"
proof -
  show "tables_ok (fail_order oid d) = tables_ok d" by (rule tables_ok_cong) (simp_all add: fail_order_def)
  have "map od_id (orders (fail_order oid d)) = map od_id (orders d)"
    by (simp add: fail_order_def update_where_def cong: map_cong)
  then show "one_invoice d \<Longrightarrow> one_invoice (fail_order oid d)"
    unfolding one_invoice_def by (auto simp: fail_order_def set_update_where simp del: set_map split: if_splits)
qed

lemma set_order_ref_ok:
  "tables_ok (set_order_ref oid r d) = tables_ok d" "one_invoice d \<Longrightarrow> one_invoice (set_order_ref oid r d)"
proof -
  show "tables_ok (set_order_ref oid r d) = tables_ok d" by (rule tables_ok_cong) (simp_all add: set_order_ref_def)
  have "map od_id (orders (set_order_ref oid r d)) = map od_id (orders d)"
    by (simp add: set_order_ref_def update_where_def cong: map_cong)
  then show "one_invoice d \<Longrightarrow> one_invoice (set_order_ref oid r d)"
    unfolding one_invoice_def by (auto simp: set_order_ref_def set_update_where simp del: set_map split: if_splits)
qed

lemma order_insert_ok:
  "tables_ok (order_insert o1 d) = tables_ok d"
  "one_invoice d \<Longrightarrow> od_id o1 \<notin> od_id ` set (orders d) \<Longrightarrow> one_invoice (order_insert o1 d)"
  by (auto simp: tables_ok_def one_invoice_def order_insert_def)

lemma create_order_ok:
  assumes "i \<notin> od_id ` set (orders d)"
  shows "tables_ok (snd (create_order PgUp i t c pr ap n now d)) = tables_ok d"
    "one_invoice d \<Longrightarrow> one_invoice (snd (create_order PgUp i t c pr ap n now d))"
  using assms by (auto simp: create_order_def order_insert_ok Let_def split: option.splits)

lemma create_topup_ok:
  assumes "i \<notin> od_id ` set (orders d)"
  shows "tables_ok (snd (create_topup_order PgUp cpu cur i t c pr d)) = tables_ok d"
    "one_invoice d \<Longrightarrow> one_invoice (snd (create_topup_order PgUp cpu cur i t c pr d))"
  using assms by (auto simp: create_topup_order_def order_insert_ok Let_def)

lemma hosted_ok:
  "tables_ok (snd (start_hosted_payment h rp cfg o1 de em d)) = tables_ok d"
  "one_invoice d \<Longrightarrow> one_invoice (snd (start_hosted_payment h rp cfg o1 de em d))"
  by (auto simp: start_hosted_payment_def set_order_ref_ok split: psp.splits)

lemma checkout_ok:
  assumes "i \<notin> od_id ` set (orders d)"
  shows "tables_ok d \<Longrightarrow> tables_ok (snd (checkout h rp cfg PgUp p pay i now a d))"
    "one_invoice d \<Longrightarrow> one_invoice (snd (checkout h rp cfg PgUp p pay i now a d))"
proof -
  have t: "tables_ok d \<Longrightarrow> create_order PgUp i t c pr True 30 now d = (x, d1) \<Longrightarrow> tables_ok d1"
    and o: "one_invoice d \<Longrightarrow> create_order PgUp i t c pr True 30 now d = (x, d1) \<Longrightarrow> one_invoice d1" for t c pr x d1
    using create_order_ok [OF assms, of t c pr True 30 now] by (metis snd_conv)+
  show "tables_ok d \<Longrightarrow> tables_ok (snd (checkout h rp cfg PgUp p pay i now a d))"
    by (auto simp: checkout_def hosted_ok Let_def dest: t split: option.splits prod.splits sum.splits)
  show "one_invoice d \<Longrightarrow> one_invoice (snd (checkout h rp cfg PgUp p pay i now a d))"
    by (auto simp: checkout_def hosted_ok Let_def dest: o split: option.splits prod.splits sum.splits)
qed

lemma topup_ok:
  assumes "i \<notin> od_id ` set (orders d)"
  shows "tables_ok d \<Longrightarrow> tables_ok (snd (topup h rp cfg PgUp p pay i a d))"
    "one_invoice d \<Longrightarrow> one_invoice (snd (topup h rp cfg PgUp p pay i a d))"
proof -
  have t: "tables_ok d \<Longrightarrow> create_topup_order PgUp cpu cur i t c pr d = (x, d1) \<Longrightarrow> tables_ok d1"
    and o: "one_invoice d \<Longrightarrow> create_topup_order PgUp cpu cur i t c pr d = (x, d1) \<Longrightarrow> one_invoice d1"
    for cpu cur t c pr x d1
    using create_topup_ok [OF assms, of cpu cur t c pr] by (metis snd_conv)+
  show "tables_ok d \<Longrightarrow> tables_ok (snd (topup h rp cfg PgUp p pay i a d))"
    by (auto simp: topup_def hosted_ok Let_def dest: t split: option.splits prod.splits sum.splits)
  show "one_invoice d \<Longrightarrow> one_invoice (snd (topup h rp cfg PgUp p pay i a d))"
    by (auto simp: topup_def hosted_ok Let_def dest: o split: option.splits prod.splits sum.splits)
qed

lemma mark_paid_eq_ok:
  "mark_order_paid PgUp oid n now d = (x, d1) \<Longrightarrow> tables_ok d \<Longrightarrow> tables_ok d1"
  "mark_order_paid PgUp oid n now d = (x, d1) \<Longrightarrow> one_invoice d \<Longrightarrow> one_invoice d1"
  using mark_paid_ok [of d oid n now] mark_paid_one_invoice [of d oid n now] by simp_all

lemma callback_ok:
  "tables_ok (snd s) \<Longrightarrow> tables_ok (snd (snd (zarinpal_callback h rp cfg PgUp au st now s)))"
  "one_invoice (snd s) \<Longrightarrow> one_invoice (snd (snd (zarinpal_callback h rp cfg PgUp au st now s)))"
  by (cases s; auto simp: zarinpal_callback_def fail_order_ok Let_def dest: mark_paid_eq_ok
      split: option.splits prod.splits sum.splits psp.splits)+

lemma webhook_ok:
  "tables_ok (snd s) \<Longrightarrow> tables_ok (snd (snd (webhook hm jl rp cfg PgUp raw sg now s)))"
  "one_invoice (snd s) \<Longrightarrow> one_invoice (snd (snd (webhook hm jl rp cfg PgUp raw sg now s)))"
  by (cases s; auto simp: webhook_def Let_def dest: mark_paid_eq_ok
      split: option.splits prod.splits sum.splits pyv.splits)+

lemma admin_mark_paid_ok:
  "tables_ok (snd s) \<Longrightarrow> tables_ok (snd (snd (admin_mark_paid ok cfg PgUp i now s)))"
  "one_invoice (snd s) \<Longrightarrow> one_invoice (snd (snd (admin_mark_paid ok cfg PgUp i now s)))"
  by (cases s; auto simp: admin_mark_paid_def Let_def dest: mark_paid_eq_ok
      split: option.splits prod.splits sum.splits)+

lemma downgrade_tables:
  "invoices (foldl (downgrade_one c now) d ts) = invoices d"
  "invoice_seq (foldl (downgrade_one c now) d ts) = invoice_seq d"
  "orders (foldl (downgrade_one c now) d ts) = orders d"
  by (induction ts arbitrary: d) (simp_all add: downgrade_one_def Let_def)

lemma renewals_ok:
  "tables_ok d \<Longrightarrow> tables_ok (snd (run_renewals ok cfg PgUp now d))"
  "one_invoice d \<Longrightarrow> one_invoice (snd (run_renewals ok cfg PgUp now d))"
proof -
  obtain r d1 where p: "process_renewals PgUp (bc_trial_plan cfg) now d = (r, d1)" by fastforce
  then have f: "invoices d1 = invoices d" "invoice_seq d1 = invoice_seq d" "orders d1 = orders d"
    by (auto simp: process_renewals_def downgrade_tables mark_past_due_def Let_def)
  show "tables_ok (snd (run_renewals ok cfg PgUp now d))" if "tables_ok d"
  proof -
    have "subs d1 = map (renewed (plan_by_code (bc_trial_plan cfg) d) now) (subs d)"
      using process_renewals_spec [of d r d1 "bc_trial_plan cfg" now] p that by (simp add: tables_ok_def)
    then have "map sb_tenant (subs d1) = map sb_tenant (subs d)" by simp
    then have "tables_ok d1" using f that tables_ok_cong [of d1 d] by simp
    with that show ?thesis by (auto simp: run_renewals_def p split: sum.splits)
  qed
  show "one_invoice (snd (run_renewals ok cfg PgUp now d))" if "one_invoice d"
    using f that one_invoice_cong [of d1 d] by (auto simp: run_renewals_def p split: sum.splits)
qed

lemma dunning_db: "snd (snd (run_dunning ok p s)) = snd s \<or>
    (\<exists>m n. snd (snd (run_dunning ok p s)) = audit p ''operator'' ''billing.run_dunning'' None [(''past_due'', m), (''emailed'', n)] (snd s))"
  by (cases s) (auto simp: run_dunning_def Let_def split: sum.splits prod.splits)

lemma set_cancel_ok:
  "tables_ok (snd (set_cancel PgUp t b d)) = tables_ok d" "one_invoice (snd (set_cancel PgUp t b d)) = one_invoice d"
proof -
  have "map sb_tenant (subs (snd (set_cancel PgUp t b d))) = map sb_tenant (subs d)"
    by (simp add: set_cancel_def update_where_def cong: map_cong)
  then show "tables_ok (snd (set_cancel PgUp t b d)) = tables_ok d"
    by (intro tables_ok_cong) (simp_all add: set_cancel_def)
  show "one_invoice (snd (set_cancel PgUp t b d)) = one_invoice d"
    by (intro one_invoice_cong) (simp_all add: set_cancel_def)
qed

lemma cancel_resume_ok:
  "tables_ok d \<Longrightarrow> tables_ok (snd (billing_cancel PgUp p d))" "one_invoice d \<Longrightarrow> one_invoice (snd (billing_cancel PgUp p d))"
  "tables_ok d \<Longrightarrow> tables_ok (snd (billing_resume PgUp p d))" "one_invoice d \<Longrightarrow> one_invoice (snd (billing_resume PgUp p d))"
proof -
  have e: "set_cancel PgUp t b d = (x, d1) \<Longrightarrow> (tables_ok d1 = tables_ok d) \<and> (one_invoice d1 = one_invoice d)" for t b x d1
    using set_cancel_ok [of t b d] by simp
  show "tables_ok d \<Longrightarrow> tables_ok (snd (billing_cancel PgUp p d))" "one_invoice d \<Longrightarrow> one_invoice (snd (billing_cancel PgUp p d))"
    by (auto simp: billing_cancel_def dest: e split: option.splits prod.splits sum.splits bool.splits)
  show "tables_ok d \<Longrightarrow> tables_ok (snd (billing_resume PgUp p d))" "one_invoice d \<Longrightarrow> one_invoice (snd (billing_resume PgUp p d))"
    by (auto simp: billing_resume_def dest: e split: option.splits prod.splits sum.splits bool.splits)
qed

lemma refund_ok: "tables_ok d \<Longrightarrow> tables_ok (snd (admin_refund ok PgUp i d))"
  by (auto simp: admin_refund_def refund_order_def tables_ok_def split: option.splits)

lemma plan_change_ok:
  "tables_ok d \<Longrightarrow> tables_ok (snd (change_tenant_plan rp ti ok rok PgUp now t pay d))"
  "one_invoice d \<Longrightarrow> one_invoice (snd (change_tenant_plan rp ti ok rok PgUp now t pay d))"
  by (auto simp: change_tenant_plan_def set_tenant_plan_def tables_ok_def one_invoice_def sub_upsert_tenants Let_def
      split: option.splits)

lemma bill_step_tables_ok: "tables_ok (snd s) \<Longrightarrow> tables_ok (snd (bill_step W cfg s e))"
proof (cases e)
  case Dun
  then show "tables_ok (snd s) \<Longrightarrow> ?thesis" using dunning_db [of True PgUp s] by auto
qed (cases s; simp add: checkout_ok topup_ok callback_ok webhook_ok admin_mark_paid_ok renewals_ok
      cancel_resume_ok refund_ok plan_change_ok)+

fun is_refund :: "bill_event \<Rightarrow> bool" where
  "is_refund (Refund i) = True"
| "is_refund _ = False"

lemma bill_step_one_invoice:
  "one_invoice (snd s) \<Longrightarrow> \<not> is_refund e \<Longrightarrow> one_invoice (snd (bill_step W cfg s e))"
proof (cases e)
  case Dun
  then show "one_invoice (snd s) \<Longrightarrow> ?thesis" using dunning_db [of True PgUp s] by auto
qed (cases s; simp add: checkout_ok topup_ok callback_ok webhook_ok admin_mark_paid_ok renewals_ok
      cancel_resume_ok plan_change_ok)+

interpretation bill: invariant_machine "bill_step W cfg" "\<lambda>s. tables_ok (snd s)" for W cfg
  by unfold_locales (rule bill_step_tables_ok)

text \<open>The same machine with refunds left out.\<close>

interpretation bill_nr: invariant_machine "\<lambda>s e. if is_refund e then s else bill_step W cfg s e"
    "\<lambda>s. one_invoice (snd s)" for W cfg
  by unfold_locales (simp add: bill_step_one_invoice)

lemma foldl_no_refund:
  "list_all (\<lambda>e. \<not> is_refund e) es \<Longrightarrow>
     foldl (\<lambda>s e. if is_refund e then s else bill_step W cfg s e) s es = foldl (bill_step W cfg) s es"
  by (induction es arbitrary: s) simp_all

subsection \<open>Properties\<close>



text \<open>C10: As long as no order is refunded, one after the other the endpoints give an order at most one
  invoice - hence settle it at most once - and every invoiced order is paid.\<close>

theorem one_invoice_per_order:
  assumes "one_invoice d" and "list_all (\<lambda>e. \<not> is_refund e) es"
  shows "one_invoice (snd (foldl (bill_step W cfg) (a, d) es))"
  using bill_nr.run_inv [of "(a, d)" W cfg es] assms by (simp add: foldl_no_refund)

theorem one_invoice_per_order_witness:
  "\<forall>W cfg. one_invoice (snd (foldl (bill_step W cfg) (empty_adb, topup_db) [MarkPaid oid1 1, MarkPaid oid1 2, Dun]))"
  by (intro allI, rule one_invoice_per_order) (simp_all add: one_invoice_def topup_db_def empty_db_def)

text \<open>C3: The redirect alone grants nothing. A ZarinPal callback leaves the ledger, the subscriptions and
  the invoices as they are, unless its status is OK, it names the authority of an unpaid order of
  ours, and the gateway confirmed the payment of that order's own amount.\<close>

theorem callback_grants_only_verified:
  assumes "(r, a', d') = zarinpal_callback http repr cfg pl authority st now (a, d)"
    and "ledger d' \<noteq> ledger d \<or> subs d' \<noteq> subs d \<or> invoices d' \<noteq> invoices d"
  shows "st = ''OK'' \<and> (\<exists>order ref. order_by_authority authority d = Some order \<and> od_status order \<noteq> ''paid'' \<and>
     zp_verify http repr cfg authority (od_amount order) = PspOk (Some ref))"
  using assms
  by (auto simp: zarinpal_callback_def fail_order_def Let_def split: if_splits option.splits psp.splits)

definition zp_cfg :: billing_cfg where
  "zp_cfg = \<lparr>bc_provider = ''zarinpal'', bc_merchant = ''m'', bc_verify_required = False, bc_period_days = 30,
     bc_trial_plan = ''free'', bc_credits_per_unit = 1000, bc_currency = ''USD'', bc_webhook_secret = ''w'',
     bc_api_origin = [], bc_zarinpal_url = []\<rparr>"

definition zp_db :: db where
  "zp_db = empty_db\<lparr>orders := [topup_order\<lparr>od_provider := ''zarinpal'', od_ref := Some ''A1''\<rparr>]\<rparr>"

definition settled_http :: "string \<Rightarrow> py_dict \<Rightarrow> http_result" where
  "settled_http path body = HttpOk (VDict [(''data'', VDict [(''code'', VInt 100), (''ref_id'', VInt 77)])])"

theorem callback_grants_only_verified_witness:
  "\<exists>ref. zp_verify settled_http (\<lambda>_. []) zp_cfg ''A1'' 5 = PspOk (Some ref) \<and>
     invoices (snd (snd (zarinpal_callback settled_http (\<lambda>_. []) zp_cfg PgUp ''A1'' ''OK'' 7 (empty_adb, zp_db)))) \<noteq> []"
proof -
  let ?z = "zarinpal_callback settled_http (\<lambda>_. []) zp_cfg PgUp ''A1'' ''OK'' 7 (empty_adb, zp_db)"
  have a: "order_by_authority ''A1'' zp_db = Some (topup_order\<lparr>od_provider := ''zarinpal'', od_ref := Some ''A1''\<rparr>)"
    by (simp add: order_by_authority_def zp_db_def topup_order_def)
  have v: "zp_verify settled_http (\<lambda>_. []) zp_cfg ''A1'' 5 = PspOk (Some ''77'')"
    by (simp add: zp_verify_def settled_http_def psp_data_def dict_get_def dict_get_or_def py_or_def int_str_def
        nat_str.simps digit_char_def)
  have sn: "order_snapshot oid1 zp_db = Some (topup_order\<lparr>od_provider := ''zarinpal'', od_ref := Some ''A1''\<rparr>, None)"
    by (simp add: order_snapshot_def zp_db_def topup_order_def)
  have "snd (snd ?z) = audit PgUp ''zarinpal'' ''billing.paid'' (Some ''t'')
       [(''authority'', VStr ''A1''), (''ref_id'', VStr ''77''), (''via'', VStr ''callback'')]
       (settle (topup_order\<lparr>od_provider := ''zarinpal'', od_ref := Some ''A1''\<rparr>, None) oid1 30 7 (set_paid oid1 7 zp_db))"
    using a v sn
    by (simp add: zarinpal_callback_def mark_order_paid_result zp_cfg_def zarinpal_on_def topup_order_def Let_def)
  then have i: "map iv_order (invoices (snd (snd ?z))) = [oid1]"
    by (simp add: settle_invoices) (simp add: zp_db_def empty_db_def)
  then have "invoices (snd (snd ?z)) \<noteq> invoices zp_db" by (auto simp: zp_db_def empty_db_def)
  with callback_grants_only_verified [of "fst ?z" "fst (snd ?z)" "snd (snd ?z)"] i v show ?thesis by auto
qed

text \<open>C2: A webhook changes nothing unless a secret is configured, the signature header is the HMAC of the
  body under it, and the body is a JSON object that reports a paid order.\<close>

theorem webhook_changes_only_if_signed:
  assumes "(r, s') = webhook hmac_hex json_loads repr cfg pl raw signature now s" and "s' \<noteq> s"
  shows "bc_webhook_secret cfg \<noteq> [] \<and> signature = Some (hmac_hex (bc_webhook_secret cfg) raw) \<and>
     (\<exists>body. json_loads raw = Some (VDict body) \<and>
        py_str repr (dict_get_or body ''status'' (VStr [])) = ''paid'')"
  using assms
  by (cases s; cases signature)
    (auto simp: webhook_def Let_def split: if_splits option.splits pyv.splits)

theorem webhook_changes_only_if_signed_witness:
  "\<exists>s'. snd (webhook (\<lambda>k m. ''ff'') (\<lambda>raw. Some (VDict [(''order_id'', VStr oid1), (''status'', VStr ''paid'')]))
      (\<lambda>_. []) zp_cfg PgUp ''{}'' (Some ''ff'') 7 (empty_adb, topup_db)) = s' \<and> s' \<noteq> (empty_adb, topup_db) \<and>
     bc_webhook_secret zp_cfg \<noteq> []"
proof -
  let ?w = "webhook (\<lambda>k m. ''ff'') (\<lambda>raw. Some (VDict [(''order_id'', VStr oid1), (''status'', VStr ''paid'')]))
      (\<lambda>_. []) zp_cfg PgUp ''{}'' (Some ''ff'') 7 (empty_adb, topup_db)"
  have "od_status (fst (topup_order, None :: plan_row option)) \<noteq> ''paid''" by (simp add: topup_order_def)
  then have "map iv_order (invoices (snd (snd ?w))) = [oid1]"
    by (simp add: webhook_def zp_cfg_def dict_get_or_def is_ascii_def mark_order_paid_result settle_invoices
        paid_reply_def Let_def oid1_def [symmetric])
      (simp add: topup_db_def empty_db_def oid1_def)
  then have ne: "snd ?w \<noteq> (empty_adb, topup_db)" by (auto simp: topup_db_def empty_db_def)
  with webhook_changes_only_if_signed [of "fst ?w" "snd ?w"] show ?thesis by auto
qed

end
