(* ===== verification/Sessions.thy ===== *)
theory Sessions
  imports Identity AuthDb Subscription
begin

text \<open>
  The customer identity endpoints: \<open>services/api/routers/auth.py\<close> (signup, login, refresh, logout,
  me), \<open>auth_password.py\<close> (reset, verification, password and e-mail changes) and the helpers of
  \<open>auth_common.py\<close>. The per-IP throttle's answer is an argument; random tokens, generated ids and
  salts are the record \<open>fresh\<close>. Cookies and the reply's echo of the user are left out.
\<close>

record auth_cfg =
  ac_secret :: string
  ac_signup_enabled :: bool
  ac_access_ttl :: int
  ac_refresh_ttl :: int
  ac_max_attempts :: int
  ac_lockout_minutes :: int
  ac_trial_plan :: string

record fresh =
  fr_tenant :: string
  fr_user :: string
  fr_session :: string
  fr_access_jti :: string
  fr_jti :: string
  fr_token :: string
  fr_once :: string
  fr_salt :: string
  fr_slug :: string

type_synonym env = "(pyv \<Rightarrow> string) \<times> unicode_db \<times> crypto"

subsection \<open>Helpers\<close>

definition hash_token :: "crypto \<Rightarrow> string \<Rightarrow> string" where
  "hash_token C raw = cr_sha256 C raw"

text \<open>\<open>_EMAIL_RE\<close>: one at-sign, no white space, a dot inside the domain.\<close>

definition email_re :: "string \<Rightarrow> bool" where
  "email_re s =
     (case split_on (CHR ''@'') s of
        [l, d] \<Rightarrow> l \<noteq> [] \<and> \<not> list_ex is_space s \<and> list_ex (\<lambda>i. d ! i = CHR ''.'') [1..<length d - 1]
      | _ \<Rightarrow> False)"

text \<open>\<open>_slugify\<close>: runs of characters outside \<open>a-z0-9\<close> become one hyphen; the suffix is random.\<close>

definition is_slug_char :: "char \<Rightarrow> bool" where
  "is_slug_char c \<longleftrightarrow> (let n = (of_char c :: nat) in (97 \<le> n \<and> n \<le> 122) \<or> (48 \<le> n \<and> n \<le> 57))"

fun slug_sub :: "bool \<Rightarrow> string \<Rightarrow> string" where
  "slug_sub in_run [] = []"
| "slug_sub in_run (c # cs) =
     (if is_slug_char c then c # slug_sub False cs
      else if in_run then slug_sub True cs else CHR ''-'' # slug_sub True cs)"

definition slugify :: "string \<Rightarrow> string \<Rightarrow> string" where
  "slugify hex name =
     (let base = take 40 (strip_chars ''-'' (slug_sub False (py_lower name)))
      in (if base = [] then ''store'' else base) @ ''-'' @ hex)"

definition pstr :: "env \<Rightarrow> py_dict \<Rightarrow> string \<Rightarrow> string" where
  "pstr E payload k = py_str (fst E) (dict_get_or payload k (VStr []))"

definition pstr_clean :: "env \<Rightarrow> py_dict \<Rightarrow> string \<Rightarrow> string" where
  "pstr_clean E payload k = py_lower (py_strip (pstr E payload k))"

record token_pair =
  tp_access :: string
  tp_refresh :: string
  tp_jti_hash :: string
  tp_expires :: real

definition issue_tokens ::
  "crypto \<Rightarrow> auth_cfg \<Rightarrow> fresh \<Rightarrow> string \<Rightarrow> string \<Rightarrow> tenant option \<Rightarrow> string \<Rightarrow> real \<Rightarrow> token_pair" where
  "issue_tokens C cfg F user role tid email now =
     \<lparr>tp_access = projr (create_access_token C user role tid email (ac_secret cfg) (ac_access_ttl cfg) (floor now) (fr_access_jti F)),
      tp_refresh = fst (projr (create_refresh_token C user (ac_secret cfg) (ac_refresh_ttl cfg) (floor now) (fr_jti F))),
      tp_jti_hash = hash_token C (fr_jti F),
      tp_expires = now + of_int (ac_refresh_ttl cfg)\<rparr>"

definition insert_session :: "fresh \<Rightarrow> string \<Rightarrow> token_pair \<Rightarrow> adb \<Rightarrow> adb" where
  "insert_session F user tp a =
     a\<lparr>sessions := sessions a @ [\<lparr>ss_id = fr_session F, ss_user = user, ss_jti = tp_jti_hash tp,
         ss_expires = tp_expires tp, ss_revoked = False\<rparr>]\<rparr>"

definition create_verification :: "crypto \<Rightarrow> fresh \<Rightarrow> string \<Rightarrow> real \<Rightarrow> adb \<Rightarrow> adb" where
  "create_verification C F user now a =
     a\<lparr>verifs := verifs a @ [\<lparr>on_id = fr_once F, on_user = user, on_hash = hash_token C (fr_token F),
         on_expires = now + 24 * 3600, on_used = False\<rparr>]\<rparr>"

definition update_user :: "string \<Rightarrow> (user_row \<Rightarrow> user_row) \<Rightarrow> adb \<Rightarrow> adb" where
  "update_user i f a = a\<lparr>users := update_where (\<lambda>u. ur_id u = i) f (users a)\<rparr>"

definition revoke_where :: "(session_row \<Rightarrow> bool) \<Rightarrow> adb \<Rightarrow> adb" where
  "revoke_where P a = a\<lparr>sessions := update_where P (\<lambda>s. s\<lparr>ss_revoked := True\<rparr>) (sessions a)\<rparr>"

subsection \<open>Signup and login\<close>

definition signup ::
  "env \<Rightarrow> auth_cfg \<Rightarrow> bool \<Rightarrow> (bool \<times> real) option \<Rightarrow> fresh \<Rightarrow> real \<Rightarrow> py_dict \<Rightarrow> adb \<times> db
     \<Rightarrow> token_pair reply \<times> adb \<times> db" where
  "signup E cfg rate_ok policy F now payload st =
     (let (repr, U, C) = E; (a, d) = st;
          email = pstr_clean E payload ''email'';
          password = pstr E payload ''password'';
          full_name = py_strip (pstr E payload ''full_name'');
          store_name = py_strip (pstr E payload ''store_name'') in
      if \<not> ac_signup_enabled cfg then (Err 403 ''signup_disabled'', st)
      else if ac_secret cfg = [] then (Err 503 ''auth_unconfigured'', st)
      else if \<not> rate_ok then (Err 429 ''rate_limited'', st)
      else if \<not> email_re email then (Err 422 ''invalid_email'', st)
      else if store_name = [] then (Err 422 ''invalid_request'', st)
      else if validate_password_strength U password \<noteq> [] then (Err 422 ''weak_password'', st)
      else if user_by_email email a \<noteq> None then (Err 409 ''email_taken'', st)
      else
        let plan = plan_by_code (ac_trial_plan cfg) d;
            t = fr_tenant F;
            d1 = d\<lparr>tenants := tenants d @ [\<lparr>tn_id = t, tn_name = store_name, tn_plan = map_option pl_id plan,
                    tn_status = ''active'', tn_notes = None, tn_slug = slugify (fr_slug F) store_name, tn_settings = [],
                    tn_tracking = True\<rparr>]\<rparr>;
            u = \<lparr>ur_id = fr_user F, ur_email = email, ur_hash = projr (hash_password C (fr_salt F) default_iterations password),
                 ur_name = (if full_name = [] then None else Some full_name), ur_role = ''store_owner'',
                 ur_tenant = Some t, ur_status = ''active'', ur_verified = False, ur_failed = 0, ur_locked = None\<rparr>;
            d2 = (case plan of None \<Rightarrow> d1
                  | Some p \<Rightarrow> d1\<lparr>subs := subs d1 @ [\<lparr>sb_tenant = t, sb_plan = pl_id p, sb_status = ''trialing'',
                       sb_period_end = Some (now + 14 * 86400), sb_cancel = False\<rparr>]\<rparr>);
            d3 = grant_signup_credit policy t now d2;
            tp = issue_tokens C cfg F (fr_user F) ''store_owner'' (Some t) email now;
            a1 = create_verification C F (fr_user F) now (insert_session F (fr_user F) tp (a\<lparr>users := users a @ [u]\<rparr>));
            d4 = audit PgUp email ''auth.signup'' (Some t) [(''store_name'', VStr store_name)] d3
        in (Ok tp, send_mail email ''verify'' (fr_token F) a1, d4))"

definition login ::
  "env \<Rightarrow> auth_cfg \<Rightarrow> bool \<Rightarrow> fresh \<Rightarrow> real \<Rightarrow> py_dict \<Rightarrow> adb \<times> db \<Rightarrow> token_pair reply \<times> adb \<times> db" where
  "login E cfg rate_ok F now payload st =
     (let (repr, U, C) = E; (a, d) = st;
          email = pstr_clean E payload ''email'';
          password = pstr E payload ''password'' in
      if ac_secret cfg = [] then (Err 503 ''auth_unconfigured'', st)
      else if \<not> rate_ok then (Err 429 ''rate_limited'', st)
      else case user_by_email email a of
          None \<Rightarrow> (Err 401 ''invalid_credentials'', st)
        | Some u \<Rightarrow>
            if ur_status u \<noteq> ''active'' then (Err 403 ''account_disabled'', st)
            else if (case ur_locked u of None \<Rightarrow> False | Some l \<Rightarrow> l > now) then (Err 429 ''account_locked'', st)
            else if \<not> verify_password C password (ur_hash u) then
              (let attempts = ur_failed u + 1;
                   lock = (if attempts \<ge> ac_max_attempts cfg then Some (now + 60 * of_int (ac_lockout_minutes cfg)) else None)
               in (Err 401 ''invalid_credentials'',
                   update_user (ur_id u) (\<lambda>r. r\<lparr>ur_failed := attempts, ur_locked := lock\<rparr>) a, d))
            else (case needs_rehash default_iterations (ur_hash u) of
                Inl _ \<Rightarrow> (Err 500 ''internal_error'', st)
              | Inr re \<Rightarrow>
                  if re \<and> password = [] then (Err 500 ''internal_error'', st)
                  else
                    let h = (if re then projr (hash_password C (fr_salt F) default_iterations password) else ur_hash u);
                        a1 = update_user (ur_id u) (\<lambda>r. r\<lparr>ur_failed := 0, ur_locked := None, ur_hash := h\<rparr>) a;
                        tp = issue_tokens C cfg F (ur_id u) (ur_role u) (ur_tenant u) (ur_email u) now
                    in (Ok tp, insert_session F (ur_id u) tp a1, audit PgUp email ''auth.login'' (ur_tenant u) [] d)))"

subsection \<open>Refresh and logout\<close>

definition presented_refresh :: "env \<Rightarrow> py_dict \<Rightarrow> string option \<Rightarrow> string" where
  "presented_refresh E payload cookie =
     py_str (fst E) (py_or (dict_get_or payload ''refresh_token'' (VStr []))
                       (py_or (opt_vstr cookie) (VStr [])))"

definition session_by_jti :: "string \<Rightarrow> adb \<Rightarrow> (session_row \<times> user_row) option" where
  "session_by_jti h a =
     (case find (\<lambda>s. ss_jti s = h) (sessions a) of
        None \<Rightarrow> None
      | Some s \<Rightarrow> map_option (Pair s) (user_by_id (ss_user s) a))"

text \<open>The hash of the \<open>jti\<close> of a valid refresh token; \<open>Inr None\<close> is a token error.\<close>

definition refresh_jti_hash :: "env \<Rightarrow> auth_cfg \<Rightarrow> real \<Rightarrow> string \<Rightarrow> (string option) res" where
  "refresh_jti_hash E cfg now raw =
     (let (repr, U, C) = E in
      case decode_token C raw (ac_secret cfg) (floor now) of
        Inl (OtherError e) \<Rightarrow> Inl (Exn e)
      | Inl _ \<Rightarrow> Inr None
      | Inr claims \<Rightarrow>
          if dict_get claims ''typ'' \<noteq> VStr ''refresh'' then Inr None
          else Inr (Some (hash_token C (py_str repr (dict_get_or claims ''jti'' (VStr []))))))"

text \<open>The rotation transaction, for a session that was read as live.\<close>

definition rotate_session :: "crypto \<Rightarrow> auth_cfg \<Rightarrow> fresh \<Rightarrow> real \<Rightarrow> session_row \<times> user_row \<Rightarrow> adb \<Rightarrow> token_pair \<times> adb" where
  "rotate_session C cfg F now su a =
     (let (s, u) = su;
          tp = issue_tokens C cfg F (ur_id u) (ur_role u) (ur_tenant u) (ur_email u) now
      in (tp, insert_session F (ur_id u) tp (revoke_where (\<lambda>x. ss_id x = ss_id s) a)))"

definition refresh ::
  "env \<Rightarrow> auth_cfg \<Rightarrow> fresh \<Rightarrow> real \<Rightarrow> py_dict \<Rightarrow> string option \<Rightarrow> adb \<Rightarrow> token_pair reply \<times> adb" where
  "refresh E cfg F now payload cookie a =
     (let (repr, U, C) = E in
      if ac_secret cfg = [] then (Err 503 ''auth_unconfigured'', a)
      else case refresh_jti_hash E cfg now (presented_refresh E payload cookie) of
          Inl _ \<Rightarrow> (Err 500 ''internal_error'', a)
        | Inr None \<Rightarrow> (Err 401 ''invalid_token'', a)
        | Inr (Some h) \<Rightarrow>
            (case session_by_jti h a of
               None \<Rightarrow> (Err 401 ''invalid_token'', a)
             | Some (s, u) \<Rightarrow>
                 if ss_revoked s then (Err 401 ''invalid_token'', revoke_where (\<lambda>x. ss_user x = ur_id u) a)
                 else if ur_status u \<noteq> ''active'' then (Err 403 ''account_disabled'', a)
                 else (let (tp, a1) = rotate_session C cfg F now (s, u) a in (Ok tp, a1))))"

definition logout :: "env \<Rightarrow> auth_cfg \<Rightarrow> real \<Rightarrow> py_dict \<Rightarrow> string option \<Rightarrow> adb \<Rightarrow> string reply \<times> adb" where
  "logout E cfg now payload cookie a =
     (let (repr, U, C) = E; raw = presented_refresh E payload cookie in
      if raw = [] \<or> ac_secret cfg = [] then (Ok ''logged_out'', a)
      else case decode_token C raw (ac_secret cfg) (floor now) of
          Inl (OtherError e) \<Rightarrow> (Err 500 ''internal_error'', a)
        | Inl _ \<Rightarrow> (Ok ''logged_out'', a)
        | Inr claims \<Rightarrow>
            (Ok ''logged_out'',
             revoke_where (\<lambda>s. ss_jti s = hash_token C (py_str repr (dict_get_or claims ''jti'' (VStr [])))) a))"

definition me :: "principal option \<Rightarrow> (principal \<times> bool) reply" where
  "me p = (case p of None \<Rightarrow> Err 401 ''unauthenticated'' | Some q \<Rightarrow> Ok (q, is_admin q))"

subsection \<open>Reset, verification, changes\<close>

definition reset_request ::
  "env \<Rightarrow> bool \<Rightarrow> fresh \<Rightarrow> real \<Rightarrow> py_dict \<Rightarrow> adb \<Rightarrow> string reply \<times> adb" where
  "reset_request E rate_ok F now payload a =
     (let (repr, U, C) = E; email = pstr_clean E payload ''email'' in
      if \<not> rate_ok then (Err 429 ''rate_limited'', a)
      else if \<not> email_re email then (Ok ''accepted'', a)
      else case user_by_email email a of
          None \<Rightarrow> (Ok ''accepted'', a)
        | Some u \<Rightarrow>
            (Ok ''accepted'', send_mail email ''reset'' (fr_token F)
               (a\<lparr>resets := resets a @ [\<lparr>on_id = fr_once F, on_user = ur_id u, on_hash = hash_token C (fr_token F),
                    on_expires = now + 3600, on_used = False\<rparr>]\<rparr>)))"

definition verify_request ::
  "env \<Rightarrow> bool \<Rightarrow> fresh \<Rightarrow> real \<Rightarrow> py_dict \<Rightarrow> adb \<Rightarrow> string reply \<times> adb" where
  "verify_request E rate_ok F now payload a =
     (let (repr, U, C) = E; email = pstr_clean E payload ''email'' in
      if \<not> rate_ok then (Err 429 ''rate_limited'', a)
      else if \<not> email_re email then (Ok ''accepted'', a)
      else case user_by_email email a of
          None \<Rightarrow> (Ok ''accepted'', a)
        | Some u \<Rightarrow>
            if ur_verified u then (Ok ''accepted'', a)
            else (Ok ''accepted'', send_mail email ''verify'' (fr_token F) (create_verification C F (ur_id u) now a)))"

definition usable :: "string \<Rightarrow> real \<Rightarrow> once_row \<Rightarrow> bool" where
  "usable h now r \<longleftrightarrow> on_hash r = h \<and> \<not> on_used r \<and> now < on_expires r"

definition use_once :: "string \<Rightarrow> once_row list \<Rightarrow> once_row list" where
  "use_once i rows = update_where (\<lambda>r. on_id r = i) (\<lambda>r. r\<lparr>on_used := True\<rparr>) rows"

definition verify_confirm :: "env \<Rightarrow> real \<Rightarrow> py_dict \<Rightarrow> adb \<Rightarrow> string reply \<times> adb" where
  "verify_confirm E now payload a =
     (let (repr, U, C) = E in
      case find (usable (hash_token C (pstr E payload ''token'')) now) (verifs a) of
        None \<Rightarrow> (Err 400 ''invalid_token'', a)
      | Some r \<Rightarrow>
          (Ok ''verified'',
           (update_user (on_user r) (\<lambda>u. u\<lparr>ur_verified := True\<rparr>) a)\<lparr>verifs := use_once (on_id r) (verifs a)\<rparr>))"

definition reset_confirm :: "env \<Rightarrow> fresh \<Rightarrow> real \<Rightarrow> py_dict \<Rightarrow> adb \<Rightarrow> string reply \<times> adb" where
  "reset_confirm E F now payload a =
     (let (repr, U, C) = E; password = pstr E payload ''password'' in
      if validate_password_strength U password \<noteq> [] then (Err 422 ''weak_password'', a)
      else case find (usable (hash_token C (pstr E payload ''token'')) now) (resets a) of
          None \<Rightarrow> (Err 400 ''invalid_token'', a)
        | Some r \<Rightarrow>
            let h = projr (hash_password C (fr_salt F) default_iterations password);
                a1 = update_user (on_user r) (\<lambda>u. u\<lparr>ur_hash := h, ur_failed := 0, ur_locked := None\<rparr>) a;
                a2 = a1\<lparr>resets := use_once (on_id r) (resets a1)\<rparr>
            in (Ok ''password_updated'', revoke_where (\<lambda>s. ss_user s = on_user r) a2))"

definition change_password ::
  "env \<Rightarrow> fresh \<Rightarrow> principal option \<Rightarrow> py_dict \<Rightarrow> adb \<Rightarrow> string reply \<times> adb" where
  "change_password E F p payload a =
     (let (repr, U, C) = E; new = pstr E payload ''new_password'' in
      case p of
        None \<Rightarrow> (Err 401 ''unauthenticated'', a)
      | Some q \<Rightarrow>
          if validate_password_strength U new \<noteq> [] then (Err 422 ''weak_password'', a)
          else case user_by_id (pp_user q) a of
              None \<Rightarrow> (Err 403 ''invalid_password'', a)
            | Some u \<Rightarrow>
                if \<not> verify_password C (pstr E payload ''current_password'') (ur_hash u) then (Err 403 ''invalid_password'', a)
                else (Ok ''password_updated'',
                      update_user (pp_user q) (\<lambda>r. r\<lparr>ur_hash := projr (hash_password C (fr_salt F) default_iterations new)\<rparr>) a))"

definition change_email ::
  "env \<Rightarrow> fresh \<Rightarrow> real \<Rightarrow> principal option \<Rightarrow> py_dict \<Rightarrow> adb \<times> db \<Rightarrow> string reply \<times> adb \<times> db" where
  "change_email E F now p payload st =
     (let (repr, U, C) = E; (a, d) = st; new = pstr_clean E payload ''new_email'' in
      case p of
        None \<Rightarrow> (Err 401 ''unauthenticated'', st)
      | Some q \<Rightarrow>
          if \<not> email_re new then (Err 422 ''invalid_email'', st)
          else case user_by_id (pp_user q) a of
              None \<Rightarrow> (Err 403 ''invalid_password'', st)
            | Some u \<Rightarrow>
                if \<not> verify_password C (pstr E payload ''current_password'') (ur_hash u) then (Err 403 ''invalid_password'', st)
                else if new = ur_email u then (Err 422 ''invalid_email'', st)
                else if list_ex (\<lambda>x. py_lower (ur_email x) = new \<and> ur_id x \<noteq> pp_user q) (users a) then (Err 409 ''email_taken'', st)
                else
                  let a1 = update_user (pp_user q) (\<lambda>r. r\<lparr>ur_email := new, ur_verified := False\<rparr>) a;
                      a2 = create_verification C F (pp_user q) now a1;
                      d1 = audit PgUp (ur_email u) ''auth.change_email'' None [(''new_email'', VStr new)] d
                  in (Ok new, send_mail new ''verify'' (fr_token F) a2, d1))"

subsection \<open>The endpoints as a machine\<close>

datatype auth_event =
    Signup bool "(bool \<times> real) option" fresh real py_dict
  | Login bool fresh real py_dict
  | Refresh fresh real py_dict "string option"
  | Logout real py_dict "string option"
  | ResetRequest bool fresh real py_dict
  | VerifyRequest bool fresh real py_dict
  | VerifyConfirm real py_dict
  | ResetConfirm fresh real py_dict
  | ChangePassword fresh "principal option" py_dict
  | ChangeEmail fresh real "principal option" py_dict

text \<open>The primary key refuses a user id that exists, so a signup with a used id is no step.\<close>

fun auth_step :: "env \<Rightarrow> auth_cfg \<Rightarrow> adb \<times> db \<Rightarrow> auth_event \<Rightarrow> adb \<times> db" where
  "auth_step E cfg st (Signup ok pol F now pay) =
     (if fr_user F \<in> ur_id ` set (users (fst st)) then st else snd (signup E cfg ok pol F now pay st))"
| "auth_step E cfg st (Login ok F now pay) = snd (login E cfg ok F now pay st)"
| "auth_step E cfg (a, d) (Refresh F now pay c) = (snd (refresh E cfg F now pay c a), d)"
| "auth_step E cfg (a, d) (Logout now pay c) = (snd (logout E cfg now pay c a), d)"
| "auth_step E cfg (a, d) (ResetRequest ok F now pay) = (snd (reset_request E ok F now pay a), d)"
| "auth_step E cfg (a, d) (VerifyRequest ok F now pay) = (snd (verify_request E ok F now pay a), d)"
| "auth_step E cfg (a, d) (VerifyConfirm now pay) = (snd (verify_confirm E now pay a), d)"
| "auth_step E cfg (a, d) (ResetConfirm F now pay) = (snd (reset_confirm E F now pay a), d)"
| "auth_step E cfg (a, d) (ChangePassword F p pay) = (snd (change_password E F p pay a), d)"
| "auth_step E cfg st (ChangeEmail F now p pay) = snd (change_email E F now p pay st)"

text \<open>The hashes whose session was revoked, and the accounts.\<close>

definition revoked_jtis :: "adb \<Rightarrow> string set" where
  "revoked_jtis a = {h. \<exists>s. find (\<lambda>s. ss_jti s = h) (sessions a) = Some s \<and> ss_revoked s}"

definition accounts_ok :: "adb \<Rightarrow> bool" where
  "accounts_ok a \<longleftrightarrow> distinct (map ur_id (users a)) \<and> distinct (map (\<lambda>u. py_lower (ur_email u)) (users a))"

lemma find_update_revoke:
  "find (\<lambda>s. ss_jti s = h) (update_where P (\<lambda>s. s\<lparr>ss_revoked := True\<rparr>) ss) =
     map_option (\<lambda>s. if P s then s\<lparr>ss_revoked := True\<rparr> else s) (find (\<lambda>s. ss_jti s = h) ss)"
  by (induction ss) auto

lemma find_append: "find P (xs @ ys) = (case find P xs of None \<Rightarrow> find P ys | Some x \<Rightarrow> Some x)"
  by (induction xs) auto

lemma revoked_revoke: "revoked_jtis a \<subseteq> revoked_jtis (revoke_where P a)"
proof
  fix h assume "h \<in> revoked_jtis a"
  then obtain s where "find (\<lambda>s. ss_jti s = h) (sessions a) = Some s" "ss_revoked s"
    by (auto simp: revoked_jtis_def)
  then show "h \<in> revoked_jtis (revoke_where P a)"
    by (simp add: revoked_jtis_def revoke_where_def find_update_revoke)
qed

lemma revoked_insert: "revoked_jtis a \<subseteq> revoked_jtis (insert_session F u tp a)"
  by (auto simp: revoked_jtis_def insert_session_def find_append)

lemma revoked_cong: "sessions a = sessions b \<Longrightarrow> revoked_jtis a = revoked_jtis b"
  by (simp add: revoked_jtis_def)

lemma update_user_frame [simp]:
  "sessions (update_user i f a) = sessions a" "verifs (update_user i f a) = verifs a"
  "resets (update_user i f a) = resets a"
  by (simp_all add: update_user_def)

lemma create_verification_frame [simp]:
  "sessions (create_verification C F u now a) = sessions a" "users (create_verification C F u now a) = users a"
  by (simp_all add: create_verification_def)

lemma insert_session_users [simp]: "users (insert_session F u tp a) = users a"
  by (simp add: insert_session_def)

lemma revoke_users [simp]: "users (revoke_where P a) = users a"
  by (simp add: revoke_where_def)

lemma rotate_session_revoked: "revoked_jtis a \<subseteq> revoked_jtis (snd (rotate_session C cfg F now su a))"
  unfolding rotate_session_def Let_def
  by (auto split: prod.splits intro: subsetD [OF subset_trans [OF revoked_revoke revoked_insert]])

lemma refresh_revoked: "revoked_jtis a \<subseteq> revoked_jtis (snd (refresh E cfg F now pay c a))"
proof -
  have r: "rotate_session C cfg F now su a = (tp, a1) \<Longrightarrow> revoked_jtis a \<subseteq> revoked_jtis a1" for C su tp a1
    using rotate_session_revoked [of a C cfg F now su] by simp
  show ?thesis
    unfolding refresh_def Let_def
    by (auto split: prod.splits sum.splits option.splits dest: r intro: subsetD [OF revoked_revoke])
qed

lemma auth_step_revoked: "revoked_jtis (fst st) \<subseteq> revoked_jtis (fst (auth_step E cfg st e))"
proof -
  obtain a d where st: "st = (a, d)" by (cases st)
  obtain repr U C where E: "E = (repr, U, C)" by (cases E)
  show ?thesis
  proof (cases e)
    case (Signup ok pol F now pay)
    have "revoked_jtis a \<subseteq> revoked_jtis (insert_session F i tp (a\<lparr>users := us\<rparr>))" for i tp us
      using revoked_insert [of "a\<lparr>users := us\<rparr>" F i tp] revoked_cong [of "a\<lparr>users := us\<rparr>" a] by simp
    moreover have "revoked_jtis (send_mail x y z (create_verification C F i now b)) = revoked_jtis b" for x y z i b
      by (rule revoked_cong) simp
    ultimately show ?thesis by (auto simp: Signup st E signup_def Let_def)
  next
    case (Login ok F now pay)
    have "revoked_jtis a \<subseteq> revoked_jtis (insert_session F i tp (update_user j f a))" for i j tp f
      using revoked_insert [of "update_user j f a" F i tp] revoked_cong [of "update_user j f a" a] by simp
    moreover have "revoked_jtis (update_user j f a) = revoked_jtis a" for j f by (rule revoked_cong) simp
    ultimately show ?thesis
      by (auto simp: Login st E login_def Let_def split: option.splits sum.splits)
  next
    case (Refresh F now pay c)
    then show ?thesis using refresh_revoked [of a E cfg F now pay c] by (simp add: st)
  next
    case (Logout now pay c)
    then show ?thesis
      by (auto simp: st E logout_def Let_def split: sum.splits token_error.splits intro: subsetD [OF revoked_revoke])
  next
    case (ResetRequest ok F now pay)
    then show ?thesis by (auto simp: st E reset_request_def Let_def revoked_jtis_def split: option.splits)
  next
    case (VerifyRequest ok F now pay)
    then show ?thesis by (auto simp: st E verify_request_def Let_def revoked_jtis_def split: option.splits)
  next
    case (VerifyConfirm now pay)
    then show ?thesis by (auto simp: st E verify_confirm_def Let_def revoked_jtis_def split: option.splits)
  next
    case (ResetConfirm F now pay)
    have "revoked_jtis a \<subseteq> revoked_jtis (revoke_where P ((update_user i f a)\<lparr>resets := rs\<rparr>))" for P i f rs
      using revoked_revoke [of "(update_user i f a)\<lparr>resets := rs\<rparr>" P] revoked_cong [of "(update_user i f a)\<lparr>resets := rs\<rparr>" a]
      by simp
    then show ?thesis by (auto simp: ResetConfirm st E reset_confirm_def Let_def split: option.splits)
  next
    case (ChangePassword F p pay)
    have "revoked_jtis (update_user j f a) = revoked_jtis a" for j f by (rule revoked_cong) simp
    then show ?thesis by (auto simp: ChangePassword st E change_password_def Let_def split: option.splits)
  next
    case (ChangeEmail F now p pay)
    have "revoked_jtis (send_mail x y z (create_verification C F i now (update_user j f a))) = revoked_jtis a" for x y z i j f
      by (rule revoked_cong) simp
    then show ?thesis by (auto simp: ChangeEmail st E change_email_def Let_def split: option.splits)
  qed
qed

interpretation auth_revoked: monotone_machine "auth_step E cfg" "\<lambda>_. True" "\<lambda>st. revoked_jtis (fst st)" for E cfg
  by unfold_locales (simp_all add: auth_step_revoked)

subsection \<open>Accounts\<close>

lemma distinct_append_new: "distinct (map f (xs @ [x])) \<longleftrightarrow> distinct (map f xs) \<and> f x \<notin> f ` set xs"
  by auto

lemma accounts_cong: "users a = users b \<Longrightarrow> accounts_ok a = accounts_ok b"
  by (simp add: accounts_ok_def)

lemma accounts_update:
  assumes "\<And>u. ur_id (f u) = ur_id u" "\<And>u. ur_email (f u) = ur_email u"
  shows "accounts_ok (update_user i f a) = accounts_ok a"
proof -
  have "map ur_id (users (update_user i f a)) = map ur_id (users a)"
    "map (\<lambda>u. py_lower (ur_email u)) (users (update_user i f a)) = map (\<lambda>u. py_lower (ur_email u)) (users a)"
    by (simp_all add: update_user_def update_where_def assms)
  then show ?thesis by (simp add: accounts_ok_def)
qed

lemma distinct_map_update_one:
  assumes "distinct (map k us)" "distinct (map g us)" "\<And>u. k (f u) = k u"
    and "\<And>u. u \<in> set us \<Longrightarrow> k u \<noteq> i \<Longrightarrow> g u \<noteq> x" "\<And>u. g (f u) = x"
  shows "distinct (map g (update_where (\<lambda>u. k u = i) f us))"
  using assms
proof (induction us)
  case (Cons u us)
  have d: "distinct (map g (update_where (\<lambda>u. k u = i) f us))" using Cons by simp
  show ?case
  proof (cases "k u = i")
    case True
    with Cons.prems(1) have "i \<notin> k ` set us" by auto
    then have "update_where (\<lambda>u. k u = i) f us = us"
      unfolding update_where_def by (intro map_idI) auto
    moreover have "g w \<noteq> x" if "w \<in> set us" for w
    proof -
      have "k w \<noteq> i" using Cons.prems(1) True that by (auto simp: image_iff)
      then show ?thesis using Cons.prems(4) [of w] that by simp
    qed
    ultimately show ?thesis using Cons.prems True by auto
  next
    case False
    then have "g u \<noteq> x" using Cons.prems(4) by simp
    with Cons.prems d False show ?thesis by (auto simp: set_update_where split: if_splits)
  qed
qed simp

lemma pstr_clean_lower [simp]: "py_lower (pstr_clean E pay k) = pstr_clean E pay k"
  by (simp add: pstr_clean_def)

lemma auth_step_accounts: "accounts_ok (fst st) \<Longrightarrow> accounts_ok (fst (auth_step E cfg st e))"
proof -
  assume ok: "accounts_ok (fst st)"
  obtain a d where st: "st = (a, d)" by (cases st)
  obtain repr U C where E: "E = (repr, U, C)" by (cases E)
  have m: "accounts_ok (send_mail x y z b) = accounts_ok b" for x y z b by (rule accounts_cong) simp
  have cv: "accounts_ok (create_verification C F i now b) = accounts_ok b" for F i now b by (rule accounts_cong) simp
  have ins: "accounts_ok (insert_session F i tp b) = accounts_ok b" for F i tp b by (rule accounts_cong) simp
  have rev: "accounts_ok (revoke_where P b) = accounts_ok b" for P b by (rule accounts_cong) simp
  have oa: "accounts_ok a" using ok st by simp
  show ?thesis
  proof (cases e)
    case (Signup rok pol F now pay)
    have "accounts_ok (a\<lparr>users := users a @ [u]\<rparr>)"
      if "ur_id u \<notin> ur_id ` set (users a)" "user_by_email (ur_email u) a = None" "py_lower (ur_email u) = ur_email u" for u
      using oa that by (auto simp: accounts_ok_def user_by_email_def dest: find_NoneD)
    then show ?thesis using oa by (simp add: Signup st E signup_def Let_def m cv ins)
  next
    case (Login rok F now pay)
    then show ?thesis using oa
      by (auto simp: st E login_def Let_def ins accounts_update split: option.splits sum.splits)
  next
    case (Refresh F now pay c)
    have r: "rotate_session C cfg F now su b = (tp, b1) \<Longrightarrow> accounts_ok b1 = accounts_ok b" for su b tp b1
      by (auto simp: rotate_session_def ins rev Let_def split: prod.splits)
    show ?thesis using oa
      by (auto simp: Refresh st E refresh_def Let_def rev dest: r split: option.splits sum.splits prod.splits)
  next
    case (Logout now pay c)
    then show ?thesis using oa by (auto simp: st E logout_def Let_def rev split: sum.splits token_error.splits)
  next
    case (ResetRequest rok F now pay)
    have "accounts_ok (a\<lparr>resets := x\<rparr>) = accounts_ok a" for x by (rule accounts_cong) simp
    then show ?thesis using oa by (auto simp: ResetRequest st E reset_request_def Let_def m split: option.splits)
  next
    case (VerifyRequest rok F now pay)
    then show ?thesis using oa by (auto simp: st E verify_request_def Let_def m cv split: option.splits)
  next
    case (VerifyConfirm now pay)
    have "accounts_ok (b\<lparr>verifs := x\<rparr>) = accounts_ok b" for b x by (rule accounts_cong) simp
    then show ?thesis using oa
      by (auto simp: VerifyConfirm st E verify_confirm_def Let_def accounts_update split: option.splits)
  next
    case (ResetConfirm F now pay)
    have "accounts_ok (b\<lparr>resets := x\<rparr>) = accounts_ok b" for b x by (rule accounts_cong) simp
    then show ?thesis using oa
      by (auto simp: ResetConfirm st E reset_confirm_def Let_def rev accounts_update split: option.splits)
  next
    case (ChangePassword F p pay)
    then show ?thesis using oa by (auto simp: st E change_password_def Let_def accounts_update split: option.splits)
  next
    case (ChangeEmail F now p pay)
    have "accounts_ok (update_user i (\<lambda>r. r\<lparr>ur_email := x, ur_verified := False\<rparr>) a)"
      if "\<not> list_ex (\<lambda>y. py_lower (ur_email y) = x \<and> ur_id y \<noteq> i) (users a)" "py_lower x = x" for i x
    proof -
      have "map ur_id (users (update_user i (\<lambda>r. r\<lparr>ur_email := x, ur_verified := False\<rparr>) a)) = map ur_id (users a)"
        by (simp add: update_user_def update_where_def)
      moreover have "distinct (map (\<lambda>u. py_lower (ur_email u)) (update_where (\<lambda>u. ur_id u = i)
          (\<lambda>r. r\<lparr>ur_email := x, ur_verified := False\<rparr>) (users a)))"
        by (rule distinct_map_update_one [where x = x]) (use oa that in \<open>auto simp: accounts_ok_def list_ex_iff\<close>)
      ultimately show ?thesis using oa by (simp add: accounts_ok_def update_user_def)
    qed
    then show ?thesis using oa
      by (auto simp: ChangeEmail st E change_email_def Let_def m cv split: option.splits)
  qed
qed

interpretation auth_accounts: invariant_machine "auth_step E cfg" "\<lambda>st. accounts_ok (fst st)" for E cfg
  by unfold_locales (rule auth_step_accounts)

subsection \<open>Properties\<close>

text \<open>Over any run of the identity endpoints no two accounts share an e-mail address up to case,
  and no two share an id.\<close>

theorem one_account_per_email:
  assumes "accounts_ok a"
  shows "accounts_ok (fst (foldl (auth_step E cfg) (a, d) es))"
  using auth_accounts.run_inv [of "(a, d)" E cfg es] assms by simp

theorem one_account_per_email_witness:
  "\<forall>E cfg F. accounts_ok (fst (foldl (auth_step E cfg) (empty_adb, empty_db) [Signup True None F 1 [(''email'', VStr ''a@b.c'')], Login True F 2 []]))"
  by (intro allI, rule one_account_per_email) (simp add: accounts_ok_def empty_adb_def)

text \<open>A refresh that succeeds revokes the session it was presented for.\<close>

lemma refresh_ok_revokes:
  assumes "refresh E cfg F now pay c a = (Ok tp, a1)"
    and "refresh_jti_hash E cfg now (presented_refresh E pay c) = Inr (Some h)"
  shows "h \<in> revoked_jtis a1"
proof -
  obtain repr U C where E: "E = (repr, U, C)" by (cases E)
  obtain s u where su: "session_by_jti h a = Some (s, u)"
    using assms by (auto simp: refresh_def E Let_def split: if_splits option.splits)
  have a1: "a1 = snd (rotate_session C cfg F now (s, u) a)"
    using assms su by (auto simp: refresh_def E Let_def split: if_splits prod.splits)
  have "find (\<lambda>x. ss_jti x = h) (sessions a) = Some s"
    using su by (auto simp: session_by_jti_def split: option.splits)
  then show ?thesis
    unfolding a1 rotate_session_def Let_def
    by (auto simp: revoked_jtis_def insert_session_def revoke_where_def find_append find_update_revoke)
qed

lemma refresh_revoked_refused:
  assumes "h \<in> revoked_jtis a" and "ac_secret cfg \<noteq> []"
    and "refresh_jti_hash E cfg now (presented_refresh E pay c) = Inr (Some h)"
  shows "fst (refresh E cfg F now pay c a) = Err 401 ''invalid_token''"
  using assms
  by (auto simp: refresh_def revoked_jtis_def session_by_jti_def Let_def split: prod.splits option.splits)

text \<open>C4: A refresh token works at most once. After a refresh with it succeeded, and whatever the
  endpoints are called with in between, presenting it again is refused.\<close>

theorem refresh_token_single_use:
  assumes "refresh E cfg F now pay c a = (Ok tp, a1)"
    and "refresh_jti_hash E cfg now (presented_refresh E pay c) = Inr (Some h)"
    and "ac_secret cfg \<noteq> []" and "(a2, d2) = foldl (auth_step E cfg) (a1, d1) es"
    and "refresh_jti_hash E cfg now' (presented_refresh E pay' c') = Inr (Some h)"
  shows "fst (refresh E cfg F' now' pay' c' a2) = Err 401 ''invalid_token''"
proof -
  have "h \<in> revoked_jtis a1" by (rule refresh_ok_revokes [OF assms(1,2)])
  moreover have "revoked_jtis a1 \<subseteq> revoked_jtis a2"
    using auth_revoked.run_mono [of "(a1, d1)" E cfg es] unfolding assms(4) [symmetric] by simp
  ultimately show ?thesis by (intro refresh_revoked_refused [OF _ assms(3,5)]) blast
qed

text \<open>A session of the demonstration: one user, one live refresh session.\<close>

definition demo_refresh :: py_dict where "demo_refresh = refresh_claims ''u'' 900 100 ''j''"
definition demo_env :: env where "demo_env = (\<lambda>_. [], ascii_unicode, toy_crypto demo_refresh)"
definition demo_cfg :: auth_cfg where
  "demo_cfg = \<lparr>ac_secret = ''k'', ac_signup_enabled = True, ac_access_ttl = 900, ac_refresh_ttl = 900,
     ac_max_attempts = 2, ac_lockout_minutes = 15, ac_trial_plan = ''free''\<rparr>"
definition demo_user :: user_row where
  "demo_user = \<lparr>ur_id = ''u'', ur_email = ''a@b.c'', ur_hash = ''h'', ur_name = None, ur_role = ''store_owner'',
     ur_tenant = Some ''t'', ur_status = ''active'', ur_verified = True, ur_failed = 1, ur_locked = None\<rparr>"
definition demo_adb :: adb where
  "demo_adb = empty_adb\<lparr>users := [demo_user],
     sessions := [\<lparr>ss_id = ''s1'', ss_user = ''u'', ss_jti = ''j'', ss_expires = 1000, ss_revoked = False\<rparr>]\<rparr>"
definition demo_fresh :: fresh where
  "demo_fresh = \<lparr>fr_tenant = ''t2'', fr_user = ''u2'', fr_session = ''s2'', fr_access_jti = ''x'', fr_jti = ''j2'',
     fr_token = ''v'', fr_once = ''o'', fr_salt = ''s'', fr_slug = ''0''\<rparr>"
definition demo_token :: string where
  "demo_token = projr (token_encode (toy_crypto demo_refresh) demo_refresh ''k'')"

lemma demo_jti: "refresh_jti_hash demo_env demo_cfg 200 demo_token = Inr (Some ''j'')"
proof -
  have enc: "token_encode (toy_crypto demo_refresh) demo_refresh ''k'' = Inr demo_token"
    by (simp add: demo_token_def token_encode_def)
  have "decode_token (toy_crypto demo_refresh) demo_token ''k'' 200 = Inr demo_refresh"
    using decode_encoded [OF toy_codec_reads enc, of 200] by (simp add: demo_refresh_def)
  then show ?thesis
    by (simp add: refresh_jti_hash_def demo_env_def demo_cfg_def hash_token_def demo_refresh_def)
      (simp add: refresh_claims_def dict_get_or_def toy_crypto_def)
qed

lemma demo_presented: "presented_refresh demo_env [(''refresh_token'', VStr demo_token)] None = demo_token"
proof -
  have "demo_token \<noteq> []" by (simp add: demo_token_def token_encode_def token_input_def)
  then show ?thesis by (simp add: presented_refresh_def dict_get_or_def py_or_def)
qed

theorem refresh_token_single_use_witness:
  "fst (refresh demo_env demo_cfg demo_fresh 200 [(''refresh_token'', VStr demo_token)] None
     (snd (refresh demo_env demo_cfg demo_fresh 200 [(''refresh_token'', VStr demo_token)] None demo_adb)))
   = Err 401 ''invalid_token''"
proof -
  let ?p = "[(''refresh_token'', VStr demo_token)]"
  have j: "refresh_jti_hash demo_env demo_cfg 200 (presented_refresh demo_env ?p None) = Inr (Some ''j'')"
    unfolding demo_presented by (rule demo_jti)
  have sec: "ac_secret demo_cfg \<noteq> []" by (simp add: demo_cfg_def)
  have s: "session_by_jti ''j'' demo_adb = Some (\<lparr>ss_id = ''s1'', ss_user = ''u'', ss_jti = ''j'', ss_expires = 1000, ss_revoked = False\<rparr>, demo_user)"
    by (simp add: session_by_jti_def demo_adb_def user_by_id_def demo_user_def)
  obtain tp a1 where r: "refresh demo_env demo_cfg demo_fresh 200 ?p None demo_adb = (Ok tp, a1)"
    using j sec s by (simp add: refresh_def demo_env_def demo_user_def rotate_session_def Let_def)
  show ?thesis
    using refresh_token_single_use [OF r j sec, of a1 empty_db empty_db "[]" 200 ?p None] j r by simp
qed

text \<open>Lockout. When a wrong password brings an account to the configured number of failures, every
  login to it before the lock expires is refused as locked and changes nothing, the right password
  included.\<close>

theorem login_lockout:
  assumes "user_by_email (pstr_clean E pay ''email'') a = Some u" and "ur_status u = ''active''"
    and "ac_max_attempts cfg \<le> ur_failed u + 1"
    and "\<not> verify_password (snd (snd E)) (pstr E pay ''password'') (ur_hash u)"
    and "(r, a1, d1) = login E cfg True F now pay (a, d)"
    and "ur_locked u = None" and "ac_secret cfg \<noteq> []"
    and "pstr_clean E pay' ''email'' = pstr_clean E pay ''email''"
    and "now' < now + 60 * of_int (ac_lockout_minutes cfg)"
  shows "login E cfg True F' now' pay' (a1, d1) = (Err 429 ''account_locked'', a1, d1)"
proof -
  let ?lock = "Some (now + 60 * of_int (ac_lockout_minutes cfg))"
  obtain repr U C where E: "E = (repr, U, C)" by (cases E)
  have a1: "a1 = update_user (ur_id u) (\<lambda>r. r\<lparr>ur_failed := ur_failed u + 1, ur_locked := ?lock\<rparr>) a" "d1 = d"
    using assms(1-7) by (simp_all add: login_def E Let_def)
  have "user_by_email (pstr_clean E pay ''email'') a1 = Some (u\<lparr>ur_failed := ur_failed u + 1, ur_locked := ?lock\<rparr>)"
  proof -
    have "find (\<lambda>x. py_lower (ur_email x) = e) (update_where (\<lambda>x. ur_id x = ur_id u) f us) = Some (f u)"
      if "find (\<lambda>x. py_lower (ur_email x) = e) us = Some u" "\<And>x. ur_email (f x) = ur_email x" for e f us
      using that by (induction us) (auto split: if_splits)
    from this [of "pstr_clean E pay ''email''" "users a" "\<lambda>r. r\<lparr>ur_failed := ur_failed u + 1, ur_locked := ?lock\<rparr>"]
    show ?thesis using assms(1) by (simp add: user_by_email_def a1 update_user_def)
  qed
  with assms(2,7-9) show ?thesis by (simp add: login_def E Let_def)
qed

theorem login_lockout_witness:
  "fst (login demo_env demo_cfg True demo_fresh 5 [(''email'', VStr ''a@b.c''), (''password'', VStr ''right'')]
     (snd (login demo_env demo_cfg True demo_fresh 1 [(''email'', VStr ''a@b.c''), (''password'', VStr ''wrong'')]
       (demo_adb, empty_db)))) = Err 429 ''account_locked''"
proof -
  let ?w = "[(''email'', VStr ''a@b.c''), (''password'', VStr ''wrong'')]"
  let ?r = "[(''email'', VStr ''a@b.c''), (''password'', VStr ''right'')]"
  have e: "pstr_clean demo_env ?w ''email'' = ''a@b.c''" "pstr_clean demo_env ?r ''email'' = ''a@b.c''"
    by (simp_all add: pstr_clean_def pstr_def dict_get_or_def py_strip_def is_space_def py_lower_def lower_char_def Let_def)
  have u: "user_by_email (pstr_clean demo_env ?w ''email'') demo_adb = Some demo_user"
    by (simp add: e user_by_email_def demo_adb_def demo_user_def py_lower_def lower_char_def Let_def)
  have v: "\<not> verify_password (snd (snd demo_env)) (pstr demo_env ?w ''password'') (ur_hash demo_user)"
    by (simp add: verify_password_def demo_user_def eval_nat_numeral)
  obtain r a1 d1 where l: "(r, a1, d1) = login demo_env demo_cfg True demo_fresh 1 ?w (demo_adb, empty_db)"
    by (metis prod_cases3)
  show ?thesis
    using login_lockout [OF u _ _ v l, of ?r 5 demo_fresh] e
    unfolding l [symmetric] by (simp add: demo_user_def demo_cfg_def)
qed

subsection \<open>Password recovery, and two refreshes at once\<close>

text \<open>A reset link works once and ends every session: after a successful reset all sessions of the
  account are revoked, and the same link is refused whatever new password comes with it.\<close>

theorem reset_link_single_use:
  assumes "reset_confirm E F now pay a = (Ok msg, a1)" and "distinct (map on_hash (resets a))"
    and "pstr E pay' ''token'' = pstr E pay ''token''"
  shows "\<exists>r. r \<in> set (resets a) \<and> on_hash r = hash_token (snd (snd E)) (pstr E pay ''token'') \<and> now < on_expires r \<and>
    list_all (\<lambda>s. ss_user s \<noteq> on_user r \<or> ss_revoked s) (sessions a1) \<and>
    (\<exists>c e. fst (reset_confirm E F' now' pay' a1) = Err c e) \<and> snd (reset_confirm E F' now' pay' a1) = a1"
proof -
  obtain repr U C where E: "E = (repr, U, C)" by (cases E)
  define h where "h = hash_token C (pstr E pay ''token'')"
  obtain r where r: "find (usable h now) (resets a) = Some r"
    and a1: "resets a1 = use_once (on_id r) (resets a)"
      "sessions a1 = update_where (\<lambda>s. ss_user s = on_user r) (\<lambda>s. s\<lparr>ss_revoked := True\<rparr>) (sessions a)"
    using assms(1)
    by (auto simp: reset_confirm_def E h_def revoke_where_def update_user_def Let_def split: if_splits option.splits)
  have in_r: "r \<in> set (resets a)" "usable h now r" using find_SomeD [OF r] by auto
  have used: "\<not> usable h now' q" if "q \<in> set (resets a1)" for q
  proof
    assume u: "usable h now' q"
    from that obtain q0 where q0: "q0 \<in> set (resets a)"
      "q = (if on_id q0 = on_id r then q0\<lparr>on_used := True\<rparr> else q0)"
      by (auto simp: a1 use_once_def set_update_where)
    with u have "on_id q0 \<noteq> on_id r" "on_hash q0 = h" by (auto simp: usable_def split: if_splits)
    moreover have "q0 = r"
      using assms(2) q0(1) in_r \<open>on_hash q0 = h\<close> by (auto simp: usable_def distinct_map inj_on_def)
    ultimately show False by simp
  qed
  then have "find (usable h now') (resets a1) = None" by (auto simp: find_None_iff)
  then have "\<exists>c e. fst (reset_confirm E F' now' pay' a1) = Err c e" "snd (reset_confirm E F' now' pay' a1) = a1"
    using assms(3) by (simp_all add: reset_confirm_def E h_def Let_def)
  then show ?thesis
    using in_r by (intro exI [of _ r]) (auto simp: usable_def h_def E a1(2) list_all_iff set_update_where)
qed

theorem reset_link_single_use_witness:
  "\<exists>c e. fst (reset_confirm demo_env demo_fresh 6 [(''token'', VStr ''v''), (''password'', VStr ''Correct-Horse-9'')]
     (snd (reset_confirm demo_env demo_fresh 5 [(''token'', VStr ''v''), (''password'', VStr ''Correct-Horse-9'')]
       (demo_adb\<lparr>resets := [\<lparr>on_id = ''o'', on_user = ''u'', on_hash = hash_token (snd (snd demo_env)) ''v'', on_expires = 9, on_used = False\<rparr>]\<rparr>)))) = Err c e"
proof -
  let ?p = "[(''token'', VStr ''v''), (''password'', VStr ''Correct-Horse-9'')]"
  let ?a = "demo_adb\<lparr>resets := [\<lparr>on_id = ''o'', on_user = ''u'', on_hash = hash_token (snd (snd demo_env)) ''v'', on_expires = 9, on_used = False\<rparr>]\<rparr>"
  have st: "validate_password_strength ascii_unicode ''Correct-Horse-9'' = []"
    by (simp add: validate_password_strength_def password_classes_def ascii_unicode_def is_cont_byte_def
        min_password_length_def max_password_length_def is_digit_def)
  have "\<exists>msg a1. reset_confirm demo_env demo_fresh 5 ?p ?a = (Ok msg, a1)"
    by (simp add: reset_confirm_def demo_env_def pstr_def dict_get_or_def st usable_def Let_def)
  then obtain msg a1 where r: "reset_confirm demo_env demo_fresh 5 ?p ?a = (Ok msg, a1)" by blast
  from reset_link_single_use [OF r, where pay' = ?p and F' = demo_fresh and now' = 6] r show ?thesis by auto
qed

text \<open>Changing the password, unlike a reset, leaves the sessions of the account alive.\<close>

lemma change_password_keeps_sessions: "sessions (snd (change_password E F p pay a)) = sessions a"
  by (cases E) (auto simp: change_password_def update_user_def Let_def split: option.splits)

text \<open>Rotation is not exclusive: two refreshes that both read the session as live before either
  rotates it both get a pair of tokens, and afterwards both new sessions are live, so one refresh token
  has become two and the replay goes unnoticed.\<close>

theorem concurrent_refresh_forks:
  assumes "session_by_jti h a = Some (s, u)" and "ss_id s \<in> ss_id ` set (sessions a)"
    and "fr_session F1 \<notin> ss_id ` set (sessions a)" and "fr_session F2 \<notin> ss_id ` set (sessions a)"
    and "rotate_session C cfg F1 now1 (s, u) a = (tp1, a1)"
    and "rotate_session C cfg F2 now2 (s, u) a1 = (tp2, a2)"
  shows "list_all (\<lambda>tp. list_ex (\<lambda>x. ss_jti x = tp_jti_hash tp \<and> ss_user x = ur_id u \<and> \<not> ss_revoked x) (sessions a2)) [tp1, tp2]"
  using assms
  by (auto simp: rotate_session_def insert_session_def revoke_where_def Let_def list_ex_iff update_where_def)

theorem concurrent_refresh_forks_witness:
  "\<exists>tp1 a1 tp2 a2. rotate_session (toy_crypto []) demo_cfg demo_fresh 100
      (hd (sessions demo_adb), demo_user) demo_adb = (tp1, a1) \<and>
    rotate_session (toy_crypto []) demo_cfg (demo_fresh\<lparr>fr_session := ''s3''\<rparr>) 100
      (hd (sessions demo_adb), demo_user) a1 = (tp2, a2) \<and>
    list_all (\<lambda>tp. list_ex (\<lambda>x. ss_jti x = tp_jti_hash tp \<and> ss_user x = ''u'' \<and> \<not> ss_revoked x) (sessions a2)) [tp1, tp2]"
proof -
  obtain tp1 a1 where r1: "rotate_session (toy_crypto []) demo_cfg demo_fresh 100 (hd (sessions demo_adb), demo_user) demo_adb = (tp1, a1)"
    by (cases "rotate_session (toy_crypto []) demo_cfg demo_fresh 100 (hd (sessions demo_adb), demo_user) demo_adb")
  obtain tp2 a2 where r2: "rotate_session (toy_crypto []) demo_cfg (demo_fresh\<lparr>fr_session := ''s3''\<rparr>) 100 (hd (sessions demo_adb), demo_user) a1 = (tp2, a2)"
    by (cases "rotate_session (toy_crypto []) demo_cfg (demo_fresh\<lparr>fr_session := ''s3''\<rparr>) 100 (hd (sessions demo_adb), demo_user) a1")
  have "session_by_jti ''j'' demo_adb = Some (hd (sessions demo_adb), demo_user)"
    by (simp add: session_by_jti_def demo_adb_def user_by_id_def demo_user_def)
  from concurrent_refresh_forks [OF this _ _ _ r1 r2] r1 r2 show ?thesis
    by (simp add: demo_adb_def demo_fresh_def demo_user_def)
qed

end
