(* ===== verification/AdminAuth.thy ===== *)
theory AdminAuth
  imports Sessions
begin

text \<open>
  The operator plane's identities: \<open>admin_auth_common.py\<close>, \<open>admin_auth.py\<close> (login with a second
  factor, refresh, logout, bootstrap), \<open>admin_auth_totp.py\<close>, \<open>admin_auth_account.py\<close> and
  \<open>admin_operators.py\<close> under \<open>services/api/routers\<close>. Stored ids are canonical lower-case UUID
  texts; \<open>$1::uuid\<close> finds them from any letter case.
\<close>

record admin_row =
  am_id :: string
  am_email :: string
  am_hash :: string
  am_name :: "string option"
  am_status :: string
  am_failed :: int
  am_locked :: "real option"
  am_totp_secret :: "string option"
  am_totp_enabled :: bool
  am_last_step :: int

record mdb =
  admins :: "admin_row list"
  asessions :: "session_row list"

type_synonym admin_state = "mdb \<times> db"

definition admin_by_email :: "string \<Rightarrow> mdb \<Rightarrow> admin_row option" where
  "admin_by_email e m = find (\<lambda>r. py_lower (am_email r) = e) (admins m)"

definition admin_by_id :: "string \<Rightarrow> mdb \<Rightarrow> admin_row option" where
  "admin_by_id i m = find (\<lambda>r. am_id r = py_lower i) (admins m)"

definition update_admin :: "string \<Rightarrow> (admin_row \<Rightarrow> admin_row) \<Rightarrow> mdb \<Rightarrow> mdb" where
  "update_admin i f m = m\<lparr>admins := update_where (\<lambda>r. am_id r = py_lower i) f (admins m)\<rparr>"

definition revoke_asessions :: "(session_row \<Rightarrow> bool) \<Rightarrow> mdb \<Rightarrow> mdb" where
  "revoke_asessions P m = m\<lparr>asessions := update_where P (\<lambda>s. s\<lparr>ss_revoked := True\<rparr>) (asessions m)\<rparr>"

definition insert_asession :: "fresh \<Rightarrow> string \<Rightarrow> token_pair \<Rightarrow> mdb \<Rightarrow> mdb" where
  "insert_asession F i tp m =
     m\<lparr>asessions := asessions m @ [\<lparr>ss_id = fr_session F, ss_user = i, ss_jti = tp_jti_hash tp,
         ss_expires = tp_expires tp, ss_revoked = False\<rparr>]\<rparr>"

definition admin_issue_tokens :: "crypto \<Rightarrow> auth_cfg \<Rightarrow> fresh \<Rightarrow> string \<Rightarrow> string \<Rightarrow> real \<Rightarrow> token_pair" where
  "admin_issue_tokens C cfg F i email now = issue_tokens C cfg F i ''platform_admin'' None email now"

definition admin_current_principal ::
  "(pyv \<Rightarrow> string) \<Rightarrow> crypto \<Rightarrow> string \<Rightarrow> int \<Rightarrow> string option \<Rightarrow> string option \<Rightarrow> principal option res" where
  "admin_current_principal repr C secret now authorization cookie =
     (if secret = [] then Inr None
      else case bearer_token authorization cookie of
          None \<Rightarrow> Inr None
        | Some token \<Rightarrow>
            (case decode_token C token secret now of
               Inl (OtherError e) \<Rightarrow> Inl (Exn e)
             | Inl _ \<Rightarrow> Inr None
             | Inr claims \<Rightarrow>
                 if dict_get claims ''typ'' \<noteq> VStr ''access'' \<or> dict_get claims ''role'' \<noteq> VStr ''platform_admin''
                 then Inr None
                 else Inr (Some \<lparr>pp_user = py_str repr (dict_get claims ''sub''),
                         pp_email = py_str repr (dict_get_or claims ''email'' (VStr [])), pp_role = PLATFORM_ADMIN,
                         pp_tenant = None, pp_token_id = dict_get claims ''jti''\<rparr>)))"

subsection \<open>Login with a second factor\<close>

definition count_failure :: "auth_cfg \<Rightarrow> real \<Rightarrow> admin_row \<Rightarrow> mdb \<Rightarrow> mdb" where
  "count_failure cfg now r m =
     (let attempts = am_failed r + 1;
          lock = (if attempts \<ge> ac_max_attempts cfg then Some (now + 60 * of_int (ac_lockout_minutes cfg)) else None)
      in update_admin (am_id r) (\<lambda>x. x\<lparr>am_failed := attempts, am_locked := lock\<rparr>) m)"

definition admin_finish_login ::
  "env \<Rightarrow> auth_cfg \<Rightarrow> fresh \<Rightarrow> real \<Rightarrow> string \<Rightarrow> string \<Rightarrow> admin_row \<Rightarrow> admin_state \<Rightarrow> token_pair reply \<times> admin_state" where
  "admin_finish_login E cfg F now email password r st =
     (let (repr, U, C) = E; (m, d) = st in
      case needs_rehash default_iterations (am_hash r) of
        Inl _ \<Rightarrow> (Err 500 ''internal_error'', st)
      | Inr re \<Rightarrow>
          if re \<and> password = [] then (Err 500 ''internal_error'', st)
          else
            let h = (if re then projr (hash_password C (fr_salt F) default_iterations password) else am_hash r);
                m1 = update_admin (am_id r) (\<lambda>x. x\<lparr>am_failed := 0, am_locked := None, am_hash := h\<rparr>) m;
                tp = admin_issue_tokens C cfg F (am_id r) (am_email r) now
            in (Ok tp, insert_asession F (am_id r) tp m1, audit PgUp email ''admin_auth.login'' None [] d))"

definition admin_login ::
  "env \<Rightarrow> auth_cfg \<Rightarrow> bool \<Rightarrow> fresh \<Rightarrow> real \<Rightarrow> py_dict \<Rightarrow> admin_state \<Rightarrow> token_pair reply \<times> admin_state" where
  "admin_login E cfg rate_ok F now payload st =
     (let (repr, U, C) = E; (m, d) = st;
          email = pstr_clean E payload ''email'';
          password = pstr E payload ''password'' in
      if ac_secret cfg = [] then (Err 503 ''auth_unconfigured'', st)
      else if \<not> rate_ok then (Err 429 ''rate_limited'', st)
      else case admin_by_email email m of
          None \<Rightarrow> (Err 401 ''invalid_credentials'', st)
        | Some r \<Rightarrow>
            if am_status r \<noteq> ''active'' then (Err 403 ''account_disabled'', st)
            else if (case am_locked r of None \<Rightarrow> False | Some l \<Rightarrow> l > now) then (Err 429 ''account_locked'', st)
            else if \<not> verify_password C password (am_hash r) then
              (Err 401 ''invalid_credentials'', count_failure cfg now r m, d)
            else if am_totp_enabled r then
              (let totp = py_strip (pstr E payload ''totp_code'') in
               if totp = [] then (Err 401 ''totp_required'', st)
               else case verify_totp_step U C (the_or ''None'' (am_totp_secret r)) totp 1 now of
                   Inl _ \<Rightarrow> (Err 500 ''internal_error'', st)
                 | Inr step \<Rightarrow>
                     if step = None \<or> the step \<le> am_last_step r then
                       (Err 401 ''invalid_totp'', count_failure cfg now r m, d)
                     else admin_finish_login E cfg F now email password r
                            (update_admin (am_id r) (\<lambda>x. x\<lparr>am_last_step := the step\<rparr>) m, d))
            else admin_finish_login E cfg F now email password r st)"

subsection \<open>Refresh, logout, bootstrap\<close>

definition asession_by_jti :: "string \<Rightarrow> mdb \<Rightarrow> (session_row \<times> admin_row) option" where
  "asession_by_jti h m =
     (case find (\<lambda>s. ss_jti s = h) (asessions m) of
        None \<Rightarrow> None
      | Some s \<Rightarrow> map_option (Pair s) (find (\<lambda>r. am_id r = ss_user s) (admins m)))"

definition admin_refresh ::
  "env \<Rightarrow> auth_cfg \<Rightarrow> fresh \<Rightarrow> real \<Rightarrow> py_dict \<Rightarrow> string option \<Rightarrow> mdb \<Rightarrow> token_pair reply \<times> mdb" where
  "admin_refresh E cfg F now payload cookie m =
     (let (repr, U, C) = E in
      if ac_secret cfg = [] then (Err 503 ''auth_unconfigured'', m)
      else case refresh_jti_hash E cfg now (presented_refresh E payload cookie) of
          Inl _ \<Rightarrow> (Err 500 ''internal_error'', m)
        | Inr None \<Rightarrow> (Err 401 ''invalid_token'', m)
        | Inr (Some h) \<Rightarrow>
            (case asession_by_jti h m of
               None \<Rightarrow> (Err 401 ''invalid_token'', m)
             | Some (s, r) \<Rightarrow>
                 if ss_revoked s then (Err 401 ''invalid_token'', revoke_asessions (\<lambda>x. ss_user x = am_id r) m)
                 else if am_status r \<noteq> ''active'' then (Err 403 ''account_disabled'', m)
                 else
                   let tp = admin_issue_tokens C cfg F (am_id r) (am_email r) now
                   in (Ok tp, insert_asession F (am_id r) tp (revoke_asessions (\<lambda>x. ss_id x = ss_id s) m))))"

definition admin_logout :: "env \<Rightarrow> auth_cfg \<Rightarrow> real \<Rightarrow> py_dict \<Rightarrow> string option \<Rightarrow> mdb \<Rightarrow> string reply \<times> mdb" where
  "admin_logout E cfg now payload cookie m =
     (let (repr, U, C) = E; raw = presented_refresh E payload cookie in
      if raw = [] \<or> ac_secret cfg = [] then (Ok ''logged_out'', m)
      else case decode_token C raw (ac_secret cfg) (floor now) of
          Inl (OtherError e) \<Rightarrow> (Err 500 ''internal_error'', m)
        | Inl _ \<Rightarrow> (Ok ''logged_out'', m)
        | Inr claims \<Rightarrow>
            (Ok ''logged_out'',
             revoke_asessions (\<lambda>s. ss_jti s = hash_token C (py_str repr (dict_get_or claims ''jti'' (VStr [])))) m))"

definition new_admin :: "crypto \<Rightarrow> fresh \<Rightarrow> string \<Rightarrow> string \<Rightarrow> string \<Rightarrow> admin_row" where
  "new_admin C F email password name =
     \<lparr>am_id = fr_user F, am_email = email, am_hash = projr (hash_password C (fr_salt F) default_iterations password),
      am_name = (if name = [] then None else Some name), am_status = ''active'', am_failed = 0, am_locked = None,
      am_totp_secret = None, am_totp_enabled = False, am_last_step = 0\<rparr>"

definition insert_admin ::
  "env \<Rightarrow> fresh \<Rightarrow> py_dict \<Rightarrow> string \<Rightarrow> string \<Rightarrow> admin_state \<Rightarrow> string reply \<times> admin_state" where
  "insert_admin E F payload actor action st =
     (let (repr, U, C) = E; (m, d) = st;
          email = pstr_clean E payload ''email'';
          password = pstr E payload ''password'';
          name = py_strip (pstr E payload ''full_name'') in
      if \<not> email_re email then (Err 422 ''invalid_email'', st)
      else if validate_password_strength U password \<noteq> [] then (Err 422 ''weak_password'', st)
      else if admin_by_email email m \<noteq> None then (Err 409 ''email_taken'', st)
      else (Ok (fr_user F), m\<lparr>admins := admins m @ [new_admin C F email password name]\<rparr>,
            audit PgUp actor action None [(''email'', VStr email)] d))"

definition bootstrap ::
  "env \<Rightarrow> string \<Rightarrow> string option \<Rightarrow> fresh \<Rightarrow> py_dict \<Rightarrow> admin_state \<Rightarrow> string reply \<times> admin_state" where
  "bootstrap E admin_token token F payload st =
     (if admin_token = [] \<or> token \<noteq> Some admin_token then (Err 401 ''unauthorized'', st)
      else insert_admin E F payload ''operator'' ''admin_auth.bootstrap'' st)"

subsection \<open>Second factor enrolment and account changes\<close>

definition totp_status :: "principal option \<Rightarrow> mdb \<Rightarrow> bool reply" where
  "totp_status p m =
     (case p of None \<Rightarrow> Err 401 ''unauthenticated''
      | Some q \<Rightarrow> Ok (case admin_by_id (pp_user q) m of None \<Rightarrow> False | Some r \<Rightarrow> am_totp_enabled r))"

definition totp_enroll ::
  "env \<Rightarrow> string \<Rightarrow> principal option \<Rightarrow> py_dict \<Rightarrow> mdb \<Rightarrow> string reply \<times> mdb" where
  "totp_enroll E new_secret p payload m =
     (case p of None \<Rightarrow> (Err 401 ''unauthenticated'', m)
      | Some q \<Rightarrow>
          (case admin_by_id (pp_user q) m of
             None \<Rightarrow> (Err 403 ''invalid_password'', m)
           | Some r \<Rightarrow>
               if \<not> verify_password (snd (snd E)) (pstr E payload ''current_password'') (am_hash r)
               then (Err 403 ''invalid_password'', m)
               else if am_totp_enabled r then (Err 409 ''totp_already_enabled'', m)
               else (Ok new_secret, update_admin (pp_user q) (\<lambda>x. x\<lparr>am_totp_secret := Some new_secret\<rparr>) m)))"

definition totp_confirm ::
  "env \<Rightarrow> real \<Rightarrow> principal option \<Rightarrow> py_dict \<Rightarrow> admin_state \<Rightarrow> string reply \<times> admin_state" where
  "totp_confirm E now p payload st =
     (let (m, d) = st; code = py_strip (pstr E payload ''totp_code'') in
      case p of None \<Rightarrow> (Err 401 ''unauthenticated'', st)
      | Some q \<Rightarrow>
          (case admin_by_id (pp_user q) m of
             None \<Rightarrow> (Err 409 ''totp_not_enrolled'', st)
           | Some r \<Rightarrow>
               if the_or [] (am_totp_secret r) = [] then (Err 409 ''totp_not_enrolled'', st)
               else if am_totp_enabled r then (Err 409 ''totp_already_enabled'', st)
               else (case verify_totp_step (fst (snd E)) (snd (snd E)) (the (am_totp_secret r)) code 1 now of
                   Inl _ \<Rightarrow> (Err 500 ''internal_error'', st)
                 | Inr None \<Rightarrow> (Err 401 ''invalid_totp'', st)
                 | Inr (Some step) \<Rightarrow>
                     (Ok ''totp_enabled'',
                      update_admin (pp_user q) (\<lambda>x. x\<lparr>am_totp_enabled := True, am_last_step := step\<rparr>) m,
                      audit PgUp (am_email r) ''admin_auth.totp_enabled'' None [] d))))"

definition totp_disable ::
  "env \<Rightarrow> real \<Rightarrow> principal option \<Rightarrow> py_dict \<Rightarrow> admin_state \<Rightarrow> string reply \<times> admin_state" where
  "totp_disable E now p payload st =
     (let (m, d) = st; code = py_strip (pstr E payload ''totp_code'') in
      case p of None \<Rightarrow> (Err 401 ''unauthenticated'', st)
      | Some q \<Rightarrow>
          (case admin_by_id (pp_user q) m of
             None \<Rightarrow> (Err 409 ''totp_not_enabled'', st)
           | Some r \<Rightarrow>
               if \<not> am_totp_enabled r then (Err 409 ''totp_not_enabled'', st)
               else if \<not> verify_password (snd (snd E)) (pstr E payload ''current_password'') (am_hash r)
               then (Err 403 ''invalid_password'', st)
               else (case verify_totp (fst (snd E)) (snd (snd E)) (the_or ''None'' (am_totp_secret r)) code 1 now of
                   Inl _ \<Rightarrow> (Err 500 ''internal_error'', st)
                 | Inr False \<Rightarrow> (Err 401 ''invalid_totp'', st)
                 | Inr True \<Rightarrow>
                     (Ok ''totp_disabled'',
                      update_admin (pp_user q) (\<lambda>x. x\<lparr>am_totp_enabled := False, am_totp_secret := None\<rparr>) m,
                      audit PgUp (am_email r) ''admin_auth.totp_disabled'' None [] d))))"

definition admin_change_password ::
  "env \<Rightarrow> fresh \<Rightarrow> principal option \<Rightarrow> py_dict \<Rightarrow> mdb \<Rightarrow> string reply \<times> mdb" where
  "admin_change_password E F p payload m =
     (let (repr, U, C) = E; new = pstr E payload ''new_password'' in
      case p of None \<Rightarrow> (Err 401 ''unauthenticated'', m)
      | Some q \<Rightarrow>
          if validate_password_strength U new \<noteq> [] then (Err 422 ''weak_password'', m)
          else case admin_by_id (pp_user q) m of
              None \<Rightarrow> (Err 403 ''invalid_password'', m)
            | Some r \<Rightarrow>
                if \<not> verify_password C (pstr E payload ''current_password'') (am_hash r) then (Err 403 ''invalid_password'', m)
                else (Ok ''password_updated'',
                      update_admin (pp_user q) (\<lambda>x. x\<lparr>am_hash := projr (hash_password C (fr_salt F) default_iterations new)\<rparr>) m))"

definition admin_change_email ::
  "env \<Rightarrow> principal option \<Rightarrow> py_dict \<Rightarrow> admin_state \<Rightarrow> string reply \<times> admin_state" where
  "admin_change_email E p payload st =
     (let (repr, U, C) = E; (m, d) = st; new = pstr_clean E payload ''new_email'' in
      case p of None \<Rightarrow> (Err 401 ''unauthenticated'', st)
      | Some q \<Rightarrow>
          if \<not> email_re new then (Err 422 ''invalid_email'', st)
          else case admin_by_id (pp_user q) m of
              None \<Rightarrow> (Err 403 ''invalid_password'', st)
            | Some r \<Rightarrow>
                if \<not> verify_password C (pstr E payload ''current_password'') (am_hash r) then (Err 403 ''invalid_password'', st)
                else if new = am_email r then (Err 422 ''invalid_email'', st)
                else if list_ex (\<lambda>x. py_lower (am_email x) = new \<and> am_id x \<noteq> py_lower (pp_user q)) (admins m)
                then (Err 409 ''email_taken'', st)
                else (Ok new, update_admin (pp_user q) (\<lambda>x. x\<lparr>am_email := new\<rparr>) m,
                      audit PgUp (am_email r) ''admin_auth.change_email'' None [(''new_email'', VStr new)] d))"

subsection \<open>Operator management\<close>

text \<open>\<open>_principal\<close>: a signed-in admin, or the operator token without a principal; \<open>None\<close> is refused.\<close>

definition operator_principal :: "string \<Rightarrow> string option \<Rightarrow> principal option \<Rightarrow> principal option option" where
  "operator_principal expected token p =
     (case p of Some q \<Rightarrow> Some (Some q)
      | None \<Rightarrow> if operator_authorized expected token then Some None else None)"

text \<open>\<open>_UUID_RE\<close>: hyphenated, any letter case.\<close>

definition uuid_re :: "string \<Rightarrow> bool" where
  "uuid_re s \<longleftrightarrow> length s = 36 \<and>
     list_all (\<lambda>i. if i \<in> {8, 13, 18, 23} then s ! i = CHR ''-'' else is_hex_digit (s ! i)) [0..<36]"

definition actor_of :: "principal option \<Rightarrow> string" where
  "actor_of p = (case p of Some q \<Rightarrow> pp_email q | None \<Rightarrow> ''operator'')"

definition is_self :: "principal option \<Rightarrow> string \<Rightarrow> bool" where
  "is_self p i = (case p of Some q \<Rightarrow> pp_user q = i | None \<Rightarrow> False)"

definition list_operators :: "principal option option \<Rightarrow> real \<Rightarrow> mdb \<Rightarrow> (admin_row \<times> nat) list reply" where
  "list_operators auth now m =
     (case auth of None \<Rightarrow> Err 401 ''unauthorized''
      | Some _ \<Rightarrow> Ok (map (\<lambda>r. (r, length (filter (\<lambda>s. ss_user s = am_id r \<and> \<not> ss_revoked s \<and> ss_expires s > now) (asessions m)))) (admins m)))"

definition create_operator ::
  "env \<Rightarrow> principal option option \<Rightarrow> bool \<Rightarrow> fresh \<Rightarrow> py_dict \<Rightarrow> admin_state \<Rightarrow> string reply \<times> admin_state" where
  "create_operator E auth rate_ok F payload st =
     (case auth of None \<Rightarrow> (Err 401 ''unauthorized'', st)
      | Some p \<Rightarrow>
          if \<not> rate_ok then (Err 429 ''rate_limited'', st)
          else insert_admin E F payload (actor_of p) ''operator.create'' st)"

definition update_operator ::
  "env \<Rightarrow> principal option option \<Rightarrow> string \<Rightarrow> py_dict \<Rightarrow> admin_state \<Rightarrow> string reply \<times> admin_state" where
  "update_operator E auth i payload st =
     (let (m, d) = st in
      case auth of None \<Rightarrow> (Err 401 ''unauthorized'', st)
      | Some p \<Rightarrow>
          if \<not> uuid_re i then (Err 404 ''not_found'', st)
          else if map_of payload ''full_name'' = None then (Err 422 ''invalid_request'', st)
          else
            let name = py_strip (pstr E payload ''full_name'') in
            if admin_by_id i m = None then (Err 404 ''not_found'', st)
            else (Ok ''updated'', update_admin i (\<lambda>x. x\<lparr>am_name := (if name = [] then None else Some name)\<rparr>) m,
                  audit PgUp (actor_of p) ''operator.update'' None [(''operator_id'', VStr i)] d))"

definition active_others :: "string \<Rightarrow> mdb \<Rightarrow> nat" where
  "active_others i m = length (filter (\<lambda>r. am_status r = ''active'' \<and> am_id r \<noteq> py_lower i) (admins m))"

text \<open>The transaction of a status change: what it reads, then what it writes.\<close>

definition status_check :: "string \<Rightarrow> string \<Rightarrow> mdb \<Rightarrow> unit reply" where
  "status_check i status m =
     (case admin_by_id i m of
        None \<Rightarrow> Err 404 ''not_found''
      | Some r \<Rightarrow>
          if status = ''suspended'' \<and> am_status r = ''active'' \<and> active_others i m = 0
          then Err 409 ''last_admin'' else Ok ())"

definition status_write :: "string \<Rightarrow> string \<Rightarrow> mdb \<Rightarrow> mdb" where
  "status_write i status m =
     (let m1 = update_admin i (\<lambda>x. x\<lparr>am_status := status\<rparr>) m
      in if status = ''suspended'' then revoke_asessions (\<lambda>s. ss_user s = py_lower i) m1 else m1)"

definition set_operator_status ::
  "env \<Rightarrow> principal option option \<Rightarrow> bool \<Rightarrow> string \<Rightarrow> py_dict \<Rightarrow> admin_state \<Rightarrow> string reply \<times> admin_state" where
  "set_operator_status E auth rate_ok i payload st =
     (let (m, d) = st; status = pstr E payload ''status'' in
      case auth of None \<Rightarrow> (Err 401 ''unauthorized'', st)
      | Some p \<Rightarrow>
          if \<not> uuid_re i then (Err 404 ''not_found'', st)
          else if \<not> rate_ok then (Err 429 ''rate_limited'', st)
          else if status \<noteq> ''active'' \<and> status \<noteq> ''suspended'' then (Err 422 ''invalid_request'', st)
          else if status = ''suspended'' \<and> is_self p i then (Err 409 ''self_action'', st)
          else case status_check i status m of
              Err c e \<Rightarrow> (Err c e, st)
            | Ok _ \<Rightarrow> (Ok status, status_write i status m,
                audit PgUp (actor_of p) ''operator.status'' None [(''operator_id'', VStr i), (''status'', VStr status)] d))"

definition delete_operator ::
  "principal option option \<Rightarrow> bool \<Rightarrow> string \<Rightarrow> admin_state \<Rightarrow> string reply \<times> admin_state" where
  "delete_operator auth rate_ok i st =
     (let (m, d) = st in
      case auth of None \<Rightarrow> (Err 401 ''unauthorized'', st)
      | Some p \<Rightarrow>
          if \<not> uuid_re i then (Err 404 ''not_found'', st)
          else if \<not> rate_ok then (Err 429 ''rate_limited'', st)
          else if is_self p i then (Err 409 ''self_action'', st)
          else case admin_by_id i m of
              None \<Rightarrow> (Err 404 ''not_found'', st)
            | Some r \<Rightarrow>
                if am_status r = ''active'' \<and> active_others i m = 0 then (Err 409 ''last_admin'', st)
                else (Ok ''deleted'',
                      m\<lparr>admins := filter (\<lambda>x. am_id x \<noteq> py_lower i) (admins m),
                        asessions := filter (\<lambda>s. ss_user s \<noteq> py_lower i) (asessions m)\<rparr>,
                      audit PgUp (actor_of p) ''operator.delete'' None
                        [(''operator_id'', VStr i), (''email'', VStr (am_email r))] d))"

subsection \<open>The operator plane as a machine\<close>

datatype admin_event =
    ALogin bool fresh real py_dict
  | ARefresh fresh real py_dict "string option"
  | ALogout real py_dict "string option"
  | ABootstrap "string option" fresh py_dict
  | AEnroll string "principal option" py_dict
  | AConfirm real "principal option" py_dict
  | ADisable real "principal option" py_dict
  | APassword fresh "principal option" py_dict
  | AEmail "principal option" py_dict
  | ACreate "principal option option" bool fresh py_dict
  | ARename "principal option option" string py_dict
  | AStatus "principal option option" bool string py_dict
  | ADelete "principal option option" bool string

text \<open>The primary key refuses an id that exists, so a creation with a used id is no step.\<close>

fun admin_step :: "env \<Rightarrow> auth_cfg \<Rightarrow> string \<Rightarrow> admin_state \<Rightarrow> admin_event \<Rightarrow> admin_state" where
  "admin_step E cfg tok st (ALogin ok F now pay) = snd (admin_login E cfg ok F now pay st)"
| "admin_step E cfg tok (m, d) (ARefresh F now pay c) = (snd (admin_refresh E cfg F now pay c m), d)"
| "admin_step E cfg tok (m, d) (ALogout now pay c) = (snd (admin_logout E cfg now pay c m), d)"
| "admin_step E cfg tok st (ABootstrap t F pay) =
     (if fr_user F \<in> am_id ` set (admins (fst st)) then st else snd (bootstrap E tok t F pay st))"
| "admin_step E cfg tok (m, d) (AEnroll s p pay) = (snd (totp_enroll E s p pay m), d)"
| "admin_step E cfg tok st (AConfirm now p pay) = snd (totp_confirm E now p pay st)"
| "admin_step E cfg tok st (ADisable now p pay) = snd (totp_disable E now p pay st)"
| "admin_step E cfg tok (m, d) (APassword F p pay) = (snd (admin_change_password E F p pay m), d)"
| "admin_step E cfg tok st (AEmail p pay) = snd (admin_change_email E p pay st)"
| "admin_step E cfg tok st (ACreate au ok F pay) =
     (if fr_user F \<in> am_id ` set (admins (fst st)) then st else snd (create_operator E au ok F pay st))"
| "admin_step E cfg tok st (ARename au i pay) = snd (update_operator E au i pay st)"
| "admin_step E cfg tok st (AStatus au ok i pay) = snd (set_operator_status E au ok i pay st)"
| "admin_step E cfg tok st (ADelete au ok i) = snd (delete_operator au ok i st)"

text \<open>Some administrator can work.\<close>

definition has_active :: "mdb \<Rightarrow> bool" where
  "has_active m \<longleftrightarrow> list_ex (\<lambda>r. am_status r = ''active'') (admins m)"

definition admins_ok :: "mdb \<Rightarrow> bool" where
  "admins_ok m \<longleftrightarrow> distinct (map am_id (admins m)) \<and> has_active m"

lemma admins_ok_cong: "admins m' = admins m \<Longrightarrow> admins_ok m' = admins_ok m"
  by (simp add: admins_ok_def has_active_def)

lemma admins_ok_update:
  assumes "\<And>r. am_id (f r) = am_id r" "\<And>r. am_status (f r) = am_status r"
  shows "admins_ok (update_admin i f m) = admins_ok m"
proof -
  have "map am_id (update_where P f rs) = map am_id rs"
    "list_ex (\<lambda>r. am_status r = ''active'') (update_where P f rs) = list_ex (\<lambda>r. am_status r = ''active'') rs" for P rs
    by (induction rs) (auto simp: assms)
  then show ?thesis by (simp add: admins_ok_def has_active_def update_admin_def)
qed

lemma revoke_asessions_ok [simp]: "admins_ok (revoke_asessions P m) = admins_ok m"
  by (rule admins_ok_cong) (simp add: revoke_asessions_def)

lemma insert_asession_ok [simp]: "admins_ok (insert_asession F i tp m) = admins_ok m"
  by (rule admins_ok_cong) (simp add: insert_asession_def)

lemma count_failure_ok [simp]: "admins_ok (count_failure cfg now r m) = admins_ok m"
  by (simp add: count_failure_def admins_ok_update Let_def)

lemma finish_login_ok: "admins_ok (fst st) \<Longrightarrow> admins_ok (fst (snd (admin_finish_login E cfg F now e pw r st)))"
  by (cases st; cases E) (auto simp: admin_finish_login_def admins_ok_update Let_def split: sum.splits)

lemma admin_login_ok: "admins_ok (fst st) \<Longrightarrow> admins_ok (fst (snd (admin_login E cfg ok F now pay st)))"
  by (cases st; cases E)
    (auto simp: admin_login_def finish_login_ok admins_ok_update Let_def split: option.splits sum.splits)

lemma insert_admin_ok:
  assumes "admins_ok (fst st)" "fr_user F \<notin> am_id ` set (admins (fst st))"
  shows "admins_ok (fst (snd (insert_admin E F pay ac an st)))"
  using assms
  by (cases st; cases E) (auto simp: insert_admin_def admins_ok_def has_active_def new_admin_def Let_def)

lemma others_stay_active:
  assumes "active_others i m \<noteq> 0" shows "\<exists>r\<in>set (admins m). am_status r = ''active'' \<and> am_id r \<noteq> py_lower i"
  using assms by (auto simp: active_others_def filter_empty_conv)

text \<open>The guard of the last administrator: someone else is active, or the target was not.\<close>

lemma another_active:
  assumes "admins_ok m" "admin_by_id i m = Some r" "\<not> (am_status r = ''active'' \<and> active_others i m = 0)"
  shows "\<exists>q\<in>set (admins m). am_status q = ''active'' \<and> am_id q \<noteq> py_lower i"
proof (cases "am_status r = ''active''")
  case True
  with assms(3) show ?thesis by (intro others_stay_active) simp
next
  case False
  obtain q where q: "q \<in> set (admins m)" "am_status q = ''active''"
    using assms(1) by (auto simp: admins_ok_def has_active_def list_ex_iff)
  have r: "r \<in> set (admins m)" "am_id r = py_lower i"
    using assms(2) by (auto simp: admin_by_id_def dest: find_SomeD)
  have "am_id q \<noteq> py_lower i"
  proof
    assume "am_id q = py_lower i"
    then have "q = r" using assms(1) q(1) r by (auto simp: admins_ok_def distinct_map inj_on_def)
    with False q(2) show False by simp
  qed
  with q show ?thesis by blast
qed

lemma status_write_ok:
  assumes "admins_ok m" "status_check i st m = Ok x" "st = ''active'' \<or> st = ''suspended''"
  shows "admins_ok (status_write i st m)"
proof -
  have ids: "map am_id (admins (update_admin i (\<lambda>x. x\<lparr>am_status := s\<rparr>) m)) = map am_id (admins m)" for s
    by (simp add: update_admin_def update_where_def)
  obtain r where r: "admin_by_id i m = Some r"
    using assms(2) by (auto simp: status_check_def split: option.splits)
  have "has_active (update_admin i (\<lambda>x. x\<lparr>am_status := st\<rparr>) m)"
  proof (cases "st = ''active''")
    case True
    obtain q where "q \<in> set (admins m)" "am_status q = ''active''"
      using assms(1) by (auto simp: admins_ok_def has_active_def list_ex_iff)
    then have "(if am_id q = py_lower i then q\<lparr>am_status := st\<rparr> else q) \<in>
        set (admins (update_admin i (\<lambda>x. x\<lparr>am_status := st\<rparr>) m))"
      by (auto simp: update_admin_def set_update_where)
    with True \<open>am_status q = ''active''\<close> show ?thesis
      unfolding has_active_def list_ex_iff by (rule_tac bexI) (auto split: if_splits)
  next
    case False
    with assms(3) have "st = ''suspended''" by simp
    with assms(2) r have "\<not> (am_status r = ''active'' \<and> active_others i m = 0)"
      by (auto simp: status_check_def split: if_splits)
    from another_active [OF assms(1) r this] show ?thesis
      by (auto simp: has_active_def update_admin_def list_ex_iff set_update_where intro!: bexI)
  qed
  with assms(1) ids show ?thesis
    by (auto simp: status_write_def admins_ok_def has_active_def revoke_asessions_def Let_def)
qed

lemma delete_ok: "admins_ok (fst st) \<Longrightarrow> admins_ok (fst (snd (delete_operator au ok i st)))"
proof (cases st)
  case (Pair m d)
  assume "admins_ok (fst st)"
  then have m: "admins_ok m" by (simp add: Pair)
  have "admins_ok (m\<lparr>admins := filter (\<lambda>x. am_id x \<noteq> py_lower i) (admins m), asessions := ss\<rparr>)"
    if "admin_by_id i m = Some r" "\<not> (am_status r = ''active'' \<and> active_others i m = 0)" for r ss
    using m another_active [OF m that]
    by (auto simp: admins_ok_def has_active_def list_ex_iff distinct_map_filter)
  then show ?thesis using m by (auto simp: Pair delete_operator_def Let_def split: option.splits)
qed

lemma admin_step_ok: "admins_ok (fst st) \<Longrightarrow> admins_ok (fst (admin_step E cfg tok st e))"
proof -
  assume ok: "admins_ok (fst st)"
  obtain m d where st: "st = (m, d)" by (cases st)
  obtain repr U C where E: "E = (repr, U, C)" by (cases E)
  have m: "admins_ok m" using ok st by simp
  show ?thesis
  proof (cases e)
    case (ALogin rok F now pay)
    then show ?thesis using ok by (simp add: admin_login_ok)
  next
    case (ARefresh F now pay c)
    then show ?thesis using m
      by (auto simp: st E admin_refresh_def Let_def split: option.splits sum.splits)
  next
    case (ALogout now pay c)
    then show ?thesis using m by (auto simp: st E admin_logout_def Let_def split: sum.splits token_error.splits)
  next
    case (ABootstrap t F pay)
    then show ?thesis using ok by (simp add: bootstrap_def insert_admin_ok)
  next
    case (AEnroll s p pay)
    then show ?thesis using m by (auto simp: st totp_enroll_def admins_ok_update split: option.splits)
  next
    case (AConfirm now p pay)
    then show ?thesis using m by (auto simp: st totp_confirm_def admins_ok_update Let_def split: option.splits sum.splits)
  next
    case (ADisable now p pay)
    then show ?thesis using m
      by (auto simp: st totp_disable_def admins_ok_update Let_def split: option.splits sum.splits bool.splits)
  next
    case (APassword F p pay)
    then show ?thesis using m by (auto simp: st E admin_change_password_def admins_ok_update Let_def split: option.splits)
  next
    case (AEmail p pay)
    then show ?thesis using m by (auto simp: st E admin_change_email_def admins_ok_update Let_def split: option.splits)
  next
    case (ACreate au rok F pay)
    then show ?thesis using ok by (auto simp: create_operator_def insert_admin_ok split: option.splits)
  next
    case (ARename au i pay)
    then show ?thesis using m by (auto simp: st update_operator_def admins_ok_update Let_def split: option.splits)
  next
    case (AStatus au rok i pay)
    then show ?thesis using m
      by (auto simp: st set_operator_status_def Let_def intro: status_write_ok split: option.splits reply.splits)
  next
    case (ADelete au rok i)
    then show ?thesis using ok by (simp add: delete_ok)
  qed
qed

interpretation admin_plane: invariant_machine "admin_step E cfg tok" "\<lambda>st. admins_ok (fst st)" for E cfg tok
  by unfold_locales (rule admin_step_ok)

subsection \<open>Properties of the operator plane\<close>

text \<open>C8: As long as requests run one after the other, the platform keeps an active administrator:
  from a state that has one (with distinct ids), no sequence of logins, bootstraps, account changes,
  suspensions and deletions, whoever asks for them, reaches a state without one.\<close>

theorem active_admin_survives:
  assumes "distinct (map am_id (admins (fst st)))" and "has_active (fst st)"
  shows "has_active (fst (foldl (admin_step E cfg tok) st es))"
proof -
  have "admins_ok (fst st)" using assms by (simp add: admins_ok_def)
  then have "admins_ok (fst (foldl (admin_step E cfg tok) st es))" by (rule admin_plane.run_inv)
  then show ?thesis by (simp add: admins_ok_def)
qed

definition demo_admin :: "string \<Rightarrow> admin_row" where
  "demo_admin i = \<lparr>am_id = i, am_email = i @ ''@b.c'', am_hash = ''h'', am_name = None, am_status = ''active'',
     am_failed = 0, am_locked = None, am_totp_secret = Some ''AAAA'', am_totp_enabled = True, am_last_step = 0\<rparr>"

theorem active_admin_survives_witness:
  "has_active (fst (foldl (admin_step demo_env demo_cfg ''t'')
     (\<lparr>admins = [demo_admin ''a''], asessions = []\<rparr>, empty_db)
     [ADelete (Some None) True ''a'', AStatus (Some None) True ''a'' [(''status'', VStr ''suspended'')]]))"
  by (rule active_admin_survives) (simp_all add: has_active_def demo_admin_def)

text \<open>The guard of the last administrator reads the other rows without locking them: two
  suspensions of the only two active administrators that both check before either writes both pass
  their check, and after both writes no administrator is active.\<close>

theorem concurrent_suspensions_lock_out:
  assumes "admins m = [r1, r2]" and "am_status r1 = ''active''" and "am_status r2 = ''active''"
    and "am_id r1 = py_lower i1" and "am_id r2 = py_lower i2" and "am_id r1 \<noteq> am_id r2"
  shows "status_check i1 ''suspended'' m = Ok () \<and> status_check i2 ''suspended'' m = Ok () \<and>
    \<not> has_active (status_write i2 ''suspended'' (status_write i1 ''suspended'' m))"
  using assms
  by (simp add: status_check_def admin_by_id_def active_others_def status_write_def has_active_def
      update_admin_def revoke_asessions_def Let_def)

theorem concurrent_suspensions_lock_out_witness:
  "\<not> has_active (status_write ''b'' ''suspended'' (status_write ''a'' ''suspended''
     \<lparr>admins = [demo_admin ''a'', demo_admin ''b''], asessions = []\<rparr>))"
  using concurrent_suspensions_lock_out
    [of "\<lparr>admins = [demo_admin ''a'', demo_admin ''b''], asessions = []\<rparr>" "demo_admin ''a''" "demo_admin ''b''" "''a''" "''b''"]
  by (simp add: demo_admin_def py_lower_def lower_char_def Let_def)

lemma find_update_where:
  assumes "\<And>r. P (f r) = P r"
  shows "find P (update_where Q f rs) = map_option (\<lambda>r. if Q r then f r else r) (find P rs)"
  using assms by (induction rs) auto

lemma finish_login_row:
  assumes "admin_by_email e m = Some r" "py_lower (am_id r) = am_id r" "am_last_step r = s" "am_id q = am_id r"
    and "admin_finish_login E cfg F now em pw q (m, d) = (Ok tp, st')"
  shows "\<exists>r'. admin_by_email e (fst st') = Some r' \<and> am_last_step r' = s \<and>
    am_totp_enabled r' = am_totp_enabled r \<and> am_totp_secret r' = am_totp_secret r \<and> am_id r' = am_id r"
  using assms
  by (cases E)
    (auto simp: admin_finish_login_def admin_by_email_def update_admin_def insert_asession_def Let_def find_update_where
      split: sum.splits if_splits)

text \<open>A successful login of an account with a second factor, taken apart.\<close>

lemma totp_login_step:
  assumes "admin_login E cfg ok F now pay (m, d) = (Ok tp, st')"
    and "admin_by_email (pstr_clean E pay ''email'') m = Some r" and "am_totp_enabled r"
    and "py_lower (am_id r) = am_id r"
  shows "\<exists>s r'. verify_totp_step (fst (snd E)) (snd (snd E)) (the_or ''None'' (am_totp_secret r))
      (py_strip (pstr E pay ''totp_code'')) 1 now = Inr (Some s) \<and> am_last_step r < s \<and>
    admin_by_email (pstr_clean E pay ''email'') (fst st') = Some r' \<and> am_last_step r' = s \<and>
    am_totp_enabled r' \<and> am_totp_secret r' = am_totp_secret r \<and> am_id r' = am_id r"
proof -
  obtain repr U C where E: "E = (repr, U, C)" by (cases E)
  let ?e = "pstr_clean E pay ''email''"
  obtain s where s: "verify_totp_step U C (the_or ''None'' (am_totp_secret r)) (py_strip (pstr E pay ''totp_code'')) 1 now = Inr (Some s)"
    "am_last_step r < s"
    and fin: "admin_finish_login E cfg F now ?e (pstr E pay ''password'') r
       (update_admin (am_id r) (\<lambda>x. x\<lparr>am_last_step := s\<rparr>) m, d) = (Ok tp, st')"
    using assms(1-3) by (auto simp: admin_login_def E Let_def split: if_splits option.splits sum.splits)
  have "admin_by_email ?e (update_admin (am_id r) (\<lambda>x. x\<lparr>am_last_step := s\<rparr>) m) = Some (r\<lparr>am_last_step := s\<rparr>)"
    using assms(2,4) by (simp add: admin_by_email_def update_admin_def find_update_where)
  note row = this
  have "py_lower (am_id (r\<lparr>am_last_step := s\<rparr>)) = am_id (r\<lparr>am_last_step := s\<rparr>)" using assms(4) by simp
  from finish_login_row [OF row this _ _ fin] have
    "\<exists>r'. admin_by_email ?e (fst st') = Some r' \<and> am_last_step r' = s \<and> am_totp_enabled r' = am_totp_enabled r \<and>
      am_totp_secret r' = am_totp_secret r \<and> am_id r' = am_id r" by simp
  then obtain r' where "admin_by_email ?e (fst st') = Some r'" "am_last_step r' = s" "am_totp_enabled r'"
    "am_totp_secret r' = am_totp_secret r" "am_id r' = am_id r" using assms(3) by blast
  moreover have "fst (snd E) = U" "snd (snd E) = C" by (simp_all add: E)
  ultimately show ?thesis using s by (intro exI [of _ s] exI [of _ r'] conjI) simp_all
qed


text \<open>Two logins of one operator, thirty seconds apart, with a code generator that shows one code.\<close>

definition second_factor_env :: env where
  "second_factor_env = (\<lambda>_. [], ascii_unicode, (toy_crypto [])
     \<lparr>cr_hmac1 := (\<lambda>k n. [CHR 0x00, CHR 0x00, CHR 0x00, CHR 0x00, CHR 0x00])\<rparr>)"

definition second_factor_admin :: admin_row where
  "second_factor_admin = (demo_admin ''a'')
     \<lparr>am_hash := hash_algorithm @ CHR ''$'' # nat_str default_iterations @ CHR ''$'' # ''s'' @ CHR ''$'' # ''pw''\<rparr>"

definition second_factor_login :: py_dict where
  "second_factor_login = [(''email'', VStr ''a@b.c''), (''password'', VStr ''pw''), (''totp_code'', VStr ''000000'')]"

lemma split_stored_hash:
  assumes "CHR ''$'' \<notin> set a" "CHR ''$'' \<notin> set b"
  shows "split_max 3 (CHR ''$'') (hash_algorithm @ CHR ''$'' # nat_str n @ CHR ''$'' # a @ CHR ''$'' # b) =
    [hash_algorithm, nat_str n, a, b]"
  using assms
  by (simp add: eval_nat_numeral split_max_append split_max_no_sep nat_str_no_dollar hash_algorithm_def)

lemma second_factor_hash:
  "verify_password (snd (snd second_factor_env)) ''pw'' (am_hash second_factor_admin)"
  "needs_rehash default_iterations (am_hash second_factor_admin) = Inr False"
proof -
  have "split_max 3 (CHR ''$'') (am_hash second_factor_admin) = [hash_algorithm, nat_str default_iterations, ''s'', ''pw'']"
    using split_stored_hash [of "''s''" "''pw''" default_iterations] by (simp add: second_factor_admin_def)
  then show "verify_password (snd (snd second_factor_env)) ''pw'' (am_hash second_factor_admin)"
    "needs_rehash default_iterations (am_hash second_factor_admin) = Inr False"
    by (simp_all add: verify_password_def needs_rehash_def parse_nat_str second_factor_env_def toy_crypto_def)
qed

lemma second_factor_code: "code_at_step (snd (snd second_factor_env)) k n = ''000000''"
proof -
  have r: "replicate 5 (CHR ''0'') = ''00000''" by (simp add: eval_nat_numeral)
  show ?thesis
    by (simp add: code_at_step_def second_factor_env_def truncate_digest_def byte_at_def totp_digits_def zfill_def
        nat_str.simps digit_char_def Let_def r)
qed

lemma second_factor_step:
  "verify_totp_step (fst (snd second_factor_env)) (snd (snd second_factor_env)) k ''000000'' 1 now = Inr (Some (totp_step (now + step_seconds)))"
proof -
  have strip: "filter (\<lambda>c. c \<noteq> CHR '' '') (py_strip ''000000'') = ''000000''"
    by (simp add: py_strip_def is_space_def)
  have "[- 1..1::int] = [-1, 0, 1]" by (simp add: upto.simps)
  then show ?thesis
    unfolding verify_totp_step_def strip Let_def totp_code_def second_factor_code
    by (simp add: is_cont_byte_def second_factor_env_def ascii_unicode_def is_digit_def totp_digits_def is_ascii_def)
qed

lemma second_factor_fields:
  "pstr_clean second_factor_env second_factor_login ''email'' = ''a@b.c''"
  "pstr second_factor_env second_factor_login ''password'' = ''pw''"
  "py_strip (pstr second_factor_env second_factor_login ''totp_code'') = ''000000''"
  by (simp_all add: second_factor_login_def second_factor_env_def pstr_clean_def pstr_def dict_get_or_def py_strip_def
      is_space_def py_lower_def lower_char_def Let_def)

lemma second_factor_succeeds:
  assumes "old < totp_step (now + step_seconds)"
  shows "\<exists>tp ss'. admin_login second_factor_env demo_cfg True demo_fresh now second_factor_login
      (\<lparr>admins = [second_factor_admin\<lparr>am_last_step := old\<rparr>], asessions = ss\<rparr>, d) =
    (Ok tp, \<lparr>admins = [second_factor_admin\<lparr>am_last_step := totp_step (now + step_seconds)\<rparr>], asessions = ss'\<rparr>,
     audit PgUp ''a@b.c'' ''admin_auth.login'' None [] d)"
proof -
  obtain repr U C where E: "second_factor_env = (repr, U, C)" by (cases second_factor_env)
  have "fst (snd second_factor_env) = U" "snd (snd second_factor_env) = C" by (simp_all add: E)
  moreover have "am_email second_factor_admin = ''a@b.c''" "am_status second_factor_admin = ''active''"
    "am_locked second_factor_admin = None" "am_totp_enabled second_factor_admin" "am_id second_factor_admin = ''a''"
    "am_failed second_factor_admin = 0"
    by (simp_all add: second_factor_admin_def demo_admin_def)
  moreover have "py_lower ''a@b.c'' = ''a@b.c''" "py_lower ''a'' = ''a''"
    by (simp_all add: py_lower_def lower_char_def Let_def)
  ultimately show ?thesis
    using assms second_factor_hash second_factor_step second_factor_fields
    by (simp add: admin_login_def admin_finish_login_def admin_by_email_def update_admin_def insert_asession_def
        E Let_def demo_cfg_def)
qed


end
