(* ===== verification/Cache.thy ===== *)
theory Cache
  imports Redis
begin

text \<open>
  The answer caches under \<open>packages/acip_cache\<close>: the exact cache (\<open>l1.py\<close>), whose key embeds the
  tenant's data version (\<open>data_version.py\<close>), and the semantic cache (\<open>l2.py\<close>) over embedding
  vectors. SHA-256 is a parameter; a cached JSON text is the value it encodes.
\<close>

subsection \<open>Exact cache\<close>

definition normalize_text :: "string \<Rightarrow> string" where
  "normalize_text text = py_join '' '' (py_split (py_lower (py_strip text)))"

definition cache_key :: "(string \<Rightarrow> string) \<Rightarrow> tenant \<Rightarrow> string \<Rightarrow> int \<Rightarrow> string" where
  "cache_key sha t text data_version =
     ''l1:'' @ t @ '':'' @ sha (t @ CHR 0x1F # normalize_text text @ CHR 0x1F # int_str data_version)"

text \<open>A JSON \<open>null\<close> and an unreadable entry are misses.\<close>

definition l1_get ::
  "(string \<Rightarrow> string) \<Rightarrow> ('w, 'x) redis_scheme option \<Rightarrow> tenant \<Rightarrow> string \<Rightarrow> int \<Rightarrow> 'w \<Rightarrow> pyv option" where
  "l1_get sha redis t text data_version w =
     (case redis of
        None \<Rightarrow> None
      | Some R \<Rightarrow>
          (case rd_get R (cache_key sha t text data_version) w of
             Inr (Some v) \<Rightarrow> if v = VNone then None else Some v
           | _ \<Rightarrow> None))"

definition l1_set ::
  "(string \<Rightarrow> string) \<Rightarrow> ('w, 'x) redis_scheme option \<Rightarrow> nat \<Rightarrow> tenant \<Rightarrow> string \<Rightarrow> int \<Rightarrow> pyv \<Rightarrow> 'w \<Rightarrow> 'w" where
  "l1_set sha redis ttl t text data_version v w =
     (case redis of
        None \<Rightarrow> w
      | Some R \<Rightarrow> snd (rd_set R (cache_key sha t text data_version) v (Some ttl) w))"

subsection \<open>Data version\<close>

definition version_key :: "tenant \<Rightarrow> string" where "version_key t = ''data_version:'' @ t"

text \<open>\<open>int(val)\<close> of the stored counter; anything unreadable is version 0.\<close>

definition current_data_version :: "('w, 'x) redis_scheme option \<Rightarrow> tenant \<Rightarrow> 'w \<Rightarrow> int" where
  "current_data_version redis t w =
     (case redis of
        None \<Rightarrow> 0
      | Some R \<Rightarrow> (case rd_get R (version_key t) w of Inr (Some (VInt i)) \<Rightarrow> i | _ \<Rightarrow> 0))"

definition bump_data_version :: "('w, 'x) redis_scheme option \<Rightarrow> tenant \<Rightarrow> 'w \<Rightarrow> int \<times> 'w" where
  "bump_data_version redis t w =
     (case redis of
        None \<Rightarrow> (0, w)
      | Some R \<Rightarrow> (let (r, w1) = rd_incr R (version_key t) w in (or_else r 0, w1)))"

subsection \<open>Semantic cache\<close>

definition dot_product :: "real list \<Rightarrow> real list \<Rightarrow> real" where
  "dot_product a b = sum_list (map (\<lambda>(x, y). x * y) (zip a b))"

definition cosine :: "real list \<Rightarrow> real list \<Rightarrow> real" where
  "cosine a b =
     (if a = [] \<or> b = [] \<or> length a \<noteq> length b then 0
      else
        let na = sqrt (dot_product a a); nb = sqrt (dot_product b b)
        in if na \<noteq> 0 \<and> nb \<noteq> 0 then dot_product a b / (na * nb) else 0)"

definition l2_key :: "tenant \<Rightarrow> string" where "l2_key t = ''l2:'' @ t"

text \<open>The stored vector of an entry; anything but a list of numbers raises in \<open>cosine\<close>.\<close>

fun num_of :: "pyv \<Rightarrow> real option" where
  "num_of (VNum x) = Some x"
| "num_of (VInt i) = Some (of_int i)"
| "num_of _ = None"

fun nums_of :: "pyv list \<Rightarrow> real list option" where
  "nums_of [] = Some []"
| "nums_of (v # vs) =
     (case (num_of v, nums_of vs) of (Some x, Some xs) \<Rightarrow> Some (x # xs) | _ \<Rightarrow> None)"

definition entry_vector :: "pyv \<Rightarrow> real list res" where
  "entry_vector entry =
     (case entry of
        VDict d \<Rightarrow>
          (case dict_get_or d ''vector'' (VList []) of
             VList vs \<Rightarrow> (case nums_of vs of Some xs \<Rightarrow> Inr xs | None \<Rightarrow> Inl (Exn ''TypeError''))
           | _ \<Rightarrow> Inl (Exn ''TypeError''))
      | _ \<Rightarrow> Inl (Exn ''AttributeError''))"

text \<open>The scan keeps the first entry of the highest positive score.\<close>

fun l2_scan :: "real list \<Rightarrow> pyv list \<Rightarrow> (pyv \<times> real) option \<Rightarrow> (pyv \<times> real) option res" where
  "l2_scan q [] best = Inr best"
| "l2_scan q (entry # rest) best =
     (case entry_vector entry of
        Inl e \<Rightarrow> Inl e
      | Inr v \<Rightarrow>
          let score = cosine q v
          in l2_scan q rest (if score > (case best of None \<Rightarrow> 0 | Some (_, s) \<Rightarrow> s) then Some (entry, score) else best))"

definition entry_answer :: "pyv \<Rightarrow> pyv" where
  "entry_answer entry = (case entry of VDict d \<Rightarrow> dict_get d ''answer'' | _ \<Rightarrow> VNone)"

definition l2_lookup ::
  "('w, 'x) redis_scheme option \<Rightarrow> real \<Rightarrow> int \<Rightarrow> tenant \<Rightarrow> real list \<Rightarrow> 'w \<Rightarrow> (pyv \<times> real) option res" where
  "l2_lookup redis threshold max_entries t q w =
     (case redis of
        None \<Rightarrow> Inr None
      | Some R \<Rightarrow>
          (case rd_lrange R (l2_key t) 0 (max_entries - 1) w of
             Inl _ \<Rightarrow> Inr None
           | Inr entries \<Rightarrow>
               bind_res (l2_scan q entries None)
                 (\<lambda>best. case best of
                     Some (entry, score) \<Rightarrow>
                       Inr (if score \<ge> threshold then Some (entry_answer entry, score) else None)
                   | None \<Rightarrow> Inr None)))"

definition l2_entry :: "real list \<Rightarrow> pyv \<Rightarrow> pyv" where
  "l2_entry q answer = VDict [(''vector'', VList (map VNum q)), (''answer'', answer)]"

definition l2_store ::
  "('w, 'x) redis_scheme option \<Rightarrow> int \<Rightarrow> tenant \<Rightarrow> real list \<Rightarrow> pyv \<Rightarrow> 'w \<Rightarrow> 'w" where
  "l2_store redis max_entries t q answer w =
     (case redis of
        None \<Rightarrow> w
      | Some R \<Rightarrow>
          (let (r, w1) = rd_lpush R (l2_key t) (l2_entry q answer) w
           in case r of Inl _ \<Rightarrow> w1 | Inr _ \<Rightarrow> snd (rd_ltrim R (l2_key t) 0 (max_entries - 1) w1)))"

subsection \<open>Keys of the exact cache\<close>

lemma split_acc_no_space: "\<not> list_ex is_space cur \<Longrightarrow> list_all (\<lambda>p. p \<noteq> [] \<and> \<not> list_ex is_space p) (split_acc cur s)"
  by (induction s arbitrary: cur) (auto simp: list_ex_iff)

lemma py_join_chars: "c \<in> set (py_join sep ps) \<Longrightarrow> c \<in> set sep \<or> (\<exists>p\<in>set ps. c \<in> set p)"
  by (induction sep ps rule: py_join.induct) auto

lemma normalize_text_no_separator: "CHR 0x1F \<notin> set (normalize_text text)"
proof
  assume "CHR 0x1F \<in> set (normalize_text text)"
  then obtain p where "p \<in> set (py_split (py_lower (py_strip text)))" "CHR 0x1F \<in> set p"
    using py_join_chars [of "CHR 0x1F" "'' ''" "py_split (py_lower (py_strip text))"] by (auto simp: normalize_text_def)
  moreover have "is_space (CHR 0x1F)" by (simp add: is_space_def)
  ultimately show False
    using split_acc_no_space [of "[]" "py_lower (py_strip text)"]
    by (auto simp: py_split_def list_all_iff list_ex_iff)
qed

lemma int_str_no_separator: "CHR 0x1F \<notin> set (int_str i)"
  using nat_str_digits [of "CHR 0x1F"] by (auto simp: int_str_def is_digit_def)

text \<open>The hashed text of a key; a hypothesis below excludes one SHA-256 collision between two of them.\<close>

definition key_text :: "tenant \<Rightarrow> string \<Rightarrow> int \<Rightarrow> string" where
  "key_text t text dv = t @ CHR 0x1F # normalize_text text @ CHR 0x1F # int_str dv"

definition no_collision :: "(string \<Rightarrow> string) \<Rightarrow> string \<Rightarrow> string \<Rightarrow> bool" where
  "no_collision sha x y \<longleftrightarrow> (sha x = sha y \<longrightarrow> x = y)"

text \<open>Tenant ids are UUIDs: neither the separator of the hashed text nor a colon occurs in them.\<close>

definition plain_tenant :: "tenant \<Rightarrow> bool" where
  "plain_tenant t \<longleftrightarrow> CHR 0x1F \<notin> set t \<and> CHR '':'' \<notin> set t"

lemma split_at_first:
  "a @ x # b = c @ x # d \<Longrightarrow> x \<notin> set a \<Longrightarrow> x \<notin> set c \<Longrightarrow> a = c \<and> b = d"
proof (induction a arbitrary: c)
  case Nil
  then show ?case by (cases c) auto
next
  case (Cons y a)
  then show ?case by (cases c) auto
qed

lemma cache_key_inj:
  assumes "no_collision sha (key_text t text dv) (key_text t' text' dv')" "plain_tenant t" "plain_tenant t'"
  shows "cache_key sha t text dv = cache_key sha t' text' dv' \<longleftrightarrow>
    t = t' \<and> normalize_text text = normalize_text text' \<and> dv = dv'"
proof
  assume "cache_key sha t text dv = cache_key sha t' text' dv'"
  then have eq: "t @ CHR '':'' # sha (key_text t text dv) = t' @ CHR '':'' # sha (key_text t' text' dv')"
    by (simp add: cache_key_def key_text_def)
  from split_at_first [OF eq] assms(2,3) have t: "t = t'" and "sha (key_text t text dv) = sha (key_text t' text' dv')"
    by (auto simp: plain_tenant_def)
  then have "normalize_text text @ CHR 0x1F # int_str dv = normalize_text text' @ CHR 0x1F # int_str dv'"
    using assms(1) by (simp add: no_collision_def key_text_def)
  then have "normalize_text text = normalize_text text' \<and> int_str dv = int_str dv'"
    using append_sep_inj [OF int_str_no_separator int_str_no_separator] by blast
  with t show "t = t' \<and> normalize_text text = normalize_text text' \<and> dv = dv'" by simp
qed (simp add: cache_key_def)

text \<open>The exact cache: after a write that succeeded, a lookup finds the written answer exactly for the
  same tenant, the same normalised question and the same data version; every other lookup is as before.
  So advancing the data version of a tenant hides all its entries, and no tenant sees another's.\<close>

theorem l1_lookup_spec:
  assumes "redis_kv R" and "fst (rd_set R (cache_key sha t text dv) v (Some ttl) w) = Inr ()" and "v \<noteq> VNone"
    and "plain_tenant t" and "plain_tenant t'" and "no_collision sha (key_text t' text' dv') (key_text t text dv)"
  shows "l1_get sha (Some R) t' text' dv' (l1_set sha (Some R) ttl t text dv v w) =
    (if t' = t \<and> normalize_text text' = normalize_text text \<and> dv' = dv then Some v
     else l1_get sha (Some R) t' text' dv' w)"
proof (cases "cache_key sha t' text' dv' = cache_key sha t text dv")
  case True
  then have "t' = t \<and> normalize_text text' = normalize_text text \<and> dv' = dv"
    using cache_key_inj [OF assms(6,5,4)] by simp
  with True assms(2,3) show ?thesis by (simp add: l1_get_def l1_set_def redis_kv_laws [OF assms(1)])
next
  case False
  then have "\<not> (t' = t \<and> normalize_text text' = normalize_text text \<and> dv' = dv)"
    using cache_key_inj [OF assms(6,5,4)] by simp
  with False show ?thesis by (auto simp: l1_get_def l1_set_def redis_kv_laws [OF assms(1)])
qed

theorem l1_lookup_spec_witness:
  "l1_get (\<lambda>s. s) (Some mem_redis) ''t1'' '' hello   world '' 3
     (l1_set (\<lambda>s. s) (Some mem_redis) 60 ''t1'' ''hello world'' 3 (VStr ''hi'') mem_empty) = Some (VStr ''hi'') \<and>
   l1_get (\<lambda>s. s) (Some mem_redis) ''t1'' ''hello world'' 4
     (l1_set (\<lambda>s. s) (Some mem_redis) 60 ''t1'' ''hello world'' 3 (VStr ''hi'') mem_empty) = None"
proof -
  have p: "plain_tenant ''t1''" by (simp add: plain_tenant_def)
  have n: "normalize_text '' hello   world '' = normalize_text ''hello world''"
    by (simp add: normalize_text_def py_strip_def py_split_def py_lower_def lower_char_def is_space_def Let_def)
  have w: "fst (rd_set mem_redis (cache_key (\<lambda>s. s) ''t1'' ''hello world'' 3) (VStr ''hi'') (Some 60) mem_empty) = Inr ()"
    by (simp add: mem_redis_def)
  note spec = l1_lookup_spec [OF mem_redis_kv w _ p p, unfolded no_collision_def]
  show ?thesis using n by (simp add: spec) (simp add: l1_get_def mem_redis_def mem_empty_def)
qed

subsection \<open>The semantic cache finds the closest entry\<close>

definition l2_score :: "real list \<Rightarrow> pyv \<Rightarrow> real" where
  "l2_score q entry = (case entry_vector entry of Inr v \<Rightarrow> cosine q v | Inl _ \<Rightarrow> 0)"

lemma l2_scan_best:
  assumes "l2_scan q entries best = Inr r" "\<And>b s. best = Some (b, s) \<Longrightarrow> 0 < s"
  shows "list_all (\<lambda>e. l2_score q e \<le> (case r of None \<Rightarrow> 0 | Some (_, s) \<Rightarrow> s)) entries \<and>
    (case best of None \<Rightarrow> 0 | Some (_, s) \<Rightarrow> s) \<le> (case r of None \<Rightarrow> 0 | Some (_, s) \<Rightarrow> s) \<and>
    (r = best \<or> (\<exists>e s. r = Some (e, s) \<and> e \<in> set entries \<and> s = l2_score q e \<and> 0 < s))"
  using assms
proof (induction entries arbitrary: best)
  case Nil
  then show ?case by simp
next
  case (Cons entry rest)
  obtain v where v: "entry_vector entry = Inr v" using Cons.prems(1) by (cases "entry_vector entry") auto
  let ?old = "case best of None \<Rightarrow> 0 | Some (_, s) \<Rightarrow> s"
  let ?best = "if cosine q v > ?old then Some (entry, cosine q v) else best"
  have sc: "l2_score q entry = cosine q v" by (simp add: l2_score_def v)
  have "0 \<le> ?old" using Cons.prems(2) by (force split: option.splits)
  then have "\<And>b s. ?best = Some (b, s) \<Longrightarrow> 0 < s" using Cons.prems(2) by (auto split: if_splits)
  moreover have "l2_scan q rest ?best = Inr r" using Cons.prems(1) by (simp add: v Let_def)
  ultimately have ih: "list_all (\<lambda>e. l2_score q e \<le> (case r of None \<Rightarrow> 0 | Some (_, s) \<Rightarrow> s)) rest"
    "(case ?best of None \<Rightarrow> 0 | Some (_, s) \<Rightarrow> s) \<le> (case r of None \<Rightarrow> 0 | Some (_, s) \<Rightarrow> s)"
    "r = ?best \<or> (\<exists>e s. r = Some (e, s) \<and> e \<in> set rest \<and> s = l2_score q e \<and> 0 < s)"
    using Cons.IH [of ?best] by blast+
  show ?case
  proof (cases "cosine q v > ?old")
    case True
    with ih sc \<open>0 \<le> ?old\<close> show ?thesis by auto
  next
    case False
    with ih sc show ?thesis by auto
  qed
qed

text \<open>A hit of the semantic cache is the answer of a stored entry of the tenant whose cosine with the
  question reaches the threshold and is not exceeded by any other entry that was read.\<close>

theorem l2_hit_is_closest:
  assumes "l2_lookup (Some R) threshold max_entries t q w = Inr (Some (answer, score))"
  shows "\<exists>entries entry. rd_lrange R (l2_key t) 0 (max_entries - 1) w = Inr entries \<and> entry \<in> set entries \<and>
    answer = entry_answer entry \<and> score = l2_score q entry \<and> threshold \<le> score \<and> 0 < score \<and>
    list_all (\<lambda>e. l2_score q e \<le> score) entries"
proof -
  obtain entries where l: "rd_lrange R (l2_key t) 0 (max_entries - 1) w = Inr entries"
    using assms by (auto simp: l2_lookup_def split: sum.splits)
  obtain r where s: "l2_scan q entries None = Inr r"
    using assms by (cases "l2_scan q entries None") (auto simp: l2_lookup_def l)
  obtain e where r: "r = Some (e, score)" "threshold \<le> score" "answer = entry_answer e"
    using assms by (auto simp: l2_lookup_def l s split: option.splits if_splits)
  from l2_scan_best [OF s] r show ?thesis by (intro exI [of _ entries] exI [of _ e]) (auto simp: l)
qed

theorem l2_hit_is_closest_witness:
  "l2_lookup (Some mem_redis) (9 / 10) 500 ''t1'' [3, 4] (l2_store (Some mem_redis) 500 ''t1'' [3, 4] (VStr ''a'') mem_empty)
     = Inr (Some (VStr ''a'', 1)) \<and>
   (\<exists>e. l2_score [3, 4] e = 1 \<and> entry_answer e = VStr ''a'')"
proof -
  have c: "cosine [3, 4] [3, 4] = 1"
    by (simp add: cosine_def dot_product_def Let_def)
  have l: "rd_lrange mem_redis (l2_key ''t1'') 0 499 (l2_store (Some mem_redis) 500 ''t1'' [3, 4] (VStr ''a'') mem_empty)
     = Inr [l2_entry [3, 4] (VStr ''a'')]"
    by (simp add: l2_store_def mem_redis_def mem_list_def mem_empty_def redis_range_def)
  have h: "l2_lookup (Some mem_redis) (9 / 10) 500 ''t1'' [3, 4] (l2_store (Some mem_redis) 500 ''t1'' [3, 4] (VStr ''a'') mem_empty)
     = Inr (Some (VStr ''a'', 1))"
    using l by (simp add: l2_lookup_def l2_entry_def entry_vector_def entry_answer_def dict_get_or_def dict_get_def c Let_def)
  from l2_hit_is_closest [OF h] obtain e where "l2_score [3, 4] e = 1" "entry_answer e = VStr ''a''" by metis
  with h show ?thesis by auto
qed

text \<open>An entry of the question's own vector scores one, and no entry scores more.\<close>

lemma dot_product_cauchy:
  "length a = length b \<Longrightarrow> (dot_product a b)\<^sup>2 \<le> dot_product a a * dot_product b b \<and> 0 \<le> dot_product a a \<and> 0 \<le> dot_product b b"
proof (induction a b rule: list_induct2)
  case Nil
  then show ?case by (simp add: dot_product_def)
next
  case (Cons x a y b)
  let ?A = "dot_product a a" and ?B = "dot_product b b" and ?d = "dot_product a b"
  have pos: "0 \<le> ?A" "0 \<le> ?B" "?d\<^sup>2 \<le> ?A * ?B" using Cons.IH by simp_all
  have "2 * ?d * x * y \<le> ?A * y\<^sup>2 + ?B * x\<^sup>2"
  proof (cases "?A = 0")
    case True
    with pos(3) have "?d = 0" by simp
    with True pos(2) show ?thesis by simp
  next
    case False
    then have A: "0 < ?A" using pos(1) by simp
    have "0 \<le> (?A * y - ?d * x)\<^sup>2" by simp
    also have "\<dots> = ?A * (?A * y\<^sup>2 - 2 * ?d * x * y) + ?d\<^sup>2 * x\<^sup>2"
      by (simp add: power2_eq_square algebra_simps)
    also have "\<dots> \<le> ?A * (?A * y\<^sup>2 - 2 * ?d * x * y) + (?A * ?B) * x\<^sup>2"
      using mult_right_mono [OF pos(3), of "x\<^sup>2"] by simp
    also have "\<dots> = ?A * (?A * y\<^sup>2 + ?B * x\<^sup>2 - 2 * ?d * x * y)" by (simp add: algebra_simps)
    finally have "0 \<le> ?A * (?A * y\<^sup>2 + ?B * x\<^sup>2 - 2 * ?d * x * y)" .
    with A show ?thesis by (simp add: zero_le_mult_iff)
  qed
  with pos have "(?d + x * y)\<^sup>2 \<le> (?A + x\<^sup>2) * (?B + y\<^sup>2)"
    by (simp add: power2_eq_square algebra_simps)
  with pos show ?case by (simp add: dot_product_def power2_eq_square add.commute)
qed

lemma cosine_le_one: "cosine a b \<le> 1"
proof (cases "length a = length b")
  case True
  have d: "(dot_product a b)\<^sup>2 \<le> dot_product a a * dot_product b b" "0 \<le> dot_product a a" "0 \<le> dot_product b b"
    using dot_product_cauchy [OF True] by simp_all
  then have "\<bar>dot_product a b\<bar> \<le> sqrt (dot_product a a * dot_product b b)"
    by (metis real_sqrt_abs real_sqrt_le_mono)
  then have "dot_product a b \<le> sqrt (dot_product a a) * sqrt (dot_product b b)"
    by (simp add: real_sqrt_mult)
  moreover have "0 \<le> sqrt (dot_product a a) * sqrt (dot_product b b)" using d by simp
  ultimately show ?thesis by (auto simp: cosine_def Let_def divide_le_eq)
qed (simp add: cosine_def)

lemma cosine_self: "dot_product a a \<noteq> 0 \<Longrightarrow> cosine a a = 1"
  using dot_product_cauchy [of a a] by (auto simp: cosine_def dot_product_def Let_def)

lemma nums_of_map [simp]: "nums_of (map VNum xs) = Some xs"
  by (induction xs) auto

lemma l2_entry_simps [simp]: "entry_vector (l2_entry q a) = Inr q" "entry_answer (l2_entry q a) = a"
  by (simp_all add: entry_vector_def entry_answer_def l2_entry_def dict_get_or_def dict_get_def)

lemma l2_scan_keeps_one: "l2_scan q entries (Some (e, 1)) = Inr r \<Longrightarrow> r = Some (e, 1)"
proof (induction entries)
  case (Cons entry rest)
  obtain v where v: "entry_vector entry = Inr v" using Cons.prems by (cases "entry_vector entry") auto
  then have "l2_scan q rest (Some (e, 1)) = Inr r"
    using Cons.prems cosine_le_one [of q v] by (simp add: Let_def)
  then show ?case by (rule Cons.IH)
qed simp

lemma l2_scan_readable: "list_all (\<lambda>e. \<not> isl (entry_vector e)) entries \<Longrightarrow> \<exists>r. l2_scan q entries best = Inr r"
  by (induction entries arbitrary: best) (auto simp: Let_def split: sum.splits)

text \<open>The semantic cache is not keyed by the data version: an answer stored for a question vector is
  still the hit for that vector after the tenant's data version was advanced, so an answer computed
  from old catalogue data survives the invalidation that the version is for.\<close>

theorem l2_survives_version_bump:
  assumes "redis_list R rd_list" and "redis_frame R rd_list"
    and "fst (rd_lpush R (l2_key t) (l2_entry q answer) w) = Inr ()"
    and "list_all (\<lambda>e. \<not> isl (entry_vector e)) (rd_list (l2_key t) w)"
    and "dot_product q q \<noteq> 0" and "threshold \<le> 1" and "0 < max_entries"
    and "bump_data_version (Some R) t (l2_store (Some R) max_entries t q answer w) = (n, w2)"
    and "rd_lrange R (l2_key t) 0 (max_entries - 1) w2 = Inr entries"
  shows "l2_lookup (Some R) threshold max_entries t q w2 = Inr (Some (answer, 1))"
proof -
  let ?k = "l2_key t"
  have k: "?k \<noteq> version_key t" by (simp add: l2_key_def version_key_def)
  let ?w1 = "l2_store (Some R) max_entries t q answer w"
  have l0: "rd_list ?k (snd (rd_lpush R ?k (l2_entry q answer) w)) = l2_entry q answer # rd_list ?k w"
    using redis_list_laws(9) [OF assms(1,3)] .
  have w1: "?w1 = snd (rd_ltrim R ?k 0 (max_entries - 1) (snd (rd_lpush R ?k (l2_entry q answer) w)))"
    using assms(3) by (auto simp: l2_store_def split: prod.splits)
  have "\<exists>xs. rd_list ?k ?w1 = l2_entry q answer # xs \<and> set xs \<subseteq> set (rd_list ?k w)"
  proof (cases "fst (rd_ltrim R ?k 0 (max_entries - 1) (snd (rd_lpush R ?k (l2_entry q answer) w)))")
    case (Inl e)
    then show ?thesis unfolding w1 redis_list_laws(6) [OF assms(1) Inl] l0 by auto
  next
    case (Inr u)
    then have "rd_list ?k ?w1 = redis_range 0 (max_entries - 1) (l2_entry q answer # rd_list ?k w)"
      using redis_list_laws(4) [OF assms(1), of ?k 0 "max_entries - 1"] by (simp add: w1 l0)
    moreover have "nat max_entries = Suc (nat (max_entries - 1))" using assms(7) by simp
    ultimately show ?thesis using assms(7) by (auto simp: redis_range_def dest: in_set_takeD)
  qed
  then obtain xs where xs: "rd_list ?k ?w1 = l2_entry q answer # xs" "set xs \<subseteq> set (rd_list ?k w)" by blast
  have "rd_list ?k w2 = rd_list ?k ?w1"
    using assms(8) redis_frame_laws(4) [OF assms(2) k] by (simp add: bump_data_version_def split: prod.splits) (metis snd_conv)
  moreover have "entries = redis_range 0 (max_entries - 1) (rd_list ?k w2)"
    using redis_list_laws(7) [OF assms(1,9)] .
  moreover have "nat max_entries = Suc (nat (max_entries - 1))" using assms(7) by simp
  ultimately obtain ys where e: "entries = l2_entry q answer # ys" "set ys \<subseteq> set xs"
    using xs(1) assms(7) set_take_subset [of _ xs] by (auto simp: redis_range_def)
  have "list_all (\<lambda>e. \<not> isl (entry_vector e)) ys" using e(2) xs(2) assms(4) by (auto simp: list_all_iff)
  then obtain r where r: "l2_scan q ys (Some (l2_entry q answer, 1)) = Inr r" using l2_scan_readable by blast
  then have "r = Some (l2_entry q answer, 1)" by (rule l2_scan_keeps_one)
  with r assms(5,6,9) show ?thesis by (simp add: l2_lookup_def e cosine_self)
qed

theorem l2_survives_version_bump_witness:
  "l2_lookup (Some mem_redis) (9 / 10) 500 ''t1'' [1]
     (snd (bump_data_version (Some mem_redis) ''t1'' (l2_store (Some mem_redis) 500 ''t1'' [1] (VStr ''old price'') mem_empty)))
   = Inr (Some (VStr ''old price'', 1))"
proof (rule l2_survives_version_bump [OF mem_redis_list mem_redis_frame, OF _ _ _ _ _ prod.collapse [symmetric]])
  show "rd_lrange mem_redis (l2_key ''t1'') 0 (500 - 1)
      (snd (bump_data_version (Some mem_redis) ''t1'' (l2_store (Some mem_redis) 500 ''t1'' [1] (VStr ''old price'') mem_empty)))
    = Inr (redis_range 0 499 (mem_list (l2_key ''t1'')
      (snd (bump_data_version (Some mem_redis) ''t1'' (l2_store (Some mem_redis) 500 ''t1'' [1] (VStr ''old price'') mem_empty)))))"
    by (simp add: mem_redis_def)
qed (simp_all add: mem_redis_def mem_list_def mem_empty_def dot_product_def)

end
