(* ===== verification/Failover.thy ===== *)
theory Failover
  imports Pricing
begin

text \<open>
  The model gateway's outgoing side, under \<open>packages/acip_gateway\<close>: the chat client
  (\<open>llm_client.py\<close>), retries of one endpoint (\<open>retry.py\<close>), the failover chain (\<open>failover.py\<close>) and
  the database-backed registry of providers (\<open>registry.py\<close>). The network is a parameter: a record of
  an HTTP call and a sleep over an abstract world.
\<close>

subsection \<open>The chat client\<close>

datatype call_exn = HttpStatus nat | TimeoutErr | ConnectErr | NetworkErr | CallExn string

record http_request =
  rq_url :: string
  rq_bearer :: "string option"
  rq_timeout :: real
  rq_model :: string
  rq_messages :: "py_dict list"
  rq_max_tokens :: int
  rq_temperature :: real

text \<open>\<open>nt_post\<close> is the POST with \<open>raise_for_status\<close> and the decoding of the JSON body.\<close>

record 'w network =
  nt_post :: "http_request \<Rightarrow> 'w \<Rightarrow> (call_exn + pyv) \<times> 'w"
  nt_sleep :: "real \<Rightarrow> 'w \<Rightarrow> 'w"

text \<open>The token counts are what the provider sent.\<close>

record llm_response =
  lr_text :: pyv
  lr_model :: string
  lr_provider :: string
  lr_tokens_in :: pyv
  lr_tokens_out :: pyv

record llm_client =
  lc_base :: string
  lc_provider :: string
  lc_key :: "string option"
  lc_timeout :: real

definition rstrip_char :: "char \<Rightarrow> string \<Rightarrow> string" where
  "rstrip_char c s = rev (dropWhile (\<lambda>x. x = c) (rev s))"

definition new_llm_client :: "string \<Rightarrow> string \<Rightarrow> string option \<Rightarrow> real \<Rightarrow> llm_client" where
  "new_llm_client base provider key timeout =
     \<lparr>lc_base = rstrip_char (CHR ''/'') base, lc_provider = provider, lc_key = key, lc_timeout = timeout\<rparr>"

text \<open>\<open>_headers\<close>: an empty key sends no header.\<close>

definition bearer_header :: "llm_client \<Rightarrow> string option" where
  "bearer_header c = (case lc_key c of None \<Rightarrow> None | Some k \<Rightarrow> if k = [] then None else Some k)"

fun call_item :: "pyv \<Rightarrow> string \<Rightarrow> call_exn + pyv" where
  "call_item (VDict d) k = (case map_of d k of None \<Rightarrow> Inl (CallExn ''KeyError'') | Some v \<Rightarrow> Inr v)"
| "call_item _ k = Inl (CallExn ''TypeError'')"

fun call_first :: "pyv \<Rightarrow> call_exn + pyv" where
  "call_first (VList (x # _)) = Inr x"
| "call_first (VList []) = Inl (CallExn ''IndexError'')"
| "call_first _ = Inl (CallExn ''TypeError'')"

fun bind_call :: "'x + 'a \<Rightarrow> ('a \<Rightarrow> 'x + 'b) \<Rightarrow> 'x + 'b" where
  "bind_call (Inl e) f = Inl e"
| "bind_call (Inr x) f = f x"

definition read_response :: "llm_client \<Rightarrow> string \<Rightarrow> pyv \<Rightarrow> call_exn + llm_response" where
  "read_response c model data =
     bind_call (call_item data ''choices'') (\<lambda>cs.
     bind_call (call_first cs) (\<lambda>first.
     bind_call (call_item first ''message'') (\<lambda>m.
     bind_call (call_item m ''content'') (\<lambda>choice.
       case (case data of VDict d \<Rightarrow> dict_get_or d ''usage'' (VDict []) | _ \<Rightarrow> VNone) of
         VDict usage \<Rightarrow>
           Inr \<lparr>lr_text = choice, lr_model = model, lr_provider = lc_provider c,
                lr_tokens_in = dict_get_or usage ''prompt_tokens'' (VInt 0),
                lr_tokens_out = dict_get_or usage ''completion_tokens'' (VInt 0)\<rparr>
       | _ \<Rightarrow> Inl (CallExn ''AttributeError'')))))"

definition chat ::
  "('w, 'z) network_scheme \<Rightarrow> llm_client \<Rightarrow> py_dict list \<Rightarrow> string \<Rightarrow> int \<Rightarrow> 'w \<Rightarrow> (call_exn + llm_response) \<times> 'w" where
  "chat net c messages model max_tokens w =
     (case nt_post net \<lparr>rq_url = lc_base c @ ''/v1/chat/completions'', rq_bearer = bearer_header c,
            rq_timeout = lc_timeout c, rq_model = model, rq_messages = messages, rq_max_tokens = max_tokens,
            rq_temperature = 2 / 10\<rparr> w of
        (Inl e, w1) \<Rightarrow> (Inl e, w1)
      | (Inr data, w1) \<Rightarrow> (read_response c model data, w1))"

subsection \<open>Retries\<close>

fun is_retryable_error :: "call_exn \<Rightarrow> bool" where
  "is_retryable_error (HttpStatus s) = (s \<in> {408, 429, 500, 502, 503, 504})"
| "is_retryable_error TimeoutErr = True"
| "is_retryable_error ConnectErr = True"
| "is_retryable_error NetworkErr = True"
| "is_retryable_error (CallExn _) = False"

function retry_loop ::
  "('w \<Rightarrow> (call_exn + 'a) \<times> 'w) \<Rightarrow> (real \<Rightarrow> 'w \<Rightarrow> 'w) \<Rightarrow> int \<Rightarrow> int \<Rightarrow> real \<Rightarrow> 'w \<Rightarrow> (call_exn + 'a) \<times> 'w" where
  "retry_loop fn sleep max_retries attempt delay w =
     (case fn w of
        (Inr x, w1) \<Rightarrow> (Inr x, w1)
      | (Inl e, w1) \<Rightarrow>
          if attempt \<ge> max_retries \<or> \<not> is_retryable_error e then (Inl e, w1)
          else retry_loop fn sleep max_retries (attempt + 1) (min (delay * 2) 5) (sleep delay w1))"
  by pat_completeness auto
termination by (relation "measure (\<lambda>(fn, sleep, m, a, d, w). nat (m - a))") auto

declare retry_loop.simps [simp del]

definition call_with_retry ::
  "('w \<Rightarrow> (call_exn + 'a) \<times> 'w) \<Rightarrow> (real \<Rightarrow> 'w \<Rightarrow> 'w) \<Rightarrow> int \<Rightarrow> int \<Rightarrow> 'w \<Rightarrow> (call_exn + 'a) \<times> 'w" where
  "call_with_retry fn sleep max_retries backoff_ms w =
     retry_loop fn sleep max_retries 0 (of_int backoff_ms / 1000) w"

subsection \<open>The failover chain\<close>

record endpoint =
  en_client :: llm_client
  en_model :: string
  en_local :: bool
  en_retries :: int
  en_backoff :: int

text \<open>The loop that every chain of endpoints shares: the first one that answers wins.\<close>

fun chain_try :: "('e \<Rightarrow> 'w \<Rightarrow> (call_exn + 'a) \<times> 'w) \<Rightarrow> 'e list \<Rightarrow> 'w \<Rightarrow> 'a res \<times> 'w" where
  "chain_try call [] w = (Inl (Exn ''RuntimeError''), w)"
| "chain_try call (ep # eps) w =
     (case call ep w of
        (Inr x, w1) \<Rightarrow> (Inr x, w1)
      | (Inl e, w1) \<Rightarrow> chain_try call eps w1)"

definition call_endpoint ::
  "('w, 'z) network_scheme \<Rightarrow> py_dict list \<Rightarrow> int \<Rightarrow> endpoint \<Rightarrow> 'w \<Rightarrow> (call_exn + llm_response) \<times> 'w" where
  "call_endpoint net messages max_tokens ep w =
     call_with_retry (chat net (en_client ep) messages (en_model ep) max_tokens) (nt_sleep net)
       (en_retries ep) (en_backoff ep) w"

definition chain_generate ::
  "('w, 'z) network_scheme \<Rightarrow> endpoint list \<Rightarrow> py_dict list \<Rightarrow> bool \<Rightarrow> int \<Rightarrow> 'w \<Rightarrow> llm_response res \<times> 'w" where
  "chain_generate net eps messages prefer_local max_tokens w =
     chain_try (call_endpoint net messages max_tokens)
       (if prefer_local then filter en_local eps else eps) w"

text \<open>The constructor of the static chain refuses a chain that does not end at a local endpoint.\<close>

definition new_provider_chain :: "endpoint list \<Rightarrow> endpoint list res" where
  "new_provider_chain eps =
     (if eps = [] then Inl (Exn ''ValueError'')
      else if \<not> en_local (last eps) then Inl (Exn ''ValueError'')
      else Inr eps)"

subsection \<open>The registry\<close>

record ai_settings =
  st_frontier_enabled :: bool
  st_frontier_url :: "string option"
  st_frontier_key :: "string option"
  st_frontier_model :: "string option"
  st_llm_url :: string
  st_llm_model :: string
  st_embeddings_url :: string
  st_embedding_model :: string
  st_embedding_dims :: int
  st_reranker_url :: "string option"
  st_reranker_model :: string

record provider_row =
  pv_id :: string
  pv_name :: string
  pv_base :: string
  pv_key :: string
  pv_local :: bool
  pv_enabled :: bool
  pv_timeout :: real
  pv_retries :: int
  pv_backoff :: int

record model_row =
  md_id :: string
  md_provider :: string
  md_model :: string
  md_input :: real
  md_output :: real
  md_enabled :: bool
  md_modality :: string
  md_dims :: "int option"

record route_row =
  rt_task :: string
  rt_position :: int
  rt_model :: string

record aidb =
  ai_providers :: "provider_row list"
  ai_models :: "model_row list"
  ai_routes :: "route_row list"
  pricing_settings :: "pricing_config option"
  failover_setting :: "bool option"

text \<open>Embedding and rerank endpoints; \<open>vd_wire\<close> is the protocol.\<close>

record vendor_endpoint =
  vd_base :: string
  vd_key :: "string option"
  vd_model :: string
  vd_dims :: "int option"
  vd_local :: bool
  vd_wire :: string
  vd_retries :: int
  vd_backoff :: int

record snapshot =
  sn_tasks :: "(string \<times> endpoint list) list"
  sn_embedding :: "vendor_endpoint list"
  sn_rerank :: "vendor_endpoint list"
  sn_prices :: "((string \<times> string) \<times> model_price) list"
  sn_pricing :: pricing_config
  sn_failover :: bool
  sn_loaded_at :: real

definition apply_failover_toggle :: "('e \<Rightarrow> bool) \<Rightarrow> 'e list \<Rightarrow> bool \<Rightarrow> 'e list" where
  "apply_failover_toggle is_local chain enabled =
     (if enabled \<or> length chain \<le> 1 then chain
      else
        let primary = hd chain in
        if is_local primary then [primary]
        else (case find is_local (tl chain) of Some e \<Rightarrow> [primary, e] | None \<Rightarrow> [primary]))"

definition nonempty :: "string option \<Rightarrow> string option" where
  "nonempty s = (case s of None \<Rightarrow> None | Some x \<Rightarrow> if x = [] then None else Some x)"

definition local_env_endpoint :: "ai_settings \<Rightarrow> endpoint" where
  "local_env_endpoint S =
     \<lparr>en_client = new_llm_client (st_llm_url S) ''local'' None 30, en_model = st_llm_model S, en_local = True,
      en_retries = 0, en_backoff = 250\<rparr>"

definition env_endpoints :: "ai_settings \<Rightarrow> endpoint list" where
  "env_endpoints S =
     (case nonempty (st_frontier_url S) of
        Some url \<Rightarrow>
          if st_frontier_enabled S then
            [\<lparr>en_client = new_llm_client url ''frontier'' (st_frontier_key S) 30,
              en_model = the_or (st_llm_model S) (nonempty (st_frontier_model S)), en_local = False,
              en_retries = 0, en_backoff = 250\<rparr>]
          else []
      | None \<Rightarrow> []) @ [local_env_endpoint S]"

definition env_embedding_endpoints :: "ai_settings \<Rightarrow> vendor_endpoint list" where
  "env_embedding_endpoints S =
     [\<lparr>vd_base = st_embeddings_url S, vd_key = None, vd_model = st_embedding_model S,
       vd_dims = Some (st_embedding_dims S), vd_local = True, vd_wire = ''tei'', vd_retries = 0, vd_backoff = 250\<rparr>]"

definition env_rerank_endpoints :: "ai_settings \<Rightarrow> vendor_endpoint list" where
  "env_rerank_endpoints S =
     (case nonempty (st_reranker_url S) of
        None \<Rightarrow> []
      | Some url \<Rightarrow>
          [\<lparr>vd_base = url, vd_key = None, vd_model = st_reranker_model S, vd_dims = None, vd_local = True,
            vd_wire = ''tei'', vd_retries = 0, vd_backoff = 250\<rparr>])"

text \<open>The join of routes, enabled models of a modality and enabled providers, in route order.\<close>

definition joined_routes :: "string \<Rightarrow> aidb \<Rightarrow> (route_row \<times> model_row \<times> provider_row) list" where
  "joined_routes modality D =
     concat (map (\<lambda>r. concat (map (\<lambda>m. map (\<lambda>p. (r, m, p))
         (filter (\<lambda>p. pv_id p = md_provider m \<and> pv_enabled p) (ai_providers D)))
       (filter (\<lambda>m. md_id m = rt_model r \<and> md_enabled m \<and> md_modality m = modality) (ai_models D))))
     (sort_key rt_position (ai_routes D)))"

text \<open>\<open>x or d\<close> on the columns: zero is the default, an empty key is none.\<close>

definition key_or_none :: "string \<Rightarrow> string option" where
  "key_or_none k = (if k = [] then None else Some k)"

definition backoff_or_default :: "int \<Rightarrow> int" where
  "backoff_or_default b = (if b = 0 then 250 else b)"

definition chat_endpoint :: "model_row \<Rightarrow> provider_row \<Rightarrow> endpoint" where
  "chat_endpoint m p =
     \<lparr>en_client = new_llm_client (pv_base p) (pv_name p) (key_or_none (pv_key p)) (if pv_timeout p = 0 then 30 else pv_timeout p),
      en_model = md_model m, en_local = pv_local p, en_retries = pv_retries p,
      en_backoff = backoff_or_default (pv_backoff p)\<rparr>"

definition vendor_of :: "string \<Rightarrow> (model_row \<Rightarrow> int option) \<Rightarrow> model_row \<Rightarrow> provider_row \<Rightarrow> vendor_endpoint" where
  "vendor_of wire dims m p =
     \<lparr>vd_base = pv_base p, vd_key = key_or_none (pv_key p), vd_model = md_model m, vd_dims = dims m,
      vd_local = pv_local p, vd_wire = (if pv_local p then ''tei'' else wire), vd_retries = pv_retries p,
      vd_backoff = backoff_or_default (pv_backoff p)\<rparr>"

text \<open>\<open>by_task.setdefault(task, []).append(ep)\<close> over the rows.\<close>

definition task_chains :: "(string \<times> endpoint) list \<Rightarrow> (string \<times> endpoint list) list" where
  "task_chains rows = fold (\<lambda>(t, e) d. dict_set t (the_or [] (map_of d t) @ [e]) d) rows []"

definition load_snapshot :: "real \<Rightarrow> aidb \<Rightarrow> snapshot" where
  "load_snapshot now D =
     \<lparr>sn_tasks = task_chains (map (\<lambda>(r, m, p). (rt_task r, chat_endpoint m p)) (joined_routes ''chat'' D)),
      sn_embedding = map (\<lambda>(r, m, p). vendor_of ''openai'' md_dims m p)
        (filter (\<lambda>(r, m, p). rt_task r = ''embedding'') (joined_routes ''embedding'' D)),
      sn_rerank = map (\<lambda>(r, m, p). vendor_of ''cohere'' (\<lambda>_. None) m p)
        (filter (\<lambda>(r, m, p). rt_task r = ''rerank'') (joined_routes ''rerank'' D)),
      sn_prices = concat (map (\<lambda>m. map (\<lambda>p. ((pv_name p, md_model m),
          \<lparr>mp_provider = pv_name p, mp_model = md_model m, mp_input = md_input m, mp_output = md_output m\<rparr>))
        (filter (\<lambda>p. pv_id p = md_provider m) (ai_providers D))) (ai_models D)),
      sn_pricing = parse_pricing_row (pricing_settings D),
      sn_failover = the_or True (failover_setting D),
      sn_loaded_at = now\<rparr>"

definition empty_snapshot :: "real \<Rightarrow> snapshot" where
  "empty_snapshot now =
     \<lparr>sn_tasks = [], sn_embedding = [], sn_rerank = [], sn_prices = [], sn_pricing = default_pricing,
      sn_failover = True, sn_loaded_at = now\<rparr>"

text \<open>\<open>snapshot\<close>: the registry's state is its last snapshot. An unreachable database keeps the old one.\<close>

definition registry_snapshot ::
  "real \<Rightarrow> pool \<Rightarrow> real \<Rightarrow> aidb \<Rightarrow> snapshot option \<Rightarrow> snapshot \<times> snapshot option" where
  "registry_snapshot ttl p now D reg =
     (case reg of
        Some s \<Rightarrow>
          if now - sn_loaded_at s < ttl then (s, reg)
          else if p = PgUp then (load_snapshot now D, Some (load_snapshot now D))
          else (s, reg)
      | None \<Rightarrow>
          if p = PgUp then (load_snapshot now D, Some (load_snapshot now D))
          else (empty_snapshot now, Some (empty_snapshot now)))"

definition task_endpoints :: "ai_settings \<Rightarrow> string \<Rightarrow> snapshot \<Rightarrow> endpoint list" where
  "task_endpoints S task snap =
     (let chain = the_or [] (map_of (sn_tasks snap) task) in
      if chain = [] then env_endpoints S
      else
        let chain1 = (if en_local (last chain) then chain else chain @ filter en_local (env_endpoints S))
        in apply_failover_toggle en_local chain1 (sn_failover snap))"

definition embedding_chain :: "ai_settings \<Rightarrow> snapshot \<Rightarrow> vendor_endpoint list" where
  "embedding_chain S snap =
     apply_failover_toggle vd_local
       (if sn_embedding snap = [] then env_embedding_endpoints S else sn_embedding snap) (sn_failover snap)"

definition rerank_chain :: "ai_settings \<Rightarrow> snapshot \<Rightarrow> vendor_endpoint list" where
  "rerank_chain S snap =
     apply_failover_toggle vd_local
       (if sn_rerank snap = [] then env_rerank_endpoints S else sn_rerank snap) (sn_failover snap)"

text \<open>A Python dictionary comprehension keeps the last of equal keys.\<close>

definition price_for :: "snapshot \<Rightarrow> string \<Rightarrow> string \<Rightarrow> model_price option" where
  "price_for snap provider model = map_of (rev (sn_prices snap)) (provider, model)"

definition dynamic_generate ::
  "ai_settings \<Rightarrow> ('w, 'z) network_scheme \<Rightarrow> string \<Rightarrow> snapshot \<Rightarrow> py_dict list \<Rightarrow> bool \<Rightarrow> int \<Rightarrow> 'w \<Rightarrow> llm_response res \<times> 'w" where
  "dynamic_generate S net task snap messages prefer_local max_tokens w =
     (let endpoints = task_endpoints S task snap
      in chain_try (call_endpoint net messages max_tokens)
           (if prefer_local then filter en_local endpoints else endpoints) w)"

subsection \<open>Retries: how often and until when\<close>

text \<open>A call that keeps a log of its outcomes beside the world.\<close>

definition logged :: "('w \<Rightarrow> ('x + 'a) \<times> 'w) \<Rightarrow> 'w \<times> ('x + 'a) list \<Rightarrow> ('x + 'a) \<times> 'w \<times> ('x + 'a) list" where
  "logged fn wl = (let (r, w1) = fn (fst wl) in (r, w1, snd wl @ [r]))"

definition unlogged_sleep :: "(real \<Rightarrow> 'w \<Rightarrow> 'w) \<Rightarrow> real \<Rightarrow> 'w \<times> 'l \<Rightarrow> 'w \<times> 'l" where
  "unlogged_sleep sleep d wl = (sleep d (fst wl), snd wl)"

definition transient :: "call_exn + 'a \<Rightarrow> bool" where
  "transient r = (case r of Inl e \<Rightarrow> is_retryable_error e | Inr _ \<Rightarrow> False)"

lemma transient_simps [simp]: "transient (Inl e) = is_retryable_error e" "\<not> transient (Inr x)"
  by (simp_all add: transient_def)

lemma retry_loop_log:
  "\<exists>r w1 k. retry_loop (logged fn) (unlogged_sleep sleep) m a d (w, l) = (r, w1, l @ k) \<and>
     retry_loop fn sleep m a d w = (r, w1) \<and> k \<noteq> [] \<and> last k = r \<and> length k \<le> nat (m - a) + 1 \<and>
     list_all transient (butlast k) \<and> (transient r \<longrightarrow> length k = nat (m - a) + 1)"
proof (induction fn sleep m a d w arbitrary: l rule: retry_loop.induct)
  case (1 fn sleep m a d w)
  obtain r w1 where f: "fn w = (r, w1)" by (cases "fn w")
  show ?case
  proof (cases "a < m \<and> transient r")
    case False
    then have "retry_loop (logged fn) (unlogged_sleep sleep) m a d (w, l) = (r, w1, l @ [r])"
      "retry_loop fn sleep m a d w = (r, w1)"
      by (subst retry_loop.simps, auto simp: logged_def f split: sum.splits)+
    with False show ?thesis by (intro exI [of _ r] exI [of _ w1] exI [of _ "[r]"]) auto
  next
    case True
    then obtain e where e: "r = Inl e" "is_retryable_error e" by (cases r) auto
    from 1 [OF f [symmetric] e(1), of "l @ [r]"] True e obtain r' w' k where
      ih: "retry_loop (logged fn) (unlogged_sleep sleep) m (a + 1) (min (d * 2) 5) (sleep d w1, l @ [r]) = (r', w', (l @ [r]) @ k)"
        "retry_loop fn sleep m (a + 1) (min (d * 2) 5) (sleep d w1) = (r', w')" "k \<noteq> []" "last k = r'"
        "length k \<le> nat (m - (a + 1)) + 1" "list_all transient (butlast k)"
        "transient r' \<longrightarrow> length k = nat (m - (a + 1)) + 1"
      by auto
    have "retry_loop (logged fn) (unlogged_sleep sleep) m a d (w, l) = (r', w', l @ (r # k))"
      "retry_loop fn sleep m a d w = (r', w')"
      using True e ih(1,2) by (subst retry_loop.simps, simp add: logged_def f unlogged_sleep_def)+
    moreover have "length (r # k) \<le> nat (m - a) + 1" "transient r' \<longrightarrow> length (r # k) = nat (m - a) + 1"
      using ih(5,7) True by auto
    moreover have "list_all transient (butlast (r # k))" using ih(3,6) True by simp
    ultimately show ?thesis using ih(3,4) by (intro exI [of _ r'] exI [of _ w'] exI [of _ "r # k"]) simp
  qed
qed

text \<open>Retrying one endpoint: it is called at least once and at most \<open>max_retries + 1\<close> times, every
  outcome before the last is a transient error, the last outcome is the result, and a transient error
  is the result only when every attempt was used. A negative setting means one attempt.\<close>

theorem retry_attempts:
  "case call_with_retry (logged fn) (unlogged_sleep sleep) max_retries backoff (w, []) of (r, w1, outcomes) \<Rightarrow>
     call_with_retry fn sleep max_retries backoff w = (r, w1) \<and>
     1 \<le> length outcomes \<and> length outcomes \<le> nat max_retries + 1 \<and> last outcomes = r \<and>
     list_all transient (butlast outcomes) \<and>
     (if transient r then length outcomes = nat max_retries + 1 else True)"
proof -
  obtain r w1 k where
    "retry_loop (logged fn) (unlogged_sleep sleep) max_retries 0 (of_int backoff / 1000) (w, []) = (r, w1, [] @ k)"
    "retry_loop fn sleep max_retries 0 (of_int backoff / 1000) w = (r, w1)" "k \<noteq> []" "last k = r"
    "length k \<le> nat (max_retries - 0) + 1" "list_all transient (butlast k)"
    "transient r \<longrightarrow> length k = nat (max_retries - 0) + 1"
    using retry_loop_log [of fn sleep max_retries 0 "of_int backoff / 1000" w "[]"] by blast
  then show ?thesis by (simp add: call_with_retry_def Suc_le_eq)
qed

text \<open>
  The waits: only those after the first are capped at five seconds. The first one is
  \<open>backoff_ms\<close> as configured, which the schema allows up to ten seconds.
\<close>

lemma first_wait_uncapped:
  "call_with_retry (\<lambda>w. (Inl TimeoutErr, w)) (\<lambda>d w. w @ [d]) 2 10000 [] = (Inl TimeoutErr, [10, 5])"
  by (simp add: call_with_retry_def retry_loop.simps)

subsection \<open>Failover: which endpoints are contacted\<close>

definition contact :: "('e \<Rightarrow> 'w \<Rightarrow> ('x + 'a) \<times> 'w) \<Rightarrow> 'e \<Rightarrow> 'w \<times> ('e \<times> ('x + 'a)) list \<Rightarrow> ('x + 'a) \<times> 'w \<times> ('e \<times> ('x + 'a)) list" where
  "contact call ep wl = (let (r, w1) = call ep (fst wl) in (r, w1, snd wl @ [(ep, r)]))"

lemma contact_apply: "call ep w = (r, w1) \<Longrightarrow> contact call ep (w, l) = (r, w1, l @ [(ep, r)])"
  by (simp add: contact_def)

lemma chain_try_log:
  "\<exists>res w1 k. chain_try (contact call) eps (w, l) = (res, w1, l @ k) \<and> chain_try call eps w = (res, w1) \<and>
     (case res of
        Inr x \<Rightarrow> k \<noteq> [] \<and> prefix (map fst k) eps \<and> snd (last k) = Inr x \<and> list_all (\<lambda>c. isl (snd c)) (butlast k)
      | Inl e \<Rightarrow> map fst k = eps \<and> list_all (\<lambda>c. isl (snd c)) k)"
proof (induction eps arbitrary: w l)
  case Nil
  then show ?case by simp
next
  case (Cons ep eps)
  obtain r w1 where c: "call ep w = (r, w1)" by (cases "call ep w")
  show ?case
  proof (cases r)
    case (Inr x)
    then show ?thesis by (intro exI [of _ "Inr x"] exI [of _ w1] exI [of _ "[(ep, r)]"]) (simp add: contact_apply [where call = call, OF c] c)
  next
    case (Inl e)
    from Cons.IH [of w1 "l @ [(ep, r)]"] obtain res w2 k where
      ih: "chain_try (contact call) eps (w1, l @ [(ep, r)]) = (res, w2, (l @ [(ep, r)]) @ k)"
        "chain_try call eps w1 = (res, w2)"
        "case res of
           Inr x \<Rightarrow> k \<noteq> [] \<and> prefix (map fst k) eps \<and> snd (last k) = Inr x \<and> list_all (\<lambda>c. isl (snd c)) (butlast k)
         | Inl e \<Rightarrow> map fst k = eps \<and> list_all (\<lambda>c. isl (snd c)) k"
      by blast
    then show ?thesis
      by (intro exI [of _ res] exI [of _ w2] exI [of _ "(ep, r) # k"])
        (auto simp: contact_apply [where call = call, OF c] c Inl split: sum.splits)
  qed
qed

text \<open>Failover order: the endpoints of the chain are contacted in order, each one after all before
  it failed; the answer is the first success, nothing after it is contacted, and the call fails only
  when the whole chain was contacted and failed.\<close>

theorem failover_order:
  "case chain_try (contact (call_endpoint net messages max_tokens)) eps (w, []) of (res, w1, contacts) \<Rightarrow>
     chain_try (call_endpoint net messages max_tokens) eps w = (res, w1) \<and>
     (case res of
        Inr x \<Rightarrow> contacts \<noteq> [] \<and> prefix (map fst contacts) eps \<and> snd (last contacts) = Inr x \<and>
          list_all (\<lambda>c. isl (snd c)) (butlast contacts)
      | Inl e \<Rightarrow> map fst contacts = eps \<and> list_all (\<lambda>c. isl (snd c)) contacts)"
  using chain_try_log [of "call_endpoint net messages max_tokens" eps w "[]"] by auto

subsection \<open>The registry's chain always ends at a local endpoint\<close>

lemma env_endpoints_local: "env_endpoints S \<noteq> []" "en_local (last (env_endpoints S))" "length (env_endpoints S) \<le> 2"
  "filter en_local (env_endpoints S) = [local_env_endpoint S]"
  by (auto simp: env_endpoints_def local_env_endpoint_def split: option.splits)

lemma toggle_chain:
  assumes "chain \<noteq> []" "is_local (last chain)"
  shows "apply_failover_toggle is_local chain on \<noteq> []" "is_local (last (apply_failover_toggle is_local chain on))"
    "hd (apply_failover_toggle is_local chain on) = hd chain" "subseq (apply_failover_toggle is_local chain on) chain"
    "length (apply_failover_toggle is_local chain on) \<le> (if on then length chain else 2)"
proof -
  consider (same) "on \<or> length chain \<le> 1" | (primary) "\<not> on" "1 < length chain" "is_local (hd chain)"
    | (tail) "\<not> on" "1 < length chain" "\<not> is_local (hd chain)" by linarith
  then have "apply_failover_toggle is_local chain on \<noteq> [] \<and> is_local (last (apply_failover_toggle is_local chain on)) \<and>
    hd (apply_failover_toggle is_local chain on) = hd chain \<and> subseq (apply_failover_toggle is_local chain on) chain \<and>
    length (apply_failover_toggle is_local chain on) \<le> (if on then length chain else 2)"
  proof cases
    case same
    with assms show ?thesis by (auto simp: apply_failover_toggle_def)
  next
    case primary
    with assms show ?thesis by (cases chain) (auto simp: apply_failover_toggle_def)
  next
    case tail
    obtain x xs where x: "chain = x # xs" "xs \<noteq> []" using tail(2) by (cases chain) auto
    then have "is_local (last xs)" "last xs \<in> set xs" using assms by simp_all
    then obtain y where y: "find is_local xs = Some y" by (cases "find is_local xs") (auto dest: find_NoneD)
    then have "is_local y" "y \<in> set xs" by (auto dest: find_SomeD)
    then have "subseq [y] xs" by (simp add: subseq_singleton_left)
    with tail x y \<open>is_local y\<close> show ?thesis by (simp add: apply_failover_toggle_def)
  qed
  then show "apply_failover_toggle is_local chain on \<noteq> []" "is_local (last (apply_failover_toggle is_local chain on))"
    "hd (apply_failover_toggle is_local chain on) = hd chain" "subseq (apply_failover_toggle is_local chain on) chain"
    "length (apply_failover_toggle is_local chain on) \<le> (if on then length chain else 2)" by simp_all
qed


end
