(* ===== verification/Router.thy ===== *)
theory Router
  imports Cache Failover Budget Tokens
begin

text \<open>
  The turn of the gateway: the intent classifier (\<open>packages/acip_gateway/classifier.py\<close>), prompt
  compression (\<open>compress.py\<close>) and the escalation ladder (\<open>router.py\<close>). The router is a record of
  the collaborators its constructor takes, over one world; each is optional as in the code. Persian
  literals are their UTF-8 bytes. \<open>lat\<close> is the elapsed time of the turn, read once on every path.
\<close>

subsection \<open>Classifier\<close>

datatype tier = RuleTier | SearchTier | SynthesisTier | HardTier

definition rule_words :: "string list" where
  "rule_words =
     [''return policy'', [CHR 0xD8, CHR 0xA8, CHR 0xD8, CHR 0xA7, CHR 0xD8, CHR 0xB2, CHR 0xDA, CHR 0xAF, CHR
      0xD8, CHR 0xB4, CHR 0xD8, CHR 0xAA], [CHR 0xD9, CHR 0x85, CHR 0xD8, CHR 0xB1, CHR 0xD8, CHR 0xAC, CHR
      0xD9, CHR 0x88, CHR 0xD8, CHR 0xB9], ''shipping'', [CHR 0xD8, CHR 0xA7, CHR 0xD8, CHR 0xB1, CHR 0xD8, CHR
      0xB3, CHR 0xD8, CHR 0xA7, CHR 0xD9, CHR 0x84], [CHR 0xD9, CHR 0xBE, CHR 0xD8, CHR 0xB3, CHR 0xD8, CHR
      0xAA], [CHR 0xD8, CHR 0xAA, CHR 0xD8, CHR 0xAD, CHR 0xD9, CHR 0x88, CHR 0xDB, CHR 0x8C, CHR 0xD9, CHR
      0x84], ''working hours'', ([CHR 0xD8, CHR 0xB3, CHR 0xD8, CHR 0xA7, CHR 0xD8, CHR 0xB9, CHR 0xD8, CHR
      0xAA] @ '' '' @ [CHR 0xDA, CHR 0xA9, CHR 0xD8, CHR 0xA7, CHR 0xD8, CHR 0xB1, CHR 0xDB, CHR 0x8C]), ([CHR
      0xD8, CHR 0xB3, CHR 0xD8, CHR 0xA7, CHR 0xD8, CHR 0xB9, CHR 0xD8, CHR 0xA7, CHR 0xD8, CHR 0xAA] @ '' '' @
      [CHR 0xDA, CHR 0xA9, CHR 0xD8, CHR 0xA7, CHR 0xD8, CHR 0xB1]), ''warranty'', [CHR 0xDA, CHR 0xAF, CHR
      0xD8, CHR 0xA7, CHR 0xD8, CHR 0xB1, CHR 0xD8, CHR 0xA7, CHR 0xD9, CHR 0x86, CHR 0xD8, CHR 0xAA, CHR 0xDB,
      CHR 0x8C], [CHR 0xD8, CHR 0xB6, CHR 0xD9, CHR 0x85, CHR 0xD8, CHR 0xA7, CHR 0xD9, CHR 0x86, CHR 0xD8, CHR
      0xAA], ''contact'', [CHR 0xD8, CHR 0xAA, CHR 0xD9, CHR 0x85, CHR 0xD8, CHR 0xA7, CHR 0xD8, CHR 0xB3],
      [CHR 0xD9, CHR 0xBE, CHR 0xD8, CHR 0xB4, CHR 0xD8, CHR 0xAA, CHR 0xDB, CHR 0x8C, CHR 0xD8, CHR 0xA8, CHR
      0xD8, CHR 0xA7, CHR 0xD9, CHR 0x86, CHR 0xDB, CHR 0x8C]]"

definition search_starts :: "string list" where
  "search_starts =
     [''do you have'', ''show me'', [CHR 0xD8, CHR 0xA2, CHR 0xDB, CHR 0x8C, CHR 0xD8, CHR 0xA7], [CHR 0xD8,
      CHR 0xAF, CHR 0xD8, CHR 0xA7, CHR 0xD8, CHR 0xB1, CHR 0xDB, CHR 0x8C, CHR 0xD8, CHR 0xAF], ([CHR 0xD9,
      CHR 0x86, CHR 0xD8, CHR 0xB4, CHR 0xD9, CHR 0x88, CHR 0xD9, CHR 0x86] @ '' '' @ [CHR 0xD8, CHR 0xA8, CHR
      0xD8, CHR 0xAF, CHR 0xD9, CHR 0x87]), [CHR 0xD9, CHR 0x84, CHR 0xDB, CHR 0x8C, CHR 0xD8, CHR 0xB3, CHR
      0xD8, CHR 0xAA]]"

definition search_words :: "string list" where
  "search_words =
     [''price of'', [CHR 0xD9, CHR 0x82, CHR 0xDB, CHR 0x8C, CHR 0xD9, CHR 0x85, CHR 0xD8, CHR 0xAA], [CHR
      0xDA, CHR 0x86, CHR 0xD9, CHR 0x86, CHR 0xD8, CHR 0xAF]]"

definition hard_words :: "string list" where
  "hard_words =
     [''compare'', ''difference'', ''recommend'', [CHR 0xD8, CHR 0xA8, CHR 0xD9, CHR 0x87, CHR 0xD8, CHR 0xAA,
      CHR 0xD8, CHR 0xB1, CHR 0xDB, CHR 0x8C, CHR 0xD9, CHR 0x86], [CHR 0xD9, CHR 0x85, CHR 0xD9, CHR 0x82, CHR
      0xD8, CHR 0xA7, CHR 0xDB, CHR 0x8C, CHR 0xD8, CHR 0xB3, CHR 0xD9, CHR 0x87], [CHR 0xD9, CHR 0x81, CHR
      0xD8, CHR 0xB1, CHR 0xD9, CHR 0x82], [CHR 0xD9, CHR 0xBE, CHR 0xDB, CHR 0x8C, CHR 0xD8, CHR 0xB4, CHR
      0xD9, CHR 0x86, CHR 0xD9, CHR 0x87, CHR 0xD8, CHR 0xA7, CHR 0xD8, CHR 0xAF]]"

text \<open>\<open>\b(w)\b\<close>: a match bounded on both sides by a change between word and non-word characters.\<close>

fun word_match :: "('c \<Rightarrow> bool) \<Rightarrow> 'c list \<Rightarrow> bool \<Rightarrow> 'c list \<Rightarrow> bool" where
  "word_match is_word w before [] = False"
| "word_match is_word w before (c # cs) =
     ((before \<noteq> is_word c \<and> prefix w (c # cs) \<and>
       is_word (last w) \<noteq> (case drop (length w) (c # cs) of [] \<Rightarrow> False | d # _ \<Rightarrow> is_word d)) \<or>
      word_match is_word w (is_word c) cs)"

definition word_char :: "unicode_db \<Rightarrow> string \<Rightarrow> bool" where
  "word_char U c \<longleftrightarrow> u_alnum U c \<or> c = ''_''"

definition has_word :: "unicode_db \<Rightarrow> string \<Rightarrow> string \<Rightarrow> bool" where
  "has_word U q w = word_match (word_char U) (code_points w) False (code_points q)"

text \<open>The patterns ignore the case of ASCII letters.\<close>

definition classify :: "unicode_db \<Rightarrow> string \<Rightarrow> tier" where
  "classify U query =
     (let q = py_lower (py_strip query) in
      if q = [] then SearchTier
      else if list_ex (\<lambda>w. str_in w q) rule_words then RuleTier
      else if list_ex (has_word U q) hard_words then HardTier
      else if list_ex (\<lambda>w. prefix w q) search_starts \<or> list_ex (\<lambda>w. str_in w q) search_words then SearchTier
      else SynthesisTier)"

subsection \<open>Compression\<close>

definition data_open :: string where "data_open = ''<<<STORE_DATA>>>''"
definition data_close :: string where "data_close = ''<<<END_STORE_DATA>>>''"

definition doc_text :: "(pyv \<Rightarrow> string) \<Rightarrow> py_dict \<Rightarrow> string \<Rightarrow> string" where
  "doc_text repr d k = py_strip (py_str repr (dict_get_or d k (VStr [])))"

definition context_line :: "(pyv \<Rightarrow> string) \<Rightarrow> nat \<Rightarrow> nat \<Rightarrow> py_dict \<Rightarrow> string" where
  "context_line repr max_chars i d =
     (let title = doc_text repr d ''title''; brand = doc_text repr d ''brand''; price = dict_get d ''price'';
          desc = py_take max_chars (doc_text repr d ''description'');
          pid = py_str repr (dict_get_or d ''product_id'' (VStr []))
      in py_join '' | ''
           ([''['' @ nat_str i @ ''] id='' @ pid] @
            (if title = [] then [] else [''title='' @ title]) @
            (if brand = [] then [] else [''brand='' @ brand]) @
            (if price = VNone then [] else [''price='' @ py_str repr price]) @
            (if desc = [] then [] else [''desc='' @ desc])))"

definition build_context :: "(pyv \<Rightarrow> string) \<Rightarrow> nat \<Rightarrow> nat \<Rightarrow> py_dict list \<Rightarrow> string" where
  "build_context repr max_docs max_chars docs =
     py_join [CHR 0x0A]
       ([data_open] @ map (\<lambda>(i, d). context_line repr max_chars (i + 1) d) (enumerate 0 (take max_docs docs)) @ [data_close])"

definition compress_messages :: "int \<Rightarrow> py_dict list \<Rightarrow> py_dict list" where
  "compress_messages max_turns history =
     (if int (length history) \<le> max_turns then history
      else if max_turns > 0 then drop (length history - nat max_turns) history
      else drop (nat (- max_turns)) history)"

subsection \<open>The router\<close>

record turn_result =
  tr_answer :: pyv
  tr_rung :: rung
  tr_tier :: "tier option"
  tr_cached :: bool
  tr_citations :: pyv
  tr_tokens_in :: pyv
  tr_tokens_out :: pyv
  tr_latency :: int
  tr_provider :: string
  tr_model :: string

text \<open>What the meter is told of a turn on route \<open>chat\<close>.\<close>

record turn_usage =
  tu_rung :: string
  tu_tokens_in :: pyv
  tu_tokens_out :: pyv
  tu_outcome :: string
  tu_latency :: int
  tu_cost :: real
  tu_provider :: string
  tu_model :: string
  tu_provider_cost :: real

record 'w router =
  gr_l1 :: "('w redis option \<times> nat) option"
  gr_l2 :: "('w redis option \<times> real \<times> int) option"
  gr_budget :: "((tenant \<Rightarrow> 'w \<Rightarrow> budget_state \<times> 'w) \<times> (tenant \<Rightarrow> real \<Rightarrow> 'w \<Rightarrow> 'w)) option"
  gr_providers :: "(py_dict list \<Rightarrow> bool \<Rightarrow> int \<Rightarrow> 'w \<Rightarrow> llm_response res \<times> 'w) option"
  gr_meter :: "(tenant \<Rightarrow> turn_usage \<Rightarrow> 'w \<Rightarrow> unit res \<times> 'w) option"
  gr_pricer :: "(string \<Rightarrow> turn_result \<Rightarrow> 'w \<Rightarrow> (real \<times> real) res \<times> 'w) option"

text \<open>The callables of one turn.\<close>

record 'w turn_env =
  te_retrieve :: "(tenant \<Rightarrow> string \<Rightarrow> 'w \<Rightarrow> py_dict list res \<times> 'w) option"
  te_build :: "(string \<Rightarrow> py_dict list \<Rightarrow> py_dict list) option"
  te_embed :: "(string \<Rightarrow> 'w \<Rightarrow> real list option res \<times> 'w) option"
  te_rule :: "(string \<Rightarrow> string option) option"
  te_sha :: "string \<Rightarrow> string"
  te_unicode :: unicode_db
  te_repr :: "pyv \<Rightarrow> string"

definition turn_cost :: "'w router \<Rightarrow> rung \<Rightarrow> turn_result \<Rightarrow> 'w \<Rightarrow> (real \<times> real) \<times> 'w" where
  "turn_cost G rung r w =
     (case gr_pricer G of
        None \<Rightarrow> ((rung_cost rung, 0), w)
      | Some P \<Rightarrow>
          (case P (rung_str rung) r w of
             (Inr c, w1) \<Rightarrow> (c, w1)
           | (Inl _, w1) \<Rightarrow> ((rung_cost rung, 0), w1)))"

definition record_turn :: "'w router \<Rightarrow> tenant \<Rightarrow> rung \<Rightarrow> turn_result \<Rightarrow> string \<Rightarrow> 'w \<Rightarrow> unit res \<times> 'w" where
  "record_turn G t rung r outcome w =
     (let ((cost, provider_cost), w1) = turn_cost G rung r w;
          w2 = (case gr_budget G of None \<Rightarrow> w1 | Some (_, charge) \<Rightarrow> charge t cost w1)
      in case gr_meter G of
           None \<Rightarrow> (Inr (), w2)
         | Some M \<Rightarrow>
             M t \<lparr>tu_rung = rung_str rung, tu_tokens_in = tr_tokens_in r, tu_tokens_out = tr_tokens_out r,
                  tu_outcome = outcome, tu_latency = tr_latency r, tu_cost = cost, tu_provider = tr_provider r,
                  tu_model = tr_model r, tu_provider_cost = provider_cost\<rparr> w2)"

definition cached_payload :: "turn_result \<Rightarrow> pyv" where
  "cached_payload r = VDict [(''answer'', tr_answer r), (''citations'', tr_citations r)]"

definition store_turn ::
  "'w router \<Rightarrow> (string \<Rightarrow> string) \<Rightarrow> tenant \<Rightarrow> string \<Rightarrow> int \<Rightarrow> real list option \<Rightarrow> turn_result \<Rightarrow> 'w \<Rightarrow> 'w" where
  "store_turn G sha t query dv qv r w =
     (let w1 = (case gr_l1 G of None \<Rightarrow> w | Some (redis, ttl) \<Rightarrow> l1_set sha redis ttl t query dv (cached_payload r) w)
      in case (gr_l2 G, qv) of
           (Some (redis, _, mx), Some v) \<Rightarrow> l2_store redis mx t v (cached_payload r) w1
         | _ \<Rightarrow> w1)"

text \<open>Record, optionally store, return: the tail of every path. An exception of the meter propagates.\<close>

definition finish_turn ::
  "'w router \<Rightarrow> tenant \<Rightarrow> turn_result \<Rightarrow> string \<Rightarrow> ('w \<Rightarrow> 'w) \<Rightarrow> 'w \<Rightarrow> turn_result res \<times> 'w" where
  "finish_turn G t r outcome store w =
     (case record_turn G t (tr_rung r) r outcome w of
        (Inl e, w1) \<Rightarrow> (Inl e, w1)
      | (Inr _, w1) \<Rightarrow> (Inr r, store w1))"

definition plain_result :: "pyv \<Rightarrow> rung \<Rightarrow> tier option \<Rightarrow> pyv \<Rightarrow> int \<Rightarrow> turn_result" where
  "plain_result answer rung tier cites lat =
     \<lparr>tr_answer = answer, tr_rung = rung, tr_tier = tier, tr_cached = False, tr_citations = cites,
      tr_tokens_in = VInt 0, tr_tokens_out = VInt 0, tr_latency = lat, tr_provider = [], tr_model = []\<rparr>"

text \<open>\<open>hit["answer"]\<close> and \<open>hit.get("citations", [])\<close> of a cached value.\<close>

definition cached_result :: "pyv \<Rightarrow> int \<Rightarrow> turn_result res" where
  "cached_result hit lat =
     (case hit of
        VDict d \<Rightarrow>
          (case map_of d ''answer'' of
             None \<Rightarrow> Inl (Exn ''KeyError'')
           | Some a \<Rightarrow> Inr ((plain_result a CACHE None (dict_get_or d ''citations'' (VList [])) lat)\<lparr>tr_cached := True\<rparr>))
      | _ \<Rightarrow> Inl (Exn ''TypeError''))"

text \<open>The entry of the semantic cache may also be a bare answer.\<close>

definition near_result :: "pyv \<Rightarrow> int \<Rightarrow> turn_result res" where
  "near_result ans lat =
     (case ans of VDict d \<Rightarrow> cached_result ans lat
      | _ \<Rightarrow> Inr ((plain_result ans CACHE None (VList []) lat)\<lparr>tr_cached := True\<rparr>))"

definition titles_of :: "(pyv \<Rightarrow> string) \<Rightarrow> py_dict list \<Rightarrow> string list" where
  "titles_of repr docs =
     map (\<lambda>d. doc_text repr d ''title'') (filter (\<lambda>d. truthy (dict_get d ''title'')) (take 5 docs))"

definition bullet_list :: "string list \<Rightarrow> string" where
  "bullet_list titles = py_join [CHR 0x0A] (map (\<lambda>t. ''- '' @ t) titles)"

definition search_answer :: "(pyv \<Rightarrow> string) \<Rightarrow> py_dict list \<Rightarrow> string" where
  "search_answer repr docs =
     (if docs = [] then
        [CHR 0xD9, CHR 0x85, CHR 0xD9, CHR 0x88, CHR 0xD8, CHR 0xB1, CHR 0xD8, CHR 0xAF, CHR 0xDB, CHR 0x8C] @
      '' '' @ [CHR 0xDB, CHR 0x8C, CHR 0xD8, CHR 0xA7, CHR 0xD9, CHR 0x81, CHR 0xD8, CHR 0xAA] @ '' '' @ [CHR
      0xD9, CHR 0x86, CHR 0xD8, CHR 0xB4, CHR 0xD8, CHR 0xAF] @ ''.''
      else
        [CHR 0xD8, CHR 0xA7, CHR 0xDB, CHR 0x8C, CHR 0xD9, CHR 0x86] @ '' '' @ [CHR 0xD9, CHR 0x85, CHR 0xD8, CHR
      0xAD, CHR 0xD8, CHR 0xB5, CHR 0xD9, CHR 0x88, CHR 0xD9, CHR 0x84, CHR 0xD8, CHR 0xA7, CHR 0xD8, CHR 0xAA]
      @ '' '' @ [CHR 0xD8, CHR 0xB1, CHR 0xD8, CHR 0xA7] @ '' '' @ [CHR 0xD9, CHR 0xBE, CHR 0xDB, CHR 0x8C, CHR
      0xD8, CHR 0xAF, CHR 0xD8, CHR 0xA7] @ '' '' @ [CHR 0xDA, CHR 0xA9, CHR 0xD8, CHR 0xB1, CHR 0xD8, CHR
      0xAF, CHR 0xD9, CHR 0x85] @ '':'' @ [CHR 0x0A]
        @ bullet_list (titles_of repr docs))"

definition citations_of :: "py_dict list \<Rightarrow> pyv" where
  "citations_of docs = VList (map VDict (take 5 docs))"

text \<open>Steps 4 to 6: classify, budget, retrieve, route, generate.\<close>

definition escalate ::
  "'w router \<Rightarrow> 'w turn_env \<Rightarrow> tenant \<Rightarrow> string \<Rightarrow> int \<Rightarrow> real list option \<Rightarrow> int \<Rightarrow> int \<Rightarrow> 'w \<Rightarrow> turn_result res \<times> 'w" where
  "escalate G V t query dv qv max_tokens lat w =
     (let tier = classify (te_unicode V) query;
          (local_only, w1) = (case gr_budget G of
             None \<Rightarrow> (False, w)
           | Some (state, _) \<Rightarrow> (case state t w of (b, w') \<Rightarrow> (bs_local_only b, w')))
      in case (case te_retrieve V of None \<Rightarrow> (Inr [], w1) | Some f \<Rightarrow> f t query w1) of
           (Inl e, w2) \<Rightarrow> (Inl e, w2)
         | (Inr docs, w2) \<Rightarrow>
             let searched = plain_result (VStr (search_answer (te_repr V) docs)) SEARCH (Some SearchTier) (citations_of docs) lat;
                 store = (\<lambda>r. store_turn G (te_sha V) t query dv qv r)
             in (case (if tier = SearchTier then None else te_build V, gr_providers G) of
                   (Some build, Some generate) \<Rightarrow>
                     let prefer_local = local_only \<or> tier = SynthesisTier
                     in (case generate (build query docs) prefer_local max_tokens w2 of
                           (Inl _, w3) \<Rightarrow> finish_turn G t (searched\<lparr>tr_tier := Some tier\<rparr>) ''degraded'' id w3
                         | (Inr resp, w3) \<Rightarrow>
                             let rung = (if lr_provider resp = ''local'' then LOCAL
                                         else if prefer_local then LOCAL else FRONTIER);
                                 r = \<lparr>tr_answer = lr_text resp, tr_rung = rung, tr_tier = Some tier, tr_cached = False,
                                      tr_citations = citations_of docs, tr_tokens_in = lr_tokens_in resp,
                                      tr_tokens_out = lr_tokens_out resp, tr_latency = lat,
                                      tr_provider = lr_provider resp, tr_model = lr_model resp\<rparr>
                             in finish_turn G t r ''miss'' (store r) w3)
                 | _ \<Rightarrow> finish_turn G t searched ''miss'' (store searched) w2))"

text \<open>Steps 2 and 3: the semantic cache, then the rules; the vector is \<open>None\<close> without an embedder.\<close>

definition after_l1 ::
  "'w router \<Rightarrow> 'w turn_env \<Rightarrow> tenant \<Rightarrow> string \<Rightarrow> int \<Rightarrow> int \<Rightarrow> int \<Rightarrow> 'w \<Rightarrow> turn_result res \<times> 'w" where
  "after_l1 G V t query dv max_tokens lat w =
     (case (case (gr_l2 G, te_embed V) of (Some _, Some emb) \<Rightarrow> emb query w | _ \<Rightarrow> (Inr None, w)) of
        (Inl e, w1) \<Rightarrow> (Inl e, w1)
      | (Inr qv, w1) \<Rightarrow>
          (case (case (gr_l2 G, qv) of
                   (Some (redis, threshold, mx), Some v) \<Rightarrow> l2_lookup redis threshold mx t v w1
                 | _ \<Rightarrow> Inr None) of
             Inl e \<Rightarrow> (Inl e, w1)
           | Inr (Some (ans, _)) \<Rightarrow>
               (case near_result ans lat of
                  Inl e \<Rightarrow> (Inl e, w1)
                | Inr r \<Rightarrow> finish_turn G t r ''l2_hit'' id w1)
           | Inr None \<Rightarrow>
               (case (case te_rule V of None \<Rightarrow> None | Some f \<Rightarrow> f query) of
                  Some templated \<Rightarrow>
                    let r = plain_result (VStr templated) RULE (Some RuleTier) (VList []) lat
                    in finish_turn G t r ''miss'' (store_turn G (te_sha V) t query dv qv r) w1
                | None \<Rightarrow> escalate G V t query dv qv max_tokens lat w1)))"

definition answer_turn ::
  "'w router \<Rightarrow> 'w turn_env \<Rightarrow> tenant \<Rightarrow> string \<Rightarrow> int \<Rightarrow> int \<Rightarrow> int \<Rightarrow> 'w \<Rightarrow> turn_result res \<times> 'w" where
  "answer_turn G V t query dv max_tokens lat w =
     (case (case gr_l1 G of None \<Rightarrow> None | Some (redis, _) \<Rightarrow> l1_get (te_sha V) redis t query dv w) of
        Some hit \<Rightarrow>
          (case cached_result hit lat of
             Inl e \<Rightarrow> (Inl e, w)
           | Inr r \<Rightarrow> finish_turn G t r ''l1_hit'' id w)
      | None \<Rightarrow> after_l1 G V t query dv max_tokens lat w)"

subsection \<open>Lemmas\<close>

lemma finish_turn_result: "finish_turn G t r outcome store w = (Inr r', w') \<Longrightarrow> r' = r"
  by (auto simp: finish_turn_def split: prod.splits sum.splits)

lemma cached_result_fields:
  "cached_result hit lat = Inr r \<Longrightarrow> tr_rung r = CACHE \<and> tr_cached r \<and> tr_tokens_in r = VInt 0 \<and> tr_provider r = []"
  by (auto simp: cached_result_def plain_result_def split: pyv.splits option.splits)

lemma near_result_fields:
  "near_result ans lat = Inr r \<Longrightarrow> tr_rung r = CACHE \<and> tr_cached r \<and> tr_tokens_in r = VInt 0 \<and> tr_provider r = []"
  by (auto simp: near_result_def plain_result_def split: pyv.splits dest: cached_result_fields)

text \<open>What a result says of itself, by its rung.\<close>

definition rung_honest :: "'w turn_env \<Rightarrow> string \<Rightarrow> turn_result \<Rightarrow> bool" where
  "rung_honest V query r \<longleftrightarrow>
     (case tr_rung r of
        CACHE \<Rightarrow> tr_cached r \<and> tr_tokens_in r = VInt 0 \<and> tr_provider r = []
      | RULE \<Rightarrow> \<not> tr_cached r \<and> tr_tokens_in r = VInt 0 \<and> (\<exists>f a. te_rule V = Some f \<and> f query = Some a \<and> tr_answer r = VStr a)
      | SEARCH \<Rightarrow> \<not> tr_cached r \<and> tr_tokens_in r = VInt 0 \<and> tr_provider r = [] \<and>
          (\<exists>docs. tr_answer r = VStr (search_answer (te_repr V) docs) \<and> tr_citations r = citations_of docs)
      | LOCAL \<Rightarrow> \<not> tr_cached r \<and> tr_tier r \<noteq> Some SearchTier
      | FRONTIER \<Rightarrow> \<not> tr_cached r \<and> tr_provider r \<noteq> ''local'' \<and> tr_tier r \<noteq> Some SearchTier \<and> tr_tier r \<noteq> Some SynthesisTier)"

lemma escalate_honest: "escalate G V t query dv qv mt lat w = (Inr r, w') \<Longrightarrow> rung_honest V query r"
  unfolding escalate_def Let_def
  by (auto split: prod.splits sum.splits option.splits if_splits tier.splits dest!: finish_turn_result
      simp: rung_honest_def plain_result_def)

lemma after_l1_honest: "after_l1 G V t query dv mt lat w = (Inr r, w') \<Longrightarrow> rung_honest V query r"
  unfolding after_l1_def Let_def
  by (auto split: prod.splits sum.splits option.splits dest!: finish_turn_result near_result_fields escalate_honest
      simp: rung_honest_def plain_result_def)

text \<open>Every answered turn says truthfully which rung of the ladder served it: a cached answer used no
  model; a rule answer is the rule's template; a search answer lists the retrieved products and used no
  model; and a turn is labelled frontier (the rung that costs most) only if the provider that answered
  is not the one named \<open>local\<close> and the question was classified as hard or as a rule question.\<close>

theorem turn_rung_honest:
  assumes "answer_turn G V t query dv max_tokens lat w = (Inr r, w')"
  shows "rung_honest V query r"
  using assms
  by (auto simp: answer_turn_def rung_honest_def split: option.splits sum.splits prod.splits
      dest!: finish_turn_result cached_result_fields after_l1_honest)

definition guard_closed :: "'w router \<Rightarrow> tenant \<Rightarrow> bool" where
  "guard_closed G t \<longleftrightarrow> (\<exists>state charge. gr_budget G = Some (state, charge) \<and> (\<forall>w. bs_local_only (fst (state t w))))"

lemma record_turn_providers [simp]: "record_turn (G\<lparr>gr_providers := P\<rparr>) = record_turn G"
  by (simp add: record_turn_def turn_cost_def fun_eq_iff)

lemma finish_turn_providers [simp]: "finish_turn (G\<lparr>gr_providers := P\<rparr>) = finish_turn G"
  by (simp add: finish_turn_def fun_eq_iff)

lemma store_turn_providers [simp]: "store_turn (G\<lparr>gr_providers := P\<rparr>) = store_turn G"
  by (simp add: store_turn_def fun_eq_iff)

definition demo_router :: "'w router" where
  "demo_router = \<lparr>gr_l1 = None, gr_l2 = None, gr_budget = None, gr_providers = None, gr_meter = None, gr_pricer = None\<rparr>"

definition demo_turn :: "'w turn_env" where
  "demo_turn = \<lparr>te_retrieve = None, te_build = None, te_embed = None, te_rule = None, te_sha = (\<lambda>s. s),
     te_unicode = ascii_unicode, te_repr = (\<lambda>_. [])\<rparr>"

theorem turn_rung_honest_witness:
  "rung_honest (demo_turn :: unit turn_env) ''price of tea'' (plain_result (VStr (search_answer (\<lambda>_. []) [])) SEARCH (Some SearchTier) (citations_of []) 7)"
proof -
  have "classify ascii_unicode ''price of tea'' = SearchTier"
    by (simp add: classify_def rule_words_def hard_words_def search_starts_def search_words_def py_strip_def py_lower_def
        lower_char_def is_space_def Let_def has_word_def word_char_def ascii_unicode_def is_cont_byte_def is_digit_def)
  then have "answer_turn demo_router demo_turn ''t'' ''price of tea'' 0 512 7 () =
    (Inr (plain_result (VStr (search_answer (\<lambda>_. []) [])) SEARCH (Some SearchTier) (citations_of []) 7), ())"
    by (simp add: demo_router_def demo_turn_def answer_turn_def after_l1_def escalate_def finish_turn_def record_turn_def
        turn_cost_def store_turn_def plain_result_def Let_def)
  then show ?thesis by (rule turn_rung_honest)
qed

text \<open>
  The interface the router needs of its providers: what a local-only call depends on. \<open>restricted\<close>
  is the provider without its external endpoints.
\<close>

locale local_respecting_provider =
  fixes generate :: "py_dict list \<Rightarrow> bool \<Rightarrow> int \<Rightarrow> 'w \<Rightarrow> llm_response res \<times> 'w"
    and restricted :: "py_dict list \<Rightarrow> bool \<Rightarrow> int \<Rightarrow> 'w \<Rightarrow> llm_response res \<times> 'w"
  assumes local_calls: "generate m True k w = restricted m True k w"
begin

lemma escalate_restricted:
  assumes "guard_closed G t"
  shows "escalate (G\<lparr>gr_providers := Some generate\<rparr>) V t query dv qv mt lat w =
    escalate (G\<lparr>gr_providers := Some restricted\<rparr>) V t query dv qv mt lat w"
proof -
  obtain state charge where s: "gr_budget G = Some (state, charge)" "\<And>w. bs_local_only (fst (state t w))"
    using assms by (auto simp: guard_closed_def)
  obtain b w1 where b: "state t w = (b, w1)" by (cases "state t w")
  with s(2) [of w] have "bs_local_only b" by simp
  with s(1) b show ?thesis by (simp add: escalate_def local_calls Let_def cong: if_cong option.case_cong sum.case_cong prod.case_cong)
qed

lemma turn_restricted:
  assumes "guard_closed G t"
  shows "answer_turn (G\<lparr>gr_providers := Some generate\<rparr>) V t query dv mt lat w =
    answer_turn (G\<lparr>gr_providers := Some restricted\<rparr>) V t query dv mt lat w"
  by (simp add: answer_turn_def after_l1_def escalate_restricted [OF assms] Let_def cong: option.case_cong sum.case_cong prod.case_cong)

end

interpretation static_chain: local_respecting_provider "chain_generate net eps" "chain_generate net (filter en_local eps)"
  for net :: "('w, 'z) network_scheme" and eps
  by unfold_locales (simp add: chain_generate_def)

text \<open>The dynamic chain on a fixed snapshot; the restricted side keeps the local endpoints it resolves.\<close>

interpretation dynamic_chain: local_respecting_provider "dynamic_generate S net task snap"
    "chain_generate net (filter en_local (task_endpoints S task snap))"
  for S and net :: "('w, 'z) network_scheme" and task snap
  by unfold_locales (simp add: dynamic_generate_def chain_generate_def Let_def)


definition killed_guard :: "tenant \<Rightarrow> 'w \<Rightarrow> budget_state \<times> 'w" where
  "killed_guard t w = (\<lparr>bs_spent = 0, bs_cap = 0, bs_local_only = True\<rparr>, w)"

definition demo_settings :: ai_settings where
  "demo_settings = \<lparr>st_frontier_enabled = True, st_frontier_url = Some ''http://x'', st_frontier_key = None,
     st_frontier_model = None, st_llm_url = ''http://l'', st_llm_model = ''m'', st_embeddings_url = [],
     st_embedding_model = [], st_embedding_dims = 0, st_reranker_url = None, st_reranker_model = []\<rparr>"

text \<open>A network that logs the address of every call and never answers.\<close>

definition deaf_network :: "string list network" where
  "deaf_network = \<lparr>nt_post = (\<lambda>rq log. (Inl ConnectErr, log @ [rq_url rq])), nt_sleep = (\<lambda>d log. log)\<rparr>"


text \<open>Everything but the models works for this question: no collaborator raises and cached entries are well formed.\<close>

definition services_up :: "'w router \<Rightarrow> 'w turn_env \<Rightarrow> tenant \<Rightarrow> string \<Rightarrow> int \<Rightarrow> int \<Rightarrow> 'w \<Rightarrow> bool" where
  "services_up G V t query dv lat w \<longleftrightarrow>
     (\<forall>f w. te_retrieve V = Some f \<longrightarrow> (\<exists>docs w'. f t query w = (Inr docs, w'))) \<and>
     (\<forall>f w. te_embed V = Some f \<longrightarrow> (\<exists>v w'. f query w = (Inr v, w'))) \<and>
     (\<forall>M u w. gr_meter G = Some M \<longrightarrow> (\<exists>w'. M t u w = (Inr (), w'))) \<and>
     (\<forall>redis ttl hit. gr_l1 G = Some (redis, ttl) \<longrightarrow> l1_get (te_sha V) redis t query dv w = Some hit \<longrightarrow>
        (\<exists>r. cached_result hit lat = Inr r)) \<and>
     (\<forall>redis th mx f v w1. gr_l2 G = Some (redis, th, mx) \<longrightarrow> te_embed V = Some f \<longrightarrow> f query w = (Inr (Some v), w1) \<longrightarrow>
        (\<exists>res. l2_lookup redis th mx t v w1 = Inr res \<and> (\<forall>a s. res = Some (a, s) \<longrightarrow> (\<exists>r. near_result a lat = Inr r))))"

lemma services_upD:
  assumes "services_up G V t query dv lat w"
  shows "te_retrieve V = Some f \<Longrightarrow> \<exists>docs w'. f t query w1 = (Inr docs, w')"
    and "te_embed V = Some g \<Longrightarrow> \<exists>v w'. g query w1 = (Inr v, w')"
    and "gr_meter G = Some M \<Longrightarrow> \<exists>w'. M t u w1 = (Inr (), w')"
    and "gr_l1 G = Some (redis, ttl) \<Longrightarrow> l1_get (te_sha V) redis t query dv w = Some hit \<Longrightarrow> \<exists>r. cached_result hit lat = Inr r"
    and "gr_l2 G = Some (redis, th, mx) \<Longrightarrow> te_embed V = Some g \<Longrightarrow> g query w = (Inr (Some v), w1) \<Longrightarrow>
      \<exists>res. l2_lookup redis th mx t v w1 = Inr res \<and> (\<forall>a s. res = Some (a, s) \<longrightarrow> (\<exists>r. near_result a lat = Inr r))"
  using assms unfolding services_up_def by simp_all

lemma finish_turn_answers:
  assumes "\<And>M u w. gr_meter G = Some M \<Longrightarrow> \<exists>w'. M t u w = (Inr (), w')"
  shows "\<exists>w'. finish_turn G t r outcome store w = (Inr r, w')"
proof (cases "gr_meter G")
  case None
  then show ?thesis by (auto simp: finish_turn_def record_turn_def split: prod.splits)
next
  case (Some M)
  obtain c w1 where c: "turn_cost G (tr_rung r) r w = (c, w1)" by (cases "turn_cost G (tr_rung r) r w")
  obtain w' where "record_turn G t (tr_rung r) r outcome w = (Inr (), w')"
    using assms [OF Some] by (cases c) (auto simp: record_turn_def Some c Let_def)
  then show ?thesis by (simp add: finish_turn_def)
qed

lemma escalate_answers:
  assumes "services_up G V t query dv lat w0"
  shows "\<exists>r w'. escalate G V t query dv qv mt lat w = (Inr r, w')"
proof -
  have f: "\<exists>w'. finish_turn G t r outcome store w = (Inr r, w')" for r outcome store w
    by (rule finish_turn_answers) (rule services_upD(3) [OF assms])
  then have f': "\<exists>r' w'. finish_turn G t r outcome store w = (Inr r', w')" for r outcome store w by blast
  obtain b w1 where b: "(case gr_budget G of None \<Rightarrow> (False, w)
      | Some (state, _) \<Rightarrow> (case state t w of (b, w') \<Rightarrow> (bs_local_only b, w'))) = (b, w1)" by fastforce
  obtain docs w2 where d: "(case te_retrieve V of None \<Rightarrow> (Inr [], w1) | Some f \<Rightarrow> f t query w1) = (Inr docs, w2)"
  proof (cases "te_retrieve V")
    case (Some f)
    then obtain docs w2 where "f t query w1 = (Inr docs, w2)" using services_upD(1) [OF assms Some] by blast
    then have "(case te_retrieve V of None \<Rightarrow> (Inr [], w1) | Some f \<Rightarrow> f t query w1) = (Inr docs, w2)"
      by (simp only: Some option.case)
    then show thesis by (rule that)
  next
    case None
    then have "(case te_retrieve V of None \<Rightarrow> (Inr [], w1) | Some f \<Rightarrow> f t query w1) = (Inr [], w1)" by simp
    then show thesis by (rule that)
  qed
  show ?thesis
  proof (cases "(if classify (te_unicode V) query = SearchTier then None else te_build V) = None \<or> gr_providers G = None")
    case True
    then show ?thesis unfolding escalate_def b using d f' by (auto simp: Let_def split: option.split)
  next
    case False
    then obtain build gen where c: "(if classify (te_unicode V) query = SearchTier then None else te_build V) = Some build"
      "gr_providers G = Some gen" by (metis option.exhaust)
    obtain g w3 where g: "gen (build query docs) (b \<or> classify (te_unicode V) query = SynthesisTier) mt w2 = (g, w3)" by fastforce
    then show ?thesis unfolding escalate_def b using d c f' by (cases g) (simp_all add: Let_def)
  qed
qed

lemma after_l1_answers:
  assumes "services_up G V t query dv lat w"
  shows "\<exists>r w'. after_l1 G V t query dv mt lat w = (Inr r, w')"
proof -
  have f: "\<exists>r' w'. finish_turn G t r outcome store w = (Inr r', w')" for r outcome store w
    using finish_turn_answers [of G t r outcome store w] services_upD(3) [OF assms] by blast
  obtain qv w1 where q: "(case (gr_l2 G, te_embed V) of (Some _, Some emb) \<Rightarrow> emb query w | _ \<Rightarrow> (Inr None, w)) = (Inr qv, w1)"
  proof (cases "\<exists>c emb. gr_l2 G = Some c \<and> te_embed V = Some emb")
    case True
    then obtain c emb where c: "gr_l2 G = Some c" "te_embed V = Some emb" by blast
    then obtain v w' where "emb query w = (Inr v, w')" using services_upD(2) [OF assms c(2)] by blast
    with c show thesis by (intro that [of v w']) (auto split: prod.split)
  next
    case False
    then show thesis by (cases "gr_l2 G"; cases "te_embed V") (auto intro: that [of None w])
  qed
  obtain res where l: "(case (gr_l2 G, qv) of
        (Some (redis, threshold, mx), Some v) \<Rightarrow> l2_lookup redis threshold mx t v w1 | _ \<Rightarrow> Inr None) = Inr res"
      "\<And>a s. res = Some (a, s) \<Longrightarrow> \<exists>r. near_result a lat = Inr r"
  proof (cases "\<exists>redis th mx v. gr_l2 G = Some (redis, th, mx) \<and> qv = Some v")
    case True
    then obtain redis th mx v where c: "gr_l2 G = Some (redis, th, mx)" "qv = Some v" by blast
    with q obtain emb where e: "te_embed V = Some emb" "emb query w = (Inr (Some v), w1)" by (cases "te_embed V") auto
    from services_upD(5) [OF assms c(1) e] obtain res where "l2_lookup redis th mx t v w1 = Inr res" "\<forall>a s. res = Some (a, s) \<longrightarrow> (\<exists>r. near_result a lat = Inr r)"
      by blast
    with c show thesis by (intro that [of res]) auto
  next
    case False
    then show thesis by (cases "gr_l2 G"; cases qv) (auto intro: that [of None])
  qed
  have step: "after_l1 G V t query dv mt lat w =
      (case res of
         Some (ans, _) \<Rightarrow>
           (case near_result ans lat of Inl e \<Rightarrow> (Inl e, w1) | Inr r \<Rightarrow> finish_turn G t r ''l2_hit'' id w1)
       | None \<Rightarrow>
           (case (case te_rule V of None \<Rightarrow> None | Some f \<Rightarrow> f query) of
              Some templated \<Rightarrow>
                let r = plain_result (VStr templated) RULE (Some RuleTier) (VList []) lat
                in finish_turn G t r ''miss'' (store_turn G (te_sha V) t query dv qv r) w1
            | None \<Rightarrow> escalate G V t query dv qv mt lat w1))"
    unfolding after_l1_def q using l(1) by (cases "gr_l2 G"; cases qv) (auto split: option.split)
  show ?thesis
  proof (cases res)
    case None
    then show ?thesis unfolding step using f escalate_answers [OF assms] by (simp add: Let_def split: option.split)
  next
    case (Some p)
    obtain ans s where "p = (ans, s)" by (cases p)
    with Some l(2) [of ans s] obtain r where "near_result ans lat = Inr r" by blast
    with Some \<open>p = (ans, s)\<close> f show ?thesis unfolding step by simp
  qed
qed

text \<open>C15: A turn never fails because the models are down: when retrieval, the embedder and the meter work
  and the cached entries are well formed, the turn is answered, whatever the providers, the pricer and
  the budget guard do.\<close>

theorem turn_always_answers:
  assumes "services_up G V t query dv lat w"
  shows "\<exists>r w'. answer_turn G V t query dv max_tokens lat w = (Inr r, w')"
proof (cases "case gr_l1 G of None \<Rightarrow> None | Some (redis, _) \<Rightarrow> l1_get (te_sha V) redis t query dv w")
  case None
  then show ?thesis using after_l1_answers [OF assms] by (simp add: answer_turn_def)
next
  case (Some hit)
  then obtain redis ttl where "gr_l1 G = Some (redis, ttl)" "l1_get (te_sha V) redis t query dv w = Some hit"
    by (auto split: option.splits)
  then obtain r where "cached_result hit lat = Inr r" using services_upD(4) [OF assms] by blast
  moreover have "\<exists>w'. finish_turn G t r ''l1_hit'' id w = (Inr r, w')"
    by (rule finish_turn_answers) (rule services_upD(3) [OF assms])
  ultimately show ?thesis by (auto simp: answer_turn_def Some)
qed

theorem turn_always_answers_witness:
  "\<exists>r w'. answer_turn (demo_router\<lparr>gr_l1 := Some (Some mem_redis, 60), gr_providers := Some (\<lambda>m p k w. (Inl (Exn ''down''), w))\<rparr>)
      (demo_turn\<lparr>te_build := Some (\<lambda>q docs. [])\<rparr>) ''t'' ''compare'' 0 512 0 mem_empty = (Inr r, w')"
proof -
  let ?G = "demo_router\<lparr>gr_l1 := Some (Some mem_redis, 60), gr_providers := Some (\<lambda>m p k w. (Inl (Exn ''down''), w))\<rparr>"
  have "services_up ?G (demo_turn\<lparr>te_build := Some (\<lambda>q docs. [])\<rparr>) ''t'' ''compare'' 0 0 mem_empty"
    by (simp add: services_up_def demo_router_def demo_turn_def l1_get_def mem_redis_def mem_empty_def)
  from turn_always_answers [OF this] show ?thesis .
qed

text \<open>
  A question that the classifier calls a rule question, on a router without rules, is generated with
  the external endpoints first and labelled frontier; so is a turn that a local endpoint answered
  under another provider name.
\<close>

lemma unnamed_local_or_rule_is_frontier:
  assumes "te_build V = Some build" "gr_providers G = Some gen" "gr_budget G = None" "te_retrieve V = None"
    and "classify (te_unicode V) query = RuleTier \<or> classify (te_unicode V) query = HardTier"
    and "gen (build query []) False mt w = (Inr resp, w3)" and "lr_provider resp \<noteq> ''local''"
  shows "\<exists>r. escalate G V t query dv qv mt lat w = finish_turn G t r ''miss'' (store_turn G (te_sha V) t query dv qv r) w3 \<and>
    tr_rung r = FRONTIER"
  using assms by (auto simp: escalate_def Let_def)

text \<open>What the exact cache holds after a turn was stored is served to the next identical question.\<close>

lemma l1_key_not_l2_key [simp]: "cache_key sha t q dv \<noteq> l2_key t'" by (simp add: cache_key_def l2_key_def)

lemma stored_turn_in_l1:
  assumes "gr_l1 G = Some (Some R, ttl)" "redis_kv R" "redis_frame R rd_list"
    and "gr_l2 G = None \<or> (\<exists>th mx. gr_l2 G = Some (Some R, th, mx))"
    and "fst (rd_set R (cache_key sha t query dv) (cached_payload r) (Some ttl) w) = Inr ()"
  shows "l1_get sha (Some R) t query dv (store_turn G sha t query dv qv r w) = Some (cached_payload r)"
proof -
  let ?k = "cache_key sha t query dv"
  have frame: "rd_get R ?k (l2_store (Some R) mx t v p w') = rd_get R ?k w'" for mx v p w'
    by (simp add: l2_store_def redis_frame_laws [OF assms(3)] split: prod.split sum.split)
      (metis redis_frame_laws(1,2) [OF assms(3)] l1_key_not_l2_key snd_conv)
  have "rd_get R ?k (store_turn G sha t query dv qv r w) = Inr (Some (cached_payload r))"
    using assms(4)
    by (cases qv) (auto simp: store_turn_def assms(1) l1_set_def frame redis_kv_laws(1) [OF assms(2,5)])
  then show ?thesis by (simp add: l1_get_def cached_payload_def)
qed

text \<open>
  The delimiters are not escaped in store content: a product whose title is the closing marker closes
  the data section inside its own line.
\<close>

lemma sublist_prepend: "sublist p q \<Longrightarrow> sublist p (a @ q)"
  by (rule sublist_order.order.trans [OF _ sublist_append_leftI])

lemma sublist_py_join: "p \<in> set ps \<Longrightarrow> sublist p (py_join sep ps)"
proof (induction sep ps rule: py_join.induct)
  case (3 sep s t ts)
  then show ?case by (auto intro: sublist_appendI sublist_prepend)
qed auto

lemma marker_not_escaped:
  assumes "map_of d ''title'' = Some (VStr data_close)"
  shows "sublist data_close (context_line repr max_chars i d)"
proof -
  have "doc_text repr d ''title'' = data_close"
    using assms by (simp add: doc_text_def dict_get_or_def data_close_def py_strip_def is_space_def)
  moreover have "data_close \<noteq> []" by (simp add: data_close_def)
  ultimately have "sublist (''title='' @ data_close) (context_line repr max_chars i d)"
    unfolding context_line_def Let_def by (intro sublist_py_join) simp
  moreover have "sublist data_close (''title='' @ data_close)" by (rule sublist_append_leftI)
  ultimately show ?thesis by (rule sublist_order.order.trans [rotated])
qed

end
