(* ===== verification/Stores.thy ===== *)
theory Stores
  imports Sessions Cache
begin

text \<open>
  The store plane: the tables a tenant owns (\<open>api_keys\<close>, \<open>invitations\<close>, \<open>leads\<close>,
  \<open>kb_articles\<close>, \<open>sync_state\<close>), API keys and the guard of the public API
  (\<open>services/api/deps.py\<close>, \<open>packages/acip_core/security.py\<close>, \<open>_guard\<close> of \<open>v1.py\<close>), and the
  dashboard endpoints of \<open>tenant_team.py\<close>, \<open>tenant_keys.py\<close>, \<open>tenant_settings.py\<close>,
  \<open>tenant_leads.py\<close>, \<open>tenant_kb.py\<close> and \<open>tenant_sync.py\<close>. An endpoint takes the resolved
  principal of the request (\<open>require_tenant\<close>); generated row ids and random tokens are arguments.
  The database is up: the handlers catch nothing, so a database that is down is the 500 of
  \<open>with_pg\<close>. Time stamps that no operation reads back are left out.
\<close>

subsection \<open>Tables\<close>

datatype key_scope = WIDGET | ADMIN | SYNC

fun scope_str :: "key_scope \<Rightarrow> string" where
  "scope_str WIDGET = ''widget''"
| "scope_str ADMIN = ''admin''"
| "scope_str SYNC = ''sync''"

definition scope_of :: "string \<Rightarrow> key_scope option" where
  "scope_of s = (if s = ''widget'' then Some WIDGET else if s = ''admin'' then Some ADMIN
     else if s = ''sync'' then Some SYNC else None)"

lemma scope_of_str [simp]: "scope_of (scope_str s) = Some s"
  by (cases s) (simp_all add: scope_of_def)

lemma scope_str_inj [simp]: "scope_str s = scope_str s' \<longleftrightarrow> s = s'"
  by (cases s; cases s') simp_all

text \<open>The CHECK constraint of \<open>api_keys.scope\<close> is the type of the column.\<close>

record key_row =
  ky_id :: string
  ky_tenant :: tenant
  ky_hash :: string
  ky_scope :: key_scope
  ky_label :: string
  ky_revoked :: bool

record invite_row =
  in_tenant :: tenant
  in_email :: string
  in_role :: string
  in_by :: string

record lead_row =
  ld_id :: int
  ld_tenant :: tenant
  ld_email :: "string option"
  ld_phone :: "string option"
  ld_intent :: bool
  ld_source :: string
  ld_status :: string
  ld_notes :: "string option"

record kb_row =
  kb_id :: string
  kb_tenant :: tenant
  kb_title :: string
  kb_body :: string
  kb_published :: bool

record sync_row =
  sy_tenant :: tenant
  sy_source :: string
  sy_watermark :: "real option"
  sy_last_run :: "real option"
  sy_status :: "string option"

record store =
  keys :: "key_row list"
  invites :: "invite_row list"
  leads :: "lead_row list"
  articles :: "kb_row list"
  syncs :: "sync_row list"

definition empty_store :: store where
  "empty_store = \<lparr>keys = [], invites = [], leads = [], articles = [], syncs = []\<rparr>"

text \<open>The control plane: identities, billing tables, store tables.\<close>

type_synonym plane = "adb \<times> db \<times> store"

subsection \<open>API keys\<close>

definition hash_key :: "crypto \<Rightarrow> string \<Rightarrow> string" where
  "hash_key C raw = cr_sha256 C raw"

record api_principal =
  ap_tenant :: "tenant option"
  ap_scope :: "key_scope option"
  ap_raw :: "string option"
  ap_verified :: bool

definition extract_principal :: "string option \<Rightarrow> api_principal" where
  "extract_principal api_key =
     \<lparr>ap_tenant = None, ap_scope = None, ap_raw = (if the_or [] api_key = [] then None else api_key), ap_verified = False\<rparr>"

definition live_key :: "string \<Rightarrow> key_row \<Rightarrow> bool" where
  "live_key h r \<longleftrightarrow> ky_hash r = h \<and> \<not> ky_revoked r"

definition resolve_principal :: "crypto \<Rightarrow> string option \<Rightarrow> store \<Rightarrow> api_principal" where
  "resolve_principal C api_key st =
     (if the_or [] api_key = [] then extract_principal None
      else case find (live_key (hash_key C (the_or [] api_key))) (keys st) of
          None \<Rightarrow> extract_principal api_key
        | Some r \<Rightarrow> \<lparr>ap_tenant = Some (ky_tenant r), ap_scope = Some (ky_scope r), ap_raw = api_key, ap_verified = True\<rparr>)"

definition principal_allowed :: "api_principal \<Rightarrow> key_scope list \<Rightarrow> bool" where
  "principal_allowed p scopes \<longleftrightarrow> ap_tenant p \<noteq> None \<and> (\<exists>s. ap_scope p = Some s \<and> s \<in> set scopes)"

text \<open>\<open>_guard\<close>: the tenant on success. The rate limiter is \<open>get_rate_limiter()\<close> with its default.\<close>

definition guard ::
  "crypto \<Rightarrow> ('r, 'x) redis_scheme option \<Rightarrow> int \<Rightarrow> key_scope list \<Rightarrow> real \<Rightarrow> string option \<Rightarrow> store \<Rightarrow> 'r
     \<Rightarrow> tenant reply \<times> 'r" where
  "guard C redis per_min scopes now api_key st s =
     (let p = resolve_principal C api_key st in
      case ap_tenant p of
        None \<Rightarrow> (Err 401 ''unauthorized'', s)
      | Some t \<Rightarrow>
          if t = [] then (Err 401 ''unauthorized'', s)
          else if \<not> principal_allowed p scopes then (Err 403 ''forbidden'', s)
          else case rl_allow redis per_min t None now s of
              (False, s1) \<Rightarrow> (Err 429 ''rate_limited'', s1)
            | (True, s1) \<Rightarrow> (Ok t, s1))"

lemma guard_okD:
  assumes "guard C redis per_min scopes now api_key st s = (Ok t, s')"
  shows "\<exists>r\<in>set (keys st). ky_hash r = hash_key C (the_or [] api_key) \<and> \<not> ky_revoked r \<and> ky_tenant r = t \<and>
    ky_scope r \<in> set scopes"
  using assms
  by (auto simp: guard_def resolve_principal_def extract_principal_def principal_allowed_def Let_def live_key_def
      split: option.splits if_splits prod.splits bool.splits dest!: find_SomeD)

subsection \<open>Keys of the dashboard\<close>

text \<open>The principal of a store request: \<open>(user, tenant)\<close> fields are read through \<open>pp_tenant\<close>.\<close>

definition tenant_of :: "principal \<Rightarrow> tenant" where
  "tenant_of q = the_or [] (pp_tenant q)"

definition list_keys :: "principal option \<Rightarrow> store \<Rightarrow> key_row list reply" where
  "list_keys p st =
     (case require_tenant p of
        None \<Rightarrow> Err 401 ''unauthenticated''
      | Some q \<Rightarrow> Ok (rev (filter (\<lambda>r. ky_tenant r = tenant_of q) (keys st))))"

definition insert_key :: "key_row \<Rightarrow> store \<Rightarrow> store" where
  "insert_key r st = st\<lparr>keys := keys st @ [r]\<rparr>"

text \<open>\<open>raw\<close> is \<open>secrets.token_urlsafe(24)\<close>.\<close>

definition create_key ::
  "env \<Rightarrow> string \<Rightarrow> string \<Rightarrow> principal option \<Rightarrow> py_dict \<Rightarrow> plane \<Rightarrow> (string \<times> string \<times> string) reply \<times> plane" where
  "create_key E i raw p payload w =
     (let (repr, U, C) = E; (a, d, st) = w in
      case require_tenant p of
        None \<Rightarrow> (Err 401 ''unauthenticated'', w)
      | Some q \<Rightarrow>
          if pp_role q \<noteq> STORE_OWNER then (Err 403 ''forbidden'', w)
          else
            let scope = py_str repr (dict_get_or payload ''scope'' (VStr ''widget''));
                l0 = py_strip (pstr E payload ''label'');
                label = (if l0 = [] then scope else l0);
                raw_key = ''acip_'' @ raw
            in if scope \<notin> {''widget'', ''sync''} then (Err 422 ''invalid_request'', w)
               else (Ok (raw_key, scope, label), a,
                     audit PgUp (pp_email q) ''key.create'' (pp_tenant q) [(''scope'', VStr scope), (''label'', VStr label)] d,
                     insert_key \<lparr>ky_id = i, ky_tenant = tenant_of q, ky_hash = hash_key C raw_key,
                        ky_scope = the (scope_of scope), ky_label = label, ky_revoked = False\<rparr> st))"

definition revoke_keys :: "string \<Rightarrow> tenant \<Rightarrow> store \<Rightarrow> store" where
  "revoke_keys i t st =
     st\<lparr>keys := update_where (\<lambda>r. ky_id r = i \<and> ky_tenant r = t) (\<lambda>r. r\<lparr>ky_revoked := True\<rparr>) (keys st)\<rparr>"

text \<open>The answer does not say whether a key was found; a malformed id is a database error.\<close>

definition revoke_key :: "string \<Rightarrow> principal option \<Rightarrow> plane \<Rightarrow> string reply \<times> plane" where
  "revoke_key i p w =
     (let (a, d, st) = w in
      case require_tenant p of
        None \<Rightarrow> (Err 401 ''unauthenticated'', w)
      | Some q \<Rightarrow>
          if pp_role q \<noteq> STORE_OWNER then (Err 403 ''forbidden'', w)
          else if \<not> valid_uuid i then (Err 500 ''internal_error'', w)
          else (Ok ''revoked'', a,
                audit PgUp (pp_email q) ''key.revoke'' (pp_tenant q) [(''key_id'', VStr i)] d,
                revoke_keys i (tenant_of q) st))"

end
