(* ===== verification/Team.thy ===== *)
theory Team
  imports Stores
begin

text \<open>
  The team of a store: \<open>services/api/routers/tenant_team.py\<close> and the operator's view of store users,
  \<open>admin_users.py\<close>. Deleting a user deletes its sessions, reset links and verification links
  (\<open>ON DELETE CASCADE\<close>).
\<close>

subsection \<open>Store endpoints\<close>

definition team :: "principal option \<Rightarrow> adb \<Rightarrow> user_row list reply" where
  "team p a =
     (case require_tenant p of
        None \<Rightarrow> Err 401 ''unauthenticated''
      | Some q \<Rightarrow> Ok (filter (\<lambda>u. ur_tenant u = pp_tenant q) (users a)))"

text \<open>A setup link: a reset token that lives for seven days.\<close>

definition insert_setup :: "crypto \<Rightarrow> fresh \<Rightarrow> string \<Rightarrow> real \<Rightarrow> adb \<Rightarrow> adb" where
  "insert_setup C F user now a =
     a\<lparr>resets := resets a @ [\<lparr>on_id = fr_once F, on_user = user, on_hash = hash_key C (fr_token F),
         on_expires = now + 7 * 86400, on_used = False\<rparr>]\<rparr>"

text \<open>The reply surfaces the setup token outside production.\<close>

definition setup_reply :: "bool \<Rightarrow> fresh \<Rightarrow> string option" where
  "setup_reply production F = (if production then None else Some (fr_token F))"

definition invite ::
  "env \<Rightarrow> bool \<Rightarrow> fresh \<Rightarrow> real \<Rightarrow> principal option \<Rightarrow> py_dict \<Rightarrow> plane \<Rightarrow> string option reply \<times> plane" where
  "invite E production F now p payload w =
     (let (repr, U, C) = E; (a, d, st) = w in
      case require_tenant p of
        None \<Rightarrow> (Err 401 ''unauthenticated'', w)
      | Some q \<Rightarrow>
          if pp_role q \<noteq> STORE_OWNER then (Err 403 ''forbidden'', w)
          else
            let email = pstr_clean E payload ''email'';
                n0 = py_strip (pstr E payload ''full_name'')
            in if CHR ''@'' \<notin> set email then (Err 422 ''invalid_email'', w)
               else if user_by_email email a \<noteq> None then (Err 409 ''email_taken'', w)
               else
                 let u = \<lparr>ur_id = fr_user F, ur_email = email,
                          ur_hash = projr (hash_password C (fr_salt F) default_iterations (fr_access_jti F)),
                          ur_name = (if n0 = [] then None else Some n0), ur_role = ''store_staff'',
                          ur_tenant = pp_tenant q, ur_status = ''pending'', ur_verified = False, ur_failed = 0, ur_locked = None\<rparr>;
                     a1 = insert_setup C F (fr_user F) now (a\<lparr>users := users a @ [u]\<rparr>);
                     st1 = st\<lparr>invites := invites st @ [\<lparr>in_tenant = tenant_of q, in_email = email, in_role = ''store_staff'',
                             in_by = pp_user q\<rparr>]\<rparr>;
                     d1 = audit PgUp (pp_email q) ''team.invite'' (pp_tenant q) [(''email'', VStr email)] d
                 in (Ok (setup_reply production F), send_mail email ''invite'' (fr_token F) a1, d1, st1))"

definition resend_invite ::
  "env \<Rightarrow> bool \<Rightarrow> fresh \<Rightarrow> real \<Rightarrow> principal option \<Rightarrow> py_dict \<Rightarrow> plane \<Rightarrow> string option reply \<times> plane" where
  "resend_invite E production F now p payload w =
     (let (repr, U, C) = E; (a, d, st) = w in
      case require_tenant p of
        None \<Rightarrow> (Err 401 ''unauthenticated'', w)
      | Some q \<Rightarrow>
          if pp_role q \<noteq> STORE_OWNER then (Err 403 ''forbidden'', w)
          else
            let email = pstr_clean E payload ''email'' in
            case find (\<lambda>u. py_lower (ur_email u) = email \<and> ur_tenant u = pp_tenant q \<and> ur_status u = ''pending'') (users a) of
              None \<Rightarrow> (Err 404 ''not_found'', w)
            | Some u \<Rightarrow>
                let a1 = a\<lparr>resets := update_where (\<lambda>r. on_user r = ur_id u \<and> \<not> on_used r) (\<lambda>r. r\<lparr>on_used := True\<rparr>) (resets a)\<rparr>;
                    a2 = insert_setup C F (ur_id u) now a1;
                    d1 = audit PgUp (pp_email q) ''team.resend'' (pp_tenant q) [(''email'', VStr email)] d
                in (Ok (setup_reply production F), send_mail email ''invite'' (fr_token F) a2, d1, st))"

text \<open>The rows the role and the removal endpoints touch.\<close>

definition member :: "string \<Rightarrow> principal \<Rightarrow> user_row \<Rightarrow> bool" where
  "member email q u \<longleftrightarrow> py_lower (ur_email u) = email \<and> ur_tenant u = pp_tenant q"

definition team_role :: "env \<Rightarrow> principal option \<Rightarrow> py_dict \<Rightarrow> plane \<Rightarrow> (string \<times> string) reply \<times> plane" where
  "team_role E p payload w =
     (let (a, d, st) = w in
      case require_tenant p of
        None \<Rightarrow> (Err 401 ''unauthenticated'', w)
      | Some q \<Rightarrow>
          if pp_role q \<noteq> STORE_OWNER then (Err 403 ''forbidden'', w)
          else
            let email = pstr_clean E payload ''email''; role = pstr E payload ''role'' in
            if role \<notin> {''store_owner'', ''store_staff''} then (Err 422 ''invalid_request'', w)
            else if email = pp_email q then (Err 422 ''invalid_request'', w)
            else if \<not> list_ex (member email q) (users a) then (Err 404 ''not_found'', w)
            else (Ok (email, role), a\<lparr>users := update_where (member email q) (\<lambda>u. u\<lparr>ur_role := role\<rparr>) (users a)\<rparr>,
                  audit PgUp (pp_email q) ''team.role'' (pp_tenant q) [(''email'', VStr email), (''role'', VStr role)] d, st))"

definition delete_users :: "(user_row \<Rightarrow> bool) \<Rightarrow> adb \<Rightarrow> adb" where
  "delete_users P a =
     (let gone = ur_id ` set (filter P (users a))
      in a\<lparr>users := filter (\<lambda>u. \<not> P u) (users a), sessions := filter (\<lambda>s. ss_user s \<notin> gone) (sessions a),
           resets := filter (\<lambda>r. on_user r \<notin> gone) (resets a), verifs := filter (\<lambda>r. on_user r \<notin> gone) (verifs a)\<rparr>)"

definition team_remove :: "env \<Rightarrow> principal option \<Rightarrow> py_dict \<Rightarrow> plane \<Rightarrow> string reply \<times> plane" where
  "team_remove E p payload w =
     (let (a, d, st) = w in
      case require_tenant p of
        None \<Rightarrow> (Err 401 ''unauthenticated'', w)
      | Some q \<Rightarrow>
          if pp_role q \<noteq> STORE_OWNER then (Err 403 ''forbidden'', w)
          else
            let email = pstr_clean E payload ''email'';
                P = (\<lambda>u. member email q u \<and> ur_role u \<noteq> ''platform_admin'') in
            if email = pp_email q then (Err 422 ''invalid_request'', w)
            else if \<not> list_ex P (users a) then (Err 404 ''not_found'', w)
            else (Ok email, delete_users P a,
                  audit PgUp (pp_email q) ''team.remove'' (pp_tenant q) [(''email'', VStr email)] d, st))"

subsection \<open>The operator's user endpoints\<close>

definition set_user_status ::
  "(pyv \<Rightarrow> string) \<Rightarrow> bool \<Rightarrow> string \<Rightarrow> py_dict \<Rightarrow> adb \<times> db \<Rightarrow> (string \<times> string) reply \<times> adb \<times> db" where
  "set_user_status repr ok email payload w =
     (let (a, d) = w; status = py_str repr (dict_get_or payload ''status'' (VStr []));
          P = (\<lambda>u. py_lower (ur_email u) = py_lower email) in
      if \<not> ok then (Err 401 ''unauthorized'', w)
      else if status \<notin> {''active'', ''suspended''} then (Err 422 ''invalid_request'', w)
      else if \<not> list_ex P (users a) then (Err 404 ''not_found'', w)
      else (Ok (email, status),
            a\<lparr>users := update_where P (\<lambda>u. u\<lparr>ur_status := status, ur_failed := 0, ur_locked := None\<rparr>) (users a)\<rparr>,
            audit PgUp ''operator'' ''user.status'' None [(''email'', VStr email), (''status'', VStr status)] d))"

definition set_user_role ::
  "(pyv \<Rightarrow> string) \<Rightarrow> bool \<Rightarrow> string \<Rightarrow> py_dict \<Rightarrow> adb \<times> db \<Rightarrow> (string \<times> string) reply \<times> adb \<times> db" where
  "set_user_role repr ok email payload w =
     (let (a, d) = w; role = py_str repr (dict_get_or payload ''role'' (VStr [])) in
      if \<not> ok then (Err 401 ''unauthorized'', w)
      else if role \<notin> {''store_owner'', ''store_staff''} then (Err 422 ''invalid_request'', w)
      else case find (\<lambda>u. py_lower (ur_email u) = py_lower email) (users a) of
          None \<Rightarrow> (Err 404 ''not_found'', w)
        | Some u \<Rightarrow>
            (Ok (email, role), update_user (ur_id u) (\<lambda>x. x\<lparr>ur_role := role\<rparr>) a,
             audit PgUp ''operator'' ''user.role'' None [(''email'', VStr email), (''role'', VStr role)] d))"

subsection \<open>Accounts that cannot sign in\<close>

text \<open>The account is pending and holds no session: an invariant of the customer identity endpoints.\<close>

definition id_status :: "adb \<Rightarrow> (string \<times> string) list" where
  "id_status a = map (\<lambda>u. (ur_id u, ur_status u)) (users a)"

definition never_live :: "string \<Rightarrow> adb \<Rightarrow> bool" where
  "never_live i a \<longleftrightarrow> i \<in> fst ` set (id_status a) \<and> (\<forall>x\<in>set (id_status a). fst x = i \<longrightarrow> snd x = ''pending'') \<and>
     i \<notin> set (map ss_user (sessions a))"

lemma never_live_cong:
  "id_status a = id_status b \<Longrightarrow> map ss_user (sessions a) = map ss_user (sessions b) \<Longrightarrow> never_live i a = never_live i b"
  by (simp add: never_live_def del: set_map)

lemma never_live_update:
  assumes "\<And>u. ur_id (f u) = ur_id u" "\<And>u. ur_status (f u) = ur_status u"
  shows "never_live i (update_user j f a) = never_live i a"
  by (rule never_live_cong) (simp_all add: id_status_def update_user_def map_update_where assms)

lemma never_live_insert: "j \<noteq> i \<Longrightarrow> never_live i (insert_session F j tp a) = never_live i a"
  by (simp add: never_live_def insert_session_def id_status_def)

lemma never_live_revoke [simp]: "never_live i (revoke_where P a) = never_live i a"
  by (rule never_live_cong) (simp_all add: id_status_def revoke_where_def map_update_where)

lemma never_live_status:
  "never_live i a \<Longrightarrow> u \<in> set (users a) \<Longrightarrow> ur_status u = ''active'' \<Longrightarrow> ur_id u \<noteq> i"
  by (auto simp: never_live_def id_status_def)

lemma never_live_frames [simp]:
  "never_live i (send_mail x y z a) = never_live i a"
  "never_live i (create_verification C F u now a) = never_live i a"
  "never_live i (a\<lparr>resets := rs\<rparr>) = never_live i a" "never_live i (a\<lparr>verifs := vs\<rparr>) = never_live i a"
  by (rule never_live_cong; simp add: id_status_def)+

lemma never_live_step:
  assumes "never_live i (fst st)"
  shows "never_live i (fst (auth_step E cfg st e))"
proof -
  obtain a d where st: "st = (a, d)" by (cases st)
  obtain repr U C where E: "E = (repr, U, C)" by (cases E)
  from assms have n: "never_live i a" by (simp add: st)
  have active: "ur_id u \<noteq> i" if "user_by_email x a = Some u \<or> user_by_id x a = Some u" "ur_status u = ''active''" for x u
    using that n by (auto simp: user_by_email_def user_by_id_def dest!: find_SomeD dest: never_live_status)
  show ?thesis
  proof (cases e)
    case (Signup ok pol F now pay)
    show ?thesis
    proof (cases "fr_user F \<in> ur_id ` set (users a)")
      case False
      then have ne: "fr_user F \<noteq> i" using n by (auto simp: never_live_def id_status_def)
      then have "never_live i (a\<lparr>users := users a @ [u]\<rparr>)" if "ur_id u = fr_user F" for u
        using n that ne by (auto simp: never_live_def id_status_def)
      then show ?thesis using n False
        by (auto simp: Signup st E signup_def Let_def never_live_insert [OF ne])
    qed (use n in \<open>simp add: Signup st\<close>)
  next
    case (Login ok F now pay)
    show ?thesis
    proof (cases "user_by_email (pstr_clean E pay ''email'') a")
      case (Some u)
      show ?thesis
      proof (cases "ur_status u = ''active''")
        case True
        with Some active have "ur_id u \<noteq> i" by blast
        then show ?thesis using n Some unfolding E
          by (auto simp: Login st login_def Let_def never_live_update never_live_insert split: option.splits sum.splits)
      qed (use n Some in \<open>simp add: Login st E login_def Let_def\<close>)
    qed (use n in \<open>simp add: Login st E login_def Let_def\<close>)
  next
    case (Refresh F now pay c)
    have "never_live i a1" if "rotate_session C cfg F now (s, u) a = (tp, a1)" "session_by_jti h a = Some (s, u)"
      "ur_status u = ''active''" for s u tp a1 h
    proof -
      from that(2,3) have "ur_id u \<noteq> i"
        by (intro active [of "ss_user s"]) (auto simp: session_by_jti_def split: option.splits)
      with that(1) n show ?thesis by (auto simp: rotate_session_def Let_def never_live_insert)
    qed
    with n show ?thesis
      by (auto simp: Refresh st E refresh_def Let_def split: option.splits sum.splits prod.splits)
  qed (use n in \<open>auto simp: st E logout_def reset_request_def verify_request_def verify_confirm_def reset_confirm_def
        change_password_def change_email_def Let_def never_live_update split: option.splits sum.splits token_error.splits\<close>)
qed

interpretation pending_mc: invariant_machine "auth_step E cfg" "\<lambda>st. never_live i (fst st)" for E cfg i
  by unfold_locales (rule never_live_step)

lemma invite_never_live:
  assumes "invite E production F now p payload w = (Ok tok, a1, d1, st1)"
    and "fr_user F \<notin> ur_id ` set (users (fst w))" and "fr_user F \<notin> ss_user ` set (sessions (fst w))"
  shows "never_live (fr_user F) a1"
  using assms
  by (cases w; cases E)
    (force simp: invite_def Let_def insert_setup_def never_live_def id_status_def split: option.splits if_splits)

text \<open>A teammate who was invited stays outside. The invitation creates the account as \<open>pending\<close>; after any
  sequence of the identity endpoints, the setup link of the invitation included (it sets the password), the
  account is still pending and owns no session: only the operator's status endpoint can let it in.\<close>

theorem invited_teammate_never_signs_in:
  assumes "invite E production F now p payload w = (Ok tok, a1, d1, st1)"
    and "fr_user F \<notin> ur_id ` set (users (fst w))" and "fr_user F \<notin> ss_user ` set (sessions (fst w))"
    and "a2 = fst (foldl (auth_step E cfg) (a1, d1) es)"
  shows "(\<forall>u\<in>set (users a2). ur_id u = fr_user F \<longrightarrow> ur_status u = ''pending'') \<and>
    fr_user F \<in> ur_id ` set (users a2) \<and> (\<forall>s\<in>set (sessions a2). ss_user s \<noteq> fr_user F)"
proof -
  have "never_live (fr_user F) (fst (foldl (auth_step E cfg) (a1, d1) es))"
    by (rule pending_mc.run_inv) (simp add: invite_never_live [OF assms(1-3)])
  then show ?thesis by (force simp: assms(4) never_live_def id_status_def)
qed

definition demo_owner :: principal where
  "demo_owner = \<lparr>pp_user = ''u'', pp_email = ''a@b.c'', pp_role = STORE_OWNER, pp_tenant = Some ''t'', pp_token_id = VNone\<rparr>"

definition demo_invite :: "string option reply \<times> plane" where
  "demo_invite = invite demo_env False demo_fresh 0 (Some demo_owner) [(''email'', VStr ''x@y.z'')] (demo_adb, empty_db, empty_store)"

lemma demo_invite_ok: "fst demo_invite = Ok (Some ''v'')"
  by (simp add: demo_invite_def invite_def demo_env_def demo_owner_def require_tenant_def Let_def pstr_clean_def pstr_def
      dict_get_or_def py_strip_def is_space_def py_lower_def lower_char_def user_by_email_def demo_adb_def demo_user_def
      setup_reply_def demo_fresh_def)

theorem invited_teammate_never_signs_in_witness:
  "list_all (\<lambda>u. ur_status u = ''pending'') (filter (\<lambda>u. ur_id u = ''u2'')
     (users (fst (foldl (auth_step demo_env demo_cfg) (fst (snd demo_invite), fst (snd (snd demo_invite)))
       [ResetConfirm demo_fresh 1 [(''token'', VStr ''v''), (''password'', VStr ''secret'')],
        Login True demo_fresh 2 [(''email'', VStr ''x@y.z''), (''password'', VStr ''secret'')]]))))"
proof -
  obtain a1 d1 st1 where i: "demo_invite = (Ok (Some ''v''), a1, d1, st1)"
    using demo_invite_ok by (metis prod.exhaust fst_conv)
  have f: "fr_user demo_fresh \<notin> ur_id ` set (users (fst (demo_adb, empty_db, empty_store)))"
    "fr_user demo_fresh \<notin> ss_user ` set (sessions (fst (demo_adb, empty_db, empty_store)))"
    by (simp_all add: demo_fresh_def demo_adb_def demo_user_def)
  have u2: "fr_user demo_fresh = ''u2''" by (simp add: demo_fresh_def)
  from invited_teammate_never_signs_in [OF i [unfolded demo_invite_def] f refl, unfolded u2]
  show ?thesis unfolding i fst_conv snd_conv list_all_iff set_filter by blast
qed

end
