(* ===== verification/Dashboard.thy ===== *)
theory Dashboard
  imports Team
begin

text \<open>
  The other store endpoints: settings (\<open>tenant_settings.py\<close>), captured leads (\<open>tenant_leads.py\<close>,
  \<open>capture_lead\<close> of \<open>packages/acip_analytics/leads.py\<close>), knowledge base (\<open>tenant_kb.py\<close>), sync
  requests (\<open>tenant_sync.py\<close>), tracking and export (\<open>tenant_governance.py\<close>), profile and widget
  (\<open>tenant.py\<close>, \<open>widget.py\<close>), credits (\<open>tenant_credits.py\<close>). Then all store endpoints as one
  machine, for the isolation of tenants.
\<close>

definition update_tenant :: "tenant \<Rightarrow> (tenant_row \<Rightarrow> tenant_row) \<Rightarrow> db \<Rightarrow> db" where
  "update_tenant t f d = d\<lparr>tenants := update_where (\<lambda>r. tn_id r = t) f (tenants d)\<rparr>"

definition tenant_row :: "tenant \<Rightarrow> db \<Rightarrow> tenant_row option" where
  "tenant_row t d = find (\<lambda>r. tn_id r = t) (tenants d)"

subsection \<open>Settings and tracking\<close>

definition settings_keys :: "string list" where
  "settings_keys =
     [''logo_url'', ''primary_color'', ''store_url'', ''platform'', ''widget_greeting'', ''position'', ''chat_enabled'',
      ''search_enabled'', ''title'', ''placeholder'', ''woo_consumer_key'', ''woo_consumer_secret'', ''oc_export_token'']"

definition update_settings :: "principal option \<Rightarrow> py_dict \<Rightarrow> plane \<Rightarrow> py_dict reply \<times> plane" where
  "update_settings p payload w =
     (let (a, d, st) = w in
      case require_tenant p of
        None \<Rightarrow> (Err 401 ''unauthenticated'', w)
      | Some q \<Rightarrow>
          if pp_role q \<noteq> STORE_OWNER then (Err 403 ''forbidden'', w)
          else
            let patch = filter (\<lambda>kv. fst kv \<in> set settings_keys) payload;
                d1 = update_tenant (tenant_of q) (\<lambda>r. r\<lparr>tn_settings := dict_update (tn_settings r) patch\<rparr>) d
            in (Ok patch, a, audit PgUp (pp_email q) ''settings.update'' (pp_tenant q) patch d1, st))"

definition set_tracking :: "principal option \<Rightarrow> py_dict \<Rightarrow> plane \<Rightarrow> bool reply \<times> plane" where
  "set_tracking p payload w =
     (let (a, d, st) = w in
      case require_tenant p of
        None \<Rightarrow> (Err 401 ''unauthenticated'', w)
      | Some q \<Rightarrow>
          if pp_role q \<noteq> STORE_OWNER then (Err 403 ''forbidden'', w)
          else
            let enabled = truthy (dict_get_or payload ''enabled'' (VBool True));
                d1 = update_tenant (tenant_of q) (\<lambda>r. r\<lparr>tn_tracking := enabled\<rparr>) d
            in (Ok enabled, a,
                audit PgUp (pp_email q) ''tenant.tracking'' (pp_tenant q) [(''enabled'', VBool enabled)] d1, st))"

definition export_data :: "principal option \<Rightarrow> store \<Rightarrow> lead_row list reply" where
  "export_data p st =
     (case require_tenant p of
        None \<Rightarrow> Err 401 ''unauthenticated''
      | Some q \<Rightarrow> Ok (filter (\<lambda>r. ld_tenant r = tenant_of q) (leads st)))"

subsection \<open>Leads\<close>

definition list_leads :: "principal option \<Rightarrow> store \<Rightarrow> lead_row list reply" where
  "list_leads p st =
     (case require_tenant p of
        None \<Rightarrow> Err 401 ''unauthenticated''
      | Some q \<Rightarrow> Ok (take 500 (rev (filter (\<lambda>r. ld_tenant r = tenant_of q) (leads st)))))"

definition lead_statuses :: "string list" where
  "lead_statuses = [''new'', ''contacted'', ''qualified'', ''won'', ''lost'']"

text \<open>The columns an update sets, in the order of the handler.\<close>

definition set_lead :: "(pyv \<Rightarrow> string) \<Rightarrow> py_dict \<Rightarrow> lead_row \<Rightarrow> lead_row" where
  "set_lead repr payload r =
     (let r1 = (case map_of payload ''status'' of None \<Rightarrow> r | Some v \<Rightarrow> r\<lparr>ld_status := py_str repr v\<rparr>)
      in case map_of payload ''notes'' of None \<Rightarrow> r1 | Some v \<Rightarrow> r1\<lparr>ld_notes := Some (py_str repr v)\<rparr>)"

definition update_lead :: "env \<Rightarrow> int \<Rightarrow> principal option \<Rightarrow> py_dict \<Rightarrow> plane \<Rightarrow> int reply \<times> plane" where
  "update_lead E i p payload w =
     (let (a, d, st) = w in
      case require_tenant p of
        None \<Rightarrow> (Err 401 ''unauthenticated'', w)
      | Some q \<Rightarrow>
          if (case map_of payload ''status'' of None \<Rightarrow> False | Some v \<Rightarrow> py_str (fst E) v \<notin> set lead_statuses)
          then (Err 422 ''invalid_request'', w)
          else if map_of payload ''status'' = None \<and> map_of payload ''notes'' = None then (Err 422 ''invalid_request'', w)
          else
            let P = (\<lambda>r. ld_id r = i \<and> ld_tenant r = tenant_of q) in
            if \<not> list_ex P (leads st) then (Err 404 ''not_found'', w)
            else (Ok i, a, d, st\<lparr>leads := update_where P (set_lead (fst E) payload) (leads st)\<rparr>))"

text \<open>\<open>capture_lead\<close>: a signal is \<open>(email, phone, has_intent)\<close>; the id is generated.\<close>

type_synonym lead_signal = "string option \<times> string option \<times> bool"

definition is_lead :: "lead_signal \<Rightarrow> bool" where
  "is_lead g = (case g of (e, ph, _) \<Rightarrow> the_or [] e \<noteq> [] \<or> the_or [] ph \<noteq> [])"

definition capture_lead :: "pool \<Rightarrow> int \<Rightarrow> tenant \<Rightarrow> lead_signal \<Rightarrow> string \<Rightarrow> store \<Rightarrow> bool \<times> store" where
  "capture_lead p i t g source st =
     (if p = NoPool \<or> \<not> is_lead g then (False, st)
      else if p = PgDown then (False, st)
      else (case g of (e, ph, intent) \<Rightarrow>
        (True, st\<lparr>leads := leads st @ [\<lparr>ld_id = i, ld_tenant = t, ld_email = e, ld_phone = ph, ld_intent = intent,
           ld_source = source, ld_status = ''new'', ld_notes = None\<rparr>]\<rparr>)))"

subsection \<open>Knowledge base\<close>

text \<open>The rows as a set: the column that orders them is not modelled.\<close>

definition kb_list :: "principal option \<Rightarrow> store \<Rightarrow> kb_row set reply" where
  "kb_list p st =
     (case require_tenant p of
        None \<Rightarrow> Err 401 ''unauthenticated''
      | Some q \<Rightarrow> Ok (set (filter (\<lambda>r. kb_tenant r = tenant_of q) (articles st))))"

definition kb_create :: "env \<Rightarrow> string \<Rightarrow> principal option \<Rightarrow> py_dict \<Rightarrow> plane \<Rightarrow> string reply \<times> plane" where
  "kb_create E i p payload w =
     (let (a, d, st) = w in
      case require_tenant p of
        None \<Rightarrow> (Err 401 ''unauthenticated'', w)
      | Some q \<Rightarrow>
          let title = py_strip (pstr E payload ''title''); body = py_strip (pstr E payload ''body'') in
          if title = [] \<or> body = [] then (Err 422 ''invalid_request'', w)
          else (Ok i, a, audit PgUp (pp_email q) ''kb.create'' (pp_tenant q) [(''title'', VStr title)] d,
                st\<lparr>articles := articles st @ [\<lparr>kb_id = i, kb_tenant = tenant_of q, kb_title = title, kb_body = body,
                   kb_published = True\<rparr>]\<rparr>))"

definition set_kb :: "(pyv \<Rightarrow> string) \<Rightarrow> py_dict \<Rightarrow> kb_row \<Rightarrow> kb_row" where
  "set_kb repr payload r =
     (let r1 = (case map_of payload ''title'' of None \<Rightarrow> r | Some v \<Rightarrow> r\<lparr>kb_title := py_strip (py_str repr v)\<rparr>);
          r2 = (case map_of payload ''body'' of None \<Rightarrow> r1 | Some v \<Rightarrow> r1\<lparr>kb_body := py_strip (py_str repr v)\<rparr>)
      in case map_of payload ''published'' of None \<Rightarrow> r2 | Some v \<Rightarrow> r2\<lparr>kb_published := truthy v\<rparr>)"

definition blank_field :: "(pyv \<Rightarrow> string) \<Rightarrow> py_dict \<Rightarrow> string \<Rightarrow> bool" where
  "blank_field repr payload k \<longleftrightarrow>
     (case map_of payload k of None \<Rightarrow> False | Some v \<Rightarrow> py_strip (py_str repr v) = [])"

definition kb_update :: "env \<Rightarrow> string \<Rightarrow> principal option \<Rightarrow> py_dict \<Rightarrow> plane \<Rightarrow> string reply \<times> plane" where
  "kb_update E i p payload w =
     (let (a, d, st) = w; repr = fst E in
      case require_tenant p of
        None \<Rightarrow> (Err 401 ''unauthenticated'', w)
      | Some q \<Rightarrow>
          if blank_field repr payload ''title'' \<or> blank_field repr payload ''body'' then (Err 422 ''invalid_request'', w)
          else if map_of payload ''title'' = None \<and> map_of payload ''body'' = None \<and> map_of payload ''published'' = None
          then (Err 422 ''invalid_request'', w)
          else if \<not> valid_uuid i then (Err 500 ''internal_error'', w)
          else
            let P = (\<lambda>r. kb_id r = i \<and> kb_tenant r = tenant_of q) in
            if \<not> list_ex P (articles st) then (Err 404 ''not_found'', w)
            else (Ok i, a,
                  audit PgUp (pp_email q) ''kb.update'' (pp_tenant q)
                    [(''id'', VStr i), (''fields'', VList (map (VStr \<circ> fst) payload))] d,
                  st\<lparr>articles := update_where P (set_kb repr payload) (articles st)\<rparr>))"

definition kb_delete :: "string \<Rightarrow> principal option \<Rightarrow> plane \<Rightarrow> string reply \<times> plane" where
  "kb_delete i p w =
     (let (a, d, st) = w in
      case require_tenant p of
        None \<Rightarrow> (Err 401 ''unauthenticated'', w)
      | Some q \<Rightarrow>
          if \<not> valid_uuid i then (Err 500 ''internal_error'', w)
          else (Ok ''deleted'', a, audit PgUp (pp_email q) ''kb.delete'' (pp_tenant q) [(''id'', VStr i)] d,
                st\<lparr>articles := filter (\<lambda>r. \<not> (kb_id r = i \<and> kb_tenant r = tenant_of q)) (articles st)\<rparr>))"

subsection \<open>Sync requests\<close>

text \<open>The upsert of \<open>sync_state\<close> on \<open>(tenant_id, source)\<close>.\<close>

definition sync_upsert :: "sync_row \<Rightarrow> (sync_row \<Rightarrow> sync_row) \<Rightarrow> sync_row list \<Rightarrow> sync_row list" where
  "sync_upsert new f rows =
     (let P = (\<lambda>r. sy_tenant r = sy_tenant new \<and> sy_source r = sy_source new)
      in if list_ex P rows then update_where P f rows else rows @ [new])"

definition sync_status :: "principal option \<Rightarrow> store \<Rightarrow> sync_row set reply" where
  "sync_status p st =
     (case require_tenant p of
        None \<Rightarrow> Err 401 ''unauthenticated''
      | Some q \<Rightarrow> Ok (set (filter (\<lambda>r. sy_tenant r = tenant_of q) (syncs st))))"

text \<open>\<open>broker_up\<close>: did \<open>reconcile_tenant.delay\<close> return.\<close>

definition sync_trigger ::
  "env \<Rightarrow> bool \<Rightarrow> real \<Rightarrow> principal option \<Rightarrow> py_dict \<Rightarrow> plane \<Rightarrow> (string \<times> string) reply \<times> plane" where
  "sync_trigger E broker_up now p payload w =
     (let (a, d, st) = w in
      case require_tenant p of
        None \<Rightarrow> (Err 401 ''unauthenticated'', w)
      | Some q \<Rightarrow>
          let source = py_lower (py_strip (py_str (fst E)
                         (py_or (dict_get_or payload ''source'' (VStr [])) (VStr ''rest'')))) in
          if source \<notin> {''opencart'', ''woocommerce'', ''rest''} then (Err 422 ''invalid_request'', w)
          else (Ok (if broker_up then ''queued'' else ''recorded'', source), a,
                audit PgUp (pp_email q) ''sync.trigger'' (pp_tenant q)
                  [(''source'', VStr source), (''queued'', VBool broker_up)] d,
                st\<lparr>syncs := sync_upsert
                   \<lparr>sy_tenant = tenant_of q, sy_source = source, sy_watermark = None, sy_last_run = Some now,
                    sy_status = Some ''queued''\<rparr>
                   (\<lambda>r. r\<lparr>sy_last_run := Some now, sy_status := Some ''queued''\<rparr>) (syncs st)\<rparr>))"

end
