(* ===== verification/Widget.thy ===== *)
theory Widget
  imports Dashboard
begin

text \<open>
  What a store sees of itself: \<open>tenant.py\<close> (profile, widget install information), the widget's
  resolved configuration (\<open>widget.py\<close>) and \<open>tenant_credits.py\<close>. The loader script is a file and is
  left out. \<open>json_loads\<close> is the parser of a stored text, a parameter.
\<close>

definition platform_defaults :: py_dict where
  "platform_defaults =
     [(''primary_color'', VStr ''#1A7A4B''), (''chat_enabled'', VBool True), (''search_enabled'', VBool True),
      (''position'', VStr ''bottom-right''), (''max_results'', VInt 12),
      (''greeting'', VStr ([CHR 0xD8, CHR 0xB3, CHR 0xD9, CHR 0x84, CHR 0xD8, CHR 0xA7, CHR 0xD9, CHR 0x85] @ ''! '' @ [CHR 0xDA,
      CHR 0x86, CHR 0xD8, CHR 0xB7, CHR 0xD9, CHR 0x88, CHR 0xD8, CHR 0xB1] @ '' '' @ [CHR 0xD9, CHR 0x85, CHR
      0xDB, CHR 0x8C, CHR 0xE2, CHR 0x80, CHR 0x8C, CHR 0xD8, CHR 0xAA, CHR 0xD9, CHR 0x88, CHR 0xD9, CHR 0x86,
      CHR 0xD9, CHR 0x85] @ '' '' @ [CHR 0xD8, CHR 0xAF, CHR 0xD8, CHR 0xB1] @ '' '' @ [CHR 0xD9, CHR 0xBE, CHR
      0xDB, CHR 0x8C, CHR 0xD8, CHR 0xAF, CHR 0xD8, CHR 0xA7] @ '' '' @ [CHR 0xDA, CHR 0xA9, CHR 0xD8, CHR
      0xB1, CHR 0xD8, CHR 0xAF, CHR 0xD9, CHR 0x86] @ '' '' @ [CHR 0xD9, CHR 0x85, CHR 0xD8, CHR 0xAD, CHR
      0xD8, CHR 0xB5, CHR 0xD9, CHR 0x88, CHR 0xD9, CHR 0x84] @ '' '' @ [CHR 0xDA, CHR 0xA9, CHR 0xD9, CHR
      0x85, CHR 0xDA, CHR 0xA9, CHR 0xD8, CHR 0xAA, CHR 0xD9, CHR 0x88, CHR 0xD9, CHR 0x86] @ '' '' @ [CHR
      0xDA, CHR 0xA9, CHR 0xD9, CHR 0x86, CHR 0xD9, CHR 0x85, CHR 0xD8, CHR 0x9F]))]"

definition tenant_widget_keys :: "string list" where
  "tenant_widget_keys =
     [''primary_color'', ''logo_url'', ''greeting'', ''position'', ''title'', ''placeholder'', ''chat_enabled'', ''search_enabled'']"

text \<open>The operator's defaults: absent, unreadable or of another type than a dictionary, they change nothing.
  (A stored text is the value it encodes; \<open>dict.update\<close> of a number raises \<open>TypeError\<close>.)\<close>

definition global_defaults :: "('r, 'x) redis_scheme option \<Rightarrow> 'r \<Rightarrow> py_dict" where
  "global_defaults redis s =
     (case redis of
        None \<Rightarrow> []
      | Some R \<Rightarrow> (case rd_get R ''widget:global_defaults'' s of Inr (Some (VDict d)) \<Rightarrow> d | _ \<Rightarrow> []))"

text \<open>The settings row: absent settings are the empty dictionary.\<close>

definition store_settings :: "tenant \<Rightarrow> db \<Rightarrow> py_dict" where
  "store_settings t d = (case tenant_row t d of None \<Rightarrow> [] | Some r \<Rightarrow> tn_settings r)"

definition overlay_key :: "py_dict \<Rightarrow> string \<Rightarrow> py_dict \<Rightarrow> py_dict" where
  "overlay_key settings k config =
     (let v = dict_get settings k in if v = VNone \<or> v = VStr [] then config else dict_set k v config)"

definition overlay :: "py_dict \<Rightarrow> py_dict \<Rightarrow> py_dict" where
  "overlay settings config =
     (let g = dict_get settings ''widget_greeting'';
          c1 = (if truthy g then dict_set ''greeting'' g config else config)
      in fold (overlay_key settings) tenant_widget_keys c1)"

definition widget_config ::
  "crypto \<Rightarrow> ('r, 'x) redis_scheme option \<Rightarrow> string option \<Rightarrow> db \<Rightarrow> store \<Rightarrow> 'r \<Rightarrow> py_dict" where
  "widget_config C redis api_key d st s =
     (let p = resolve_principal C api_key st in
      if the_or [] (ap_tenant p) = [] \<or> \<not> principal_allowed p [WIDGET] then platform_defaults
      else overlay (store_settings (the_or [] (ap_tenant p)) d)
             (dict_update platform_defaults (global_defaults redis s)))"

text \<open>\<open>widget_embed\<close>: the store is \<open>ready\<close> when it is approved and has a live widget key.\<close>

record embed_info =
  em_status :: string
  em_approved :: bool
  em_has_key :: bool
  em_ready :: bool
  em_settings :: py_dict

definition widget_embed :: "principal option \<Rightarrow> db \<Rightarrow> store \<Rightarrow> embed_info reply" where
  "widget_embed p d st =
     (case require_tenant p of
        None \<Rightarrow> Err 401 ''unauthenticated''
      | Some q \<Rightarrow>
          let t = tenant_of q;
              has_key = list_ex (\<lambda>r. ky_tenant r = t \<and> ky_scope r = WIDGET \<and> \<not> ky_revoked r) (keys st);
              status = (case tenant_row t d of None \<Rightarrow> ''pending'' | Some r \<Rightarrow> tn_status r)
          in Ok \<lparr>em_status = status, em_approved = (status = ''active''), em_has_key = has_key,
                 em_ready = (status = ''active'' \<and> has_key), em_settings = store_settings t d\<rparr>)"

record profile_info =
  pf_slug :: string
  pf_name :: string
  pf_status :: string
  pf_plan :: "plan_row option"
  pf_sub_status :: string
  pf_period_end :: "real option"
  pf_tracking :: bool
  pf_settings :: py_dict
  pf_verified :: bool
  pf_usage :: "real \<times> real"
  pf_credits :: plan_status
  pf_role :: role

definition profile ::
  "(real \<Rightarrow> real) \<Rightarrow> real \<Rightarrow> principal option \<Rightarrow> adb \<times> db \<Rightarrow> profile_info reply" where
  "profile trunc_month now p w =
     (let (a, d) = w in
      case require_tenant p of
        None \<Rightarrow> Err 401 ''unauthenticated''
      | Some q \<Rightarrow>
          let t = tenant_of q; sub = find (\<lambda>s. sb_tenant s = t) (subs d) in
          case tenant_row t d of
            None \<Rightarrow> Err 404 ''not_found''
          | Some r \<Rightarrow> Ok
              \<lparr>pf_slug = tn_slug r, pf_name = tn_name r, pf_status = tn_status r,
               pf_plan = (case sub of None \<Rightarrow> None | Some s \<Rightarrow> plan_by_id (sb_plan s) d),
               pf_sub_status = (case sub of None \<Rightarrow> ''none'' | Some s \<Rightarrow> sb_status s),
               pf_period_end = (case sub of None \<Rightarrow> None | Some s \<Rightarrow> sb_period_end s),
               pf_tracking = tn_tracking r, pf_settings = tn_settings r,
               pf_verified = (case user_by_id (pp_user q) a of None \<Rightarrow> False | Some u \<Rightarrow> ur_verified u),
               pf_usage = usage_summary PgUp t d, pf_credits = plan_status PgUp trunc_month now t d, pf_role = pp_role q\<rparr>)"

text \<open>\<open>credits\<close> and \<open>tenant_audit\<close>: the newest hundred rows.\<close>

definition credits ::
  "(real \<Rightarrow> real) \<Rightarrow> real \<Rightarrow> principal option \<Rightarrow> db \<Rightarrow> ((real \<times> real) \<times> plan_status \<times> ledger_row list) reply" where
  "credits trunc_month now p d =
     (case require_tenant p of
        None \<Rightarrow> Err 401 ''unauthenticated''
      | Some q \<Rightarrow>
          let t = tenant_of q in
          Ok (usage_summary PgUp t d, plan_status PgUp trunc_month now t d, take 100 (rev (tenant_rows t d))))"

definition tenant_audit :: "principal option \<Rightarrow> db \<Rightarrow> audit_row list reply" where
  "tenant_audit p d =
     (case require_tenant p of
        None \<Rightarrow> Err 401 ''unauthenticated''
      | Some q \<Rightarrow> Ok (take 100 (rev (filter (\<lambda>r. au_tenant r = Some (tenant_of q)) (audit_log d)))))"

end
