(* ===== verification/Isolation.thy ===== *)
theory Isolation
  imports Widget
begin

text \<open>
  The endpoints of the store dashboard as one machine (\<open>tenant_*.py\<close>): what a request of one tenant
  can change, and who stays able to run the store. \<open>tenant_common.py\<close> promises that a store user
  touches only the tenant of its principal.
\<close>

subsection \<open>The machine\<close>

datatype store_event =
    CreateKey string string "principal option" py_dict
  | RevokeKey string "principal option"
  | Invite bool fresh real "principal option" py_dict
  | Resend bool fresh real "principal option" py_dict
  | TeamRole "principal option" py_dict
  | TeamRemove "principal option" py_dict
  | UpdateSettings "principal option" py_dict
  | SetTracking "principal option" py_dict
  | UpdateLead int "principal option" py_dict
  | KbCreate string "principal option" py_dict
  | KbUpdate string "principal option" py_dict
  | KbDelete string "principal option"
  | SyncTrigger bool real "principal option" py_dict

fun ev_principal :: "store_event \<Rightarrow> principal option" where
  "ev_principal (CreateKey i raw p pay) = p"
| "ev_principal (RevokeKey i p) = p"
| "ev_principal (Invite pr F now p pay) = p"
| "ev_principal (Resend pr F now p pay) = p"
| "ev_principal (TeamRole p pay) = p"
| "ev_principal (TeamRemove p pay) = p"
| "ev_principal (UpdateSettings p pay) = p"
| "ev_principal (SetTracking p pay) = p"
| "ev_principal (UpdateLead i p pay) = p"
| "ev_principal (KbCreate i p pay) = p"
| "ev_principal (KbUpdate i p pay) = p"
| "ev_principal (KbDelete i p) = p"
| "ev_principal (SyncTrigger b now p pay) = p"

text \<open>The primary key refuses a user id that exists, so an invitation with a used id is no step.\<close>

fun store_step :: "env \<Rightarrow> plane \<Rightarrow> store_event \<Rightarrow> plane" where
  "store_step E w (CreateKey i raw p pay) = snd (create_key E i raw p pay w)"
| "store_step E w (RevokeKey i p) = snd (revoke_key i p w)"
| "store_step E w (Invite pr F now p pay) =
     (if fr_user F \<in> ur_id ` set (users (fst w)) then w else snd (invite E pr F now p pay w))"
| "store_step E w (Resend pr F now p pay) = snd (resend_invite E pr F now p pay w)"
| "store_step E w (TeamRole p pay) = snd (team_role E p pay w)"
| "store_step E w (TeamRemove p pay) = snd (team_remove E p pay w)"
| "store_step E w (UpdateSettings p pay) = snd (update_settings p pay w)"
| "store_step E w (SetTracking p pay) = snd (set_tracking p pay w)"
| "store_step E w (UpdateLead i p pay) = snd (update_lead E i p pay w)"
| "store_step E w (KbCreate i p pay) = snd (kb_create E i p pay w)"
| "store_step E w (KbUpdate i p pay) = snd (kb_update E i p pay w)"
| "store_step E w (KbDelete i p) = snd (kb_delete i p w)"
| "store_step E w (SyncTrigger b now p pay) = snd (sync_trigger E b now p pay w)"

definition touches_tenant :: "store_event \<Rightarrow> tenant \<Rightarrow> bool" where
  "touches_tenant e t \<longleftrightarrow> (\<exists>q. require_tenant (ev_principal e) = Some q \<and> pp_tenant q = Some t)"

definition unique_ids :: "plane \<Rightarrow> bool" where
  "unique_ids w \<longleftrightarrow> distinct (map ur_id (users (fst w)))"

text \<open>Everything the tables hold of a tenant, the credentials of its users included.\<close>

definition owns_user :: "tenant \<Rightarrow> user_row list \<Rightarrow> string \<Rightarrow> bool" where
  "owns_user t us i \<longleftrightarrow> (\<exists>u\<in>set us. ur_id u = i \<and> ur_tenant u = Some t)"

record tenant_view =
  tv_users :: "user_row list"
  tv_sessions :: "session_row list"
  tv_resets :: "once_row list"
  tv_verifs :: "once_row list"
  tv_row :: "tenant_row list"
  tv_keys :: "key_row list"
  tv_invites :: "invite_row list"
  tv_leads :: "lead_row list"
  tv_articles :: "kb_row list"
  tv_syncs :: "sync_row list"

definition tenant_view :: "tenant \<Rightarrow> plane \<Rightarrow> tenant_view" where
  "tenant_view t w =
     (let (a, d, st) = w in
      \<lparr>tv_users = filter (\<lambda>u. ur_tenant u = Some t) (users a),
       tv_sessions = filter (\<lambda>s. owns_user t (users a) (ss_user s)) (sessions a),
       tv_resets = filter (\<lambda>r. owns_user t (users a) (on_user r)) (resets a),
       tv_verifs = filter (\<lambda>r. owns_user t (users a) (on_user r)) (verifs a),
       tv_row = filter (\<lambda>r. tn_id r = t) (tenants d),
       tv_keys = filter (\<lambda>r. ky_tenant r = t) (keys st),
       tv_invites = filter (\<lambda>r. in_tenant r = t) (invites st),
       tv_leads = filter (\<lambda>r. ld_tenant r = t) (leads st),
       tv_articles = filter (\<lambda>r. kb_tenant r = t) (articles st),
       tv_syncs = filter (\<lambda>r. sy_tenant r = t) (syncs st)\<rparr>)"

lemma tenant_view_rows:
  "tenant_view t (a, d, st) =
     \<lparr>tv_users = filter (\<lambda>u. ur_tenant u = Some t) (users a),
      tv_sessions = filter (\<lambda>s. owns_user t (users a) (ss_user s)) (sessions a),
      tv_resets = filter (\<lambda>r. owns_user t (users a) (on_user r)) (resets a),
      tv_verifs = filter (\<lambda>r. owns_user t (users a) (on_user r)) (verifs a),
      tv_row = filter (\<lambda>r. tn_id r = t) (tenants d),
      tv_keys = filter (\<lambda>r. ky_tenant r = t) (keys st),
      tv_invites = filter (\<lambda>r. in_tenant r = t) (invites st),
      tv_leads = filter (\<lambda>r. ld_tenant r = t) (leads st),
      tv_articles = filter (\<lambda>r. kb_tenant r = t) (articles st),
      tv_syncs = filter (\<lambda>r. sy_tenant r = t) (syncs st)\<rparr>"
  by (simp add: tenant_view_def)

lemma owns_user_users:
  "filter (\<lambda>u. ur_tenant u = Some t) us' = filter (\<lambda>u. ur_tenant u = Some t) us \<Longrightarrow> owns_user t us' = owns_user t us"
  unfolding owns_user_def by (rule ext) (metis (mono_tags, lifting) mem_Collect_eq set_filter)

text \<open>The rows of the tables that an endpoint of another tenant rewrites.\<close>

lemma own_rows_frame:
  assumes "require_tenant p = Some q" "pp_tenant q \<noteq> Some t"
  shows "filter (\<lambda>u. ur_tenant u = Some t) (update_where (member email q) (\<lambda>u. u\<lparr>ur_role := role\<rparr>) us)
       = filter (\<lambda>u. ur_tenant u = Some t) us"
    and "tenant_of q \<noteq> t"
proof -
  from assms obtain t' where t': "pp_tenant q = Some t'" "t' \<noteq> t"
    by (auto dest!: require_tenant_some)
  then show "filter (\<lambda>u. ur_tenant u = Some t) (update_where (member email q) (\<lambda>u. u\<lparr>ur_role := role\<rparr>) us)
       = filter (\<lambda>u. ur_tenant u = Some t) us"
    by (intro filter_update_where_frame) (auto simp: member_def)
  show "tenant_of q \<noteq> t" using t' by (simp add: tenant_of_def)
qed

lemma update_tenant_frame:
  "t' \<noteq> t \<Longrightarrow> (\<And>r. tn_id (f r) = tn_id r) \<Longrightarrow>
   filter (\<lambda>r. tn_id r = t) (tenants (update_tenant t' f d)) = filter (\<lambda>r. tn_id r = t) (tenants d)"
  by (auto simp: update_tenant_def intro!: filter_update_where_frame)

lemma insert_setup_frame [simp]:
  "users (insert_setup C F i now a) = users a" "sessions (insert_setup C F i now a) = sessions a"
  "verifs (insert_setup C F i now a) = verifs a"
  by (simp_all add: insert_setup_def)

lemma filter_notin: "(\<And>x. x \<in> set xs \<Longrightarrow> Q x \<Longrightarrow> P x) \<Longrightarrow> filter Q (filter P xs) = filter Q xs"
  by (induction xs) auto

lemma invite_frame:
  assumes "require_tenant p = Some q" "pp_tenant q \<noteq> Some t" "fr_user F \<notin> ur_id ` set (users (fst w))"
  shows "tenant_view t (snd (invite E pr F now p pay w)) = tenant_view t w"
proof -
  obtain repr U C a d st where e: "E = (repr, U, C)" "w = (a, d, st)" by (cases E; cases w)
  have owns: "owns_user t (us @ [u]) = owns_user t us" if "ur_tenant u \<noteq> Some t" for u us
    using that by (intro owns_user_users) simp
  have new: "\<not> owns_user t (users a) (fr_user F)" using assms(3) e by (force simp: owns_user_def)
  have "tenant_of q \<noteq> t" using own_rows_frame(2) [OF assms(1,2)] .
  with assms(1,2) new show ?thesis
    by (simp add: invite_def e Let_def tenant_view_rows owns) (simp add: insert_setup_def)
qed

lemma not_owner:
  assumes "distinct (map ur_id us)" "u \<in> set us" "ur_tenant u \<noteq> Some t"
  shows "\<not> owns_user t us (ur_id u)"
  using assms by (auto simp: owns_user_def distinct_map dest: inj_onD)

lemma resend_frame:
  assumes "require_tenant p = Some q" "pp_tenant q \<noteq> Some t" "unique_ids w"
  shows "tenant_view t (snd (resend_invite E pr F now p pay w)) = tenant_view t w"
proof -
  obtain repr U C a d st where e: "E = (repr, U, C)" "w = (a, d, st)" by (cases E; cases w)
  show ?thesis
  proof (cases "find (\<lambda>u. py_lower (ur_email u) = pstr_clean E pay ''email'' \<and> ur_tenant u = pp_tenant q \<and>
      ur_status u = ''pending'') (users a)")
    case None
    with assms(1) show ?thesis by (simp add: resend_invite_def e Let_def)
  next
    case (Some u)
    with assms have no: "\<not> owns_user t (users a) (ur_id u)"
      by (intro not_owner) (auto dest: find_SomeD simp: unique_ids_def e)
    have "filter (\<lambda>r. owns_user t (users a) (on_user r))
        (update_where (\<lambda>r. on_user r = ur_id u \<and> \<not> on_used r) (\<lambda>r. r\<lparr>on_used := True\<rparr>) (resets a))
      = filter (\<lambda>r. owns_user t (users a) (on_user r)) (resets a)"
      using no by (intro filter_update_where_frame) auto
    with Some no assms(1) show ?thesis
      by (simp add: resend_invite_def e Let_def tenant_view_rows) (simp add: insert_setup_def)
  qed
qed

lemma team_role_frame:
  assumes "require_tenant p = Some q" "pp_tenant q \<noteq> Some t"
  shows "tenant_view t (snd (team_role E p pay w)) = tenant_view t w"
proof -
  obtain a d st where w: "w = (a, d, st)" by (cases w)
  have us: "filter (\<lambda>u. ur_tenant u = Some t) (update_where (member email q) (\<lambda>u. u\<lparr>ur_role := role\<rparr>) (users a))
      = filter (\<lambda>u. ur_tenant u = Some t) (users a)" for email role
    using own_rows_frame(1) [OF assms] .
  then have "owns_user t (update_where (member email q) (\<lambda>u. u\<lparr>ur_role := role\<rparr>) (users a)) = owns_user t (users a)"
    for email role by (intro owns_user_users)
  with us assms(1) show ?thesis by (simp add: team_role_def w Let_def tenant_view_rows)
qed

lemma delete_users_frame:
  assumes "distinct (map ur_id (users a))" "\<And>u. P u \<Longrightarrow> ur_tenant u \<noteq> Some t"
  shows "tenant_view t (delete_users P a, d, st) = tenant_view t (a, d, st)"
proof -
  have us: "filter (\<lambda>u. ur_tenant u = Some t) (filter (\<lambda>u. \<not> P u) (users a)) = filter (\<lambda>u. ur_tenant u = Some t) (users a)"
    using assms(2) by (intro filter_notin) auto
  then have ow: "owns_user t (filter (\<lambda>u. \<not> P u) (users a)) = owns_user t (users a)"
    by (rule owns_user_users)
  have kept: "x \<notin> ur_id ` {u \<in> set (users a). P u}" if "owns_user t (users a) x" for x
    using not_owner [OF assms(1)] that assms(2) by auto
  have gone: "filter (\<lambda>s. owns_user t (users a) (ss_user s)) (filter (\<lambda>s. ss_user s \<notin> ur_id ` {u \<in> set (users a). P u}) ss)
      = filter (\<lambda>s. owns_user t (users a) (ss_user s)) ss"
    "filter (\<lambda>s. owns_user t (users a) (on_user s)) (filter (\<lambda>s. on_user s \<notin> ur_id ` {u \<in> set (users a). P u}) os)
      = filter (\<lambda>s. owns_user t (users a) (on_user s)) os" for ss os
    using kept by (intro filter_notin; blast)+
  from us ow show ?thesis
    by (simp add: tenant_view_rows delete_users_def Let_def del: filter_filter) (intro conjI gone)
qed

lemma team_remove_frame:
  assumes "require_tenant p = Some q" "pp_tenant q \<noteq> Some t" "unique_ids w"
  shows "tenant_view t (snd (team_remove E p pay w)) = tenant_view t w"
proof -
  obtain a d st where w: "w = (a, d, st)" by (cases w)
  have "tenant_view t (delete_users (\<lambda>u. member email q u \<and> ur_role u \<noteq> ''platform_admin'') a, d', st)
      = tenant_view t (a, d', st)" for email d'
    using assms by (intro delete_users_frame) (auto simp: unique_ids_def w member_def)
  moreover have "tenant_view t (a, audit PgUp x y z v d, st) = tenant_view t (a, d, st)" for x y z v
    by (simp add: tenant_view_rows)
  ultimately show ?thesis using assms(1) by (simp add: team_remove_def w Let_def)
qed

lemmas plain_endpoints = create_key_def revoke_key_def revoke_keys_def insert_key_def update_settings_def set_tracking_def
  update_lead_def kb_create_def kb_update_def kb_delete_def sync_trigger_def

lemma sync_upsert_frame:
  "sy_tenant new \<noteq> t \<Longrightarrow> (\<And>r. sy_tenant (f r) = sy_tenant r) \<Longrightarrow>
   filter (\<lambda>r. sy_tenant r = t) (sync_upsert new f rows) = filter (\<lambda>r. sy_tenant r = t) rows"
  by (auto simp: sync_upsert_def Let_def intro!: filter_update_where_frame)

lemma set_lead_tenant [simp]: "ld_tenant (set_lead repr pay r) = ld_tenant r"
  by (simp add: set_lead_def Let_def split: option.splits)

lemma set_kb_tenant [simp]: "kb_tenant (set_kb repr pay r) = kb_tenant r"
  by (simp add: set_kb_def Let_def split: option.splits)

lemma store_step_frame:
  assumes "unique_ids w" "\<not> touches_tenant e t"
  shows "tenant_view t (store_step E w e) = tenant_view t w"
proof (cases "require_tenant (ev_principal e)")
  case None
  then show ?thesis
    by (cases e; cases w; cases E)
      (simp_all add: plain_endpoints invite_def resend_invite_def team_role_def team_remove_def Let_def)
next
  case (Some q)
  with assms(2) have t: "pp_tenant q \<noteq> Some t" by (simp add: touches_tenant_def)
  note fr = own_rows_frame(2) [OF Some t]
  obtain a d st where w: "w = (a, d, st)" by (cases w)
  obtain repr U C where E: "E = (repr, U, C)" by (cases E)
  have keys_frame: "filter (\<lambda>r. ky_tenant r = t)
      (update_where (\<lambda>r. ky_id r = i \<and> ky_tenant r = tenant_of q) (\<lambda>r. r\<lparr>ky_revoked := True\<rparr>) (keys st))
    = filter (\<lambda>r. ky_tenant r = t) (keys st)" for i
    using fr by (intro filter_update_where_frame) auto
  have leads_frame: "filter (\<lambda>r. ld_tenant r = t)
      (update_where (\<lambda>r. ld_id r = i \<and> ld_tenant r = tenant_of q) (set_lead repr pay) (leads st))
    = filter (\<lambda>r. ld_tenant r = t) (leads st)" for i pay
    using fr by (intro filter_update_where_frame) auto
  have kb_frame: "filter (\<lambda>r. kb_tenant r = t)
      (update_where (\<lambda>r. kb_id r = i \<and> kb_tenant r = tenant_of q) (set_kb repr pay) (articles st))
    = filter (\<lambda>r. kb_tenant r = t) (articles st)" for i pay
    using fr by (intro filter_update_where_frame) auto
  have kb_del: "filter (\<lambda>r. kb_tenant r = t) (filter (\<lambda>r. kb_id r = i \<longrightarrow> kb_tenant r \<noteq> tenant_of q) (articles st))
    = filter (\<lambda>r. kb_tenant r = t) (articles st)" for i
    using fr by (intro filter_notin) auto
  show ?thesis
  proof (cases e)
    case (Invite pr F now p pay)
    with Some t invite_frame [of p q t F w E pr now pay] show ?thesis by simp
  next
    case (Resend pr F now p pay)
    with Some t assms(1) resend_frame [of p q t w E pr F now pay] show ?thesis by simp
  next
    case (TeamRole p pay)
    with Some t team_role_frame [of p q t E pay w] show ?thesis by simp
  next
    case (TeamRemove p pay)
    with Some t assms(1) team_remove_frame [of p q t w E pay] show ?thesis by simp
  next
    case (KbDelete i p)
    with Some show ?thesis
      by (simp add: kb_delete_def w tenant_view_rows kb_del del: filter_filter)
  next
    case (CreateKey i raw p pay)
    with Some fr show ?thesis
      by (simp add: create_key_def insert_key_def w E tenant_view_rows Let_def )
  next
    case (RevokeKey i p)
    with Some fr show ?thesis
      by (simp add: revoke_key_def revoke_keys_def w E tenant_view_rows Let_def keys_frame)
  next
    case (UpdateSettings p pay)
    with Some fr show ?thesis
      by (simp add: update_settings_def w E tenant_view_rows Let_def update_tenant_frame)
  next
    case (SetTracking p pay)
    with Some fr show ?thesis
      by (simp add: set_tracking_def w E tenant_view_rows Let_def update_tenant_frame)
  next
    case (UpdateLead i p pay)
    with Some fr show ?thesis
      by (simp add: update_lead_def w E tenant_view_rows Let_def leads_frame)
  next
    case (KbCreate i p pay)
    with Some fr show ?thesis
      by (simp add: kb_create_def w E tenant_view_rows Let_def )
  next
    case (KbUpdate i p pay)
    with Some fr show ?thesis
      by (simp add: kb_update_def w E tenant_view_rows Let_def kb_frame)
  next
    case (SyncTrigger b now p pay)
    with Some fr show ?thesis
      by (simp add: sync_trigger_def w E tenant_view_rows Let_def sync_upsert_frame)
  qed
qed

lemma store_step_ids: "unique_ids w \<Longrightarrow> unique_ids (store_step E w e)"
proof -
  assume d: "unique_ids w"
  obtain a db st where w: "w = (a, db, st)" by (cases w)
  obtain repr U C where E: "E = (repr, U, C)" by (cases E)
  have upd: "map ur_id (update_where P (\<lambda>u. u\<lparr>ur_role := r\<rparr>) us) = map ur_id us" for P r us
    by (induction us) auto
  show ?thesis
    using d unfolding unique_ids_def w E
    by (cases e)
      (auto simp: plain_endpoints invite_def resend_invite_def team_role_def team_remove_def Let_def insert_setup_def
        delete_users_def upd distinct_map_filter split: option.splits)
qed

interpretation store_mc: framed_machine "store_step E" unique_ids tenant_view touches_tenant for E
  by unfold_locales (simp_all add: store_step_ids store_step_frame)

subsection \<open>Properties\<close>


definition key1 :: string where "key1 = ''00000000000000000000000000000001''"
definition key2 :: string where "key2 = ''00000000000000000000000000000002''"

lemma key_ids [simp]: "valid_uuid key1" "valid_uuid key2" "key1 \<noteq> key2"
  by (simp_all add: valid_uuid_def key1_def key2_def strip_chars_def is_hex_digit_def is_digit_def Let_def)

definition demo_keys :: "key_row list" where
  "demo_keys = [\<lparr>ky_id = key1, ky_tenant = ''t'', ky_hash = ''h1'', ky_scope = WIDGET, ky_label = ''a'', ky_revoked = False\<rparr>,
     \<lparr>ky_id = key2, ky_tenant = ''t2'', ky_hash = ''h2'', ky_scope = SYNC, ky_label = ''b'', ky_revoked = False\<rparr>]"

definition demo_plane :: plane where
  "demo_plane = (demo_adb, empty_db, empty_store\<lparr>keys := demo_keys\<rparr>)"

definition demo_attack :: "store_event list" where
  "demo_attack = [RevokeKey key2 (Some demo_owner), RevokeKey key1 (Some demo_owner)]"


text \<open>The acting principal is an owner in the database too, under the e-mail its token carries.\<close>

definition fresh_owner :: "principal \<Rightarrow> adb \<Rightarrow> bool" where
  "fresh_owner q a \<longleftrightarrow> list_ex (\<lambda>u. ur_id u = pp_user q \<and> py_lower (ur_email u) = pp_email q \<and>
     ur_role u = ''store_owner'' \<and> ur_tenant u = pp_tenant q) (users a)"

text \<open>A store is not left without an owner by its own team endpoints: after any request of a principal that
  the database knows as owner under the e-mail of its token, that owner is still there, as owner and under
  the same e-mail.\<close>

theorem acting_owner_survives:
  assumes "require_tenant (ev_principal e) = Some q" and "fresh_owner q (fst w)"
  shows "fresh_owner q (fst (store_step E w e))"
proof -
  obtain a d st where w: "w = (a, d, st)" by (cases w)
  obtain repr U C where E: "E = (repr, U, C)" by (cases E)
  from assms(2) obtain u where u: "u \<in> set (users a)" "ur_id u = pp_user q" "py_lower (ur_email u) = pp_email q"
      "ur_role u = ''store_owner''" "ur_tenant u = pp_tenant q"
    by (auto simp: fresh_owner_def list_ex_iff w)
  have keeps: "fresh_owner q b" if "u \<in> set (users b)" for b
    using that u by (auto simp: fresh_owner_def list_ex_iff)
  have same: "fresh_owner q a" using keeps u(1) by blast
  show ?thesis
  proof (cases e)
    case (TeamRole p pay)
    have "fresh_owner q (a\<lparr>users := update_where (member email q) f (users a)\<rparr>)" if "email \<noteq> pp_email q" for email f
      using that u by (intro keeps) (auto simp: set_update_where member_def image_iff intro!: bexI [of _ u])
    then show ?thesis using assms(1) same by (simp add: TeamRole team_role_def w E Let_def)
  next
    case (TeamRemove p pay)
    have "fresh_owner q (delete_users (\<lambda>u. member email q u \<and> ur_role u \<noteq> ''platform_admin'') a)"
      if "email \<noteq> pp_email q" for email
      using that u by (intro keeps) (auto simp: delete_users_def Let_def member_def)
    then show ?thesis using assms(1) same by (simp add: TeamRemove team_remove_def w E Let_def)
  next
    case (Invite pr F now p pay)
    have "fresh_owner q (send_mail x y z (insert_setup C F i now (a\<lparr>users := users a @ [v]\<rparr>)))" for x y z i v
      by (rule keeps) (simp add: u(1))
    then show ?thesis using assms(1) same by (simp add: Invite invite_def w E Let_def)
  next
    case (Resend pr F now p pay)
    have "fresh_owner q (send_mail x y z (insert_setup C F i now (a\<lparr>resets := rs\<rparr>)))" for x y z i rs
      by (rule keeps) (simp add: u(1))
    then show ?thesis using assms(1) same by (auto simp: Resend resend_invite_def w E Let_def split: option.splits)
  qed (use assms(1) same in \<open>simp_all add: plain_endpoints w E Let_def\<close>)
qed

theorem acting_owner_survives_witness:
  "fresh_owner demo_owner (fst (store_step demo_env demo_plane
     (TeamRemove (Some demo_owner) [(''email'', VStr ''a@b.c'')])))"
proof -
  have "require_tenant (ev_principal (TeamRemove (Some demo_owner) [(''email'', VStr ''a@b.c'')])) = Some demo_owner"
    by (simp add: require_tenant_def demo_owner_def)
  moreover have "fresh_owner demo_owner (fst demo_plane)"
    by (simp add: fresh_owner_def demo_owner_def demo_plane_def demo_adb_def demo_user_def py_lower_def lower_char_def)
  ultimately show ?thesis by (rule acting_owner_survives)
qed

text \<open>After a change of e-mail the old access token still names the old address: the same owner passes the
  self-removal test and deletes its own, last owner account.\<close>

lemma stale_owner_removes_itself:
  assumes "demo_stale = demo_owner\<lparr>pp_email := ''old@b.c''\<rparr>"
  shows "users (fst (store_step demo_env demo_plane (TeamRemove (Some demo_stale) [(''email'', VStr ''a@b.c'')]))) = []"
  by (simp add: assms team_remove_def demo_plane_def demo_adb_def demo_user_def demo_owner_def require_tenant_def pstr_clean_def
      pstr_def dict_get_or_def py_strip_def is_space_def py_lower_def lower_char_def member_def delete_users_def Let_def
      demo_env_def)

definition key_dead :: "string \<Rightarrow> store \<Rightarrow> bool" where
  "key_dead h st \<longleftrightarrow> list_all (\<lambda>r. ky_hash r = h \<longrightarrow> ky_revoked r) (keys st)"

definition makes_key :: "env \<Rightarrow> string \<Rightarrow> store_event \<Rightarrow> bool" where
  "makes_key E h e \<longleftrightarrow> (case e of CreateKey i raw p pay \<Rightarrow> hash_key (snd (snd E)) (''acip_'' @ raw) = h | _ \<Rightarrow> False)"

lemma key_dead_cong: "keys st = keys st' \<Longrightarrow> key_dead h st = key_dead h st'"
  by (simp add: key_dead_def)

lemma key_dead_revoke: "key_dead h st \<Longrightarrow> key_dead h (revoke_keys i t st)"
  by (auto simp: key_dead_def revoke_keys_def list_all_iff set_update_where)

lemma other_endpoints_keep_keys:
  assumes "case e of CreateKey i raw p pay \<Rightarrow> False | RevokeKey i p \<Rightarrow> False | _ \<Rightarrow> True"
  shows "keys (snd (snd (store_step E (a, d, st) e))) = keys st"
proof -
  obtain repr U C where E: "E = (repr, U, C)" by (cases E)
  show ?thesis
    using assms
    by (cases e)
      (simp_all add: E invite_def resend_invite_def team_role_def team_remove_def update_settings_def set_tracking_def
        update_lead_def kb_create_def kb_update_def kb_delete_def sync_trigger_def Let_def split: option.split)
qed

lemma key_dead_step:
  assumes "key_dead h (snd (snd w))" and "\<not> makes_key E h e"
  shows "key_dead h (snd (snd (store_step E w e)))"
proof -
  obtain a d st where w: "w = (a, d, st)" by (cases w)
  obtain repr U C where E: "E = (repr, U, C)" by (cases E)
  from assms(1) have k: "key_dead h st" by (simp add: w)
  show ?thesis
  proof (cases e)
    case (CreateKey i raw p pay)
    have "key_dead h (insert_key r st)" if "ky_hash r \<noteq> h" for r
      using that k by (simp add: key_dead_def insert_key_def)
    with k assms(2) show ?thesis
      by (simp add: CreateKey w E create_key_def Let_def makes_key_def split: option.split)
  next
    case (RevokeKey i p)
    with k show ?thesis by (simp add: w revoke_key_def key_dead_revoke Let_def split: option.split)
  qed (use k other_endpoints_keep_keys [of e E a d st] in \<open>simp_all add: w key_dead_def\<close>)
qed

lemma key_dead_run:
  "key_dead h (snd (snd w)) \<Longrightarrow> \<forall>e\<in>set es. \<not> makes_key E h e \<Longrightarrow> key_dead h (snd (snd (foldl (store_step E) w es)))"
  by (induction es arbitrary: w) (simp_all add: key_dead_step)

text \<open>C18: Revocation of an API key is final: after the owner revokes a key, and whatever the store does next short of
  creating a key with the same hash, every request that presents it is answered 401 by the guard of the
  public API, on every scope, and is not counted by the rate limiter.\<close>

theorem revoked_key_stays_dead:
  assumes "revoke_key i (Some q) w = (Ok r, w1)"
    and "\<forall>k\<in>set (keys (snd (snd w))). ky_hash k = hash_key (snd (snd E)) raw \<longrightarrow> ky_id k = i \<and> ky_tenant k = tenant_of q"
    and "\<forall>e\<in>set es. \<not> makes_key E (hash_key (snd (snd E)) raw) e"
    and "(a2, d2, st2) = foldl (store_step E) w1 es"
  shows "guard (snd (snd E)) redis per_min scopes now (Some raw) st2 s = (Err 401 ''unauthorized'', s)"
proof -
  obtain a d st where w: "w = (a, d, st)" by (cases w)
  from assms(1) have w1: "snd (snd w1) = revoke_keys i (tenant_of q) st"
    by (auto simp: revoke_key_def w require_tenant_def Let_def split: option.splits if_splits)
  have "key_dead (hash_key (snd (snd E)) raw) (snd (snd w1))"
    using assms(2) unfolding w1 w by (auto simp: key_dead_def revoke_keys_def list_all_iff set_update_where)
  from key_dead_run [OF this assms(3)] have "key_dead (hash_key (snd (snd E)) raw) st2"
    using assms(4) by (metis snd_conv)
  then have "find (live_key (hash_key (snd (snd E)) raw)) (keys st2) = None"
    by (auto simp: find_None_iff key_dead_def list_all_iff live_key_def)
  then show ?thesis by (simp add: guard_def resolve_principal_def extract_principal_def)
qed

theorem revoked_key_stays_dead_witness:
  "fst (guard (toy_crypto demo_refresh) (Some mem_redis) 60 [WIDGET] 0 (Some ''h1'')
     (snd (snd (store_step demo_env (snd (revoke_key key1 (Some demo_owner) demo_plane)) (RevokeKey key2 (Some demo_owner)))))
     mem_empty) = Err 401 ''unauthorized'' \<and>
   fst (guard (toy_crypto demo_refresh) (Some mem_redis) 60 [WIDGET] 0 (Some ''h1'') (snd (snd demo_plane)) mem_empty) = Ok ''t''"
proof -
  have sha: "hash_key (snd (snd demo_env)) ''h1'' = ''h1''" by (simp add: hash_key_def demo_env_def toy_crypto_def)
  obtain w1 where r: "revoke_key key1 (Some demo_owner) demo_plane = (Ok ''revoked'', w1)"
    by (simp add: revoke_key_def demo_plane_def require_tenant_def demo_owner_def)
  have u: "\<forall>k\<in>set (keys (snd (snd demo_plane))). ky_hash k = hash_key (snd (snd demo_env)) ''h1'' \<longrightarrow>
      ky_id k = key1 \<and> ky_tenant k = tenant_of demo_owner"
    unfolding sha by (simp add: demo_plane_def demo_keys_def tenant_of_def demo_owner_def)
  obtain a2 d2 st2 where f: "foldl (store_step demo_env) w1 [RevokeKey key2 (Some demo_owner)] = (a2, d2, st2)"
    by (metis prod.exhaust)
  have "\<forall>e\<in>set [RevokeKey key2 (Some demo_owner)]. \<not> makes_key demo_env (hash_key (snd (snd demo_env)) ''h1'') e"
    by (simp add: makes_key_def)
  from revoked_key_stays_dead [OF r u this f [symmetric], of "Some mem_redis" 60 "[WIDGET]" 0 mem_empty] f r
  have "fst (guard (toy_crypto demo_refresh) (Some mem_redis) 60 [WIDGET] 0 (Some ''h1'')
     (snd (snd (store_step demo_env (snd (revoke_key key1 (Some demo_owner) demo_plane)) (RevokeKey key2 (Some demo_owner)))))
     mem_empty) = Err 401 ''unauthorized''"
    by (simp add: demo_env_def)
  moreover have "fst (guard (toy_crypto demo_refresh) (Some mem_redis) 60 [WIDGET] 0 (Some ''h1'') (snd (snd demo_plane)) mem_empty) = Ok ''t''"
    by (simp add: guard_def resolve_principal_def live_key_def demo_plane_def demo_keys_def hash_key_def toy_crypto_def
        principal_allowed_def rl_allow_def mem_redis_def mem_empty_def rl_key_def counter_of_def Let_def)
  ultimately show ?thesis by simp
qed

end
