(* ===== verification/TenantAdmin.thy ===== *)
theory TenantAdmin
  imports Isolation Billing "HOL-Library.List_Lexorder" "HOL-Library.Char_ord"
begin

text \<open>
  The operator's view of the stores: provisioning, list, detail and the daily series of the overview
  (\<open>services/api/routers/admin.py\<close>), notes, keys and status of a store (\<open>admin_tenant_ops.py\<close>),
  plans (\<open>admin_plans.py\<close>), the signup credit policy (\<open>admin_credit_policy.py\<close>) and the paginated
  user list (\<open>admin_users.py\<close>). \<open>ok\<close> is the answer of \<open>_admin_ok\<close>. A calendar day is the number
  of days since the epoch.
\<close>

subsection \<open>SQL LIKE and pages\<close>

text \<open>A percent sign matches any run of bytes, an underscore one character, a backslash quotes the next
  character. An underscore matches one byte here.\<close>

fun like :: "string \<Rightarrow> string \<Rightarrow> bool" where
  "like [] s = (s = [])"
| "like (p # ps) s =
     (if p = CHR ''%'' then like ps s \<or> (case s of [] \<Rightarrow> False | _ # s' \<Rightarrow> like (p # ps) s')
      else case s of
          [] \<Rightarrow> False
        | c # s' \<Rightarrow>
            if p = CHR ''_'' then like ps s'
            else if p = CHR 0x5C then (case ps of [] \<Rightarrow> False | q # qs \<Rightarrow> q = c \<and> like qs s')
            else p = c \<and> like ps s')"

definition contains_pattern :: "string \<Rightarrow> string" where
  "contains_pattern q = ''%'' @ q @ ''%''"

definition clamp :: "int \<Rightarrow> int \<Rightarrow> int \<Rightarrow> int" where
  "clamp lo hi x = max lo (min x hi)"

text \<open>\<open>LIMIT/OFFSET\<close> over the rows, newest first.\<close>

definition page :: "int \<Rightarrow> int \<Rightarrow> 'a list \<Rightarrow> 'a list" where
  "page limit offset rows = take (nat limit) (drop (nat offset) (rev rows))"

subsection \<open>Stores\<close>

text \<open>\<open>INSERT INTO tenants ... ON CONFLICT (slug) DO UPDATE SET name\<close>: the id of the row, and the table. A scope
  outside the CHECK constraint of \<open>api_keys\<close> rolls the transaction back.\<close>

definition tenant_upsert :: "string \<Rightarrow> string \<Rightarrow> string \<Rightarrow> db \<Rightarrow> tenant \<times> db" where
  "tenant_upsert i slug name d =
     (case find (\<lambda>r. tn_slug r = slug) (tenants d) of
        Some r \<Rightarrow> (tn_id r, d\<lparr>tenants := update_where (\<lambda>x. tn_slug x = slug) (\<lambda>x. x\<lparr>tn_name := name\<rparr>) (tenants d)\<rparr>)
      | None \<Rightarrow> (i, d\<lparr>tenants := tenants d @ [\<lparr>tn_id = i, tn_name = name, tn_plan = None, tn_status = ''active'',
           tn_notes = None, tn_slug = slug, tn_settings = [], tn_tracking = True\<rparr>]\<rparr>))"

definition create_tenant ::
  "env \<Rightarrow> bool \<Rightarrow> string \<Rightarrow> string \<Rightarrow> string \<Rightarrow> py_dict \<Rightarrow> plane \<Rightarrow> (tenant \<times> string \<times> string) reply \<times> plane" where
  "create_tenant E ok i ki raw payload w =
     (let (repr, U, C) = E; (a, d, st) = w;
          slug = py_strip (pstr E payload ''slug'');
          name = py_strip (py_str repr (dict_get_or payload ''name'' (VStr slug)));
          scope = py_str repr (dict_get_or payload ''scope'' (VStr ''widget''));
          raw_key = ''acip_'' @ raw in
      if \<not> ok then (Err 401 ''unauthorized'', w)
      else if slug = [] then (Err 422 ''invalid_request'', w)
      else case scope_of scope of
          None \<Rightarrow> (Err 500 ''internal_error'', w)
        | Some sc \<Rightarrow>
            let (t, d1) = tenant_upsert i slug name d;
                st1 = insert_key \<lparr>ky_id = ki, ky_tenant = t, ky_hash = hash_key C raw_key, ky_scope = sc,
                        ky_label = ''provisioned'', ky_revoked = False\<rparr> st;
                d2 = audit PgUp ''operator'' ''tenant.create'' (Some t) [(''slug'', VStr slug), (''scope'', VStr scope)] d1
            in (Ok (t, raw_key, scope), a, d2, st1))"

record store_line =
  sl_tenant :: tenant_row
  sl_plan :: "plan_row option"
  sl_sub :: "sub_row option"

definition store_line :: "db \<Rightarrow> tenant_row \<Rightarrow> store_line" where
  "store_line d r =
     (let s = find (\<lambda>s. sb_tenant s = tn_id r) (subs d)
      in \<lparr>sl_tenant = r, sl_plan = (case s of None \<Rightarrow> None | Some x \<Rightarrow> plan_by_id (sb_plan x) d), sl_sub = s\<rparr>)"

definition store_matches :: "string \<Rightarrow> string \<Rightarrow> string \<Rightarrow> store_line \<Rightarrow> bool" where
  "store_matches q status plan l \<longleftrightarrow>
     (py_strip q = [] \<or> like (contains_pattern (py_lower (py_strip q))) (py_lower (tn_slug (sl_tenant l))) \<or>
        like (contains_pattern (py_lower (py_strip q))) (py_lower (tn_name (sl_tenant l)))) \<and>
     (py_strip status = [] \<or> tn_status (sl_tenant l) = py_strip status) \<and>
     (py_strip plan = [] \<or> map_option pl_code (sl_plan l) = Some (py_strip plan))"

definition list_tenants ::
  "bool \<Rightarrow> string \<Rightarrow> string \<Rightarrow> string \<Rightarrow> int \<Rightarrow> int \<Rightarrow> db \<Rightarrow> (nat \<times> int \<times> int \<times> store_line list) reply" where
  "list_tenants ok q status plan limit offset d =
     (if \<not> ok then Err 401 ''unauthorized''
      else
        let lim = clamp 1 200 limit; off = max 0 offset;
            rows = filter (store_matches q status plan) (map (store_line d) (tenants d))
        in Ok (length rows, lim, off, page lim off rows))"

record tenant_detail =
  td_line :: store_line
  td_team :: nat
  td_usage :: "real \<times> real"
  td_status :: plan_status
  td_keys :: "key_row list"
  td_sync :: "sync_row list"

definition tenant_detail ::
  "bool \<Rightarrow> (real \<Rightarrow> real) \<Rightarrow> real \<Rightarrow> tenant \<Rightarrow> plane \<Rightarrow> tenant_detail reply" where
  "tenant_detail ok trunc_month now t w =
     (let (a, d, st) = w in
      if \<not> ok then Err 401 ''unauthorized''
      else if \<not> valid_uuid t then Err 404 ''not_found''
      else case tenant_row t d of
          None \<Rightarrow> Err 404 ''not_found''
        | Some r \<Rightarrow> Ok
            \<lparr>td_line = store_line d r, td_team = length (filter (\<lambda>u. ur_tenant u = Some t) (users a)),
             td_usage = usage_summary PgUp t d, td_status = plan_status PgUp trunc_month now t d,
             td_keys = rev (filter (\<lambda>k. ky_tenant k = t) (keys st)),
             td_sync = sort_key sy_source (filter (\<lambda>s. sy_tenant s = t) (syncs st))\<rparr>)"

definition set_tenant_notes :: "(pyv \<Rightarrow> string) \<Rightarrow> bool \<Rightarrow> tenant \<Rightarrow> py_dict \<Rightarrow> db \<Rightarrow> string reply \<times> db" where
  "set_tenant_notes repr ok t payload d =
     (if \<not> ok then (Err 401 ''unauthorized'', d)
      else if \<not> valid_uuid t then (Err 404 ''not_found'', d)
      else if \<not> tenant_exists t d then (Err 404 ''not_found'', d)
      else
        let notes = py_str repr (dict_get_or payload ''notes'' (VStr []))
        in (Ok ''saved'', audit PgUp ''operator'' ''tenant.notes'' (Some t) []
              (update_tenant t (\<lambda>r. r\<lparr>tn_notes := (if notes = [] then None else Some notes)\<rparr>) d)))"

definition tenant_keys :: "bool \<Rightarrow> tenant \<Rightarrow> db \<Rightarrow> store \<Rightarrow> key_row list reply" where
  "tenant_keys ok t d st =
     (if \<not> ok then Err 401 ''unauthorized''
      else if \<not> valid_uuid t then Err 404 ''not_found''
      else if \<not> tenant_exists t d then Err 404 ''not_found''
      else Ok (rev (filter (\<lambda>k. ky_tenant k = t) (keys st))))"

definition create_tenant_key ::
  "env \<Rightarrow> bool \<Rightarrow> string \<Rightarrow> string \<Rightarrow> tenant \<Rightarrow> py_dict \<Rightarrow> plane \<Rightarrow> (string \<times> string \<times> string) reply \<times> plane" where
  "create_tenant_key E ok i raw t payload w =
     (let (repr, U, C) = E; (a, d, st) = w;
          scope = py_str repr (dict_get_or payload ''scope'' (VStr ''widget''));
          l0 = py_strip (pstr E payload ''label'');
          label = (if l0 = [] then ''issued by operator'' else l0);
          raw_key = ''acip_'' @ raw in
      if \<not> ok then (Err 401 ''unauthorized'', w)
      else if \<not> valid_uuid t then (Err 404 ''not_found'', w)
      else if scope \<notin> {''widget'', ''sync''} then (Err 422 ''invalid_request'', w)
      else if \<not> tenant_exists t d then (Err 404 ''not_found'', w)
      else (Ok (raw_key, scope, label), a,
            audit PgUp ''operator'' ''tenant.key_issue'' (Some t) [(''scope'', VStr scope), (''label'', VStr label)] d,
            insert_key \<lparr>ky_id = i, ky_tenant = t, ky_hash = hash_key C raw_key, ky_scope = the (scope_of scope),
               ky_label = label, ky_revoked = False\<rparr> st))"

definition revoke_tenant_key :: "bool \<Rightarrow> tenant \<Rightarrow> string \<Rightarrow> plane \<Rightarrow> string reply \<times> plane" where
  "revoke_tenant_key ok t i w =
     (let (a, d, st) = w in
      if \<not> ok then (Err 401 ''unauthorized'', w)
      else if \<not> (valid_uuid t \<and> valid_uuid i) then (Err 404 ''not_found'', w)
      else if \<not> list_ex (\<lambda>k. ky_id k = i \<and> ky_tenant k = t) (keys st) then (Err 404 ''not_found'', w)
      else (Ok ''revoked'', a, audit PgUp ''operator'' ''tenant.key_revoke'' (Some t) [(''key_id'', VStr i)] d,
            revoke_keys i t st))"

text \<open>The id of the path is not validated here: a malformed one is a database error.\<close>

definition set_tenant_status ::
  "(pyv \<Rightarrow> string) \<Rightarrow> bool \<Rightarrow> bool \<Rightarrow> tenant \<Rightarrow> py_dict \<Rightarrow> db \<Rightarrow> string reply \<times> db" where
  "set_tenant_status repr ok rate_ok t payload d =
     (let status = py_str repr (dict_get_or payload ''status'' (VStr [])) in
      if \<not> ok then (Err 401 ''unauthorized'', d)
      else if \<not> rate_ok then (Err 429 ''rate_limited'', d)
      else if status \<notin> {''active'', ''suspended''} then (Err 422 ''invalid_request'', d)
      else if \<not> valid_uuid t then (Err 500 ''internal_error'', d)
      else if \<not> tenant_exists t d then (Err 404 ''not_found'', d)
      else (Ok status, audit PgUp ''operator'' ''tenant.status'' (Some t) [(''status'', VStr status)]
              (update_tenant t (\<lambda>r. r\<lparr>tn_status := status\<rparr>) d)))"

subsection \<open>Plans\<close>

text \<open>
  The columns a plan update may set, with their casts. \<open>to_int\<close> is Python's \<open>int(...)\<close>, \<open>None\<close> when it
  raises. The translated texts, the description, the features and the sort order are not columns of
  \<open>plan_row\<close>: their casts are checked and their values dropped.
\<close>

datatype cast = CastStr | CastFloat | CastInt | CastBool

definition plan_columns :: "(string \<times> cast) list" where
  "plan_columns =
     [(''name'', CastStr), (''name_fa'', CastStr), (''description'', CastStr), (''description_fa'', CastStr),
      (''price_monthly'', CastFloat), (''currency'', CastStr), (''credits_per_month'', CastFloat),
      (''monthly_credit_cap'', CastFloat), (''rate_limit_per_min'', CastInt), (''is_public'', CastBool),
      (''sort_order'', CastInt)]"

definition cast_value :: "(pyv \<Rightarrow> string) \<Rightarrow> (pyv \<Rightarrow> int option) \<Rightarrow> cast \<Rightarrow> pyv \<Rightarrow> pyv option" where
  "cast_value repr to_int c v =
     (case c of
        CastStr \<Rightarrow> Some (VStr (py_str repr v))
      | CastFloat \<Rightarrow> (case py_float v of Inl _ \<Rightarrow> None | Inr x \<Rightarrow> Some (VNum x))
      | CastInt \<Rightarrow> map_option VInt (to_int v)
      | CastBool \<Rightarrow> Some (VBool (truthy v)))"

fun cast_columns ::
  "(pyv \<Rightarrow> string) \<Rightarrow> (pyv \<Rightarrow> int option) \<Rightarrow> (string \<times> cast) list \<Rightarrow> py_dict \<Rightarrow> py_dict option" where
  "cast_columns repr to_int [] payload = Some []"
| "cast_columns repr to_int ((k, c) # cs) payload =
     (case map_of payload k of
        None \<Rightarrow> cast_columns repr to_int cs payload
      | Some v \<Rightarrow>
          (case cast_value repr to_int c v of
             None \<Rightarrow> None
           | Some x \<Rightarrow> map_option (Cons (k, x)) (cast_columns repr to_int cs payload)))"

text \<open>Assignment of the cast values; prices have two decimals, as the columns.\<close>

definition num_or :: "real \<Rightarrow> pyv \<Rightarrow> real" where "num_or d v = (case v of VNum x \<Rightarrow> x | _ \<Rightarrow> d)"
definition str_or :: "string \<Rightarrow> pyv \<Rightarrow> string" where "str_or d v = (case v of VStr s \<Rightarrow> s | _ \<Rightarrow> d)"
definition int_or :: "int \<Rightarrow> pyv \<Rightarrow> int" where "int_or d v = (case v of VInt i \<Rightarrow> i | _ \<Rightarrow> d)"
definition bool_or :: "bool \<Rightarrow> pyv \<Rightarrow> bool" where "bool_or d v = (case v of VBool b \<Rightarrow> b | _ \<Rightarrow> d)"

definition assign_plan :: "py_dict \<Rightarrow> plan_row \<Rightarrow> plan_row" where
  "assign_plan vs r =
     r\<lparr>pl_name := str_or (pl_name r) (dict_get vs ''name''),
       pl_price := (case dict_get vs ''price_monthly'' of VNum x \<Rightarrow> pg_numeric 2 x | _ \<Rightarrow> pl_price r),
       pl_currency := str_or (pl_currency r) (dict_get vs ''currency''),
       pl_credits := (case dict_get vs ''credits_per_month'' of VNum x \<Rightarrow> pg_numeric 2 x | _ \<Rightarrow> pl_credits r),
       pl_cap := (case dict_get vs ''monthly_credit_cap'' of VNum x \<Rightarrow> pg_numeric 2 x | _ \<Rightarrow> pl_cap r),
       pl_rate := int_or (pl_rate r) (dict_get vs ''rate_limit_per_min''),
       pl_public := bool_or (pl_public r) (dict_get vs ''is_public'')\<rparr>"

definition audit_fields :: "string \<Rightarrow> py_dict \<Rightarrow> py_dict" where
  "audit_fields i payload = [(''plan_id'', VStr i), (''fields'', VList (map (VStr \<circ> fst) payload))]"

definition update_plan ::
  "(pyv \<Rightarrow> string) \<Rightarrow> (pyv \<Rightarrow> int option) \<Rightarrow> bool \<Rightarrow> string \<Rightarrow> py_dict \<Rightarrow> db \<Rightarrow> string reply \<times> db" where
  "update_plan repr to_int ok i payload d =
     (if \<not> ok then (Err 401 ''unauthorized'', d)
      else case cast_columns repr to_int plan_columns payload of
          None \<Rightarrow> (Err 422 ''invalid_request'', d)
        | Some vs \<Rightarrow>
            if vs = [] then (Err 422 ''invalid_request'', d)
            else if \<not> valid_uuid i then (Err 500 ''internal_error'', d)
            else if plan_by_id i d = None then (Err 404 ''not_found'', d)
            else (Ok ''updated'', audit PgUp ''operator'' ''plan.update'' None (audit_fields i payload)
                    (d\<lparr>plans := update_where (\<lambda>r. pl_id r = i) (assign_plan vs) (plans d)\<rparr>)))"

text \<open>\<open>_PLAN_CODE_RE\<close>. (\<open>$\<close> also matches before a final newline, which \<open>strip\<close> has removed.)\<close>

definition plan_code_ok :: "string \<Rightarrow> bool" where
  "plan_code_ok s \<longleftrightarrow>
     (case s of [] \<Rightarrow> False
      | c # cs \<Rightarrow> is_slug_char c \<and> 1 \<le> length cs \<and> length cs \<le> 30 \<and>
          list_all (\<lambda>x. is_slug_char x \<or> x = CHR ''_'' \<or> x = CHR ''-'') cs)"

text \<open>A null value counts as absent, and an absent column has its default.\<close>

definition present :: "py_dict \<Rightarrow> py_dict" where
  "present payload = filter (\<lambda>kv. snd kv \<noteq> VNone) payload"

definition new_plan :: "string \<Rightarrow> string \<Rightarrow> string \<Rightarrow> plan_row" where
  "new_plan i code name = \<lparr>pl_id = i, pl_code = code, pl_name = name, pl_price = 0, pl_currency = ''USD'', pl_credits = 0,
     pl_cap = 100000, pl_rate = 120, pl_public = True\<rparr>"

definition create_plan ::
  "(pyv \<Rightarrow> string) \<Rightarrow> (pyv \<Rightarrow> int option) \<Rightarrow> bool \<Rightarrow> string \<Rightarrow> py_dict \<Rightarrow> db \<Rightarrow> (string \<times> string) reply \<times> db" where
  "create_plan repr to_int ok i payload d =
     (let code = py_lower (py_strip (py_str repr (dict_get_or payload ''code'' (VStr []))));
          name = py_strip (py_str repr (dict_get_or payload ''name'' (VStr []))) in
      if \<not> ok then (Err 401 ''unauthorized'', d)
      else if \<not> plan_code_ok code then (Err 422 ''invalid_request'', d)
      else if name = [] then (Err 422 ''invalid_request'', d)
      else case cast_columns repr to_int (tl plan_columns) (present payload) of
          None \<Rightarrow> (Err 422 ''invalid_request'', d)
        | Some vs \<Rightarrow>
            if plan_by_code code d \<noteq> None then (Err 409 ''code_taken'', d)
            else (Ok (i, code), audit PgUp ''operator'' ''plan.create'' None [(''plan_id'', VStr i), (''code'', VStr code)]
                    (d\<lparr>plans := plans d @ [assign_plan vs (new_plan i code name)]\<rparr>)))"

definition plan_in_use :: "string \<Rightarrow> db \<Rightarrow> bool" where
  "plan_in_use i d \<longleftrightarrow>
     list_ex (\<lambda>r. tn_plan r = Some i) (tenants d) \<or> list_ex (\<lambda>r. sb_plan r = i) (subs d) \<or>
     list_ex (\<lambda>r. od_plan r = Some i) (orders d)"

definition delete_plan :: "bool \<Rightarrow> string \<Rightarrow> db \<Rightarrow> string reply \<times> db" where
  "delete_plan ok i d =
     (if \<not> ok then (Err 401 ''unauthorized'', d)
      else if \<not> valid_uuid i then (Err 404 ''not_found'', d)
      else if plan_in_use i d then (Err 409 ''plan_in_use'', d)
      else case plan_by_id i d of
          None \<Rightarrow> (Err 404 ''not_found'', d)
        | Some r \<Rightarrow> (Ok ''deleted'', audit PgUp ''operator'' ''plan.delete'' None
              [(''plan_id'', VStr i), (''code'', VStr (pl_code r))]
              (d\<lparr>plans := filter (\<lambda>x. pl_id x \<noteq> i) (plans d)\<rparr>)))"

subsection \<open>Properties\<close>

text \<open>The plan endpoints and the plan change of a store as a machine. A plan id that exists is not generated again.\<close>

datatype plan_event =
    PlanCreate string py_dict
  | PlanUpdate string py_dict
  | PlanDelete string
  | PlanMove tenant py_dict real

fun plan_step :: "(pyv \<Rightarrow> string) \<Rightarrow> (pyv \<Rightarrow> int option) \<Rightarrow> db \<Rightarrow> plan_event \<Rightarrow> db" where
  "plan_step repr to_int d (PlanCreate i pay) =
     (if plan_by_id i d \<noteq> None then d else snd (create_plan repr to_int True i pay d))"
| "plan_step repr to_int d (PlanUpdate i pay) = snd (update_plan repr to_int True i pay d)"
| "plan_step repr to_int d (PlanDelete i) = snd (delete_plan True i d)"
| "plan_step repr to_int d (PlanMove t pay now) = snd (change_tenant_plan repr to_int True True PgUp now t pay d)"

definition plan_ids :: "db \<Rightarrow> string set" where
  "plan_ids d = set (map pl_id (plans d))"

definition plan_uses :: "db \<Rightarrow> string set" where
  "plan_uses d = {i. Some i \<in> set (map tn_plan (tenants d)) \<union> set (map od_plan (orders d))} \<union> set (map sb_plan (subs d))"

definition plans_ok :: "db \<Rightarrow> bool" where
  "plans_ok d \<longleftrightarrow> plan_uses d \<subseteq> plan_ids d \<and> distinct (map pl_id (plans d)) \<and> distinct (map pl_code (plans d))"

lemma plan_uses_cong [simp]: "plan_uses (audit p a b t e d) = plan_uses d" "plan_uses (d\<lparr>plans := ps\<rparr>) = plan_uses d"
  by (simp_all add: plan_uses_def)

lemma plans_ok_audit [simp]: "plans_ok (audit p a b t e d) = plans_ok d"
  by (simp add: plans_ok_def plan_ids_def)

lemma plan_in_use_iff: "plan_in_use i d \<longleftrightarrow> i \<in> plan_uses d"
  by (force simp: plan_in_use_def plan_uses_def list_ex_iff)

lemma assign_plan_keys [simp]: "pl_id (assign_plan vs r) = pl_id r" "pl_code (assign_plan vs r) = pl_code r"
  by (simp_all add: assign_plan_def)

lemma change_tenant_plan_uses:
  "plan_uses (snd (change_tenant_plan repr to_int True True PgUp now t pay d)) \<subseteq> plan_uses d \<union> plan_ids d"
  "plans (snd (change_tenant_plan repr to_int True True PgUp now t pay d)) = plans d"
proof -
  have new: "pl_id p \<in> plan_ids d" if "plan_by_code c d = Some p" for c p
    using that by (auto simp: plan_by_code_def plan_ids_def dest: find_SomeD)
  show "plan_uses (snd (change_tenant_plan repr to_int True True PgUp now t pay d)) \<subseteq> plan_uses d \<union> plan_ids d"
    using new
    by (auto simp: change_tenant_plan_def Let_def plan_uses_def set_tenant_plan_def sub_upsert_def set_update_where
        split: option.splits if_splits)
  show "plans (snd (change_tenant_plan repr to_int True True PgUp now t pay d)) = plans d"
    by (simp add: change_tenant_plan_def Let_def set_tenant_plan_def split: option.split)
qed

lemma plan_step_ok: "plans_ok d \<Longrightarrow> plans_ok (plan_step repr to_int d e)"
proof -
  assume ok: "plans_ok d"
  show ?thesis
  proof (cases e)
    case (PlanCreate i pay)
    have "plans_ok (d\<lparr>plans := plans d @ [r]\<rparr>)"
      if "plan_by_id i d = None" "plan_by_code c d = None" "pl_id r = i" "pl_code r = c" for c r
      using that ok by (auto simp: plans_ok_def plan_ids_def plan_by_id_def plan_by_code_def dest: find_NoneD)
    with ok show ?thesis
      by (auto simp: PlanCreate create_plan_def Let_def assign_plan_keys new_plan_def split: option.split)
  next
    case (PlanUpdate i pay)
    have "plans_ok (d\<lparr>plans := update_where P (assign_plan vs) (plans d)\<rparr>)" for P vs
      using ok by (simp add: plans_ok_def plan_ids_def map_update_where del: set_map)
    with ok show ?thesis
      by (auto simp: PlanUpdate update_plan_def Let_def split: option.split)
  next
    case (PlanDelete i)
    have "plans_ok (d\<lparr>plans := filter (\<lambda>x. pl_id x \<noteq> i) (plans d)\<rparr>)" if "\<not> plan_in_use i d"
      using that ok by (auto simp: plans_ok_def plan_ids_def plan_in_use_iff distinct_map_filter)
    with ok show ?thesis
      by (auto simp: PlanDelete delete_plan_def split: option.split)
  next
    case (PlanMove t pay now)
    then show ?thesis
      using ok change_tenant_plan_uses [of repr to_int now t pay d] by (auto simp: plans_ok_def plan_ids_def)
  qed
qed

interpretation plan_mc: invariant_machine "plan_step repr to_int" plans_ok for repr to_int
  by unfold_locales (rule plan_step_ok)

text \<open>C19: Plans in use cannot vanish: whatever the operator creates, edits, deletes and assigns, in any order and
  with any payload, every plan that a store, a subscription or an order points to exists, and neither ids nor
  codes of plans repeat.\<close>

theorem plan_references_stay_valid:
  assumes "plans_ok d"
  shows "plans_ok (foldl (plan_step repr to_int) d es)"
  using assms by (rule plan_mc.run_inv)

definition plan_db :: db where
  "plan_db = empty_db\<lparr>plans := [new_plan key1 ''free'' ''Free'', new_plan key2 ''pro'' ''Pro''],
     tenants := [\<lparr>tn_id = ''t'', tn_name = ''s'', tn_plan = Some key1, tn_status = ''active'', tn_notes = None, tn_slug = ''s'',
       tn_settings = [], tn_tracking = True\<rparr>]\<rparr>"

theorem plan_references_stay_valid_witness:
  "plans_ok (foldl (plan_step (\<lambda>_. []) (\<lambda>_. None)) plan_db [PlanDelete key1, PlanDelete key2]) \<and>
   map pl_code (plans (foldl (plan_step (\<lambda>_. []) (\<lambda>_. None)) plan_db [PlanDelete key1, PlanDelete key2])) = [''free'']"
proof
  have "plans_ok plan_db"
    by (simp add: plans_ok_def plan_db_def new_plan_def plan_uses_def plan_ids_def empty_db_def)
  then show "plans_ok (foldl (plan_step (\<lambda>_. []) (\<lambda>_. None)) plan_db [PlanDelete key1, PlanDelete key2])"
    by (rule plan_references_stay_valid)
  show "map pl_code (plans (foldl (plan_step (\<lambda>_. []) (\<lambda>_. None)) plan_db [PlanDelete key1, PlanDelete key2])) = [''free'']"
    by (simp add: delete_plan_def plan_in_use_def plan_db_def plan_by_id_def new_plan_def empty_db_def)
qed

text \<open>Suspending a store does not stop it. After the operator's suspension the store's live widget key still
  passes the guard of the public API, and its users' logins get the same answer as before: neither reads the
  status that was set.\<close>

theorem suspended_store_still_served:
  assumes "set_tenant_status repr True True t [(''status'', VStr ''suspended'')] d = (Ok r, d')"
    and "\<exists>r. tenant_row t d = Some r"
    and "find (live_key (hash_key C raw)) (keys st) = Some k" and "ky_tenant k = t" and "ky_scope k = WIDGET" and "raw \<noteq> []"
    and "rl_allow redis per_min t None now s = (True, s')"
  shows "map_option tn_status (tenant_row t d') = Some ''suspended'' \<and>
    guard C redis per_min [WIDGET] now (Some raw) st s = (Ok t, s') \<and>
    fst (login E cfg ok F now pay (a, d')) = fst (login E cfg ok F now pay (a, d)) \<and>
    fst (snd (login E cfg ok F now pay (a, d'))) = fst (snd (login E cfg ok F now pay (a, d)))"
proof (intro conjI)
  obtain repr' U C' where E: "E = (repr', U, C')" by (cases E)
  from assms(1) have v: "valid_uuid t" and d': "d' = audit PgUp ''operator'' ''tenant.status'' (Some t) [(''status'', VStr ''suspended'')]
      (update_tenant t (\<lambda>r. r\<lparr>tn_status := ''suspended''\<rparr>) d)"
    by (auto simp: set_tenant_status_def dict_get_or_def Let_def split: if_splits)
  show "map_option tn_status (tenant_row t d') = Some ''suspended''"
    using assms(2) by (auto simp: d' tenant_row_def update_tenant_def find_update_where_same)
  have "t \<noteq> []"
    using v by (auto simp: valid_uuid_def strip_chars_def Let_def)
  with assms(3-7) show "guard C redis per_min [WIDGET] now (Some raw) st s = (Ok t, s')"
    by (simp add: guard_def resolve_principal_def principal_allowed_def Let_def)
  show "fst (login E cfg ok F now pay (a, d')) = fst (login E cfg ok F now pay (a, d))"
    "fst (snd (login E cfg ok F now pay (a, d'))) = fst (snd (login E cfg ok F now pay (a, d)))"
    by (simp_all add: E login_def Let_def split: option.split sum.split)
qed

definition suspend_db :: db where
  "suspend_db = empty_db\<lparr>tenants := [\<lparr>tn_id = key1, tn_name = ''s'', tn_plan = None, tn_status = ''active'', tn_notes = None,
     tn_slug = ''s'', tn_settings = [], tn_tracking = True\<rparr>]\<rparr>"

definition suspend_store :: store where
  "suspend_store = empty_store\<lparr>keys := [\<lparr>ky_id = key2, ky_tenant = key1, ky_hash = ''h1'', ky_scope = WIDGET, ky_label = ''a'',
     ky_revoked = False\<rparr>]\<rparr>"

theorem suspended_store_still_served_witness:
  "\<forall>d. fst (guard (toy_crypto d) (None :: mem redis option) 60 [WIDGET] 0 (Some ''h1'') suspend_store mem_empty) = Ok key1"
proof
  fix d
  let ?C = "toy_crypto d"
  obtain r d' where s: "set_tenant_status (\<lambda>_. []) True True key1 [(''status'', VStr ''suspended'')] suspend_db = (Ok r, d')"
    by (simp add: set_tenant_status_def suspend_db_def tenant_exists_def dict_get_or_def Let_def)
  have row: "\<exists>r. tenant_row key1 suspend_db = Some r" by (simp add: tenant_row_def suspend_db_def)
  have key: "find (live_key (hash_key ?C ''h1'')) (keys suspend_store) = Some \<lparr>ky_id = key2, ky_tenant = key1, ky_hash = ''h1'',
      ky_scope = WIDGET, ky_label = ''a'', ky_revoked = False\<rparr>"
    by (simp add: suspend_store_def live_key_def hash_key_def toy_crypto_def)
  have rl: "rl_allow (None :: mem redis option) 60 key1 None 0 mem_empty = (True, mem_empty)" by (simp add: rl_allow_def)
  from suspended_store_still_served [OF s row key _ _ _ rl]
  show "fst (guard ?C (None :: mem redis option) 60 [WIDGET] 0 (Some ''h1'') suspend_store mem_empty) = Ok key1" by simp
qed

end
