(* ===== verification/Overview.thy ===== *)
theory Overview
  imports TenantAdmin
begin

text \<open>
  The operator's aggregate views: the overview and its daily series (\<open>admin.py\<close>), the signup credit
  policy (\<open>admin_credit_policy.py\<close>), the user list (\<open>admin_users.py\<close>) and the public contact form with
  its inbox (\<open>public.py\<close>, \<open>admin_contact.py\<close>). The rows that PostgreSQL groups by day are arguments.
\<close>

subsection \<open>Daily series\<close>

type_synonym day_row = "int \<times> (string \<times> real) list"

definition day_point :: "day_row list \<Rightarrow> string list \<Rightarrow> int \<Rightarrow> day_row" where
  "day_point rows cols day =
     (day, map (\<lambda>f. (f, case map_of (rev rows) day of None \<Rightarrow> 0 | Some r \<Rightarrow> the_or 0 (map_of r f))) cols)"

definition daily_series :: "day_row list \<Rightarrow> int \<Rightarrow> nat \<Rightarrow> string list \<Rightarrow> day_row list" where
  "daily_series rows today days cols = map (\<lambda>i. day_point rows cols (today - int i)) (rev [0..<days])"

definition field_sum :: "string \<Rightarrow> day_row list \<Rightarrow> real" where
  "field_sum f rows = sum_list (map (\<lambda>r. the_or 0 (map_of (snd r) f)) rows)"

record overview =
  ov_tenants :: nat
  ov_users :: nat
  ov_active_subs :: nat
  ov_past_due :: nat
  ov_mrr :: real
  ov_days :: int
  ov_signups :: "day_row list"
  ov_usage :: "day_row list"
  ov_revenue :: "day_row list"
  ov_failed :: "day_row list"
  ov_totals :: "(string \<times> real) list"

text \<open>\<open>mrr\<close> joins the active subscriptions with their plans.\<close>

definition mrr :: "db \<Rightarrow> real" where
  "mrr d = sum_list (map (\<lambda>s. case plan_by_id (sb_plan s) d of None \<Rightarrow> 0 | Some p \<Rightarrow> pl_price p)
     (filter (\<lambda>s. sb_status s = ''active'') (subs d)))"

definition overview ::
  "bool \<Rightarrow> int \<Rightarrow> int \<Rightarrow> day_row list \<Rightarrow> day_row list \<Rightarrow> day_row list \<Rightarrow> day_row list \<Rightarrow> adb \<times> db \<Rightarrow> overview reply" where
  "overview ok days today signup_rows usage_rows revenue_rows failed_rows w =
     (let (a, d) = w in
      if \<not> ok then Err 401 ''unauthorized''
      else
        let n = clamp 7 90 days;
            signups = daily_series signup_rows today (nat n) [''signups''];
            usage = daily_series usage_rows today (nat n) [''calls'', ''credits''];
            revenue = daily_series revenue_rows today (nat n) [''revenue''];
            failed = daily_series failed_rows today (nat n) [''failed'']
        in Ok \<lparr>ov_tenants = length (tenants d), ov_users = length (users a),
               ov_active_subs = length (filter (\<lambda>s. sb_status s \<in> {''active'', ''trialing''}) (subs d)),
               ov_past_due = length (filter (\<lambda>s. sb_status s = ''past_due'') (subs d)), ov_mrr = mrr d, ov_days = n,
               ov_signups = signups, ov_usage = usage, ov_revenue = revenue, ov_failed = failed,
               ov_totals = [(''signups'', field_sum ''signups'' signups), (''calls'', field_sum ''calls'' usage),
                 (''revenue'', field_sum ''revenue'' revenue), (''failed_payments'', field_sum ''failed'' failed)]\<rparr>)"

subsection \<open>Signup credit policy\<close>

text \<open>The fields of a request, in order; \<open>Inl\<close> is the refusal.\<close>

definition policy_fields :: "py_dict \<Rightarrow> (bool option \<times> real option) res" where
  "policy_fields payload =
     (let en = map_option truthy (map_of payload ''auto_grant_enabled'') in
      case map_of payload ''signup_credits'' of
        None \<Rightarrow> if en = None then Inl (Exn ''invalid_request'') else Inr (en, None)
      | Some v \<Rightarrow>
          (case py_float v of
             Inl _ \<Rightarrow> Inl (Exn ''invalid_request'')
           | Inr x \<Rightarrow> if 0 \<le> x \<and> x \<le> 1000000 then Inr (en, Some x) else Inl (Exn ''invalid_request'')))"

definition put_credit_policy ::
  "bool \<Rightarrow> py_dict \<Rightarrow> (bool \<times> real) \<times> db \<Rightarrow> (bool \<times> real) reply \<times> (bool \<times> real) \<times> db" where
  "put_credit_policy ok payload w =
     (let ((en, amount), d) = w in
      if \<not> ok then (Err 401 ''unauthorized'', w)
      else case policy_fields payload of
          Inl _ \<Rightarrow> (Err 422 ''invalid_request'', w)
        | Inr (en', amount') \<Rightarrow>
            let p = (the_or en en', pg_numeric 2 (the_or amount amount'));
                changed = (case en' of None \<Rightarrow> [] | Some b \<Rightarrow> [(''auto_grant_enabled'', VBool b)]) @
                         (case amount' of None \<Rightarrow> [] | Some x \<Rightarrow> [(''signup_credits'', VNum x)])
            in (Ok p, p, audit PgUp ''operator'' ''credit_policy.update'' None changed d))"

subsection \<open>Users\<close>

text \<open>\<open>ILIKE\<close> compares without case.\<close>

definition ilike :: "string \<Rightarrow> string \<Rightarrow> bool" where
  "ilike p s = like (py_lower p) (py_lower s)"

definition user_store :: "db \<Rightarrow> user_row \<Rightarrow> tenant_row option" where
  "user_store d u = (case ur_tenant u of None \<Rightarrow> None | Some t \<Rightarrow> tenant_row t d)"

definition user_matches :: "string option \<Rightarrow> string option \<Rightarrow> string option \<Rightarrow> db \<Rightarrow> user_row \<Rightarrow> bool" where
  "user_matches q role status d u \<longleftrightarrow>
     (the_or [] q = [] \<or> (let pat = contains_pattern (py_strip (the_or [] q)) in
        ilike pat (ur_email u) \<or> (case ur_name u of None \<Rightarrow> False | Some n \<Rightarrow> ilike pat n) \<or>
        (case user_store d u of None \<Rightarrow> False | Some r \<Rightarrow> ilike pat (tn_slug r) \<or> ilike pat (tn_name r)))) \<and>
     (the_or [] role = [] \<or> ur_role u = the_or [] role) \<and> (the_or [] status = [] \<or> ur_status u = the_or [] status)"

definition list_users ::
  "bool \<Rightarrow> string option \<Rightarrow> string option \<Rightarrow> string option \<Rightarrow> int \<Rightarrow> int \<Rightarrow> adb \<times> db
     \<Rightarrow> (nat \<times> int \<times> int \<times> user_row list) reply" where
  "list_users ok q role status limit offset w =
     (let (a, d) = w in
      if \<not> ok then Err 401 ''unauthorized''
      else
        let lim = clamp 1 200 limit; off = max 0 offset; rows = filter (user_matches q role status d) (users a)
        in Ok (length rows, lim, off, page lim off rows))"

subsection \<open>Contact form\<close>

record contact_row =
  ct_id :: int
  ct_name :: string
  ct_email :: string
  ct_message :: string
  ct_status :: string
  ct_note :: "string option"

text \<open>\<open>POST /contact\<close>; the notification goes to the platform inbox.\<close>

definition contact :: "env \<Rightarrow> int \<Rightarrow> string \<Rightarrow> py_dict \<Rightarrow> contact_row list \<times> adb \<Rightarrow> string reply \<times> contact_row list \<times> adb" where
  "contact E i inbox payload w =
     (let (cs, a) = w;
          name = py_strip (pstr E payload ''name''); email = pstr_clean E payload ''email'';
          message = py_strip (pstr E payload ''message'') in
      if name = [] \<or> message = [] \<or> \<not> email_re email then (Err 422 ''invalid_request'', w)
      else if py_len message > 5000 then (Err 422 ''too_long'', w)
      else (Ok ''received'', cs @ [\<lparr>ct_id = i, ct_name = name, ct_email = email, ct_message = message, ct_status = ''new'',
              ct_note = None\<rparr>], send_mail inbox ''contact'' [] a))"

definition contact_statuses :: "string list" where "contact_statuses = [''new'', ''read'', ''resolved'']"

definition contact_matches :: "string option \<Rightarrow> string option \<Rightarrow> contact_row \<Rightarrow> bool" where
  "contact_matches status q r \<longleftrightarrow>
     (the_or [] status \<in> set contact_statuses \<longrightarrow> ct_status r = the_or [] status) \<and>
     (the_or [] q = [] \<or> (let pat = contains_pattern (py_strip (the_or [] q)) in ilike pat (ct_email r) \<or> ilike pat (ct_name r)))"

text \<open>The page, its total, and the counts of the tabs (all, new, read, resolved).\<close>

definition list_contact_messages ::
  "bool \<Rightarrow> string option \<Rightarrow> string option \<Rightarrow> int \<Rightarrow> int \<Rightarrow> contact_row list
     \<Rightarrow> (contact_row list \<times> nat \<times> nat list) reply" where
  "list_contact_messages ok status q limit offset cs =
     (if \<not> ok then Err 401 ''unauthorized''
      else
        let rows = filter (contact_matches status q) cs
        in Ok (page (clamp 1 100 limit) (max 0 offset) rows, length rows,
               length cs # map (\<lambda>st. length (filter (\<lambda>r. ct_status r = st) cs)) contact_statuses))"

definition contact_note :: "(pyv \<Rightarrow> string) \<Rightarrow> pyv \<Rightarrow> string option" where
  "contact_note repr v =
     (let n = py_take 4000 (py_strip (py_str repr (py_or v (VStr [])))) in if n = [] then None else Some n)"

definition update_contact_message ::
  "(pyv \<Rightarrow> string) \<Rightarrow> bool \<Rightarrow> int \<Rightarrow> py_dict \<Rightarrow> contact_row list \<times> db \<Rightarrow> int reply \<times> contact_row list \<times> db" where
  "update_contact_message repr ok i payload w =
     (let (cs, d) = w;
          st = map_option (py_str repr) (map_of payload ''status'');
          note = map_option (contact_note repr) (map_of payload ''admin_note'') in
      if \<not> ok then (Err 401 ''unauthorized'', w)
      else if st \<noteq> None \<and> the st \<notin> set contact_statuses then (Err 422 ''invalid_request'', w)
      else if st = None \<and> note = None then (Err 422 ''invalid_request'', w)
      else if \<not> list_ex (\<lambda>r. ct_id r = i) cs then (Err 404 ''not_found'', w)
      else (Ok i,
            update_where (\<lambda>r. ct_id r = i) (\<lambda>r. r\<lparr>ct_status := the_or (ct_status r) st, ct_note := the_or (ct_note r) note\<rparr>) cs,
            audit PgUp ''operator'' ''contact.update'' None
              [(''message_id'', VInt i), (''fields'', VList (map (VStr \<circ> fst) payload))] d))"

subsection \<open>Properties\<close>

lemma field_sum_simps [simp]: "field_sum f [] = 0" "field_sum f (r # rs) = the_or 0 (map_of (snd r) f) + field_sum f rs"
  "field_sum f (rs @ rs') = field_sum f rs + field_sum f rs'"
  by (simp_all add: field_sum_def)

lemma field_sum_filter_split:
  "field_sum f (filter (\<lambda>r. P (fst r) \<and> fst r \<noteq> k) rows) + field_sum f (filter (\<lambda>r. P (fst r) \<and> fst r = k) rows)
   = field_sum f (filter (\<lambda>r. P (fst r)) rows)"
  by (induction rows) auto

lemma field_sum_one_day:
  "distinct (map fst rows) \<Longrightarrow>
   field_sum f (filter (\<lambda>r. fst r = k) rows) = (case map_of (rev rows) k of None \<Rightarrow> 0 | Some v \<Rightarrow> the_or 0 (map_of v f))"
proof (induction rows)
  case (Cons r rows)
  have none: "map_of (rev rows) k = None" if "k \<notin> fst ` set rows"
    using that by (simp add: map_of_eq_None_iff)
  from Cons show ?case
    by (cases r) (auto simp: map_add_def none filter_False filter_empty_conv image_iff split: option.split)
qed simp

text \<open>The daily series is dense and loses nothing of its window: it has one point per day, oldest first, up to
  today, days without data are zero, and the total of a column over the points is the total over the grouped
  rows of those days, whatever rows outside the window PostgreSQL returned.\<close>

theorem daily_series_total:
  assumes "distinct (map fst rows)" and "f \<in> set cols"
  shows "map fst (daily_series rows today n cols) = map (\<lambda>i. today - int n + 1 + int i) [0..<n] \<and>
    field_sum f (daily_series rows today n cols) = field_sum f (filter (\<lambda>r. today - int n < fst r \<and> fst r \<le> today) rows)"
proof
  show "map fst (daily_series rows today n cols) = map (\<lambda>i. today - int n + 1 + int i) [0..<n]"
    by (rule nth_equalityI) (auto simp: daily_series_def day_point_def rev_nth)
  show "field_sum f (daily_series rows today n cols) = field_sum f (filter (\<lambda>r. today - int n < fst r \<and> fst r \<le> today) rows)"
  proof (induction n)
    case 0
    then show ?case by (simp add: daily_series_def filter_False)
  next
    case (Suc n)
    let ?P = "\<lambda>k. today - int (Suc n) < k \<and> k \<le> today"
    have pt: "the_or 0 (map_of (snd (day_point rows cols k)) f)
        = (case map_of (rev rows) k of None \<Rightarrow> 0 | Some v \<Rightarrow> the_or 0 (map_of v f))" for k
      using assms(2) by (simp add: day_point_def map_of_map_restrict)
    have "daily_series rows today (Suc n) cols = day_point rows cols (today - int n) # daily_series rows today n cols"
      by (simp add: daily_series_def)
    moreover have "field_sum f (filter (\<lambda>r. ?P (fst r) \<and> fst r = today - int n) rows)
        = (case map_of (rev rows) (today - int n) of None \<Rightarrow> 0 | Some v \<Rightarrow> the_or 0 (map_of v f))"
    proof -
      have "filter (\<lambda>r. ?P (fst r) \<and> fst r = today - int n) rows = filter (\<lambda>r. fst r = today - int n) rows"
        by (rule filter_cong) auto
      then show ?thesis by (simp only: field_sum_one_day [OF assms(1)])
    qed
    moreover have "filter (\<lambda>r. ?P (fst r) \<and> fst r \<noteq> today - int n) rows = filter (\<lambda>r. today - int n < fst r \<and> fst r \<le> today) rows"
      by (rule filter_cong) auto
    ultimately show ?case using Suc field_sum_filter_split [of f ?P "today - int n" rows] by (simp add: pt)
  qed
qed

theorem daily_series_total_witness:
  "field_sum ''calls'' (daily_series [(98, [(''calls'', 3)]), (100, [(''calls'', 4)]), (90, [(''calls'', 7)])] 100 7 [''calls'']) = 7"
proof -
  have "distinct (map fst [(98 :: int, [(''calls'', 3 :: real)]), (100, [(''calls'', 4)]), (90, [(''calls'', 7)])])" by simp
  from daily_series_total [OF this, of "''calls''" "[''calls'']" 100 7] show ?thesis by simp
qed

end
