(* ===== verification/Normalize.thy ===== *)
theory Normalize
  imports PyVal
begin

text \<open>
  Store payloads and the canonical documents: \<open>packages/acip_sync/normalize.py\<close>, \<open>orders.py\<close> and the
  connectors. A raw payload is a decoded JSON object; \<open>repr\<close> is the text of floats and containers.
  An operation that may raise returns \<open>Inl\<close>.
\<close>

subsection \<open>Products\<close>

record product =
  cp_tenant :: tenant
  cp_id :: string
  cp_title :: string
  cp_description :: string
  cp_brand :: pyv
  cp_categories :: "pyv list"
  cp_attributes :: pyv
  cp_price :: "real option"
  cp_in_stock :: bool
  cp_popularity :: "real option"
  cp_updated :: pyv

definition opt_num :: "real option \<Rightarrow> pyv" where
  "opt_num x = (case x of None \<Rightarrow> VNone | Some v \<Rightarrow> VNum v)"

text \<open>\<open>{k: v for k, v in doc.items() if v is not None}\<close>.\<close>

definition drop_none :: "py_dict \<Rightarrow> py_dict" where
  "drop_none d = filter (\<lambda>kv. snd kv \<noteq> VNone) d"

definition product_doc :: "product \<Rightarrow> py_dict" where
  "product_doc p = drop_none
     ([(''tenant_id'', VStr (cp_tenant p)), (''product_id'', VStr (cp_id p)), (''title'', VStr (cp_title p)),
       (''description'', VStr (cp_description p)), (''brand'', cp_brand p), (''categories'', VList (cp_categories p)),
       (''attributes'', cp_attributes p), (''price'', opt_num (cp_price p)), (''in_stock'', VBool (cp_in_stock p)),
       (''updated_at'', cp_updated p)] @
      (case cp_popularity p of None \<Rightarrow> [] | Some x \<Rightarrow> [(''popularity'', VNum (max x (1 / 1000000)))]))"

text \<open>One attribute of the embedded text; an empty value is skipped.\<close>

definition attribute_bit :: "(pyv \<Rightarrow> string) \<Rightarrow> string \<times> pyv \<Rightarrow> string list" where
  "attribute_bit repr nv =
     (let (name, v) = nv in
      if v = VNone \<or> v = VStr [] \<or> v = VList [] then []
      else [name @ '': '' @
            (case v of
               VList vs \<Rightarrow> py_join ([CHR 0xD8, CHR 0x8C] @ '' '') (filter (\<lambda>s. py_strip s \<noteq> []) (map (py_str repr) vs))
             | _ \<Rightarrow> py_str repr v)])"

definition attribute_part :: "(pyv \<Rightarrow> string) \<Rightarrow> pyv \<Rightarrow> string list res" where
  "attribute_part repr attrs =
     (if \<not> truthy attrs then Inr []
      else case attrs of
          VDict d \<Rightarrow>
            (let bits = concat (map (attribute_bit repr) d)
             in Inr (if bits = [] then [] else
                  [([CHR 0xD9, CHR 0x88, CHR 0xDB, CHR 0x8C, CHR 0xDA, CHR 0x98, CHR 0xDA, CHR 0xAF, CHR 0xDB, CHR 0x8C, CHR
      0xE2, CHR 0x80, CHR 0x8C, CHR 0xD9, CHR 0x87, CHR 0xD8, CHR 0xA7] @ '': '')
                   @ py_join '' | '' bits]))
        | _ \<Rightarrow> Inl (Exn ''AttributeError''))"

definition embedding_text :: "(pyv \<Rightarrow> string) \<Rightarrow> product \<Rightarrow> string res" where
  "embedding_text repr p =
     (let title = (if cp_title p = [] then [] else [py_strip (cp_title p)]);
          brand = (if truthy (cp_brand p) then
              [([CHR 0xD8, CHR 0xA8, CHR 0xD8, CHR 0xB1, CHR 0xD9, CHR 0x86, CHR 0xD8, CHR 0xAF] @ '': '') @ py_str repr (cp_brand p)] else []);
          cats = py_join ([CHR 0xD8, CHR 0x8C] @ '' '')
              (filter (\<lambda>s. s \<noteq> []) (map (\<lambda>c. py_strip (py_str repr c)) (cp_categories p)));
          cat_part = (if cp_categories p = [] \<or> cats = [] then [] else
              [([CHR 0xD8, CHR 0xAF, CHR 0xD8, CHR 0xB3, CHR 0xD8, CHR 0xAA, CHR 0xD9, CHR 0x87, CHR 0xE2, CHR 0x80, CHR
      0x8C, CHR 0xD8, CHR 0xA8, CHR 0xD9, CHR 0x86, CHR 0xD8, CHR 0xAF, CHR 0xDB, CHR 0x8C] @ '': '')
               @ cats]);
          desc = (if cp_description p = [] then [] else [py_strip (cp_description p)])
      in case attribute_part repr (cp_attributes p) of
           Inl e \<Rightarrow> Inl e
         | Inr attrs \<Rightarrow> Inr (py_join [CHR 0x0A] (filter (\<lambda>s. s \<noteq> []) (title @ brand @ cat_part @ attrs @ desc))))"

definition as_float :: "pyv \<Rightarrow> real option" where
  "as_float v =
     (if v = VNone \<or> v = VStr [] then None else case py_float v of Inl _ \<Rightarrow> None | Inr x \<Rightarrow> Some x)"

definition as_bool :: "pyv \<Rightarrow> pyv \<Rightarrow> bool" where
  "as_bool quantity flag =
     (if flag \<noteq> VNone then truthy flag
      else case py_float quantity of Inl _ \<Rightarrow> True | Inr x \<Rightarrow> 0 < x)"

definition coerce_categories :: "(pyv \<Rightarrow> string) \<Rightarrow> pyv \<Rightarrow> pyv list" where
  "coerce_categories repr v =
     (case v of VNone \<Rightarrow> [] | VList vs \<Rightarrow> map (VStr \<circ> py_str repr) vs | _ \<Rightarrow> [VStr (py_str repr v)])"

text \<open>Iteration over a JSON value: a dictionary yields its keys, a text its characters.\<close>

definition py_iter :: "pyv \<Rightarrow> pyv list res" where
  "py_iter v =
     (case v of
        VList vs \<Rightarrow> Inr vs
      | VDict d \<Rightarrow> Inr (map (VStr \<circ> fst) d)
      | VStr s \<Rightarrow> Inr (map VStr (code_points s))
      | _ \<Rightarrow> Inl (Exn ''TypeError''))"

fun dict_items :: "pyv list \<Rightarrow> py_dict list" where
  "dict_items [] = []"
| "dict_items (VDict d # vs) = d # dict_items vs"
| "dict_items (_ # vs) = dict_items vs"

definition woo_brand :: "py_dict \<Rightarrow> pyv" where
  "woo_brand raw =
     (case dict_get raw ''brands'' of
        VList (VDict b # _) \<Rightarrow> dict_get b ''name''
      | _ \<Rightarrow> dict_get raw ''brand'')"

definition woo_attributes :: "(pyv \<Rightarrow> string) \<Rightarrow> pyv list \<Rightarrow> py_dict" where
  "woo_attributes repr vs =
     fold (\<lambda>a. dict_set (py_str repr (dict_get a ''name'')) (dict_get a ''options''))
       (filter (\<lambda>a. truthy (dict_get a ''name'')) (dict_items vs)) []"

text \<open>\<open>str(a or b or "")\<close> and \<open>a or b\<close>.\<close>

definition first_of :: "py_dict \<Rightarrow> string list \<Rightarrow> pyv \<Rightarrow> pyv" where
  "first_of raw ks d = foldr (\<lambda>k v. py_or (dict_get raw k) v) ks d"

definition last_get :: "py_dict \<Rightarrow> string \<Rightarrow> string \<Rightarrow> pyv" where
  "last_get raw k k' = py_or (dict_get raw k) (dict_get raw k')"

definition normalize_opencart :: "(pyv \<Rightarrow> string) \<Rightarrow> tenant \<Rightarrow> py_dict \<Rightarrow> product" where
  "normalize_opencart repr t raw =
     \<lparr>cp_tenant = t, cp_id = py_str repr (last_get raw ''product_id'' ''id''),
      cp_title = py_str repr (first_of raw [''name'', ''title''] (VStr [])),
      cp_description = py_str repr (first_of raw [''description''] (VStr [])),
      cp_brand = last_get raw ''manufacturer'' ''brand'',
      cp_categories = coerce_categories repr (dict_get raw ''categories''),
      cp_attributes = first_of raw [''attributes''] (VDict []),
      cp_price = as_float (dict_get raw ''price''),
      cp_in_stock = as_bool (dict_get raw ''quantity'') (dict_get raw ''in_stock''),
      cp_popularity = None, cp_updated = last_get raw ''date_modified'' ''updated_at''\<rparr>"

definition normalize_woo :: "(pyv \<Rightarrow> string) \<Rightarrow> tenant \<Rightarrow> py_dict \<Rightarrow> product res" where
  "normalize_woo repr t raw =
     (case (py_iter (dict_get_or raw ''categories'' (VList [])), py_iter (dict_get_or raw ''attributes'' (VList []))) of
        (Inr cats, Inr attrs) \<Rightarrow> Inr
          \<lparr>cp_tenant = t, cp_id = py_str repr (dict_get raw ''id''),
           cp_title = py_str repr (first_of raw [''name''] (VStr [])),
           cp_description = py_str repr (first_of raw [''description'', ''short_description''] (VStr [])),
           cp_brand = woo_brand raw,
           cp_categories = map (\<lambda>c. dict_get_or c ''name'' (VStr [])) (dict_items cats),
           cp_attributes = VDict (woo_attributes repr attrs),
           cp_price = as_float (dict_get raw ''price''),
           cp_in_stock = (dict_get_or raw ''stock_status'' (VStr ''instock'') = VStr ''instock''),
           cp_popularity = None, cp_updated = last_get raw ''date_modified_gmt'' ''date_modified''\<rparr>
      | (Inl e, _) \<Rightarrow> Inl e
      | (_, Inl e) \<Rightarrow> Inl e)"

definition normalize_rest :: "(pyv \<Rightarrow> string) \<Rightarrow> tenant \<Rightarrow> py_dict \<Rightarrow> product" where
  "normalize_rest repr t raw =
     \<lparr>cp_tenant = t, cp_id = py_str repr (last_get raw ''product_id'' ''id''),
      cp_title = py_str repr (first_of raw [''title'', ''name''] (VStr [])),
      cp_description = py_str repr (first_of raw [''description''] (VStr [])),
      cp_brand = dict_get raw ''brand'',
      cp_categories = coerce_categories repr (dict_get raw ''categories''),
      cp_attributes = first_of raw [''attributes''] (VDict []),
      cp_price = as_float (dict_get raw ''price''),
      cp_in_stock = truthy (dict_get_or raw ''in_stock'' (VBool True)),
      cp_popularity = as_float (dict_get raw ''popularity''), cp_updated = dict_get raw ''updated_at''\<rparr>"

definition normalize_product :: "(pyv \<Rightarrow> string) \<Rightarrow> tenant \<Rightarrow> string \<Rightarrow> py_dict \<Rightarrow> product res" where
  "normalize_product repr t source raw =
     (let src = py_lower source in
      if src = ''opencart'' then Inr (normalize_opencart repr t raw)
      else if src \<in> {''woo'', ''woocommerce''} then normalize_woo repr t raw
      else Inr (normalize_rest repr t raw))"

end
