(* ===== verification/Embedding.thy ===== *)
theory Embedding
  imports Failover Cache Normalize
begin

text \<open>
  Vectors of texts: the embedding client and its cache (\<open>packages/acip_embedding/client.py\<close>) and the
  chain over the registry's embedding endpoints (\<open>chained.py\<close>). The endpoint's HTTP is a parameter:
  a POST of a JSON body to a URL with an optional bearer key, whose exceptions are those of the client
  library, and a sleep. SHA-256 is a parameter.
\<close>

record 'w vendor_net =
  vn_post :: "string \<Rightarrow> string option \<Rightarrow> py_dict \<Rightarrow> 'w \<Rightarrow> (call_exn + pyv) \<times> 'w"
  vn_sleep :: "real \<Rightarrow> 'w \<Rightarrow> 'w"

subsection \<open>Vectors\<close>

definition l2_normalize :: "real list \<Rightarrow> real list" where
  "l2_normalize vec =
     (let norm = sqrt (sum_list (map (\<lambda>x. x * x) vec)) in if norm = 0 then vec else map (\<lambda>x. x / norm) vec)"

text \<open>The configured dimension trims a vector; zero, a negative and a large one leave it.\<close>

definition truncate_mrl :: "real list \<Rightarrow> int \<Rightarrow> real list" where
  "truncate_mrl vec dims =
     (if dims \<le> 0 \<or> int (length vec) \<le> dims then vec else l2_normalize (take (nat dims) vec))"

fun map_res :: "('a \<Rightarrow> 'b res) \<Rightarrow> 'a list \<Rightarrow> 'b list res" where
  "map_res f [] = Inr []"
| "map_res f (x # xs) = bind_res (f x) (\<lambda>y. bind_res (map_res f xs) (\<lambda>ys. Inr (y # ys)))"

definition vector_of :: "pyv \<Rightarrow> real list res" where
  "vector_of v = bind_res (py_iter v) (map_res py_float)"

definition py_item :: "string \<Rightarrow> pyv \<Rightarrow> pyv res" where
  "py_item k v =
     (case v of
        VDict d \<Rightarrow> (case map_of d k of None \<Rightarrow> Inl (Exn ''KeyError'') | Some x \<Rightarrow> Inr x)
      | _ \<Rightarrow> Inl (Exn ''TypeError''))"

subsection \<open>One endpoint\<close>

definition vendor_dims :: "ai_settings \<Rightarrow> vendor_endpoint \<Rightarrow> int" where
  "vendor_dims S e = the_or (st_embedding_dims S) (vd_dims e)"

definition embed_request :: "vendor_endpoint \<Rightarrow> string list \<Rightarrow> string \<times> string option \<times> py_dict" where
  "embed_request e texts =
     (if vd_wire e = ''openai'' then
        (rstrip_char (CHR ''/'') (vd_base e) @ ''/embeddings'', nonempty (vd_key e),
         [(''input'', VList (map VStr texts)), (''model'', VStr (vd_model e))])
      else (rstrip_char (CHR ''/'') (vd_base e) @ ''/embed'', None, [(''inputs'', VList (map VStr texts))]))"

definition embed_reply :: "vendor_endpoint \<Rightarrow> pyv \<Rightarrow> pyv res" where
  "embed_reply e body =
     (if vd_wire e = ''openai'' then
        bind_res (py_item ''data'' body) (\<lambda>data.
        bind_res (py_iter data) (\<lambda>items.
        bind_res (map_res (py_item ''embedding'') items) (\<lambda>vs. Inr (VList vs))))
      else Inr body)"

text \<open>Every failure of the call is one exception; the conversion of the vectors is outside the handler.\<close>

definition unavailable :: call_exn where "unavailable = CallExn ''EmbeddingUnavailable''"

definition client_embed ::
  "('w, 'z) vendor_net_scheme \<Rightarrow> ai_settings \<Rightarrow> string list \<Rightarrow> vendor_endpoint \<Rightarrow> 'w \<Rightarrow> (call_exn + real list list) \<times> 'w" where
  "client_embed net S texts e w =
     (if texts = [] then (Inr [], w)
      else
        let (url, key, body) = embed_request e texts in
        case vn_post net url key body w of
          (Inl _, w1) \<Rightarrow> (Inl unavailable, w1)
        | (Inr reply, w1) \<Rightarrow>
            (case embed_reply e reply of
               Inl _ \<Rightarrow> (Inl unavailable, w1)
             | Inr raw \<Rightarrow>
                 (case bind_res (py_iter raw) (map_res vector_of) of
                    Inl x \<Rightarrow> (Inl (CallExn (exn_msg x)), w1)
                  | Inr vs \<Rightarrow> (Inr (map (\<lambda>v. truncate_mrl v (vendor_dims S e)) vs), w1))))"

subsection \<open>The cache\<close>

definition emb_key :: "(string \<Rightarrow> string) \<Rightarrow> string \<Rightarrow> int \<Rightarrow> string \<Rightarrow> string" where
  "emb_key sha model dims text = ''emb:'' @ model @ '':'' @ int_str dims @ '':'' @ sha text"

definition emb_get :: "('w, 'x) redis_scheme option \<Rightarrow> string \<Rightarrow> 'w \<Rightarrow> real list option" where
  "emb_get redis k w =
     (case redis of
        None \<Rightarrow> None
      | Some R \<Rightarrow>
          (case rd_lrange R k 0 (- 1) w of
             Inl _ \<Rightarrow> None
           | Inr vs \<Rightarrow> if vs = [] then None
                       else (case map_res py_float vs of Inl _ \<Rightarrow> None | Inr xs \<Rightarrow> Some xs)))"

text \<open>One RPUSH of all components, here one component at a time; without components it is refused.\<close>

fun push_all :: "('w, 'x) redis_scheme \<Rightarrow> string \<Rightarrow> real list \<Rightarrow> 'w \<Rightarrow> unit res \<times> 'w" where
  "push_all R k [] w = (Inr (), w)"
| "push_all R k (x # xs) w =
     (case rd_rpush R k (VNum x) w of (Inl e, w1) \<Rightarrow> (Inl e, w1) | (Inr _, w1) \<Rightarrow> push_all R k xs w1)"

definition emb_set :: "('w, 'x) redis_scheme option \<Rightarrow> string \<Rightarrow> real list \<Rightarrow> 'w \<Rightarrow> 'w" where
  "emb_set redis k vec w =
     (case redis of
        None \<Rightarrow> w
      | Some R \<Rightarrow>
          (case rd_delete R k w of
             (Inl _, w1) \<Rightarrow> w1
           | (Inr _, w1) \<Rightarrow>
               if vec = [] then w1
               else (case push_all R k vec w1 of
                       (Inl _, w2) \<Rightarrow> w2
                     | (Inr _, w2) \<Rightarrow> snd (rd_expire R k 86400 w2))))"

subsection \<open>The chain\<close>

definition embed_endpoint ::
  "('w, 'z) vendor_net_scheme \<Rightarrow> ai_settings \<Rightarrow> string list \<Rightarrow> vendor_endpoint \<Rightarrow> 'w \<Rightarrow> (call_exn + real list list) \<times> 'w" where
  "embed_endpoint net S texts e w =
     call_with_retry (client_embed net S texts e) (vn_sleep net) (vd_retries e) (vd_backoff e) w"

definition chain_embed ::
  "('w, 'z) vendor_net_scheme \<Rightarrow> ai_settings \<Rightarrow> vendor_endpoint list \<Rightarrow> string list \<Rightarrow> 'w \<Rightarrow> real list list res \<times> 'w" where
  "chain_embed net S eps texts w =
     (if texts = [] then (Inr [], w)
      else (case chain_try (embed_endpoint net S texts) eps w of
              (Inl _, w1) \<Rightarrow> (Inl (Exn ''EmbeddingUnavailable''), w1)
            | (Inr vs, w1) \<Rightarrow> (Inr vs, w1)))"

text \<open>The key of the cache is the primary endpoint's, whoever answers.\<close>

definition primary_key :: "(string \<Rightarrow> string) \<Rightarrow> vendor_endpoint list \<Rightarrow> string \<Rightarrow> string option" where
  "primary_key sha eps text =
     (case eps of [] \<Rightarrow> None | e # _ \<Rightarrow> Some (emb_key sha (vd_model e) (the_or 0 (vd_dims e)) text))"

definition embed_one ::
  "('w, 'z) vendor_net_scheme \<Rightarrow> (string \<Rightarrow> string) \<Rightarrow> ('w, 'x) redis_scheme option \<Rightarrow> ai_settings \<Rightarrow> vendor_endpoint list
     \<Rightarrow> string \<Rightarrow> 'w \<Rightarrow> real list res \<times> 'w" where
  "embed_one net sha redis S eps text w =
     (let k = primary_key sha eps text in
      case Option.bind k (\<lambda>k. emb_get redis k w) of
        Some v \<Rightarrow> (Inr v, w)
      | None \<Rightarrow>
          (case chain_embed net S eps [text] w of
             (Inl e, w1) \<Rightarrow> (Inl e, w1)
           | (Inr [], w1) \<Rightarrow> (Inl (Exn ''IndexError''), w1)
           | (Inr (v # _), w1) \<Rightarrow> (Inr v, case k of None \<Rightarrow> w1 | Some k \<Rightarrow> emb_set redis k v w1)))"

subsection \<open>Properties\<close>

text \<open>A trimmed vector has the configured length and, unless it is null, unit length.\<close>

lemma truncate_mrl_length:
  "0 < dims \<Longrightarrow> length (truncate_mrl vec dims) = min (nat dims) (length vec)"
  by (auto simp: truncate_mrl_def l2_normalize_def Let_def min_def)

lemma l2_normalize_unit:
  assumes "\<exists>x\<in>set vec. x \<noteq> 0"
  shows "sum_list (map (\<lambda>x. x * x) (l2_normalize vec)) = 1"
proof -
  let ?s = "sum_list (map (\<lambda>x. x * x) vec)"
  have nn: "0 \<le> sum_list (map (\<lambda>x. x * x) ys)" for ys :: "real list" by (intro sum_list_nonneg) auto
  have "0 < ?s"
  proof -
    obtain ys x zs where v: "vec = ys @ x # zs" "x \<noteq> 0" using assms by (metis split_list)
    have "0 < x * x" using v(2) by (simp add: zero_less_mult_iff) linarith
    then show ?thesis using nn [of ys] nn [of zs] by (simp add: v(1))
  qed
  have "sum_list (map (\<lambda>x. x * x) (map (\<lambda>x. x / c) ys)) = sum_list (map (\<lambda>x. x * x) ys) / (c * c)"
    for c :: real and ys
    by (induction ys) (simp_all add: add_divide_distrib)
  moreover have "sqrt ?s * sqrt ?s = ?s" using \<open>0 < ?s\<close> by simp
  moreover have "sqrt ?s \<noteq> 0" using \<open>0 < ?s\<close> by simp
  ultimately show ?thesis using \<open>0 < ?s\<close> unfolding l2_normalize_def Let_def by simp
qed

lemma embed_endpoint_once [simp]: "embed_endpoint net S texts e w = client_embed net S texts e w"
proof -
  have "fst (client_embed net S texts e w) = Inl x \<Longrightarrow> \<not> is_retryable_error x" for x
    by (auto simp: client_embed_def unavailable_def Let_def split: if_splits prod.splits sum.splits)
  then show ?thesis
    by (simp add: embed_endpoint_def call_with_retry_def retry_loop.simps split: prod.split sum.split)
qed

text \<open>The retries of an embedding endpoint never happen. The client turns every failure of the call into its
  own exception, which the retry policy does not count as transient: whatever number of retries is
  configured, one call is made.\<close>

theorem embedding_retries_never_happen:
  "embed_endpoint net S texts (e\<lparr>vd_retries := n\<rparr>) w = client_embed net S texts e w"
proof -
  have eq: "embed_reply (e\<lparr>vd_retries := n\<rparr>) = embed_reply e" "embed_request (e\<lparr>vd_retries := n\<rparr>) = embed_request e"
    "vendor_dims S (e\<lparr>vd_retries := n\<rparr>) = vendor_dims S e"
    by (simp_all add: fun_eq_iff embed_reply_def embed_request_def vendor_dims_def)
  show ?thesis unfolding embed_endpoint_once client_embed_def eq ..
qed

lemma push_all_list:
  assumes "redis_list R rd_list" and "\<forall>k v w. fst (rd_rpush R k v w) = Inr ()"
  shows "fst (push_all R k xs w) = Inr () \<and> rd_list k (snd (push_all R k xs w)) = rd_list k w @ map VNum xs"
proof (induction xs arbitrary: w)
  case Nil
  then show ?case by simp
next
  case (Cons x xs)
  obtain w1 where p: "rd_rpush R k (VNum x) w = (Inr (), w1)" using assms(2) by (metis prod.exhaust_sel)
  have "rd_list k w1 = rd_list k w @ [VNum x]"
    using redis_list_laws(1) [OF assms(1), of k "VNum x" w] by (simp add: p)
  with Cons.IH [of w1] show ?case by (simp add: p)
qed

lemma map_res_floats: "map_res py_float (map VNum xs) = Inr xs"
  by (induction xs) simp_all

text \<open>A cleared key reads as the empty list.\<close>

definition delete_clears :: "('w, 'x) redis_scheme \<Rightarrow> (string \<Rightarrow> 'w \<Rightarrow> pyv list) \<Rightarrow> bool" where
  "delete_clears R rd_list \<longleftrightarrow> (\<forall>k w. fst (rd_delete R k w) = Inr () \<and> rd_list k (snd (rd_delete R k w)) = [])"

definition list_reads :: "('w, 'x) redis_scheme \<Rightarrow> bool" where
  "list_reads R \<longleftrightarrow> (\<forall>k a b w. \<not> isl (rd_lrange R k a b w))"

lemma emb_set_get:
  assumes "redis_list R rd_list" "\<forall>k v w. fst (rd_rpush R k v w) = Inr ()" "delete_clears R rd_list"
    "list_reads R" "v \<noteq> []"
  shows "emb_get (Some R) k (emb_set (Some R) k v w) = Some v"
proof -
  obtain w1 where d: "rd_delete R k w = (Inr (), w1)" "rd_list k w1 = []"
    using assms(3) by (metis delete_clears_def prod.exhaust_sel)
  obtain w2 where p: "push_all R k v w1 = (Inr (), w2)" "rd_list k w2 = map VNum v"
    using push_all_list [OF assms(1,2), of k v w1] d(2) by (metis append_Nil prod.exhaust_sel)
  have s: "emb_set (Some R) k v w = snd (rd_expire R k 86400 w2)"
    by (simp add: emb_set_def d(1) p(1) assms(5))
  obtain xs where x: "rd_lrange R k 0 (- 1) (snd (rd_expire R k 86400 w2)) = Inr xs"
    using assms(4) by (metis list_reads_def sum.collapse(2))
  have "xs = redis_range 0 (- 1) (map VNum v)"
    using redis_list_laws(7) [OF assms(1) x] by (simp add: redis_list_laws(8) [OF assms(1)] p(2))
  then have "xs = map VNum v" using assms(5) by (auto simp: redis_range_def Let_def)
  then show ?thesis using assms(5) by (simp add: s emb_get_def x map_res_floats)
qed

text \<open>A failover poisons the embedding cache. When the primary endpoint fails and another model's vector is used
  instead, that vector is stored under the key of the primary's model; every later embedding of the text
  answers it, without any call, also when the primary answers again.\<close>

theorem failover_poisons_embedding_cache:
  assumes "redis_list R rd_list" and "\<forall>k v w. fst (rd_rpush R k v w) = Inr ()" and "delete_clears R rd_list" and "list_reads R"
    and "emb_get (Some R) (emb_key sha (vd_model e) (the_or 0 (vd_dims e)) text) w = None"
    and "client_embed net S [text] e w = (Inl x, w1)" and "chain_embed net S eps [text] w1 = (Inr [v], w2)" and "v \<noteq> []"
  shows "\<exists>w3. embed_one net sha (Some R) S (e # eps) text w = (Inr v, w3) \<and>
    (\<forall>net' S' eps'. embed_one net' sha (Some R) S' (e # eps') text w3 = (Inr v, w3))"
proof -
  let ?k = "emb_key sha (vd_model e) (the_or 0 (vd_dims e)) text"
  let ?w3 = "emb_set (Some R) ?k v w2"
  have "chain_embed net S (e # eps) [text] w = (Inr [v], w2)"
    using assms(7) by (auto simp: chain_embed_def assms(6) split: prod.splits sum.splits)
  then have "embed_one net sha (Some R) S (e # eps) text w = (Inr v, ?w3)"
    by (simp add: embed_one_def primary_key_def Let_def assms(5))
  moreover have "embed_one net' sha (Some R) S' (e # eps') text ?w3 = (Inr v, ?w3)" for net' :: "('a, 'f) vendor_net_scheme" and S' eps'
    by (simp add: embed_one_def primary_key_def Let_def emb_set_get [OF assms(1-4,8)])
  ultimately show ?thesis by blast
qed

definition demo_vendor :: "string \<Rightarrow> vendor_endpoint" where
  "demo_vendor name =
     \<lparr>vd_base = name, vd_key = None, vd_model = name, vd_dims = Some 2, vd_local = True, vd_wire = ''tei'',
      vd_retries = 3, vd_backoff = 250\<rparr>"

text \<open>The endpoint \<open>p\<close> is down, every other one answers a vector.\<close>

definition demo_vendor_net :: "mem vendor_net" where
  "demo_vendor_net =
     \<lparr>vn_post = (\<lambda>url key body w. if url = ''p/embed'' then (Inl ConnectErr, w) else (Inr (VList [VList [VNum 3, VNum 4]]), w)),
      vn_sleep = (\<lambda>t w. w)\<rparr>"

definition demo_vendor_settings :: ai_settings where
  "demo_vendor_settings =
     \<lparr>st_frontier_enabled = False, st_frontier_url = None, st_frontier_key = None, st_frontier_model = None,
      st_llm_url = ''l'', st_llm_model = ''m'', st_embeddings_url = ''e'', st_embedding_model = ''v'',
      st_embedding_dims = 2, st_reranker_url = None, st_reranker_model = ''r''\<rparr>"

theorem failover_poisons_embedding_cache_witness:
  "\<exists>w3. embed_one demo_vendor_net (\<lambda>s. s) (Some mem_redis) demo_vendor_settings [demo_vendor ''p'', demo_vendor ''q''] ''x'' mem_empty
      = (Inr [3, 4], w3) \<and>
    embed_one demo_vendor_net (\<lambda>s. s) (Some mem_redis) demo_vendor_settings [demo_vendor ''p''] ''x'' w3 = (Inr [3, 4], w3)"
proof -
  let ?S = demo_vendor_settings
  have m: "\<forall>k v w. fst (rd_rpush mem_redis k v w) = Inr ()" "delete_clears mem_redis mem_list" "list_reads mem_redis"
    by (simp_all add: mem_redis_def delete_clears_def list_reads_def mem_list_def)
  have g: "emb_get (Some mem_redis) k mem_empty = None" for k
    by (simp add: emb_get_def mem_redis_def mem_empty_def mem_list_def redis_range_def)
  have url: "embed_request (demo_vendor n) ts = (n @ ''/embed'', None, [(''inputs'', VList (map VStr ts))])"
    if "n = ''p'' \<or> n = ''q''" for n ts
    using that by (auto simp: embed_request_def demo_vendor_def rstrip_char_def)
  have p: "client_embed demo_vendor_net ?S [''x''] (demo_vendor ''p'') mem_empty = (Inl unavailable, mem_empty)"
    by (simp add: client_embed_def url demo_vendor_net_def)
  have v: "embed_reply (demo_vendor n) r = Inr r" "vendor_dims ?S (demo_vendor n) = 2" for n r
    by (simp_all add: embed_reply_def vendor_dims_def demo_vendor_def)
  have "client_embed demo_vendor_net ?S [''x''] (demo_vendor ''q'') mem_empty = (Inr [[3, 4]], mem_empty)"
    by (simp add: client_embed_def url v demo_vendor_net_def py_iter_def vector_of_def truncate_mrl_def)
  then have q: "chain_embed demo_vendor_net ?S [demo_vendor ''q''] [''x''] mem_empty = (Inr [[3, 4]], mem_empty)"
    by (simp add: chain_embed_def)
  from failover_poisons_embedding_cache [OF mem_redis_list m g p q] show ?thesis by blast
qed

end
