(* ===== verification/Search.thy ===== *)
theory Search
  imports Embedding
begin

text \<open>
  Catalogue search, under \<open>packages/acip_search\<close>: the tenant-scoped query builder (\<open>query.py\<close>),
  suggestions (\<open>suggest.py\<close>), the log of searches without result (\<open>zero_result.py\<close>), the reranker
  (\<open>reranker.py\<close>) and the service that joins them (\<open>retrieval.py\<close>). Elasticsearch is a parameter; what
  the isolation theorem needs of it is \<open>es_respects\<close>: a hit is a projection of a document that satisfies
  the filter of one of the query's legs.
\<close>

subsection \<open>The query builder\<close>

definition tenant_term :: "tenant \<Rightarrow> pyv" where
  "tenant_term t = VDict [(''term'', VDict [(''tenant_id'', VStr t)])]"

definition search_fields :: "pyv" where
  "search_fields = VList [VStr ''title^3'', VStr ''brand^2'', VStr ''description'']"

definition search_source :: "string list" where
  "search_source = [''product_id'', ''title'', ''brand'', ''price'', ''in_stock'', ''categories'']"

definition price_range :: "pyv \<Rightarrow> pyv list" where
  "price_range price =
     (case price of
        VDict d \<Rightarrow>
          (let rng = filter (\<lambda>(k, v). v \<noteq> VNone) (map (\<lambda>k. (k, dict_get d k)) [''gte'', ''lte''])
           in if rng = [] then [] else [VDict [(''range'', VDict [(''price'', VDict rng)])]])
      | _ \<Rightarrow> [])"

definition normalise_filters :: "tenant \<Rightarrow> py_dict option \<Rightarrow> pyv list" where
  "normalise_filters t filters =
     (let f = the_or [] filters; cats = dict_get f ''categories''; brand = dict_get f ''brand'';
          stock = dict_get f ''in_stock''
      in [tenant_term t] @
         (if cats = VNone then []
          else [VDict [(''terms'', VDict [(''categories'', case cats of VList _ \<Rightarrow> cats | _ \<Rightarrow> VList [cats])])]]) @
         (if brand = VNone then [] else [VDict [(''term'', VDict [(''brand'', brand)])]]) @
         (if stock = VNone then [] else [VDict [(''term'', VDict [(''in_stock'', VBool (truthy stock))])]]) @
         price_range (dict_get f ''price''))"

record search_cfg =
  sc_size :: int
  sc_rerank :: bool
  sc_window :: int
  sc_model :: string
  sc_rank_constant :: int
  sc_rank_window :: int
  sc_knn_k :: int
  sc_knn_candidates :: int

definition bm25_leg :: "string \<Rightarrow> pyv list \<Rightarrow> pyv" where
  "bm25_leg text clauses =
     VDict [(''standard'', VDict [(''query'', VDict [(''bool'', VDict
       [(''must'', VList [VDict [(''multi_match'', VDict
           [(''query'', VStr text), (''fields'', search_fields), (''type'', VStr ''best_fields'')])]]),
        (''filter'', VList clauses)])])])]"

definition knn_leg :: "search_cfg \<Rightarrow> real list \<Rightarrow> pyv list \<Rightarrow> pyv" where
  "knn_leg c vector clauses =
     VDict [(''knn'', VDict
       [(''field'', VStr ''embedding''), (''query_vector'', VList (map VNum vector)), (''k'', VInt (sc_knn_k c)),
        (''num_candidates'', VInt (sc_knn_candidates c)), (''filter'', VList clauses)])]"

definition fused_legs :: "search_cfg \<Rightarrow> pyv list \<Rightarrow> pyv" where
  "fused_legs c legs =
     (if length legs = 1 then hd legs
      else VDict [(''rrf'', VDict [(''retrievers'', VList legs), (''rank_constant'', VInt (sc_rank_constant c)),
                                   (''rank_window_size'', VInt (sc_rank_window c))])])"

definition reranked :: "search_cfg \<Rightarrow> string \<Rightarrow> pyv \<Rightarrow> pyv" where
  "reranked c text inner =
     VDict [(''text_similarity_reranker'', VDict
       [(''retriever'', inner), (''rank_window_size'', VInt (sc_window c)), (''field'', VStr ''title''),
        (''inference_id'', VStr (sc_model c)), (''inference_text'', VStr text)])]"

definition build_hybrid_query ::
  "search_cfg \<Rightarrow> tenant \<Rightarrow> string \<Rightarrow> real list option \<Rightarrow> py_dict option \<Rightarrow> int \<Rightarrow> bool \<Rightarrow> py_dict res" where
  "build_hybrid_query c t text vector filters n rerank =
     (if t = [] then Inl (Exn ''MissingTenantError'')
      else
        let clauses = normalise_filters t filters;
            legs = bm25_leg text clauses # (case vector of None \<Rightarrow> [] | Some v \<Rightarrow> [knn_leg c v clauses]);
            inner = fused_legs c legs
        in Inr [(''retriever'', if rerank then reranked c text inner else inner), (''size'', VInt n),
                (''_source'', VList (map VStr search_source))])"

definition build_suggest_query :: "tenant \<Rightarrow> string \<Rightarrow> int \<Rightarrow> py_dict res" where
  "build_suggest_query t pre n =
     (if t = [] then Inl (Exn ''ValueError'')
      else Inr
        [(''size'', VInt n), (''_source'', VList [VStr ''product_id'', VStr ''title'']),
         (''query'', VDict [(''bool'', VDict
           [(''must'', VList [VDict [(''multi_match'', VDict
               [(''query'', VStr pre), (''type'', VStr ''bool_prefix''),
                (''fields'', VList [VStr ''title.suggest'', VStr ''title.suggest._2gram'', VStr ''title.suggest._3gram''])])]]),
            (''filter'', VList [tenant_term t])])])])"

subsection \<open>Hits\<close>

type_synonym 'w es_search = "py_dict \<Rightarrow> 'w \<Rightarrow> pyv res \<times> 'w"

definition hits_of :: "pyv \<Rightarrow> pyv list res" where
  "hits_of resp = bind_res (py_item ''hits'' resp) (\<lambda>h. bind_res (py_item ''hits'' h) py_iter)"

definition hit_source :: "pyv \<Rightarrow> py_dict res" where
  "hit_source h = bind_res (py_item ''_source'' h) (\<lambda>s. case s of VDict d \<Rightarrow> Inr d | _ \<Rightarrow> Inl (Exn ''TypeError''))"

definition hit_result :: "pyv \<Rightarrow> py_dict res" where
  "hit_result h =
     bind_res (hit_source h) (\<lambda>d. Inr (dict_set ''score'' (case h of VDict x \<Rightarrow> dict_get x ''_score'' | _ \<Rightarrow> VNone) d))"

definition suggestion :: "pyv \<Rightarrow> py_dict res" where
  "suggestion h =
     bind_res (hit_source h) (\<lambda>d. Inr [(''product_id'', dict_get d ''product_id''), (''title'', dict_get d ''title'')])"

definition suggest :: "'w es_search \<Rightarrow> tenant \<Rightarrow> string \<Rightarrow> int \<Rightarrow> 'w \<Rightarrow> py_dict list res \<times> 'w" where
  "suggest es t pre n w =
     (case build_suggest_query t pre n of
        Inl e \<Rightarrow> (Inl e, w)
      | Inr body \<Rightarrow>
          (case es body w of
             (Inl e, w1) \<Rightarrow> (Inl e, w1)
           | (Inr resp, w1) \<Rightarrow> (bind_res (hits_of resp) (map_res suggestion), w1)))"

subsection \<open>Searches without result\<close>

definition zero_key :: "tenant \<Rightarrow> string" where "zero_key t = ''zero_result:'' @ t"

definition max_zero_results :: nat where "max_zero_results = 1000"

definition log_zero_result :: "('w, 'x) redis_scheme option \<Rightarrow> tenant \<Rightarrow> string \<Rightarrow> 'w \<Rightarrow> 'w" where
  "log_zero_result redis t query w =
     (case redis of
        None \<Rightarrow> w
      | Some R \<Rightarrow>
          (case rd_lpush R (zero_key t) (VStr query) w of
             (Inl _, w1) \<Rightarrow> w1
           | (Inr _, w1) \<Rightarrow> snd (rd_ltrim R (zero_key t) 0 (int max_zero_results - 1) w1)))"

subsection \<open>Reranking\<close>

definition rerank_request :: "vendor_endpoint \<Rightarrow> string \<Rightarrow> string list \<Rightarrow> string \<times> py_dict" where
  "rerank_request e query docs =
     (rstrip_char (CHR ''/'') (vd_base e) @ ''/rerank'',
      if vd_wire e = ''cohere'' then
        [(''model'', VStr (vd_model e)), (''query'', VStr query), (''documents'', VList (map VStr docs)),
         (''top_n'', VInt (int (length docs)))]
      else [(''query'', VStr query), (''texts'', VList (map VStr docs)), (''return_text'', VBool False)])"

definition rerank_score :: "string \<Rightarrow> pyv \<Rightarrow> (pyv \<times> real) res" where
  "rerank_score field r =
     bind_res (py_item ''index'' r) (\<lambda>i.
     bind_res (py_float (case r of VDict d \<Rightarrow> dict_get_or d field (VNum 0) | _ \<Rightarrow> VNone)) (\<lambda>s. Inr (i, s)))"

definition rerank_scores :: "vendor_endpoint \<Rightarrow> pyv \<Rightarrow> (pyv \<times> real) list res" where
  "rerank_scores e body =
     (if vd_wire e = ''cohere'' then
        (case body of
           VDict d \<Rightarrow> bind_res (py_iter (dict_get_or d ''results'' (VList []))) (map_res (rerank_score ''relevance_score''))
         | _ \<Rightarrow> Inl (Exn ''AttributeError''))
      else bind_res (py_iter body) (map_res (rerank_score ''score'')))"

definition best_first :: "(pyv \<times> real) list \<Rightarrow> pyv list" where
  "best_first scored = map fst (sort_key (\<lambda>t. - snd t) scored)"

definition rerank_call ::
  "('w, 'z) vendor_net_scheme \<Rightarrow> string \<Rightarrow> string list \<Rightarrow> vendor_endpoint \<Rightarrow> 'w \<Rightarrow> (call_exn + pyv list) \<times> 'w" where
  "rerank_call net query docs e w =
     (let (url, body) = rerank_request e query docs in
      case vn_post net url (nonempty (vd_key e)) body w of
        (Inl x, w1) \<Rightarrow> (Inl x, w1)
      | (Inr reply, w1) \<Rightarrow>
          (case rerank_scores e reply of
             Inl x \<Rightarrow> (Inl (CallExn (exn_msg x)), w1)
           | Inr scored \<Rightarrow> (Inr (best_first scored), w1)))"

definition identity_order :: "'a list \<Rightarrow> pyv list" where
  "identity_order docs = map (\<lambda>i. VInt (int i)) [0..<length docs]"

definition chain_rerank ::
  "('w, 'z) vendor_net_scheme \<Rightarrow> vendor_endpoint list \<Rightarrow> string \<Rightarrow> string list \<Rightarrow> 'w \<Rightarrow> pyv list \<times> 'w" where
  "chain_rerank net eps query docs w =
     (if docs = [] then ([], w)
      else (case chain_try (\<lambda>e. call_with_retry (rerank_call net query docs e) (vn_sleep net) (vd_retries e) (vd_backoff e)) eps w of
              (Inr order, w1) \<Rightarrow> (order, w1)
            | (Inl _, w1) \<Rightarrow> (identity_order docs, w1)))"

text \<open>\<open>results[i]\<close> for the \<open>i\<close> below the length; a negative index counts from the end.\<close>

definition pick_index :: "'a list \<Rightarrow> pyv \<Rightarrow> 'a list res" where
  "pick_index xs v =
     (case (case v of VInt i \<Rightarrow> Inr (of_int i) | VBool b \<Rightarrow> Inr (if b then 1 else 0) | VNum x \<Rightarrow> Inr x
            | _ \<Rightarrow> Inl (Exn ''TypeError'')) of
        Inl e \<Rightarrow> Inl e
      | Inr x \<Rightarrow>
          if real (length xs) \<le> x then Inr []
          else (case v of
                  VNum _ \<Rightarrow> Inl (Exn ''TypeError'')
                | _ \<Rightarrow> if 0 \<le> x then Inr [xs ! nat \<lfloor>x\<rfloor>]
                       else if - x \<le> real (length xs) then Inr [xs ! nat (int (length xs) + \<lfloor>x\<rfloor>)]
                       else Inl (Exn ''IndexError'')))"

fun reorder :: "'a list \<Rightarrow> pyv list \<Rightarrow> 'a list res" where
  "reorder xs [] = Inr []"
| "reorder xs (v # vs) = bind_res (pick_index xs v) (\<lambda>x. bind_res (reorder xs vs) (\<lambda>ys. Inr (x @ ys)))"

subsection \<open>The service\<close>

record 'w search_service =
  sv_es :: "'w es_search"
  sv_embed :: "(string \<Rightarrow> 'w \<Rightarrow> real list res \<times> 'w) option"
  sv_redis :: "'w redis option"
  sv_meter :: "(tenant \<Rightarrow> int \<Rightarrow> 'w \<Rightarrow> unit res \<times> 'w) option"
  sv_reranker :: "(('w \<Rightarrow> bool \<times> 'w) \<times> (string \<Rightarrow> string list \<Rightarrow> 'w \<Rightarrow> pyv list \<times> 'w)) option"
  sv_cfg :: search_cfg

record search_reply =
  sr_results :: "py_dict list"
  sr_count :: nat
  sr_lexical :: bool
  sr_latency :: int

definition query_vector :: "'w search_service \<Rightarrow> string \<Rightarrow> 'w \<Rightarrow> real list option \<times> 'w" where
  "query_vector V text w =
     (case sv_embed V of
        None \<Rightarrow> (None, w)
      | Some f \<Rightarrow> (case f text w of (Inl _, w1) \<Rightarrow> (None, w1) | (Inr v, w1) \<Rightarrow> (Some v, w1)))"

definition rerank_doc :: "(pyv \<Rightarrow> string) \<Rightarrow> py_dict \<Rightarrow> string" where
  "rerank_doc repr r =
     py_join ('' '' @ [CHR 0xE2, CHR 0x80, CHR 0x94] @ '' '') (filter (\<lambda>p. p \<noteq> [])
       [py_str repr (dict_get_or r ''title'' (VStr [])), py_take 300 (py_str repr (dict_get_or r ''description'' (VStr [])))])"

definition rerank_results ::
  "'w search_service \<Rightarrow> (pyv \<Rightarrow> string) \<Rightarrow> bool \<Rightarrow> string \<Rightarrow> py_dict list \<Rightarrow> 'w \<Rightarrow> py_dict list res \<times> 'w" where
  "rerank_results V repr app text results w =
     (case sv_reranker V of
        Some (_, rr) \<Rightarrow>
          if app \<and> 1 < length results then
            (let (order, w1) = rr text (map (rerank_doc repr) results) w in (reorder results order, w1))
          else (Inr results, w)
      | None \<Rightarrow> (Inr results, w))"

definition finish_search ::
  "'w search_service \<Rightarrow> tenant \<Rightarrow> string \<Rightarrow> bool \<Rightarrow> int \<Rightarrow> py_dict list \<Rightarrow> 'w \<Rightarrow> search_reply res \<times> 'w" where
  "finish_search V t text lexical lat results w =
     (let w1 = (if results = [] then log_zero_result (sv_redis V) t text w else w);
          (m, w2) = (case sv_meter V of None \<Rightarrow> (Inr (), w1) | Some M \<Rightarrow> M t lat w1)
      in (bind_res m (\<lambda>_. Inr \<lparr>sr_results = results, sr_count = length results, sr_lexical = lexical,
                                sr_latency = lat\<rparr>), w2))"

definition search ::
  "'w search_service \<Rightarrow> (pyv \<Rightarrow> string) \<Rightarrow> int \<Rightarrow> tenant \<Rightarrow> string \<Rightarrow> py_dict option \<Rightarrow> int option \<Rightarrow> bool option
     \<Rightarrow> 'w \<Rightarrow> search_reply res \<times> 'w" where
  "search V repr lat t text filters n rerank w =
     (let c = sv_cfg V; n' = (if the_or 0 n = 0 then sc_size c else the n); rk = the_or (sc_rerank c) rerank;
          (app, w1) = (case sv_reranker V of None \<Rightarrow> (False, w) | Some (has_chain, _) \<Rightarrow> has_chain w);
          (vector, w2) = query_vector V text w1
      in case build_hybrid_query c t text vector filters n' (rk \<and> \<not> app) of
           Inl e \<Rightarrow> (Inl e, w2)
         | Inr body \<Rightarrow>
             (case sv_es V body w2 of
                (Inl e, w3) \<Rightarrow> (Inl e, w3)
              | (Inr resp, w3) \<Rightarrow>
                  (case bind_res (hits_of resp) (map_res hit_result) of
                     Inl e \<Rightarrow> (Inl e, w3)
                   | Inr results0 \<Rightarrow>
                       (case rerank_results V repr app text results0 w3 of
                          (Inl e, w4) \<Rightarrow> (Inl e, w4)
                        | (Inr results, w4) \<Rightarrow> finish_search V t text (vector = None) lat results w4))))"

text \<open>The service as \<open>services/api/runtime.py\<close> wires it: \<open>snap\<close> reads the registry.\<close>

definition runtime_search ::
  "'w es_search \<Rightarrow> ('w, 'z) vendor_net_scheme \<Rightarrow> (string \<Rightarrow> string) \<Rightarrow> 'w redis option \<Rightarrow> ai_settings
     \<Rightarrow> ('w \<Rightarrow> snapshot \<times> 'w) \<Rightarrow> (tenant \<Rightarrow> int \<Rightarrow> 'w \<Rightarrow> unit res \<times> 'w) \<Rightarrow> search_cfg \<Rightarrow> 'w search_service" where
  "runtime_search es net sha redis S snap meter c =
     \<lparr>sv_es = es,
      sv_embed = Some (\<lambda>text w. let (s, w1) = snap w in embed_one net sha redis S (embedding_chain S s) text w1),
      sv_redis = redis, sv_meter = Some meter,
      sv_reranker = Some (\<lambda>w. (let (s, w1) = snap w in (sn_rerank s \<noteq> [], w1)),
        \<lambda>q docs w. let (s, w1) = snap w in chain_rerank net (rerank_chain S s) q docs w1),
      sv_cfg = c\<rparr>"

subsection \<open>Tenant isolation\<close>

text \<open>
  The reading of a query: a retriever is a disjunction of legs, a leg a conjunction of filter clauses.
  Of the clauses only \<open>term\<close> is read here, which is what isolation rests on.
\<close>

definition sub :: "string \<Rightarrow> pyv \<Rightarrow> pyv" where
  "sub k v = (case v of VDict d \<Rightarrow> dict_get d k | _ \<Rightarrow> VNone)"

fun items_of :: "pyv \<Rightarrow> pyv list" where
  "items_of (VList vs) = vs"
| "items_of _ = []"

definition clause_ok :: "py_dict \<Rightarrow> pyv \<Rightarrow> bool" where
  "clause_ok doc c = (case sub ''term'' c of VDict [(f, v)] \<Rightarrow> dict_get doc f = v | _ \<Rightarrow> True)"

definition retriever_legs :: "pyv \<Rightarrow> pyv list" where
  "retriever_legs r =
     (let inner = (if sub ''text_similarity_reranker'' r = VNone then r else sub ''retriever'' (sub ''text_similarity_reranker'' r))
      in if sub ''rrf'' inner = VNone then [inner] else items_of (sub ''retrievers'' (sub ''rrf'' inner)))"

definition leg_clauses :: "pyv \<Rightarrow> pyv list" where
  "leg_clauses leg =
     items_of (if sub ''knn'' leg = VNone then sub ''filter'' (sub ''bool'' (sub ''query'' (sub ''standard'' leg)))
               else sub ''filter'' (sub ''knn'' leg))"

definition admits :: "py_dict \<Rightarrow> py_dict \<Rightarrow> bool" where
  "admits body doc \<longleftrightarrow>
     (if dict_get body ''retriever'' = VNone then
        (\<forall>c\<in>set (items_of (sub ''filter'' (sub ''bool'' (dict_get body ''query'')))). clause_ok doc c)
      else (\<exists>leg\<in>set (retriever_legs (dict_get body ''retriever'')). \<forall>c\<in>set (leg_clauses leg). clause_ok doc c))"

text \<open>\<open>x\<close> shows nothing of other fields than \<open>doc\<close> has.\<close>

definition projection_of :: "py_dict \<Rightarrow> py_dict \<Rightarrow> string set \<Rightarrow> bool" where
  "projection_of x doc extra \<longleftrightarrow> (\<forall>k v. k \<notin> extra \<longrightarrow> map_of x k = Some v \<longrightarrow> map_of doc k = Some v)"

definition es_respects :: "'w es_search \<Rightarrow> py_dict set \<Rightarrow> bool" where
  "es_respects es docs \<longleftrightarrow>
     (\<forall>body w resp w1 hs h src. es body w = (Inr resp, w1) \<longrightarrow> hits_of resp = Inr hs \<longrightarrow> h \<in> set hs \<longrightarrow>
        hit_source h = Inr src \<longrightarrow> (\<exists>doc\<in>docs. admits body doc \<and> projection_of src doc {}))"

definition of_tenant :: "tenant \<Rightarrow> py_dict \<Rightarrow> bool" where
  "of_tenant t doc \<longleftrightarrow> dict_get doc ''tenant_id'' = VStr t"

lemma tenant_term_ok: "clause_ok doc (tenant_term t) \<longleftrightarrow> of_tenant t doc"
  by (simp add: clause_ok_def tenant_term_def sub_def dict_get_def of_tenant_def)

lemma tenant_term_in: "tenant_term t \<in> set (normalise_filters t filters)"
  by (simp add: normalise_filters_def Let_def)

lemma leg_clauses_simps [simp]:
  "leg_clauses (bm25_leg text cs) = cs" "leg_clauses (knn_leg c v cs) = cs"
  by (simp_all add: leg_clauses_def bm25_leg_def knn_leg_def sub_def dict_get_def)

lemma hybrid_query_admits:
  assumes "build_hybrid_query c t text vector filters n rerank = Inr body" "admits body doc"
  shows "of_tenant t doc"
proof -
  let ?cs = "normalise_filters t filters"
  let ?legs = "bm25_leg text ?cs # (case vector of None \<Rightarrow> [] | Some v \<Rightarrow> [knn_leg c v ?cs])"
  let ?inner = "fused_legs c ?legs"
  have plain: "sub ''text_similarity_reranker'' ?inner = VNone"
    by (auto simp: fused_legs_def bm25_leg_def sub_def dict_get_def split: option.splits)
  have inner: "(if sub ''rrf'' ?inner = VNone then [?inner] else items_of (sub ''retrievers'' (sub ''rrf'' ?inner))) = ?legs"
    by (cases vector) (auto simp: fused_legs_def bm25_leg_def sub_def dict_get_def)
  have r: "dict_get body ''retriever'' = (if rerank then reranked c text ?inner else ?inner)"
    using assms(1) by (auto simp: build_hybrid_query_def Let_def dict_get_def split: if_splits)
  have legs: "retriever_legs (dict_get body ''retriever'') = ?legs"
    unfolding r using plain inner
    by (cases rerank) (auto simp: retriever_legs_def Let_def reranked_def sub_def dict_get_def)
  have "dict_get body ''retriever'' \<noteq> VNone"
    unfolding r by (auto simp: reranked_def fused_legs_def bm25_leg_def split: option.splits)
  with assms(2) have "\<exists>leg\<in>set ?legs. \<forall>c\<in>set (leg_clauses leg). clause_ok doc c"
    unfolding admits_def legs by (simp only: if_False)
  then obtain leg where l: "leg \<in> set ?legs" "\<forall>c\<in>set (leg_clauses leg). clause_ok doc c" by blast
  from l(1) have "leg_clauses leg = ?cs" by (auto split: option.splits)
  with l(2) tenant_term_in [of t filters] show ?thesis by (simp flip: tenant_term_ok)
qed

lemma map_res_set: "map_res f xs = Inr ys \<Longrightarrow> y \<in> set ys \<Longrightarrow> \<exists>x\<in>set xs. f x = Inr y"
proof (induction xs arbitrary: ys)
  case (Cons x xs)
  then show ?case by (cases "f x"; cases "map_res f xs") auto
qed simp

lemma pick_index_set: "pick_index xs v = Inr ys \<Longrightarrow> set ys \<subseteq> set xs"
proof -
  have *: "xs ! nat (int (length xs) + \<lfloor>x\<rfloor>) \<in> set xs" if "x < 0" "- x \<le> real (length xs)" for x :: real
  proof -
    have "0 \<le> int (length xs) + \<lfloor>x\<rfloor>" using that(2) by linarith
    moreover have "\<lfloor>x\<rfloor> < 0" using that(1) by linarith
    ultimately show ?thesis by (intro nth_mem) linarith
  qed
  have **: "xs ! nat \<lfloor>x\<rfloor> \<in> set xs" if "0 \<le> x" "x < real (length xs)" for x :: real
    using that by (intro nth_mem) linarith
  show "pick_index xs v = Inr ys \<Longrightarrow> set ys \<subseteq> set xs"
    using * ** by (auto simp: pick_index_def split: pyv.splits if_splits sum.splits)
qed

lemma reorder_set: "reorder xs vs = Inr ys \<Longrightarrow> set ys \<subseteq> set xs"
proof (induction vs arbitrary: ys)
  case (Cons v vs)
  then obtain b bs where "pick_index xs v = Inr b" "reorder xs vs = Inr bs" "ys = b @ bs"
    by (cases "pick_index xs v"; cases "reorder xs vs") auto
  with Cons.IH pick_index_set show ?case by fastforce
qed simp

lemma rerank_results_set:
  "rerank_results V repr app text results w = (Inr ys, w1) \<Longrightarrow> set ys \<subseteq> set results"
  by (auto simp: rerank_results_def split: option.splits prod.splits if_splits dest: reorder_set)

lemma finish_search_results:
  "finish_search V t text lexical lat results w = (Inr r, w1) \<Longrightarrow> sr_results r = results"
  by (auto simp: finish_search_def Let_def split: prod.splits option.splits elim!: bind_res.elims)

lemma search_isolated:
  assumes "es_respects (sv_es V) docs" and "search V repr lat t text filters n rerank w = (Inr r, w1)"
  shows "\<forall>x\<in>set (sr_results r). \<exists>doc\<in>docs. of_tenant t doc \<and> projection_of x doc {''score''}"
proof
  fix x assume x: "x \<in> set (sr_results r)"
  from assms(2) obtain vector n' rk body w2 resp w3 hs results0 w4 where
    b: "build_hybrid_query (sv_cfg V) t text vector filters n' rk = Inr body" and
    e: "sv_es V body w2 = (Inr resp, w3)" and h: "bind_res (hits_of resp) (map_res hit_result) = Inr results0" and
    rr: "\<exists>app. rerank_results V repr app text results0 w3 = (Inr (sr_results r), w4)"
    by (auto simp: search_def Let_def split: prod.splits sum.splits dest!: finish_search_results) blast+
  from rr x have "x \<in> set results0" using rerank_results_set by fastforce
  with h obtain hs hit where hit: "hits_of resp = Inr hs" "hit \<in> set hs" "hit_result hit = Inr x"
    by (cases "hits_of resp") (auto dest: map_res_set)
  from hit(3) obtain src v where src: "hit_source hit = Inr src" "x = dict_set ''score'' v src"
    by (cases "hit_source hit") (auto simp: hit_result_def)
  from assms(1) e hit(1,2) src(1) obtain doc where doc: "doc \<in> docs" "admits body doc" "projection_of src doc {}"
    unfolding es_respects_def by blast
  have "projection_of x doc {''score''}" using doc(3) by (auto simp: projection_of_def src(2))
  with doc(1) hybrid_query_admits [OF b doc(2)] show "\<exists>doc\<in>docs. of_tenant t doc \<and> projection_of x doc {''score''}" by blast
qed

lemma suggest_isolated:
  assumes "es_respects es docs" "suggest es t pre n w = (Inr xs, w1)"
  shows "\<forall>x\<in>set xs. \<exists>doc\<in>docs. of_tenant t doc \<and> (\<forall>k. dict_get x k \<in> {VNone, dict_get doc k})"
proof
  fix x assume "x \<in> set xs"
  with assms(2) obtain body resp w' hs hit where b: "build_suggest_query t pre n = Inr body" and e: "es body w = (Inr resp, w')"
    and hit: "hits_of resp = Inr hs" "hit \<in> set hs" "suggestion hit = Inr x"
    by (auto simp: suggest_def split: sum.splits prod.splits elim!: bind_res.elims dest: map_res_set [OF sym])
  from hit(3) obtain src where src: "hit_source hit = Inr src"
      "x = [(''product_id'', dict_get src ''product_id''), (''title'', dict_get src ''title'')]"
    by (cases "hit_source hit") (auto simp: suggestion_def)
  from assms(1) e hit(1,2) src(1) obtain doc where doc: "doc \<in> docs" "admits body doc" "projection_of src doc {}"
    unfolding es_respects_def by blast
  have "of_tenant t doc"
    using doc(2) b by (auto simp: admits_def build_suggest_query_def dict_get_def sub_def tenant_term_ok split: if_splits)
  moreover have "dict_get x k \<in> {VNone, dict_get doc k}" for k
  proof -
    have "dict_get src f \<in> {VNone, dict_get doc f}" for f
      using doc(3) by (cases "map_of src f") (auto simp: projection_of_def dict_get_def)
    then show ?thesis by (auto simp: src(2) dict_get_def [of "_ # _"])
  qed
  ultimately show "\<exists>doc\<in>docs. of_tenant t doc \<and> (\<forall>k. dict_get x k \<in> {VNone, dict_get doc k})" using doc(1) by blast
qed

text \<open>C22: Search is isolated by tenant: every result of a search shows only fields of a document of the tenant that
  asked, whatever the query, the filters a client sent, the vector leg, the reranking on either side and
  the order the reranker answered; so does every suggestion.\<close>

theorem search_tenant_isolated:
  assumes "es_respects (sv_es V) docs" and "search V repr lat t text filters n rerank w = (Inr r, w1)"
    and "suggest (sv_es V) t pre k w2 = (Inr xs, w3)"
  shows "(\<forall>x\<in>set (sr_results r). \<exists>doc\<in>docs. of_tenant t doc \<and> projection_of x doc {''score''}) \<and>
    (\<forall>x\<in>set xs. \<exists>doc\<in>docs. of_tenant t doc \<and> (\<forall>f. dict_get x f \<in> {VNone, dict_get doc f}))"
  using search_isolated [OF assms(1,2)] suggest_isolated [OF assms(1,3)] by simp

subsection \<open>Degradation\<close>

lemma retry_loop_fails:
  "(\<And>w. isl (fst (fn w))) \<Longrightarrow> isl (fst (retry_loop fn sleep m a d w))"
proof (induction fn sleep m a d w rule: retry_loop.induct)
  case (1 fn sleep m a d w)
  obtain e w1 where "fn w = (Inl e, w1)" using "1.prems" [of w] by (metis isl_def prod.collapse)
  with 1 show ?case by (subst retry_loop.simps) simp
qed

lemma chain_try_fails:
  "(\<And>e w. isl (fst (call e w))) \<Longrightarrow> isl (fst (chain_try call eps w))"
proof (induction eps arbitrary: w)
  case (Cons e eps)
  obtain x w1 where "call e w = (Inl x, w1)" using Cons.prems [of e w] by (metis isl_def prod.collapse)
  with Cons.IH [OF Cons.prems, of w1] show ?case by simp
qed simp

lemma reorder_shift:
  "k + length vs = length xs \<Longrightarrow> vs = drop k xs \<Longrightarrow> reorder xs (map (\<lambda>i. VInt (int i)) [k..<length xs]) = Inr vs"
proof (induction vs arbitrary: k)
  case Nil
  then show ?case by simp
next
  case (Cons v vs)
  from Cons.prems(1) have "k < length xs" by simp
  then have up: "[k..<length xs] = k # [Suc k..<length xs]" by (simp add: upt_conv_Cons)
  have "v = xs ! k" "vs = drop (Suc k) xs"
    using Cons.prems(2) \<open>k < length xs\<close> by (metis Cons_nth_drop_Suc list.inject)+
  moreover have "reorder xs (map (\<lambda>i. VInt (int i)) [Suc k..<length xs]) = Inr vs"
    using Cons.prems(1) calculation(2) by (intro Cons.IH) auto
  ultimately show ?case using \<open>k < length xs\<close> by (simp add: up pick_index_def)
qed

lemma reorder_identity: "reorder xs (identity_order docs) = Inr xs" if "length docs = length xs"
  using reorder_shift [of 0 xs xs] that by (simp add: identity_order_def)

definition vendors_down :: "('w, 'z) vendor_net_scheme \<Rightarrow> bool" where
  "vendors_down net \<longleftrightarrow> (\<forall>u k b w. isl (fst (vn_post net u k b w)))"

lemma embed_down:
  assumes "vendors_down net"
  shows "isl (fst (embed_one net sha None S eps text w))"
proof -
  have "isl (fst (embed_endpoint net S [text] e w))" for e w
    using assms by (auto simp: vendors_down_def client_embed_def Let_def isl_def split: prod.splits sum.splits) (metis fst_conv sum.disc(2) isl_def)+
  then have "isl (fst (chain_embed net S eps [text] w))"
    using chain_try_fails [of "embed_endpoint net S [text]" eps w]
    by (auto simp: chain_embed_def split: prod.splits sum.splits)
  then show ?thesis
    by (auto simp: embed_one_def emb_get_def isl_def Let_def split: prod.splits sum.splits option.splits list.splits)
qed

lemma rerank_down:
  assumes "vendors_down net"
  shows "fst (chain_rerank net eps q docs w) = identity_order docs"
proof -
  have "isl (fst (rerank_call net q docs e w))" for e w
    using assms by (auto simp: vendors_down_def rerank_call_def Let_def isl_def split: prod.splits sum.splits) (metis fst_conv sum.disc(2) isl_def)+
  then have "isl (fst (chain_try (\<lambda>e. call_with_retry (rerank_call net q docs e) (vn_sleep net) (vd_retries e) (vd_backoff e)) eps w))"
    by (intro chain_try_fails) (simp add: call_with_retry_def retry_loop_fails)
  then show ?thesis
    by (auto simp: chain_rerank_def identity_order_def split: prod.splits sum.splits)
qed

lemma degraded_search:
  fixes w :: 'w
  assumes "vendors_down net" and "t \<noteq> []"
    and "\<And>body w. fst (es body w) = Inr resp" and "bind_res (hits_of resp) (map_res hit_result) = Inr rs"
    and "\<And>w. fst (meter t lat w) = Inr ()"
  shows "\<exists>r w1. search (runtime_search es net sha None S snap meter c) repr lat t text filters n rerank w = (Inr r, w1) \<and>
    sr_results r = rs \<and> sr_lexical r"
proof -
  let ?V = "runtime_search es net sha None S snap meter c"
  have q: "\<exists>w2. query_vector ?V text w = (None, w2)" for w
  proof -
    obtain s w1 where sn: "snap w = (s, w1)" by (cases "snap w")
    obtain e w2 where "embed_one net sha (None :: 'w redis option) S (embedding_chain S s) text w1 = (Inl e, w2)"
      using embed_down [OF assms(1), of sha S "embedding_chain S s" "text" w1] by (metis isl_def prod.collapse)
    then show ?thesis by (simp add: query_vector_def runtime_search_def sn)
  qed
  have rr: "\<exists>w2. rerank_results ?V repr app text rs w = (Inr rs, w2)" for app w
  proof (cases "app \<and> 1 < length rs")
    case True
    obtain s w1 where sn: "snap w = (s, w1)" by (cases "snap w")
    obtain w2 where "chain_rerank net (rerank_chain S s) text (map (rerank_doc repr) rs) w1
        = (identity_order (map (rerank_doc repr) rs), w2)"
      using rerank_down [OF assms(1)] by (metis prod.collapse)
    then show ?thesis using True
      by (simp add: rerank_results_def runtime_search_def sn reorder_identity)
  next
    case False
    then show ?thesis by (auto simp: rerank_results_def runtime_search_def)
  qed
  have f: "\<exists>r w2. finish_search ?V t text True lat rs w = (Inr r, w2) \<and> sr_results r = rs \<and> sr_lexical r" for w
  proof -
    obtain w2 where "meter t lat w = (Inr (), w2)" using assms(5) by (metis prod.collapse)
    then show ?thesis by (simp add: finish_search_def runtime_search_def log_zero_result_def)
  qed
  have b: "\<exists>body. build_hybrid_query c t text None filters m rk = Inr body" for m rk
    using assms(2) by (simp add: build_hybrid_query_def Let_def)
  obtain s w1 where sn: "snap w = (s, w1)" by (cases "snap w")
  obtain w2 where w2: "query_vector ?V text w1 = (None, w2)" using q by blast
  let ?n = "if the_or 0 n = 0 then sc_size c else the n"
  obtain body where body: "build_hybrid_query c t text None filters ?n (the_or (sc_rerank c) rerank \<and> \<not> sn_rerank s \<noteq> []) = Inr body"
    using b by blast
  obtain w3 where w3: "es body w2 = (Inr resp, w3)" using assms(3) by (metis prod.collapse)
  obtain w4 where w4: "rerank_results ?V repr (sn_rerank s \<noteq> []) text rs w3 = (Inr rs, w4)" using rr by blast
  obtain r w5 where w5: "finish_search ?V t text True lat rs w4 = (Inr r, w5)" "sr_results r = rs" "sr_lexical r"
    using f by blast
  have parts: "sv_cfg ?V = c" "sv_es ?V = es"
    "sv_reranker ?V = Some (\<lambda>w. (let (s, w1) = snap w in (sn_rerank s \<noteq> [], w1)),
        \<lambda>q docs w. let (s, w1) = snap w in chain_rerank net (rerank_chain S s) q docs w1)"
    by (simp_all add: runtime_search_def)
  have "search ?V repr lat t text filters n rerank w = (Inr r, w5)"
    using body w4 w5(1) by (simp add: search_def parts sn w2 w3 assms(4) Let_def)
  with w5 show ?thesis by blast
qed

text \<open>Search degrades instead of failing: with every embedding and reranking endpoint down, a search for which the
  index answers still succeeds, marked as lexical, with exactly the hits of the index in their order.\<close>

theorem search_degrades:
  fixes w :: 'w
  assumes "vendors_down net" and "t \<noteq> []"
    and "\<And>body w. fst (es body w) = Inr resp" and "bind_res (hits_of resp) (map_res hit_result) = Inr rs"
    and "\<And>w. fst (meter t lat w) = Inr ()"
  shows "\<exists>r w1. search (runtime_search es net sha None S snap meter c) repr lat t text filters n rerank w = (Inr r, w1) \<and>
    sr_results r = rs \<and> sr_lexical r"
  by (rule degraded_search [OF assms(1,2) _ assms(4)]) (simp_all add: assms(3,5))

definition demo_hits :: pyv where
  "demo_hits = VDict [(''hits'', VDict [(''hits'', VList [VDict [(''_source'', VDict [(''title'', VStr ''a'')]), (''_score'', VInt 2)]])])]"

definition demo_docs :: "py_dict set" where
  "demo_docs = {[(''title'', VStr ''a''), (''tenant_id'', VStr ''t'')]}"

text \<open>An engine with one document, of tenant \<open>t\<close>: it is a hit of the queries that admit it.\<close>

definition demo_es :: "unit es_search" where
  "demo_es body w =
     (if admits body [(''title'', VStr ''a''), (''tenant_id'', VStr ''t'')] then (Inr demo_hits, w)
      else (Inr (VDict [(''hits'', VDict [(''hits'', VList [])])]), w))"

lemma demo_es_respects: "es_respects demo_es demo_docs"
proof -
  have "\<exists>doc\<in>demo_docs. admits body doc \<and> projection_of src doc {}"
    if "demo_es body w = (Inr resp, w1)" "hits_of resp = Inr hs" "h \<in> set hs" "hit_source h = Inr src" for body w resp w1 hs h src
    using that
    by (auto simp: demo_es_def demo_docs_def demo_hits_def hits_of_def py_item_def py_iter_def hit_source_def projection_of_def
        split: if_splits)
  then show ?thesis by (auto simp: es_respects_def)
qed

definition demo_search_cfg :: search_cfg where
  "demo_search_cfg = \<lparr>sc_size = 20, sc_rerank = False, sc_window = 50, sc_model = ''r'', sc_rank_constant = 60,
     sc_rank_window = 100, sc_knn_k = 100, sc_knn_candidates = 200\<rparr>"

definition demo_search :: "unit search_service" where
  "demo_search = \<lparr>sv_es = demo_es, sv_embed = None, sv_redis = None, sv_meter = None, sv_reranker = None, sv_cfg = demo_search_cfg\<rparr>"

definition demo_reply :: search_reply where
  "demo_reply = \<lparr>sr_results = [[(''title'', VStr ''a''), (''score'', VInt 2)]], sr_count = 1, sr_lexical = True, sr_latency = 0\<rparr>"

theorem search_tenant_isolated_witness:
  "search demo_search (\<lambda>_. []) 0 ''t'' ''q'' None None None () = (Inr demo_reply, ()) \<and>
   list_all (\<lambda>x. \<exists>doc\<in>demo_docs. of_tenant ''t'' doc \<and> projection_of x doc {''score''}) (sr_results demo_reply)"
proof -
  have ad: "admits body [(''title'', VStr ''a''), (''tenant_id'', VStr ''t'')]"
    if "build_hybrid_query demo_search_cfg ''t'' ''q'' None None 20 False = Inr body" for body
    using that
    by (auto simp: build_hybrid_query_def Let_def fused_legs_def bm25_leg_def normalise_filters_def admits_def retriever_legs_def
        leg_clauses_def sub_def dict_get_def clause_ok_def tenant_term_def price_range_def)
  have ad2: "admits body [(''title'', VStr ''a''), (''tenant_id'', VStr ''t'')]"
    if "build_suggest_query ''t'' ''q'' 8 = Inr body" for body
    using that by (auto simp: build_suggest_query_def admits_def sub_def dict_get_def clause_ok_def tenant_term_def)
  obtain b where b: "build_hybrid_query demo_search_cfg ''t'' ''q'' None None 20 False = Inr b"
    by (simp add: build_hybrid_query_def Let_def)
  obtain b2 where b2: "build_suggest_query ''t'' ''q'' 8 = Inr b2" by (simp add: build_suggest_query_def)
  have hits: "hits_of demo_hits = Inr [VDict [(''_source'', VDict [(''title'', VStr ''a'')]), (''_score'', VInt 2)]]"
    by (simp add: hits_of_def demo_hits_def py_item_def py_iter_def)
  have r: "search demo_search (\<lambda>_. []) 0 ''t'' ''q'' None None None () = (Inr demo_reply, ())"
    using b ad [OF b]
    by (simp add: search_def demo_search_def demo_search_cfg_def query_vector_def demo_es_def hits hit_result_def hit_source_def
        py_item_def dict_get_def rerank_results_def finish_search_def log_zero_result_def demo_reply_def)
  have s: "suggest demo_es ''t'' ''q'' 8 () = (Inr [[(''product_id'', VNone), (''title'', VStr ''a'')]], ())"
    by (simp add: suggest_def b2 demo_es_def ad2 [OF b2] hits suggestion_def hit_source_def py_item_def dict_get_def)
  have "es_respects (sv_es demo_search) demo_docs" "sv_es demo_search = demo_es" by (simp_all add: demo_search_def demo_es_respects)
  from search_tenant_isolated [OF this(1) r, unfolded this(2), OF s] r show ?thesis by (simp add: list_all_iff)
qed

definition down_net :: "unit vendor_net" where
  "down_net = \<lparr>vn_post = (\<lambda>url key body w. (Inl ConnectErr, w)), vn_sleep = (\<lambda>t w. w)\<rparr>"

theorem search_degrades_witness:
  "\<exists>r. search (runtime_search (\<lambda>b w. (Inr demo_hits, w)) down_net (\<lambda>s. s) None demo_vendor_settings (\<lambda>w. (empty_snapshot 0, w))
      (\<lambda>t lat w. (Inr (), w)) demo_search_cfg) (\<lambda>_. []) 0 ''t'' ''q'' None None None () = (Inr r, ()) \<and>
    sr_results r = [[(''title'', VStr ''a''), (''score'', VInt 2)]] \<and> sr_lexical r"
proof -
  have d: "vendors_down down_net" by (simp add: vendors_down_def down_net_def)
  have h: "bind_res (hits_of demo_hits) (map_res hit_result) = Inr [[(''title'', VStr ''a''), (''score'', VInt 2)]]"
    by (simp add: hits_of_def demo_hits_def py_item_def py_iter_def hit_result_def hit_source_def dict_get_def)
  have "\<exists>r w1. search (runtime_search (\<lambda>b w. (Inr demo_hits, w)) down_net (\<lambda>s. s) None demo_vendor_settings (\<lambda>w. (empty_snapshot 0, w))
      (\<lambda>t lat w. (Inr (), w)) demo_search_cfg) (\<lambda>_. []) 0 ''t'' ''q'' None None None () = (Inr r, w1) \<and>
    sr_results r = [[(''title'', VStr ''a''), (''score'', VInt 2)]] \<and> sr_lexical r"
    by (rule search_degrades [OF d _ _ h]) simp_all
  then show ?thesis by simp
qed

end
