(* ===== verification/Orders.thy ===== *)
theory Orders
  imports Normalize
begin

text \<open>
  Orders of the stores (\<open>packages/acip_sync/orders.py\<close>) and the webhook envelopes of products and
  orders (\<open>packages/acip_sync/connectors\<close>).
\<close>

record order_item =
  oi_product :: string
  oi_title :: string
  oi_quantity :: int
  oi_price :: "real option"

record store_order =
  so_tenant :: tenant
  so_id :: string
  so_status :: string
  so_email :: pyv
  so_name :: pyv
  so_items :: "order_item list"
  so_total :: "real option"
  so_currency :: pyv
  so_created :: pyv
  so_updated :: pyv

definition item_doc :: "order_item \<Rightarrow> py_dict" where
  "item_doc i = drop_none [(''product_id'', VStr (oi_product i)), (''title'', VStr (oi_title i)),
     (''quantity'', VInt (oi_quantity i)), (''price'', opt_num (oi_price i))]"

definition order_doc :: "store_order \<Rightarrow> py_dict" where
  "order_doc r = filter (\<lambda>kv. snd kv \<noteq> VList []) (drop_none
     [(''tenant_id'', VStr (so_tenant r)), (''order_id'', VStr (so_id r)), (''status'', VStr (so_status r)),
      (''customer_email'', so_email r), (''customer_name'', so_name r),
      (''items'', VList (map (VDict \<circ> item_doc) (so_items r))), (''total'', opt_num (so_total r)),
      (''currency'', so_currency r), (''created_at'', so_created r), (''updated_at'', so_updated r)])"

text \<open>\<open>int(_as_float(q) or 1)\<close>: truncation towards zero; absent, unreadable and zero count as one.\<close>

definition item_quantity :: "pyv \<Rightarrow> int" where
  "item_quantity v =
     (case as_float v of None \<Rightarrow> 1 | Some x \<Rightarrow> if x = 0 then 1 else if 0 < x then floor x else ceiling x)"

definition coerce_item :: "(pyv \<Rightarrow> string) \<Rightarrow> string \<Rightarrow> py_dict \<Rightarrow> order_item" where
  "coerce_item repr title_key row =
     \<lparr>oi_product = py_str repr (first_of row [''product_id''] (VStr [])),
      oi_title = py_str repr (first_of row [title_key] (VStr [])),
      oi_quantity = item_quantity (dict_get row ''quantity''), oi_price = as_float (dict_get row ''price'')\<rparr>"

definition coerce_items :: "(pyv \<Rightarrow> string) \<Rightarrow> string \<Rightarrow> pyv \<Rightarrow> order_item list res" where
  "coerce_items repr title_key raw =
     (case py_iter (py_or raw (VList [])) of
        Inl e \<Rightarrow> Inl e
      | Inr rows \<Rightarrow> Inr (map (coerce_item repr title_key) (dict_items rows)))"

text \<open>\<open>" ".join(p for p in (first, last) if p).strip() or None\<close>: a part that is not text raises.\<close>

fun name_parts :: "pyv list \<Rightarrow> string list res" where
  "name_parts [] = Inr []"
| "name_parts (v # vs) =
     (if \<not> truthy v then name_parts vs
      else case v of
          VStr s \<Rightarrow> map_sum id (Cons s) (name_parts vs)
        | _ \<Rightarrow> Inl (Exn ''TypeError''))"

definition full_name :: "pyv \<Rightarrow> pyv \<Rightarrow> pyv res" where
  "full_name f l =
     (case name_parts [f, l] of
        Inl e \<Rightarrow> Inl e
      | Inr ps \<Rightarrow> let n = py_strip (py_join '' '' ps) in Inr (if n = [] then VNone else VStr n))"

definition normalize_order :: "(pyv \<Rightarrow> string) \<Rightarrow> tenant \<Rightarrow> string \<Rightarrow> py_dict \<Rightarrow> store_order res" where
  "normalize_order repr t source raw =
     (let src = py_lower source in
      if src = ''opencart'' then
        bind_res (full_name (dict_get raw ''firstname'') (dict_get raw ''lastname'')) (\<lambda>name.
        bind_res (coerce_items repr ''name'' (dict_get raw ''products'')) (\<lambda>items.
        Inr \<lparr>so_tenant = t, so_id = py_str repr (first_of raw [''order_id'', ''id''] (VStr [])),
             so_status = py_str repr (first_of raw [''order_status'', ''status''] (VStr [])),
             so_email = dict_get raw ''email'', so_name = name, so_items = items,
             so_total = as_float (dict_get raw ''total''), so_currency = last_get raw ''currency_code'' ''currency'',
             so_created = dict_get raw ''date_added'', so_updated = last_get raw ''date_modified'' ''date_added''\<rparr>))
      else if src \<in> {''woo'', ''woocommerce''} then
        (case first_of raw [''billing''] (VDict []) of
           VDict billing \<Rightarrow>
             bind_res (full_name (dict_get billing ''first_name'') (dict_get billing ''last_name'')) (\<lambda>name.
             bind_res (coerce_items repr ''name'' (dict_get raw ''line_items'')) (\<lambda>items.
             Inr \<lparr>so_tenant = t, so_id = py_str repr (first_of raw [''id''] (VStr [])),
                  so_status = py_str repr (first_of raw [''status''] (VStr [])),
                  so_email = dict_get billing ''email'', so_name = name, so_items = items,
                  so_total = as_float (dict_get raw ''total''), so_currency = dict_get raw ''currency'',
                  so_created = last_get raw ''date_created_gmt'' ''date_created'',
                  so_updated = last_get raw ''date_modified_gmt'' ''date_modified''\<rparr>))
         | _ \<Rightarrow> Inl (Exn ''AttributeError''))
      else
        bind_res (coerce_items repr ''title'' (dict_get raw ''items'')) (\<lambda>items.
        Inr \<lparr>so_tenant = t, so_id = py_str repr (first_of raw [''order_id'', ''id''] (VStr [])),
             so_status = py_str repr (first_of raw [''status''] (VStr [])),
             so_email = last_get raw ''customer_email'' ''email'', so_name = dict_get raw ''customer_name'', so_items = items,
             so_total = as_float (dict_get raw ''total''), so_currency = dict_get raw ''currency'',
             so_created = dict_get raw ''created_at'', so_updated = last_get raw ''updated_at'' ''created_at''\<rparr>))"

subsection \<open>Webhook envelopes\<close>

datatype event_type = UPSERT | DELETE

fun event_type_str :: "event_type \<Rightarrow> string" where
  "event_type_str UPSERT = ''upsert''"
| "event_type_str DELETE = ''delete''"

record webhook_event =
  we_type :: event_type
  we_source :: string
  we_product :: string
  we_raw :: py_dict

definition event_kind :: "(pyv \<Rightarrow> string) \<Rightarrow> py_dict \<Rightarrow> event_type" where
  "event_kind repr payload =
     (if str_in ''delete'' (py_lower (py_str repr (dict_get_or payload ''event'' (VStr ''upsert'')))) then DELETE else UPSERT)"

text \<open>The wrapped object, or the payload itself; anything but an object has no \<open>get\<close>.\<close>

definition inner_object :: "py_dict \<Rightarrow> string \<Rightarrow> py_dict res" where
  "inner_object payload k =
     (case dict_get_or payload k (VDict payload) of VDict d \<Rightarrow> Inr d | _ \<Rightarrow> Inl (Exn ''AttributeError''))"

definition parse_opencart :: "(pyv \<Rightarrow> string) \<Rightarrow> py_dict \<Rightarrow> webhook_event res" where
  "parse_opencart repr payload =
     bind_res (inner_object payload ''product'') (\<lambda>p. Inr
       \<lparr>we_type = event_kind repr payload, we_source = ''opencart'',
        we_product = py_str repr (first_of p [''product_id'', ''id''] (VStr [])), we_raw = p\<rparr>)"

definition parse_woo :: "(pyv \<Rightarrow> string) \<Rightarrow> py_dict \<Rightarrow> webhook_event res" where
  "parse_woo repr payload =
     bind_res (inner_object payload ''product'') (\<lambda>p. Inr
       \<lparr>we_type = event_kind repr payload, we_source = ''woocommerce'',
        we_product = py_str repr (first_of p [''id'', ''product_id''] (VStr [])), we_raw = p\<rparr>)"

definition parse_rest :: "(pyv \<Rightarrow> string) \<Rightarrow> py_dict \<Rightarrow> webhook_event res" where
  "parse_rest repr payload =
     bind_res (inner_object payload ''product'') (\<lambda>p. Inr
       \<lparr>we_type = (if py_lower (py_str repr (dict_get_or payload ''op'' (VStr ''upsert''))) = ''delete'' then DELETE else UPSERT),
        we_source = ''rest'', we_product = py_str repr (first_of p [''product_id'', ''id''] (VStr [])), we_raw = p\<rparr>)"

text \<open>\<open>get_connector(source).parse(payload)\<close>.\<close>

definition connector_parse :: "(pyv \<Rightarrow> string) \<Rightarrow> string \<Rightarrow> py_dict \<Rightarrow> webhook_event res" where
  "connector_parse repr source payload =
     (let src = py_lower source in
      if src = ''opencart'' then parse_opencart repr payload
      else if src \<in> {''woo'', ''woocommerce''} then parse_woo repr payload
      else parse_rest repr payload)"

definition parse_order_event :: "(pyv \<Rightarrow> string) \<Rightarrow> py_dict \<Rightarrow> (event_type \<times> string \<times> py_dict) res" where
  "parse_order_event repr payload =
     bind_res (inner_object payload ''order'') (\<lambda>r.
       Inr (event_kind repr payload, py_str repr (first_of r [''order_id'', ''id''] (VStr [])), r))"

text \<open>Signatures: \<open>hmac_hex\<close> and \<open>hmac_b64\<close> are the two encodings of HMAC-SHA-256. No route calls them.\<close>

definition verify_signature :: "(string \<Rightarrow> string \<Rightarrow> string) \<Rightarrow> string \<Rightarrow> string \<Rightarrow> string option \<Rightarrow> bool" where
  "verify_signature hmac secret body signature =
     (secret \<noteq> [] \<and> the_or [] signature \<noteq> [] \<and> hmac secret body = the_or [] signature)"

subsection \<open>The two readings of a product id\<close>

text \<open>The id that the envelope reports and the id that the normaliser derives from the same object.\<close>

lemma missing_id_is_none:
  assumes "map_of raw ''product_id'' = None" and "map_of raw ''id'' = None"
  shows "cp_id (normalize_rest repr t raw) = ''None''"
    and "map_sum id we_product (parse_rest repr [(''product'', VDict raw)]) = Inr []"
  using assms
  by (simp_all add: normalize_rest_def last_get_def dict_get_def py_or_def parse_rest_def inner_object_def dict_get_or_def
      first_of_def)

end
