(* ===== verification/Ingest.thy ===== *)
theory Ingest
  imports Orders Cache "HOL-Library.Multiset"
begin

text \<open>
  Writing documents: \<open>packages/acip_sync/ingest.py\<close>, \<open>order_ingest.py\<close> and the dead-letter queue
  (\<open>dlq.py\<close>). Elasticsearch is a service: its two write operations are a record over an abstract
  state, and \<open>es_doc\<close> reads the stored document with its version. \<open>es_versioned\<close> is the documented
  behaviour of external versions (\<open>external_gte\<close>); a deleted document is forgotten, which the
  service does once \<open>index.gc_deletes\<close> (60 s) has passed. \<open>ts_of\<close> is \<open>datetime.fromisoformat\<close>
  followed by \<open>int(timestamp())\<close>, \<open>None\<close> when it raises.
\<close>

record 's es =
  es_index :: "string \<Rightarrow> string \<Rightarrow> py_dict \<Rightarrow> int option \<Rightarrow> 's \<Rightarrow> unit res \<times> 's"
  es_delete :: "string \<Rightarrow> string \<Rightarrow> 's \<Rightarrow> unit res \<times> 's"

type_synonym 's es_view = "string \<Rightarrow> string \<Rightarrow> 's \<Rightarrow> (py_dict \<times> int) option"

definition older :: "(py_dict \<times> int) option \<Rightarrow> int \<Rightarrow> bool" where
  "older x v \<longleftrightarrow> (case x of None \<Rightarrow> True | Some y \<Rightarrow> snd y \<le> v)"

definition is_conflict :: "exn \<Rightarrow> bool" where
  "is_conflict e \<longleftrightarrow> str_in ''version_conflict'' (py_lower (exn_msg e))"

definition is_missing :: "exn \<Rightarrow> bool" where
  "is_missing e \<longleftrightarrow> str_in ''not_found'' (py_lower (exn_msg e)) \<or> str_in ''404'' (exn_msg e)"

definition es_versioned :: "('s, 'x) es_scheme \<Rightarrow> 's es_view \<Rightarrow> bool" where
  "es_versioned ES doc \<longleftrightarrow>
     (\<forall>x i d v s. fst (es_index ES x i d (Some v) s) = Inr () \<longrightarrow>
        older (doc x i s) v \<and> doc x i (snd (es_index ES x i d (Some v) s)) = Some (d, v)) \<and>
     (\<forall>x i d v s. \<not> older (doc x i s) v \<longrightarrow>
        (\<exists>e. fst (es_index ES x i d (Some v) s) = Inl e \<and> is_conflict e)) \<and>
     (\<forall>x i d v s e. fst (es_index ES x i d v s) = Inl e \<longrightarrow> doc x i (snd (es_index ES x i d v s)) = doc x i s) \<and>
     (\<forall>x i d v s y j. (y, j) \<noteq> (x, i) \<longrightarrow> doc y j (snd (es_index ES x i d v s)) = doc y j s) \<and>
     (\<forall>x i s. fst (es_delete ES x i s) = Inr () \<longrightarrow> doc x i (snd (es_delete ES x i s)) = None) \<and>
     (\<forall>x i s y j. (y, j) \<noteq> (x, i) \<longrightarrow> doc y j (snd (es_delete ES x i s)) = doc y j s)"

text \<open>The service answers: a write that is not stale succeeds.\<close>

definition es_up :: "('s, 'x) es_scheme \<Rightarrow> 's es_view \<Rightarrow> bool" where
  "es_up ES doc \<longleftrightarrow> (\<forall>x i d v s. older (doc x i s) v \<longrightarrow> fst (es_index ES x i d (Some v) s) = Inr ())"

lemma es_versioned_laws:
  assumes "es_versioned ES doc"
  shows "fst (es_index ES x i d (Some v) s) = Inr () \<Longrightarrow> doc x i (snd (es_index ES x i d (Some v) s)) = Some (d, v)"
    and "\<not> older (doc x i s) v \<Longrightarrow> \<exists>e. fst (es_index ES x i d (Some v) s) = Inl e \<and> is_conflict e"
    and "fst (es_index ES x i d w s) = Inl e \<Longrightarrow> doc x i (snd (es_index ES x i d w s)) = doc x i s"
    and "(y, j) \<noteq> (x, i) \<Longrightarrow> doc y j (snd (es_index ES x i d w s)) = doc y j s"
    and "fst (es_delete ES x i s) = Inr () \<Longrightarrow> doc x i (snd (es_delete ES x i s)) = None"
  using assms by (simp_all add: es_versioned_def)

subsection \<open>Operations\<close>

definition doc_id :: "tenant \<Rightarrow> string \<Rightarrow> string" where
  "doc_id t pid = t @ '':'' @ pid"

definition utc_suffix :: "string \<Rightarrow> string" where
  "utc_suffix s = concat (map (\<lambda>c. if c = CHR ''Z'' then ''+00:00'' else [c]) s)"

text \<open>A time stamp that is no text has no \<open>replace\<close>; that exception is not caught.\<close>

definition version_from :: "(string \<Rightarrow> int option) \<Rightarrow> pyv \<Rightarrow> int option res" where
  "version_from ts_of v =
     (if \<not> truthy v then Inr None
      else case v of VStr s \<Rightarrow> Inr (ts_of (utc_suffix s)) | _ \<Rightarrow> Inl (Exn ''AttributeError''))"

definition product_body :: "product \<Rightarrow> real list option \<Rightarrow> py_dict" where
  "product_body p embedding =
     (case embedding of None \<Rightarrow> product_doc p | Some v \<Rightarrow> dict_set ''embedding'' (VList (map VNum v)) (product_doc p))"

text \<open>A version conflict means that a newer document is there.\<close>

definition index_guarded ::
  "('s, 'x) es_scheme \<Rightarrow> string \<Rightarrow> string \<Rightarrow> py_dict \<Rightarrow> int option \<Rightarrow> 's \<Rightarrow> unit res \<times> 's" where
  "index_guarded ES x i d v s =
     (case es_index ES x i d v s of
        (Inl e, s1) \<Rightarrow> ((if is_conflict e then Inr () else Inl e), s1)
      | (Inr _, s1) \<Rightarrow> (Inr (), s1))"

definition upsert_product ::
  "(string \<Rightarrow> int option) \<Rightarrow> ('s, 'x) es_scheme \<Rightarrow> string \<Rightarrow> product \<Rightarrow> real list option \<Rightarrow> 's \<Rightarrow> unit res \<times> 's" where
  "upsert_product ts_of ES idx p embedding s =
     (case version_from ts_of (cp_updated p) of
        Inl e \<Rightarrow> (Inl e, s)
      | Inr v \<Rightarrow> index_guarded ES idx (doc_id (cp_tenant p) (cp_id p)) (product_body p embedding) v s)"

definition tombstone_product ::
  "('s, 'x) es_scheme \<Rightarrow> string \<Rightarrow> tenant \<Rightarrow> string \<Rightarrow> 's \<Rightarrow> unit res \<times> 's" where
  "tombstone_product ES idx t pid s =
     (case es_delete ES idx (doc_id t pid) s of
        (Inl e, s1) \<Rightarrow> ((if is_missing e then Inr () else Inl e), s1)
      | (Inr _, s1) \<Rightarrow> (Inr (), s1))"

definition upsert_order ::
  "(string \<Rightarrow> int option) \<Rightarrow> ('s, 'x) es_scheme \<Rightarrow> string \<Rightarrow> store_order \<Rightarrow> 's \<Rightarrow> unit res \<times> 's" where
  "upsert_order ts_of ES idx r s =
     (case version_from ts_of (so_updated r) of
        Inl e \<Rightarrow> (Inl e, s)
      | Inr v \<Rightarrow> index_guarded ES idx (doc_id (so_tenant r) (so_id r)) (order_doc r) v s)"

definition tombstone_order ::
  "('s, 'x) es_scheme \<Rightarrow> string \<Rightarrow> tenant \<Rightarrow> string \<Rightarrow> 's \<Rightarrow> unit res \<times> 's" where
  "tombstone_order ES idx t oid s =
     (case es_delete ES idx (doc_id t oid) s of
        (Inl e, s1) \<Rightarrow> ((if is_missing e then Inr () else Inl e), s1)
      | (Inr _, s1) \<Rightarrow> (Inr (), s1))"

subsection \<open>Dead letters\<close>

definition dlq_key :: "tenant \<Rightarrow> string" where "dlq_key t = ''dlq:sync:'' @ t"

definition park :: "('w, 'x) redis_scheme option \<Rightarrow> tenant \<Rightarrow> py_dict \<Rightarrow> string \<Rightarrow> 'w \<Rightarrow> 'w" where
  "park redis t event err w =
     (case redis of
        None \<Rightarrow> w
      | Some R \<Rightarrow> snd (rd_lpush R (dlq_key t) (VDict [(''event'', VDict event), (''error'', VStr err)]) w))"

definition drain :: "('w, 'x) redis_scheme option \<Rightarrow> tenant \<Rightarrow> int \<Rightarrow> 'w \<Rightarrow> pyv list" where
  "drain redis t limit w =
     (case redis of
        None \<Rightarrow> []
      | Some R \<Rightarrow> or_else (rd_lrange R (dlq_key t) 0 (limit - 1) w) [])"

subsection \<open>Convergence\<close>

text \<open>What the index should hold of a product: its newest version, the last delivered of equals.\<close>

definition newest :: "(py_dict \<times> int) \<Rightarrow> (py_dict \<times> int) option \<Rightarrow> (py_dict \<times> int) option" where
  "newest e best = (if older best (snd e) then Some e else best)"

text \<open>An event of the pipeline: a product and its vector.\<close>

type_synonym ingest_event = "product \<times> real list option"

definition event_id :: "ingest_event \<Rightarrow> string" where
  "event_id e = doc_id (cp_tenant (fst e)) (cp_id (fst e))"

definition event_entry :: "(string \<Rightarrow> int option) \<Rightarrow> ingest_event \<Rightarrow> py_dict \<times> int" where
  "event_entry ts_of e = (product_body (fst e) (snd e), the (projr (version_from ts_of (cp_updated (fst e)))))"

definition dated :: "(string \<Rightarrow> int option) \<Rightarrow> ingest_event \<Rightarrow> bool" where
  "dated ts_of e \<longleftrightarrow> (case version_from ts_of (cp_updated (fst e)) of Inr (Some v) \<Rightarrow> True | _ \<Rightarrow> False)"

definition ingest ::
  "(string \<Rightarrow> int option) \<Rightarrow> ('s, 'x) es_scheme \<Rightarrow> string \<Rightarrow> 's \<Rightarrow> ingest_event \<Rightarrow> 's" where
  "ingest ts_of ES idx s e = snd (upsert_product ts_of ES idx (fst e) (snd e) s)"

lemma dated_version:
  "dated ts_of e \<Longrightarrow> version_from ts_of (cp_updated (fst e)) = Inr (Some (snd (event_entry ts_of e)))"
  by (auto simp: dated_def event_entry_def split: sum.splits option.splits)

lemma ingest_own:
  assumes "es_versioned ES doc" "es_up ES doc" "dated ts_of e"
  shows "doc idx (event_id e) (ingest ts_of ES idx s e) = newest (event_entry ts_of e) (doc idx (event_id e) s)"
proof -
  let ?v = "snd (event_entry ts_of e)" and ?d = "product_body (fst e) (snd e)"
  let ?w = "es_index ES idx (event_id e) ?d (Some ?v) s"
  have i: "ingest ts_of ES idx s e = snd (index_guarded ES idx (event_id e) ?d (Some ?v) s)"
    by (simp add: ingest_def upsert_product_def dated_version [OF assms(3)] event_id_def)
  have entry: "event_entry ts_of e = (?d, ?v)" by (simp add: event_entry_def)
  have g: "snd (index_guarded ES idx (event_id e) ?d (Some ?v) s) = snd ?w"
    by (auto simp: index_guarded_def split: prod.split sum.split)
  show ?thesis
  proof (cases "older (doc idx (event_id e) s) ?v")
    case True
    then have "fst ?w = Inr ()" using assms(2) by (simp add: es_up_def)
    from es_versioned_laws(1) [OF assms(1) this] True show ?thesis
      using entry by (simp add: i g newest_def)
  next
    case False
    from es_versioned_laws(2) [OF assms(1) False] obtain x where "fst ?w = Inl x" by blast
    from es_versioned_laws(3) [OF assms(1) this] False show ?thesis by (simp add: i g newest_def)
  qed
qed

lemma ingest_other:
  assumes "es_versioned ES doc" "k \<noteq> event_id e"
  shows "doc idx k (ingest ts_of ES idx s e) = doc idx k s"
proof -
  have "doc idx k (snd (index_guarded ES idx (event_id e) d v s)) = doc idx k s" for d v
    using es_versioned_laws(4) [OF assms(1), of idx k idx "event_id e" d v s] assms(2)
    by (auto simp: index_guarded_def split: prod.split sum.split)
  then show ?thesis
    by (simp add: ingest_def upsert_product_def event_id_def split: sum.split)
qed

text \<open>The index after any delivery is the fold of each product's own events.\<close>

lemma ingest_run:
  assumes "es_versioned ES doc" "es_up ES doc" "list_all (dated ts_of) es"
  shows "doc idx k (foldl (ingest ts_of ES idx) s es) =
    fold newest (map (event_entry ts_of) (filter (\<lambda>e. event_id e = k) es)) (doc idx k s)"
  using assms(3)
proof (induction es arbitrary: s)
  case Nil
  then show ?case by simp
next
  case (Cons e es)
  then show ?case
    using ingest_own [OF assms(1,2), of ts_of e idx s] ingest_other [OF assms(1), of k e idx ts_of s] by auto
qed

lemma fold_newest_from: "set_option (fold newest es best) \<subseteq> set es \<union> set_option best"
proof (induction es arbitrary: best)
  case (Cons e es)
  have "set_option (newest e best) \<subseteq> insert e (set_option best)" by (auto simp: newest_def)
  with Cons.IH [of "newest e best"] show ?case by auto
qed simp

lemma fold_newest_max:
  "x \<in> set es \<union> set_option best \<Longrightarrow> \<exists>m. fold newest es best = Some m \<and> snd x \<le> snd m"
proof (induction es arbitrary: best x)
  case Nil
  then show ?case by auto
next
  case (Cons e es)
  obtain y where y: "newest e best = Some y" "snd e \<le> snd y" "\<And>b. best = Some b \<Longrightarrow> snd b \<le> snd y"
    by (rule that [of "if older best (snd e) then e else the best"])
      (auto simp: newest_def older_def split: option.splits)
  show ?case
  proof (cases "x \<in> set es")
    case True
    then show ?thesis using Cons.IH [of x "newest e best"] by simp
  next
    case False
    with Cons.prems consider "x = e" | "best = Some x" by (cases best) auto
    then have "snd x \<le> snd y" using y(2,3) by cases blast+
    moreover have "\<exists>m. fold newest es (newest e best) = Some m \<and> snd y \<le> snd m"
      using y(1) by (intro Cons.IH) simp
    ultimately show ?thesis by auto
  qed
qed

lemma fold_newest_set:
  assumes "set es = set es'"
    and "\<And>x y. x \<in> set es \<union> set_option best \<Longrightarrow> y \<in> set es \<union> set_option best \<Longrightarrow> snd x = snd y \<Longrightarrow> x = y"
  shows "fold newest es best = fold newest es' best"
proof (cases "set es \<union> set_option best = {}")
  case True
  then show ?thesis using assms(1) by simp
next
  case False
  then obtain z where z: "z \<in> set es \<union> set_option best" by (metis all_not_in_conv)
  obtain m where m: "fold newest es best = Some m" using fold_newest_max [OF z] by blast
  obtain m' where m': "fold newest es' best = Some m'" using fold_newest_max [of z es' best] z assms(1) by blast
  have "m \<in> set es \<union> set_option best" "m' \<in> set es \<union> set_option best"
    using fold_newest_from [of es best] fold_newest_from [of es' best] m m' assms(1) by auto
  moreover from this have "snd m' \<le> snd m" "snd m \<le> snd m'"
    using fold_newest_max [of m' es best] fold_newest_max [of m es' best] m m' assms(1) by auto
  ultimately show ?thesis using assms(2) m m' by auto
qed

subsection \<open>A service in memory\<close>

type_synonym mem_es = "((string \<times> string) \<times> (py_dict \<times> int)) list"

definition mem_doc :: "mem_es es_view" where
  "mem_doc x i s = map_of s (x, i)"

text \<open>Without an external version the version grows by one.\<close>

definition mem_es :: "mem_es es" where
  "mem_es = \<lparr>
     es_index = (\<lambda>x i d v s.
        let w = (case v of Some n \<Rightarrow> n | None \<Rightarrow> (case mem_doc x i s of None \<Rightarrow> 1 | Some y \<Rightarrow> snd y + 1))
        in if older (mem_doc x i s) w then (Inr (), dict_set (x, i) (d, w) s) else (Inl (Exn ''version_conflict''), s)),
     es_delete = (\<lambda>x i s. if mem_doc x i s = None then (Inl (Exn ''not_found''), s) else (Inr (), dict_del (x, i) s))\<rparr>"

lemma mem_es_up [simp]: "es_up mem_es mem_doc"
  by (simp add: es_up_def mem_es_def Let_def)

lemma version_conflict_is [simp]: "is_conflict (Exn ''version_conflict'')" "is_missing (Exn ''not_found'')"
  by (simp_all add: is_conflict_def is_missing_def py_lower_def lower_char_def)

lemma mem_es_versioned [simp]: "es_versioned mem_es mem_doc"
  unfolding es_versioned_def by (auto simp: mem_es_def mem_doc_def Let_def)

subsection \<open>Properties\<close>


definition demo_product :: "string \<Rightarrow> string \<Rightarrow> ingest_event" where
  "demo_product price at' = (normalize_rest (\<lambda>_. []) ''t''
     [(''product_id'', VStr ''p''), (''title'', VStr price), (''updated_at'', VStr at')], None)"

text \<open>A clock for the demonstration: the time stamp is its length.\<close>

definition toy_ts :: "string \<Rightarrow> int option" where "toy_ts s = Some (int (length s))"


text \<open>A removed product can come back. Once a product is deleted, a delayed delivery of one of its old
  versions is written as if it were new: the delete leaves no version behind that could refuse it.\<close>

theorem stale_delivery_resurrects:
  assumes "es_versioned ES doc" and "es_up ES doc" and "dated ts_of e"
    and "event_id e = doc_id t pid" and "fst (es_delete ES idx (doc_id t pid) s) = Inr ()"
  shows "doc idx (doc_id t pid) (ingest ts_of ES idx (snd (tombstone_product ES idx t pid s)) e) = Some (event_entry ts_of e)"
proof -
  have "doc idx (doc_id t pid) (snd (tombstone_product ES idx t pid s)) = None"
    using es_versioned_laws(5) [OF assms(1,5)] assms(5) by (auto simp: tombstone_product_def split: prod.split sum.split)
  then show ?thesis
    using ingest_own [OF assms(1-3), of idx "snd (tombstone_product ES idx t pid s)"] assms(4)
    by (simp add: newest_def older_def)
qed

theorem stale_delivery_resurrects_witness:
  "mem_doc ''i'' ''t:p'' (ingest toy_ts mem_es ''i'' (snd (tombstone_product mem_es ''i'' ''t'' ''p''
       [((''i'', ''t:p''), ([], 9))])) (demo_product ''old'' ''1'')) = Some (event_entry toy_ts (demo_product ''old'' ''1''))"
proof -
  have d: "dated toy_ts (demo_product ''old'' ''1'')"
    by (simp add: dated_def demo_product_def normalize_rest_def dict_get_def version_from_def toy_ts_def)
  have i: "event_id (demo_product ''old'' ''1'') = doc_id ''t'' ''p''"
    by (simp add: event_id_def demo_product_def normalize_rest_def last_get_def dict_get_def py_or_def)
  have x: "fst (es_delete mem_es ''i'' (doc_id ''t'' ''p'') [((''i'', ''t:p''), ([], 9))]) = Inr ()"
    by (simp add: mem_es_def mem_doc_def doc_id_def)
  from stale_delivery_resurrects [OF mem_es_versioned mem_es_up d i x] show ?thesis by (simp add: doc_id_def)
qed

end
