(* ===== verification/Worker.thy ===== *)
theory Worker
  imports Ingest Dashboard "HOL-Library.List_Lexorder" "HOL-Library.Char_ord"
begin

text \<open>
  The sync worker: pull clients (\<open>packages/acip_sync/fetch.py\<close>), reconciliation (\<open>reconcile.py\<close>) and
  the Celery tasks of \<open>services/worker/tasks.py\<close>. Parameters: the HTTP client of the stores (\<open>http\<close>),
  the embedder (\<open>embed\<close>, \<open>None\<close> when it fails), the time stamp functions of the standard library
  (\<open>ts_of\<close>, \<open>parse_iso\<close>, \<open>isoformat\<close>) and Celery's \<open>retry\<close>. A generator of pulled payloads is the
  list it yields with the exception that ends it, if one does; a paging loop that never ends is \<open>None\<close>.
\<close>

subsection \<open>Pull clients\<close>

datatype pull =
    PullWoo string string string "string option"
  | PullOpencart string string "string option"

definition page_size :: nat where "page_size = 100"

definition setting :: "(pyv \<Rightarrow> string) \<Rightarrow> py_dict \<Rightarrow> string \<Rightarrow> string" where
  "setting repr settings k = py_strip (py_str repr (py_or (dict_get settings k) (VStr [])))"

definition fetch_changed_since ::
  "(pyv \<Rightarrow> string) \<Rightarrow> string \<Rightarrow> py_dict \<Rightarrow> string option \<Rightarrow> pull option" where
  "fetch_changed_since repr source settings since =
     (let url = setting repr settings ''store_url''; src = py_lower source in
      if url = [] then None
      else if src \<in> {''woo'', ''woocommerce''} then
        (let ck = setting repr settings ''woo_consumer_key''; cs = setting repr settings ''woo_consumer_secret''
         in if ck = [] \<or> cs = [] then None else Some (PullWoo url ck cs since))
      else if src = ''opencart'' then
        (let token = setting repr settings ''oc_export_token''
         in if token = [] then None else Some (PullOpencart url token since))
      else None)"

definition rstrip_slash :: "string \<Rightarrow> string" where
  "rstrip_slash s = rev (dropWhile (\<lambda>c. c = CHR ''/'') (rev s))"

definition is_https :: "string \<Rightarrow> bool" where
  "is_https url \<longleftrightarrow> prefix ''https:'' (py_lower url)"

text \<open>The request of a page: URL, query parameters, credentials.\<close>

type_synonym http_get = "string \<Rightarrow> py_dict \<Rightarrow> (string \<times> string) option \<Rightarrow> pyv res"

definition given :: "string option \<Rightarrow> bool" where "given s \<longleftrightarrow> the_or [] s \<noteq> []"

definition woo_request :: "http_get \<Rightarrow> string \<Rightarrow> string \<Rightarrow> string \<Rightarrow> string option \<Rightarrow> nat \<Rightarrow> int \<Rightarrow> pyv res" where
  "woo_request http url ck cs since per page =
     (let params = [(''per_page'', VInt (int per)), (''page'', VInt page), (''orderby'', VStr ''modified''),
            (''order'', VStr ''asc''), (''status'', VStr ''publish'')] @
            (if given since then [(''modified_after'', VStr (the since)), (''dates_are_gmt'', VStr ''true'')] else []) @
            (if is_https url then [] else [(''consumer_key'', VStr ck), (''consumer_secret'', VStr cs)])
      in http (rstrip_slash url @ ''/wp-json/wc/v3/products'') params (if is_https url then Some (ck, cs) else None))"

definition bare_stamp :: "string \<Rightarrow> string" where
  "bare_stamp s =
     takeWhile (\<lambda>c. c \<noteq> CHR ''.'') (takeWhile (\<lambda>c. c \<noteq> CHR ''+'') (map (\<lambda>c. if c = CHR ''T'' then CHR '' '' else c) s))"

definition opencart_request :: "http_get \<Rightarrow> string \<Rightarrow> string \<Rightarrow> string option \<Rightarrow> nat \<Rightarrow> int \<Rightarrow> pyv res" where
  "opencart_request http url token since per page =
     http (rstrip_slash url @ ''/index.php'')
       ([(''route'', VStr ''extension/module/acip/export''), (''limit'', VInt (int per)), (''page'', VInt page)] @
        (if given since then [(''since'', VStr (bare_stamp (the since)))] else []))
       (Some (''X-Acip-Token'', token))"

partial_function (option) woo_pages :: "(int \<Rightarrow> pyv res) \<Rightarrow> nat \<Rightarrow> int \<Rightarrow> (pyv list \<times> exn option) option" where
  "woo_pages get per page =
     (case get page of
        Inl e \<Rightarrow> Some ([], Some e)
      | Inr v \<Rightarrow>
          (case v of
             VList ps \<Rightarrow>
               if length ps < per then Some (ps, None)
               else Option.bind (woo_pages get per (page + 1)) (\<lambda>r. Some (ps @ fst r, snd r))
           | _ \<Rightarrow> Some ([], Some (Exn ''ValueError''))))"

definition page_body :: "pyv res \<Rightarrow> (pyv list \<times> bool) res" where
  "page_body r =
     (case r of
        Inl e \<Rightarrow> Inl e
      | Inr (VDict body) \<Rightarrow>
          (case py_iter (dict_get_or body ''products'' (VList [])) of
             Inl e \<Rightarrow> Inl e
           | Inr ps \<Rightarrow> Inr (ps, truthy (dict_get body ''more'')))
      | Inr _ \<Rightarrow> Inl (Exn ''AttributeError''))"

partial_function (option) opencart_pages :: "(int \<Rightarrow> pyv res) \<Rightarrow> int \<Rightarrow> (pyv list \<times> exn option) option" where
  "opencart_pages get page =
     (case page_body (get page) of
        Inl e \<Rightarrow> Some ([], Some e)
      | Inr b \<Rightarrow>
          if \<not> snd b then Some (fst b, None)
          else Option.bind (opencart_pages get (page + 1)) (\<lambda>r. Some (fst b @ fst r, snd r)))"

definition pull_all :: "http_get \<Rightarrow> pull \<Rightarrow> (pyv list \<times> exn option) option" where
  "pull_all http p =
     (case p of
        PullWoo url ck cs since \<Rightarrow> woo_pages (woo_request http url ck cs since page_size) page_size 1
      | PullOpencart url token since \<Rightarrow> opencart_pages (opencart_request http url token since page_size) 1)"

subsection \<open>Applying a payload\<close>

record 's sync_env =
  sn_repr :: "pyv \<Rightarrow> string"
  sn_ts :: "string \<Rightarrow> int option"
  sn_es :: "'s es"
  sn_idx :: string
  sn_orders :: string
  sn_embed :: "string \<Rightarrow> real list option"

type_synonym ('s, 'w) backends = "'s \<times> 'w"

text \<open>A payload that is no object has no \<open>get\<close>.\<close>

definition normalize_raw :: "'s sync_env \<Rightarrow> tenant \<Rightarrow> string \<Rightarrow> pyv \<Rightarrow> product res" where
  "normalize_raw N t source raw =
     (case raw of VDict d \<Rightarrow> normalize_product (sn_repr N) t source d | _ \<Rightarrow> Inl (Exn ''AttributeError''))"

definition bump :: "('w, 'x) redis_scheme option \<Rightarrow> tenant \<Rightarrow> 'w \<Rightarrow> 'w" where
  "bump redis t w = snd (bump_data_version redis t w)"

definition apply_upsert ::
  "'s sync_env \<Rightarrow> ('w, 'x) redis_scheme option \<Rightarrow> tenant \<Rightarrow> string \<Rightarrow> pyv \<Rightarrow> ('s, 'w) backends
     \<Rightarrow> unit res \<times> ('s, 'w) backends" where
  "apply_upsert N redis t source raw b =
     (let (s, w) = b in
      case normalize_raw N t source raw of
        Inl e \<Rightarrow> (Inl e, b)
      | Inr p \<Rightarrow>
          (case (if cp_title p = [] then Inr None else map_sum id (sn_embed N) (embedding_text (sn_repr N) p)) of
             Inl e \<Rightarrow> (Inl e, b)
           | Inr vector \<Rightarrow>
               (case upsert_product (sn_ts N) (sn_es N) (sn_idx N) p vector s of
                  (Inl e, s1) \<Rightarrow> (Inl e, (s1, w))
                | (Inr _, s1) \<Rightarrow> (Inr (), (s1, bump redis t w)))))"

text \<open>Celery: \<open>raise self.retry(exc=...)\<close> raises \<open>Retry\<close>, \<open>MaxRetriesExceededError\<close> or an exception.\<close>

datatype retry_outcome = AskRetry | MaxRetries | Reraise exn

datatype task_result = Done string | Rescheduled | Failed exn

text \<open>
  The documentation of \<open>Task.retry\<close>: beyond \<open>max_retries\<close> the exception given as \<open>exc\<close> is raised, and
  \<open>MaxRetriesExceededError\<close> only when none is given.
\<close>

definition celery_retry :: "nat \<Rightarrow> (nat \<Rightarrow> exn \<Rightarrow> retry_outcome) \<Rightarrow> bool" where
  "celery_retry max_retries retry \<longleftrightarrow> (\<forall>n e. retry n e = (if n < max_retries then AskRetry else Reraise e))"

definition after_failure ::
  "(nat \<Rightarrow> exn \<Rightarrow> retry_outcome) \<Rightarrow> ('w, 'x) redis_scheme option \<Rightarrow> nat \<Rightarrow> tenant \<Rightarrow> py_dict \<Rightarrow> exn \<Rightarrow> 'w
     \<Rightarrow> task_result \<times> 'w" where
  "after_failure retry redis n t event e w =
     (case retry n e of
        AskRetry \<Rightarrow> (Rescheduled, w)
      | MaxRetries \<Rightarrow> (Done ''deadlettered'', park redis t event (exn_msg e) w)
      | Reraise x \<Rightarrow> (Failed x, w))"

definition process_webhook_event ::
  "'s sync_env \<Rightarrow> (nat \<Rightarrow> exn \<Rightarrow> retry_outcome) \<Rightarrow> ('w, 'x) redis_scheme option \<Rightarrow> nat \<Rightarrow> tenant \<Rightarrow> string \<Rightarrow> string
     \<Rightarrow> string \<Rightarrow> py_dict \<Rightarrow> ('s, 'w) backends \<Rightarrow> task_result \<times> ('s, 'w) backends" where
  "process_webhook_event N retry redis n t source kind pid raw b =
     (let (s, w) = b;
          (r, b1) = (if kind = ''delete'' then
              (case tombstone_product (sn_es N) (sn_idx N) t pid s of
                 (Inl e, s1) \<Rightarrow> (Inl e, (s1, w))
               | (Inr _, s1) \<Rightarrow> (Inr (), (s1, bump redis t w)))
            else apply_upsert N redis t source (VDict raw) b)
      in case r of
           Inr _ \<Rightarrow> (Done ''ok'', b1)
         | Inl e \<Rightarrow>
             (let (x, w2) = after_failure retry redis n t
                [(''source'', VStr source), (''product_id'', VStr pid), (''raw'', VDict raw)] e (snd b1)
              in (x, (fst b1, w2))))"

fun bulk_import ::
  "'s sync_env \<Rightarrow> ('w, 'x) redis_scheme option \<Rightarrow> tenant \<Rightarrow> string \<Rightarrow> pyv list \<Rightarrow> ('s, 'w) backends
     \<Rightarrow> nat \<times> ('s, 'w) backends" where
  "bulk_import N redis t source [] b = (0, b)"
| "bulk_import N redis t source (raw # raws) b =
     (case apply_upsert N redis t source raw b of
        (Inr _, b1) \<Rightarrow> (let (n, b2) = bulk_import N redis t source raws b1 in (Suc n, b2))
      | (Inl e, (s1, w1)) \<Rightarrow>
          bulk_import N redis t source raws
            (s1, park redis t [(''source'', VStr source), (''raw'', raw)] (exn_msg e) w1))"

subsection \<open>Orders\<close>

definition apply_order_upsert ::
  "'s sync_env \<Rightarrow> tenant \<Rightarrow> string \<Rightarrow> pyv \<Rightarrow> 's \<Rightarrow> unit res \<times> 's" where
  "apply_order_upsert N t source raw s =
     (case raw of
        VDict d \<Rightarrow>
          (case normalize_order (sn_repr N) t source d of
             Inl e \<Rightarrow> (Inl e, s)
           | Inr r \<Rightarrow> upsert_order (sn_ts N) (sn_es N) (sn_orders N) r s)
      | _ \<Rightarrow> (Inl (Exn ''AttributeError''), s))"

definition process_order_webhook_event ::
  "'s sync_env \<Rightarrow> (nat \<Rightarrow> exn \<Rightarrow> retry_outcome) \<Rightarrow> ('w, 'x) redis_scheme option \<Rightarrow> nat \<Rightarrow> tenant \<Rightarrow> string \<Rightarrow> string
     \<Rightarrow> string \<Rightarrow> py_dict \<Rightarrow> ('s, 'w) backends \<Rightarrow> task_result \<times> ('s, 'w) backends" where
  "process_order_webhook_event N retry redis n t source kind oid raw b =
     (let (s, w) = b;
          (r, s1) = (if kind = ''delete'' then tombstone_order (sn_es N) (sn_orders N) t oid s
                     else apply_order_upsert N t source (VDict raw) s)
      in case r of
           Inr _ \<Rightarrow> (Done ''ok'', (s1, w))
         | Inl e \<Rightarrow>
             (let (x, w1) = after_failure retry redis n t
                [(''source'', VStr source), (''order_id'', VStr oid), (''raw'', VDict raw)] e w
              in (x, (s1, w1))))"

fun bulk_import_orders ::
  "'s sync_env \<Rightarrow> ('w, 'x) redis_scheme option \<Rightarrow> tenant \<Rightarrow> string \<Rightarrow> pyv list \<Rightarrow> ('s, 'w) backends
     \<Rightarrow> nat \<times> ('s, 'w) backends" where
  "bulk_import_orders N redis t source [] b = (0, b)"
| "bulk_import_orders N redis t source (raw # raws) b =
     (case apply_order_upsert N t source raw (fst b) of
        (Inr _, s1) \<Rightarrow> (let (n, b2) = bulk_import_orders N redis t source raws (s1, snd b) in (Suc n, b2))
      | (Inl e, s1) \<Rightarrow>
          bulk_import_orders N redis t source raws
            (s1, park redis t [(''source'', VStr source), (''raw'', raw)] (exn_msg e) (snd b)))"

subsection \<open>Reconciliation\<close>

record reconcile_result =
  rn_scanned :: nat
  rn_repaired :: nat
  rn_watermark :: "string option"

text \<open>The vector of a repair is optional: any failure on the way leaves it out.\<close>

definition repair_vector :: "'s sync_env \<Rightarrow> product \<Rightarrow> real list option" where
  "repair_vector N p =
     (if cp_title p = [] then None
      else case embedding_text (sn_repr N) p of Inl _ \<Rightarrow> None | Inr x \<Rightarrow> sn_embed N x)"

text \<open>The comparison of time stamps is the one of texts. A time stamp that is no text has raised before.\<close>

definition raise_watermark :: "pyv \<Rightarrow> string option \<Rightarrow> string option" where
  "raise_watermark v wm =
     (case v of
        VStr u \<Rightarrow> if u \<noteq> [] \<and> (wm = None \<or> the wm < u) then Some u else wm
      | _ \<Rightarrow> wm)"

fun reconcile_items ::
  "'s sync_env \<Rightarrow> tenant \<Rightarrow> string \<Rightarrow> pyv list \<Rightarrow> reconcile_result \<Rightarrow> 's \<Rightarrow> reconcile_result res \<times> 's" where
  "reconcile_items N t source [] r s = (Inr r, s)"
| "reconcile_items N t source (raw # raws) r s =
     (case normalize_raw N t source raw of
        Inl e \<Rightarrow> (Inl e, s)
      | Inr p \<Rightarrow>
          (case upsert_product (sn_ts N) (sn_es N) (sn_idx N) p (repair_vector N p) s of
             (Inl e, s1) \<Rightarrow> (Inl e, s1)
           | (Inr _, s1) \<Rightarrow>
               reconcile_items N t source raws
                 \<lparr>rn_scanned = Suc (rn_scanned r), rn_repaired = Suc (rn_repaired r),
                  rn_watermark = raise_watermark (cp_updated p) (rn_watermark r)\<rparr> s1))"

text \<open>The pulled payloads, then the exception that ended the pull.\<close>

definition reconcile ::
  "'s sync_env \<Rightarrow> tenant \<Rightarrow> string \<Rightarrow> pyv list \<times> exn option \<Rightarrow> 's \<Rightarrow> reconcile_result res \<times> 's" where
  "reconcile N t source pulled s =
     (case reconcile_items N t source (fst pulled) \<lparr>rn_scanned = 0, rn_repaired = 0, rn_watermark = None\<rparr> s of
        (Inl e, s1) \<Rightarrow> (Inl e, s1)
      | (Inr r, s1) \<Rightarrow> (case snd pulled of None \<Rightarrow> (Inr r, s1) | Some e \<Rightarrow> (Inl e, s1)))"

text \<open>The upsert of \<open>sync_state\<close>: an absent watermark keeps the old one.\<close>

definition record_sync :: "real \<Rightarrow> tenant \<Rightarrow> string \<Rightarrow> string \<Rightarrow> real option \<Rightarrow> store \<Rightarrow> store" where
  "record_sync now t source st wm d =
     d\<lparr>syncs := sync_upsert
        \<lparr>sy_tenant = t, sy_source = source, sy_watermark = wm, sy_last_run = Some now, sy_status = Some st\<rparr>
        (\<lambda>r. r\<lparr>sy_last_run := Some now, sy_status := Some st,
               sy_watermark := (if wm = None then sy_watermark r else wm)\<rparr>) (syncs d)\<rparr>"

record clock_fns =
  ck_parse :: "string \<Rightarrow> real option"
  ck_iso :: "real \<Rightarrow> string"

definition parse_ts :: "clock_fns \<Rightarrow> string option \<Rightarrow> real option" where
  "parse_ts K v = (if the_or [] v = [] then None else ck_parse K (utc_suffix (the v)))"

type_synonym ('s, 'w) worker_state = "store \<times> ('s, 'w) backends"

text \<open>\<open>None\<close> is a pull that never ends.\<close>

definition reconcile_one ::
  "'s sync_env \<Rightarrow> clock_fns \<Rightarrow> http_get \<Rightarrow> ('w, 'x) redis_scheme option \<Rightarrow> real \<Rightarrow> db \<Rightarrow> tenant \<Rightarrow> string
     \<Rightarrow> ('s, 'w) worker_state \<Rightarrow> (string \<times> ('s, 'w) worker_state) option" where
  "reconcile_one N K http redis now d t source x =
     (let (st, (s, w)) = x in
      case tenant_row t d of
        None \<Rightarrow> Some (''unknown_tenant'', x)
      | Some row \<Rightarrow>
          let wm = (case find (\<lambda>r. sy_tenant r = t \<and> sy_source r = source) (syncs st) of
                      None \<Rightarrow> None | Some r \<Rightarrow> sy_watermark r) in
          case fetch_changed_since (sn_repr N) source (tn_settings row) (map_option (ck_iso K) wm) of
            None \<Rightarrow> Some (''ok'', record_sync now t source ''ok'' None st, (s, w))
          | Some p \<Rightarrow>
              Option.bind (pull_all http p) (\<lambda>pulled.
                case reconcile N t source pulled s of
                  (Inl e, s1) \<Rightarrow> Some (''error'', record_sync now t source ''error'' None st, (s1, w))
                | (Inr r, s1) \<Rightarrow>
                    Some (''ok:'' @ nat_str (rn_repaired r),
                          record_sync now t source ''ok'' (parse_ts K (rn_watermark r)) st,
                          (s1, if rn_repaired r = 0 then w else bump redis t w))))"

text \<open>The sweep: active stores with a connected platform.\<close>

definition sweep_platform :: "tenant_row \<Rightarrow> string option" where
  "sweep_platform r =
     (case dict_get (tn_settings r) ''platform'' of
        VStr p \<Rightarrow> if tn_status r = ''active'' \<and> p \<in> {''opencart'', ''woocommerce''} then Some p else None
      | _ \<Rightarrow> None)"

fun sweep ::
  "'s sync_env \<Rightarrow> clock_fns \<Rightarrow> http_get \<Rightarrow> ('w, 'x) redis_scheme option \<Rightarrow> real \<Rightarrow> db \<Rightarrow> tenant_row list
     \<Rightarrow> ('s, 'w) worker_state \<Rightarrow> (nat \<times> ('s, 'w) worker_state) option" where
  "sweep N K http redis now d [] x = Some (0, x)"
| "sweep N K http redis now d (r # rs) x =
     (case sweep_platform r of
        None \<Rightarrow> sweep N K http redis now d rs x
      | Some p \<Rightarrow>
          Option.bind (reconcile_one N K http redis now d (tn_id r) p x) (\<lambda>y.
          Option.bind (sweep N K http redis now d rs (snd y)) (\<lambda>z. Some (Suc (fst z), snd z))))"

definition reconcile_all ::
  "'s sync_env \<Rightarrow> clock_fns \<Rightarrow> http_get \<Rightarrow> ('w, 'x) redis_scheme option \<Rightarrow> real \<Rightarrow> db
     \<Rightarrow> ('s, 'w) worker_state \<Rightarrow> (string \<times> ('s, 'w) worker_state) option" where
  "reconcile_all N K http redis now d x =
     Option.bind (sweep N K http redis now d (tenants d) x) (\<lambda>y.
       Some (''swept:'' @ nat_str (fst y) @ ''/'' @
             nat_str (length (filter (\<lambda>r. sweep_platform r \<noteq> None) (tenants d))), snd y))"

definition reconcile_tenant ::
  "'s sync_env \<Rightarrow> clock_fns \<Rightarrow> http_get \<Rightarrow> ('w, 'x) redis_scheme option \<Rightarrow> pool \<Rightarrow> real \<Rightarrow> db \<Rightarrow> tenant \<Rightarrow> string
     \<Rightarrow> ('s, 'w) worker_state \<Rightarrow> (string \<times> ('s, 'w) worker_state) option" where
  "reconcile_tenant N K http redis p now d t source x =
     (if p \<noteq> PgUp then Some (''failed'', x)
      else if t = ''__all__'' then reconcile_all N K http redis now d x
      else if \<not> valid_uuid t then Some (''failed'', x)
      else reconcile_one N K http redis now d t source x)"

end
