(* ===== verification/V1.thy ===== *)
theory V1
  imports Search Assistant Worker
begin

text \<open>
  The public API, \<open>services/api/routers/v1.py\<close> with its request models (\<open>services/api/schemas.py\<close>) and
  the lead detection of the chat (\<open>packages/acip_analytics/leads.py\<close>): search, suggestions, the four
  sync endpoints, chat and its streamed form, each behind the key guard of \<open>Stores\<close>. The broker is a
  parameter (\<open>a1_enqueue\<close>), as is the lax integer conversion of the validation library (\<open>a1_lax_int\<close>).
\<close>

subsection \<open>Leads in a message\<close>

text \<open>\<open>\d\<close> and \<open>\s\<close> of a Unicode pattern; \<open>\w\<close> is \<open>word_char\<close>. Texts are lists of code points.\<close>

record lead_chars =
  lx_unicode :: unicode_db
  lx_digit :: "string \<Rightarrow> bool"
  lx_space :: "string \<Rightarrow> bool"

text \<open>The three character classes of the address are maximal runs: none contains the character after it.\<close>

definition email_at :: "lead_chars \<Rightarrow> string list \<Rightarrow> string option" where
  "email_at X cps =
     (let U = lx_unicode X; P = (\<lambda>c. word_char U c \<or> c \<in> {''.'', ''+'', ''-''});
          H = (\<lambda>c. word_char U c \<or> c = ''-''); D = (\<lambda>c. word_char U c \<or> c \<in> {''.'', ''-''});
          l = takeWhile P cps
      in case dropWhile P cps of
           [] \<Rightarrow> None
         | a # r1 \<Rightarrow>
             if l = [] \<or> a \<noteq> ''@'' then None
             else let h = takeWhile H r1 in
               case dropWhile H r1 of
                 [] \<Rightarrow> None
               | d # r3 \<Rightarrow>
                   if h = [] \<or> d \<noteq> ''.'' \<or> takeWhile D r3 = [] then None
                   else Some (concat (l @ [a] @ h @ [d] @ takeWhile D r3)))"

text \<open>An optional plus, a digit, 8 to 14 digits, spaces or hyphens (as many as can be), a digit.\<close>

definition phone_at :: "lead_chars \<Rightarrow> string list \<Rightarrow> string option" where
  "phone_at X cps =
     (let D = lx_digit X; C = (\<lambda>c. D c \<or> lx_space X c \<or> c = ''-'');
          p = takeWhile (\<lambda>c. c = ''+'') (take 1 cps)
      in case drop (length p) cps of
           [] \<Rightarrow> None
         | d # r \<Rightarrow>
             if \<not> D d then None
             else (case find (\<lambda>n. n < length r \<and> list_all C (take n r) \<and> D (r ! n)) (rev [8..<15]) of
                     None \<Rightarrow> None
                   | Some n \<Rightarrow> Some (concat (p @ [d] @ take (Suc n) r))))"

fun first_match :: "('c list \<Rightarrow> 'm option) \<Rightarrow> 'c list \<Rightarrow> 'm option" where
  "first_match m [] = None"
| "first_match m (c # cs) = (case m (c # cs) of Some x \<Rightarrow> Some x | None \<Rightarrow> first_match m cs)"

definition intent_words :: "string list" where
  "intent_words =
     [''buy'', ''order'', ''price'', ''discount'', [CHR 0xD8, CHR 0xAE, CHR 0xD8, CHR 0xB1, CHR 0xDB, CHR
      0x8C, CHR 0xD8, CHR 0xAF], [CHR 0xD8, CHR 0xB3, CHR 0xD9, CHR 0x81, CHR 0xD8, CHR 0xA7, CHR 0xD8, CHR
      0xB1, CHR 0xD8, CHR 0xB4], [CHR 0xD9, CHR 0x82, CHR 0xDB, CHR 0x8C, CHR 0xD9, CHR 0x85, CHR 0xD8, CHR
      0xAA], [CHR 0xD8, CHR 0xAA, CHR 0xD8, CHR 0xAE, CHR 0xD9, CHR 0x81, CHR 0xDB, CHR 0x8C, CHR 0xD9, CHR
      0x81], [CHR 0xD8, CHR 0xA8, CHR 0xD8, CHR 0xAE, CHR 0xD8, CHR 0xB1, CHR 0xD9, CHR 0x85], [CHR 0xD9, CHR
      0x85, CHR 0xDB, CHR 0x8C, CHR 0xE2, CHR 0x80, CHR 0x8C, CHR 0xD8, CHR 0xAE, CHR 0xD9, CHR 0x88, CHR 0xD8,
      CHR 0xA7, CHR 0xD9, CHR 0x85]]"

definition detect_lead :: "lead_chars \<Rightarrow> string \<Rightarrow> lead_signal" where
  "detect_lead X message =
     (first_match (email_at X) (code_points message),
      map_option py_strip (first_match (phone_at X) (code_points message)),
      list_ex (has_word (lx_unicode X) (py_lower message)) intent_words)"

subsection \<open>Request models\<close>

definition str_between :: "nat \<Rightarrow> nat \<Rightarrow> pyv \<Rightarrow> string option" where
  "str_between a b v =
     (case v of VStr s \<Rightarrow> if a \<le> length (code_points s) \<and> length (code_points s) \<le> b then Some s else None | _ \<Rightarrow> None)"

text \<open>An absent field takes its default, which is not validated.\<close>

definition field :: "py_dict \<Rightarrow> string \<Rightarrow> 'a \<Rightarrow> (pyv \<Rightarrow> 'a option) \<Rightarrow> 'a option" where
  "field payload k d f = (case map_of payload k of None \<Rightarrow> Some d | Some v \<Rightarrow> f v)"

definition nullable :: "(pyv \<Rightarrow> 'a option) \<Rightarrow> pyv \<Rightarrow> 'a option option" where
  "nullable f v = (if v = VNone then Some None else map_option Some (f v))"

definition parse_search :: "(pyv \<Rightarrow> int option) \<Rightarrow> py_dict \<Rightarrow> (string \<times> py_dict option \<times> int option) option" where
  "parse_search lax_int payload =
     Option.bind (str_between 1 500 (dict_get payload ''query'')) (\<lambda>q.
     Option.bind (field payload ''filters'' None (nullable (\<lambda>v. case v of VDict d \<Rightarrow> Some d | _ \<Rightarrow> None))) (\<lambda>f.
     Option.bind (field payload ''size'' None (nullable (\<lambda>v.
        Option.bind (lax_int v) (\<lambda>n. if 1 \<le> n \<and> n \<le> 50 then Some n else None)))) (\<lambda>n.
     Some (q, f, n))))"

definition parse_chat :: "py_dict \<Rightarrow> (string \<times> string option) option" where
  "parse_chat payload =
     Option.bind (str_between 1 4000 (dict_get payload ''message'')) (\<lambda>m.
     Option.bind (field payload ''session_id'' None (nullable (str_between 0 64))) (\<lambda>s. Some (m, s)))"

definition dict_list :: "nat \<Rightarrow> pyv \<Rightarrow> py_dict list option" where
  "dict_list mx v =
     (case v of
        VList vs \<Rightarrow> if length vs \<le> mx \<and> length (dict_items vs) = length vs then Some (dict_items vs) else None
      | _ \<Rightarrow> None)"

text \<open>\<open>BulkSyncRequest\<close> and \<open>BulkOrderSyncRequest\<close> differ in the name of the list.\<close>

definition parse_bulk :: "string \<Rightarrow> py_dict \<Rightarrow> (string \<times> py_dict list) option" where
  "parse_bulk k payload =
     Option.bind (field payload ''source'' ''rest'' (str_between 0 32)) (\<lambda>s.
     Option.bind (field payload k [] (dict_list 5000)) (\<lambda>xs. Some (s, xs)))"

subsection \<open>Endpoints\<close>

text \<open>The messages to the worker.\<close>

datatype task_msg =
    ProcessWebhook tenant string string string py_dict
  | BulkImport tenant string "py_dict list"
  | ProcessOrder tenant string string string py_dict
  | BulkOrders tenant string "py_dict list"

record 'w api =
  a1_crypto :: crypto
  a1_limiter :: "'w redis option"
  a1_search :: "'w search_service"
  a1_rag :: "'w rag"
  a1_enqueue :: "task_msg \<Rightarrow> 'w \<Rightarrow> unit res \<times> 'w"
  a1_repr :: "pyv \<Rightarrow> string"
  a1_lax_int :: "pyv \<Rightarrow> int option"
  a1_chars :: lead_chars

definition default_per_min :: int where "default_per_min = 120"

text \<open>Exceptions of the search engine's client: it is unreachable, or answers that there is no index.\<close>

definition es_error :: "string \<Rightarrow> string \<Rightarrow> exn \<Rightarrow> 'a reply" where
  "es_error unreachable missing e =
     (if e = Exn ''TransportError'' then Err 503 unreachable
      else if e = Exn ''NotFoundError'' then Err 503 missing
      else Err 500 ''internal_error'')"

text \<open>An endpoint behind the guard: \<open>k\<close> continues with the tenant. The keys are read from PostgreSQL.\<close>

definition guarded ::
  "'w api \<Rightarrow> pool \<Rightarrow> key_scope \<Rightarrow> real \<Rightarrow> string option \<Rightarrow> (tenant \<Rightarrow> store \<times> 'w \<Rightarrow> 'a reply \<times> store \<times> 'w)
     \<Rightarrow> store \<times> 'w \<Rightarrow> 'a reply \<times> store \<times> 'w" where
  "guarded A p scope now api_key k x =
     (if the_or [] api_key \<noteq> [] \<and> p \<noteq> PgUp then (Err 500 ''internal_error'', x)
      else case guard (a1_crypto A) (a1_limiter A) default_per_min [scope] now api_key (fst x) (snd x) of
          (Err c m, w1) \<Rightarrow> (Err c m, fst x, w1)
        | (Ok t, w1) \<Rightarrow> k t (fst x, w1))"

definition v1_search ::
  "'w api \<Rightarrow> pool \<Rightarrow> real \<Rightarrow> string option \<Rightarrow> int \<Rightarrow> py_dict \<Rightarrow> store \<times> 'w \<Rightarrow> search_reply reply \<times> store \<times> 'w" where
  "v1_search A p now api_key lat payload =
     guarded A p WIDGET now api_key (\<lambda>t (st, w).
       case parse_search (a1_lax_int A) payload of
         None \<Rightarrow> (Err 422 ''invalid_request'', st, w)
       | Some (q, filters, n) \<Rightarrow>
           (case search (a1_search A) (a1_repr A) lat t (py_strip q) filters n None w of
              (Inl e, w1) \<Rightarrow> (es_error ''search_unavailable'' ''index_not_ready'' e, st, w1)
            | (Inr r, w1) \<Rightarrow> (Ok r, st, w1)))"

definition v1_suggest ::
  "'w api \<Rightarrow> pool \<Rightarrow> real \<Rightarrow> string option \<Rightarrow> string \<Rightarrow> store \<times> 'w \<Rightarrow> py_dict list reply \<times> store \<times> 'w" where
  "v1_suggest A p now api_key q =
     guarded A p WIDGET now api_key (\<lambda>t (st, w).
       if py_strip q = [] then (Ok [], st, w)
       else (case suggest (sv_es (a1_search A)) t (py_strip q) 8 w of
               (Inl e, w1) \<Rightarrow> (es_error ''search_unavailable'' ''index_not_ready'' e, st, w1)
             | (Inr xs, w1) \<Rightarrow> (Ok xs, st, w1)))"

definition enqueue :: "'w api \<Rightarrow> task_msg \<Rightarrow> 'a \<Rightarrow> store \<times> 'w \<Rightarrow> 'a reply \<times> store \<times> 'w" where
  "enqueue A m ok x =
     (case a1_enqueue A m (snd x) of
        (Inl _, w1) \<Rightarrow> (Err 500 ''internal_error'', fst x, w1)
      | (Inr _, w1) \<Rightarrow> (Ok ok, fst x, w1))"

text \<open>A body is the decoded JSON, or the exception of its parser.\<close>

definition v1_sync_webhook ::
  "'w api \<Rightarrow> pool \<Rightarrow> real \<Rightarrow> string option \<Rightarrow> string \<Rightarrow> pyv res \<Rightarrow> store \<times> 'w \<Rightarrow> (string \<times> event_type) reply \<times> store \<times> 'w" where
  "v1_sync_webhook A p now api_key source body =
     guarded A p SYNC now api_key (\<lambda>t x.
       case body of
         Inr (VDict payload) \<Rightarrow>
           (case connector_parse (a1_repr A) source payload of
              Inl _ \<Rightarrow> (Err 500 ''internal_error'', x)
            | Inr ev \<Rightarrow>
                enqueue A (ProcessWebhook t source (event_type_str (we_type ev)) (we_product ev) (we_raw ev))
                  (we_product ev, we_type ev) x)
       | _ \<Rightarrow> (Err 500 ''internal_error'', x))"

definition v1_sync_bulk ::
  "'w api \<Rightarrow> pool \<Rightarrow> real \<Rightarrow> string option \<Rightarrow> py_dict \<Rightarrow> store \<times> 'w \<Rightarrow> nat reply \<times> store \<times> 'w" where
  "v1_sync_bulk A p now api_key payload =
     guarded A p SYNC now api_key (\<lambda>t x.
       case parse_bulk ''products'' payload of
         None \<Rightarrow> (Err 422 ''invalid_request'', x)
       | Some (source, xs) \<Rightarrow> enqueue A (BulkImport t source xs) (length xs) x)"

definition v1_sync_order_webhook ::
  "'w api \<Rightarrow> pool \<Rightarrow> real \<Rightarrow> string option \<Rightarrow> string \<Rightarrow> pyv res \<Rightarrow> store \<times> 'w \<Rightarrow> (string \<times> event_type) reply \<times> store \<times> 'w" where
  "v1_sync_order_webhook A p now api_key source body =
     guarded A p SYNC now api_key (\<lambda>t x.
       case body of
         Inr (VDict payload) \<Rightarrow>
           (case parse_order_event (a1_repr A) payload of
              Inl _ \<Rightarrow> (Err 500 ''internal_error'', x)
            | Inr (kind, oid, raw) \<Rightarrow> enqueue A (ProcessOrder t source (event_type_str kind) oid raw) (oid, kind) x)
       | _ \<Rightarrow> (Err 500 ''internal_error'', x))"

definition v1_sync_order_bulk ::
  "'w api \<Rightarrow> pool \<Rightarrow> real \<Rightarrow> string option \<Rightarrow> py_dict \<Rightarrow> store \<times> 'w \<Rightarrow> nat reply \<times> store \<times> 'w" where
  "v1_sync_order_bulk A p now api_key payload =
     guarded A p SYNC now api_key (\<lambda>t x.
       case parse_bulk ''orders'' payload of
         None \<Rightarrow> (Err 422 ''invalid_request'', x)
       | Some (source, xs) \<Rightarrow> enqueue A (BulkOrders t source xs) (length xs) x)"

text \<open>The turn shared by the two chat endpoints: session id and reply. \<open>fresh_id\<close> is a random identifier.\<close>

definition chat_turn ::
  "'w api \<Rightarrow> int \<Rightarrow> string \<Rightarrow> py_dict \<Rightarrow> tenant \<Rightarrow> 'w \<Rightarrow> (string \<times> string \<times> rag_reply) reply \<times> 'w" where
  "chat_turn A lat fresh_id payload t w =
     (case parse_chat payload of
        None \<Rightarrow> (Err 422 ''invalid_request'', w)
      | Some (m0, sid) \<Rightarrow>
          let message = py_strip m0; session_id = (if the_or [] sid = [] then fresh_id else the sid) in
          if message = [] then (Err 422 ''invalid_request'', w)
          else case rag_answer (a1_rag A) t session_id message lat w of
              (Inl e, w1) \<Rightarrow> (es_error ''assistant_unavailable'' ''assistant_unavailable'' e, w1)
            | (Inr r, w1) \<Rightarrow> (Ok (message, session_id, r), w1))"

definition v1_chat ::
  "'w api \<Rightarrow> pool \<Rightarrow> real \<Rightarrow> string option \<Rightarrow> int \<Rightarrow> string \<Rightarrow> int \<Rightarrow> py_dict \<Rightarrow> store \<times> 'w
     \<Rightarrow> (string \<times> rag_reply) reply \<times> store \<times> 'w" where
  "v1_chat A p now api_key lat fresh_id lead_id payload =
     guarded A p WIDGET now api_key (\<lambda>t (st, w).
       case chat_turn A lat fresh_id payload t w of
         (Err c m, w1) \<Rightarrow> (Err c m, st, w1)
       | (Ok (message, session_id, r), w1) \<Rightarrow>
           (Ok (session_id, r),
            (let g = detect_lead (a1_chars A) message
             in if is_lead g then snd (capture_lead p lead_id t g ''chat'' st) else st), w1))"

text \<open>The frames of the streamed answer.\<close>

datatype sse_frame = MetaFrame string | TokenFrame string | DoneFrame pyv

definition v1_chat_stream ::
  "'w api \<Rightarrow> pool \<Rightarrow> real \<Rightarrow> string option \<Rightarrow> int \<Rightarrow> string \<Rightarrow> py_dict \<Rightarrow> store \<times> 'w \<Rightarrow> sse_frame list reply \<times> store \<times> 'w" where
  "v1_chat_stream A p now api_key lat fresh_id payload =
     guarded A p WIDGET now api_key (\<lambda>t (st, w).
       case chat_turn A lat fresh_id payload t w of
         (Err c m, w1) \<Rightarrow> (Err c m, st, w1)
       | (Ok (_, session_id, r), w1) \<Rightarrow>
           (Ok ([MetaFrame session_id] @
                map (\<lambda>token. TokenFrame (token @ '' '')) (py_split (py_str (a1_repr A) (rr_answer r))) @
                [DoneFrame (rr_citations r)]), st, w1))"

end
