(* ===== verification/SyncProps.thy ===== *)
theory SyncProps
  imports Worker
begin

text \<open>
  What the sync pipeline promises: a pull reads every page and ends, a reconciliation leaves no pulled
  product behind, a failed one keeps its watermark, a bulk import loses no item, and what becomes of
  events that keep failing.
\<close>

subsection \<open>Pulling\<close>

lemma woo_pages_from:
  assumes "0 < per" and pages: "\<And>k. get (1 + int k) = Inr (VList (take per (drop (k * per) items)))"
  shows "woo_pages get per (1 + int k) = Some (drop (k * per) items, None)"
proof (induction "length items - k * per" arbitrary: k rule: less_induct)
  case less
  let ?rest = "drop (k * per) items"
  show ?case
  proof (cases "length ?rest < per")
    case True
    then show ?thesis by (simp add: woo_pages.simps [of get per "1 + int k"] pages)
  next
    case False
    then have "length items - Suc k * per < length items - k * per" using assms(1) by auto
    from less [OF this] have "woo_pages get per (1 + int k + 1) = Some (drop (Suc k * per) items, None)"
      by (simp add: algebra_simps)
    moreover have "?rest = take per ?rest @ drop (Suc k * per) items"
      by (metis append_take_drop_id drop_drop mult_Suc)
    ultimately show ?thesis using False
      by (simp add: woo_pages.simps [of get per "1 + int k"] pages)
  qed
qed

text \<open>The WooCommerce pull ends and is complete: against a store that serves its products in pages as
  documented, the loop asks for finitely many pages and yields exactly the store's products, in order,
  each once, whatever their number is.\<close>

theorem woo_pull_complete:
  assumes "0 < per" and "\<forall>k. get (1 + int k) = Inr (VList (take per (drop (k * per) items)))"
  shows "woo_pages get per 1 = Some (items, None)"
  using woo_pages_from [OF assms(1), of get items 0] assms(2) by simp

definition demo_store_page :: "int \<Rightarrow> pyv res" where
  "demo_store_page n = Inr (VList (take 2 (drop (nat (n - 1) * 2) [VInt 1, VInt 2, VInt 3, VInt 4])))"

theorem woo_pull_complete_witness:
  "woo_pages demo_store_page 2 1 = Some ([VInt 1, VInt 2, VInt 3, VInt 4], None)"
  by (rule woo_pull_complete) (simp_all add: demo_store_page_def)

subsection \<open>Reconciliation\<close>

definition repair_event :: "'s sync_env \<Rightarrow> product \<Rightarrow> ingest_event" where
  "repair_event N p = (p, repair_vector N p)"

lemma upsert_ok:
  assumes "es_up (sn_es N) doc" "es_versioned (sn_es N) doc" "dated (sn_ts N) e"
  shows "upsert_product (sn_ts N) (sn_es N) x (fst e) (snd e) s = (Inr (), ingest (sn_ts N) (sn_es N) x s e)"
proof -
  have v: "version_from (sn_ts N) (cp_updated (fst e)) = Inr (Some (snd (event_entry (sn_ts N) e)))"
    by (rule dated_version [OF assms(3)])
  have "fst (index_guarded (sn_es N) x i d (Some v) s) = Inr ()" for i d v
  proof (cases "older (doc x i s) v")
    case True
    then have "fst (es_index (sn_es N) x i d (Some v) s) = Inr ()" using assms(1) by (simp add: es_up_def)
    then show ?thesis by (auto simp: index_guarded_def split: prod.split sum.split)
  next
    case False
    from es_versioned_laws(2) [OF assms(2) this] obtain e
      where "fst (es_index (sn_es N) x i d (Some v) s) = Inl e" "is_conflict e" by blast
    then show ?thesis by (auto simp: index_guarded_def split: prod.split sum.split)
  qed
  with v show ?thesis by (simp add: ingest_def upsert_product_def prod_eq_iff)
qed

lemma reconcile_items_ok:
  assumes "es_up (sn_es N) doc" "es_versioned (sn_es N) doc"
    and "list_all2 (\<lambda>raw p. normalize_raw N t source raw = Inr p \<and> dated (sn_ts N) (repair_event N p)) raws ps"
  shows "\<exists>r'. reconcile_items N t source raws r s =
      (Inr r', foldl (ingest (sn_ts N) (sn_es N) (sn_idx N)) s (map (repair_event N) ps)) \<and>
      rn_repaired r' = rn_repaired r + length ps"
  using assms(3)
proof (induction raws ps arbitrary: r s rule: list_all2_induct)
  case Nil
  then show ?case by simp
next
  case (Cons raw raws p ps)
  let ?s = "ingest (sn_ts N) (sn_es N) (sn_idx N) s (repair_event N p)"
  let ?r = "\<lparr>rn_scanned = Suc (rn_scanned r), rn_repaired = Suc (rn_repaired r),
    rn_watermark = raise_watermark (cp_updated p) (rn_watermark r)\<rparr>"
  have u: "upsert_product (sn_ts N) (sn_es N) (sn_idx N) p (repair_vector N p) s = (Inr (), ?s)"
    using upsert_ok [OF assms(1,2), of "repair_event N p" "sn_idx N" s] Cons(1) by (simp add: repair_event_def)
  obtain r' where "reconcile_items N t source raws ?r ?s =
      (Inr r', foldl (ingest (sn_ts N) (sn_es N) (sn_idx N)) ?s (map (repair_event N) ps))"
    "rn_repaired r' = rn_repaired ?r + length ps"
    using Cons.IH by blast
  moreover have "normalize_raw N t source raw = Inr p" using Cons(1) by simp
  ultimately show ?case using u by simp
qed

text \<open>C20: A reconciliation repairs everything it pulled: when the pull ends well, the payloads are well formed and
  the index answers, every pulled product counts as repaired and is in the index afterwards in its own
  version or a newer one.\<close>

theorem reconcile_repairs_all:
  assumes "es_up (sn_es N) doc" and "es_versioned (sn_es N) doc"
    and "list_all2 (\<lambda>raw p. normalize_raw N t source raw = Inr p \<and> dated (sn_ts N) (repair_event N p)) raws ps"
  shows "\<exists>r s'. reconcile N t source (raws, None) s = (Inr r, s') \<and> rn_repaired r = length ps \<and>
    (\<forall>p\<in>set ps. \<exists>d v. doc (sn_idx N) (doc_id (cp_tenant p) (cp_id p)) s' = Some (d, v) \<and>
       version_from (sn_ts N) (cp_updated p) \<in> {Inr (Some u) | u. u \<le> v})"
proof -
  let ?es = "map (repair_event N) ps"
  let ?s = "foldl (ingest (sn_ts N) (sn_es N) (sn_idx N)) s ?es"
  obtain r where r: "reconcile N t source (raws, None) s = (Inr r, ?s)" "rn_repaired r = length ps"
    using reconcile_items_ok [OF assms, of "\<lparr>rn_scanned = 0, rn_repaired = 0, rn_watermark = None\<rparr>" s]
    by (auto simp: reconcile_def)
  have dated: "list_all (dated (sn_ts N)) ?es"
    using assms(3) by (induction raws ps rule: list_all2_induct) auto
  have "\<exists>d v. doc (sn_idx N) (doc_id (cp_tenant p) (cp_id p)) ?s = Some (d, v) \<and>
       version_from (sn_ts N) (cp_updated p) \<in> {Inr (Some u) | u. u \<le> v}" if "p \<in> set ps" for p
  proof -
    let ?e = "repair_event N p" and ?k = "doc_id (cp_tenant p) (cp_id p)"
    have k: "event_id ?e = ?k" by (simp add: event_id_def repair_event_def)
    have "event_entry (sn_ts N) ?e \<in> set (map (event_entry (sn_ts N)) (filter (\<lambda>e. event_id e = ?k) ?es))"
      using that k by auto
    then obtain m where m: "doc (sn_idx N) ?k ?s = Some m" "snd (event_entry (sn_ts N) ?e) \<le> snd m"
      using fold_newest_max [of "event_entry (sn_ts N) ?e"] by (metis UnI1 ingest_run [OF assms(2,1) dated])
    have "dated (sn_ts N) ?e" using dated that by (auto simp: list_all_iff)
    from dated_version [OF this] m show ?thesis by (cases m) (auto simp: repair_event_def)
  qed
  with r show ?thesis by blast
qed

definition demo_env_sync :: "mem_es sync_env" where
  "demo_env_sync = \<lparr>sn_repr = (\<lambda>_. []), sn_ts = toy_ts, sn_es = mem_es, sn_idx = ''i'', sn_orders = ''o'', sn_embed = (\<lambda>_. None)\<rparr>"

definition demo_raw :: py_dict where
  "demo_raw = [(''product_id'', VStr ''p''), (''title'', VStr ''new''), (''updated_at'', VStr ''22'')]"

theorem reconcile_repairs_all_witness:
  "\<exists>r s'. reconcile demo_env_sync ''t'' ''rest'' ([VDict demo_raw], None) [] = (Inr r, s') \<and> rn_repaired r = 1 \<and>
     mem_doc ''i'' ''t:p'' s' \<noteq> None"
proof -
  let ?p = "normalize_rest (\<lambda>_. []) ''t'' demo_raw"
  have n: "normalize_raw demo_env_sync ''t'' ''rest'' (VDict demo_raw) = Inr ?p"
    by (simp add: normalize_raw_def demo_env_sync_def normalize_product_def py_lower_def lower_char_def)
  have d: "dated (sn_ts demo_env_sync) (repair_event demo_env_sync ?p)"
    by (simp add: dated_def repair_event_def demo_env_sync_def normalize_rest_def demo_raw_def dict_get_def version_from_def toy_ts_def)
  have up: "es_up (sn_es demo_env_sync) mem_doc" "es_versioned (sn_es demo_env_sync) mem_doc"
    by (simp_all add: demo_env_sync_def)
  have l: "list_all2 (\<lambda>raw p. normalize_raw demo_env_sync ''t'' ''rest'' raw = Inr p \<and>
      dated (sn_ts demo_env_sync) (repair_event demo_env_sync p)) [VDict demo_raw] [?p]"
    using n d by simp
  have "doc_id (cp_tenant ?p) (cp_id ?p) = ''t:p''" "sn_idx demo_env_sync = ''i''"
    by (simp_all add: doc_id_def normalize_rest_def demo_raw_def last_get_def dict_get_def py_or_def demo_env_sync_def)
  with reconcile_repairs_all [OF up l, of "[]"] show ?thesis by auto
qed

subsection \<open>Failed events\<close>

text \<open>Events that keep failing are dropped. Under Celery's documented \<open>retry\<close>, which raises the given exception
  again once the retries are used up, a product event never ends parked in the dead-letter queue: when it
  fails for the last time, the task fails and Redis is left as it was.\<close>

theorem webhook_never_deadletters:
  assumes "celery_retry max_retries retry"
    and "process_webhook_event N retry redis n t source kind pid raw b = (result, b1)"
  shows "result \<noteq> Done ''deadlettered'' \<and>
    (max_retries \<le> n \<longrightarrow> result = Done ''ok'' \<or> ((\<exists>e. result = Failed e) \<and> snd b1 = snd b))"
proof -
  have a: "after_failure retry redis n t ev e w = ((if n < max_retries then Rescheduled else Failed e), w)" for ev e w
    using assms(1) by (simp add: after_failure_def celery_retry_def)
  obtain s w where b: "b = (s, w)" by (metis prod.exhaust)
  define step where "step = (if kind = ''delete'' then
      (case tombstone_product (sn_es N) (sn_idx N) t pid s of
         (Inl e, s1) \<Rightarrow> (Inl e, (s1, w))
       | (Inr _, s1) \<Rightarrow> (Inr (), (s1, bump redis t w)))
    else apply_upsert N redis t source (VDict raw) b)"
  obtain r s1 w1 where st: "step = (r, (s1, w1))" by (metis prod.exhaust)
  have keep: "w1 = w" if "r = Inl e" for e
    using st that unfolding step_def b
    by (auto simp: apply_upsert_def split: prod.splits sum.splits if_splits)
  have p: "process_webhook_event N retry redis n t source kind pid raw b =
      (case r of Inr _ \<Rightarrow> (Done ''ok'', (s1, w1))
       | Inl e \<Rightarrow> ((if n < max_retries then Rescheduled else Failed e), (s1, w1)))"
    using st unfolding process_webhook_event_def b step_def by (simp add: a split: sum.split)
  have "snd b = w" by (simp add: b)
  with assms(2) [unfolded p] keep show ?thesis by (cases r) (auto split: if_splits)
qed

definition rest_retry :: "nat \<Rightarrow> exn \<Rightarrow> retry_outcome" where
  "rest_retry n e = (if n < 3 then AskRetry else Reraise e)"

definition undated_raw :: py_dict where
  "undated_raw = [(''product_id'', VStr ''p''), (''updated_at'', VInt 7)]"

theorem webhook_never_deadletters_witness:
  "process_webhook_event demo_env_sync rest_retry (Some mem_redis) 3 ''t'' ''rest'' ''upsert'' ''p'' undated_raw ([], mem_empty)
     = (Failed (Exn ''AttributeError''), ([], mem_empty)) \<and>
   fst (process_webhook_event demo_env_sync rest_retry (Some mem_redis) 3 ''t'' ''rest'' ''upsert'' ''p'' undated_raw ([], mem_empty))
     \<noteq> Done ''deadlettered''"
proof -
  have r: "celery_retry 3 rest_retry" by (simp add: celery_retry_def rest_retry_def)
  have "process_webhook_event demo_env_sync rest_retry (Some mem_redis) 3 ''t'' ''rest'' ''upsert'' ''p'' undated_raw ([], mem_empty)
     = (Failed (Exn ''AttributeError''), ([], mem_empty))"
    by (simp add: process_webhook_event_def apply_upsert_def normalize_raw_def normalize_product_def normalize_rest_def
        demo_env_sync_def undated_raw_def first_of_def dict_get_def last_get_def py_or_def py_lower_def lower_char_def
        after_failure_def rest_retry_def upsert_product_def version_from_def)
  with webhook_never_deadletters [OF r this] show ?thesis by simp
qed

text \<open>A bulk import loses nothing: every payload is either counted as imported or parked in the tenant's dead-letter
  queue with the error that stopped it, on top of what was parked before, as long as Redis takes the
  commands.\<close>

theorem bulk_import_accounts:
  assumes "redis_list R rd_list" and "redis_frame R rd_list"
    and "\<forall>k v w. fst (rd_lpush R k v w) = Inr ()"
    and "bulk_import N (Some R) t source raws (s, w) = (n, (s1, w1))"
  shows "\<exists>parked. rd_list (dlq_key t) w1 = parked @ rd_list (dlq_key t) w \<and> n + length parked = length raws \<and>
    (\<forall>x\<in>set parked. \<exists>raw\<in>set raws. \<exists>err.
       x = VDict [(''event'', VDict [(''source'', VStr source), (''raw'', raw)]), (''error'', VStr err)])"
  using assms(4)
proof (induction raws arbitrary: n s w)
  case Nil
  then show ?case by auto
next
  case (Cons raw raws)
  have bump: "rd_list (dlq_key t) (bump (Some R) t v) = rd_list (dlq_key t) v" for v
  proof -
    have "dlq_key t \<noteq> version_key t" by (simp add: dlq_key_def version_key_def)
    moreover have "bump (Some R) t v = snd (rd_incr R (version_key t) v)"
      by (simp add: bump_def bump_data_version_def split: prod.split)
    ultimately show ?thesis using redis_frame_laws(4) [OF assms(2)] by simp
  qed
  obtain r s' w' where a: "apply_upsert N (Some R) t source raw (s, w) = (r, (s', w'))" by (metis prod.exhaust)
  have keep: "rd_list (dlq_key t) w' = rd_list (dlq_key t) w"
    using a bump by (auto simp: apply_upsert_def split: prod.splits sum.splits if_splits)
  show ?case
  proof (cases r)
    case (Inr x)
    obtain m where m: "bulk_import N (Some R) t source raws (s', w') = (m, (s1, w1))" "n = Suc m"
      using Cons.prems a Inr by (auto split: prod.splits)
    from Cons.IH [OF m(1)] show ?thesis using m(2) keep by auto
  next
    case (Inl e)
    let ?x = "VDict [(''event'', VDict [(''source'', VStr source), (''raw'', raw)]), (''error'', VStr (exn_msg e))]"
    let ?w = "park (Some R) t [(''source'', VStr source), (''raw'', raw)] (exn_msg e) w'"
    have p: "rd_list (dlq_key t) ?w = ?x # rd_list (dlq_key t) w"
      using redis_list_laws(9) [OF assms(1)] assms(3) keep by (simp add: park_def)
    have "bulk_import N (Some R) t source raws (s', ?w) = (n, (s1, w1))"
      using Cons.prems a Inl by simp
    from Cons.IH [OF this] obtain parked where k: "rd_list (dlq_key t) w1 = parked @ rd_list (dlq_key t) ?w"
        "n + length parked = length raws"
        "\<forall>x\<in>set parked. \<exists>raw\<in>set raws. \<exists>err.
           x = VDict [(''event'', VDict [(''source'', VStr source), (''raw'', raw)]), (''error'', VStr err)]" by blast
    have "rd_list (dlq_key t) w1 = (parked @ [?x]) @ rd_list (dlq_key t) w" using k(1) p by simp
    moreover have "n + length (parked @ [?x]) = length (raw # raws)" using k(2) by simp
    moreover have "\<forall>x\<in>set (parked @ [?x]). \<exists>raw\<in>set (raw # raws). \<exists>err.
        x = VDict [(''event'', VDict [(''source'', VStr source), (''raw'', raw)]), (''error'', VStr err)]"
      using k(3) by auto
    ultimately show ?thesis by blast
  qed
qed

theorem bulk_import_accounts_witness:
  "\<exists>parked. mem_list (dlq_key ''t'') (snd (snd (bulk_import demo_env_sync (Some mem_redis) ''t'' ''rest''
      [VDict demo_raw, VInt 3] ([], mem_empty)))) = parked @ mem_list (dlq_key ''t'') mem_empty \<and>
    fst (bulk_import demo_env_sync (Some mem_redis) ''t'' ''rest'' [VDict demo_raw, VInt 3] ([], mem_empty)) + length parked = 2"
proof -
  obtain n s1 w1 where b: "bulk_import demo_env_sync (Some mem_redis) ''t'' ''rest'' [VDict demo_raw, VInt 3] ([], mem_empty) = (n, (s1, w1))"
    by (metis prod.exhaust)
  have l: "\<forall>k v w. fst (rd_lpush mem_redis k v w) = Inr ()" by (simp add: mem_redis_def)
  from bulk_import_accounts [OF mem_redis_list mem_redis_frame l b] show ?thesis using b by auto
qed

end
