(* ===== verification/V1Props.thy ===== *)
theory V1Props
  imports V1 SyncProps
begin

text \<open>
  What the public API guarantees: nothing is served, enqueued or changed without a live key of the
  endpoint's scope, and a message a store's key enqueues can only ever change that store's documents.
\<close>

subsection \<open>The endpoints as one step\<close>

datatype v1_request =
    ReqSearch int py_dict
  | ReqSuggest string
  | ReqWebhook string "pyv res"
  | ReqBulk py_dict
  | ReqOrder string "pyv res"
  | ReqOrderBulk py_dict
  | ReqChat int string int py_dict
  | ReqStream int string py_dict

fun v1_scope :: "v1_request \<Rightarrow> key_scope" where
  "v1_scope (ReqWebhook _ _) = SYNC"
| "v1_scope (ReqBulk _) = SYNC"
| "v1_scope (ReqOrder _ _) = SYNC"
| "v1_scope (ReqOrderBulk _) = SYNC"
| "v1_scope _ = WIDGET"

fun accepted :: "'a reply \<times> 's \<Rightarrow> unit reply \<times> 's" where
  "accepted (Ok _, s) = (Ok (), s)"
| "accepted (Err c m, s) = (Err c m, s)"

fun v1_step :: "'w api \<Rightarrow> pool \<Rightarrow> real \<Rightarrow> string option \<Rightarrow> v1_request \<Rightarrow> store \<times> 'w \<Rightarrow> unit reply \<times> store \<times> 'w" where
  "v1_step A p now k (ReqSearch lat payload) x = accepted (v1_search A p now k lat payload x)"
| "v1_step A p now k (ReqSuggest q) x = accepted (v1_suggest A p now k q x)"
| "v1_step A p now k (ReqWebhook source body) x = accepted (v1_sync_webhook A p now k source body x)"
| "v1_step A p now k (ReqBulk payload) x = accepted (v1_sync_bulk A p now k payload x)"
| "v1_step A p now k (ReqOrder source body) x = accepted (v1_sync_order_webhook A p now k source body x)"
| "v1_step A p now k (ReqOrderBulk payload) x = accepted (v1_sync_order_bulk A p now k payload x)"
| "v1_step A p now k (ReqChat lat fresh_id lead_id payload) x = accepted (v1_chat A p now k lat fresh_id lead_id payload x)"
| "v1_step A p now k (ReqStream lat fresh_id payload) x = accepted (v1_chat_stream A p now k lat fresh_id payload x)"

definition live_scope :: "'w api \<Rightarrow> string option \<Rightarrow> key_scope \<Rightarrow> store \<Rightarrow> bool" where
  "live_scope A k scope st \<longleftrightarrow>
     (\<exists>r\<in>set (keys st). live_key (hash_key (a1_crypto A) (the_or [] k)) r \<and> ky_scope r = scope)"

lemma guard_refused:
  assumes "\<not> live_scope A k scope st"
  shows "guard (a1_crypto A) R n [scope] now k st w \<in> {(Err 401 ''unauthorized'', w), (Err 403 ''forbidden'', w)}"
  using assms
  by (auto simp: guard_def resolve_principal_def extract_principal_def principal_allowed_def live_scope_def Let_def
      split: option.splits dest!: find_SomeD)

lemma guarded_refused:
  assumes "\<not> live_scope A k scope (fst x)"
  shows "\<exists>c m. guarded A p scope now k f x = (Err c m, x)"
  using guard_refused [OF assms, of "a1_limiter A" default_per_min now "snd x"]
  by (auto simp: guarded_def split: reply.splits)

text \<open>C23: The public API serves nobody without a key: a request whose key is missing, unknown, revoked or of another
  scope than the endpoint's is refused, and leaves the tables, the queue, the caches and the rate limiter's
  counters exactly as they were.\<close>

theorem v1_requires_live_key:
  assumes "\<not> live_scope A k (v1_scope req) (fst x)"
  shows "\<exists>c m. v1_step A p now k req x = (Err c m, x)"
proof -
  have g: "\<exists>c m. accepted (guarded A p (v1_scope req) now k f x) = (Err c m, x)"
    for f :: "tenant \<Rightarrow> store \<times> 'a \<Rightarrow> 'b reply \<times> store \<times> 'a"
    using guarded_refused [OF assms, of p now f] by force
  show ?thesis
  proof (cases req)
    case (ReqSearch lat payload)
    then show ?thesis using g by (simp add: v1_search_def)
  next
    case (ReqSuggest q)
    then show ?thesis using g by (simp add: v1_suggest_def)
  next
    case (ReqWebhook source body)
    then show ?thesis using g by (simp add: v1_sync_webhook_def)
  next
    case (ReqBulk payload)
    then show ?thesis using g by (simp add: v1_sync_bulk_def)
  next
    case (ReqOrder source body)
    then show ?thesis using g by (simp add: v1_sync_order_webhook_def)
  next
    case (ReqOrderBulk payload)
    then show ?thesis using g by (simp add: v1_sync_order_bulk_def)
  next
    case (ReqChat lat fresh_id lead_id payload)
    then show ?thesis using g by (simp add: v1_chat_def)
  next
    case (ReqStream lat fresh_id payload)
    then show ?thesis using g by (simp add: v1_chat_stream_def)
  qed
qed

subsection \<open>From the key to the index\<close>

text \<open>A worker that takes one message. A product import passes the payloads on as objects.\<close>

fun run_task ::
  "'s sync_env \<Rightarrow> (nat \<Rightarrow> exn \<Rightarrow> retry_outcome) \<Rightarrow> ('v, 'x) redis_scheme option \<Rightarrow> nat \<Rightarrow> task_msg \<Rightarrow> ('s, 'v) backends
     \<Rightarrow> ('s, 'v) backends" where
  "run_task N retry redis n (ProcessWebhook t source kind pid raw) b = snd (process_webhook_event N retry redis n t source kind pid raw b)"
| "run_task N retry redis n (BulkImport t source raws) b = snd (bulk_import N redis t source (map VDict raws) b)"
| "run_task N retry redis n (ProcessOrder t source kind oid raw) b = snd (process_order_webhook_event N retry redis n t source kind oid raw b)"
| "run_task N retry redis n (BulkOrders t source raws) b = snd (bulk_import_orders N redis t source (map VDict raws) b)"

fun msg_tenant :: "task_msg \<Rightarrow> tenant" where
  "msg_tenant (ProcessWebhook t _ _ _ _) = t"
| "msg_tenant (BulkImport t _ _) = t"
| "msg_tenant (ProcessOrder t _ _ _ _) = t"
| "msg_tenant (BulkOrders t _ _) = t"

text \<open>Documents of other stores: their identifiers do not start with the tenant's.\<close>

definition foreign :: "tenant \<Rightarrow> string \<Rightarrow> bool" where
  "foreign t i \<longleftrightarrow> \<not> prefix (t @ '':'') i"

definition keeps_foreign :: "'s es_view \<Rightarrow> tenant \<Rightarrow> 's \<Rightarrow> 's \<Rightarrow> bool" where
  "keeps_foreign doc t s s1 \<longleftrightarrow> (\<forall>x i. foreign t i \<longrightarrow> doc x i s1 = doc x i s)"

lemma keeps_foreign_refl [simp]: "keeps_foreign doc t s s"
  by (simp add: keeps_foreign_def)

lemma keeps_foreign_trans: "keeps_foreign doc t s s1 \<Longrightarrow> keeps_foreign doc t s1 s2 \<Longrightarrow> keeps_foreign doc t s s2"
  by (simp add: keeps_foreign_def)

lemma doc_id_own: "\<not> foreign t (doc_id t pid)"
  by (simp add: foreign_def doc_id_def prefix_def)

lemma index_guarded_keeps:
  assumes "es_versioned ES doc"
  shows "keeps_foreign doc t s (snd (index_guarded ES x (doc_id t pid) d v s))"
proof -
  have "snd (index_guarded ES x (doc_id t pid) d v s) = snd (es_index ES x (doc_id t pid) d v s)"
    by (auto simp: index_guarded_def split: prod.split sum.split)
  moreover have "doc y i (snd (es_index ES x (doc_id t pid) d v s)) = doc y i s" if "foreign t i" for y i
    using es_versioned_laws(4) [OF assms] doc_id_own that by (metis prod.inject)
  ultimately show ?thesis by (simp add: keeps_foreign_def)
qed

lemma es_delete_other:
  "es_versioned ES doc \<Longrightarrow> (y, j) \<noteq> (x, i) \<Longrightarrow> doc y j (snd (es_delete ES x i s)) = doc y j s"
  by (simp add: es_versioned_def)

lemma es_delete_keeps:
  assumes "es_versioned ES doc"
  shows "keeps_foreign doc t s (snd (es_delete ES x (doc_id t pid) s))"
  using es_delete_other [OF assms] doc_id_own unfolding keeps_foreign_def by (metis prod.inject)

lemma tombstone_keeps:
  assumes "es_versioned ES doc"
  shows "keeps_foreign doc t s (snd (tombstone_product ES x t pid s))" "keeps_foreign doc t s (snd (tombstone_order ES x t pid s))"
  using es_delete_keeps [OF assms, of t s x pid]
  by (auto simp: tombstone_product_def tombstone_order_def split: prod.splits sum.splits)

lemma normalized_tenant: "normalize_raw N t source raw = Inr p \<Longrightarrow> cp_tenant p = t"
  by (auto simp: normalize_raw_def normalize_product_def normalize_woo_def normalize_opencart_def normalize_rest_def Let_def
      split: pyv.splits if_splits prod.splits sum.splits)

lemma normalized_order_tenant: "normalize_order repr t source raw = Inr r \<Longrightarrow> so_tenant r = t"
  by (auto simp: normalize_order_def Let_def bind_res_Inr split: if_splits pyv.splits)

lemma apply_upsert_keeps:
  assumes "es_versioned (sn_es N) doc"
  shows "keeps_foreign doc t (fst b) (fst (snd (apply_upsert N redis t source raw b)))"
proof -
  have "keeps_foreign doc t s (snd (upsert_product (sn_ts N) (sn_es N) x p v s))" if "cp_tenant p = t" for x p v s
    using index_guarded_keeps [OF assms] that by (auto simp: upsert_product_def split: sum.split)
  then show ?thesis
    by (auto simp: apply_upsert_def dest!: normalized_tenant split: prod.splits sum.splits) (metis snd_conv)+
qed

lemma apply_order_keeps:
  assumes "es_versioned (sn_es N) doc"
  shows "keeps_foreign doc t s (snd (apply_order_upsert N t source raw s))"
  using index_guarded_keeps [OF assms]
  by (auto simp: apply_order_upsert_def upsert_order_def dest!: normalized_order_tenant split: pyv.splits sum.splits)


lemma process_webhook_keeps:
  assumes "es_versioned (sn_es N) doc"
  shows "keeps_foreign doc t (fst b) (fst (snd (process_webhook_event N retry redis n t source kind pid raw b)))"
  using tombstone_keeps(1) [OF assms, of t "fst b" "sn_idx N" pid] apply_upsert_keeps [OF assms, where t = t and b = b and redis = redis and source = source and raw = "VDict raw"]
  by (auto simp: process_webhook_event_def after_failure_def Let_def split: prod.splits sum.splits if_splits retry_outcome.splits)

lemma process_order_keeps:
  assumes "es_versioned (sn_es N) doc"
  shows "keeps_foreign doc t (fst b) (fst (snd (process_order_webhook_event N retry redis n t source kind oid raw b)))"
  using tombstone_keeps(2) [OF assms, of t "fst b" "sn_orders N" oid] apply_order_keeps [OF assms, where t = t and s = "fst b" and source = source and raw = "VDict raw"]
  by (auto simp: process_order_webhook_event_def after_failure_def Let_def split: prod.splits sum.splits if_splits retry_outcome.splits)

lemma bulk_import_keeps:
  assumes "es_versioned (sn_es N) doc"
  shows "keeps_foreign doc t (fst b) (fst (snd (bulk_import N redis t source raws b)))"
proof (induction raws arbitrary: b)
  case Nil
  then show ?case by simp
next
  case (Cons raw raws)
  obtain r s1 w1 where a: "apply_upsert N redis t source raw b = (r, (s1, w1))" by (metis prod.exhaust)
  have k: "keeps_foreign doc t (fst b) s1" using apply_upsert_keeps [OF assms, where t = t and b = b and redis = redis and source = source and raw = raw] a by simp
  show ?case
  proof (cases r)
    case (Inl e)
    with a k Cons.IH show ?thesis by (simp add: keeps_foreign_def)
  next
    case (Inr u)
    with a k Cons.IH [of "(s1, w1)"] show ?thesis by (auto simp: keeps_foreign_def split: prod.splits)
  qed
qed

lemma bulk_orders_keeps:
  assumes "es_versioned (sn_es N) doc"
  shows "keeps_foreign doc t (fst b) (fst (snd (bulk_import_orders N redis t source raws b)))"
proof (induction raws arbitrary: b)
  case Nil
  then show ?case by simp
next
  case (Cons raw raws)
  obtain r s1 where a: "apply_order_upsert N t source raw (fst b) = (r, s1)" by (metis prod.exhaust)
  have k: "keeps_foreign doc t (fst b) s1" using apply_order_keeps [OF assms, where t = t and s = "fst b" and source = source and raw = raw] a by simp
  show ?case
  proof (cases r)
    case (Inl e)
    with a k Cons.IH show ?thesis by (simp add: keeps_foreign_def)
  next
    case (Inr u)
    with a k Cons.IH [of "(s1, snd b)"] show ?thesis by (auto simp: keeps_foreign_def split: prod.splits)
  qed
qed

lemma run_task_keeps:
  assumes "es_versioned (sn_es N) doc"
  shows "keeps_foreign doc (msg_tenant m) (fst b) (fst (run_task N retry redis n m b))"
  using assms by (cases m) (simp_all add: process_webhook_keeps process_order_keeps bulk_import_keeps bulk_orders_keeps)

text \<open>The queue as an observation of the world: the guard leaves it, an enqueued message is appended.\<close>

definition broker :: "'w api \<Rightarrow> ('w \<Rightarrow> task_msg list) \<Rightarrow> bool" where
  "broker A queue \<longleftrightarrow>
     (\<forall>scopes now k st w. queue (snd (guard (a1_crypto A) (a1_limiter A) default_per_min scopes now k st w)) = queue w) \<and>
     (\<forall>m w. queue (snd (a1_enqueue A m w)) \<in> {queue w, queue w @ [m]})"

lemma acceptedD: "accepted y = (r, s) \<Longrightarrow> snd y = s"
  by (cases y; cases "fst y") auto

lemma enqueue_queue:
  "broker A queue \<Longrightarrow> queue (snd (snd (enqueue A m ok x))) \<in> {queue (snd x), queue (snd x) @ [m]}"
  by (auto simp: broker_def enqueue_def split: prod.splits sum.splits) (metis snd_conv)+

lemma enqueue_msg:
  "broker A queue \<Longrightarrow> queue (snd (snd (enqueue A m' ok (st, w)))) = queue w @ [m] \<Longrightarrow> m' = m"
  using enqueue_queue [of A queue m' ok "(st, w)"] by auto

lemma guarded_sync_queue:
  assumes "broker A queue" and "queue (snd (snd (guarded A p scope now k f x))) = queue (snd x) @ [m]"
    and "\<And>t st w. queue (snd (snd (f t (st, w)))) = queue w @ [m] \<Longrightarrow> msg_tenant m = t"
  shows "\<exists>r\<in>set (keys (fst x)). live_key (hash_key (a1_crypto A) (the_or [] k)) r \<and> ky_scope r = scope \<and> ky_tenant r = msg_tenant m"
proof -
  obtain rep w1 where g: "guard (a1_crypto A) (a1_limiter A) default_per_min [scope] now k (fst x) (snd x) = (rep, w1)"
    by (cases "guard (a1_crypto A) (a1_limiter A) default_per_min [scope] now k (fst x) (snd x)")
  have q: "queue w1 = queue (snd x)"
    using assms(1) g unfolding broker_def by (metis snd_conv)
  show ?thesis
  proof (cases rep)
    case (Err c e)
    with assms(2) g q show ?thesis by (auto simp: guarded_def split: if_splits)
  next
    case (Ok t)
    with assms(2) g have "queue (snd (snd (f t (fst x, w1)))) = queue (snd x) @ [m]"
      by (auto simp: guarded_def split: if_splits)
    then have "msg_tenant m = t" using assms(3) [of t "fst x" w1] q by simp
    with guard_okD [OF g [unfolded Ok]] show ?thesis by (auto simp: live_key_def)
  qed
qed

text \<open>From the key to the index, stores stay apart: a message that a request put into the queue belongs to the
  store of the live sync key the request carried, and a worker that runs it changes no document of any
  other store, whatever the payload says.\<close>

theorem sync_stays_in_store:
  assumes "broker A queue" and "v1_scope req = SYNC"
    and "v1_step A p now k req (st, w) = (reply, st1, w1)" and "queue w1 = queue w @ [m]"
    and "es_versioned (sn_es N) doc"
  shows "\<exists>r\<in>set (keys st). live_key (hash_key (a1_crypto A) (the_or [] k)) r \<and> ky_scope r = SYNC \<and>
    (\<forall>retry redis n b x i. foreign (ky_tenant r) i \<longrightarrow> doc x i (fst (run_task N retry redis n m b)) = doc x i (fst b))"
proof -
  note enq = enqueue_msg [OF assms(1)]
  have "\<exists>r\<in>set (keys st). live_key (hash_key (a1_crypto A) (the_or [] k)) r \<and> ky_scope r = SYNC \<and> ky_tenant r = msg_tenant m"
  proof (cases req)
    case (ReqWebhook source body)
    have "queue (snd (snd (v1_sync_webhook A p now k source body (st, w)))) = queue w @ [m]"
      using assms(3,4) by (simp add: ReqWebhook acceptedD)
    then show ?thesis
      unfolding v1_sync_webhook_def
      by (rule guarded_sync_queue [OF assms(1), where x = "(st, w)", unfolded fst_conv snd_conv])
        (auto split: sum.splits pyv.splits dest!: enq)
  next
    case (ReqBulk payload)
    have "queue (snd (snd (v1_sync_bulk A p now k payload (st, w)))) = queue w @ [m]"
      using assms(3,4) by (simp add: ReqBulk acceptedD)
    then show ?thesis
      unfolding v1_sync_bulk_def
      by (rule guarded_sync_queue [OF assms(1), where x = "(st, w)", unfolded fst_conv snd_conv])
        (auto split: option.splits prod.splits dest!: enq)
  next
    case (ReqOrder source body)
    have "queue (snd (snd (v1_sync_order_webhook A p now k source body (st, w)))) = queue w @ [m]"
      using assms(3,4) by (simp add: ReqOrder acceptedD)
    then show ?thesis
      unfolding v1_sync_order_webhook_def
      by (rule guarded_sync_queue [OF assms(1), where x = "(st, w)", unfolded fst_conv snd_conv])
        (auto split: sum.splits pyv.splits prod.splits dest!: enq)
  next
    case (ReqOrderBulk payload)
    have "queue (snd (snd (v1_sync_order_bulk A p now k payload (st, w)))) = queue w @ [m]"
      using assms(3,4) by (simp add: ReqOrderBulk acceptedD)
    then show ?thesis
      unfolding v1_sync_order_bulk_def
      by (rule guarded_sync_queue [OF assms(1), where x = "(st, w)", unfolded fst_conv snd_conv])
        (auto split: option.splits prod.splits dest!: enq)
  qed (use assms(2) in simp_all)
  then show ?thesis using run_task_keeps [OF assms(5)] unfolding keeps_foreign_def by metis
qed

subsection \<open>Concrete runs\<close>

definition queue_api :: "task_msg list api" where
  "queue_api =
     \<lparr>a1_crypto = toy_crypto [], a1_limiter = None,
      a1_search = \<lparr>sv_es = (\<lambda>b w. (Inl (Exn ''TransportError''), w)), sv_embed = None, sv_redis = None, sv_meter = None,
        sv_reranker = None, sv_cfg = demo_search_cfg\<rparr>,
      a1_rag = \<lparr>ra_router = demo_router, ra_env = demo_turn, ra_memory = None, ra_version = None\<rparr>,
      a1_enqueue = (\<lambda>m w. (Inr (), w @ [m])), a1_repr = (\<lambda>_. []), a1_lax_int = (\<lambda>_. None),
      a1_chars = \<lparr>lx_unicode = ascii_unicode, lx_digit = (\<lambda>_. False), lx_space = (\<lambda>_. False)\<rparr>\<rparr>"

definition sync_store :: store where
  "sync_store = empty_store\<lparr>keys := [\<lparr>ky_id = ''k'', ky_tenant = ''t'', ky_hash = cr_sha256 (toy_crypto []) ''x'', ky_scope = SYNC,
     ky_label = ''a'', ky_revoked = False\<rparr>]\<rparr>"

theorem v1_requires_live_key_witness:
  "\<exists>c m. v1_step queue_api PgUp 0 (Some ''x'') (ReqSearch 0 [(''query'', VStr ''tea'')]) (sync_store, []) = (Err c m, sync_store, [])"
  by (rule v1_requires_live_key) (simp add: live_scope_def sync_store_def empty_store_def)

lemma queue_api_broker: "broker queue_api (\<lambda>w. w)"
  by (auto simp: broker_def queue_api_def guard_def rl_allow_def Let_def split: option.splits)

theorem sync_stays_in_store_witness:
  "v1_step queue_api PgUp 0 (Some ''x'') (ReqBulk [(''products'', VList [VDict demo_raw])]) (sync_store, [])
     = (Ok (), sync_store, [BulkImport ''t'' ''rest'' [demo_raw]]) \<and>
   mem_doc ''i'' ''o:p'' (fst (run_task demo_env_sync rest_retry (Some mem_redis) 0 (BulkImport ''t'' ''rest'' [demo_raw])
      ([((''i'', ''o:p''), ([], 1))], mem_empty))) = Some ([], 1)"
proof -
  let ?req = "ReqBulk [(''products'', VList [VDict demo_raw])]"
  have "guard (a1_crypto queue_api) (a1_limiter queue_api) default_per_min [SYNC] 0 (Some ''x'') sync_store w = (Ok ''t'', w)" for w
    by (simp add: queue_api_def sync_store_def guard_def resolve_principal_def live_key_def hash_key_def empty_store_def
        principal_allowed_def rl_allow_def)
  then have step: "v1_step queue_api PgUp 0 (Some ''x'') ?req (sync_store, [])
     = (Ok (), sync_store, [BulkImport ''t'' ''rest'' [demo_raw]])"
    by (simp add: v1_sync_bulk_def guarded_def parse_bulk_def field_def dict_list_def enqueue_def) (simp add: queue_api_def)
  have "es_versioned (sn_es demo_env_sync) mem_doc" by (simp add: demo_env_sync_def)
  moreover have "(\<lambda>w. w) [BulkImport ''t'' ''rest'' [demo_raw]] = (\<lambda>w. w) [] @ [BulkImport ''t'' ''rest'' [demo_raw]]"
    "v1_scope ?req = SYNC" by simp_all
  ultimately obtain r where r: "r \<in> set (keys sync_store)"
    "\<And>retry redis n b x i. foreign (ky_tenant r) i \<Longrightarrow> mem_doc x i (fst (run_task demo_env_sync retry (redis :: mem redis option) n
       (BulkImport ''t'' ''rest'' [demo_raw]) b)) = mem_doc x i (fst b)"
    using sync_stays_in_store [OF queue_api_broker _ step] by blast
  have "ky_tenant r = ''t''" using r(1) by (simp add: sync_store_def empty_store_def)
  then have "foreign (ky_tenant r) ''o:p''" by (simp add: foreign_def)
  from r(2) [OF this] step show ?thesis by (simp add: mem_doc_def del: run_task.simps)
qed

end
