(* ===== verification/Aggregate.thy ===== *)
theory Aggregate
  imports Prelude "HOL-Library.Multiset"
begin

text \<open>
  SQL aggregation over lists of rows: \<open>GROUP BY\<close> with the rows of each group in table order, sums over
  groups, and \<open>ORDER BY ... DESC LIMIT n\<close>.
\<close>

definition group_rows :: "('a \<Rightarrow> 'k) \<Rightarrow> 'a list \<Rightarrow> ('k \<times> 'a list) list" where
  "group_rows key xs = map (\<lambda>k. (k, filter (\<lambda>x. key x = k) xs)) (remdups (map key xs))"

definition sum_of :: "('a \<Rightarrow> real) \<Rightarrow> 'a list \<Rightarrow> real" where
  "sum_of f xs = sum_list (map f xs)"

definition order_desc :: "('a \<Rightarrow> real) \<Rightarrow> 'a list \<Rightarrow> 'a list" where
  "order_desc f xs = sort_key (\<lambda>x. - f x) xs"

lemma sum_of_simps [simp]: "sum_of f [] = 0" "sum_of f (x # xs) = f x + sum_of f xs"
  "sum_of f (xs @ ys) = sum_of f xs + sum_of f ys"
  by (simp_all add: sum_of_def)

lemma sum_of_order [simp]: "sum_of f (order_desc g xs) = sum_of f xs"
proof -
  have "mset (map f (sort_key (\<lambda>x. - g x) xs)) = mset (map f xs)" by (simp only: mset_map mset_sort)
  then have "sum_mset (mset (map f (sort_key (\<lambda>x. - g x) xs))) = sum_mset (mset (map f xs))" by (rule arg_cong)
  then show ?thesis by (simp only: sum_of_def order_desc_def sum_mset_sum_list)
qed

lemma set_order_desc [simp]: "set (order_desc f xs) = set xs"
  by (simp add: order_desc_def)

lemma group_keys [simp]: "set (map fst (group_rows key xs)) = key ` set xs"
  "distinct (map fst (group_rows key xs))"
  by (simp_all add: group_rows_def image_image comp_def)

lemma group_row_member: "(k, ys) \<in> set (group_rows key xs) \<longleftrightarrow> k \<in> key ` set xs \<and> ys = filter (\<lambda>x. key x = k) xs"
  by (auto simp: group_rows_def)

text \<open>The groups partition the rows: sums over the groups add up to the sum over the table.\<close>

lemma sum_of_keys:
  "distinct ks \<Longrightarrow> key ` set xs \<subseteq> set ks \<Longrightarrow> sum_list (map (\<lambda>k. sum_of f (filter (\<lambda>x. key x = k) xs)) ks) = sum_of f xs"
proof (induction xs)
  case (Cons x xs)
  have "sum_list (map (\<lambda>k. if key x = k then f x else 0) ks) = f x"
    using Cons.prems by (simp add: sum_list_distinct_conv_sum_set sum.delta)
  moreover have "sum_of f (filter (\<lambda>y. key y = k) (x # xs)) =
    (if key x = k then f x else 0) + sum_of f (filter (\<lambda>y. key y = k) xs)" for k by simp
  ultimately show ?case using Cons by (simp add: sum_list_addf)
qed simp

lemma sum_of_groups: "sum_of (\<lambda>g. sum_of f (snd g)) (group_rows key xs) = sum_of f xs"
proof -
  have "sum_of (\<lambda>g. sum_of f (snd g)) (group_rows key xs)
      = sum_list (map (\<lambda>k. sum_of f (filter (\<lambda>x. key x = k) xs)) (remdups (map key xs)))"
    by (simp add: sum_of_def group_rows_def comp_def)
  also have "\<dots> = sum_of f xs" by (rule sum_of_keys) simp_all
  finally show ?thesis .
qed

lemma sum_of_nonneg: "(\<And>x. x \<in> set xs \<Longrightarrow> 0 \<le> f x) \<Longrightarrow> 0 \<le> sum_of f xs"
  unfolding sum_of_def by (rule sum_list_nonneg) auto

lemma sum_of_mono: "(\<And>x. x \<in> set xs \<Longrightarrow> f x \<le> g x) \<Longrightarrow> sum_of f xs \<le> sum_of g xs"
  unfolding sum_of_def by (rule sum_list_mono)

end
