(* ===== verification/AiAdmin.thy ===== *)
theory AiAdmin
  imports AdminAuth Failover TenantAdmin Aggregate
begin

text \<open>
  The operator's AI registry under \<open>services/api/routers\<close>: vendors and their credit check
  (\<open>admin_ai_providers.py\<close>, \<open>packages/acip_gateway/provider_credit.py\<close>), the model catalogue
  (\<open>admin_ai_models.py\<close>), routes, the failover switch and pricing (\<open>admin_ai_routing.py\<close>).
  The tables \<open>ai_providers\<close> and \<open>ai_models\<close> extend the rows that the gateway's registry reads
  (\<open>Failover\<close>) with the columns that only operators see; \<open>aidb_of\<close> is the registry's view.
  \<open>to_int\<close> is \<open>int(...)\<close>, \<open>None\<close> when it raises; row ids and the clock are arguments, \<open>ok\<close> is the
  operator's authorization.
\<close>

subsection \<open>State\<close>

record provider_x = provider_row +
  pv_kind :: string
  pv_notes :: "string option"
  pv_discover :: string
  pv_priority :: int

record model_x = model_row +
  md_label :: "string option"
  md_context :: "int option"
  md_free :: bool

record usage_at = usage_row +
  ua_at :: real

record catalog =
  cg_providers :: "provider_x list"
  cg_models :: "model_x list"
  cg_routes :: "route_row list"
  cg_pricing :: pricing_config
  cg_failover :: bool

record ai_world =
  aw_cat :: catalog
  aw_reg :: "snapshot option"
  aw_db :: db

definition aidb_of :: "catalog \<Rightarrow> aidb" where
  "aidb_of c =
     \<lparr>ai_providers = map provider_row.truncate (cg_providers c), ai_models = map model_row.truncate (cg_models c),
      ai_routes = cg_routes c, pricing_settings = Some (cg_pricing c), failover_setting = Some (cg_failover c)\<rparr>"

text \<open>A value the database refuses is an error of the statement.\<close>

definition fits_int4 :: "int \<Rightarrow> bool" where
  "fits_int4 i \<longleftrightarrow> - (2 ^ 31) \<le> i \<and> i < 2 ^ 31"

definition fits_numeric :: "nat \<Rightarrow> nat \<Rightarrow> real \<Rightarrow> bool" where
  "fits_numeric p s x \<longleftrightarrow> \<bar>pg_numeric s x\<bar> < 10 ^ (p - s)"

text \<open>The end of a successful write: audit and \<open>_invalidate_registry\<close>.\<close>

definition ai_commit :: "string \<Rightarrow> py_dict \<Rightarrow> catalog \<Rightarrow> ai_world \<Rightarrow> ai_world" where
  "ai_commit action detail c w =
     \<lparr>aw_cat = c, aw_reg = None, aw_db = audit PgUp ''operator'' action None detail (aw_db w)\<rparr>"

lemma distinct_key_inj: "distinct (map k xs) \<Longrightarrow> x \<in> set xs \<Longrightarrow> y \<in> set xs \<Longrightarrow> k x = k y \<Longrightarrow> x = y"
  by (metis distinct_map inj_onD)

lemma ai_commit_simps [simp]: "aw_cat (ai_commit a e c w) = c" "aw_reg (ai_commit a e c w) = None"
  by (simp_all add: ai_commit_def)

definition arg_str :: "(pyv \<Rightarrow> string) \<Rightarrow> py_dict \<Rightarrow> string \<Rightarrow> string \<Rightarrow> string" where
  "arg_str repr payload k d = py_str repr (dict_get_or payload k (VStr d))"

definition strip_or_none :: "string \<Rightarrow> string option" where
  "strip_or_none s = nonempty (Some (py_strip s))"

text \<open>\<open>sorted(fields)\<close>, by code point.\<close>

fun str_le :: "string \<Rightarrow> string \<Rightarrow> bool" where
  "str_le [] t = True"
| "str_le (c # cs) [] = False"
| "str_le (c # cs) (d # ds) = ((of_char c :: nat) < of_char d \<or> c = d \<and> str_le cs ds)"

fun insert_str :: "string \<Rightarrow> string list \<Rightarrow> string list" where
  "insert_str s [] = [s]"
| "insert_str s (t # ts) = (if str_le s t then s # t # ts else t # insert_str s ts)"

definition sorted_fields :: "py_dict \<Rightarrow> pyv" where
  "sorted_fields vs = VList (map VStr (foldr insert_str (map fst vs) []))"

subsection \<open>Rows as the API shows them\<close>

definition ellipsis :: string where "ellipsis = [CHR 0xE2, CHR 0x80, CHR 0xA6]"
definition em_dash :: string where "em_dash = [CHR 0xE2, CHR 0x80, CHR 0x94]"

text \<open>\<open>_mask\<close>: the last four characters of a longer key.\<close>

definition mask_key :: "string \<Rightarrow> string" where
  "mask_key k =
     (if k = [] then []
      else if py_len k > 4 then ellipsis @ concat (drop (length (code_points k) - 4) (code_points k))
      else ellipsis)"

record platform_usage =
  pu_days :: int
  pu_calls :: nat
  pu_credits :: real
  pu_cost :: real

record provider_view =
  pw_id :: string
  pw_name :: string
  pw_kind :: string
  pw_base :: string
  pw_masked :: string
  pw_has_key :: bool
  pw_local :: bool
  pw_enabled :: bool
  pw_timeout :: real
  pw_notes :: "string option"
  pw_discover :: string
  pw_retries :: int
  pw_backoff :: int
  pw_priority :: int

definition provider_view_of :: "provider_x \<Rightarrow> provider_view" where
  "provider_view_of r =
     \<lparr>pw_id = pv_id r, pw_name = pv_name r, pw_kind = pv_kind r, pw_base = pv_base r, pw_masked = mask_key (pv_key r),
      pw_has_key = (pv_key r \<noteq> []), pw_local = pv_local r, pw_enabled = pv_enabled r, pw_timeout = pv_timeout r,
      pw_notes = pv_notes r, pw_discover = pv_discover r, pw_retries = pv_retries r, pw_backoff = pv_backoff r,
      pw_priority = pv_priority r\<rparr>"

definition model_eligibility :: "bool \<Rightarrow> bool \<Rightarrow> bool \<Rightarrow> bool \<times> string option" where
  "model_eligibility model_enabled provider_enabled has_api_key =
     (if \<not> model_enabled then (False, Some ''MODEL_INACTIVE'')
      else if \<not> provider_enabled then (False, Some ''PROVIDER_INACTIVE'')
      else if \<not> has_api_key then (False, Some ''PROVIDER_NO_API_KEY'')
      else (True, None))"

subsection \<open>Vendors\<close>

definition discover_kinds :: "string list" where
  "discover_kinds = [''openai_compatible'', ''openrouter'', ''google'', ''bynara'', ''conduit'']"

definition usage_since :: "real \<Rightarrow> int \<Rightarrow> usage_at list \<Rightarrow> usage_at list" where
  "usage_since now days us = filter (\<lambda>u. ua_at u \<ge> now - of_int days * 86400) us"

definition platform_usage_by_provider :: "real \<Rightarrow> int \<Rightarrow> usage_at list \<Rightarrow> (string \<times> platform_usage) list" where
  "platform_usage_by_provider now days us =
     map (\<lambda>(k, rows). (k, \<lparr>pu_days = days, pu_calls = length rows, pu_credits = sum_of us_cost rows,
            pu_cost = sum_of us_provider_cost rows\<rparr>))
       (group_rows (\<lambda>u. the_or em_dash (us_provider u)) (usage_since now days us))"

definition empty_usage :: platform_usage where
  "empty_usage = \<lparr>pu_days = 30, pu_calls = 0, pu_credits = 0, pu_cost = 0\<rparr>"

definition usage_of :: "real \<Rightarrow> usage_at list \<Rightarrow> string \<Rightarrow> platform_usage" where
  "usage_of now us name = the_or empty_usage (map_of (platform_usage_by_provider now 30 us) name)"

definition provider_by_id :: "string \<Rightarrow> catalog \<Rightarrow> provider_x option" where
  "provider_by_id i c = find (\<lambda>p. pv_id p = py_lower i) (cg_providers c)"

definition models_of :: "string \<Rightarrow> catalog \<Rightarrow> model_x list" where
  "models_of i c = filter (\<lambda>m. md_provider m = i) (cg_models c)"

text \<open>\<open>ORDER BY priority DESC, created_at\<close>: the table is in the order of creation.\<close>

definition list_providers ::
  "bool \<Rightarrow> pool \<Rightarrow> real \<Rightarrow> usage_at list \<Rightarrow> ai_world \<Rightarrow> (provider_view \<times> model_x list \<times> platform_usage) list reply \<times> ai_world" where
  "list_providers ok p now us w =
     (if \<not> ok then (Err 401 ''unauthorized'', w)
      else with_pg p w
        (Ok (map (\<lambda>r. (provider_view_of r, models_of (pv_id r) (aw_cat w), usage_of now us (pv_name r)))
           (sort_key (\<lambda>r. - pv_priority r) (cg_providers (aw_cat w)))), w))"

definition provider_named :: "string \<Rightarrow> catalog \<Rightarrow> bool" where
  "provider_named n c \<longleftrightarrow> list_ex (\<lambda>p. pv_name p = n) (cg_providers c)"

definition add_provider :: "provider_x \<Rightarrow> catalog \<Rightarrow> catalog" where
  "add_provider r c = c\<lparr>cg_providers := cg_providers c @ [r]\<rparr>"

definition int_arg :: "(pyv \<Rightarrow> int option) \<Rightarrow> py_dict \<Rightarrow> string \<Rightarrow> int \<Rightarrow> int option" where
  "int_arg to_int payload k d = to_int (py_or (dict_get_or payload k (VInt d)) (VInt d))"

definition new_provider ::
  "(pyv \<Rightarrow> string) \<Rightarrow> string \<Rightarrow> py_dict \<Rightarrow> string \<Rightarrow> string \<Rightarrow> string \<Rightarrow> string \<Rightarrow> real \<Rightarrow> int \<Rightarrow> int \<Rightarrow> int \<Rightarrow> provider_x" where
  "new_provider repr i payload name base kind discover timeout max_retries backoff priority =
     \<lparr>pv_id = i, pv_name = name, pv_base = base, pv_key = py_str repr (py_or (dict_get_or payload ''api_key'' (VStr [])) (VStr [])),
      pv_local = truthy (dict_get_or payload ''is_local'' (VBool (kind = ''local''))),
      pv_enabled = truthy (dict_get_or payload ''enabled'' (VBool True)), pv_timeout = pg_numeric 2 timeout,
      pv_retries = max_retries, pv_backoff = backoff, pv_kind = kind,
      pv_notes = strip_or_none (arg_str repr payload ''notes'' []), pv_discover = discover, pv_priority = priority\<rparr>"

definition create_provider ::
  "(pyv \<Rightarrow> string) \<Rightarrow> (pyv \<Rightarrow> int option) \<Rightarrow> bool \<Rightarrow> pool \<Rightarrow> string \<Rightarrow> py_dict \<Rightarrow> ai_world \<Rightarrow>
   (provider_view \<times> model_x list \<times> platform_usage) reply \<times> ai_world" where
  "create_provider repr to_int ok p i payload w =
     (let name = py_strip (arg_str repr payload ''name'' []);
          base = py_strip (arg_str repr payload ''base_url'' []);
          kind = arg_str repr payload ''kind'' ''openai-compatible'';
          discover = arg_str repr payload ''discover_kind'' ''openai_compatible'';
          c = aw_cat w in
      if \<not> ok then (Err 401 ''unauthorized'', w)
      else if name = [] \<or> base = [] then (Err 422 ''invalid_request'', w)
      else if kind \<notin> {''openai-compatible'', ''local''} then (Err 422 ''invalid_request'', w)
      else if discover \<notin> set discover_kinds then (Err 422 ''invalid_request'', w)
      else case (int_arg to_int payload ''max_retries'' 0, int_arg to_int payload ''retry_backoff_ms'' 250,
                 int_arg to_int payload ''priority'' 0) of
          (Some max_retries, Some backoff, Some priority) \<Rightarrow>
            if \<not> (0 \<le> max_retries \<and> max_retries \<le> 5) then (Err 422 ''invalid_request'', w)
            else if \<not> (0 \<le> backoff \<and> backoff \<le> 10000) then (Err 422 ''invalid_request'', w)
            else with_pg p w
              (if provider_named name c then (Err 422 ''invalid_request'', w)
               else case py_float (py_or (dict_get_or payload ''timeout_s'' (VInt 30)) (VInt 30)) of
                   Inl _ \<Rightarrow> (Err 500 ''internal_error'', w)
                 | Inr timeout \<Rightarrow>
                     if \<not> fits_int4 priority \<or> \<not> fits_numeric 6 2 timeout then (Err 500 ''internal_error'', w)
                     else
                       let r = new_provider repr i payload name base kind discover timeout max_retries backoff priority
                       in (Ok (provider_view_of r, [], empty_usage),
                           ai_commit ''ai.provider_create'' [(''name'', VStr name)] (add_provider r c) w))
        | _ \<Rightarrow> (Err 422 ''invalid_request'', w))"

text \<open>The columns of an update, with their casts; the casts run before any check.\<close>

definition provider_columns :: "(string \<times> cast) list" where
  "provider_columns =
     [(''name'', CastStr), (''base_url'', CastStr), (''notes'', CastStr), (''is_local'', CastBool), (''enabled'', CastBool),
      (''timeout_s'', CastFloat), (''discover_kind'', CastStr), (''max_retries'', CastInt), (''retry_backoff_ms'', CastInt),
      (''priority'', CastInt)]"

definition assign_provider :: "py_dict \<Rightarrow> provider_x \<Rightarrow> provider_x" where
  "assign_provider vs r =
     r\<lparr>pv_name := str_or (pv_name r) (dict_get vs ''name''),
       pv_base := str_or (pv_base r) (dict_get vs ''base_url''),
       pv_notes := (case dict_get vs ''notes'' of VStr s \<Rightarrow> Some s | _ \<Rightarrow> pv_notes r),
       pv_local := bool_or (pv_local r) (dict_get vs ''is_local''),
       pv_enabled := bool_or (pv_enabled r) (dict_get vs ''enabled''),
       pv_timeout := (case dict_get vs ''timeout_s'' of VNum x \<Rightarrow> pg_numeric 2 x | _ \<Rightarrow> pv_timeout r),
       pv_discover := str_or (pv_discover r) (dict_get vs ''discover_kind''),
       pv_retries := int_or (pv_retries r) (dict_get vs ''max_retries''),
       pv_backoff := int_or (pv_backoff r) (dict_get vs ''retry_backoff_ms''),
       pv_priority := int_or (pv_priority r) (dict_get vs ''priority''),
       pv_key := str_or (pv_key r) (dict_get vs ''api_key'')\<rparr>"

text \<open>A field that is present must satisfy its test.\<close>

definition field_ok :: "(pyv \<Rightarrow> bool) \<Rightarrow> py_dict \<Rightarrow> string \<Rightarrow> bool" where
  "field_ok P vs k = (case map_of vs k of None \<Rightarrow> True | Some v \<Rightarrow> P v)"

definition key_field :: "(pyv \<Rightarrow> string) \<Rightarrow> py_dict \<Rightarrow> py_dict" where
  "key_field repr payload =
     (let k = py_strip (py_str repr (py_or (dict_get_or payload ''api_key'' (VStr [])) (VStr []))) in
      if k = [] then [] else [(''api_key'', VStr k)])"

definition write_provider :: "string \<Rightarrow> py_dict \<Rightarrow> catalog \<Rightarrow> catalog" where
  "write_provider i vs c =
     c\<lparr>cg_providers := update_where (\<lambda>r. pv_id r = py_lower i) (assign_provider vs) (cg_providers c)\<rparr>"

text \<open>The unique name and the range of the timeout are checked by the database when a row is written.\<close>

definition provider_row_refused :: "string \<Rightarrow> py_dict \<Rightarrow> catalog \<Rightarrow> bool" where
  "provider_row_refused i vs c \<longleftrightarrow>
     \<not> field_ok (\<lambda>v. list_all (\<lambda>r. pv_name r = str_or [] v \<longrightarrow> pv_id r = py_lower i) (cg_providers c)) vs ''name'' \<or>
     \<not> field_ok (\<lambda>v. fits_numeric 6 2 (num_or 0 v)) vs ''timeout_s''"

definition update_provider ::
  "(pyv \<Rightarrow> string) \<Rightarrow> (pyv \<Rightarrow> int option) \<Rightarrow> bool \<Rightarrow> pool \<Rightarrow> real \<Rightarrow> usage_at list \<Rightarrow> string \<Rightarrow> py_dict \<Rightarrow> ai_world \<Rightarrow>
   (provider_view \<times> model_x list \<times> platform_usage) reply \<times> ai_world" where
  "update_provider repr to_int ok p now us i payload w =
     (if \<not> ok then (Err 401 ''unauthorized'', w)
      else if \<not> uuid_re i then (Err 404 ''not_found'', w)
      else case cast_columns repr to_int provider_columns payload of
          None \<Rightarrow> (Err 500 ''internal_error'', w)
        | Some vs0 \<Rightarrow>
            let vs = vs0 @ key_field repr payload in
            if \<not> field_ok (\<lambda>v. str_or [] v \<in> set discover_kinds) vs ''discover_kind'' then (Err 422 ''invalid_request'', w)
            else if \<not> field_ok (\<lambda>v. 0 \<le> int_or 0 v \<and> int_or 0 v \<le> 5) vs ''max_retries'' then (Err 422 ''invalid_request'', w)
            else if \<not> field_ok (\<lambda>v. 0 \<le> int_or 0 v \<and> int_or 0 v \<le> 10000) vs ''retry_backoff_ms'' then (Err 422 ''invalid_request'', w)
            else if vs = [] then (Err 422 ''invalid_request'', w)
            else with_pg p w
              (if \<not> field_ok (\<lambda>v. fits_int4 (int_or 0 v)) vs ''priority'' then (Err 500 ''internal_error'', w)
               else if provider_by_id i (aw_cat w) = None then (Err 404 ''not_found'', w)
               else if provider_row_refused i vs (aw_cat w) then (Err 500 ''internal_error'', w)
               else
                 let c = write_provider i vs (aw_cat w) in
                 case provider_by_id i c of
                   None \<Rightarrow> (Err 404 ''not_found'', w)
                 | Some r \<Rightarrow>
                     (Ok (provider_view_of r, models_of (pv_id r) c, usage_of now us (pv_name r)),
                      ai_commit ''ai.provider_update'' [(''id'', VStr i), (''fields'', sorted_fields vs)] c w)))"

definition delete_provider :: "bool \<Rightarrow> pool \<Rightarrow> string \<Rightarrow> ai_world \<Rightarrow> string reply \<times> ai_world" where
  "delete_provider ok p i w =
     (if \<not> ok then (Err 401 ''unauthorized'', w)
      else if \<not> uuid_re i then (Err 404 ''not_found'', w)
      else with_pg p w
        (case provider_by_id i (aw_cat w) of
           None \<Rightarrow> (Err 404 ''not_found'', w)
         | Some r \<Rightarrow>
             if models_of (pv_id r) (aw_cat w) \<noteq> [] then (Err 422 ''invalid_request'', w)
             else (Ok ''deleted'', ai_commit ''ai.provider_delete'' [(''name'', VStr (pv_name r))]
                    ((aw_cat w)\<lparr>cg_providers := filter (\<lambda>x. pv_id x \<noteq> pv_id r) (cg_providers (aw_cat w))\<rparr>) w)))"

text \<open>\<open>probe\<close> is the GET of the base URL: the latency in milliseconds, if any answer came.\<close>

definition ping_provider ::
  "(string \<Rightarrow> int option) \<Rightarrow> bool \<Rightarrow> pool \<Rightarrow> string \<Rightarrow> ai_world \<Rightarrow> (bool \<times> int option) reply \<times> ai_world" where
  "ping_provider probe ok p i w =
     (if \<not> ok then (Err 401 ''unauthorized'', w)
      else if \<not> uuid_re i then (Err 404 ''not_found'', w)
      else with_pg p w
        (case provider_by_id i (aw_cat w) of
           None \<Rightarrow> (Err 404 ''not_found'', w)
         | Some r \<Rightarrow> (Ok (probe (pv_base r) \<noteq> None, probe (pv_base r)), w)))"

end
