(* ===== verification/AiModels.thy ===== *)
theory AiModels
  imports AiAdmin
begin

text \<open>
  The model catalogue (\<open>admin_ai_models.py\<close>), task routes, the failover switch and pricing
  (\<open>admin_ai_routing.py\<close>) of the operator plane.
\<close>

subsection \<open>Models\<close>

definition modalities :: "string list" where
  "modalities = [''chat'', ''embedding'', ''rerank'']"

text \<open>\<open>_parse_modality_dims\<close>: \<open>None\<close> when the payload is invalid.\<close>

definition parse_modality_dims ::
  "(pyv \<Rightarrow> string) \<Rightarrow> (pyv \<Rightarrow> int option) \<Rightarrow> py_dict \<Rightarrow> (string \<times> int option) option" where
  "parse_modality_dims repr to_int payload =
     (let modality = arg_str repr payload ''modality'' ''chat''; v = dict_get payload ''dims'' in
      if modality \<notin> set modalities then None
      else if v = VNone then Some (modality, None)
      else case to_int v of
          None \<Rightarrow> None
        | Some dims \<Rightarrow> if dims \<le> 0 then None else Some (modality, Some dims))"

text \<open>An optional filter of the listing applies when it is given and not empty. The text search matches the
  model, its label or the vendor's name; \<open>collate\<close> is the rank of a text in the database's collation.\<close>

definition model_search :: "string option \<Rightarrow> provider_x \<Rightarrow> model_x \<Rightarrow> bool" where
  "model_search q p m \<longleftrightarrow>
     (case nonempty q of
        None \<Rightarrow> True
      | Some s \<Rightarrow> let pat = ''%'' @ py_lower s @ ''%'' in
          like pat (py_lower (md_model m)) \<or> like pat (py_lower (the_or [] (md_label m))) \<or> like pat (py_lower (pv_name p)))"

definition joined_models :: "catalog \<Rightarrow> (model_x \<times> provider_x) list" where
  "joined_models c =
     concat (map (\<lambda>m. map (\<lambda>p. (m, p)) (filter (\<lambda>p. pv_id p = md_provider m) (cg_providers c))) (cg_models c))"

definition list_models ::
  "(string \<Rightarrow> nat) \<Rightarrow> bool \<Rightarrow> pool \<Rightarrow> string option \<Rightarrow> string option \<Rightarrow> string option \<Rightarrow> bool \<Rightarrow> ai_world \<Rightarrow>
   (model_x \<times> string \<times> bool) list reply \<times> ai_world" where
  "list_models collate ok p provider modality q include_inactive w =
     (if \<not> ok then (Err 401 ''unauthorized'', w)
      else if \<not> (case nonempty provider of None \<Rightarrow> True | Some i \<Rightarrow> uuid_re i) then (Err 422 ''invalid_request'', w)
      else if \<not> (case nonempty modality of None \<Rightarrow> True | Some k \<Rightarrow> k \<in> set modalities) then (Err 422 ''invalid_request'', w)
      else with_pg p w
        (Ok (map (\<lambda>(m, r). (m, pv_name r, pv_local r))
           (sort_key (\<lambda>(m, r). collate (md_model m))
             (filter (\<lambda>(m, r). (include_inactive \<or> md_enabled m) \<and>
                  (case nonempty provider of None \<Rightarrow> True | Some i \<Rightarrow> md_provider m = py_lower i) \<and>
                  (case nonempty modality of None \<Rightarrow> True | Some k \<Rightarrow> md_modality m = k) \<and> model_search q r m)
                (joined_models (aw_cat w))))), w))"

definition model_by_id :: "string \<Rightarrow> catalog \<Rightarrow> model_x option" where
  "model_by_id i c = find (\<lambda>m. md_id m = py_lower i) (cg_models c)"

definition model_named :: "string \<Rightarrow> string \<Rightarrow> catalog \<Rightarrow> bool" where
  "model_named prov name c \<longleftrightarrow> list_ex (\<lambda>m. md_provider m = prov \<and> md_model m = name) (cg_models c)"

definition add_model :: "model_x \<Rightarrow> catalog \<Rightarrow> catalog" where
  "add_model r c = c\<lparr>cg_models := cg_models c @ [r]\<rparr>"

text \<open>\<open>context_window\<close>: the outer \<open>None\<close> is a value that is not an integer.\<close>

definition opt_int :: "(pyv \<Rightarrow> int option) \<Rightarrow> pyv \<Rightarrow> int option option" where
  "opt_int to_int v = (if v = VNone then Some None else map_option Some (to_int v))"

definition opt_fits :: "int option \<Rightarrow> bool" where
  "opt_fits d = (case d of None \<Rightarrow> True | Some i \<Rightarrow> fits_int4 i)"

definition price_arg :: "py_dict \<Rightarrow> string \<Rightarrow> real res" where
  "price_arg payload k = py_float (py_or (dict_get_or payload k (VInt 0)) (VInt 0))"

definition create_model ::
  "(pyv \<Rightarrow> string) \<Rightarrow> (pyv \<Rightarrow> int option) \<Rightarrow> bool \<Rightarrow> pool \<Rightarrow> string \<Rightarrow> string \<Rightarrow> py_dict \<Rightarrow> ai_world \<Rightarrow> model_x reply \<times> ai_world" where
  "create_model repr to_int ok p new_id prov payload w =
     (let model = py_strip (arg_str repr payload ''model'' []); c = aw_cat w in
      if \<not> ok then (Err 401 ''unauthorized'', w)
      else if \<not> uuid_re prov then (Err 404 ''not_found'', w)
      else if model = [] then (Err 422 ''invalid_request'', w)
      else case (parse_modality_dims repr to_int payload, opt_int to_int (dict_get payload ''context_window'')) of
          (Some (modality, dims), Some context) \<Rightarrow>
            with_pg p w
              (case provider_by_id prov c of
                 None \<Rightarrow> (Err 404 ''not_found'', w)
               | Some pr \<Rightarrow>
                   if model_named (pv_id pr) model c then (Err 422 ''invalid_request'', w)
                   else case (price_arg payload ''input_usd_per_1m'', price_arg payload ''output_usd_per_1m'') of
                       (Inr input_cost, Inr output_cost) \<Rightarrow>
                         if \<not> opt_fits dims \<or> \<not> opt_fits context \<or> \<not> fits_numeric 14 6 input_cost \<or> \<not> fits_numeric 14 6 output_cost
                         then (Err 500 ''internal_error'', w)
                         else
                           let r = \<lparr>md_id = new_id, md_provider = pv_id pr, md_model = model,
                                 md_input = pg_numeric 6 input_cost, md_output = pg_numeric 6 output_cost,
                                 md_enabled = truthy (dict_get_or payload ''enabled'' (VBool True)),
                                 md_modality = modality, md_dims = dims,
                                 md_label = strip_or_none (arg_str repr payload ''label'' []), md_context = context,
                                 md_free = truthy (dict_get_or payload ''is_free_tier'' (VBool (input_cost = 0 \<and> output_cost = 0)))\<rparr>
                           in (Ok r, ai_commit ''ai.model_create'' [(''model'', VStr model)] (add_model r c) w)
                     | _ \<Rightarrow> (Err 500 ''internal_error'', w))
        | _ \<Rightarrow> (Err 422 ''invalid_request'', w))"

definition model_columns :: "(string \<times> cast) list" where
  "model_columns =
     [(''model'', CastStr), (''label'', CastStr), (''enabled'', CastBool), (''input_usd_per_1m'', CastFloat),
      (''output_usd_per_1m'', CastFloat), (''modality'', CastStr), (''is_free_tier'', CastBool)]"

definition assign_model :: "py_dict \<Rightarrow> model_x \<Rightarrow> model_x" where
  "assign_model vs r =
     r\<lparr>md_model := str_or (md_model r) (dict_get vs ''model''),
       md_label := (case dict_get vs ''label'' of VStr s \<Rightarrow> Some s | _ \<Rightarrow> md_label r),
       md_enabled := bool_or (md_enabled r) (dict_get vs ''enabled''),
       md_input := (case dict_get vs ''input_usd_per_1m'' of VNum x \<Rightarrow> pg_numeric 6 x | _ \<Rightarrow> md_input r),
       md_output := (case dict_get vs ''output_usd_per_1m'' of VNum x \<Rightarrow> pg_numeric 6 x | _ \<Rightarrow> md_output r),
       md_modality := str_or (md_modality r) (dict_get vs ''modality''),
       md_free := bool_or (md_free r) (dict_get vs ''is_free_tier''),
       md_dims := (case map_of vs ''dims'' of None \<Rightarrow> md_dims r | Some (VInt i) \<Rightarrow> Some i | Some _ \<Rightarrow> None),
       md_context := (case map_of vs ''context_window'' of None \<Rightarrow> md_context r | Some (VInt i) \<Rightarrow> Some i | Some _ \<Rightarrow> None)\<rparr>"

text \<open>The two integer fields of an update: absent, null or an integer; dimensions are positive.\<close>

definition int_field :: "(pyv \<Rightarrow> int option) \<Rightarrow> bool \<Rightarrow> py_dict \<Rightarrow> string \<Rightarrow> py_dict option" where
  "int_field to_int positive payload k =
     (case map_of payload k of
        None \<Rightarrow> Some []
      | Some v \<Rightarrow>
          (case opt_int to_int v of
             None \<Rightarrow> None
           | Some None \<Rightarrow> Some [(k, VNone)]
           | Some (Some i) \<Rightarrow> if positive \<and> i \<le> 0 then None else Some [(k, VInt i)]))"

definition write_model :: "string \<Rightarrow> py_dict \<Rightarrow> catalog \<Rightarrow> catalog" where
  "write_model i vs c = c\<lparr>cg_models := update_where (\<lambda>r. md_id r = py_lower i) (assign_model vs) (cg_models c)\<rparr>"

definition model_row_refused :: "model_x \<Rightarrow> py_dict \<Rightarrow> catalog \<Rightarrow> bool" where
  "model_row_refused r vs c \<longleftrightarrow>
     \<not> field_ok (\<lambda>v. list_all (\<lambda>x. md_provider x = md_provider r \<and> md_model x = str_or [] v \<longrightarrow> md_id x = md_id r) (cg_models c)) vs ''model'' \<or>
     \<not> field_ok (\<lambda>v. fits_numeric 14 6 (num_or 0 v)) vs ''input_usd_per_1m'' \<or>
     \<not> field_ok (\<lambda>v. fits_numeric 14 6 (num_or 0 v)) vs ''output_usd_per_1m''"

definition update_model ::
  "(pyv \<Rightarrow> string) \<Rightarrow> (pyv \<Rightarrow> int option) \<Rightarrow> bool \<Rightarrow> pool \<Rightarrow> string \<Rightarrow> py_dict \<Rightarrow> ai_world \<Rightarrow> model_x reply \<times> ai_world" where
  "update_model repr to_int ok p i payload w =
     (if \<not> ok then (Err 401 ''unauthorized'', w)
      else if \<not> uuid_re i then (Err 404 ''not_found'', w)
      else case cast_columns repr to_int model_columns payload of
          None \<Rightarrow> (Err 500 ''internal_error'', w)
        | Some vs0 \<Rightarrow>
            if \<not> field_ok (\<lambda>v. str_or [] v \<in> set modalities) vs0 ''modality'' then (Err 422 ''invalid_request'', w)
            else case (int_field to_int True payload ''dims'', int_field to_int False payload ''context_window'') of
                (Some ds, Some cs) \<Rightarrow>
                  let vs = vs0 @ ds @ cs in
                  if vs = [] then (Err 422 ''invalid_request'', w)
                  else with_pg p w
                    (if \<not> field_ok (\<lambda>v. fits_int4 (int_or 0 v)) vs ''dims'' \<or> \<not> field_ok (\<lambda>v. fits_int4 (int_or 0 v)) vs ''context_window''
                     then (Err 500 ''internal_error'', w)
                     else case model_by_id i (aw_cat w) of
                         None \<Rightarrow> (Err 404 ''not_found'', w)
                       | Some r \<Rightarrow>
                           if model_row_refused r vs (aw_cat w) then (Err 500 ''internal_error'', w)
                           else (Ok (assign_model vs r),
                                 ai_commit ''ai.model_update'' [(''id'', VStr i), (''fields'', sorted_fields vs)]
                                   (write_model i vs (aw_cat w)) w))
              | _ \<Rightarrow> (Err 422 ''invalid_request'', w))"

definition routes_using_model :: "string \<Rightarrow> catalog \<Rightarrow> nat" where
  "routes_using_model i c = length (filter (\<lambda>r. rt_model r = py_lower i) (cg_routes c))"

text \<open>\<open>DELETE FROM ai_models\<close> cascades to the routes.\<close>

definition drop_model :: "string \<Rightarrow> catalog \<Rightarrow> catalog" where
  "drop_model i c =
     c\<lparr>cg_models := filter (\<lambda>m. md_id m \<noteq> i) (cg_models c), cg_routes := filter (\<lambda>r. rt_model r \<noteq> i) (cg_routes c)\<rparr>"

definition delete_model :: "bool \<Rightarrow> pool \<Rightarrow> string \<Rightarrow> ai_world \<Rightarrow> string reply \<times> ai_world" where
  "delete_model ok p i w =
     (if \<not> ok then (Err 401 ''unauthorized'', w)
      else if \<not> uuid_re i then (Err 404 ''not_found'', w)
      else with_pg p w
        (case model_by_id i (aw_cat w) of
           None \<Rightarrow> (Err 404 ''not_found'', w)
         | Some m \<Rightarrow>
             if routes_using_model i (aw_cat w) \<noteq> 0 then (Err 422 ''invalid_request'', w)
             else (Ok ''deleted'', ai_commit ''ai.model_delete'' [(''model'', VStr (md_model m))] (drop_model (md_id m) (aw_cat w)) w)))"

text \<open>\<open>dict.fromkeys\<close> keeps the first of equal ids.\<close>

definition py_unique :: "'a list \<Rightarrow> 'a list" where
  "py_unique xs = rev (remdups (rev xs))"

type_synonym bulk_result = "(string \<times> string) list \<times> (string \<times> string \<times> nat) list"

fun bulk_delete_loop :: "string list \<Rightarrow> catalog \<Rightarrow> bulk_result \<times> catalog" where
  "bulk_delete_loop [] c = (([], []), c)"
| "bulk_delete_loop (i # is) c =
     (if \<not> uuid_re i then bulk_delete_loop is c
      else case model_by_id i c of
          None \<Rightarrow> bulk_delete_loop is c
        | Some m \<Rightarrow>
            if routes_using_model i c \<noteq> 0 then
              (let ((del, blk), c') = bulk_delete_loop is c in ((del, (i, md_model m, routes_using_model i c) # blk), c'))
            else
              (let ((del, blk), c') = bulk_delete_loop is (drop_model (md_id m) c) in (((i, md_model m) # del, blk), c')))"

definition bulk_delete_models ::
  "(pyv \<Rightarrow> string) \<Rightarrow> bool \<Rightarrow> pool \<Rightarrow> py_dict \<Rightarrow> ai_world \<Rightarrow> (nat \<times> (string \<times> string \<times> nat) list) reply \<times> ai_world" where
  "bulk_delete_models repr ok p payload w =
     (if \<not> ok then (Err 401 ''unauthorized'', w)
      else case dict_get_or payload ''ids'' (VList []) of
          VList ids \<Rightarrow>
            if ids = [] then (Err 422 ''invalid_request'', w)
            else with_pg p w
              (let ((del, blk), c) = bulk_delete_loop (py_unique (map (py_str repr) ids)) (aw_cat w) in
               (Ok (length del, blk),
                if del = [] then w
                else ai_commit ''ai.model_bulk_delete''
                       [(''deleted'', VInt (int (length del))), (''blocked'', VInt (int (length blk)))] c w))
        | _ \<Rightarrow> (Err 422 ''invalid_request'', w))"

subsection \<open>Routes\<close>

definition tasks :: "string list" where
  "tasks = [''chat'', ''analyst'', ''embedding'', ''rerank'']"

definition task_modality :: "string \<Rightarrow> string" where
  "task_modality task =
     the_or [] (map_of [(''chat'', ''chat''), (''analyst'', ''chat''), (''embedding'', ''embedding''), (''rerank'', ''rerank'')] task)"

record route_view =
  rw_model_id :: string
  rw_model :: string
  rw_label :: "string option"
  rw_provider :: string
  rw_local :: bool
  rw_eligible :: bool
  rw_reason :: "string option"

definition route_view_of :: "model_x \<Rightarrow> provider_x \<Rightarrow> route_view" where
  "route_view_of m p =
     (let (eligible, reason) = model_eligibility (md_enabled m) (pv_enabled p) (pv_key p \<noteq> []) in
      \<lparr>rw_model_id = md_id m, rw_model = md_model m, rw_label = md_label m, rw_provider = pv_name p, rw_local = pv_local p,
       rw_eligible = eligible, rw_reason = reason\<rparr>)"

definition route_rows :: "catalog \<Rightarrow> (string \<times> route_view) list" where
  "route_rows c =
     concat (map (\<lambda>r. map (\<lambda>(m, p). (rt_task r, route_view_of m p))
         (filter (\<lambda>(m, p). md_id m = rt_model r) (joined_models c)))
       (sort_key rt_position (cg_routes c)))"

text \<open>The chains of all tasks; \<open>setdefault\<close> adds a task of the table that is not known.\<close>

definition get_routes :: "bool \<Rightarrow> pool \<Rightarrow> ai_world \<Rightarrow> (string \<times> route_view list) list reply \<times> ai_world" where
  "get_routes ok p w =
     (if \<not> ok then (Err 401 ''unauthorized'', w)
      else with_pg p w
        (Ok (fold (\<lambda>(t, v) d. dict_set t (the_or [] (map_of d t) @ [v]) d) (route_rows (aw_cat w)) (map (\<lambda>t. (t, [])) tasks)), w))"

definition set_chain :: "string \<Rightarrow> string list \<Rightarrow> catalog \<Rightarrow> catalog" where
  "set_chain task ids c =
     c\<lparr>cg_routes := filter (\<lambda>r. rt_task r \<noteq> task) (cg_routes c) @
        map (\<lambda>n. \<lparr>rt_task = task, rt_position = int n, rt_model = ids ! n\<rparr>) [0..<length ids]\<rparr>"

fun id_list :: "pyv list \<Rightarrow> string list option" where
  "id_list [] = Some []"
| "id_list (VStr s # vs) = (if uuid_re s then map_option (Cons s) (id_list vs) else None)"
| "id_list (_ # vs) = None"

definition found_model :: "catalog \<Rightarrow> string \<Rightarrow> model_x option" where
  "found_model c i = find (\<lambda>m. md_id m = i) (cg_models c)"

text \<open>The checks inside the transaction.\<close>

definition chain_accepted :: "int \<Rightarrow> string \<Rightarrow> string list \<Rightarrow> catalog \<Rightarrow> bool" where
  "chain_accepted expected_dims task ids c \<longleftrightarrow>
     list_all (\<lambda>i. found_model c i \<noteq> None) ids \<and>
     list_all (\<lambda>i. case found_model c i of None \<Rightarrow> False | Some m \<Rightarrow> md_modality m = task_modality task) ids \<and>
     (task = ''embedding'' \<longrightarrow>
        list_all (\<lambda>i. case found_model c i of None \<Rightarrow> False | Some m \<Rightarrow> md_dims m = None \<or> md_dims m = Some expected_dims) ids)"

definition put_route ::
  "int \<Rightarrow> bool \<Rightarrow> pool \<Rightarrow> string \<Rightarrow> py_dict \<Rightarrow> ai_world \<Rightarrow> (string \<times> nat) reply \<times> ai_world" where
  "put_route expected_dims ok p task payload w =
     (if \<not> ok then (Err 401 ''unauthorized'', w)
      else if task \<notin> set tasks then (Err 422 ''invalid_request'', w)
      else case dict_get_or payload ''model_ids'' (VList []) of
          VList vs \<Rightarrow>
            if length vs > 10 then (Err 422 ''invalid_request'', w)
            else (case id_list vs of
                None \<Rightarrow> (Err 422 ''invalid_request'', w)
              | Some ids \<Rightarrow> with_pg p w
                  (if \<not> chain_accepted expected_dims task ids (aw_cat w) then (Err 422 ''invalid_request'', w)
                   else (Ok (task, length ids),
                         ai_commit ''ai.route_update'' [(''task'', VStr task), (''chain_length'', VInt (int (length ids)))]
                           (set_chain task ids (aw_cat w)) w)))
        | _ \<Rightarrow> (Err 422 ''invalid_request'', w))"

definition get_routing_settings :: "bool \<Rightarrow> pool \<Rightarrow> ai_world \<Rightarrow> bool reply \<times> ai_world" where
  "get_routing_settings ok p w =
     (if \<not> ok then (Err 401 ''unauthorized'', w) else with_pg p w (Ok (cg_failover (aw_cat w)), w))"

definition put_routing_settings :: "bool \<Rightarrow> pool \<Rightarrow> py_dict \<Rightarrow> ai_world \<Rightarrow> bool reply \<times> ai_world" where
  "put_routing_settings ok p payload w =
     (if \<not> ok then (Err 401 ''unauthorized'', w)
      else case map_of payload ''failover_enabled'' of
          None \<Rightarrow> (Err 422 ''invalid_request'', w)
        | Some v \<Rightarrow> with_pg p w
            (Ok (truthy v), ai_commit ''ai.routing_settings_update'' [(''failover_enabled'', VBool (truthy v))]
               ((aw_cat w)\<lparr>cg_failover := truthy v\<rparr>) w))"

subsection \<open>Pricing\<close>

definition get_pricing :: "bool \<Rightarrow> pool \<Rightarrow> ai_world \<Rightarrow> pricing_config reply \<times> ai_world" where
  "get_pricing ok p w =
     (if \<not> ok then (Err 401 ''unauthorized'', w)
      else with_pg p w (Ok (parse_pricing_row (Some (cg_pricing (aw_cat w)))), w))"

definition pricing_bounds :: "(string \<times> real \<times> real) list" where
  "pricing_bounds =
     [(''usd_per_credit'', 1 / 10 ^ 9, 1000), (''margin_percent'', 0, 1000), (''search_credits'', 0, 1000),
      (''local_input_usd_per_1m'', 0, 100000), (''local_output_usd_per_1m'', 0, 100000)]"

fun pricing_fields :: "(string \<times> real \<times> real) list \<Rightarrow> py_dict \<Rightarrow> (string \<times> real) list option" where
  "pricing_fields [] payload = Some []"
| "pricing_fields ((k, lo, hi) # bs) payload =
     (case map_of payload k of
        None \<Rightarrow> pricing_fields bs payload
      | Some v \<Rightarrow>
          (case py_float v of
             Inl _ \<Rightarrow> None
           | Inr x \<Rightarrow> if \<not> (lo \<le> x \<and> x \<le> hi) then None else map_option (Cons (k, x)) (pricing_fields bs payload)))"

text \<open>The columns have 8, 2, 4, 6 and 6 decimals.\<close>

definition assign_pricing :: "(string \<times> real) list \<Rightarrow> pricing_config \<Rightarrow> pricing_config" where
  "assign_pricing fs r =
     \<lparr>usd_per_credit = the_or (usd_per_credit r) (map_option (pg_numeric 8) (map_of fs ''usd_per_credit'')),
      margin_percent = the_or (margin_percent r) (map_option (pg_numeric 2) (map_of fs ''margin_percent'')),
      search_credits = the_or (search_credits r) (map_option (pg_numeric 4) (map_of fs ''search_credits'')),
      local_input = the_or (local_input r) (map_option (pg_numeric 6) (map_of fs ''local_input_usd_per_1m'')),
      local_output = the_or (local_output r) (map_option (pg_numeric 6) (map_of fs ''local_output_usd_per_1m''))\<rparr>"

definition put_pricing :: "bool \<Rightarrow> pool \<Rightarrow> py_dict \<Rightarrow> ai_world \<Rightarrow> pricing_config reply \<times> ai_world" where
  "put_pricing ok p payload w =
     (if \<not> ok then (Err 401 ''unauthorized'', w)
      else case pricing_fields pricing_bounds payload of
          None \<Rightarrow> (Err 422 ''invalid_request'', w)
        | Some fs \<Rightarrow>
            if fs = [] then (Err 422 ''invalid_request'', w)
            else with_pg p w
              (get_pricing ok p (ai_commit ''ai.pricing_update'' (map (\<lambda>(k, x). (k, VNum x)) fs)
                 ((aw_cat w)\<lparr>cg_pricing := assign_pricing fs (cg_pricing (aw_cat w))\<rparr>) w)))"

end
