(* ===== verification/AiDiscovery.thy ===== *)
theory AiDiscovery
  imports AiModels Subscription
begin

text \<open>
  Vendor templates and model discovery (\<open>packages/acip_gateway/provider_templates.py\<close>,
  \<open>admin_ai_discovery.py\<close>), the credit check of a vendor (\<open>packages/acip_gateway/provider_credit.py\<close>,
  \<open>check_credit\<close> in \<open>admin_ai_providers.py\<close>) and the profit view (\<open>admin_ai_finance.py\<close>). The vendor's
  HTTP is a parameter \<open>fetch url bearer\<close>: the decoded body or how the call failed.
\<close>

type_synonym vendor_http = "string \<Rightarrow> string option \<Rightarrow> call_exn + pyv"

subsection \<open>Templates and discovery\<close>

record provider_template =
  tp_key :: string
  tp_name :: string
  tp_base :: string
  tp_discover :: string
  tp_description :: string
  tp_dashboard :: string

definition template :: "string \<Rightarrow> string \<Rightarrow> string \<Rightarrow> string \<Rightarrow> string \<Rightarrow> string \<Rightarrow> provider_template" where
  "template k n b d s u = \<lparr>tp_key = k, tp_name = n, tp_base = b, tp_discover = d, tp_description = s, tp_dashboard = u\<rparr>"

definition provider_templates :: "provider_template list" where
  "provider_templates =
     [template ''openrouter'' ''OpenRouter'' ''https://openrouter.ai/api/v1'' ''openrouter''
        ''Aggregator gateway to many models with one key; its /models response includes live per-token pricing.''
        ''https://openrouter.ai/keys'',
      template ''openai'' ''OpenAI'' ''https://api.openai.com/v1'' ''openai_compatible''
        ''Official OpenAI API.''
        ''https://platform.openai.com/api-keys'',
      template ''google'' ''Google Gemini'' ''https://generativelanguage.googleapis.com/v1beta/openai'' ''google''
        ''Gemini via its OpenAI-compatibility endpoint.''
        ''https://aistudio.google.com/apikey'',
      template ''deepseek'' ''DeepSeek'' ''https://api.deepseek.com/v1'' ''openai_compatible''
        ''DeepSeek's OpenAI-compatible API.''
        ''https://platform.deepseek.com/api_keys'',
      template ''groq'' ''Groq'' ''https://api.groq.com/openai/v1'' ''openai_compatible''
        ''Groq's OpenAI-compatible low-latency inference API.''
        ''https://console.groq.com/keys'',
      template ''bynara'' ''Bynara (NaraRouter)'' ''https://router.bynara.id/v1'' ''bynara''
        ''Regional multi-model router gateway.''
        ''https://bynara.id'',
      template ''avalai'' ''AvalAI'' ''https://api.avalai.ir/v1'' ''openai_compatible''
        ''Regional OpenAI-compatible gateway.''
        ''https://avalai.ir'',
      template ''conduit'' ''Conduit'' ''https://conduit.ozdoev.net/api/v1'' ''conduit''
        ''OpenAI-compatible gateway to a broad model catalogue.''
        ''https://conduit.ozdoev.net'']"

definition get_template :: "string \<Rightarrow> provider_template option" where
  "get_template k = find (\<lambda>t. tp_key t = k) provider_templates"

text \<open>Prices of discovery are per token, ours per million tokens; what cannot be read is free.\<close>

definition per_1m :: "pyv \<Rightarrow> real" where
  "per_1m v = (case py_float v of Inl _ \<Rightarrow> 0 | Inr x \<Rightarrow> x * 1000000)"

record discovered =
  dm_model :: string
  dm_label :: string
  dm_input :: real
  dm_output :: real
  dm_context :: pyv

text \<open>An entry that is not an object has no \<open>get\<close>: the call raises.\<close>

definition normalize_entry :: "(pyv \<Rightarrow> string) \<Rightarrow> pyv \<Rightarrow> discovered option res" where
  "normalize_entry repr v =
     (case v of
        VDict it \<Rightarrow>
          let model = py_strip (py_str repr (py_or (py_or (dict_get it ''id'') (dict_get it ''name'')) (VStr []))) in
          if model = [] then Inr None
          else (case py_or (dict_get it ''pricing'') (VDict []) of
              VDict pr \<Rightarrow>
                Inr (Some \<lparr>dm_model = model, dm_label = py_str repr (py_or (dict_get it ''name'') (VStr model)),
                  dm_input = per_1m (dict_get pr ''prompt''), dm_output = per_1m (dict_get pr ''completion''),
                  dm_context = py_or (dict_get it ''context_length'') (dict_get it ''context_window'')\<rparr>)
            | _ \<Rightarrow> Inl (Exn ''AttributeError''))
      | _ \<Rightarrow> Inl (Exn ''AttributeError''))"

fun normalize_entries :: "(pyv \<Rightarrow> string) \<Rightarrow> pyv list \<Rightarrow> discovered list res" where
  "normalize_entries repr [] = Inr []"
| "normalize_entries repr (v # vs) =
     bind_res (normalize_entry repr v) (\<lambda>d. bind_res (normalize_entries repr vs) (\<lambda>ds.
       Inr ((case d of None \<Rightarrow> [] | Some x \<Rightarrow> [x]) @ ds)))"

text \<open>\<open>for it in items\<close>: the keys of an object and the characters of a text are strings, which raise.\<close>

definition normalize_openai_style :: "(pyv \<Rightarrow> string) \<Rightarrow> pyv \<Rightarrow> discovered list res" where
  "normalize_openai_style repr payload =
     (case payload of
        VDict d \<Rightarrow>
          (case py_or (py_or (dict_get d ''data'') (dict_get d ''models'')) (VList []) of
             VList items \<Rightarrow> normalize_entries repr items
           | VStr _ \<Rightarrow> Inl (Exn ''AttributeError'')
           | VDict _ \<Rightarrow> Inl (Exn ''AttributeError'')
           | _ \<Rightarrow> Inl (Exn ''TypeError''))
      | _ \<Rightarrow> Inl (Exn ''AttributeError''))"

definition strip_google_prefix :: "discovered list \<Rightarrow> discovered list" where
  "strip_google_prefix ms =
     map (\<lambda>m. if prefix ''models/'' (dm_model m) then m\<lparr>dm_model := drop (length ''models/'') (dm_model m)\<rparr> else m) ms"

text \<open>The left summand tells whether the failure is an \<open>httpx.HTTPError\<close>, which the endpoints catch.\<close>

fun is_http_error :: "call_exn \<Rightarrow> bool" where
  "is_http_error (CallExn _) = False"
| "is_http_error _ = True"

definition discover_models :: "vendor_http \<Rightarrow> (pyv \<Rightarrow> string) \<Rightarrow> string \<Rightarrow> string \<Rightarrow> string \<Rightarrow> bool + discovered list" where
  "discover_models fetch repr base key kind =
     (case fetch (rstrip_char (CHR ''/'') base @ ''/models'') (key_or_none key) of
        Inl e \<Rightarrow> Inl (is_http_error e)
      | Inr payload \<Rightarrow>
          (case normalize_openai_style repr payload of
             Inl _ \<Rightarrow> Inl False
           | Inr ms \<Rightarrow> Inr (if kind = ''google'' then strip_google_prefix ms else ms)))"

definition list_provider_templates :: "bool \<Rightarrow> pool \<Rightarrow> ai_world \<Rightarrow> (provider_template \<times> bool) list reply \<times> ai_world" where
  "list_provider_templates ok p w =
     (if \<not> ok then (Err 401 ''unauthorized'', w)
      else with_pg p w (Ok (map (\<lambda>t. (t, provider_named (tp_key t) (aw_cat w))) provider_templates), w))"

text \<open>The columns that the statement leaves out have the defaults of the table.\<close>

definition template_provider :: "string \<Rightarrow> string \<Rightarrow> string \<Rightarrow> provider_template \<Rightarrow> provider_x" where
  "template_provider i name key t =
     \<lparr>pv_id = i, pv_name = name, pv_base = tp_base t, pv_key = key, pv_local = False, pv_enabled = True, pv_timeout = 30,
      pv_retries = 0, pv_backoff = 250, pv_kind = ''openai-compatible'', pv_notes = None, pv_discover = tp_discover t,
      pv_priority = 0\<rparr>"

definition create_provider_from_template ::
  "(pyv \<Rightarrow> string) \<Rightarrow> bool \<Rightarrow> pool \<Rightarrow> string \<Rightarrow> py_dict \<Rightarrow> ai_world \<Rightarrow> provider_view reply \<times> ai_world" where
  "create_provider_from_template repr ok p i payload w =
     (if \<not> ok then (Err 401 ''unauthorized'', w)
      else case get_template (py_strip (arg_str repr payload ''template_key'' [])) of
          None \<Rightarrow> (Err 422 ''invalid_request'', w)
        | Some t \<Rightarrow>
            let name0 = py_strip (arg_str repr payload ''name'' []);
                name = (if name0 = [] then tp_key t else name0);
                key = py_strip (py_str repr (py_or (dict_get_or payload ''api_key'' (VStr [])) (VStr [])));
                r = template_provider i name key t
            in with_pg p w
              (if provider_named name (aw_cat w) then (Err 422 ''invalid_request'', w)
               else (Ok (provider_view_of r),
                     ai_commit ''ai.provider_create''
                       [(''name'', VStr name), (''template_key'', VStr (py_strip (arg_str repr payload ''template_key'' [])))]
                       (add_provider r (aw_cat w)) w)))"

definition discover_provider_models ::
  "vendor_http \<Rightarrow> (pyv \<Rightarrow> string) \<Rightarrow> bool \<Rightarrow> pool \<Rightarrow> string \<Rightarrow> ai_world \<Rightarrow> ((discovered \<times> bool) list \<times> string) reply \<times> ai_world" where
  "discover_provider_models fetch repr ok p i w =
     (if \<not> ok then (Err 401 ''unauthorized'', w)
      else if \<not> uuid_re i then (Err 404 ''not_found'', w)
      else with_pg p w
        (case provider_by_id i (aw_cat w) of
           None \<Rightarrow> (Err 404 ''not_found'', w)
         | Some r \<Rightarrow>
             (case discover_models fetch repr (pv_base r) (pv_key r) (pv_discover r) of
                Inl caught \<Rightarrow> (if caught then Err 422 ''invalid_request'' else Err 500 ''internal_error'', w)
              | Inr ms \<Rightarrow>
                  (Ok (map (\<lambda>m. (m, model_named (pv_id r) (dm_model m) (aw_cat w))) ms, pv_discover r), w))))"

subsection \<open>Import\<close>

definition import_row :: "(pyv \<Rightarrow> string) \<Rightarrow> (pyv \<Rightarrow> int option) \<Rightarrow> string \<Rightarrow> string \<Rightarrow> string \<Rightarrow> py_dict \<Rightarrow> string \<Rightarrow> real \<Rightarrow> real \<Rightarrow> model_x" where
  "import_row repr to_int i prov modality it model input_cost output_cost =
     \<lparr>md_id = i, md_provider = prov, md_model = model, md_input = pg_numeric 6 input_cost,
      md_output = pg_numeric 6 output_cost, md_enabled = True, md_modality = modality, md_dims = None,
      md_label = Some (the_or model (strip_or_none (arg_str repr it ''label'' []))),
      md_context = (if dict_get it ''context_length'' = VNone then None else to_int (dict_get it ''context_length'')),
      md_free = (input_cost = 0 \<and> output_cost = 0)\<rparr>"

text \<open>\<open>INSERT ... ON CONFLICT (provider_id, model) DO UPDATE\<close>: modality, dimensions and the enabled flag of a row
  that exists stay.\<close>

definition upsert_model :: "model_x \<Rightarrow> catalog \<Rightarrow> catalog" where
  "upsert_model r c =
     (if model_named (md_provider r) (md_model r) c then
        c\<lparr>cg_models := update_where (\<lambda>x. md_provider x = md_provider r \<and> md_model x = md_model r)
           (\<lambda>x. x\<lparr>md_label := md_label r, md_input := md_input r, md_output := md_output r, md_context := md_context r,
                  md_free := md_free r\<rparr>) (cg_models c)\<rparr>
      else add_model r c)"

definition stored_model :: "string \<Rightarrow> string \<Rightarrow> catalog \<Rightarrow> model_x option" where
  "stored_model prov name c = find (\<lambda>m. md_provider m = prov \<and> md_model m = name) (cg_models c)"

text \<open>The loop of the transaction: \<open>None\<close> when a statement or a cast raises, which rolls everything back.
  \<open>ids\<close> are the identifiers the database would generate, one for each entry.\<close>

fun import_loop ::
  "(pyv \<Rightarrow> string) \<Rightarrow> (pyv \<Rightarrow> int option) \<Rightarrow> string \<Rightarrow> string \<Rightarrow> (string \<times> pyv) list \<Rightarrow> catalog \<Rightarrow> (model_x list \<times> catalog) option" where
  "import_loop repr to_int prov modality [] c = Some ([], c)"
| "import_loop repr to_int prov modality ((i, VDict it) # rest) c =
     (let model = py_strip (arg_str repr it ''model'' []) in
      if model = [] then import_loop repr to_int prov modality rest c
      else case (price_arg it ''input_usd_per_1m'', price_arg it ''output_usd_per_1m'') of
          (Inr input_cost, Inr output_cost) \<Rightarrow>
            let r = import_row repr to_int i prov modality it model input_cost output_cost in
            if \<not> fits_numeric 14 6 input_cost \<or> \<not> fits_numeric 14 6 output_cost \<or> \<not> opt_fits (md_context r) then None
            else (case import_loop repr to_int prov modality rest (upsert_model r c) of
                None \<Rightarrow> None
              | Some (out, c') \<Rightarrow> Some (the_or r (stored_model prov model (upsert_model r c)) # out, c'))
        | _ \<Rightarrow> None)"
| "import_loop repr to_int prov modality (_ # rest) c = None"

definition import_discovered_models ::
  "(pyv \<Rightarrow> string) \<Rightarrow> (pyv \<Rightarrow> int option) \<Rightarrow> bool \<Rightarrow> pool \<Rightarrow> string list \<Rightarrow> string \<Rightarrow> py_dict \<Rightarrow> ai_world \<Rightarrow>
   (model_x list \<times> nat) reply \<times> ai_world" where
  "import_discovered_models repr to_int ok p ids prov payload w =
     (if \<not> ok then (Err 401 ''unauthorized'', w)
      else if \<not> uuid_re prov then (Err 404 ''not_found'', w)
      else case dict_get_or payload ''models'' (VList []) of
          VList items \<Rightarrow>
            let modality = arg_str repr payload ''modality'' ''chat'' in
            if items = [] \<or> length items > 200 then (Err 422 ''invalid_request'', w)
            else if modality \<notin> {''chat'', ''embedding'', ''rerank''} then (Err 422 ''invalid_request'', w)
            else with_pg p w
              (case provider_by_id prov (aw_cat w) of
                 None \<Rightarrow> (Err 404 ''not_found'', w)
               | Some r \<Rightarrow>
                   (case import_loop repr to_int (pv_id r) modality (zip ids items) (aw_cat w) of
                      None \<Rightarrow> (Err 500 ''internal_error'', w)
                    | Some (out, c) \<Rightarrow>
                        (Ok (out, length out),
                         ai_commit ''ai.model_import'' [(''provider_id'', VStr prov), (''count'', VInt (int (length out)))] c w)))
        | _ \<Rightarrow> (Err 422 ''invalid_request'', w))"

subsection \<open>Credit check\<close>

datatype credit_report =
    CreditBalance real "real option" "real option"
  | KeyHealth nat string string

definition credit_notes :: "(string \<times> string \<times> string) list" where
  "credit_notes =
     [(''openai'', ''OpenAI does not expose prepaid balance via standard API keys. Use platform usage below or the OpenAI dashboard.'',
        ''https://platform.openai.com/usage''),
      (''google'', ''Google AI Studio does not expose account balance via API. Use platform usage below or Google AI Studio / Cloud billing.'',
        ''https://aistudio.google.com/''),
      (''bynara'', ''This gateway does not expose account balance via API. Use platform usage below or the vendor's own dashboard.'',
        ''https://router.bynara.id/keys''),
      (''conduit'', ''This gateway does not expose account balance via API. Use platform usage below or the vendor's own dashboard.'',
        ''https://conduit.ozdoev.net'')]"

definition credit_note :: "string \<Rightarrow> string \<times> string" where
  "credit_note kind =
     the_or (''External balance not available for this provider. See platform usage stats.'', []) (map_of credit_notes kind)"

definition check_openrouter :: "vendor_http \<Rightarrow> string \<Rightarrow> bool + credit_report" where
  "check_openrouter fetch key =
     (case fetch ''https://openrouter.ai/api/v1/auth/key'' (Some key) of
        Inl e \<Rightarrow> Inl (is_http_error e)
      | Inr (VDict data) \<Rightarrow>
          (case py_or (dict_get data ''data'') (VDict data) of
             VDict d \<Rightarrow>
               (case (py_float (py_or (dict_get d ''usage'') (VInt 0)), dict_get d ''limit'') of
                  (Inl _, _) \<Rightarrow> Inl False
                | (Inr usage, VNone) \<Rightarrow> Inr (CreditBalance usage None None)
                | (Inr usage, v) \<Rightarrow>
                    (case py_float v of
                       Inl _ \<Rightarrow> Inl False
                     | Inr cap \<Rightarrow> Inr (CreditBalance usage (Some cap) (Some (max 0 (cap - usage))))))
           | _ \<Rightarrow> Inl False)
      | Inr _ \<Rightarrow> Inl False)"

fun py_length :: "pyv \<Rightarrow> nat option" where
  "py_length (VList xs) = Some (length xs)"
| "py_length (VDict d) = Some (length d)"
| "py_length (VStr s) = Some (py_len s)"
| "py_length _ = None"

definition check_key_health :: "vendor_http \<Rightarrow> string \<Rightarrow> string \<Rightarrow> string \<Rightarrow> string \<Rightarrow> bool + credit_report" where
  "check_key_health fetch base key note url =
     (case fetch (rstrip_char (CHR ''/'') base @ ''/models'') (Some key) of
        Inl e \<Rightarrow> Inl (is_http_error e)
      | Inr (VDict data) \<Rightarrow>
          (case py_length (py_or (py_or (dict_get data ''data'') (dict_get data ''models'')) (VList [])) of
             None \<Rightarrow> Inl False
           | Some n \<Rightarrow> Inr (KeyHealth n note url))
      | Inr _ \<Rightarrow> Inl False)"

definition check_provider_credit :: "vendor_http \<Rightarrow> string \<Rightarrow> string \<Rightarrow> string \<Rightarrow> bool + credit_report" where
  "check_provider_credit fetch base key kind =
     (if kind = ''openrouter'' then check_openrouter fetch key
      else let (note, url) = credit_note kind in check_key_health fetch base key note url)"

definition check_credit ::
  "vendor_http \<Rightarrow> bool \<Rightarrow> pool \<Rightarrow> real \<Rightarrow> usage_at list \<Rightarrow> string \<Rightarrow> ai_world \<Rightarrow> (credit_report \<times> platform_usage) reply \<times> ai_world" where
  "check_credit fetch ok p now us i w =
     (if \<not> ok then (Err 401 ''unauthorized'', w)
      else if \<not> uuid_re i then (Err 404 ''not_found'', w)
      else with_pg p w
        (case provider_by_id i (aw_cat w) of
           None \<Rightarrow> (Err 404 ''not_found'', w)
         | Some r \<Rightarrow>
             if pv_key r = [] then (Err 422 ''invalid_request'', w)
             else (case check_provider_credit fetch (pv_base r) (pv_key r) (pv_discover r) of
                 Inl caught \<Rightarrow> (if caught then Err 422 ''invalid_request'' else Err 500 ''internal_error'', w)
               | Inr credit \<Rightarrow> (Ok (credit, usage_of now us (pv_name r)), w))))"

subsection \<open>The profit view\<close>

record invoice_at = invoice_row +
  ia_at :: real

record finance_report =
  fr_days :: int
  fr_usd_per_credit :: real
  fr_margin_percent :: real
  fr_credits :: real
  fr_value_usd :: real
  fr_cost_usd :: real
  fr_gross_usd :: real
  fr_calls :: nat
  fr_revenue :: "(string \<times> real) list"
  fr_by_day :: "(int \<times> real \<times> real) list"
  fr_by_model :: "((string \<times> string) \<times> nat \<times> int \<times> int \<times> real \<times> real) list"
  fr_by_tenant :: "(string \<times> string \<times> nat \<times> real \<times> real) list"

text \<open>A day is its number since the epoch. Ties of an \<open>ORDER BY\<close> are in the order of the groups.\<close>

definition by_day_rows :: "usage_at list \<Rightarrow> (int \<times> real \<times> real) list" where
  "by_day_rows us =
     map (\<lambda>(d, g). (d, sum_of us_cost g, sum_of us_provider_cost g))
       (sort_key fst (group_rows (\<lambda>u. floor (ua_at u / 86400)) us))"

definition by_model_rows :: "usage_at list \<Rightarrow> ((string \<times> string) \<times> nat \<times> int \<times> int \<times> real \<times> real) list" where
  "by_model_rows us =
     take 20 (map (\<lambda>(k, g). (k, length g, sum_list (map us_tokens_in g), sum_list (map us_tokens_out g),
                              sum_of us_cost g, sum_of us_provider_cost g))
       (order_desc (\<lambda>kg. sum_of us_provider_cost (snd kg)) (order_desc (\<lambda>kg. sum_of us_cost (snd kg))
         (group_rows (\<lambda>u. (the_or em_dash (us_provider u), the_or em_dash (us_model u)))
           (filter (\<lambda>u. us_rung u \<in> {''local'', ''frontier''}) us)))))"

definition by_tenant_rows :: "tenant_row list \<Rightarrow> usage_at list \<Rightarrow> (string \<times> string \<times> nat \<times> real \<times> real) list" where
  "by_tenant_rows ts us =
     take 10 (map (\<lambda>(t, g). (tn_name t, tn_slug t, length g, sum_of us_cost g, sum_of us_provider_cost g))
       (order_desc (\<lambda>tg. sum_of us_cost (snd tg))
         (filter (\<lambda>tg. snd tg \<noteq> []) (map (\<lambda>t. (t, filter (\<lambda>u. us_tenant u = tn_id t) us)) ts))))"

definition billed_revenue :: "real \<Rightarrow> int \<Rightarrow> invoice_at list \<Rightarrow> (string \<times> real) list" where
  "billed_revenue now days ivs =
     map (\<lambda>(cur, g). (cur, sum_of iv_amount g))
       (group_rows iv_currency (filter (\<lambda>v. iv_status v = ''paid'' \<and> ia_at v \<ge> now - of_int days * 86400) ivs))"

definition finance ::
  "bool \<Rightarrow> pool \<Rightarrow> real \<Rightarrow> int \<Rightarrow> usage_at list \<Rightarrow> invoice_at list \<Rightarrow> ai_world \<Rightarrow> finance_report reply \<times> ai_world" where
  "finance ok p now days0 us0 ivs w =
     (let days = max 1 (min days0 365); us = usage_since now days us0;
          cfg = parse_pricing_row (Some (cg_pricing (aw_cat w)));
          credits = sum_of us_cost us; cogs = sum_of us_provider_cost us;
          value_usd = credits * usd_per_credit cfg in
      if \<not> ok then (Err 401 ''unauthorized'', w)
      else with_pg p w
        (Ok \<lparr>fr_days = days, fr_usd_per_credit = usd_per_credit cfg, fr_margin_percent = margin_percent cfg,
             fr_credits = credits, fr_value_usd = value_usd, fr_cost_usd = cogs, fr_gross_usd = value_usd - cogs,
             fr_calls = length us, fr_revenue = billed_revenue now days ivs, fr_by_day = by_day_rows us,
             fr_by_model = by_model_rows us, fr_by_tenant = by_tenant_rows (tenants (aw_db w)) us\<rparr>, w))"

end
