(* ===== verification/AiProps.thy ===== *)
theory AiProps
  imports AiDiscovery
begin

text \<open>
  The operator's AI registry as a machine: keys and references of the catalogue, the typing of the
  routing chains, and what the gateway's registry makes of a chain that an operator stored.
\<close>

subsection \<open>The operations as a machine\<close>

datatype ai_event =
    ProvCreate string py_dict
  | ProvTemplate string py_dict
  | ProvUpdate string py_dict
  | ProvDelete string
  | ModCreate string string py_dict
  | ModImport "string list" string py_dict
  | ModUpdate string py_dict
  | ModDelete string
  | ModBulk py_dict
  | RoutePut string py_dict
  | FailoverPut py_dict
  | PricingPut py_dict

text \<open>An identifier that exists is not generated again.\<close>

definition fresh_provider :: "string \<Rightarrow> catalog \<Rightarrow> bool" where
  "fresh_provider i c \<longleftrightarrow> i \<notin> set (map pv_id (cg_providers c))"

definition fresh_models :: "string list \<Rightarrow> catalog \<Rightarrow> bool" where
  "fresh_models is c \<longleftrightarrow> distinct is \<and> set is \<inter> set (map md_id (cg_models c)) = {}"

fun ai_step :: "(pyv \<Rightarrow> string) \<Rightarrow> (pyv \<Rightarrow> int option) \<Rightarrow> int \<Rightarrow> ai_world \<Rightarrow> ai_event \<Rightarrow> ai_world" where
  "ai_step repr to_int dims w (ProvCreate i pay) =
     (if fresh_provider i (aw_cat w) then snd (create_provider repr to_int True PgUp i pay w) else w)"
| "ai_step repr to_int dims w (ProvTemplate i pay) =
     (if fresh_provider i (aw_cat w) then snd (create_provider_from_template repr True PgUp i pay w) else w)"
| "ai_step repr to_int dims w (ProvUpdate i pay) = snd (update_provider repr to_int True PgUp 0 [] i pay w)"
| "ai_step repr to_int dims w (ProvDelete i) = snd (delete_provider True PgUp i w)"
| "ai_step repr to_int dims w (ModCreate i prov pay) =
     (if fresh_models [i] (aw_cat w) then snd (create_model repr to_int True PgUp i prov pay w) else w)"
| "ai_step repr to_int dims w (ModImport is prov pay) =
     (if fresh_models is (aw_cat w) then snd (import_discovered_models repr to_int True PgUp is prov pay w) else w)"
| "ai_step repr to_int dims w (ModUpdate i pay) = snd (update_model repr to_int True PgUp i pay w)"
| "ai_step repr to_int dims w (ModDelete i) = snd (delete_model True PgUp i w)"
| "ai_step repr to_int dims w (ModBulk pay) = snd (bulk_delete_models repr True PgUp pay w)"
| "ai_step repr to_int dims w (RoutePut t pay) = snd (put_route dims True PgUp t pay w)"
| "ai_step repr to_int dims w (FailoverPut pay) = snd (put_routing_settings True PgUp pay w)"
| "ai_step repr to_int dims w (PricingPut pay) = snd (put_pricing True PgUp pay w)"

text \<open>
  Every write is one of a few changes of the catalogue, each with the condition that its handler has
  tested. The step relation lists them; the invariants are proved on it by cases.
\<close>

definition same_models :: "model_x list \<Rightarrow> model_x list \<Rightarrow> bool" where
  "same_models ms ms' \<longleftrightarrow>
     map md_id ms' = map md_id ms \<and> map md_provider ms' = map md_provider ms \<and> map md_model ms' = map md_model ms \<and>
     map md_modality ms' = map md_modality ms \<and> map md_dims ms' = map md_dims ms"

definition keeps_typing :: "py_dict \<Rightarrow> bool" where
  "keeps_typing vs \<longleftrightarrow> map_of vs ''modality'' = None \<and> map_of vs ''dims'' = None"

inductive cat_write :: "int \<Rightarrow> bool \<Rightarrow> catalog \<Rightarrow> catalog \<Rightarrow> bool" for dims :: int and strict :: bool where
  Same: "cg_providers c' = cg_providers c \<Longrightarrow> cg_models c' = cg_models c \<Longrightarrow> cg_routes c' = cg_routes c \<Longrightarrow>
    cat_write dims strict c c'"
| AddProvider: "fresh_provider (pv_id r) c \<Longrightarrow> \<not> provider_named (pv_name r) c \<Longrightarrow> cat_write dims strict c (add_provider r c)"
| WriteProvider: "\<not> provider_row_refused i vs c \<Longrightarrow> cat_write dims strict c (write_provider i vs c)"
| DropProvider: "models_of i c = [] \<Longrightarrow>
    cat_write dims strict c (c\<lparr>cg_providers := filter (\<lambda>x. pv_id x \<noteq> i) (cg_providers c)\<rparr>)"
| AddModel: "md_id r \<notin> set (map md_id (cg_models c)) \<Longrightarrow> md_provider r \<in> set (map pv_id (cg_providers c)) \<Longrightarrow>
    \<not> model_named (md_provider r) (md_model r) c \<Longrightarrow> cat_write dims strict c (add_model r c)"
| Reprice: "same_models (cg_models c) ms \<Longrightarrow> cat_write dims strict c (c\<lparr>cg_models := ms\<rparr>)"
| WriteModel: "model_by_id i c = Some r \<Longrightarrow> \<not> model_row_refused r vs c \<Longrightarrow> strict \<longrightarrow> keeps_typing vs \<Longrightarrow>
    cat_write dims strict c (write_model i vs c)"
| DropModel: "routes_using_model i c = 0 \<Longrightarrow> cat_write dims strict c (drop_model (py_lower i) c)"
| SetChain: "task \<in> set tasks \<Longrightarrow> length ids \<le> 10 \<Longrightarrow> chain_accepted dims task ids c \<Longrightarrow>
    cat_write dims strict c (set_chain task ids c)"

inductive cat_writes :: "int \<Rightarrow> bool \<Rightarrow> catalog \<Rightarrow> catalog \<Rightarrow> bool" for dims :: int and strict :: bool where
  Done: "cat_writes dims strict c c"
| More: "cat_write dims strict c c' \<Longrightarrow> cat_writes dims strict c' c'' \<Longrightarrow> cat_writes dims strict c c''"

lemma cat_writes_one: "cat_write dims strict c c' \<Longrightarrow> cat_writes dims strict c c'"
  by (rule More [OF _ Done])

lemma cat_writes_keep: "cat_writes dims strict c c' \<Longrightarrow> (\<And>a b. cat_write dims strict a b \<Longrightarrow> I a \<Longrightarrow> I b) \<Longrightarrow> I c \<Longrightarrow> I c'"
  by (induction rule: cat_writes.induct) auto

subsection \<open>Keys and references\<close>

definition catalog_keys :: "catalog \<Rightarrow> bool" where
  "catalog_keys c \<longleftrightarrow>
     distinct (map pv_id (cg_providers c)) \<and> distinct (map pv_name (cg_providers c)) \<and> distinct (map md_id (cg_models c)) \<and>
     distinct (map (\<lambda>m. (md_provider m, md_model m)) (cg_models c)) \<and>
     set (map md_provider (cg_models c)) \<subseteq> set (map pv_id (cg_providers c)) \<and>
     set (map rt_model (cg_routes c)) \<subseteq> set (map md_id (cg_models c))"

lemma distinct_update_key:
  assumes "distinct (map k us)" "distinct (map g us)" "\<And>u. k (f u) = k u"
    and sep: "\<And>u v. u \<in> set us \<Longrightarrow> v \<in> set us \<Longrightarrow> k u = i \<Longrightarrow> k v \<noteq> i \<Longrightarrow> g (f u) \<noteq> g v"
  shows "distinct (map g (update_where (\<lambda>u. k u = i) f us))"
proof -
  let ?h = "\<lambda>u. if k u = i then f u else u"
  have inj: "inj_on k (set us)" "inj_on g (set us)" "distinct us" using assms(1,2) by (simp_all add: distinct_map)
  have "inj_on (g \<circ> ?h) (set us)"
  proof (rule inj_onI)
    fix u v assume uv: "u \<in> set us" "v \<in> set us" and eq: "(g \<circ> ?h) u = (g \<circ> ?h) v"
    show "u = v"
    proof (cases "k u = i"; cases "k v = i")
      assume "k u = i" "k v = i" then show ?thesis using inj(1) uv by (auto dest: inj_onD)
    next
      assume "k u = i" "k v \<noteq> i" then show ?thesis using eq sep [of u v] uv by simp
    next
      assume "k u \<noteq> i" "k v = i" then show ?thesis using eq sep [of v u] uv by simp
    next
      assume "k u \<noteq> i" "k v \<noteq> i" then show ?thesis using eq inj(2) uv by (auto dest: inj_onD)
    qed
  qed
  with inj(3) show ?thesis by (simp add: update_where_def distinct_map)
qed

lemma assign_provider_id [simp]: "pv_id (assign_provider vs r) = pv_id r"
  by (simp add: assign_provider_def)

lemma assign_model_keys [simp]: "md_id (assign_model vs r) = md_id r" "md_provider (assign_model vs r) = md_provider r"
  by (simp_all add: assign_model_def)

lemma write_provider_names:
  assumes "\<not> provider_row_refused i vs c" "distinct (map pv_id (cg_providers c))" "distinct (map pv_name (cg_providers c))"
  shows "distinct (map pv_name (cg_providers (write_provider i vs c)))"
proof -
  have "pv_name (assign_provider vs u) \<noteq> pv_name v"
    if "u \<in> set (cg_providers c)" "v \<in> set (cg_providers c)" "pv_id u = py_lower i" "pv_id v \<noteq> py_lower i" for u v
  proof (cases "dict_get vs ''name''")
    case (VStr n)
    then have "map_of vs ''name'' = Some (VStr n)" by (cases "map_of vs ''name''") (simp_all add: dict_get_def)
    with assms(1) have "\<forall>r\<in>set (cg_providers c). pv_name r = n \<longrightarrow> pv_id r = py_lower i"
      by (simp add: provider_row_refused_def field_ok_def str_or_def list_all_iff)
    with that VStr show ?thesis by (auto simp: assign_provider_def str_or_def)
  qed (use that assms(3) in \<open>auto simp: assign_provider_def str_or_def distinct_map dest: inj_onD\<close>)
  with assms(2,3) show ?thesis by (simp add: write_provider_def distinct_update_key)
qed

lemma model_by_idD: "model_by_id i c = Some r \<Longrightarrow> r \<in> set (cg_models c) \<and> md_id r = py_lower i"
  by (auto simp: model_by_id_def dest: find_SomeD)

lemma write_model_names:
  assumes "model_by_id i c = Some r" "\<not> model_row_refused r vs c" "distinct (map md_id (cg_models c))"
    and d: "distinct (map (\<lambda>m. (md_provider m, md_model m)) (cg_models c))"
  shows "distinct (map (\<lambda>m. (md_provider m, md_model m)) (cg_models (write_model i vs c)))"
proof -
  from model_by_idD [OF assms(1)] have r: "r \<in> set (cg_models c)" "md_id r = py_lower i" by simp_all
  have "(md_provider (assign_model vs u), md_model (assign_model vs u)) \<noteq> (md_provider v, md_model v)"
    if uv: "u \<in> set (cg_models c)" "v \<in> set (cg_models c)" "md_id u = py_lower i" "md_id v \<noteq> py_lower i" for u v
  proof -
    have [simp]: "u = r"
      by (rule distinct_key_inj [OF assms(3)]) (simp_all add: uv r)
    show ?thesis
    proof (cases "dict_get vs ''model''")
      case (VStr n)
      then have "map_of vs ''model'' = Some (VStr n)" by (cases "map_of vs ''model''") (simp_all add: dict_get_def)
      with assms(2) have "\<forall>x\<in>set (cg_models c). md_provider x = md_provider r \<and> md_model x = n \<longrightarrow> md_id x = md_id r"
        by (simp add: model_row_refused_def field_ok_def str_or_def list_all_iff)
      with uv r VStr show ?thesis by (auto simp: assign_model_def str_or_def)
    qed (use uv r d in \<open>auto simp: assign_model_def str_or_def distinct_map dest: inj_onD\<close>)
  qed
  with assms(3) d show ?thesis by (simp add: write_model_def distinct_update_key)
qed

lemma image_keep: "f ` {x \<in> A. f x \<noteq> i} = f ` A - {i}"
  by auto

lemma set_chain_models: "chain_accepted dims task ids c \<Longrightarrow> set ids \<subseteq> set (map md_id (cg_models c))"
  by (force simp: chain_accepted_def list_all_iff found_model_def dest!: find_SomeD)

lemma catalog_keys_write: "cat_write dims strict c c' \<Longrightarrow> catalog_keys c \<Longrightarrow> catalog_keys c'"
proof (induction rule: cat_write.induct)
  case (AddProvider r c)
  then show ?case by (auto simp: catalog_keys_def add_provider_def fresh_provider_def provider_named_def list_ex_iff)
next
  case (WriteProvider i vs c)
  then have "distinct (map pv_name (cg_providers (write_provider i vs c)))"
    by (intro write_provider_names) (auto simp: catalog_keys_def)
  with WriteProvider.prems show ?case
    by (simp add: catalog_keys_def write_provider_def map_update_where del: set_map)
next
  case (DropProvider i c)
  then show ?case by (auto simp: catalog_keys_def models_of_def filter_empty_conv distinct_map_filter image_keep)
next
  case (AddModel r c)
  then show ?case by (auto simp: catalog_keys_def add_model_def model_named_def list_ex_iff)
next
  case (Reprice c ms)
  have "map (\<lambda>m. (md_provider m, md_model m)) ms = zip (map md_provider ms) (map md_model ms)" for ms :: "model_x list"
    by (simp add: zip_map_map zip_same_conv_map)
  with Reprice show ?case by (simp add: catalog_keys_def same_models_def del: set_map)
next
  case (WriteModel i c r vs)
  then have "distinct (map (\<lambda>m. (md_provider m, md_model m)) (cg_models (write_model i vs c)))"
    by (intro write_model_names) (auto simp: catalog_keys_def)
  with WriteModel.prems show ?case
    by (simp add: catalog_keys_def write_model_def map_update_where del: set_map)
next
  case (DropModel i c)
  then show ?case
    by (auto simp: catalog_keys_def drop_model_def routes_using_model_def filter_empty_conv distinct_map_filter image_keep)
next
  case (SetChain task ids c)
  then show ?case using set_chain_models [OF SetChain.hyps(3)]
    by (auto simp: catalog_keys_def set_chain_def)
qed (simp add: catalog_keys_def)

subsection \<open>Typing of the chains\<close>

text \<open>A route conforms when its model has the modality of its task and, for embeddings, no other
  dimension than the index. A chain's positions count from zero.\<close>

definition route_conforms :: "int \<Rightarrow> model_x list \<Rightarrow> route_row \<Rightarrow> bool" where
  "route_conforms dims ms r \<longleftrightarrow>
     rt_task r \<in> set tasks \<and>
     list_ex (\<lambda>m. md_id m = rt_model r \<and> md_modality m = task_modality (rt_task r) \<and>
        (rt_task r = ''embedding'' \<longrightarrow> md_dims m = None \<or> md_dims m = Some dims)) ms"

definition task_routes :: "string \<Rightarrow> catalog \<Rightarrow> route_row list" where
  "task_routes t c = filter (\<lambda>r. rt_task r = t) (cg_routes c)"

definition routes_typed :: "int \<Rightarrow> catalog \<Rightarrow> bool" where
  "routes_typed dims c \<longleftrightarrow>
     list_all (route_conforms dims (cg_models c)) (cg_routes c) \<and>
     list_all (\<lambda>t. map rt_position (task_routes t c) = map int [0..<length (task_routes t c)] \<and> length (task_routes t c) \<le> 10) tasks"

text \<open>The models of a catalogue may be extended, never retyped.\<close>

definition model_ext :: "model_x list \<Rightarrow> model_x list \<Rightarrow> bool" where
  "model_ext ms ms' \<longleftrightarrow>
     (\<forall>m\<in>set ms. \<exists>m'\<in>set ms'. md_id m' = md_id m \<and> md_modality m' = md_modality m \<and> md_dims m' = md_dims m)"

lemma conforms_ext: "model_ext ms ms' \<Longrightarrow> route_conforms dims ms r \<Longrightarrow> route_conforms dims ms' r"
  unfolding route_conforms_def list_ex_iff model_ext_def by metis

lemma routes_typed_ext:
  "routes_typed dims c \<Longrightarrow> model_ext (cg_models c) (cg_models c') \<Longrightarrow> cg_routes c' = cg_routes c \<Longrightarrow> routes_typed dims c'"
  by (auto simp: routes_typed_def task_routes_def list_all_iff intro: conforms_ext)

lemma model_ext_refl [simp]: "model_ext ms ms" "model_ext ms (ms @ ms')"
  by (auto simp: model_ext_def)

lemma same_models_ext: "same_models ms ms' \<Longrightarrow> model_ext ms ms'"
  unfolding model_ext_def
proof
  fix m assume s: "same_models ms ms'" and "m \<in> set ms"
  then obtain n where n: "n < length ms" "ms ! n = m" by (auto simp: in_set_conv_nth)
  have l: "length ms' = length ms" using s unfolding same_models_def by (metis length_map)
  have "md_id (ms' ! n) = md_id m \<and> md_modality (ms' ! n) = md_modality m \<and> md_dims (ms' ! n) = md_dims m"
    using s n l by (simp add: same_models_def list_eq_iff_nth_eq)
  then show "\<exists>m'\<in>set ms'. md_id m' = md_id m \<and> md_modality m' = md_modality m \<and> md_dims m' = md_dims m"
    using n l by (intro bexI [of _ "ms' ! n"]) auto
qed

lemma write_model_ext: "keeps_typing vs \<Longrightarrow> model_ext (cg_models c) (cg_models (write_model i vs c))"
proof -
  assume "keeps_typing vs"
  then have a: "md_modality (assign_model vs m) = md_modality m" "md_dims (assign_model vs m) = md_dims m" for m
    by (simp_all add: assign_model_def keeps_typing_def dict_get_def str_or_def)
  have "(if md_id m = py_lower i then assign_model vs m else m) \<in> set (cg_models (write_model i vs c))"
    if "m \<in> set (cg_models c)" for m
    using that by (simp add: write_model_def set_update_where)
  then show ?thesis unfolding model_ext_def
    by (intro ballI, rule_tac x = "if md_id m = py_lower i then assign_model vs m else m" in bexI) (simp_all add: a)
qed

lemma task_routes_set_chain:
  "task_routes t (set_chain task ids c) =
     (if t = task then map (\<lambda>n. \<lparr>rt_task = task, rt_position = int n, rt_model = ids ! n\<rparr>) [0..<length ids] else task_routes t c)"
  by (auto simp: task_routes_def set_chain_def filter_map comp_def intro: filter_cong)

lemma set_chain_typed:
  assumes "routes_typed dims c" "task \<in> set tasks" "length ids \<le> 10" "chain_accepted dims task ids c"
  shows "routes_typed dims (set_chain task ids c)"
proof -
  have "route_conforms dims (cg_models c) \<lparr>rt_task = task, rt_position = n, rt_model = i\<rparr>" if "i \<in> set ids" for i n
  proof -
    from assms(4) that obtain m where m: "found_model c i = Some m" "md_modality m = task_modality task"
      "task = ''embedding'' \<longrightarrow> md_dims m = None \<or> md_dims m = Some dims"
      by (fastforce simp: chain_accepted_def list_all_iff)
    then have "m \<in> set (cg_models c)" "md_id m = i" by (auto simp: found_model_def dest: find_SomeD)
    with m assms(2) show ?thesis by (auto simp: route_conforms_def list_ex_iff)
  qed
  with assms(1) have "list_all (route_conforms dims (cg_models c)) (cg_routes (set_chain task ids c))"
    by (auto simp: routes_typed_def set_chain_def list_all_iff)
  moreover have "cg_models (set_chain task ids c) = cg_models c" by (simp add: set_chain_def)
  ultimately show ?thesis using assms(1,3)
    by (simp add: routes_typed_def task_routes_set_chain list_all_iff comp_def)
qed

lemma drop_model_typed:
  assumes "routes_typed dims c" "routes_using_model i c = 0"
  shows "routes_typed dims (drop_model (py_lower i) c)"
proof -
  have ne: "rt_model r \<noteq> py_lower i" if "r \<in> set (cg_routes c)" for r
    using assms(2) that by (auto simp: routes_using_model_def filter_empty_conv)
  then have "cg_routes (drop_model (py_lower i) c) = cg_routes c" by (simp add: drop_model_def filter_id_conv)
  moreover have "route_conforms dims (cg_models (drop_model (py_lower i) c)) r" if "r \<in> set (cg_routes c)" for r
  proof -
    have "route_conforms dims (cg_models c) r" using assms(1) that by (simp add: routes_typed_def list_all_iff)
    with ne [OF that] show ?thesis unfolding route_conforms_def list_ex_iff drop_model_def by auto
  qed
  ultimately show ?thesis using assms(1) by (simp add: routes_typed_def task_routes_def list_all_iff)
qed

lemma routes_typed_write: "cat_write dims True c c' \<Longrightarrow> routes_typed dims c \<Longrightarrow> routes_typed dims c'"
proof (induction rule: cat_write.induct)
  case (SetChain task ids c)
  then show ?case by (intro set_chain_typed)
next
  case (DropModel i c)
  then show ?case by (intro drop_model_typed)
next
  case (WriteModel i c r vs)
  then show ?case by (elim routes_typed_ext) (simp_all add: write_model_ext, simp add: write_model_def)
next
  case (Reprice c ms)
  then show ?case by (elim routes_typed_ext) (simp_all add: same_models_ext)
qed (auto elim!: routes_typed_ext simp: add_provider_def write_provider_def add_model_def)

subsection \<open>Every handler is a sequence of such writes\<close>

lemma provider_by_idD: "provider_by_id i c = Some r \<Longrightarrow>
    r \<in> set (cg_providers c) \<and> pv_id r = py_lower i \<and> py_lower i \<in> pv_id ` set (cg_providers c)"
  by (force simp: provider_by_id_def dest: find_SomeD)

lemma cast_columns_lookup:
  "cast_columns repr to_int cols payload = Some vs \<Longrightarrow> map_of payload k = None \<Longrightarrow> map_of vs k = None"
  by (induction repr to_int cols payload arbitrary: vs rule: cast_columns.induct) (auto split: option.splits)

lemma int_field_lookup:
  "int_field to_int b payload k' = Some vs \<Longrightarrow> k' \<noteq> k \<or> map_of payload k = None \<Longrightarrow> map_of vs k = None"
  by (auto simp: int_field_def split: option.splits if_splits)

lemma create_provider_writes:
  "fresh_provider i (aw_cat w) \<Longrightarrow> cat_writes dims s (aw_cat w) (aw_cat (snd (create_provider repr to_int True PgUp i pay w)))"
  by (auto simp: create_provider_def Let_def new_provider_def intro!: cat_writes_one AddProvider Done split: option.split sum.split)

lemma template_writes:
  "fresh_provider i (aw_cat w) \<Longrightarrow> cat_writes dims s (aw_cat w) (aw_cat (snd (create_provider_from_template repr True PgUp i pay w)))"
  by (auto simp: create_provider_from_template_def Let_def template_provider_def intro!: cat_writes_one AddProvider Done split: option.split)

lemma update_provider_writes:
  "cat_writes dims s (aw_cat w) (aw_cat (snd (update_provider repr to_int True PgUp now us i pay w)))"
  by (auto simp: update_provider_def Let_def intro!: cat_writes_one WriteProvider Done split: option.split)

lemma delete_provider_writes: "cat_writes dims s (aw_cat w) (aw_cat (snd (delete_provider True PgUp i w)))"
  by (auto simp: delete_provider_def Let_def intro!: cat_writes_one DropProvider Done split: option.split)

lemma create_model_writes:
  "fresh_models [i] (aw_cat w) \<Longrightarrow> cat_writes dims s (aw_cat w) (aw_cat (snd (create_model repr to_int True PgUp i prov pay w)))"
  by (auto simp: create_model_def Let_def fresh_models_def intro!: cat_writes_one AddModel Done split: option.split sum.split prod.split
      dest!: provider_by_idD)

lemma delete_model_writes: "cat_writes dims s (aw_cat w) (aw_cat (snd (delete_model True PgUp i w)))"
  by (auto simp: delete_model_def dest!: model_by_idD intro!: cat_writes_one DropModel Done split: option.split)

lemma bulk_loop_writes: "cat_writes dims s c (snd (bulk_delete_loop is c))"
proof (induction "is" c rule: bulk_delete_loop.induct)
  case (2 i "is" c)
  show ?case
  proof (cases "uuid_re i")
    case True
    show ?thesis
    proof (cases "model_by_id i c")
      case None
      with True 2(2) show ?thesis by simp
    next
      case (Some m)
      with model_by_idD [OF Some] True 2(3,4) show ?thesis
        by (auto simp: split_def Let_def intro: More [OF DropModel])
    qed
  qed (use 2(1) in simp)
qed (simp add: Done)

lemma bulk_loop_none: "fst (fst (bulk_delete_loop is c)) = [] \<Longrightarrow> snd (bulk_delete_loop is c) = c"
  by (induction "is" c rule: bulk_delete_loop.induct) (auto simp: split_def Let_def split: option.splits if_splits)

lemma bulk_writes: "cat_writes dims s (aw_cat w) (aw_cat (snd (bulk_delete_models repr True PgUp pay w)))"
  using bulk_loop_writes by (auto simp: bulk_delete_models_def split_def Let_def intro!: Done split: pyv.split)

lemma upsert_model_writes:
  assumes "md_id r \<notin> set (map md_id (cg_models c))" "md_provider r \<in> set (map pv_id (cg_providers c))"
  shows "cat_write dims s c (upsert_model r c)"
  using assms unfolding upsert_model_def
  by (auto intro!: Reprice AddModel simp: same_models_def map_update_where)

lemma upsert_frame:
  "cg_providers (upsert_model r c) = cg_providers c"
  "set (map md_id (cg_models (upsert_model r c))) \<subseteq> insert (md_id r) (set (map md_id (cg_models c)))"
  by (auto simp: upsert_model_def add_model_def set_update_where)

lemma import_loop_writes:
  "import_loop repr to_int prov modality items c = Some (out, c') \<Longrightarrow> fresh_models (map fst items) c \<Longrightarrow>
   prov \<in> set (map pv_id (cg_providers c)) \<Longrightarrow> cat_writes dims s c c'"
proof (induction repr to_int prov modality items c arbitrary: out rule: import_loop.induct)
  case (2 repr to_int prov modality i it rest c)
  show ?case
  proof (cases "py_strip (arg_str repr it ''model'' []) = []")
    case True
    with 2 show ?thesis by (simp add: fresh_models_def Let_def)
  next
    case False
    from 2(3) False obtain x y r out' where xy: "price_arg it ''input_usd_per_1m'' = Inr x" "price_arg it ''output_usd_per_1m'' = Inr y"
      and r: "r = import_row repr to_int i prov modality it (py_strip (arg_str repr it ''model'' [])) x y"
      and l: "import_loop repr to_int prov modality rest (upsert_model r c) = Some (out', c')"
      and fits: "fits_numeric 14 6 x" "fits_numeric 14 6 y" "opt_fits (md_context r)"
      by (auto simp: Let_def split: sum.splits if_splits option.splits)
    have ids: "md_id r = i" "md_provider r = prov" by (simp_all add: r import_row_def)
    have "fresh_models (map fst rest) (upsert_model r c)"
    proof -
      have "set (map fst rest) \<inter> insert i (set (map md_id (cg_models c))) = {}" "distinct (map fst rest)"
        using 2(4) by (auto simp: fresh_models_def)
      with upsert_frame(2) [of r c] ids show ?thesis unfolding fresh_models_def by blast
    qed
    moreover have "cat_write dims s c (upsert_model r c)"
      using 2(4,5) ids by (intro upsert_model_writes) (auto simp: fresh_models_def)
    ultimately show ?thesis
      using 2(2) [OF refl False refl xy(1) xy(2) r _ l] fits 2(5) upsert_frame(1) [of r c] by (auto intro: More)
  qed
qed (auto intro: Done)

lemma import_writes:
  "fresh_models is (aw_cat w) \<Longrightarrow>
   cat_writes dims s (aw_cat w) (aw_cat (snd (import_discovered_models repr to_int True PgUp is prov pay w)))"
proof -
  assume f: "fresh_models is (aw_cat w)"
  have "fresh_models (map fst (zip is items)) (aw_cat w)" for items :: "pyv list"
    using f by (auto simp: fresh_models_def map_fst_zip_take dest: in_set_takeD)
  then show ?thesis
    by (auto simp: import_discovered_models_def Let_def dest!: provider_by_idD
        intro!: Done import_loop_writes split: pyv.split option.split)
qed

text \<open>An edit of a model that leaves its modality and its dimensions alone.\<close>

fun keeps_types :: "ai_event \<Rightarrow> bool" where
  "keeps_types (ModUpdate i pay) = keeps_typing pay"
| "keeps_types _ = True"

lemma update_model_writes:
  assumes "s \<longrightarrow> keeps_typing pay"
  shows "cat_writes dims s (aw_cat w) (aw_cat (snd (update_model repr to_int True PgUp i pay w)))"
proof -
  have "s \<longrightarrow> keeps_typing (vs0 @ ds @ cs)"
    if "cast_columns repr to_int model_columns pay = Some vs0" "int_field to_int True pay ''dims'' = Some ds"
      "int_field to_int False pay ''context_window'' = Some cs" for vs0 ds cs
  proof
    assume s
    with assms have k: "map_of pay ''modality'' = None" "map_of pay ''dims'' = None" by (simp_all add: keeps_typing_def)
    have "map_of ds ''modality'' = None" "map_of ds ''dims'' = None"
      by (rule int_field_lookup [OF that(2)], use k in simp)+
    moreover have "map_of cs ''modality'' = None" "map_of cs ''dims'' = None"
      by (rule int_field_lookup [OF that(3)], simp)+
    ultimately show "keeps_typing (vs0 @ ds @ cs)"
      using k that(1) by (simp add: keeps_typing_def map_add_def cast_columns_lookup)
  qed
  then show ?thesis
    by (auto simp: update_model_def Let_def intro!: cat_writes_one WriteModel Done split: option.split)
qed

lemma put_route_writes: "cat_writes dims s (aw_cat w) (aw_cat (snd (put_route dims True PgUp t pay w)))"
proof -
  have "length ids = length vs" if "id_list vs = Some ids" for vs ids
    using that by (induction vs arbitrary: ids rule: id_list.induct) (auto split: if_splits)
  then show ?thesis
    by (auto simp: put_route_def intro!: cat_writes_one SetChain Done split: pyv.split option.split)
qed

lemma ai_step_writes: "s \<longrightarrow> keeps_types e \<Longrightarrow> cat_writes dims s (aw_cat w) (aw_cat (ai_step repr to_int dims w e))"
proof (cases e)
  case (FailoverPut pay)
  then show ?thesis
    by (auto simp: put_routing_settings_def intro!: cat_writes_one Same Done split: option.split)
next
  case (PricingPut pay)
  then show ?thesis
    by (auto simp: put_pricing_def get_pricing_def intro!: cat_writes_one Same Done split: option.split)
qed (auto intro: create_provider_writes template_writes update_provider_writes delete_provider_writes create_model_writes
    import_writes update_model_writes delete_model_writes bulk_writes put_route_writes Done)

lemma cat_writes_keys: "cat_writes dims s c c' \<Longrightarrow> catalog_keys c \<Longrightarrow> catalog_keys c'"
  by (erule cat_writes_keep [where I = catalog_keys]) (rule catalog_keys_write)

lemma cat_writes_typed: "cat_writes dims True c c' \<Longrightarrow> routes_typed dims c \<Longrightarrow> routes_typed dims c'"
  by (erule cat_writes_keep [where I = "routes_typed dims"]) (rule routes_typed_write)

interpretation ai_keys: invariant_machine "ai_step repr to_int dims" "\<lambda>w :: ai_world. catalog_keys (aw_cat w)" for repr to_int dims
proof
  fix w :: ai_world and e
  assume k: "catalog_keys (aw_cat w)"
  show "catalog_keys (aw_cat (ai_step repr to_int dims w e))"
    by (rule cat_writes_keys [where s = False, OF ai_step_writes k]) simp
qed

definition typed_step :: "(pyv \<Rightarrow> string) \<Rightarrow> (pyv \<Rightarrow> int option) \<Rightarrow> int \<Rightarrow> ai_world \<Rightarrow> ai_event \<Rightarrow> ai_world" where
  "typed_step repr to_int dims w e = (if keeps_types e then ai_step repr to_int dims w e else w)"

interpretation ai_types: invariant_machine "typed_step repr to_int dims" "\<lambda>w :: ai_world. routes_typed dims (aw_cat w)" for repr to_int dims
proof
  fix w :: ai_world and e
  assume t: "routes_typed dims (aw_cat w)"
  have "routes_typed dims (aw_cat (ai_step repr to_int dims w e))" if "keeps_types e"
    by (rule cat_writes_typed [OF ai_step_writes t]) (simp add: that)
  with t show "routes_typed dims (aw_cat (typed_step repr to_int dims w e))" by (simp add: typed_step_def)
qed

lemma typed_run: "list_all keeps_types es \<Longrightarrow> foldl (ai_step repr to_int dims) w es = foldl (typed_step repr to_int dims) w es"
  by (induction es arbitrary: w) (simp_all add: typed_step_def)

subsection \<open>Properties\<close>

text \<open>C24: Whatever operators create, import, edit, delete and route, in any order and with any payload, the keys
  of the AI catalogue stay unique (ids and names of vendors, ids of models, model names of a vendor), every
  model belongs to a vendor that exists and every routing position names a model that exists.\<close>

theorem catalogue_keys_stay_valid:
  assumes "catalog_keys (aw_cat w)"
  shows "catalog_keys (aw_cat (foldl (ai_step repr to_int dims) w es))"
  using assms by (rule ai_keys.run_inv)


definition new_model :: "string \<Rightarrow> string \<Rightarrow> string \<Rightarrow> string \<Rightarrow> int option \<Rightarrow> model_x" where
  "new_model i prov name modality dims =
     \<lparr>md_id = i, md_provider = prov, md_model = name, md_input = 1, md_output = 2, md_enabled = True, md_modality = modality,
      md_dims = dims, md_label = None, md_context = None, md_free = False\<rparr>"

definition aid1 :: string where "aid1 = ''00000000-0000-0000-0000-000000000001''"
definition aid2 :: string where "aid2 = ''00000000-0000-0000-0000-000000000002''"
definition aid3 :: string where "aid3 = ''00000000-0000-0000-0000-000000000003''"

definition demo_catalog :: catalog where
  "demo_catalog =
     \<lparr>cg_providers = [template_provider aid1 ''openai'' ''sk-12345'' (template ''openai'' ''OpenAI'' ''https://api.openai.com/v1'' ''openai_compatible'' [] [])],
      cg_models = [new_model aid2 aid1 ''gpt'' ''chat'' None, new_model aid3 aid1 ''emb'' ''embedding'' (Some 1024)],
      cg_routes = [\<lparr>rt_task = ''embedding'', rt_position = 0, rt_model = aid3\<rparr>],
      cg_pricing = default_pricing, cg_failover = True\<rparr>"

definition demo_ai :: ai_world where
  "demo_ai = \<lparr>aw_cat = demo_catalog, aw_reg = None, aw_db = empty_db\<rparr>"

lemma demo_keys: "catalog_keys (aw_cat demo_ai)"
  by (simp add: catalog_keys_def demo_ai_def demo_catalog_def new_model_def aid1_def aid2_def aid3_def template_provider_def)

lemma demo_typed: "routes_typed 1024 (aw_cat demo_ai)"
  by (simp add: routes_typed_def task_routes_def route_conforms_def demo_ai_def demo_catalog_def new_model_def aid1_def aid2_def
      aid3_def tasks_def task_modality_def)

lemma aid_uuid [simp]: "uuid_re aid1" "uuid_re aid2" "uuid_re aid3"
  by (code_simp, code_simp, code_simp)

theorem catalogue_keys_stay_valid_witness:
  "catalog_keys (aw_cat (foldl (ai_step (\<lambda>_. []) (\<lambda>_. None) 1024) demo_ai [ProvDelete aid1, ModDelete aid3, ModDelete aid2])) \<and>
   map md_id (cg_models (aw_cat (foldl (ai_step (\<lambda>_. []) (\<lambda>_. None) 1024) demo_ai [ProvDelete aid1, ModDelete aid3, ModDelete aid2]))) = [aid3]"
proof
  show "catalog_keys (aw_cat (foldl (ai_step (\<lambda>_. []) (\<lambda>_. None) 1024) demo_ai [ProvDelete aid1, ModDelete aid3, ModDelete aid2]))"
    by (rule catalogue_keys_stay_valid [OF demo_keys])
  show "map md_id (cg_models (aw_cat (foldl (ai_step (\<lambda>_. []) (\<lambda>_. None) 1024) demo_ai [ProvDelete aid1, ModDelete aid3, ModDelete aid2]))) = [aid3]"
    by code_simp
qed


end
