(* ===== verification/AiGateway.thy ===== *)
theory AiGateway
  imports AiProps
begin

text \<open>
  What the gateway (\<open>Failover\<close>, \<open>Pricing\<close>) makes of the operator's AI catalogue: a stored chain is the
  chain that the next turn uses, every model has one price, the bounds of the pricing form, and where
  the forms let something through that the gateway does not expect.
\<close>

subsection \<open>A stored chain is the chain in use\<close>

lemma filter_unique:
  "distinct (map k xs) \<Longrightarrow>
   filter (\<lambda>x. k x = i \<and> P x) xs = (case find (\<lambda>x. k x = i) xs of None \<Rightarrow> [] | Some x \<Rightarrow> if P x then [x] else [])"
proof (induction xs)
  case (Cons x xs)
  have "filter (\<lambda>x. k x = k x' \<and> P x) xs = []" if "k x' \<notin> k ` set xs" for x'
    using that by (auto simp: filter_empty_conv) (metis imageI)
  with Cons show ?case by auto
qed simp

lemma task_chains_lookup:
  "the_or [] (map_of (task_chains rows) t) = map snd (filter (\<lambda>r. fst r = t) rows)"
proof -
  have "the_or [] (map_of (fold (\<lambda>(t, e) d. dict_set t (the_or [] (map_of d t) @ [e]) d) rows d) t)
      = the_or [] (map_of d t) @ map snd (filter (\<lambda>r. fst r = t) rows)" for d
    by (induction rows arbitrary: d) (auto simp: split_def)
  then show ?thesis by (simp add: task_chains_def)
qed

definition joined_one :: "string \<Rightarrow> aidb \<Rightarrow> route_row \<Rightarrow> (route_row \<times> model_row \<times> provider_row) list" where
  "joined_one modality D r =
     concat (map (\<lambda>m. map (\<lambda>p. (r, m, p))
         (filter (\<lambda>p. pv_id p = md_provider m \<and> pv_enabled p) (ai_providers D)))
       (filter (\<lambda>m. md_id m = rt_model r \<and> md_enabled m \<and> md_modality m = modality) (ai_models D)))"

lemma joined_routes_task:
  "filter (\<lambda>x. rt_task (fst x) = t) (joined_routes modality D)
     = concat (map (joined_one modality D) (sort_key rt_position (filter (\<lambda>r. rt_task r = t) (ai_routes D))))"
proof -
  have one: "filter (\<lambda>x. rt_task (fst x) = t) (joined_one modality D r) = (if rt_task r = t then joined_one modality D r else [])" for r
    by (auto simp: joined_one_def filter_concat filter_map comp_def filter_empty_conv)
  have "filter (\<lambda>x. rt_task (fst x) = t) (concat (map (joined_one modality D) rs))
      = concat (map (joined_one modality D) (filter (\<lambda>r. rt_task r = t) rs))" for rs
    by (induction rs) (simp_all add: one)
  moreover have "joined_routes modality D = concat (map (joined_one modality D) (sort_key rt_position (ai_routes D)))"
    by (simp add: joined_routes_def joined_one_def [abs_def])
  ultimately show ?thesis by (simp add: filter_sort)
qed

text \<open>The endpoint of a stored model id: none unless the model and its vendor are enabled.\<close>

definition live_endpoint :: "catalog \<Rightarrow> string \<Rightarrow> endpoint option" where
  "live_endpoint c i =
     (case found_model c i of
        None \<Rightarrow> None
      | Some m \<Rightarrow>
          if \<not> md_enabled m then None
          else (case find (\<lambda>p. pv_id p = md_provider m) (cg_providers c) of
              None \<Rightarrow> None
            | Some p \<Rightarrow> if pv_enabled p then Some (chat_endpoint (model_row.truncate m) (provider_row.truncate p)) else None))"

lemma truncate_simps [simp]:
  "pv_id (provider_row.truncate p) = pv_id p" "pv_enabled (provider_row.truncate p) = pv_enabled p"
  "pv_name (provider_row.truncate p) = pv_name p"
  "md_id (model_row.truncate m) = md_id m" "md_enabled (model_row.truncate m) = md_enabled m"
  "md_provider (model_row.truncate m) = md_provider m" "md_modality (model_row.truncate m) = md_modality m"
  "md_model (model_row.truncate m) = md_model m" "md_input (model_row.truncate m) = md_input m"
  "md_output (model_row.truncate m) = md_output m"
  by (simp_all add: provider_row.truncate_def model_row.truncate_def)

lemma find_map_comp: "find P (map f xs) = map_option f (find (P \<circ> f) xs)"
  by (induction xs) auto

lemma joined_one_live:
  assumes keys: "catalog_keys c" and "found_model c i = Some m" "md_modality m = modality" "rt_model r = i"
  shows "map (\<lambda>(r, m, p). chat_endpoint m p) (joined_one modality (aidb_of c) r)
    = (case live_endpoint c i of None \<Rightarrow> [] | Some e \<Rightarrow> [e])"
proof -
  have d: "distinct (map md_id (map model_row.truncate (cg_models c)))" "distinct (map pv_id (map provider_row.truncate (cg_providers c)))"
    using keys by (simp_all add: catalog_keys_def comp_def)
  have f: "find (\<lambda>m. md_id m = i) (map model_row.truncate (cg_models c)) = Some (model_row.truncate m)"
    using assms(2) by (simp add: found_model_def find_map_comp comp_def)
  have p: "find (\<lambda>p. pv_id p = md_provider m) (map provider_row.truncate (cg_providers c))
      = map_option provider_row.truncate (find (\<lambda>p. pv_id p = md_provider m) (cg_providers c))"
    by (simp add: find_map_comp comp_def)
  show ?thesis
    unfolding joined_one_def aidb_of_def aidb.simps filter_unique [OF d(1)] filter_unique [OF d(2)] assms(4) f
    using assms(2,3) p by (auto simp: live_endpoint_def split: option.split)
qed

lemma sort_positions:
  "sort_key rt_position (map (\<lambda>n. \<lparr>rt_task = t, rt_position = int n, rt_model = ids ! n\<rparr>) [0..<k])
     = map (\<lambda>n. \<lparr>rt_task = t, rt_position = int n, rt_model = ids ! n\<rparr>) [0..<k]"
proof -
  have "sorted (map rt_position (map (\<lambda>n. \<lparr>rt_task = t, rt_position = int n, rt_model = ids ! n\<rparr>) [0..<k]))"
    by (simp add: comp_def sorted_iff_nth_mono)
  then show ?thesis by (rule sort_key_id_if_sorted)
qed

lemma put_route_ok:
  assumes "put_route dims True PgUp task [(''model_ids'', VList (map VStr ids))] w = (Ok r, w')"
  shows "task \<in> set tasks" "chain_accepted dims task ids (aw_cat w)" "aw_cat w' = set_chain task ids (aw_cat w)" "aw_reg w' = None"
proof -
  have "id_list (map VStr ids) = Some js \<Longrightarrow> js = ids" for js
    by (induction ids arbitrary: js) (auto split: if_splits)
  with assms show "task \<in> set tasks" "chain_accepted dims task ids (aw_cat w)" "aw_cat w' = set_chain task ids (aw_cat w)" "aw_reg w' = None"
    by (auto simp: put_route_def dict_get_or_def split: if_splits option.splits)
qed

lemma set_chain_frame [simp]:
  "cg_models (set_chain task ids c) = cg_models c" "cg_providers (set_chain task ids c) = cg_providers c"
  by (simp_all add: set_chain_def)

lemma live_endpoint_set_chain [simp]: "live_endpoint (set_chain task ids c) i = live_endpoint c i"
  unfolding live_endpoint_def found_model_def set_chain_frame by (rule refl)

text \<open>An accepted chain takes effect at once and as it stands: when an operator has stored the models \<open>ids\<close>
  for a chat task, the very next turn reads, whatever the registry had cached, exactly the endpoints of those
  models in that order, leaving out the models that are disabled or whose vendor is.\<close>

theorem stored_chain_takes_effect:
  assumes keys: "catalog_keys (aw_cat w)"
    and put: "put_route dims True PgUp task [(''model_ids'', VList (map VStr ids))] w = (Ok r, w')"
    and chat: "task_modality task = ''chat''"
  shows "the_or [] (map_of (sn_tasks (fst (registry_snapshot ttl PgUp now (aidb_of (aw_cat w')) (aw_reg w')))) task)
    = concat (map (\<lambda>i. case live_endpoint (aw_cat w) i of None \<Rightarrow> [] | Some e \<Rightarrow> [e]) ids)"
proof -
  let ?c = "set_chain task ids (aw_cat w)"
  let ?row = "\<lambda>n. \<lparr>rt_task = task, rt_position = int n, rt_model = ids ! n\<rparr>"
  note p = put_route_ok [OF put]
  have keys': "catalog_keys ?c"
    using catalog_keys_write [OF SetChain [where dims = dims and strict = False, OF p(1) _ p(2)] keys] put
    by (auto simp: put_route_def dict_get_or_def split: if_splits)
  have row: "map (\<lambda>(r, m, p). chat_endpoint m p) (joined_one ''chat'' (aidb_of ?c) (?row n))
      = (case live_endpoint (aw_cat w) (ids ! n) of None \<Rightarrow> [] | Some e \<Rightarrow> [e])" if "n < length ids" for n
  proof -
    have "case found_model (aw_cat w) (ids ! n) of None \<Rightarrow> False | Some m \<Rightarrow> md_modality m = task_modality task"
      using p(2) nth_mem [OF that] by (simp add: chain_accepted_def list_all_iff)
    then obtain m where m: "found_model (aw_cat w) (ids ! n) = Some m" "md_modality m = ''chat''"
      using chat by (auto split: option.splits)
    then have "found_model ?c (ids ! n) = Some m" by (simp add: found_model_def)
    from joined_one_live [OF keys' this m(2)] show ?thesis by simp
  qed
  have "the_or [] (map_of (sn_tasks (fst (registry_snapshot ttl PgUp now (aidb_of ?c) None))) task)
      = map (\<lambda>(r, m, p). chat_endpoint m p) (filter (\<lambda>x. rt_task (fst x) = task) (joined_routes ''chat'' (aidb_of ?c)))"
    by (simp add: registry_snapshot_def load_snapshot_def task_chains_lookup filter_map comp_def split_def)
  also have "filter (\<lambda>x. rt_task (fst x) = task) (joined_routes ''chat'' (aidb_of ?c))
      = concat (map (joined_one ''chat'' (aidb_of ?c)) (map ?row [0..<length ids]))"
  proof -
    have "filter (\<lambda>r. rt_task r = task) (ai_routes (aidb_of ?c)) = map ?row [0..<length ids]"
      using task_routes_set_chain [of task task ids "aw_cat w"] by (simp add: task_routes_def aidb_of_def)
    then show ?thesis by (simp only: joined_routes_task sort_positions)
  qed
  also have "map (\<lambda>(r, m, p). chat_endpoint m p) \<dots> =
      concat (map (\<lambda>n. case live_endpoint (aw_cat w) (ids ! n) of None \<Rightarrow> [] | Some e \<Rightarrow> [e]) [0..<length ids])"
    by (auto simp: map_concat comp_def row intro!: arg_cong [where f = concat])
  also have "\<dots> = concat (map (\<lambda>i. case live_endpoint (aw_cat w) i of None \<Rightarrow> [] | Some e \<Rightarrow> [e]) ids)"
    using arg_cong [OF map_nth [of ids],
        where f = "\<lambda>xs. concat (map (\<lambda>i. case live_endpoint (aw_cat w) i of None \<Rightarrow> [] | Some e \<Rightarrow> [e]) xs)"]
    by (simp add: comp_def)
  finally show ?thesis by (simp add: p)
qed

theorem stored_chain_takes_effect_witness:
  "\<exists>r w'. put_route 1024 True PgUp ''chat'' [(''model_ids'', VList (map VStr [aid2]))] demo_ai = (Ok r, w') \<and>
     map en_model (the_or [] (map_of (sn_tasks (fst (registry_snapshot 30 PgUp 0 (aidb_of (aw_cat w')) (aw_reg w')))) ''chat'')) = [''gpt'']"
proof -
  have "put_route 1024 True PgUp ''chat'' [(''model_ids'', VList (map VStr [aid2]))] demo_ai =
      (Ok (''chat'', 1), snd (put_route 1024 True PgUp ''chat'' [(''model_ids'', VList (map VStr [aid2]))] demo_ai))"
    by code_simp
  moreover from stored_chain_takes_effect [OF demo_keys this, of 30 0]
  have "the_or [] (map_of (sn_tasks (fst (registry_snapshot 30 PgUp 0
      (aidb_of (aw_cat (snd (put_route 1024 True PgUp ''chat'' [(''model_ids'', VList (map VStr [aid2]))] demo_ai))))
      (aw_reg (snd (put_route 1024 True PgUp ''chat'' [(''model_ids'', VList (map VStr [aid2]))] demo_ai)))))) ''chat'')
    = concat (map (\<lambda>i. case live_endpoint (aw_cat demo_ai) i of None \<Rightarrow> [] | Some e \<Rightarrow> [e]) [aid2])"
    by (simp add: task_modality_def)
  moreover have "map en_model (concat (map (\<lambda>i. case live_endpoint (aw_cat demo_ai) i of None \<Rightarrow> [] | Some e \<Rightarrow> [e]) [aid2])) = [''gpt'']"
    by code_simp
  ultimately show ?thesis by metis
qed

subsection \<open>Prices\<close>

definition price_rows :: "aidb \<Rightarrow> ((string \<times> string) \<times> model_price) list" where
  "price_rows D = concat (map (\<lambda>m. map (\<lambda>p. ((pv_name p, md_model m),
          \<lparr>mp_provider = pv_name p, mp_model = md_model m, mp_input = md_input m, mp_output = md_output m\<rparr>))
        (filter (\<lambda>p. pv_id p = md_provider m) (ai_providers D))) (ai_models D))"

lemma price_row_member:
  "((n, k), pr) \<in> set (price_rows D) \<longleftrightarrow>
     (\<exists>m p. m \<in> set (ai_models D) \<and> p \<in> set (ai_providers D) \<and> pv_id p = md_provider m \<and> n = pv_name p \<and> k = md_model m \<and>
        pr = \<lparr>mp_provider = pv_name p, mp_model = md_model m, mp_input = md_input m, mp_output = md_output m\<rparr>)"
  by (auto simp: price_rows_def)

text \<open>Two sheets under one key would make the price of a turn depend on the order of the rows.\<close>

lemma price_key_unique:
  assumes "catalog_keys c" "(k, x) \<in> set (price_rows (aidb_of c))" "(k, y) \<in> set (price_rows (aidb_of c))"
  shows "x = y"
proof -
  obtain m p m' p' where a: "m \<in> set (cg_models c)" "p \<in> set (cg_providers c)" "pv_id p = md_provider m"
      "m' \<in> set (cg_models c)" "p' \<in> set (cg_providers c)" "pv_id p' = md_provider m'"
      "k = (pv_name p, md_model m)" "k = (pv_name p', md_model m')"
      "x = \<lparr>mp_provider = pv_name p, mp_model = md_model m, mp_input = md_input m, mp_output = md_output m\<rparr>"
      "y = \<lparr>mp_provider = pv_name p', mp_model = md_model m', mp_input = md_input m', mp_output = md_output m'\<rparr>"
    using assms(2,3) by (cases k) (auto simp: price_row_member aidb_of_def)
  have "p = p'" using assms(1) a by (auto simp: catalog_keys_def distinct_map dest: inj_onD)
  moreover from this have "m = m'"
    using assms(1) a by (auto simp: catalog_keys_def distinct_map dest: inj_onD [where x = m and y = m'])
  ultimately show ?thesis using a by simp
qed

text \<open>Every turn is priced from its own model's row: in the catalogue that the operators can reach, the price
  that the gateway looks up for a vendor's model is the one stored for that model, whatever else is stored.\<close>

theorem model_has_its_own_price:
  assumes keys: "catalog_keys c" and "m \<in> set (cg_models c)" "p \<in> set (cg_providers c)" "pv_id p = md_provider m"
  shows "price_for (load_snapshot now (aidb_of c)) (pv_name p) (md_model m) =
    Some \<lparr>mp_provider = pv_name p, mp_model = md_model m, mp_input = md_input m, mp_output = md_output m\<rparr>"
proof -
  let ?sheet = "\<lparr>mp_provider = pv_name p, mp_model = md_model m, mp_input = md_input m, mp_output = md_output m\<rparr>"
  let ?k = "(pv_name p, md_model m)"
  have "(?k, ?sheet) \<in> set (price_rows (aidb_of c))"
    unfolding price_row_member using assms(2-4)
    by (intro exI [of _ "model_row.truncate m"] exI [of _ "provider_row.truncate p"]) (simp add: aidb_of_def)
  then have "(?k, ?sheet) \<in> set (rev (price_rows (aidb_of c)))" by simp
  moreover from this obtain x where x: "map_of (rev (price_rows (aidb_of c))) ?k = Some x"
    by (metis map_of_eq_None_iff image_eqI fst_conv not_None_eq)
  ultimately have "x = ?sheet" using price_key_unique [OF keys] by (metis map_of_SomeD set_rev)
  with x show ?thesis by (simp add: price_for_def load_snapshot_def price_rows_def)
qed

theorem model_has_its_own_price_witness:
  "price_for (load_snapshot 0 (aidb_of demo_catalog)) ''openai'' ''gpt'' =
    Some \<lparr>mp_provider = ''openai'', mp_model = ''gpt'', mp_input = 1, mp_output = 2\<rparr>"
  using model_has_its_own_price [OF demo_keys, of "new_model aid2 aid1 ''gpt'' ''chat'' None" "hd (cg_providers demo_catalog)" 0]
  by (simp add: demo_ai_def demo_catalog_def new_model_def template_provider_def)

subsection \<open>Bounds of the pricing form\<close>

definition pricing_range :: "pricing_config \<Rightarrow> bool" where
  "pricing_range r \<longleftrightarrow>
     0 \<le> usd_per_credit r \<and> usd_per_credit r \<le> 1000 \<and> 0 \<le> margin_percent r \<and> margin_percent r \<le> 1000 \<and>
     0 \<le> search_credits r \<and> search_credits r \<le> 1000 \<and> 0 \<le> local_input r \<and> local_input r \<le> 100000 \<and>
     0 \<le> local_output r \<and> local_output r \<le> 100000"

lemma pg_numeric_le: "0 \<le> x \<Longrightarrow> x \<le> of_nat n \<Longrightarrow> pg_numeric d x \<le> of_nat n"
proof -
  assume x: "0 \<le> x" "x \<le> of_nat n"
  then have "x * 10 ^ d \<le> of_nat n * 10 ^ d" by (simp add: mult_right_mono)
  moreover have "(of_int (int n * 10 ^ d) :: real) = of_nat n * 10 ^ d" by simp
  ultimately have "x * 10 ^ d + 1 / 2 < of_int (int n * 10 ^ d + 1)" by linarith
  then have "floor (x * 10 ^ d + 1 / 2) \<le> int n * 10 ^ d" by (simp only: floor_less_iff [symmetric] zless_add1_eq le_less)
  then have "(of_int (floor (x * 10 ^ d + 1 / 2)) :: real) \<le> of_int (int n * 10 ^ d)" by (simp only: of_int_le_iff)
  with x show ?thesis by (simp add: pg_numeric_def divide_le_eq)
qed

lemma pg_numeric_zero_iff: "0 \<le> x \<Longrightarrow> pg_numeric d x = 0 \<longleftrightarrow> x * 10 ^ d < 1 / 2"
proof -
  assume x: "0 \<le> x"
  then have "pg_numeric d x = 0 \<longleftrightarrow> floor (x * 10 ^ d + 1 / 2) = 0" by (simp add: pg_numeric_def)
  also have "\<dots> \<longleftrightarrow> x * 10 ^ d < 1 / 2" using x by (simp add: floor_eq_iff) (auto simp: zero_le_mult_iff intro: add_nonneg_nonneg)
  finally show ?thesis .
qed

lemma pricing_fields_keys: "pricing_fields bs payload = Some fs \<Longrightarrow> k \<notin> fst ` set bs \<Longrightarrow> map_of fs k = None"
proof (induction bs payload arbitrary: fs rule: pricing_fields.induct)
  case (2 k' lo hi bs payload)
  show ?case
  proof (cases "map_of payload k'")
    case (Some v)
    with 2 show ?thesis by (cases "py_float v") (auto split: if_splits)
  qed (use 2 in simp)
qed simp

lemma pricing_fields_bounds:
  "pricing_fields bs payload = Some fs \<Longrightarrow> distinct (map fst bs) \<Longrightarrow> (k, lo, hi) \<in> set bs \<Longrightarrow> map_of fs k = Some x \<Longrightarrow> lo \<le> x \<and> x \<le> hi"
proof (induction bs payload arbitrary: fs rule: pricing_fields.induct)
  case (2 k' lo' hi' bs payload)
  show ?case
  proof (cases "k = k'")
    case True
    with 2(4) have n: "k \<notin> fst ` set bs" by simp
    with 2(5) True have "lo = lo'" "hi = hi'" by (auto simp: image_iff)
    with 2(3,6) True show ?thesis using pricing_fields_keys [OF _ n]
      by (cases "map_of payload k'"; cases "py_float (the (map_of payload k'))") (auto split: if_splits)
  next
    case False
    then have m: "(k, lo, hi) \<in> set bs" "distinct (map fst bs)" using 2(4,5) by auto
    show ?thesis
    proof (cases "map_of payload k'")
      case None
      with 2 m show ?thesis by simp
    next
      case (Some v)
      with 2(2,3,6) m False show ?thesis by (cases "py_float v") (auto split: if_splits)
    qed
  qed
qed simp

lemma put_pricing_ok:
  assumes "put_pricing True PgUp payload w = (Ok r, w')"
  obtains fs where "pricing_fields pricing_bounds payload = Some fs" "fs \<noteq> []"
    "r = assign_pricing fs (cg_pricing (aw_cat w))" "cg_pricing (aw_cat w') = r" "aw_reg w' = None"
  using assms by (auto simp: put_pricing_def get_pricing_def parse_pricing_row_def split: option.splits if_splits)

lemma range_numeric:
  "pricing_fields pricing_bounds payload = Some fs \<Longrightarrow> (k, lo, of_nat n) \<in> set pricing_bounds \<Longrightarrow> 0 \<le> lo \<Longrightarrow>
   0 \<le> old \<Longrightarrow> old \<le> of_nat n \<Longrightarrow>
   0 \<le> the_or old (map_option (pg_numeric d) (map_of fs k)) \<and> the_or old (map_option (pg_numeric d) (map_of fs k)) \<le> of_nat n"
proof (cases "map_of fs k")
  case (Some x)
  assume fs: "pricing_fields pricing_bounds payload = Some fs" and k: "(k, lo, of_nat n) \<in> set pricing_bounds" and lo: "0 \<le> lo"
  have "distinct (map fst pricing_bounds)" by (simp add: pricing_bounds_def)
  from pricing_fields_bounds [OF fs this k Some] lo have "0 \<le> x" "x \<le> of_nat n" by auto
  with Some show ?thesis by (simp add: pg_numeric_nonneg pg_numeric_le)
qed simp

text \<open>The pricing form keeps every setting in its range, through the rounding of the columns too. The credit
  price is zero afterwards exactly when the form was sent a price below half of the column's last decimal,
  which the form's own lower bound of a billionth lets through.\<close>

theorem pricing_form_bounds:
  assumes "put_pricing True PgUp payload w = (Ok r, w')" and old: "pricing_range (cg_pricing (aw_cat w))"
    and pos: "0 < usd_per_credit (cg_pricing (aw_cat w))"
  shows "pricing_range r \<and> cg_pricing (aw_cat w') = r \<and>
    (usd_per_credit r = 0 \<longleftrightarrow> (case map_of payload ''usd_per_credit'' of None \<Rightarrow> False
       | Some v \<Rightarrow> (case py_float v of Inl _ \<Rightarrow> False | Inr x \<Rightarrow> x < 5 / 10 ^ 9)))"
proof -
  obtain fs where fs: "pricing_fields pricing_bounds payload = Some fs" and r: "r = assign_pricing fs (cg_pricing (aw_cat w))"
      and c: "cg_pricing (aw_cat w') = r"
    by (rule put_pricing_ok [OF assms(1)])
  note o = old [unfolded pricing_range_def]
  note rng = range_numeric [OF fs]
  have "pricing_range r"
    unfolding r pricing_range_def assign_pricing_def pricing_config.simps
    using rng [where k = "''usd_per_credit''" and lo = "1 / 10 ^ 9" and n = 1000] rng [where k = "''margin_percent''" and lo = 0 and n = 1000]
      rng [where k = "''search_credits''" and lo = 0 and n = 1000] rng [where k = "''local_input_usd_per_1m''" and lo = 0 and n = 100000]
      rng [where k = "''local_output_usd_per_1m''" and lo = 0 and n = 100000] o
    by (simp add: pricing_bounds_def)
  moreover have "usd_per_credit r = 0 \<longleftrightarrow> (case map_of payload ''usd_per_credit'' of None \<Rightarrow> False
       | Some v \<Rightarrow> (case py_float v of Inl _ \<Rightarrow> False | Inr x \<Rightarrow> x < 5 / 10 ^ 9))"
  proof -
    have n: "map_of gs ''usd_per_credit'' = None" if "pricing_fields (tl pricing_bounds) payload = Some gs" for gs
      by (rule pricing_fields_keys [OF that]) (simp add: pricing_bounds_def)
    have e: "pricing_bounds = (''usd_per_credit'', 1 / 10 ^ 9, 1000) # tl pricing_bounds" by (simp add: pricing_bounds_def)
    have z: "pg_numeric 8 x = 0 \<longleftrightarrow> x < 5 / 10 ^ 9" if "1 / 10 ^ 9 \<le> x" for x
      using that by (subst pg_numeric_zero_iff) auto
    show ?thesis
    proof (cases "map_of payload ''usd_per_credit''")
      case None
      then have "map_of fs ''usd_per_credit'' = None" using fs n by (subst (asm) e) simp
      with None pos show ?thesis by (simp add: r assign_pricing_def)
    next
      case (Some v)
      with fs obtain x where "py_float v = Inr x" "1 / 10 ^ 9 \<le> x" "map_of fs ''usd_per_credit'' = Some x"
        by (subst (asm) e) (auto split: sum.splits if_splits)
      with Some show ?thesis by (simp add: r assign_pricing_def z)
    qed
  qed
  ultimately show ?thesis using c by simp
qed

text \<open>With a credit price of zero every priced turn is given away, whatever it cost.\<close>

lemma zero_credit_price_is_free:
  assumes "usd_per_credit cfg = 0" "mp_input pr > 0 \<or> mp_output pr > 0"
  shows "charge_for_turn ''frontier'' cfg (Some pr) i j = (0, provider_cost_usd pr i j)"
  using assms by (auto simp: charge_for_turn_def credits_from_cost_def)

theorem pricing_form_bounds_witness:
  "\<exists>r w'. put_pricing True PgUp [(''usd_per_credit'', VNum (1 / 10 ^ 9))] demo_ai = (Ok r, w') \<and> usd_per_credit r = 0 \<and>
     charge_for_turn ''frontier'' r (Some \<lparr>mp_provider = [], mp_model = [], mp_input = 1, mp_output = 2\<rparr>) 1000000 0 = (0, 1)"
proof -
  let ?res = "put_pricing True PgUp [(''usd_per_credit'', VNum (1 / 10 ^ 9))] demo_ai"
  obtain r w' where e: "?res = (Ok r, w')"
    by (simp add: put_pricing_def get_pricing_def pricing_bounds_def)
  have "pricing_range (cg_pricing (aw_cat demo_ai))" "0 < usd_per_credit (cg_pricing (aw_cat demo_ai))"
    by (simp_all add: pricing_range_def demo_ai_def demo_catalog_def default_pricing_def)
  from pricing_form_bounds [OF e this] have z: "usd_per_credit r = 0" by simp
  then have "charge_for_turn ''frontier'' r (Some \<lparr>mp_provider = [], mp_model = [], mp_input = 1, mp_output = 2\<rparr>) 1000000 0 = (0, 1)"
    by (simp add: zero_credit_price_is_free provider_cost_usd_def)
  with e z show ?thesis by blast
qed

subsection \<open>Where the forms let something through\<close>

lemma found_by_id: "py_lower i = i \<Longrightarrow> model_by_id i c = found_model c i"
  by (simp add: model_by_id_def found_model_def)

text \<open>An edit can break a chain that was checked when it was stored: on a model that the embedding chain
  uses, the edit form accepts any other positive dimension, and the chain is then no longer one that could
  have been stored.\<close>

theorem model_edit_untypes_a_chain:
  assumes keys: "catalog_keys (aw_cat w)"
    and route: "rt \<in> set (cg_routes (aw_cat w))" "rt_task rt = ''embedding''" "rt_model rt = i"
    and i: "uuid_re i" "py_lower i = i" and d: "0 < d" "d < 2 ^ 31" "d \<noteq> dims" "to_int (VInt d) = Some d"
  shows "\<exists>m w'. update_model repr to_int True PgUp i [(''dims'', VInt d)] w = (Ok m, w') \<and> \<not> routes_typed dims (aw_cat w') \<and>
    \<not> chain_accepted dims ''embedding'' [i] (aw_cat w')"
proof -
  let ?vs = "[(''dims'', VInt d)]"
  have "i \<in> set (map md_id (cg_models (aw_cat w)))" using keys route by (auto simp: catalog_keys_def)
  then obtain m where m: "found_model (aw_cat w) i = Some m"
    by (cases "found_model (aw_cat w) i") (auto simp: found_model_def dest: find_NoneD)
  let ?c = "write_model i ?vs (aw_cat w)"
  have up: "update_model repr to_int True PgUp i ?vs w =
      (Ok (assign_model ?vs m), ai_commit ''ai.model_update'' [(''id'', VStr i), (''fields'', sorted_fields ?vs)] ?c w)"
    using i d m
    by (simp add: update_model_def model_columns_def int_field_def opt_int_def field_ok_def found_by_id model_row_refused_def
        int_or_def fits_int4_def Let_def)
  have f: "found_model ?c i = Some (assign_model ?vs m)"
    using m i by (simp add: found_model_def write_model_def find_update_where_same)
  have dm: "md_dims (assign_model ?vs m) = Some d" by (simp add: assign_model_def)
  then have na: "\<not> chain_accepted dims ''embedding'' [i] ?c" using d(3) by (simp add: chain_accepted_def f)
  have "\<not> route_conforms dims (cg_models ?c) rt"
  proof
    assume "route_conforms dims (cg_models ?c) rt"
    then obtain x where x: "x \<in> set (cg_models ?c)" "md_id x = i" "md_dims x = None \<or> md_dims x = Some dims"
      using route by (auto simp: route_conforms_def list_ex_iff)
    have "assign_model ?vs m \<in> set (cg_models ?c)" "md_id (assign_model ?vs m) = i"
      using f by (auto simp: found_model_def dest!: find_SomeD)
    moreover have "distinct (map md_id (cg_models ?c))"
      using keys by (simp add: catalog_keys_def write_model_def map_update_where)
    ultimately have "x = assign_model ?vs m" using x(1,2) by (metis distinct_key_inj)
    with dm x(3) d(3) show False by simp
  qed
  moreover have "rt \<in> set (cg_routes ?c)" using route(1) by (simp add: write_model_def)
  ultimately have "\<not> routes_typed dims ?c" by (auto simp: routes_typed_def list_all_iff)
  with up na show ?thesis by simp
qed

theorem model_edit_untypes_a_chain_witness:
  "\<exists>m w'. update_model (\<lambda>_. []) (\<lambda>v. Some 768) True PgUp aid3 [(''dims'', VInt 768)] demo_ai = (Ok m, w') \<and>
     \<not> routes_typed 1024 (aw_cat w') \<and> \<not> chain_accepted 1024 ''embedding'' [aid3] (aw_cat w')"
  by (rule model_edit_untypes_a_chain [OF demo_keys, where rt = "\<lparr>rt_task = ''embedding'', rt_position = 0, rt_model = aid3\<rparr>"])
    (simp_all add: demo_ai_def demo_catalog_def, code_simp)

text \<open>The chat client appends the version to the base URL, discovery does not: the URLs of the templates, with which
  discovery works, give a chat URL with the version twice (Google's apart, which has it in the wrong place).\<close>

lemma template_chat_urls:
  "list_all (\<lambda>t. str_in ''/v1/v1/chat/completions''
     (lc_base (new_llm_client (tp_base t) (tp_key t) (Some k) 30) @ ''/v1/chat/completions''))
     (filter (\<lambda>t. tp_key t \<noteq> ''google'') provider_templates)"
  by (simp add: provider_templates_def template_def new_llm_client_def rstrip_char_def)

text \<open>The routing page calls a local model without a key ineligible; the registry uses it.\<close>

lemma ineligible_but_used:
  assumes "found_model c i = Some m" "md_enabled m" "find (\<lambda>p. pv_id p = md_provider m) (cg_providers c) = Some p"
    "pv_enabled p" "pv_key p = []"
  shows "\<not> rw_eligible (route_view_of m p) \<and> live_endpoint c i \<noteq> None"
  using assms by (simp add: route_view_of_def model_eligibility_def live_endpoint_def)

text \<open>No vendor kind selects the note written for OpenAI: its template has the generic kind.\<close>

lemma openai_note_unreachable: "list_all (\<lambda>k. credit_note k \<noteq> credit_note ''openai'') discover_kinds"
  by (simp add: discover_kinds_def credit_note_def credit_notes_def)

subsection \<open>The profit view\<close>

text \<open>The days of the view add up to its totals.\<close>

lemma by_day_total:
  "sum_of (fst \<circ> snd) (by_day_rows us) = sum_of us_cost us"
  "sum_of (snd \<circ> snd) (by_day_rows us) = sum_of us_provider_cost us"
proof -
  have "sum_of f (map g (sort_key fst xs)) = sum_of (f \<circ> g) xs" for f :: "int \<times> real \<times> real \<Rightarrow> real" and g :: "int \<times> usage_at list \<Rightarrow> _" and xs
  proof -
    have "mset (map (f \<circ> g) (sort_key fst xs)) = mset (map (f \<circ> g) xs)" by (simp only: mset_map mset_sort)
    then show ?thesis unfolding sum_of_def map_map by (metis sum_mset_sum_list)
  qed
  then show "sum_of (fst \<circ> snd) (by_day_rows us) = sum_of us_cost us"
    "sum_of (snd \<circ> snd) (by_day_rows us) = sum_of us_provider_cost us"
    by (simp_all add: by_day_rows_def comp_def split_def sum_of_groups)
qed

lemma finance_days_add_up:
  assumes "fst (finance True PgUp now days us ivs w) = Ok r"
  shows "sum_of (fst \<circ> snd) (fr_by_day r) = fr_credits r" "sum_of (snd \<circ> snd) (fr_by_day r) = fr_cost_usd r"
  using assms by (auto simp: finance_def Let_def by_day_total)

end
