(* ===== verification/Governance.thy ===== *)
theory Governance
  imports Dashboard Ingest
begin

text \<open>
  Erasure, export and tracking of a tenant's data by operators (\<open>admin_governance.py\<close>) and erasure by the
  store's owner (\<open>self_erase\<close> in \<open>tenant_governance.py\<close>). Redis' SCAN and the delete-by-query of
  Elasticsearch extend the services of \<open>Redis\<close> and \<open>Ingest\<close>; a glob pattern is interpreted by Redis.
\<close>

subsection \<open>The services\<close>

record 'r redis_scan = "'r redis" +
  rd_scan :: "string \<Rightarrow> 'r \<Rightarrow> string list res"

record 's es_query = "'s es" +
  es_delete_by_query :: "string \<Rightarrow> py_dict \<Rightarrow> 's \<Rightarrow> unit res \<times> 's"

text \<open>The documented glob patterns, as far as they have no other special character than the star.\<close>

fun star_match :: "string \<Rightarrow> string \<Rightarrow> bool" where
  "star_match [] s = (s = [])"
| "star_match (c # p) s =
     (if c = CHR ''*'' then star_match p s \<or> (case s of [] \<Rightarrow> False | _ # s' \<Rightarrow> star_match (c # p) s')
      else (case s of [] \<Rightarrow> False | d # s' \<Rightarrow> c = d \<and> star_match p s'))"

definition no_class :: "string \<Rightarrow> bool" where
  "no_class p \<longleftrightarrow> set p \<inter> {CHR ''?'', CHR ''['', CHR 0x5C} = {}"

definition literal :: "string \<Rightarrow> bool" where
  "literal p \<longleftrightarrow> no_class p \<and> CHR ''*'' \<notin> set p"

text \<open>SCAN returns the keys that match, and every one that is there; DEL removes lists too.\<close>

definition redis_scans :: "('r, 'x) redis_scan_scheme \<Rightarrow> (string \<Rightarrow> 'r \<Rightarrow> pyv list) \<Rightarrow> bool" where
  "redis_scans R rd_list \<longleftrightarrow>
     (\<forall>p s ks k. rd_scan R p s = Inr ks \<longrightarrow> no_class p \<longrightarrow> k \<in> set ks \<longrightarrow> star_match p k) \<and>
     (\<forall>p s ks k. rd_scan R p s = Inr ks \<longrightarrow> no_class p \<longrightarrow> star_match p k \<longrightarrow>
        rd_get R k s \<noteq> Inr None \<or> rd_list k s \<noteq> [] \<longrightarrow> k \<in> set ks) \<and>
     (\<forall>k s. fst (rd_delete R k s) = Inr () \<longrightarrow> rd_list k (snd (rd_delete R k s)) = []) \<and>
     (\<forall>k s k'. k' \<noteq> k \<longrightarrow> rd_list k' (snd (rd_delete R k s)) = rd_list k' s)"

lemma redis_scans_laws:
  assumes "redis_scans R rd_list" "rd_scan R p s = Inr ks" "no_class p"
  shows "k \<in> set ks \<Longrightarrow> star_match p k" "star_match p k \<Longrightarrow> k \<notin> set ks \<Longrightarrow> rd_get R k s = Inr None"
    "star_match p k \<Longrightarrow> k \<notin> set ks \<Longrightarrow> rd_list k s = []"
  using assms unfolding redis_scans_def by blast+

definition redis_answers :: "('r, 'x) redis_scan_scheme \<Rightarrow> bool" where
  "redis_answers R \<longleftrightarrow> (\<forall>k s. fst (rd_delete R k s) = Inr ()) \<and> (\<forall>p s. \<exists>ks. rd_scan R p s = Inr ks)"

subsection \<open>Erasure\<close>

definition tenant_query :: "tenant \<Rightarrow> py_dict" where
  "tenant_query t = [(''query'', VDict [(''term'', VDict [(''tenant_id'', VStr t)])])]"

definition erased_indices :: "string \<Rightarrow> string \<Rightarrow> string list" where
  "erased_indices alias_name index_prefix = [alias_name, index_prefix @ ''-chatmem'', index_prefix @ ''-events'']"

fun erase_indices ::
  "('s, 'y) es_query_scheme \<Rightarrow> py_dict \<Rightarrow> string list \<Rightarrow> 's \<Rightarrow> py_dict \<times> 's" where
  "erase_indices ES query [] s = ([], s)"
| "erase_indices ES query (x # xs) s =
     (let (r, s1) = es_delete_by_query ES x query s; (out, s2) = erase_indices ES query xs s1
      in ((x, VStr (case r of Inr _ \<Rightarrow> ''ok'' | Inl _ \<Rightarrow> ''skipped'')) # out, s2))"

definition erased_patterns :: "tenant \<Rightarrow> string list" where
  "erased_patterns t = [''chatmem:'' @ t @ '':*'', ''l2:'' @ t, ''synonyms:'' @ t, ''data_version:'' @ t]"

text \<open>\<open>async for key in scan_iter(...): await delete(key)\<close>: the first exception ends the loop of a pattern.\<close>

fun delete_keys :: "('r, 'x) redis_scan_scheme \<Rightarrow> string list \<Rightarrow> 'r \<Rightarrow> 'r" where
  "delete_keys R [] w = w"
| "delete_keys R (k # ks) w =
     (case rd_delete R k w of (Inl _, w1) \<Rightarrow> w1 | (Inr _, w1) \<Rightarrow> delete_keys R ks w1)"

fun erase_patterns :: "('r, 'x) redis_scan_scheme \<Rightarrow> string list \<Rightarrow> 'r \<Rightarrow> 'r" where
  "erase_patterns R [] w = w"
| "erase_patterns R (p # ps) w =
     (case rd_scan R p w of Inl _ \<Rightarrow> erase_patterns R ps w | Inr ks \<Rightarrow> erase_patterns R ps (delete_keys R ks w))"

definition erase_redis :: "('r, 'x) redis_scan_scheme option \<Rightarrow> tenant \<Rightarrow> 'r \<Rightarrow> 'r" where
  "erase_redis redis t w = (case redis of None \<Rightarrow> w | Some R \<Rightarrow> erase_patterns R (erased_patterns t) w)"

definition erase_leads :: "tenant \<Rightarrow> store \<Rightarrow> store" where
  "erase_leads t st = st\<lparr>leads := filter (\<lambda>r. ld_tenant r \<noteq> t) (leads st)\<rparr>"

text \<open>A tenant id that is no UUID makes the statements on the database fail, which is passed over.\<close>

definition audit_tenant :: "pool \<Rightarrow> string \<Rightarrow> string \<Rightarrow> tenant \<Rightarrow> py_dict \<Rightarrow> db \<Rightarrow> db" where
  "audit_tenant p actor action t detail d = (if valid_uuid t then audit p actor action (Some t) detail d else d)"

definition erase_tenant_data ::
  "bool \<Rightarrow> pool \<Rightarrow> ('r, 'x) redis_scan_scheme option \<Rightarrow> ('s, 'y) es_query_scheme \<Rightarrow> string \<Rightarrow> string \<Rightarrow> tenant \<Rightarrow>
   'r \<times> 's \<times> plane \<Rightarrow> (tenant \<times> py_dict) reply \<times> 'r \<times> 's \<times> plane" where
  "erase_tenant_data ok p redis ES alias_name index_prefix t x =
     (let (w, s, a, d, st) = x in
      if \<not> ok then (Err 401 ''unauthorized'', x)
      else
        let (erased, s1) = erase_indices ES (tenant_query t) (erased_indices alias_name index_prefix) s;
            w1 = erase_redis redis t w;
            st1 = (if p = PgUp \<and> valid_uuid t then erase_leads t st else st)
        in (Ok (t, erased), w1, s1, a, audit_tenant p ''operator'' ''tenant.erase'' t erased d, st1))"

definition export_tenant_data :: "bool \<Rightarrow> pool \<Rightarrow> tenant \<Rightarrow> store \<Rightarrow> (tenant \<times> lead_row list) reply" where
  "export_tenant_data ok p t st =
     (if \<not> ok then Err 401 ''unauthorized''
      else Ok (t, if p = PgUp \<and> valid_uuid t then filter (\<lambda>r. ld_tenant r = t) (leads st) else []))"

definition admin_set_tracking :: "bool \<Rightarrow> pool \<Rightarrow> tenant \<Rightarrow> py_dict \<Rightarrow> plane \<Rightarrow> (tenant \<times> bool) reply \<times> plane" where
  "admin_set_tracking ok p t payload w =
     (let (a, d, st) = w; enabled = truthy (dict_get_or payload ''enabled'' (VBool True)) in
      if \<not> ok then (Err 401 ''unauthorized'', w)
      else
        let d1 = (if p = PgUp \<and> valid_uuid t then update_tenant t (\<lambda>r. r\<lparr>tn_tracking := enabled\<rparr>) d else d)
        in (Ok (t, enabled), a, audit_tenant p ''operator'' ''tenant.tracking'' t [(''enabled'', VBool enabled)] d1, st))"

text \<open>The owner confirms with the slug of the store. Here a failing database is a 500.\<close>

definition self_erase ::
  "env \<Rightarrow> pool \<Rightarrow> ('r, 'x) redis_scan_scheme option \<Rightarrow> ('s, 'y) es_query_scheme \<Rightarrow> string \<Rightarrow> string \<Rightarrow> principal option \<Rightarrow> py_dict \<Rightarrow>
   'r \<times> 's \<times> plane \<Rightarrow> py_dict reply \<times> 'r \<times> 's \<times> plane" where
  "self_erase E p redis ES alias_name index_prefix pr payload x =
     (let (w, s, a, d, st) = x in
      case require_tenant pr of
        None \<Rightarrow> (Err 401 ''unauthenticated'', x)
      | Some q \<Rightarrow>
          if pp_role q \<noteq> STORE_OWNER then (Err 403 ''forbidden'', x)
          else with_pg p x
            (if map_option tn_slug (tenant_row (tenant_of q) d) \<noteq> Some (pstr E payload ''confirm'')
             then (Err 422 ''confirmation_required'', x)
             else
               let (erased, s1) = erase_indices ES (tenant_query (tenant_of q)) (erased_indices alias_name index_prefix) s
               in (Ok erased, erase_redis redis (tenant_of q) w, s1, a,
                   audit PgUp (pp_email q) ''tenant.self_erase'' (Some (tenant_of q)) erased d, erase_leads (tenant_of q) st)))"

subsection \<open>What is erased\<close>

lemma star_match_literal: "literal p \<Longrightarrow> star_match p s \<longleftrightarrow> s = p"
proof (induction p arbitrary: s)
  case (Cons c p)
  then have "c \<noteq> CHR ''*''" "literal p" by (auto simp: literal_def no_class_def)
  with Cons.IH show ?case by (cases s) auto
qed simp

lemma star_match_all: "star_match ''*'' s"
  by (induction s) simp_all

lemma star_match_prefix: "literal p \<Longrightarrow> star_match (p @ ''*'') s \<longleftrightarrow> prefix p s"
proof (induction p arbitrary: s)
  case (Cons c p)
  then have "c \<noteq> CHR ''*''" "literal p" by (auto simp: literal_def no_class_def)
  with Cons.IH show ?case by (cases s) auto
next
  case Nil
  show ?case using star_match_all [of s] by simp
qed

definition erased_key :: "tenant \<Rightarrow> string \<Rightarrow> bool" where
  "erased_key t k \<longleftrightarrow> prefix (''chatmem:'' @ t @ '':'') k \<or> k \<in> {''l2:'' @ t, ''synonyms:'' @ t, ''data_version:'' @ t}"

lemma literal_parts: "literal t \<Longrightarrow> literal (''chatmem:'' @ t @ '':'')" "literal t \<Longrightarrow> literal (''l2:'' @ t)"
  "literal t \<Longrightarrow> literal (''synonyms:'' @ t)" "literal t \<Longrightarrow> literal (''data_version:'' @ t)"
  by (auto simp: literal_def no_class_def)

lemma erased_key_iff: "literal t \<Longrightarrow> erased_key t k \<longleftrightarrow> list_ex (\<lambda>p. star_match p k) (erased_patterns t)"
proof -
  assume t: "literal t"
  have "''chatmem:'' @ t @ '':*'' = (''chatmem:'' @ t @ '':'') @ ''*''" by simp
  then have "star_match (''chatmem:'' @ t @ '':*'') k \<longleftrightarrow> prefix (''chatmem:'' @ t @ '':'') k"
    by (simp only: star_match_prefix [OF literal_parts(1) [OF t]])
  then show ?thesis
    using star_match_literal [OF literal_parts(2) [OF t], of k] star_match_literal [OF literal_parts(3) [OF t], of k]
      star_match_literal [OF literal_parts(4) [OF t], of k]
    by (auto simp: erased_key_def erased_patterns_def simp del: star_match.simps)
qed

lemma delete_keys_spec:
  assumes "redis_kv R" "redis_scans R rd_list" "redis_answers R"
  shows "rd_get R k (delete_keys R ks w) = (if k \<in> set ks then Inr None else rd_get R k w)"
    and "rd_list k (delete_keys R ks w) = (if k \<in> set ks then [] else rd_list k w)"
proof -
  have step: "rd_delete R x w = (Inr (), snd (rd_delete R x w))" for x w
    using assms(3) by (metis redis_answers_def prod.collapse)
  have g: "rd_get R x (snd (rd_delete R x w)) = Inr None" "x' \<noteq> x \<Longrightarrow> rd_get R x' (snd (rd_delete R x w)) = rd_get R x' w"
      "rd_list x (snd (rd_delete R x w)) = []" "x' \<noteq> x \<Longrightarrow> rd_list x' (snd (rd_delete R x w)) = rd_list x' w" for x x' w
    using assms step [of x w] by (auto simp: redis_kv_laws redis_scans_def redis_answers_def)
  show "rd_get R k (delete_keys R ks w) = (if k \<in> set ks then Inr None else rd_get R k w)"
  proof (induction ks arbitrary: w)
    case (Cons x ks)
    have "delete_keys R (x # ks) w = delete_keys R ks (snd (rd_delete R x w))"
      by (subst delete_keys.simps, subst step) simp
    with Cons g show ?case by (cases "k = x") auto
  qed simp
  show "rd_list k (delete_keys R ks w) = (if k \<in> set ks then [] else rd_list k w)"
  proof (induction ks arbitrary: w)
    case (Cons x ks)
    have "delete_keys R (x # ks) w = delete_keys R ks (snd (rd_delete R x w))"
      by (subst delete_keys.simps, subst step) simp
    with Cons g show ?case by (cases "k = x") auto
  qed simp
qed

lemma erase_patterns_spec:
  assumes "redis_kv R" "redis_scans R rd_list" "redis_answers R" "list_all no_class ps"
  shows "rd_get R k (erase_patterns R ps w) = (if list_ex (\<lambda>p. star_match p k) ps then Inr None else rd_get R k w) \<and>
    rd_list k (erase_patterns R ps w) = (if list_ex (\<lambda>p. star_match p k) ps then [] else rd_list k w)"
  using assms(4)
proof (induction ps arbitrary: w)
  case (Cons p ps)
  obtain ks where ks: "rd_scan R p w = Inr ks" using assms(3) unfolding redis_answers_def by blast
  note d = delete_keys_spec [OF assms(1,2,3), of k ks w]
  have "no_class p" using Cons.prems by simp
  note m = redis_scans_laws [OF assms(2) ks this, of k]
  show ?case using Cons.IH [of "delete_keys R ks w"] Cons.prems ks d m by (auto split: if_splits)
qed simp

text \<open>The keys of a store: the memory of its sessions, its semantic cache, synonyms and version.\<close>

lemma erase_redis_spec:
  assumes "redis_kv R" "redis_scans R rd_list" "redis_answers R" "literal t"
  shows "rd_get R k (erase_redis (Some R) t w) = (if erased_key t k then Inr None else rd_get R k w)"
    and "rd_list k (erase_redis (Some R) t w) = (if erased_key t k then [] else rd_list k w)"
proof -
  have "list_all no_class (erased_patterns t)"
    using assms(4) by (auto simp: erased_patterns_def literal_def no_class_def)
  from erase_patterns_spec [OF assms(1-3) this, of k w]
  show "rd_get R k (erase_redis (Some R) t w) = (if erased_key t k then Inr None else rd_get R k w)"
    "rd_list k (erase_redis (Some R) t w) = (if erased_key t k then [] else rd_list k w)"
    by (simp_all add: erase_redis_def erased_key_iff [OF assms(4)])
qed

lemma erase_data_up:
  assumes "erase_tenant_data True PgUp (Some R) ES al pre t (w, s, a, d, st) = (r, w', s', a', d', st')" "valid_uuid t"
  shows "w' = erase_redis (Some R) t w" "st' = erase_leads t st" "a' = a"
  using assms by (auto simp: erase_tenant_data_def Let_def split_def)


lemma l1_key_kept: "\<not> erased_key t (cache_key sha t q v)"
  by (simp add: erased_key_def cache_key_def)

text \<open>Erased answers come back. The exact answer cache is not erased and the data version that makes its
  entries unreachable is: an answer that the store had cached before its first change of the catalogue,
  however often it was invalidated since, is the hit for its question again after the erasure.\<close>

theorem erased_answers_come_back:
  assumes "redis_kv R" and "redis_scans R rd_list" and "redis_answers R" and "literal t" and "valid_uuid t"
    and old: "rd_get R (cache_key sha t q 0) w = Inr (Some v)" "v \<noteq> VNone"
    and "erase_tenant_data True PgUp (Some R) ES al pre t (w, s, a, d, st) = (r, w', s', a', d', st')"
  shows "l1_get sha (Some R) t q (current_data_version (Some R) t w') w' = Some v"
proof -
  note e = erase_redis_spec [OF assms(1-4), where w = w]
  have w': "w' = erase_redis (Some R) t w" using assms(5,8) by (rule erase_data_up(1) [rotated])
  have "rd_get R (version_key t) w' = Inr None"
    by (simp add: w' e version_key_def erased_key_def)
  then have "current_data_version (Some R) t w' = 0" by (simp add: current_data_version_def)
  moreover have "rd_get R (cache_key sha t q 0) w' = Inr (Some v)" by (simp add: w' e l1_key_kept old)
  ultimately show ?thesis using old by (simp add: l1_get_def)
qed

text \<open>The operator's path parameter is not checked before it becomes a pattern: erasing the "tenant"
  \<open>*\<close> removes the session memory, the semantic cache, the synonyms and the data version of every tenant.\<close>

theorem wildcard_erases_every_tenant:
  assumes "redis_kv R" and "redis_scans R rd_list" and "redis_answers R" and "erased_key t k"
    and "erase_tenant_data True p (Some R) ES al pre ''*'' (w, s, pl) = (r, w', s', pl')"
  shows "rd_get R k w' = Inr None \<and> rd_list k w' = []"
proof -
  have n: "list_all no_class (erased_patterns ''*'')" by (simp add: erased_patterns_def no_class_def)
  have w': "w' = erase_patterns R (erased_patterns ''*'') w"
    using assms(5) by (auto simp: erase_tenant_data_def erase_redis_def Let_def split_def)
  have append: "star_match (''*'' @ p) (u @ x)" if "star_match p x" for p u x
    using that by (induction u) (cases x; simp)+
  have lit: "star_match (c @ p) (c @ x)" if "star_match p x" "CHR ''*'' \<notin> set c" for c p x
    using that by (induction c) auto
  have "list_ex (\<lambda>p. star_match p k) (erased_patterns ''*'')"
  proof -
    consider y where "k = ''chatmem:'' @ (t @ '':'' @ y)" | "k = ''l2:'' @ t" | "k = ''synonyms:'' @ t" | "k = ''data_version:'' @ t"
      using assms(4) by (auto simp: erased_key_def elim!: prefixE)
    then show ?thesis
    proof cases
      case (1 y)
      have "star_match (''chatmem:'' @ ''*'' @ '':'' @ ''*'') k"
        unfolding 1 by (intro lit append star_match_all) simp_all
      then show ?thesis by (simp add: erased_patterns_def del: star_match.simps)
    next
      case 2
      have "star_match (''l2:'' @ ''*'') k" unfolding 2 by (intro lit star_match_all) simp
      then show ?thesis by (simp add: erased_patterns_def del: star_match.simps)
    next
      case 3
      have "star_match (''synonyms:'' @ ''*'') k" unfolding 3 by (intro lit star_match_all) simp
      then show ?thesis by (simp add: erased_patterns_def del: star_match.simps)
    next
      case 4
      have "star_match (''data_version:'' @ ''*'') k" unfolding 4 by (intro lit star_match_all) simp
      then show ?thesis by (simp add: erased_patterns_def del: star_match.simps)
    qed
  qed
  with erase_patterns_spec [OF assms(1-3) n, of k w] show ?thesis by (simp add: w')
qed

subsection \<open>Demonstrations\<close>

definition mem_scan :: "mem redis_scan" where
  "mem_scan = redis.extend mem_redis
     (redis_scan.fields (\<lambda>p s. Inr (filter (star_match p) (map fst (mem_kv s) @ map fst (mem_lists s)))))"

definition mem_query :: "mem_es es_query" where
  "mem_query = es.extend mem_es (es_query.fields (\<lambda>x q s. (Inr (), s)))"

lemma mem_scan_ops:
  "rd_get mem_scan k s = Inr (map_of (mem_kv s) k)"
  "rd_delete mem_scan k s = (Inr (), s\<lparr>mem_kv := dict_del k (mem_kv s), mem_lists := dict_del k (mem_lists s)\<rparr>)"
  "rd_set mem_scan k v n s = (Inr (), s\<lparr>mem_kv := dict_set k v (mem_kv s)\<rparr>)"
  "rd_scan mem_scan p s = Inr (filter (star_match p) (map fst (mem_kv s) @ map fst (mem_lists s)))"
  by (simp_all add: mem_scan_def redis.extend_def redis_scan.fields_def mem_redis_def)

lemma mem_scan_laws: "redis_kv mem_scan" "redis_scans mem_scan mem_list" "redis_answers mem_scan"
proof -
  show "redis_kv mem_scan" "redis_answers mem_scan" by (auto simp: redis_kv_def redis_answers_def mem_scan_ops)
  have "k \<in> fst ` set (mem_kv s) \<union> fst ` set (mem_lists s)"
    if "map_of (mem_kv s) k \<noteq> None \<or> mem_list k s \<noteq> []" for k s
  proof (cases "map_of (mem_kv s) k")
    case None
    with that have "map_of (mem_lists s) k \<noteq> None" by (cases "map_of (mem_lists s) k") (simp_all add: mem_list_def)
    then show ?thesis by (simp add: map_of_eq_None_iff)
  next
    case (Some v)
    then have "map_of (mem_kv s) k \<noteq> None" by simp
    then show ?thesis by (simp add: map_of_eq_None_iff)
  qed
  then show "redis_scans mem_scan mem_list"
    unfolding redis_scans_def mem_scan_ops by (auto simp: mem_list_def)
qed

definition erase_demo :: mem where
  "erase_demo = \<lparr>mem_kv = [(''data_version:'' @ ''00000000000000000000000000000001'', VInt 7),
     (cache_key id ''00000000000000000000000000000001'' ''q'' 0, VStr ''old''), (''data_version:t2'', VInt 3)], mem_lists = []\<rparr>"

abbreviation demo_tenant :: tenant where "demo_tenant \<equiv> ''00000000000000000000000000000001''"

lemma demo_tenant_ok: "literal demo_tenant" "valid_uuid demo_tenant"
  by (simp add: literal_def no_class_def, code_simp)

abbreviation erase_call :: "mem \<Rightarrow> tenant \<Rightarrow> (tenant \<times> py_dict) reply \<times> mem \<times> mem_es \<times> plane" where
  "erase_call w t \<equiv> erase_tenant_data True PgUp (Some mem_scan) mem_query ''p'' ''acip'' t (w, [], empty_adb, empty_db, empty_store)"

lemma erase_call_split: "\<exists>r w' s' a' d' st'. erase_call w t = (r, w', s', a', d', st')"
  by (metis prod.exhaust)


theorem erased_answers_come_back_witness:
  "\<exists>r w' s' a' d' st'. erase_call erase_demo demo_tenant = (r, w', s', a', d', st') \<and>
     l1_get id (Some mem_scan) demo_tenant ''q'' (current_data_version (Some mem_scan) demo_tenant erase_demo) erase_demo = None \<and>
     l1_get id (Some mem_scan) demo_tenant ''q'' (current_data_version (Some mem_scan) demo_tenant w') w' = Some (VStr ''old'')"
proof -
  obtain r w' s' a' d' st' where e: "erase_call erase_demo demo_tenant = (r, w', s', a', d', st')"
    using erase_call_split by blast
  have "rd_get mem_scan (cache_key id demo_tenant ''q'' 0) erase_demo = Inr (Some (VStr ''old''))"
    by (simp add: mem_scan_ops erase_demo_def cache_key_def)
  from erased_answers_come_back [OF mem_scan_laws demo_tenant_ok this _ e]
  have "l1_get id (Some mem_scan) demo_tenant ''q'' (current_data_version (Some mem_scan) demo_tenant w') w' = Some (VStr ''old'')"
    by simp
  moreover have "l1_get id (Some mem_scan) demo_tenant ''q'' (current_data_version (Some mem_scan) demo_tenant erase_demo) erase_demo = None"
    by (simp add: l1_get_def current_data_version_def mem_scan_ops erase_demo_def version_key_def cache_key_def int_str_def nat_str.simps digit_char_def)
  ultimately show ?thesis using e by blast
qed

theorem wildcard_erases_every_tenant_witness:
  "\<exists>r w' s' pl'. erase_call erase_demo ''*'' = (r, w', s', pl') \<and> rd_get mem_scan ''data_version:t2'' w' = Inr None"
proof -
  obtain r w' s' a' d' st' where e: "erase_call erase_demo ''*'' = (r, w', s', a', d', st')"
    using erase_call_split by blast
  have "erased_key ''t2'' ''data_version:t2''" by (simp add: erased_key_def)
  from wildcard_erases_every_tenant [OF mem_scan_laws this e] e show ?thesis by blast
qed

end
