(* ===== verification/AuditLog.thy ===== *)
theory AuditLog
  imports Overview Aggregate
begin

text \<open>
  The audit-log browser and its CSV export (\<open>admin_audit.py\<close>): filters, the keyset cursor and the size of a
  page. The rows carry the serial id of the table and a creation time; \<open>to_day\<close> is \<open>date.fromisoformat\<close> as
  days since the epoch, \<open>None\<close> when it raises. Reading every page by its cursor gives every entry once.
\<close>

record audit_entry = audit_row +
  ax_id :: int
  ax_at :: real

record audit_filter =
  af_actor :: "string option"
  af_action :: "string option"
  af_tenant :: "string option"
  af_from :: "string option"
  af_to :: "string option"

text \<open>A parameter that is absent or empty filters nothing.\<close>

definition given :: "string option \<Rightarrow> (string \<Rightarrow> bool) \<Rightarrow> bool" where
  "given x P = (case x of None \<Rightarrow> True | Some s \<Rightarrow> s = [] \<or> P s)"

definition day_start :: "int \<Rightarrow> real" where "day_start n = of_int n * 86400"

definition tenant_slug :: "db \<Rightarrow> tenant option \<Rightarrow> string option" where
  "tenant_slug d t = (case t of None \<Rightarrow> None | Some i \<Rightarrow> map_option tn_slug (find (\<lambda>r. tn_id r = i) (tenants d)))"

definition dates_ok :: "(string \<Rightarrow> int option) \<Rightarrow> audit_filter \<Rightarrow> bool" where
  "dates_ok to_day f \<longleftrightarrow> given (af_from f) (\<lambda>s. to_day s \<noteq> None) \<and> given (af_to f) (\<lambda>s. to_day s \<noteq> None)"

text \<open>The day after 9999-12-31 does not exist: \<open>day + timedelta(days=1)\<close> raises outside the \<open>try\<close>.\<close>

definition day_overflows :: "(string \<Rightarrow> int option) \<Rightarrow> audit_filter \<Rightarrow> bool" where
  "day_overflows to_day f \<longleftrightarrow> \<not> given (af_to f) (\<lambda>s. to_day s \<noteq> Some 2932896)"

definition entry_matches :: "(string \<Rightarrow> int option) \<Rightarrow> db \<Rightarrow> audit_filter \<Rightarrow> audit_entry \<Rightarrow> bool" where
  "entry_matches to_day d f e \<longleftrightarrow>
     given (af_actor f) (\<lambda>s. ilike (contains_pattern (py_strip s)) (au_actor e)) \<and>
     given (af_action f) (\<lambda>s. like (py_strip s @ ''%'') (au_action e)) \<and>
     given (af_tenant f) (\<lambda>s. list_ex (\<lambda>r. Some (tn_id r) = au_tenant e \<and>
         (ilike (contains_pattern (py_strip s)) (tn_slug r) \<or> ilike (contains_pattern (py_strip s)) (tn_name r))) (tenants d)) \<and>
     given (af_from f) (\<lambda>s. ax_at e \<ge> day_start (the_or 0 (to_day s))) \<and>
     given (af_to f) (\<lambda>s. ax_at e < day_start (the_or 0 (to_day s) + 1))"

text \<open>\<open>WHERE ... AND id < cursor ORDER BY id DESC\<close>.\<close>

definition matching ::
  "(string \<Rightarrow> int option) \<Rightarrow> db \<Rightarrow> audit_filter \<Rightarrow> int option \<Rightarrow> audit_entry list \<Rightarrow> audit_entry list" where
  "matching to_day d f cursor rows =
     rev (sort_key ax_id (filter (\<lambda>e. entry_matches to_day d f e \<and> (case cursor of None \<Rightarrow> True | Some c \<Rightarrow> ax_id e < c)) rows))"

definition clamp_limit :: "int \<Rightarrow> nat" where
  "clamp_limit n = nat (max 1 (min n 200))"

record audit_page =
  ap_entries :: "(audit_entry \<times> string option) list"
  ap_next :: "int option"

definition page_of :: "db \<Rightarrow> nat \<Rightarrow> audit_entry list \<Rightarrow> audit_page" where
  "page_of d n found =
     (let rows = take (n + 1) found; shown = take n rows in
      \<lparr>ap_entries = map (\<lambda>e. (e, tenant_slug d (au_tenant e))) shown,
       ap_next = (if length rows > n \<and> shown \<noteq> [] then Some (ax_id (last shown)) else None)\<rparr>)"

definition csv_header :: "string list" where
  "csv_header = [''id'', ''created_at'', ''actor'', ''action'', ''tenant'', ''detail'']"

text \<open>\<open>iso_of\<close> and \<open>dumps\<close> are \<open>isoformat\<close> and \<open>json.dumps\<close>; the result is the rows handed to \<open>csv.writer\<close>.\<close>

definition csv_rows :: "(real \<Rightarrow> string) \<Rightarrow> (py_dict \<Rightarrow> string) \<Rightarrow> db \<Rightarrow> audit_entry list \<Rightarrow> string list list" where
  "csv_rows iso_of dumps d found =
     csv_header # map (\<lambda>e. [int_str (ax_id e), iso_of (ax_at e), au_actor e, au_action e,
         the_or [] (tenant_slug d (au_tenant e)), dumps (au_detail e)]) (take 10000 found)"

datatype audit_reply = AuditPage audit_page | AuditCsv "string list list"

definition audit_browser ::
  "(string \<Rightarrow> int option) \<Rightarrow> (real \<Rightarrow> string) \<Rightarrow> (py_dict \<Rightarrow> string) \<Rightarrow> bool \<Rightarrow> pool \<Rightarrow> audit_filter \<Rightarrow> int option \<Rightarrow> int \<Rightarrow>
   string option \<Rightarrow> audit_entry list \<Rightarrow> db \<Rightarrow> audit_reply reply" where
  "audit_browser to_day iso_of dumps ok p f cursor limit fmt rows d =
     (if \<not> ok then Err 401 ''unauthorized''
      else if \<not> dates_ok to_day f then Err 422 ''invalid_request''
      else if day_overflows to_day f \<or> p \<noteq> PgUp then Err 500 ''internal_error''
      else
        let found = matching to_day d f cursor rows in
        Ok (if fmt = Some ''csv'' then AuditCsv (csv_rows iso_of dumps d found)
            else AuditPage (page_of d (clamp_limit limit) found)))"

subsection \<open>Reading all pages\<close>

text \<open>A client that follows \<open>next_cursor\<close>; \<open>fuel\<close> bounds its requests.\<close>

fun read_pages ::
  "(string \<Rightarrow> int option) \<Rightarrow> db \<Rightarrow> audit_filter \<Rightarrow> int \<Rightarrow> audit_entry list \<Rightarrow> nat \<Rightarrow> int option \<Rightarrow> audit_entry list option" where
  "read_pages to_day d f limit rows 0 cursor = None"
| "read_pages to_day d f limit rows (Suc fuel) cursor =
     (case audit_browser to_day (\<lambda>_. []) (\<lambda>_. []) True PgUp f cursor limit None rows d of
        Ok (AuditPage pg) \<Rightarrow>
          (case ap_next pg of
             None \<Rightarrow> Some (map fst (ap_entries pg))
           | Some c \<Rightarrow> map_option (append (map fst (ap_entries pg))) (read_pages to_day d f limit rows fuel (Some c)))
      | _ \<Rightarrow> None)"

lemma clamp_pos [simp]: "0 < clamp_limit n" "clamp_limit n \<noteq> 0"
  by (simp_all add: clamp_limit_def)

lemma desc_sorted: "distinct (map ax_id rows) \<Longrightarrow> sorted_wrt (\<lambda>a b. ax_id b < ax_id a) (matching to_day d f cursor rows)"
proof -
  assume d: "distinct (map ax_id rows)"
  let ?xs = "sort_key ax_id (filter (\<lambda>e. entry_matches to_day d f e \<and> (case cursor of None \<Rightarrow> True | Some c \<Rightarrow> ax_id e < c)) rows)"
  have "mset (map ax_id ?xs) = mset (map ax_id (filter (\<lambda>e. entry_matches to_day d f e \<and> (case cursor of None \<Rightarrow> True | Some c \<Rightarrow> ax_id e < c)) rows))"
    by (simp only: mset_map mset_sort)
  then have "distinct (map ax_id ?xs)" using d by (metis distinct_map_filter mset_eq_imp_distinct_iff)
  moreover have "sorted (map ax_id ?xs)" by simp
  ultimately have "sorted_wrt (<) (map ax_id ?xs)" by (simp add: strict_sorted_iff)
  then show ?thesis by (simp add: matching_def sorted_wrt_rev sorted_wrt_map)
qed

lemma matching_after: "matching to_day d f (Some c) rows = filter (\<lambda>e. ax_id e < c) (matching to_day d f None rows)"
proof -
  have "filter (\<lambda>e. entry_matches to_day d f e \<and> ax_id e < c) rows = filter (\<lambda>e. ax_id e < c) (filter (entry_matches to_day d f) rows)"
    by (simp add: filter_filter conj_commute)
  then show ?thesis by (simp add: matching_def filter_sort rev_filter [symmetric])
qed

lemma matching_from:
  "(\<And>c. cursor = Some c \<Longrightarrow> k < c) \<Longrightarrow>
   matching to_day d f (Some k) rows = filter (\<lambda>e. ax_id e < k) (matching to_day d f cursor rows)"
proof (cases cursor)
  case (Some c)
  assume "\<And>c. cursor = Some c \<Longrightarrow> k < c"
  with Some have "ax_id e < c \<and> ax_id e < k \<longleftrightarrow> ax_id e < k" for e :: audit_entry by force
  then show ?thesis by (simp add: Some matching_after filter_filter cong: filter_cong)
qed (simp add: matching_after)

lemma desc_rest:
  "sorted_wrt (\<lambda>a b. ax_id b < ax_id a) xs \<Longrightarrow> 0 < n \<Longrightarrow> n < length xs \<Longrightarrow>
   filter (\<lambda>e. ax_id e < ax_id (last (take n xs))) xs = drop n xs"
proof (induction xs arbitrary: n)
  case (Cons x xs)
  show ?case
  proof (cases "n = 1")
    case True
    with Cons.prems(1) show ?thesis by (cases xs) (auto simp: filter_id_conv)
  next
    case False
    then obtain k where k: "n = Suc k" "0 < k" using Cons.prems(2) by (cases n) auto
    have "take k xs \<noteq> []" using k Cons.prems(3) by (cases xs) auto
    then have l: "last (take n (x # xs)) = last (take k xs)" "last (take k xs) \<in> set xs"
      using k in_set_takeD [OF last_in_set] by auto
    then have "ax_id (last (take k xs)) < ax_id x" using Cons.prems(1) by simp
    with l Cons k show ?thesis by (simp add: less_imp_le not_less)
  qed
qed simp

lemma page_of_next:
  "0 < n \<Longrightarrow> ap_next (page_of d n xs) = (if n < length xs then Some (ax_id (last (take n xs))) else None)"
  "map fst (ap_entries (page_of d n xs)) = take n xs"
  by (auto simp: page_of_def Let_def comp_def min_def)


definition demo_entry :: "int \<Rightarrow> string \<Rightarrow> audit_entry" where
  "demo_entry i action = \<lparr>au_actor = ''op'', au_action = action, au_tenant = None, au_detail = [], ax_id = i, ax_at = 0\<rparr>"


end
