(* ===== verification/IndexMapping.thy ===== *)
theory IndexMapping
  imports Ingest
begin

text \<open>
  The schema of the two indices: \<open>analyzer.py\<close>, \<open>mapping.py\<close>, \<open>order_mapping.py\<close> and the bodies of
  \<open>index_admin.py\<close> and \<open>orders_index.py\<close>, as the dictionaries sent to Elasticsearch. \<open>accepts\<close> is the
  documented meaning of a strict mapping for the field types that the schema uses; the property states
  that the documents written by \<open>Ingest\<close> satisfy it.
\<close>

subsection \<open>Analysis\<close>

text \<open>The zero-width non-joiner is the bytes E2 80 8C.\<close>

definition zwnj :: string where "zwnj = [CHR 0xE2, CHR 0x80, CHR 0x8C]"

definition token_filters :: "pyv list" where
  "token_filters = map VStr [''lowercase'', ''decimal_digit'', ''arabic_normalization'', ''persian_normalization'', ''persian_stop'']"

definition fa_analyzer :: "pyv list \<Rightarrow> pyv" where
  "fa_analyzer filters = VDict [(''type'', VStr ''custom''), (''char_filter'', VList [VStr ''zwnj_normalizer'']),
     (''tokenizer'', VStr ''standard''), (''filter'', VList filters)]"

definition analysis_settings :: py_dict where
  "analysis_settings = [(''analysis'', VDict
     [(''char_filter'', VDict [(''zwnj_normalizer'', VDict [(''type'', VStr ''mapping''), (''mappings'', VList [VStr (zwnj @ ''=> '')])])]),
      (''filter'', VDict
        [(''persian_stop'', VDict [(''type'', VStr ''stop''), (''stopwords'', VStr ''_persian_'')]),
         (''store_synonyms'', VDict [(''type'', VStr ''synonym_graph''), (''synonyms_path'', VStr ''analysis/synonyms_fa.txt''),
            (''updateable'', VBool True)])]),
      (''analyzer'', VDict
        [(''fa_text'', fa_analyzer token_filters), (''fa_search'', fa_analyzer (token_filters @ [VStr ''store_synonyms'']))])])]"

subsection \<open>Mappings\<close>

definition keyword :: pyv where "keyword = VDict [(''type'', VStr ''keyword'')]"
definition money :: pyv where "money = VDict [(''type'', VStr ''scaled_float''), (''scaling_factor'', VInt 100)]"

definition catalogue_mapping :: "int \<Rightarrow> py_dict" where
  "catalogue_mapping dims = [(''dynamic'', VStr ''strict''), (''properties'', VDict
     [(''tenant_id'', keyword), (''product_id'', keyword),
      (''title'', VDict [(''type'', VStr ''text''), (''analyzer'', VStr ''fa_text''), (''search_analyzer'', VStr ''fa_search''),
         (''fields'', VDict [(''kw'', keyword),
            (''suggest'', VDict [(''type'', VStr ''search_as_you_type''), (''analyzer'', VStr ''fa_text'')])])]),
      (''description'', VDict [(''type'', VStr ''text''), (''analyzer'', VStr ''fa_text''), (''search_analyzer'', VStr ''fa_search'')]),
      (''brand'', keyword), (''categories'', keyword),
      (''attributes'', VDict [(''type'', VStr ''flattened'')]),
      (''price'', money),
      (''in_stock'', VDict [(''type'', VStr ''boolean'')]),
      (''popularity'', VDict [(''type'', VStr ''rank_feature'')]),
      (''updated_at'', VDict [(''type'', VStr ''date'')]),
      (''embedding'', VDict [(''type'', VStr ''dense_vector''), (''dims'', VInt dims), (''index'', VBool True),
         (''similarity'', VStr ''cosine''), (''index_options'', VDict [(''type'', VStr ''bbq_disk'')])])])]"

definition order_mapping :: py_dict where
  "order_mapping = [(''dynamic'', VStr ''strict''), (''properties'', VDict
     [(''tenant_id'', keyword), (''order_id'', keyword), (''status'', keyword), (''customer_email'', keyword),
      (''customer_name'', VDict [(''type'', VStr ''text''), (''analyzer'', VStr ''fa_text''), (''search_analyzer'', VStr ''fa_search''),
         (''fields'', VDict [(''kw'', keyword)])]),
      (''items'', VDict [(''type'', VStr ''nested''), (''properties'', VDict
         [(''product_id'', keyword), (''title'', VDict [(''type'', VStr ''text''), (''analyzer'', VStr ''fa_text'')]),
          (''quantity'', VDict [(''type'', VStr ''integer'')]), (''price'', money)])]),
      (''total'', money), (''currency'', keyword),
      (''created_at'', VDict [(''type'', VStr ''date'')]), (''updated_at'', VDict [(''type'', VStr ''date'')])])]"

subsection \<open>Index bodies\<close>

record index_cfg =
  ic_shards :: int
  ic_replicas :: int
  ic_dims :: int
  ic_prefix :: string
  ic_alias :: string
  ic_orders_alias :: string

definition index_settings :: "index_cfg \<Rightarrow> int option \<Rightarrow> int option \<Rightarrow> pyv" where
  "index_settings cfg shards replicas = VDict
     ([(''number_of_shards'', VInt (the_or (ic_shards cfg) shards)), (''number_of_replicas'', VInt (the_or (ic_replicas cfg) replicas))] @
      analysis_settings)"

definition index_body :: "index_cfg \<Rightarrow> int option \<Rightarrow> int option \<Rightarrow> int option \<Rightarrow> py_dict" where
  "index_body cfg dims shards replicas =
     [(''settings'', index_settings cfg shards replicas), (''mappings'', VDict (catalogue_mapping (the_or (ic_dims cfg) dims)))]"

definition order_index_body :: "index_cfg \<Rightarrow> int option \<Rightarrow> int option \<Rightarrow> py_dict" where
  "order_index_body cfg shards replicas =
     [(''settings'', index_settings cfg shards replicas), (''mappings'', VDict order_mapping)]"

subsection \<open>What a strict mapping accepts\<close>

text \<open>
  A field that the mapping does not declare is refused; a null is an absent field; a list is a field with
  several values, but for vectors and nested objects. \<open>dates\<close> are the texts that the default date format
  parses, \<open>strict_dates\<close> what is used of it: the day and the time are separated by a T, never by a space.
\<close>

definition strict_dates :: "(string \<Rightarrow> bool) \<Rightarrow> bool" where
  "strict_dates dates \<longleftrightarrow> (\<forall>s. dates s \<longrightarrow> CHR '' '' \<notin> set s)"

definition is_number :: "pyv \<Rightarrow> bool" where
  "is_number v = (case v of VNum _ \<Rightarrow> True | VInt _ \<Rightarrow> True | _ \<Rightarrow> False)"

definition scalar_ok :: "(string \<Rightarrow> bool) \<Rightarrow> string \<Rightarrow> pyv \<Rightarrow> bool" where
  "scalar_ok dates ty v =
     (v = VNone \<or>
      (if ty = ''keyword'' \<or> ty = ''text'' then (case v of VStr _ \<Rightarrow> True | VBool _ \<Rightarrow> True | _ \<Rightarrow> is_number v)
       else if ty = ''flattened'' then (case v of VDict _ \<Rightarrow> True | _ \<Rightarrow> False)
       else if ty = ''scaled_float'' then is_number v
       else if ty = ''integer'' then (case v of VInt i \<Rightarrow> - 2147483648 \<le> i \<and> i \<le> 2147483647 | _ \<Rightarrow> False)
       else if ty = ''boolean'' then (case v of VBool _ \<Rightarrow> True | _ \<Rightarrow> False)
       else if ty = ''rank_feature'' then (case v of VNum x \<Rightarrow> 0 < x | VInt i \<Rightarrow> 0 < i | _ \<Rightarrow> False)
       else if ty = ''date'' then (case v of VStr s \<Rightarrow> dates s | VInt _ \<Rightarrow> True | _ \<Rightarrow> False)
       else False))"

definition leaf_ok :: "(string \<Rightarrow> bool) \<Rightarrow> py_dict \<Rightarrow> pyv \<Rightarrow> bool" where
  "leaf_ok dates spec v =
     (case dict_get spec ''type'' of
        VStr ty \<Rightarrow>
          if ty = ''dense_vector'' then
            (case v of VList xs \<Rightarrow> dict_get spec ''dims'' = VInt (int (length xs)) \<and> list_all is_number xs | _ \<Rightarrow> False)
          else (case v of VList xs \<Rightarrow> list_all (scalar_ok dates ty) xs | _ \<Rightarrow> scalar_ok dates ty v)
      | _ \<Rightarrow> False)"

definition properties_of :: "py_dict \<Rightarrow> py_dict" where
  "properties_of spec = (case dict_get spec ''properties'' of VDict ps \<Rightarrow> ps | _ \<Rightarrow> [])"

definition flat_ok :: "(string \<Rightarrow> bool) \<Rightarrow> py_dict \<Rightarrow> py_dict \<Rightarrow> bool" where
  "flat_ok dates props doc =
     list_all (\<lambda>(k, v). case dict_get props k of VDict spec \<Rightarrow> leaf_ok dates spec v | _ \<Rightarrow> False) doc"

definition field_accepted :: "(string \<Rightarrow> bool) \<Rightarrow> py_dict \<Rightarrow> string \<Rightarrow> pyv \<Rightarrow> bool" where
  "field_accepted dates mapping k v =
     (case dict_get (properties_of mapping) k of
         VDict spec \<Rightarrow>
           if dict_get spec ''type'' = VStr ''nested'' then
             (case v of VList xs \<Rightarrow> list_all (\<lambda>x. case x of VDict d \<Rightarrow> flat_ok dates (properties_of spec) d | _ \<Rightarrow> False) xs
              | _ \<Rightarrow> False)
           else leaf_ok dates spec v
       | _ \<Rightarrow> False)"

definition accepts :: "(string \<Rightarrow> bool) \<Rightarrow> py_dict \<Rightarrow> py_dict \<Rightarrow> bool" where
  "accepts dates mapping doc = list_all (\<lambda>(k, v). field_accepted dates mapping k v) doc"

subsection \<open>Documents fit\<close>

text \<open>A payload is typed when its texts, dates and objects are what the store's API documents.\<close>

definition opt_text :: "pyv \<Rightarrow> bool" where
  "opt_text v = (case v of VNone \<Rightarrow> True | VStr _ \<Rightarrow> True | _ \<Rightarrow> False)"

definition opt_date :: "(string \<Rightarrow> bool) \<Rightarrow> pyv \<Rightarrow> bool" where
  "opt_date dates v = (case v of VNone \<Rightarrow> True | VStr s \<Rightarrow> dates s | _ \<Rightarrow> False)"

definition product_typed :: "(string \<Rightarrow> bool) \<Rightarrow> product \<Rightarrow> bool" where
  "product_typed dates p \<longleftrightarrow> opt_text (cp_brand p) \<and> list_all opt_text (cp_categories p) \<and>
     (case cp_attributes p of VDict _ \<Rightarrow> True | _ \<Rightarrow> False) \<and> opt_date dates (cp_updated p)"

definition opt_object :: "pyv \<Rightarrow> bool" where
  "opt_object v = (\<not> truthy v \<or> (case v of VDict _ \<Rightarrow> True | _ \<Rightarrow> False))"

definition payload_typed :: "(string \<Rightarrow> bool) \<Rightarrow> py_dict \<Rightarrow> bool" where
  "payload_typed dates raw \<longleftrightarrow>
     list_all (\<lambda>k. opt_text (dict_get raw k)) [''manufacturer'', ''brand''] \<and> opt_text (woo_brand raw) \<and>
     list_all (\<lambda>k. opt_date dates (dict_get raw k)) [''date_modified'', ''date_modified_gmt'', ''updated_at''] \<and>
     opt_object (dict_get raw ''attributes'') \<and>
     (\<forall>cs. py_iter (dict_get_or raw ''categories'' (VList [])) = Inr cs \<longrightarrow>
        list_all (\<lambda>c. opt_text (dict_get_or c ''name'' (VStr []))) (dict_items cs))"

lemmas schema_defs = field_accepted_def properties_of_def catalogue_mapping_def order_mapping_def keyword_def money_def dict_get_def

lemma scalar_text [simp]: "opt_text v \<Longrightarrow> scalar_ok dates ''keyword'' v" "scalar_ok dates ''keyword'' (VStr s)" "scalar_ok dates ''text'' (VStr s)"
  by (auto simp: opt_text_def scalar_ok_def split: pyv.splits)

lemma leaf_text [simp]: "opt_text v \<Longrightarrow> leaf_ok dates [(''type'', VStr ''keyword'')] v"
  "list_all opt_text vs \<Longrightarrow> leaf_ok dates [(''type'', VStr ''keyword'')] (VList vs)"
  by (auto simp: opt_text_def leaf_ok_def dict_get_def list.pred_set split: pyv.splits)

lemma leaf_date [simp]: "opt_date dates v \<Longrightarrow> leaf_ok dates [(''type'', VStr ''date'')] v"
  by (auto simp: opt_date_def leaf_ok_def dict_get_def scalar_ok_def split: pyv.splits)

lemma leaf_price [simp]: "leaf_ok dates [(''type'', VStr ''scaled_float''), (''scaling_factor'', VInt 100)] (opt_num x)"
  by (simp add: leaf_ok_def dict_get_def scalar_ok_def opt_num_def is_number_def split: option.splits)

lemma accepts_filter: "accepts dates m d \<Longrightarrow> accepts dates m (filter P d)"
  by (auto simp: accepts_def list.pred_set)

lemma accepts_set:
  "accepts dates m (dict_set k v d)" if "accepts dates m d" "accepts dates m [(k, v)]"
  using that by (induction d) (auto simp: accepts_def)

lemma leaf_others [simp]: "leaf_ok dates [(''type'', VStr ''rank_feature'')] (VNum (max x (1 / 1000000)))"
  "leaf_ok dates [(''type'', VStr ''boolean'')] (VBool b)" "leaf_ok dates ((''type'', VStr ''text'') # spec) (VStr t)"
  by (simp_all add: leaf_ok_def dict_get_def scalar_ok_def)

lemma typed_product_fits:
  assumes "product_typed dates p"
  shows "accepts dates (catalogue_mapping dims) (product_doc p)"
proof -
  have a: "leaf_ok dates [(''type'', VStr ''flattened'')] (cp_attributes p)"
    using assms by (auto simp: product_typed_def leaf_ok_def dict_get_def scalar_ok_def split: pyv.splits)
  have "opt_text (VStr x)" for x by (simp add: opt_text_def)
  then show ?thesis
    unfolding product_doc_def drop_none_def using assms a
    by (intro accepts_filter) (simp add: accepts_def schema_defs product_typed_def split: option.splits)
qed

lemma typed_body_fits:
  assumes "product_typed dates p" "\<And>v. emb = Some v \<Longrightarrow> int (length v) = dims"
  shows "accepts dates (catalogue_mapping dims) (product_body p emb)"
proof (cases emb)
  case None
  then show ?thesis using typed_product_fits [OF assms(1)] by (simp add: product_body_def)
next
  case (Some v)
  have "accepts dates (catalogue_mapping dims) [(''embedding'', VList (map VNum v))]"
    using assms(2) [OF Some] by (simp add: accepts_def schema_defs leaf_ok_def list.pred_set is_number_def)
  with typed_product_fits [OF assms(1)] Some show ?thesis by (simp add: product_body_def accepts_set)
qed

subsection \<open>The connectors deliver typed products\<close>

lemma opt_text_or: "opt_text (dict_get raw k) \<Longrightarrow> opt_text (dict_get raw k') \<Longrightarrow> opt_text (last_get raw k k')"
  by (simp add: last_get_def py_or_def)

lemma opt_date_or: "opt_date dates (dict_get raw k) \<Longrightarrow> opt_date dates (dict_get raw k') \<Longrightarrow> opt_date dates (last_get raw k k')"
  by (simp add: last_get_def py_or_def)

lemma categories_text: "list_all opt_text (coerce_categories repr v)"
  by (auto simp: coerce_categories_def list.pred_set opt_text_def split: pyv.splits)

lemma attributes_object:
  "opt_object (dict_get raw ''attributes'') \<Longrightarrow> case first_of raw [''attributes''] (VDict []) of VDict _ \<Rightarrow> True | _ \<Rightarrow> False"
  by (auto simp: first_of_def py_or_def opt_object_def)

lemma connector_typed:
  assumes "payload_typed dates raw" "normalize_product repr t source raw = Inr p"
  shows "product_typed dates p"
proof -
  note t = assms(1) [unfolded payload_typed_def, simplified]
  have woo: "product_typed dates p" if n: "normalize_woo repr t raw = Inr p"
  proof -
    from n obtain cs as where c: "py_iter (dict_get_or raw ''categories'' (VList [])) = Inr cs"
      "cp_categories p = map (\<lambda>c. dict_get_or c ''name'' (VStr [])) (dict_items cs)" "cp_brand p = woo_brand raw"
      "cp_attributes p = VDict (woo_attributes repr as)" "cp_updated p = last_get raw ''date_modified_gmt'' ''date_modified''"
      by (auto simp: normalize_woo_def split: sum.splits)
    with t show ?thesis by (simp add: product_typed_def opt_date_or list.pred_map comp_def)
  qed
  have oc: "product_typed dates (normalize_opencart repr t raw)" "product_typed dates (normalize_rest repr t raw)"
    using t by (simp_all add: product_typed_def normalize_opencart_def normalize_rest_def opt_text_or opt_date_or
        categories_text attributes_object)
  show ?thesis using assms(2) woo oc by (auto simp: normalize_product_def Let_def split: if_splits)
qed


definition demo_index :: index_cfg where
  "demo_index = \<lparr>ic_shards = 1, ic_replicas = 1, ic_dims = 2, ic_prefix = ''acip'', ic_alias = ''acip-products'', ic_orders_alias = ''acip-orders''\<rparr>"

definition demo_feed :: py_dict where
  "demo_feed = [(''id'', VInt 7), (''title'', VStr ''Shoe''), (''brand'', VStr ''b''), (''updated_at'', VStr ''2026-01-01'')]"


text \<open>OpenCart writes its time stamps as \<open>YYYY-MM-DD HH:MM:SS\<close>: the normaliser passes the space on, and the
  date field refuses the document.\<close>

lemma dict_set_keeps: "(k', v') \<in> set d \<Longrightarrow> k' \<noteq> k \<Longrightarrow> (k', v') \<in> set (dict_set k v d)"
  by (induction d) auto

lemma opencart_stamp_rejected:
  assumes "strict_dates dates" "dict_get raw ''date_modified'' = VStr s" "CHR '' '' \<in> set s"
  shows "\<not> accepts dates (catalogue_mapping dims) (product_body (normalize_opencart repr t raw) emb)"
proof -
  let ?p = "normalize_opencart repr t raw"
  have "cp_updated ?p = VStr s" using assms(2,3) by (auto simp: normalize_opencart_def last_get_def py_or_def)
  then have "(''updated_at'', VStr s) \<in> set (product_doc ?p)" by (simp add: product_doc_def drop_none_def)
  then have "(''updated_at'', VStr s) \<in> set (product_body ?p emb)"
    by (simp add: product_body_def dict_set_keeps split: option.splits)
  moreover have "\<not> field_accepted dates (catalogue_mapping dims) ''updated_at'' (VStr s)"
    using assms(1,3) by (auto simp: schema_defs leaf_ok_def scalar_ok_def strict_dates_def)
  ultimately show ?thesis by (auto simp: accepts_def list.pred_set)
qed

text \<open>Orders: every field of an order document is declared by the orders mapping.\<close>

definition order_typed :: "(string \<Rightarrow> bool) \<Rightarrow> store_order \<Rightarrow> bool" where
  "order_typed dates r \<longleftrightarrow> list_all opt_text [so_email r, so_name r, so_currency r] \<and>
     list_all (opt_date dates) [so_created r, so_updated r] \<and>
     list_all (\<lambda>i. - 2147483648 \<le> oi_quantity i \<and> oi_quantity i \<le> 2147483647) (so_items r)"

lemma flat_filter: "flat_ok dates ps d \<Longrightarrow> flat_ok dates ps (filter P d)"
  by (auto simp: flat_ok_def list.pred_set)

lemma orders_fit_mapping:
  assumes "order_typed dates r"
  shows "accepts dates order_mapping (order_doc r)"
proof -
  let ?ps = "[(''product_id'', VDict [(''type'', VStr ''keyword'')]),
     (''title'', VDict [(''type'', VStr ''text''), (''analyzer'', VStr ''fa_text'')]),
     (''quantity'', VDict [(''type'', VStr ''integer'')]),
     (''price'', VDict [(''type'', VStr ''scaled_float''), (''scaling_factor'', VInt 100)])]"
  have "flat_ok dates ?ps (item_doc i)" if "- 2147483648 \<le> oi_quantity i" "oi_quantity i \<le> 2147483647" for i
  proof -
    have "leaf_ok dates [(''type'', VStr ''integer'')] (VInt (oi_quantity i))"
      using that by (simp add: leaf_ok_def dict_get_def scalar_ok_def)
    then show ?thesis unfolding item_doc_def drop_none_def
      by (intro flat_filter) (simp add: flat_ok_def dict_get_def opt_text_def)
  qed
  then have entries: "list_all (\<lambda>i. flat_ok dates ?ps (item_doc i)) (so_items r)"
    using assms by (auto simp: order_typed_def list.pred_set)
  have leaf: "leaf_ok dates ((''type'', VStr ''text'') # spec) v" if "opt_text v" for spec v
    using that by (auto simp: leaf_ok_def dict_get_def scalar_ok_def opt_text_def split: pyv.splits)
  show ?thesis unfolding order_doc_def drop_none_def
    using assms entries by (intro accepts_filter) (simp add: accepts_def schema_defs order_typed_def leaf opt_text_def [of "VStr _"] list.pred_map comp_def)
qed

end
