(* ===== verification/IndexAdmin.thy ===== *)
theory IndexAdmin
  imports IndexMapping Overview
begin

text \<open>
  The life cycle of the indices: \<open>index_admin.py\<close>, \<open>orders_index.py\<close> and the operator's console
  \<open>admin_es.py\<close>. The administrative calls of Elasticsearch are a record over an abstract cluster; a view of
  it gives the documents of an index and the indices behind an alias, and \<open>cluster_laws\<close> states what the
  service documents of successful calls. \<open>stamp\<close> is \<open>time.strftime("%Y%m%d%H%M%S")\<close>.
\<close>

subsection \<open>The service\<close>

datatype alias_action = AliasAdd (act_index: string) (act_alias: string) | AliasRemove (act_index: string) (act_alias: string)

record 'c cluster =
  cl_create :: "string \<Rightarrow> py_dict \<Rightarrow> 'c \<Rightarrow> unit res \<times> 'c"
  cl_get_alias :: "string \<Rightarrow> 'c \<Rightarrow> string list res"
  cl_update_aliases :: "alias_action list \<Rightarrow> 'c \<Rightarrow> unit res \<times> 'c"
  cl_reindex :: "string \<Rightarrow> string \<Rightarrow> 'c \<Rightarrow> unit res \<times> 'c"
  cl_remove :: "string \<Rightarrow> 'c \<Rightarrow> unit res \<times> 'c"
  cl_cat_indices :: "string \<Rightarrow> 'c \<Rightarrow> py_dict list res"
  cl_cat_aliases :: "string \<Rightarrow> 'c \<Rightarrow> py_dict list res"
  cl_get_mapping :: "string \<Rightarrow> 'c \<Rightarrow> py_dict res"
  cl_get_settings :: "string \<Rightarrow> 'c \<Rightarrow> py_dict res"
  cl_count :: "string \<Rightarrow> py_dict \<Rightarrow> 'c \<Rightarrow> py_dict res"
  cl_health :: "'c \<Rightarrow> py_dict res"
  cl_stats :: "'c \<Rightarrow> py_dict res"

record 'c cluster_view =
  cv_docs :: "string \<Rightarrow> 'c \<Rightarrow> (string \<Rightarrow> py_dict option) option"
  cv_behind :: "string \<Rightarrow> 'c \<Rightarrow> string set"

text \<open>The actions of one update run in order and take effect together.\<close>

fun run_action :: "alias_action \<Rightarrow> (string \<Rightarrow> string set) \<Rightarrow> string \<Rightarrow> string set" where
  "run_action (AliasAdd i a) f = f(a := insert i (f a))"
| "run_action (AliasRemove i a) f = f(a := f a - {i})"

definition run_actions :: "alias_action list \<Rightarrow> (string \<Rightarrow> string set) \<Rightarrow> string \<Rightarrow> string set" where
  "run_actions acts f = fold run_action acts f"

text \<open>An index expression without wildcards, exclusions or date arithmetic names the parts between its commas.\<close>

definition plain_expr :: "string \<Rightarrow> bool" where
  "plain_expr x \<longleftrightarrow> set x \<inter> {CHR ''*'', CHR ''<'', CHR ''?''} = {} \<and> list_all (\<lambda>p. \<not> prefix ''-'' p) (split_on CHR '','' x)"

definition create_law :: "('c, 'x) cluster_scheme \<Rightarrow> ('c, 'y) cluster_view_scheme \<Rightarrow> bool" where
  "create_law C V \<longleftrightarrow> (\<forall>i b c c'. cl_create C i b c = (Inr (), c') \<longrightarrow> cv_docs V i c = None \<and>
     (\<forall>j. cv_docs V j c' = (if j = i then Some Map.empty else cv_docs V j c)) \<and> (\<forall>a. cv_behind V a c' = cv_behind V a c))"

definition lookup_law :: "('c, 'x) cluster_scheme \<Rightarrow> ('c, 'y) cluster_view_scheme \<Rightarrow> bool" where
  "lookup_law C V \<longleftrightarrow> (\<forall>a c xs. cl_get_alias C a c = Inr xs \<longrightarrow> set xs = cv_behind V a c)"

definition update_law :: "('c, 'x) cluster_scheme \<Rightarrow> ('c, 'y) cluster_view_scheme \<Rightarrow> bool" where
  "update_law C V \<longleftrightarrow> (\<forall>acts c c'. cl_update_aliases C acts c = (Inr (), c') \<longrightarrow>
     (\<forall>j. cv_docs V j c' = cv_docs V j c) \<and> (\<forall>a. cv_behind V a c' = run_actions acts (\<lambda>a. cv_behind V a c) a))"

definition reindex_law :: "('c, 'x) cluster_scheme \<Rightarrow> ('c, 'y) cluster_view_scheme \<Rightarrow> bool" where
  "reindex_law C V \<longleftrightarrow> (\<forall>i j c c' D E. cl_reindex C i j c = (Inr (), c') \<longrightarrow> cv_docs V i c = Some D \<longrightarrow>
     cv_docs V j c = Some E \<longrightarrow>
     (\<forall>k. cv_docs V k c' = (if k = j then Some (E ++ D) else cv_docs V k c)) \<and> (\<forall>a. cv_behind V a c' = cv_behind V a c))"

definition remove_law :: "('c, 'x) cluster_scheme \<Rightarrow> ('c, 'y) cluster_view_scheme \<Rightarrow> bool" where
  "remove_law C V \<longleftrightarrow> (\<forall>x c. plain_expr x \<longrightarrow>
     (\<forall>j. j \<notin> set (split_on CHR '','' x) \<longrightarrow> cv_docs V j (snd (cl_remove C x c)) = cv_docs V j c \<and>
        (\<forall>a. j \<in> cv_behind V a (snd (cl_remove C x c)) \<longleftrightarrow> j \<in> cv_behind V a c)) \<and>
     (\<forall>j. fst (cl_remove C x c) = Inr () \<longrightarrow> j \<in> set (split_on CHR '','' x) \<longrightarrow> cv_docs V j (snd (cl_remove C x c)) = None))"

definition cat_law :: "('c, 'x) cluster_scheme \<Rightarrow> ('c, 'y) cluster_view_scheme \<Rightarrow> bool" where
  "cat_law C V \<longleftrightarrow> (\<forall>p c rows a i. cl_cat_aliases C (p @ ''*'') c = Inr rows \<longrightarrow> prefix p a \<longrightarrow> i \<in> cv_behind V a c \<longrightarrow>
     list_ex (\<lambda>r. dict_get r ''alias'' = VStr a \<and> dict_get r ''index'' = VStr i) rows)"

definition cluster_laws :: "('c, 'x) cluster_scheme \<Rightarrow> ('c, 'y) cluster_view_scheme \<Rightarrow> bool" where
  "cluster_laws C V \<longleftrightarrow> create_law C V \<and> lookup_law C V \<and> update_law C V \<and> reindex_law C V \<and> remove_law C V \<and> cat_law C V"

lemma created:
  assumes "cluster_laws C V" "cl_create C i b c = (Inr (), c')"
  shows "cv_docs V i c = None" "cv_docs V j c' = (if j = i then Some Map.empty else cv_docs V j c)"
    "cv_behind V a c' = cv_behind V a c"
proof -
  from assms(1) have "create_law C V" by (simp add: cluster_laws_def)
  then show "cv_docs V i c = None" "cv_docs V j c' = (if j = i then Some Map.empty else cv_docs V j c)"
    "cv_behind V a c' = cv_behind V a c" using assms(2) unfolding create_law_def by blast+
qed

lemma looked_up: "cluster_laws C V \<Longrightarrow> cl_get_alias C a c = Inr xs \<Longrightarrow> set xs = cv_behind V a c"
  unfolding cluster_laws_def lookup_law_def by blast

lemma updated:
  assumes "cluster_laws C V" "cl_update_aliases C acts c = (Inr (), c')"
  shows "cv_docs V j c' = cv_docs V j c" "cv_behind V a c' = run_actions acts (\<lambda>a. cv_behind V a c) a"
proof -
  from assms(1) have "update_law C V" by (simp add: cluster_laws_def)
  then show "cv_docs V j c' = cv_docs V j c" "cv_behind V a c' = run_actions acts (\<lambda>a. cv_behind V a c) a"
    using assms(2) unfolding update_law_def by blast+
qed

lemma reindexed:
  assumes "cluster_laws C V" "cl_reindex C i j c = (Inr (), c')" "cv_docs V i c = Some D" "cv_docs V j c = Some E"
  shows "cv_docs V k c' = (if k = j then Some (E ++ D) else cv_docs V k c)" "cv_behind V a c' = cv_behind V a c"
proof -
  from assms(1) have "reindex_law C V" by (simp add: cluster_laws_def)
  then show "cv_docs V k c' = (if k = j then Some (E ++ D) else cv_docs V k c)" "cv_behind V a c' = cv_behind V a c"
    using assms(2-4) unfolding reindex_law_def by blast+
qed

lemma removed:
  assumes "cluster_laws C V" "cl_remove C x c = (r, c')" "plain_expr x"
  shows "j \<notin> set (split_on CHR '','' x) \<Longrightarrow> cv_docs V j c' = cv_docs V j c"
    "j \<notin> set (split_on CHR '','' x) \<Longrightarrow> j \<in> cv_behind V a c' \<longleftrightarrow> j \<in> cv_behind V a c"
    "r = Inr () \<Longrightarrow> j \<in> set (split_on CHR '','' x) \<Longrightarrow> cv_docs V j c' = None"
proof -
  have "fst (cl_remove C x c) = r" "snd (cl_remove C x c) = c'" using assms(2) by simp_all
  moreover from assms(1) have "remove_law C V" by (simp add: cluster_laws_def)
  ultimately show "j \<notin> set (split_on CHR '','' x) \<Longrightarrow> cv_docs V j c' = cv_docs V j c"
    "j \<notin> set (split_on CHR '','' x) \<Longrightarrow> j \<in> cv_behind V a c' \<longleftrightarrow> j \<in> cv_behind V a c"
    "r = Inr () \<Longrightarrow> j \<in> set (split_on CHR '','' x) \<Longrightarrow> cv_docs V j c' = None"
    using assms(3) unfolding remove_law_def by (blast, blast, metis)
qed

lemma listed:
  "cluster_laws C V \<Longrightarrow> cl_cat_aliases C (p @ ''*'') c = Inr rows \<Longrightarrow> prefix p a \<Longrightarrow> i \<in> cv_behind V a c \<Longrightarrow>
   list_ex (\<lambda>r. dict_get r ''alias'' = VStr a \<and> dict_get r ''index'' = VStr i) rows"
  unfolding cluster_laws_def cat_law_def by blast

text \<open>What a reader of the alias sees: the documents of the one index behind it.\<close>

definition readable :: "('c, 'y) cluster_view_scheme \<Rightarrow> string \<Rightarrow> 'c \<Rightarrow> (string \<Rightarrow> py_dict option) option \<Rightarrow> bool" where
  "readable V a c D \<longleftrightarrow> (\<exists>i. cv_behind V a c = {i} \<and> cv_docs V i c = D)"

subsection \<open>Creation, alias swap, reindexing\<close>

definition shared_index_name :: "index_cfg \<Rightarrow> string \<Rightarrow> string" where
  "shared_index_name cfg version = ic_prefix cfg @ ''-catalogue-'' @ version"

definition tenant_index_name :: "index_cfg \<Rightarrow> tenant \<Rightarrow> string \<Rightarrow> string" where
  "tenant_index_name cfg t version = ic_prefix cfg @ ''-catalogue-'' @ t @ ''-'' @ version"

definition order_index_name :: "index_cfg \<Rightarrow> string \<Rightarrow> string" where
  "order_index_name cfg version = ic_prefix cfg @ ''-orders-'' @ version"

definition create_index :: "('c, 'x) cluster_scheme \<Rightarrow> index_cfg \<Rightarrow> string \<Rightarrow> 'c \<Rightarrow> unit res \<times> 'c" where
  "create_index C cfg name c = cl_create C name (index_body cfg None None None) c"

text \<open>\<open>actions.insert(0, ...)\<close> puts the removals before the addition, the last one first. A failed lookup of the
  alias is passed over.\<close>

definition swap_actions :: "string \<Rightarrow> string \<Rightarrow> string list res \<Rightarrow> alias_action list" where
  "swap_actions a to existing =
     (case existing of
        Inl _ \<Rightarrow> []
      | Inr olds \<Rightarrow> rev (map (\<lambda>i. AliasRemove i a) (filter (\<lambda>i. i \<noteq> to) olds))) @ [AliasAdd to a]"

definition point_alias :: "('c, 'x) cluster_scheme \<Rightarrow> string \<Rightarrow> string \<Rightarrow> 'c \<Rightarrow> unit res \<times> 'c" where
  "point_alias C a to c = cl_update_aliases C (swap_actions a to (cl_get_alias C a c)) c"

text \<open>An exception of a step ends the function; \<open>then_do\<close> is the sequence of two statements.\<close>

definition then_do :: "unit res \<times> 'c \<Rightarrow> ('c \<Rightarrow> 'a res \<times> 'c) \<Rightarrow> 'a res \<times> 'c" where
  "then_do m k = (case m of (Inl e, c) \<Rightarrow> (Inl e, c) | (Inr _, c) \<Rightarrow> k c)"

definition and_return :: "'a res \<times> 'c \<Rightarrow> ('a \<Rightarrow> 'b) \<Rightarrow> 'b res \<times> 'c" where
  "and_return m f = (case m of (Inl e, c) \<Rightarrow> (Inl e, c) | (Inr x, c) \<Rightarrow> (Inr (f x), c))"

definition copy_phase :: "('c, 'x) cluster_scheme \<Rightarrow> index_cfg \<Rightarrow> string \<Rightarrow> string \<Rightarrow> 'c \<Rightarrow> unit res \<times> 'c" where
  "copy_phase C cfg stamp source c =
     then_do (create_index C cfg (shared_index_name cfg stamp) c) (\<lambda>c1. cl_reindex C source (shared_index_name cfg stamp) c1)"

definition reindex_and_swap ::
  "('c, 'x) cluster_scheme \<Rightarrow> index_cfg \<Rightarrow> string \<Rightarrow> string \<Rightarrow> string option \<Rightarrow> 'c \<Rightarrow> string res \<times> 'c" where
  "reindex_and_swap C cfg stamp source al c =
     (let a = (case al of None \<Rightarrow> ic_alias cfg | Some x \<Rightarrow> if x = [] then ic_alias cfg else x);
          new = shared_index_name cfg stamp
      in then_do (copy_phase C cfg stamp source c) (\<lambda>c2.
         then_do (point_alias C a new c2) (\<lambda>c3. (Inr new, c3))))"

definition ensure_reply :: "string \<Rightarrow> string \<Rightarrow> string \<Rightarrow> py_dict" where
  "ensure_reply status a i = [(''status'', VStr status), (''alias'', VStr a), (''index'', VStr i)]"

text \<open>The two \<open>ensure\<close> functions differ in the alias, the new name and the body.\<close>

definition ensure_index ::
  "('c, 'x) cluster_scheme \<Rightarrow> string \<Rightarrow> string \<Rightarrow> py_dict \<Rightarrow> 'c \<Rightarrow> py_dict res \<times> 'c" where
  "ensure_index C a new body c =
     (case cl_get_alias C a c of
        Inr (i # _) \<Rightarrow> (Inr (ensure_reply ''exists'' a i), c)
      | _ \<Rightarrow> then_do (cl_create C new body c) (\<lambda>c1.
               then_do (point_alias C a new c1) (\<lambda>c2. (Inr (ensure_reply ''created'' a new), c2))))"

definition ensure_catalogue_index ::
  "('c, 'x) cluster_scheme \<Rightarrow> index_cfg \<Rightarrow> string \<Rightarrow> 'c \<Rightarrow> py_dict res \<times> 'c" where
  "ensure_catalogue_index C cfg stamp c =
     ensure_index C (ic_alias cfg) (shared_index_name cfg stamp) (index_body cfg None None None) c"

definition ensure_orders_index ::
  "('c, 'x) cluster_scheme \<Rightarrow> index_cfg \<Rightarrow> string \<Rightarrow> 'c \<Rightarrow> py_dict res \<times> 'c" where
  "ensure_orders_index C cfg stamp c =
     ensure_index C (ic_orders_alias cfg) (order_index_name cfg stamp) (order_index_body cfg None None) c"

text \<open>At every start of the API, in a task of its own: failures are logged and passed over.\<close>

definition bootstrap_search_index :: "('c, 'x) cluster_scheme \<Rightarrow> index_cfg \<Rightarrow> string \<Rightarrow> string \<Rightarrow> 'c \<Rightarrow> 'c" where
  "bootstrap_search_index C cfg stamp stamp2 c =
     (let c1 = snd (ensure_catalogue_index C cfg stamp c) in snd (ensure_orders_index C cfg stamp2 c1))"

subsection \<open>Inspection\<close>

text \<open>\<open>v.get(k, d)\<close> on a value that need not be a dictionary.\<close>

definition attr_get :: "string \<Rightarrow> pyv \<Rightarrow> pyv \<Rightarrow> pyv res" where
  "attr_get k d v = (case v of VDict x \<Rightarrow> Inr (dict_get_or x k d) | _ \<Rightarrow> Inl (Exn ''AttributeError''))"

definition item_zero :: "pyv \<Rightarrow> pyv res" where
  "item_zero v = (case v of VList (x # _) \<Rightarrow> Inr x | VStr s \<Rightarrow> (case code_points s of c # _ \<Rightarrow> Inr (VStr c) | [] \<Rightarrow> Inl (Exn ''IndexError''))
     | _ \<Rightarrow> Inl (Exn ''TypeError''))"

text \<open>Assignments inside one \<open>try\<close>: the first exception ends them.\<close>

fun assign_all :: "(string \<times> pyv res) list \<Rightarrow> py_dict \<Rightarrow> py_dict" where
  "assign_all [] h = h"
| "assign_all ((k, r) # xs) h = (case r of Inl _ \<Rightarrow> h | Inr v \<Rightarrow> assign_all xs (dict_set k v h))"

definition cluster_health :: "('c, 'x) cluster_scheme \<Rightarrow> 'c \<Rightarrow> py_dict res" where
  "cluster_health C c =
     (case cl_health C c of
        Inl e \<Rightarrow> Inl e
      | Inr health \<Rightarrow>
          (case cl_stats C c of
             Inl _ \<Rightarrow> Inr health
           | Inr stats \<Rightarrow>
               let nodes = dict_get_or stats ''nodes'' (VDict []); idx = dict_get_or stats ''indices'' (VDict []) in
               Inr (assign_all
                 [(''nodes_total'', bind_res (attr_get ''count'' (VDict []) nodes) (attr_get ''total'' VNone)),
                  (''es_version'', bind_res (attr_get ''versions'' (VList [VNone]) nodes) item_zero),
                  (''docs_total'', bind_res (attr_get ''docs'' (VDict []) idx) (attr_get ''count'' VNone)),
                  (''store_size_bytes'', bind_res (attr_get ''store'' (VDict []) idx) (attr_get ''size_in_bytes'' VNone))]
                 health)))"

definition pattern_of :: "index_cfg \<Rightarrow> string option \<Rightarrow> string" where
  "pattern_of cfg pattern = (case pattern of None \<Rightarrow> ic_prefix cfg @ ''-*'' | Some p \<Rightarrow> if p = [] then ic_prefix cfg @ ''-*'' else p)"

definition int_or_none :: "(pyv \<Rightarrow> int option) \<Rightarrow> pyv \<Rightarrow> pyv" where
  "int_or_none to_int v = (case to_int v of None \<Rightarrow> VNone | Some i \<Rightarrow> VInt i)"

definition index_row :: "(pyv \<Rightarrow> int option) \<Rightarrow> py_dict \<Rightarrow> py_dict" where
  "index_row to_int r =
     [(''index'', dict_get r ''index''), (''health'', dict_get r ''health''), (''status'', dict_get r ''status''),
      (''docs'', int_or_none to_int (dict_get r ''docs.count'')), (''docs_deleted'', int_or_none to_int (dict_get r ''docs.deleted'')),
      (''size_bytes'', int_or_none to_int (dict_get r ''store.size'')), (''shards'', int_or_none to_int (dict_get r ''pri'')),
      (''replicas'', int_or_none to_int (dict_get r ''rep'')), (''created'', dict_get r ''creation.date.string'')]"

definition row_name :: "py_dict \<Rightarrow> string" where
  "row_name r = (case dict_get r ''index'' of VStr s \<Rightarrow> s | _ \<Rightarrow> [])"

definition list_indices :: "(pyv \<Rightarrow> int option) \<Rightarrow> ('c, 'x) cluster_scheme \<Rightarrow> index_cfg \<Rightarrow> string option \<Rightarrow> 'c \<Rightarrow> py_dict list" where
  "list_indices to_int C cfg pattern c =
     (case cl_cat_indices C (pattern_of cfg pattern) c of
        Inl _ \<Rightarrow> []
      | Inr rows \<Rightarrow> sort_key row_name (map (index_row to_int) rows))"

definition list_aliases :: "('c, 'x) cluster_scheme \<Rightarrow> index_cfg \<Rightarrow> string option \<Rightarrow> 'c \<Rightarrow> py_dict list" where
  "list_aliases C cfg pattern c =
     (case cl_cat_aliases C (pattern_of cfg pattern) c of
        Inl _ \<Rightarrow> []
      | Inr rows \<Rightarrow> map (\<lambda>r. [(''alias'', dict_get r ''alias''), (''index'', dict_get r ''index'')]) rows)"

definition get_mapping_and_settings :: "('c, 'x) cluster_scheme \<Rightarrow> string \<Rightarrow> 'c \<Rightarrow> py_dict res" where
  "get_mapping_and_settings C i c =
     bind_res (cl_get_mapping C i c) (\<lambda>m. bind_res (cl_get_settings C i c) (\<lambda>s.
       Inr [(''mapping'', VDict m), (''settings'', VDict s)]))"

definition doc_count :: "(pyv \<Rightarrow> int option) \<Rightarrow> ('c, 'x) cluster_scheme \<Rightarrow> string \<Rightarrow> tenant \<Rightarrow> 'c \<Rightarrow> int" where
  "doc_count to_int C a t c =
     (case cl_count C a [(''query'', VDict [(''term'', VDict [(''tenant_id'', VStr t)])])] c of
        Inl _ \<Rightarrow> 0
      | Inr r \<Rightarrow> the_or 0 (to_int (dict_get_or r ''count'' (VInt 0))))"

definition tenant_doc_count :: "(pyv \<Rightarrow> int option) \<Rightarrow> ('c, 'x) cluster_scheme \<Rightarrow> index_cfg \<Rightarrow> tenant \<Rightarrow> 'c \<Rightarrow> int" where
  "tenant_doc_count to_int C cfg t c = doc_count to_int C (ic_alias cfg) t c"

definition tenant_order_count :: "(pyv \<Rightarrow> int option) \<Rightarrow> ('c, 'x) cluster_scheme \<Rightarrow> index_cfg \<Rightarrow> tenant \<Rightarrow> 'c \<Rightarrow> int" where
  "tenant_order_count to_int C cfg t c = doc_count to_int C (ic_orders_alias cfg) t c"

subsection \<open>The operator's console\<close>

definition es_health :: "bool \<Rightarrow> ('c, 'x) cluster_scheme \<Rightarrow> 'c \<Rightarrow> py_dict reply" where
  "es_health ok C c =
     (if \<not> ok then Err 401 ''unauthorized''
      else case cluster_health C c of
             Inl e \<Rightarrow> Ok [(''reachable'', VBool False), (''error'', VStr (exn_msg e))]
           | Inr h \<Rightarrow> Ok (dict_update [(''reachable'', VBool True)] h))"

definition es_indices ::
  "(pyv \<Rightarrow> int option) \<Rightarrow> bool \<Rightarrow> ('c, 'x) cluster_scheme \<Rightarrow> index_cfg \<Rightarrow> 'c \<Rightarrow> (string \<times> py_dict list \<times> py_dict list) reply" where
  "es_indices to_int ok C cfg c =
     (if \<not> ok then Err 401 ''unauthorized''
      else Ok (ic_alias cfg, list_indices to_int C cfg None c, list_aliases C cfg None c))"

definition es_mapping :: "bool \<Rightarrow> ('c, 'x) cluster_scheme \<Rightarrow> string \<Rightarrow> 'c \<Rightarrow> py_dict reply" where
  "es_mapping ok C i c =
     (if \<not> ok then Err 401 ''unauthorized''
      else case get_mapping_and_settings C i c of
             Inl _ \<Rightarrow> Err 404 ''not_found''
           | Inr m \<Rightarrow> Ok ((''index'', VStr i) # m))"

definition es_tenant_count ::
  "(pyv \<Rightarrow> int option) \<Rightarrow> bool \<Rightarrow> ('c, 'x) cluster_scheme \<Rightarrow> index_cfg \<Rightarrow> tenant \<Rightarrow> 'c \<Rightarrow> (tenant \<times> int) reply" where
  "es_tenant_count to_int ok C cfg t c =
     (if \<not> ok then Err 401 ''unauthorized'' else Ok (t, tenant_doc_count to_int C cfg t c))"

text \<open>The common end of the four handlers that change the cluster.\<close>

definition es_finish :: "pool \<Rightarrow> string \<Rightarrow> db \<Rightarrow> (py_dict \<times> py_dict) res \<times> 'c \<Rightarrow> py_dict reply \<times> 'c \<times> db" where
  "es_finish p action d m =
     (case m of
        (Inl _, c) \<Rightarrow> (Err 500 ''es_error'', c, d)
      | (Inr (detail, body), c) \<Rightarrow> (Ok body, c, audit p ''operator'' action None detail d))"

definition es_ensure_index ::
  "bool \<Rightarrow> pool \<Rightarrow> ('c, 'x) cluster_scheme \<Rightarrow> index_cfg \<Rightarrow> string \<Rightarrow> 'c \<times> db \<Rightarrow> py_dict reply \<times> 'c \<times> db" where
  "es_ensure_index ok p C cfg stamp s =
     (if \<not> ok then (Err 401 ''unauthorized'', s)
      else es_finish p ''es.ensure_index'' (snd s)
        (and_return (ensure_catalogue_index C cfg stamp (fst s)) (\<lambda>r. (r, r))))"

definition es_reindex ::
  "env \<Rightarrow> bool \<Rightarrow> pool \<Rightarrow> ('c, 'x) cluster_scheme \<Rightarrow> index_cfg \<Rightarrow> string \<Rightarrow> py_dict \<Rightarrow> 'c \<times> db \<Rightarrow> py_dict reply \<times> 'c \<times> db" where
  "es_reindex E ok p C cfg stamp payload s =
     (let source = py_strip (pstr E payload ''source_index'') in
      if \<not> ok then (Err 401 ''unauthorized'', s)
      else if source = [] then (Err 422 ''invalid_request'', s)
      else es_finish p ''es.reindex'' (snd s)
        (and_return (reindex_and_swap C cfg stamp source None (fst s)) (\<lambda>new.
           ([(''source'', VStr source), (''new_index'', VStr new)],
            [(''status'', VStr ''reindexed''), (''source_index'', VStr source), (''new_index'', VStr new)]))))"

definition es_alias ::
  "env \<Rightarrow> bool \<Rightarrow> pool \<Rightarrow> ('c, 'x) cluster_scheme \<Rightarrow> index_cfg \<Rightarrow> py_dict \<Rightarrow> 'c \<times> db \<Rightarrow> py_dict reply \<times> 'c \<times> db" where
  "es_alias E ok p C cfg payload s =
     (let to = py_strip (pstr E payload ''index'');
          a = py_str (fst E) (py_or (dict_get payload ''alias'') (VStr (ic_alias cfg))) in
      if \<not> ok then (Err 401 ''unauthorized'', s)
      else if to = [] then (Err 422 ''invalid_request'', s)
      else es_finish p ''es.alias_swap'' (snd s)
        (and_return (point_alias C a to (fst s)) (\<lambda>_.
           ([(''alias'', VStr a), (''index'', VStr to)],
            [(''status'', VStr ''swapped''), (''alias'', VStr a), (''index'', VStr to)]))))"

definition es_delete_index ::
  "env \<Rightarrow> bool \<Rightarrow> pool \<Rightarrow> ('c, 'x) cluster_scheme \<Rightarrow> index_cfg \<Rightarrow> py_dict \<Rightarrow> 'c \<times> db \<Rightarrow> py_dict reply \<times> 'c \<times> db" where
  "es_delete_index E ok p C cfg payload s =
     (let i = py_strip (pstr E payload ''index'') in
      if \<not> ok then (Err 401 ''unauthorized'', s)
      else if i = [] then (Err 422 ''invalid_request'', s)
      else if VStr i \<in> set (map (\<lambda>a. dict_get a ''index'') (list_aliases C cfg None (fst s))) then (Err 409 ''alias_in_use'', s)
      else es_finish p ''es.delete_index'' (snd s)
        (and_return (cl_remove C i (fst s)) (\<lambda>_.
           ([(''index'', VStr i)], [(''status'', VStr ''deleted''), (''index'', VStr i)]))))"

end
