(* ===== verification/IndexProps.thy ===== *)
theory IndexProps
  imports IndexAdmin
begin

text \<open>
  What the index life cycle guarantees: a swap is exact, a reindex keeps the catalogue readable and can be
  rolled back, creation is idempotent, a live index is not deleted; and what a lookup of the alias that
  fails once does to a live catalogue.
\<close>

subsection \<open>The alias swap\<close>

lemma fold_removals:
  "fold run_action (map (\<lambda>i. AliasRemove i a) ys) f = f(a := f a - set ys)"
  by (induction ys arbitrary: f) (auto simp: fun_eq_iff)

lemma run_swap:
  assumes "set xs = f a"
  shows "run_actions (swap_actions a to (Inr xs)) f = f(a := {to})"
proof -
  have "fold run_action (rev (map (\<lambda>i. AliasRemove i a) (filter (\<lambda>i. i \<noteq> to) xs))) f = f(a := f a - set (filter (\<lambda>i. i \<noteq> to) xs))"
    by (simp add: rev_map fold_removals)
  then show ?thesis using assms by (auto simp: run_actions_def swap_actions_def fun_eq_iff)
qed

lemma run_swap_failed: "run_actions (swap_actions a to (Inl e)) f = f(a := insert to (f a))"
  by (simp add: run_actions_def swap_actions_def)

text \<open>The lookup answers whenever there is something behind the alias.\<close>

definition lookups_answer :: "('c, 'x) cluster_scheme \<Rightarrow> ('c, 'y) cluster_view_scheme \<Rightarrow> bool" where
  "lookups_answer C V \<longleftrightarrow> (\<forall>a c. cv_behind V a c = {} \<or> (\<exists>xs. cl_get_alias C a c = Inr xs))"

lemma swap_exact:
  assumes "cluster_laws C V" "lookups_answer C V" "point_alias C a to c = (Inr (), c')"
  shows "cv_behind V b c' = (if b = a then {to} else cv_behind V b c)" "cv_docs V j c' = cv_docs V j c"
proof -
  have u: "cl_update_aliases C (swap_actions a to (cl_get_alias C a c)) c = (Inr (), c')"
    using assms(3) by (simp add: point_alias_def)
  show "cv_docs V j c' = cv_docs V j c" by (rule updated(1) [OF assms(1) u])
  have "run_actions (swap_actions a to (cl_get_alias C a c)) (\<lambda>a. cv_behind V a c) = (\<lambda>a. cv_behind V a c)(a := {to})"
  proof (cases "cl_get_alias C a c")
    case (Inr xs)
    then show ?thesis using run_swap [of xs "\<lambda>a. cv_behind V a c" a to] looked_up [OF assms(1) Inr] by simp
  next
    case (Inl e)
    then have "cv_behind V a c = {}" using assms(2) unfolding lookups_answer_def by (metis Inl_Inr_False)
    with Inl show ?thesis by (simp add: run_swap_failed)
  qed
  then show "cv_behind V b c' = (if b = a then {to} else cv_behind V b c)"
    using updated(2) [OF assms(1) u, of b] by simp
qed

subsection \<open>Reindexing\<close>

lemma then_doD: "then_do m k = (Inr x, c') \<Longrightarrow> \<exists>c1. m = (Inr (), c1) \<and> k c1 = (Inr x, c')"
  by (auto simp: then_do_def split: prod.splits sum.splits)

lemma copy_phaseD:
  assumes "cluster_laws C V" "copy_phase C cfg stamp src c = (Inr (), c')" "cv_docs V src c = Some D"
  shows "shared_index_name cfg stamp \<noteq> src" "cv_docs V (shared_index_name cfg stamp) c' = Some D"
    "k \<noteq> shared_index_name cfg stamp \<Longrightarrow> cv_docs V k c' = cv_docs V k c" "cv_behind V a c' = cv_behind V a c"
proof -
  let ?n = "shared_index_name cfg stamp"
  obtain c1 where c1: "cl_create C ?n (index_body cfg None None None) c = (Inr (), c1)" "cl_reindex C src ?n c1 = (Inr (), c')"
    using assms(2) by (auto simp: copy_phase_def create_index_def dest!: then_doD)
  note cr = created [OF assms(1) c1(1)]
  show ne: "?n \<noteq> src" using cr(1) assms(3) by auto
  have "cv_docs V src c1 = Some D" "cv_docs V ?n c1 = Some Map.empty" using cr(2) ne assms(3) by auto
  note re = reindexed [OF assms(1) c1(2) this]
  show "cv_docs V ?n c' = Some D" using re(1) [of ?n] by simp
  show "k \<noteq> ?n \<Longrightarrow> cv_docs V k c' = cv_docs V k c" using re(1) [of k] cr(2) [of k] by simp
  show "cv_behind V a c' = cv_behind V a c" using re(2) cr(3) by simp
qed

lemma reindex_and_swapD:
  assumes "cluster_laws C V" "lookups_answer C V" "cv_docs V src c = Some D"
    and "reindex_and_swap C cfg stamp src None c = (Inr new, c')"
  shows "new = shared_index_name cfg stamp" "cv_behind V (ic_alias cfg) c' = {new}" "cv_docs V new c' = Some D" "new \<noteq> src"
    "k \<noteq> new \<Longrightarrow> cv_docs V k c' = cv_docs V k c" "b \<noteq> ic_alias cfg \<Longrightarrow> cv_behind V b c' = cv_behind V b c"
proof -
  obtain c1 where c1: "copy_phase C cfg stamp src c = (Inr (), c1)" "point_alias C (ic_alias cfg) new c1 = (Inr (), c')"
      "new = shared_index_name cfg stamp"
    using assms(4) by (auto simp: reindex_and_swap_def Let_def dest!: then_doD)
  note cp = copy_phaseD [OF assms(1) c1(1) assms(3)] and sw = swap_exact [OF assms(1,2) c1(2)]
  show "new = shared_index_name cfg stamp" by (rule c1(3))
  show "cv_behind V (ic_alias cfg) c' = {new}" using sw(1) by simp
  show "cv_docs V new c' = Some D" using sw(2) cp(2) c1(3) by simp
  show "new \<noteq> src" using cp(1) c1(3) by simp
  show "k \<noteq> new \<Longrightarrow> cv_docs V k c' = cv_docs V k c" using sw(2) cp(3) c1(3) by simp
  show "b \<noteq> ic_alias cfg \<Longrightarrow> cv_behind V b c' = cv_behind V b c" using sw(1) cp(4) by simp
qed

lemma es_reindexD:
  "es_reindex E True p C cfg stamp payload (c, d) = (Ok body, c', d') \<Longrightarrow>
   \<exists>new. reindex_and_swap C cfg stamp (py_strip (pstr E payload ''source_index'')) None c = (Inr new, c')"
  by (auto simp: es_reindex_def es_finish_def and_return_def Let_def split: if_splits prod.splits sum.splits)

lemma es_aliasD:
  "es_alias E True p C cfg payload (c, d) = (Ok body, c', d') \<Longrightarrow> dict_get payload ''alias'' = VNone \<Longrightarrow>
   point_alias C (ic_alias cfg) (py_strip (pstr E payload ''index'')) c = (Inr (), c')"
  by (auto simp: es_alias_def es_finish_def and_return_def py_or_def Let_def split: if_splits prod.splits sum.splits)


text \<open>A document written through the alias while the copy runs goes to the old index; after the swap it is not
  readable.\<close>

lemma write_during_copy_is_lost:
  assumes "cluster_laws C V" "lookups_answer C V" "cv_docs V src c = Some D"
    and "copy_phase C cfg stamp src c = (Inr (), c1)"
    and "\<And>j. j \<noteq> src \<Longrightarrow> cv_docs V j c2 = cv_docs V j c1" "cv_docs V src c2 = Some (D(i \<mapsto> doc))"
    and "point_alias C a (shared_index_name cfg stamp) c2 = (Inr (), c3)"
  shows "readable V a c3 (Some D)"
proof -
  note cp = copy_phaseD [OF assms(1,4,3)] and sw = swap_exact [OF assms(1,2,7)]
  have "cv_docs V (shared_index_name cfg stamp) c2 = Some D" using assms(5) [OF cp(1)] cp(2) by simp
  with sw show ?thesis by (auto simp: readable_def)
qed

subsection \<open>Creation\<close>

lemma ensure_existing:
  "cl_get_alias C a c = Inr (i # xs) \<Longrightarrow> ensure_index C a new body c = (Inr (ensure_reply ''exists'' a i), c)"
  by (simp add: ensure_index_def)

lemma ensure_indexD:
  assumes "ensure_index C a new body c = (Inr r, c')"
  shows "(c' = c \<and> (\<exists>i xs. cl_get_alias C a c = Inr (i # xs) \<and> r = ensure_reply ''exists'' a i)) \<or>
    (\<exists>c1. cl_create C new body c = (Inr (), c1) \<and> point_alias C a new c1 = (Inr (), c'))"
  using assms by (auto simp: ensure_index_def split: sum.splits list.splits dest!: then_doD)

lemma lookup_nonempty:
  assumes "cluster_laws C V" "lookups_answer C V" "cv_behind V a c = {i}"
  shows "\<exists>xs. cl_get_alias C a c = Inr (i # xs)"
proof -
  obtain xs where x: "cl_get_alias C a c = Inr xs" using assms(2,3) unfolding lookups_answer_def by (metis insert_not_empty)
  then have "set xs = {i}" using looked_up [OF assms(1) x] assms(3) by simp
  with x show ?thesis by (cases xs) auto
qed

text \<open>Creation is idempotent: once it has run, the alias resolves to an index, and running it again -
  at any later time - answers that the index exists and changes nothing.\<close>

theorem ensure_is_idempotent:
  assumes "cluster_laws C V" and "lookups_answer C V"
    and "ensure_catalogue_index C cfg stamp c = (Inr r, c1)"
  shows "\<exists>i. i \<in> cv_behind V (ic_alias cfg) c1 \<and>
    ensure_catalogue_index C cfg later c1 = (Inr (ensure_reply ''exists'' (ic_alias cfg) i), c1)"
  using ensure_indexD [OF assms(3) [unfolded ensure_catalogue_index_def]]
proof (elim disjE conjE exE)
  fix i xs assume e: "c1 = c" "cl_get_alias C (ic_alias cfg) c = Inr (i # xs)"
  then have "i \<in> cv_behind V (ic_alias cfg) c1" using looked_up [OF assms(1) e(2)] by auto
  with e show ?thesis by (auto simp: ensure_catalogue_index_def ensure_existing)
next
  fix c' assume c: "point_alias C (ic_alias cfg) (shared_index_name cfg stamp) c' = (Inr (), c1)"
  have b: "cv_behind V (ic_alias cfg) c1 = {shared_index_name cfg stamp}"
    using swap_exact(1) [OF assms(1,2) c, of "ic_alias cfg"] by simp
  obtain xs where "cl_get_alias C (ic_alias cfg) c1 = Inr (shared_index_name cfg stamp # xs)"
    using lookup_nonempty [OF assms(1,2) b] by blast
  with b show ?thesis by (auto simp: ensure_catalogue_index_def ensure_existing)
qed

text \<open>One failed lookup empties a live catalogue. The creation treats every exception of the alias lookup as
  "the alias does not exist": if the lookup of an alias fails once - the cluster is busy - and the next
  calls succeed, the alias of a catalogue full of documents ends on a new, empty index.\<close>

theorem failed_lookup_empties_catalogue:
  assumes "cluster_laws C V" and "readable V (ic_alias cfg) c (Some D)"
    and "cl_get_alias C (ic_alias cfg) c = Inl e"
    and "cl_create C (shared_index_name cfg stamp) (index_body cfg None None None) c = (Inr (), c1)"
    and "cl_get_alias C (ic_alias cfg) c1 = Inr xs"
    and "ensure_catalogue_index C cfg stamp c = (Inr r, c2)"
  shows "readable V (ic_alias cfg) c2 (Some Map.empty)"
proof -
  let ?a = "ic_alias cfg" and ?n = "shared_index_name cfg stamp"
  have "point_alias C ?a ?n c1 = (Inr (), c2)"
    using assms(6) by (auto simp: ensure_catalogue_index_def ensure_index_def assms(3) then_do_def assms(4) split: prod.splits sum.splits)
  then have u: "cl_update_aliases C (swap_actions ?a ?n (Inr xs)) c1 = (Inr (), c2)" by (simp add: point_alias_def assms(5))
  have "cv_behind V ?a c2 = {?n}"
    using updated(2) [OF assms(1) u, of ?a] run_swap [of xs "\<lambda>a. cv_behind V a c1" ?a ?n] looked_up [OF assms(1,5)] by simp
  moreover have "cv_docs V ?n c2 = Some Map.empty"
    using updated(1) [OF assms(1) u, of ?n] created(2) [OF assms(1,4), of ?n] by simp
  ultimately show ?thesis by (simp add: readable_def)
qed

text \<open>If the second lookup fails as well, the alias has two indices behind it, and Elasticsearch refuses writes
  through it.\<close>

lemma failed_lookups_split_alias:
  assumes "cluster_laws C V" "cv_behind V a c = {i}" "cl_get_alias C a c = Inl e" "point_alias C a new c = (Inr (), c')"
  shows "cv_behind V a c' = {new, i}"
proof -
  have "cl_update_aliases C (swap_actions a new (Inl e)) c = (Inr (), c')" using assms(3,4) by (simp add: point_alias_def)
  from updated(2) [OF assms(1) this, of a] show ?thesis by (simp add: run_swap_failed assms(2))
qed

subsection \<open>Deletion\<close>

lemma live_listed:
  assumes "cluster_laws C V" "cl_cat_aliases C (ic_prefix cfg @ ''-*'') c = Inr rows" "prefix (ic_prefix cfg @ ''-'') a" "i \<in> cv_behind V a c"
  shows "VStr i \<in> set (map (\<lambda>a. dict_get a ''index'') (list_aliases C cfg None c))"
proof -
  have "list_ex (\<lambda>r. dict_get r ''alias'' = VStr a \<and> dict_get r ''index'' = VStr i) rows"
    using listed [OF assms(1), of "ic_prefix cfg @ ''-''" c rows a i] assms(2-4) by simp
  then show ?thesis using assms(2)
    by (force simp: list_aliases_def pattern_of_def list_ex_iff dict_get_def image_iff)
qed

text \<open>C30: A live index is not deleted: when the aliases can be listed, a request that names one index never
  removes an index behind an alias of the product, nor takes it from the alias - whatever it answers.\<close>

theorem live_index_survives:
  assumes "cluster_laws C V" and "cl_cat_aliases C (ic_prefix cfg @ ''-*'') c = Inr rows"
    and "prefix (ic_prefix cfg @ ''-'') a" and "i \<in> cv_behind V a c"
    and "plain_expr (py_strip (pstr E payload ''index''))" and "CHR '','' \<notin> set (py_strip (pstr E payload ''index''))"
    and "es_delete_index E ok p C cfg payload (c, d) = (r, c', d')"
  shows "cv_docs V i c' = cv_docs V i c \<and> i \<in> cv_behind V a c'"
proof -
  let ?x = "py_strip (pstr E payload ''index'')"
  note live = live_listed [OF assms(1-4)]
  have "c' = c \<or> (?x \<noteq> i \<and> c' = snd (cl_remove C ?x c))"
    using assms(7) live by (cases "cl_remove C ?x c") (auto simp: es_delete_index_def es_finish_def and_return_def Let_def split: if_splits sum.splits)
  then show ?thesis
  proof
    assume x: "?x \<noteq> i \<and> c' = snd (cl_remove C ?x c)"
    then have ne: "i \<noteq> ?x" by auto
    have "cl_remove C ?x c = (fst (cl_remove C ?x c), c')" using x by simp
    from removed(1,2) [OF assms(1) this assms(5), of i] ne assms(4) show ?thesis
      by (simp add: split_on_no_sep [OF assms(6)])
  qed (use assms(4) in simp)
qed

text \<open>The guard compares the whole text: two names joined by a comma pass it and reach the live index.\<close>

lemma comma_deletes_live_index:
  assumes "cluster_laws C V" "py_strip (pstr E payload ''index'') = x" "plain_expr x" "i \<in> set (split_on CHR '','' x)"
    and "es_delete_index E True p C cfg payload (c, d) = (Ok body, c', d')"
  shows "cv_docs V i c' = None"
proof -
  have "cl_remove C x c = (Inr (), c')"
    using assms(2,5) by (auto simp: es_delete_index_def es_finish_def and_return_def Let_def split: if_splits prod.splits sum.splits)
  from removed(3) [OF assms(1) this assms(3) refl assms(4)] show ?thesis .
qed

subsection \<open>A cluster in memory\<close>

text \<open>Documents per index, alias pairs, and a lookup that fails until the next creation.\<close>

record mem_cluster =
  mc_docs :: "(string \<times> (string \<times> py_dict) list) list"
  mc_alias :: "(string \<times> string) list"
  mc_busy :: bool

definition behind_list :: "string \<Rightarrow> mem_cluster \<Rightarrow> string list" where
  "behind_list a c = map snd (filter (\<lambda>p. fst p = a) (mc_alias c))"

fun mem_action :: "alias_action \<Rightarrow> (string \<times> string) list \<Rightarrow> (string \<times> string) list" where
  "mem_action (AliasAdd i a) xs = (a, i) # filter (\<lambda>p. p \<noteq> (a, i)) xs"
| "mem_action (AliasRemove i a) xs = filter (\<lambda>p. p \<noteq> (a, i)) xs"

definition mem_view :: "mem_cluster cluster_view" where
  "mem_view = \<lparr>cv_docs = \<lambda>i c. map_option map_of (map_of (mc_docs c) i), cv_behind = \<lambda>a c. set (behind_list a c)\<rparr>"

definition mem_create :: "string \<Rightarrow> mem_cluster \<Rightarrow> unit res \<times> mem_cluster" where
  "mem_create i c =
     (case map_of (mc_docs c) i of
        Some _ \<Rightarrow> (Inl (Exn ''resource_already_exists_exception''), c)
      | None \<Rightarrow> (Inr (), c\<lparr>mc_docs := (i, []) # mc_docs c, mc_busy := False\<rparr>))"

definition mem_copy :: "string \<Rightarrow> string \<Rightarrow> mem_cluster \<Rightarrow> unit res \<times> mem_cluster" where
  "mem_copy i j c =
     (case (map_of (mc_docs c) i, map_of (mc_docs c) j) of
        (Some D, Some E) \<Rightarrow> (Inr (), c\<lparr>mc_docs := dict_set j (D @ E) (mc_docs c)\<rparr>)
      | _ \<Rightarrow> (Inl (Exn ''index_not_found_exception''), c))"

definition mem_remove :: "string \<Rightarrow> mem_cluster \<Rightarrow> unit res \<times> mem_cluster" where
  "mem_remove x c =
     (let ns = split_on CHR '','' x in
      if list_all (\<lambda>n. map_of (mc_docs c) n \<noteq> None) ns
      then (Inr (), c\<lparr>mc_docs := filter (\<lambda>p. fst p \<notin> set ns) (mc_docs c), mc_alias := filter (\<lambda>p. snd p \<notin> set ns) (mc_alias c)\<rparr>)
      else (Inl (Exn ''index_not_found_exception''), c))"

definition mem_cl :: "bool \<Rightarrow> mem_cluster cluster" where
  "mem_cl b = \<lparr>cl_create = \<lambda>i _. mem_create i,
     cl_get_alias = \<lambda>a c. if b \<and> mc_busy c then Inl (Exn ''timeout'') else if behind_list a c = [] then Inl (Exn ''404'') else Inr (behind_list a c),
     cl_update_aliases = \<lambda>acts c. (Inr (), c\<lparr>mc_alias := fold mem_action acts (mc_alias c)\<rparr>),
     cl_reindex = mem_copy, cl_remove = mem_remove,
     cl_cat_indices = \<lambda>_ c. Inr (map (\<lambda>p. [(''index'', VStr (fst p))]) (mc_docs c)),
     cl_cat_aliases = \<lambda>_ c. Inr (map (\<lambda>p. [(''alias'', VStr (fst p)), (''index'', VStr (snd p))]) (mc_alias c)),
     cl_get_mapping = \<lambda>_ _. Inr [], cl_get_settings = \<lambda>_ _. Inr [], cl_count = \<lambda>_ _ _. Inr [],
     cl_health = \<lambda>_. Inr [], cl_stats = \<lambda>_. Inr []\<rparr>"

lemma mem_ops:
  "cl_create (mem_cl b) i body = mem_create i" "cl_reindex (mem_cl b) = mem_copy" "cl_remove (mem_cl b) = mem_remove"
  "cl_get_alias (mem_cl b) a c = (if b \<and> mc_busy c then Inl (Exn ''timeout'') else if behind_list a c = [] then Inl (Exn ''404'') else Inr (behind_list a c))"
  "cl_update_aliases (mem_cl b) acts c = (Inr (), c\<lparr>mc_alias := fold mem_action acts (mc_alias c)\<rparr>)"
  "cl_cat_aliases (mem_cl b) p c = Inr (map (\<lambda>p. [(''alias'', VStr (fst p)), (''index'', VStr (snd p))]) (mc_alias c))"
  "cv_docs mem_view i c = map_option map_of (map_of (mc_docs c) i)" "cv_behind mem_view a c = set (behind_list a c)"
  by (simp_all add: mem_cl_def mem_view_def)

lemma mem_behind: "set (behind_list a c) = {i. (a, i) \<in> set (mc_alias c)}"
  by (auto simp: behind_list_def image_iff)

lemma mem_actions:
  "{i. (a, i) \<in> set (fold mem_action acts xs)} = run_actions acts (\<lambda>a. {i. (a, i) \<in> set xs}) a"
proof (induction acts arbitrary: xs)
  case (Cons x acts)
  have "(\<lambda>a. {i. (a, i) \<in> set (mem_action x xs)}) = run_action x (\<lambda>a. {i. (a, i) \<in> set xs})"
    by (cases x) (auto simp: fun_eq_iff)
  then show ?case using Cons.IH [of "mem_action x xs"] by (simp add: run_actions_def)
qed (simp add: run_actions_def)

lemma map_of_filter_keys: "map_of (filter (\<lambda>p. fst p \<notin> K) xs) j = (if j \<in> K then None else map_of xs j)"
  by (induction xs) auto

lemma mem_cluster_laws: "cluster_laws (mem_cl b) mem_view"
proof -
  have "create_law (mem_cl b) mem_view"
    by (auto simp: create_law_def mem_ops mem_create_def behind_list_def split: option.splits)
  moreover have "lookup_law (mem_cl b) mem_view" by (simp add: lookup_law_def mem_ops)
  moreover have "update_law (mem_cl b) mem_view"
    by (auto simp: update_law_def mem_ops mem_behind mem_actions)
  moreover have "reindex_law (mem_cl b) mem_view"
    by (auto simp: reindex_law_def mem_ops mem_copy_def behind_list_def map_add_def split: option.splits)
  moreover have "remove_law (mem_cl b) mem_view"
    by (auto simp: remove_law_def mem_ops mem_remove_def mem_behind map_of_filter_keys Let_def)
  moreover have "cat_law (mem_cl b) mem_view"
    by (force simp: cat_law_def mem_ops mem_behind list_ex_iff dict_get_def)
  ultimately show ?thesis by (simp add: cluster_laws_def)
qed

lemma mem_lookups_answer: "lookups_answer (mem_cl False) mem_view"
  by (simp add: lookups_answer_def mem_ops)

definition demo_cluster :: "bool \<Rightarrow> mem_cluster" where
  "demo_cluster busy = \<lparr>mc_docs = [(''old'', [(''t:1'', [(''title'', VStr ''Shoe'')])])], mc_alias = [(''acip-products'', ''old'')], mc_busy = busy\<rparr>"

theorem ensure_is_idempotent_witness:
  "\<exists>i. ensure_catalogue_index (mem_cl False) demo_index ''2'' (demo_cluster False) =
    (Inr (ensure_reply ''exists'' ''acip-products'' i), demo_cluster False)"
proof -
  have "ensure_catalogue_index (mem_cl False) demo_index ''1'' (demo_cluster False) =
    (Inr (ensure_reply ''exists'' ''acip-products'' ''old''), demo_cluster False)"
    by (simp add: ensure_catalogue_index_def ensure_index_def mem_ops behind_list_def demo_index_def demo_cluster_def)
  from ensure_is_idempotent [OF mem_cluster_laws mem_lookups_answer this, of "''2''"]
  show ?thesis by (auto simp: demo_index_def)
qed

text \<open>A reindex of the demonstration catalogue, and back.\<close>

definition there :: "py_dict reply \<times> mem_cluster \<times> db" where
  "there = es_reindex demo_env True PgUp (mem_cl False) demo_index ''2'' [(''source_index'', VStr ''old'')] (demo_cluster False, empty_db)"

definition restored :: "py_dict reply \<times> mem_cluster \<times> db" where
  "restored = es_alias demo_env True PgUp (mem_cl False) demo_index [(''index'', VStr ''old'')] (snd there)"

lemma old_named: "py_strip (pstr demo_env [(''source_index'', VStr ''old'')] ''source_index'') = ''old''"
  "py_strip (pstr demo_env [(''index'', VStr ''old'')] ''index'') = ''old''"
  by (simp_all add: pstr_def dict_get_or_def py_strip_def is_space_def)

lemmas console_defs = es_reindex_def es_alias_def es_finish_def and_return_def reindex_and_swap_def copy_phase_def create_index_def
  then_do_def point_alias_def mem_ops mem_create_def mem_copy_def shared_index_name_def old_named Let_def

lemma there_ok: "fst there = Ok [(''status'', VStr ''reindexed''), (''source_index'', VStr ''old''), (''new_index'', VStr ''acip-catalogue-2'')]"
  by (simp add: there_def console_defs demo_index_def demo_cluster_def)

lemma restored_ok: "fst restored = Ok [(''status'', VStr ''swapped''), (''alias'', VStr ''acip-products''), (''index'', VStr ''old'')]"
  by (simp add: restored_def console_defs demo_index_def dict_get_def py_or_def split: prod.splits)


theorem failed_lookup_empties_catalogue_witness:
  "\<exists>c2. cv_docs mem_view ''old'' (demo_cluster True) \<noteq> Some Map.empty \<and>
    snd (ensure_catalogue_index (mem_cl True) demo_index ''2'' (demo_cluster True)) = c2 \<and>
    readable mem_view ''acip-products'' c2 (Some Map.empty)"
proof -
  let ?r = "ensure_catalogue_index (mem_cl True) demo_index ''2'' (demo_cluster True)"
  have r: "fst ?r = Inr (ensure_reply ''created'' ''acip-products'' ''acip-catalogue-2'')"
    by (simp add: ensure_catalogue_index_def ensure_index_def console_defs behind_list_def demo_index_def demo_cluster_def)
  have s: "readable mem_view (ic_alias demo_index) (demo_cluster True) (Some (map_of [(''t:1'', [(''title'', VStr ''Shoe'')])]))"
    by (simp add: readable_def mem_ops behind_list_def demo_index_def demo_cluster_def)
  have c: "cl_create (mem_cl True) (shared_index_name demo_index ''2'') (index_body demo_index None None None) (demo_cluster True) =
      (Inr (), snd (mem_create ''acip-catalogue-2'' (demo_cluster True)))"
    by (simp add: mem_ops mem_create_def shared_index_name_def demo_index_def demo_cluster_def)
  have l: "cl_get_alias (mem_cl True) (ic_alias demo_index) (demo_cluster True) = Inl (Exn ''timeout'')"
    by (simp add: mem_ops demo_cluster_def)
  have l': "cl_get_alias (mem_cl True) (ic_alias demo_index) (snd (mem_create ''acip-catalogue-2'' (demo_cluster True))) = Inr [''old'']"
    by (simp add: mem_ops mem_create_def behind_list_def demo_index_def demo_cluster_def)
  have "?r = (Inr (ensure_reply ''created'' ''acip-products'' ''acip-catalogue-2''), snd ?r)"
    using r by (simp add: prod_eq_iff)
  from failed_lookup_empties_catalogue [OF mem_cluster_laws s l c l' this]
  show ?thesis by (simp add: demo_index_def mem_ops demo_cluster_def fun_eq_iff)
qed

theorem live_index_survives_witness:
  "''old'' \<in> cv_behind mem_view ''acip-products''
     (fst (snd (es_delete_index demo_env True PgUp (mem_cl False) demo_index [(''index'', VStr ''old'')] (demo_cluster False, empty_db))))"
proof -
  let ?r = "es_delete_index demo_env True PgUp (mem_cl False) demo_index [(''index'', VStr ''old'')] (demo_cluster False, empty_db)"
  have c: "cl_cat_aliases (mem_cl False) (ic_prefix demo_index @ ''-*'') (demo_cluster False) =
      Inr [[(''alias'', VStr ''acip-products''), (''index'', VStr ''old'')]]" by (simp add: mem_ops demo_cluster_def)
  have p: "prefix (ic_prefix demo_index @ ''-'') ''acip-products''" by (simp add: demo_index_def)
  have i: "''old'' \<in> cv_behind mem_view ''acip-products'' (demo_cluster False)" by (simp add: mem_ops behind_list_def demo_cluster_def)
  have x: "plain_expr (py_strip (pstr demo_env [(''index'', VStr ''old'')] ''index''))"
    "CHR '','' \<notin> set (py_strip (pstr demo_env [(''index'', VStr ''old'')] ''index''))"
    by (simp_all add: old_named plain_expr_def)
  have "?r = (fst ?r, fst (snd ?r), snd (snd ?r))" by simp
  from live_index_survives [OF mem_cluster_laws c p i x this] show ?thesis by simp
qed

end
