(* ===== verification/Insight.thy ===== *)
theory Insight
  imports IndexAdmin Isolation V1
begin

text \<open>
  Analytics: \<open>packages/acip_analytics\<close> - the aggregations over the events index (\<open>aggregations.py\<close>), the
  attribution of cost to the assistant (\<open>attribution.py\<close>), the "why" engine (\<open>insight.py\<close>) and the analyst
  (\<open>nl_analyst.py\<close>). A search is a read of an abstract world; the key of a bucket over a keyword field is a
  text, as Elasticsearch documents. \<open>dumps\<close> is \<open>json.dumps\<close>. A Persian text is the list of its bytes.
\<close>

type_synonym 'w agg = "string \<Rightarrow> py_dict \<Rightarrow> 'w \<Rightarrow> py_dict res"

subsection \<open>Aggregations\<close>

definition events_index :: "index_cfg \<Rightarrow> string" where "events_index cfg = ic_prefix cfg @ ''-events''"

definition term_clause :: "string \<Rightarrow> pyv \<Rightarrow> pyv" where
  "term_clause k v = VDict [(''term'', VDict [(k, v)])]"

definition agg_query :: "pyv list \<Rightarrow> string \<Rightarrow> string \<Rightarrow> int \<Rightarrow> py_dict" where
  "agg_query clauses name col n =
     [(''size'', VInt 0), (''query'', VDict [(''bool'', VDict [(''filter'', VList clauses)])]),
      (''aggs'', VDict [(name, VDict [(''terms'', VDict [(''field'', VStr col), (''size'', VInt n)])])])]"

definition tenant_filter :: "tenant \<Rightarrow> pyv" where "tenant_filter t = term_clause ''tenant_id'' (VStr t)"

definition most_wanted_query :: "tenant \<Rightarrow> int \<Rightarrow> py_dict" where
  "most_wanted_query t n = agg_query [tenant_filter t, term_clause ''type'' (VStr ''search'')] ''terms'' ''query.kw'' n"

definition zero_result_query :: "tenant \<Rightarrow> int \<Rightarrow> py_dict" where
  "zero_result_query t n =
     agg_query [tenant_filter t, term_clause ''type'' (VStr ''search''), term_clause ''result_count'' (VInt 0)] ''terms'' ''query.kw'' n"

definition funnel_query :: "tenant \<Rightarrow> py_dict" where
  "funnel_query t = agg_query [tenant_filter t] ''stages'' ''type'' 10"

definition agg_buckets :: "py_dict \<Rightarrow> string \<Rightarrow> pyv list res" where
  "agg_buckets resp name =
     bind_res (attr_get name (VDict []) (dict_get_or resp ''aggregations'' (VDict []))) (\<lambda>a.
     bind_res (attr_get ''buckets'' (VList []) a) py_iter)"

text \<open>\<open>b[k]\<close>.\<close>

definition item_at :: "string \<Rightarrow> pyv \<Rightarrow> pyv res" where
  "item_at k b = (case b of VDict d \<Rightarrow> (case map_of d k of Some v \<Rightarrow> Inr v | None \<Rightarrow> Inl (Exn ''KeyError''))
     | _ \<Rightarrow> Inl (Exn ''TypeError''))"

definition bucket_pair :: "pyv \<Rightarrow> (pyv \<times> pyv) res" where
  "bucket_pair b = bind_res (item_at ''key'' b) (\<lambda>k. bind_res (item_at ''doc_count'' b) (\<lambda>n. Inr (k, n)))"

definition agg_rows :: "'w agg option \<Rightarrow> string \<Rightarrow> py_dict \<Rightarrow> string \<Rightarrow> 'w \<Rightarrow> (pyv \<times> pyv) list res" where
  "agg_rows es i body name w =
     (case es of None \<Rightarrow> Inr []
      | Some f \<Rightarrow> bind_res (f i body w) (\<lambda>resp. bind_res (agg_buckets resp name) (map_res bucket_pair)))"

definition most_wanted :: "'w agg option \<Rightarrow> index_cfg \<Rightarrow> tenant \<Rightarrow> int \<Rightarrow> 'w \<Rightarrow> (pyv \<times> pyv) list res" where
  "most_wanted es cfg t n w = agg_rows es (events_index cfg) (most_wanted_query t n) ''terms'' w"

definition zero_result_terms :: "'w agg option \<Rightarrow> index_cfg \<Rightarrow> tenant \<Rightarrow> int \<Rightarrow> 'w \<Rightarrow> (pyv \<times> pyv) list res" where
  "zero_result_terms es cfg t n w = agg_rows es (events_index cfg) (zero_result_query t n) ''terms'' w"

definition stage_pair :: "pyv \<times> pyv \<Rightarrow> (string \<times> pyv) res" where
  "stage_pair p = (case fst p of VStr k \<Rightarrow> Inr (k, snd p) | _ \<Rightarrow> Inl (Exn ''TypeError''))"

definition funnel :: "'w agg option \<Rightarrow> index_cfg \<Rightarrow> tenant \<Rightarrow> 'w \<Rightarrow> py_dict res" where
  "funnel es cfg t w =
     bind_res (agg_rows es (events_index cfg) (funnel_query t) ''stages'' w) (\<lambda>rows.
     bind_res (map_res stage_pair rows) (\<lambda>ps. Inr (fold (\<lambda>(k, v). dict_set k v) ps [])))"

subsection \<open>Why\<close>

definition num_of :: "pyv \<Rightarrow> real res" where
  "num_of v = (case v of VInt i \<Rightarrow> Inr (of_int i) | VNum x \<Rightarrow> Inr x | VBool b \<Rightarrow> Inr (if b then 1 else 0)
     | _ \<Rightarrow> Inl (Exn ''TypeError''))"

record dropoff =
  df_from :: string
  df_to :: string
  df_rate :: real
  df_count :: pyv

definition stage_order :: "string list" where
  "stage_order = [''search'', ''click'', ''cart'', ''purchase'']"

definition present_stages :: "py_dict \<Rightarrow> (string \<times> pyv) list" where
  "present_stages stages = map (\<lambda>s. (s, dict_get stages s)) (filter (\<lambda>s. map_of stages s \<noteq> None) stage_order)"

fun stage_drops :: "(string \<times> pyv) list \<Rightarrow> dropoff list res" where
  "stage_drops ((a, av) # (b, bv) # rest) =
     bind_res (num_of av) (\<lambda>x.
       if 0 < x then
         bind_res (num_of bv) (\<lambda>y. bind_res (stage_drops ((b, bv) # rest)) (\<lambda>fs.
           Inr (\<lparr>df_from = a, df_to = b, df_rate = py_round 3 (1 - y / x), df_count = av\<rparr> # fs)))
       else stage_drops ((b, bv) # rest))"
| "stage_drops _ = Inr []"

definition funnel_dropoff :: "py_dict \<Rightarrow> dropoff list res" where
  "funnel_dropoff stages = stage_drops (present_stages stages)"

text \<open>\<open>max(dropoffs, key=..., default=None)\<close>: the first of the largest.\<close>

definition biggest_of :: "dropoff list \<Rightarrow> dropoff option" where
  "biggest_of ds = (case ds of [] \<Rightarrow> None
     | d # rest \<Rightarrow> Some (foldl (\<lambda>b x. if df_rate b < df_rate x then x else b) d rest))"

definition trunc :: "real \<Rightarrow> int" where
  "trunc x = (if 0 \<le> x then floor x else ceiling x)"

definition headline :: "'a list \<Rightarrow> dropoff option \<Rightarrow> string" where
  "headline zero biggest =
     (let parts = (if zero = [] then [] else [int_str (int (length zero)) @ '' '' @ [CHR 0xD9, CHR 0xBE, CHR 0xD8, CHR 0xB1, CHR 0xD8, CHR 0xB3, CHR 0xE2, CHR 0x80, CHR 0x8C, CHR
      0xD9, CHR 0x88, CHR 0xD8, CHR 0xAC, CHR 0xD9, CHR 0x88, CHR 0xDB, CHR 0x8C] @ '' '' @ [CHR 0xD8, CHR
      0xA8, CHR 0xD8, CHR 0xAF, CHR 0xD9, CHR 0x88, CHR 0xD9, CHR 0x86] @ '' '' @ [CHR 0xD9, CHR 0x86, CHR
      0xD8, CHR 0xAA, CHR 0xDB, CHR 0x8C, CHR 0xD8, CHR 0xAC, CHR 0xD9, CHR 0x87] @ '' ('' @ [CHR 0xD8, CHR
      0xB4, CHR 0xDA, CHR 0xA9, CHR 0xD8, CHR 0xA7, CHR 0xD9, CHR 0x81] @ '' '' @ [CHR 0xD8, CHR 0xAA, CHR
      0xD9, CHR 0x82, CHR 0xD8, CHR 0xA7, CHR 0xD8, CHR 0xB6, CHR 0xD8, CHR 0xA7] @ '')'']) @
        (case biggest of None \<Rightarrow> []
         | Some d \<Rightarrow> [[CHR 0xD8, CHR 0xA8, CHR 0xDB, CHR 0x8C, CHR 0xD8, CHR 0xB4, CHR 0xD8, CHR 0xAA, CHR 0xD8, CHR 0xB1, CHR
      0xDB, CHR 0x8C, CHR 0xD9, CHR 0x86] @ '' '' @ [CHR 0xD8, CHR 0xB1, CHR 0xDB, CHR 0x8C, CHR 0xD8, CHR
      0xB2, CHR 0xD8, CHR 0xB4] @ '' '' @ [CHR 0xD8, CHR 0xA8, CHR 0xDB, CHR 0x8C, CHR 0xD9, CHR 0x86] @ '' ''
      @ [CHR 0xC2, CHR 0xAB] @ df_from d @ [CHR 0xC2, CHR 0xBB] @ '' '' @ [CHR 0xD9, CHR 0x88] @ '' '' @ [CHR 0xC2, CHR 0xAB] @ df_to d @ [CHR 0xC2, CHR 0xBB] @ '' '' @ ''('' @
              int_str (trunc (df_rate d * 100)) @ [CHR 0xD9, CHR 0xAA] @ '')''])
      in if parts \<noteq> [] then py_join ([CHR 0xD8, CHR 0x9B] @ '' '') parts else [CHR 0xD8, CHR 0xAF, CHR 0xD8, CHR 0xA7, CHR 0xD8, CHR 0xAF, CHR 0xD9, CHR 0x87] @ '' '' @ [CHR 0xDA, CHR
      0xA9, CHR 0xD8, CHR 0xA7, CHR 0xD9, CHR 0x81, CHR 0xDB, CHR 0x8C] @ '' '' @ [CHR 0xD8, CHR 0xA8, CHR
      0xD8, CHR 0xB1, CHR 0xD8, CHR 0xA7, CHR 0xDB, CHR 0x8C] @ '' '' @ [CHR 0xD8, CHR 0xAA, CHR 0xD8, CHR
      0xAD, CHR 0xD9, CHR 0x84, CHR 0xDB, CHR 0x8C, CHR 0xD9, CHR 0x84] @ '' '' @ [CHR 0xD9, CHR 0x88, CHR
      0xD8, CHR 0xAC, CHR 0xD9, CHR 0x88, CHR 0xD8, CHR 0xAF] @ '' '' @ [CHR 0xD9, CHR 0x86, CHR 0xD8, CHR
      0xAF, CHR 0xD8, CHR 0xA7, CHR 0xD8, CHR 0xB1, CHR 0xD8, CHR 0xAF] @ ''.'')"

record why =
  wy_gaps :: "(pyv \<times> pyv) list"
  wy_funnel :: py_dict
  wy_drops :: "dropoff list"
  wy_biggest :: "dropoff option"
  wy_headline :: string

definition why_summary :: "'w agg option \<Rightarrow> index_cfg \<Rightarrow> tenant \<Rightarrow> 'w \<Rightarrow> why res" where
  "why_summary es cfg t w =
     bind_res (zero_result_terms es cfg t 10 w) (\<lambda>zero.
     bind_res (funnel es cfg t w) (\<lambda>stages.
     bind_res (funnel_dropoff stages) (\<lambda>ds.
       Inr \<lparr>wy_gaps = zero, wy_funnel = stages, wy_drops = ds, wy_biggest = biggest_of ds,
            wy_headline = headline zero (biggest_of ds)\<rparr>)))"

subsection \<open>The analyst\<close>

text \<open>The three patterns, case-insensitively on ASCII letters; \<open>a.?b\<close> admits one character but a line feed.\<close>

fun gap_match :: "string \<Rightarrow> string \<Rightarrow> string list \<Rightarrow> bool" where
  "gap_match a b [] = False"
| "gap_match a b (c # cs) =
     ((prefix a (concat (c # cs)) \<and>
       (let r = drop (length a) (c # cs) in
        prefix b (concat r) \<or> (case r of [] \<Rightarrow> False | d # r' \<Rightarrow> d \<noteq> [CHR 0x0A] \<and> prefix b (concat r')))) \<or>
      gap_match a b cs)"

definition any_in :: "string list \<Rightarrow> string \<Rightarrow> bool" where
  "any_in ws q = list_ex (\<lambda>w. str_in w (py_lower q)) ws"

definition asks_zero :: "string \<Rightarrow> bool" where
  "asks_zero q \<longleftrightarrow> any_in [([CHR 0xD8, CHR 0xA8, CHR 0xD8, CHR 0xAF, CHR 0xD9, CHR 0x88, CHR 0xD9, CHR 0x86] @ '' '' @ [CHR 0xD9,
      CHR 0x86, CHR 0xD8, CHR 0xAA, CHR 0xDB, CHR 0x8C, CHR 0xD8, CHR 0xAC, CHR 0xD9, CHR 0x87]), ([CHR 0xD9,
      CHR 0x86, CHR 0xD8, CHR 0xAA, CHR 0xDB, CHR 0x8C, CHR 0xD8, CHR 0xAC, CHR 0xD9, CHR 0x87] @ '' '' @ [CHR
      0xD9, CHR 0x86, CHR 0xD8, CHR 0xAF, CHR 0xD8, CHR 0xA7, CHR 0xD8, CHR 0xB4]), ([CHR 0xD9, CHR 0xBE, CHR
      0xDB, CHR 0x8C, CHR 0xD8, CHR 0xAF, CHR 0xD8, CHR 0xA7] @ '' '' @ [CHR 0xD9, CHR 0x86, CHR 0xD8, CHR
      0xB4, CHR 0xD8, CHR 0xAF])] q \<or>
     gap_match ''zero'' ''result'' (code_points (py_lower q))"

definition asks_wanted :: "string \<Rightarrow> bool" where
  "asks_wanted q \<longleftrightarrow> any_in [[CHR 0xD9, CHR 0xBE, CHR 0xD8, CHR 0xB1, CHR 0xD9, CHR 0x81, CHR 0xD8, CHR 0xB1, CHR 0xD9, CHR 0x88, CHR
      0xD8, CHR 0xB4], [CHR 0xD9, CHR 0x85, CHR 0xD8, CHR 0xAD, CHR 0xD8, CHR 0xA8, CHR 0xD9, CHR 0x88, CHR
      0xD8, CHR 0xA8], [CHR 0xD9, CHR 0xBE, CHR 0xD8, CHR 0xB1, CHR 0xD8, CHR 0xAA, CHR 0xD9, CHR 0x82, CHR
      0xD8, CHR 0xA7, CHR 0xD8, CHR 0xB6, CHR 0xD8, CHR 0xA7], ''popular''] q \<or>
     gap_match ''most'' ''wanted'' (code_points (py_lower q))"

definition asks_why :: "string \<Rightarrow> bool" where
  "asks_why q \<longleftrightarrow> any_in [[CHR 0xDA, CHR 0x86, CHR 0xD8, CHR 0xB1, CHR 0xD8, CHR 0xA7], ''why'', [CHR 0xD8, CHR 0xAF, CHR 0xD9,
      CHR 0x84, CHR 0xDB, CHR 0x8C, CHR 0xD9, CHR 0x84], [CHR 0xD8, CHR 0xB9, CHR 0xD9, CHR 0x84, CHR 0xD8, CHR
      0xAA]] q"

datatype metric = MWhy why | MZero "(pyv \<times> pyv) list" | MWanted "(pyv \<times> pyv) list" | MFunnel py_dict

definition map_ok :: "('a \<Rightarrow> 'b) \<Rightarrow> 'a res \<Rightarrow> 'b res" where
  "map_ok f r = bind_res r (\<lambda>x. Inr (f x))"

definition route_metric :: "'w agg option \<Rightarrow> index_cfg \<Rightarrow> string \<Rightarrow> tenant \<Rightarrow> 'w \<Rightarrow> metric res" where
  "route_metric es cfg question t w =
     (if asks_why question then map_ok MWhy (why_summary es cfg t w)
      else if asks_zero question then map_ok MZero (zero_result_terms es cfg t 20 w)
      else if asks_wanted question then map_ok MWanted (most_wanted es cfg t 20 w)
      else map_ok MFunnel (funnel es cfg t w))"

text \<open>\<open>", ".join(...)\<close> raises on a term that is not a text.\<close>

definition text_of :: "pyv \<Rightarrow> string res" where
  "text_of v = (case v of VStr s \<Rightarrow> Inr s | _ \<Rightarrow> Inl (Exn ''TypeError''))"

definition top_terms :: "string \<Rightarrow> (pyv \<times> pyv) list \<Rightarrow> string res" where
  "top_terms intro data =
     map_ok (\<lambda>ts. let top = py_join '', '' ts in if top = [] then [CHR 0xD9, CHR 0x85, CHR 0xD9, CHR 0x88, CHR 0xD8, CHR 0xB1, CHR 0xD8, CHR 0xAF, CHR 0xDB, CHR 0x8C] @
      '' '' @ [CHR 0xDB, CHR 0x8C, CHR 0xD8, CHR 0xA7, CHR 0xD9, CHR 0x81, CHR 0xD8, CHR 0xAA] @ '' '' @ [CHR
      0xD9, CHR 0x86, CHR 0xD8, CHR 0xB4, CHR 0xD8, CHR 0xAF] @ ''.'' else intro @ top)
       (map_res (\<lambda>p. text_of (fst p)) (take 5 data))"

definition templated :: "(metric \<Rightarrow> string) \<Rightarrow> metric \<Rightarrow> string res" where
  "templated dumps m =
     (case m of
        MWhy y \<Rightarrow> Inr (wy_headline y)
      | MZero d \<Rightarrow> top_terms ([CHR 0xD9, CHR 0xBE, CHR 0xD8, CHR 0xB1, CHR 0xD8, CHR 0xAA, CHR 0xDA, CHR 0xA9, CHR 0xD8, CHR 0xB1, CHR
      0xD8, CHR 0xA7, CHR 0xD8, CHR 0xB1, CHR 0xD8, CHR 0xAA, CHR 0xD8, CHR 0xB1, CHR 0xDB, CHR 0x8C, CHR 0xD9,
      CHR 0x86] @ '' '' @ [CHR 0xD8, CHR 0xAC, CHR 0xD8, CHR 0xB3, CHR 0xD8, CHR 0xAA, CHR 0xD8, CHR 0xAC, CHR
      0xD9, CHR 0x88, CHR 0xD9, CHR 0x87, CHR 0xD8, CHR 0xA7, CHR 0xDB, CHR 0x8C] @ '' '' @ [CHR 0xD8, CHR
      0xA8, CHR 0xD8, CHR 0xAF, CHR 0xD9, CHR 0x88, CHR 0xD9, CHR 0x86] @ '' '' @ [CHR 0xD9, CHR 0x86, CHR
      0xD8, CHR 0xAA, CHR 0xDB, CHR 0x8C, CHR 0xD8, CHR 0xAC, CHR 0xD9, CHR 0x87] @ '': '') d
      | MWanted d \<Rightarrow> top_terms ([CHR 0xD9, CHR 0xBE, CHR 0xD8, CHR 0xB1, CHR 0xD8, CHR 0xAA, CHR 0xD9, CHR 0x82, CHR 0xD8, CHR 0xA7, CHR
      0xD8, CHR 0xB6, CHR 0xD8, CHR 0xA7, CHR 0xD8, CHR 0xAA, CHR 0xD8, CHR 0xB1, CHR 0xDB, CHR 0x8C, CHR 0xD9,
      CHR 0x86] @ '' '' @ [CHR 0xD8, CHR 0xAC, CHR 0xD8, CHR 0xB3, CHR 0xD8, CHR 0xAA, CHR 0xD8, CHR 0xAC, CHR
      0xD9, CHR 0x88, CHR 0xD9, CHR 0x87, CHR 0xD8, CHR 0xA7] @ '': '') d
      | MFunnel d \<Rightarrow> Inr ([CHR 0xD9, CHR 0x82, CHR 0xDB, CHR 0x8C, CHR 0xD9, CHR 0x81] @ '' '' @ [CHR 0xD8, CHR 0xB1, CHR 0xD9, CHR
      0x81, CHR 0xD8, CHR 0xAA, CHR 0xD8, CHR 0xA7, CHR 0xD8, CHR 0xB1] @ '' '' @ [CHR 0xDA, CHR 0xA9, CHR
      0xD8, CHR 0xA7, CHR 0xD8, CHR 0xB1, CHR 0xD8, CHR 0xA8, CHR 0xD8, CHR 0xB1, CHR 0xD8, CHR 0xA7, CHR 0xD9,
      CHR 0x86] @ '': '' @ dumps m))"

definition analyst_system :: string where
  "analyst_system = ''You are a business analyst for this store. You are given ONLY computed'' @
      '' metrics as JSON. Answer the question using these numbers only. Never '' @
      ''invent figures; if the numbers do not answer the question, say so. Ans'' @ ''wer in Persian.''"

definition analyst_messages :: "(metric \<Rightarrow> string) \<Rightarrow> string \<Rightarrow> metric \<Rightarrow> py_dict list" where
  "analyst_messages dumps question m =
     [chat_message ''system'' (VStr analyst_system),
      chat_message ''user'' (VStr ([CHR 0xD8, CHR 0xAF, CHR 0xD8, CHR 0xA7, CHR 0xD8, CHR 0xAF, CHR 0xD9, CHR 0x87, CHR 0xE2, CHR 0x80, CHR
      0x8C, CHR 0xD9, CHR 0x87, CHR 0xD8, CHR 0xA7] @ '': '' @ dumps m @ [CHR 0x0A, CHR 0x0A, CHR 0xD8, CHR 0xB3, CHR 0xD9, CHR 0x88, CHR 0xD8, CHR 0xA7, CHR 0xD9, CHR 0x84] @
      '': '' @ question))]"

record analysis =
  ay_answer :: pyv
  ay_grounding :: metric
  ay_by :: string

type_synonym 'w generator = "py_dict list \<Rightarrow> bool \<Rightarrow> int \<Rightarrow> 'w \<Rightarrow> llm_response res \<times> 'w"

definition by_template :: "(metric \<Rightarrow> string) \<Rightarrow> metric \<Rightarrow> analysis res" where
  "by_template dumps m = map_ok (\<lambda>s. \<lparr>ay_answer = VStr s, ay_grounding = m, ay_by = ''template''\<rparr>) (templated dumps m)"

definition analyze ::
  "(metric \<Rightarrow> string) \<Rightarrow> 'w agg option \<Rightarrow> index_cfg \<Rightarrow> 'w generator option \<Rightarrow> string \<Rightarrow> tenant \<Rightarrow> 'w \<Rightarrow> analysis res \<times> 'w" where
  "analyze dumps es cfg providers question t w =
     (case route_metric es cfg question t w of
        Inl e \<Rightarrow> (Inl e, w)
      | Inr m \<Rightarrow>
          (case providers of
             None \<Rightarrow> (by_template dumps m, w)
           | Some gen \<Rightarrow>
               (case gen (analyst_messages dumps question m) True 512 w of
                  (Inr resp, w1) \<Rightarrow> (Inr \<lparr>ay_answer = lr_text resp, ay_grounding = m, ay_by = ''llm''\<rparr>, w1)
                | (Inl _, w1) \<Rightarrow> (by_template dumps m, w1))))"

subsection \<open>Attribution\<close>

record attribution =
  at_turns :: int
  at_leads :: int
  at_cost :: real
  at_paid :: real
  at_no_paid :: "real option"

text \<open>The fallback has no entry \<open>no_paid_share\<close>.\<close>

definition no_attribution :: attribution where
  "no_attribution = \<lparr>at_turns = 0, at_leads = 0, at_cost = 0, at_paid = 0, at_no_paid = None\<rparr>"

definition count_where :: "('a \<Rightarrow> bool) \<Rightarrow> 'a list \<Rightarrow> int" where
  "count_where P xs = int (length (filter P xs))"

definition attribution_summary :: "pool \<Rightarrow> tenant \<Rightarrow> db \<Rightarrow> store \<Rightarrow> attribution" where
  "attribution_summary p t d st =
     (if p \<noteq> PgUp \<or> \<not> valid_uuid t then no_attribution
      else
        let turns = count_where (\<lambda>r. us_tenant r = t \<and> us_route r = ''chat'') (usage_events d);
            paid = count_where (\<lambda>r. us_tenant r = t \<and> us_route r = ''chat'' \<and> us_rung r = ''frontier'') (usage_events d)
        in \<lparr>at_turns = turns, at_leads = count_where (\<lambda>r. ld_tenant r = t) (leads st),
            at_cost = sum_list (map us_cost (filter (\<lambda>r. us_tenant r = t) (usage_events d))),
            at_paid = (if turns = 0 then 0 else of_int paid / of_int turns),
            at_no_paid = Some (if turns = 0 then 1 else 1 - of_int paid / of_int turns)\<rparr>)"

text \<open>\<open>percentile_disc(0.95)\<close>: the first value whose rank reaches 95 percent.\<close>

definition percentile_95 :: "int list \<Rightarrow> int option" where
  "percentile_95 xs =
     (if xs = [] then None else Some (sort xs ! (nat (ceiling (95 / 100 * real (length xs))) - 1)))"

definition latencies :: "tenant \<Rightarrow> db \<Rightarrow> int list" where
  "latencies t d = concat (map (\<lambda>r. case us_latency_ms r of None \<Rightarrow> [] | Some x \<Rightarrow> [x]) (filter (\<lambda>r. us_tenant r = t) (usage_events d)))"

record summary4 =
  s4_cost :: real
  s4_no_paid :: real
  s4_p95 :: "int option"
  s4_turns :: int

definition four_dimension_summary :: "pool \<Rightarrow> tenant \<Rightarrow> db \<Rightarrow> store \<Rightarrow> summary4 res" where
  "four_dimension_summary p t d st =
     (let a = attribution_summary p t d st;
          p95 = (if p = PgUp \<and> valid_uuid t then percentile_95 (latencies t d) else None)
      in case at_no_paid a of
           None \<Rightarrow> Inl (Exn ''KeyError: no_paid_share'')
         | Some x \<Rightarrow> Inr \<lparr>s4_cost = at_cost a, s4_no_paid = x, s4_p95 = p95, s4_turns = at_turns a\<rparr>)"

end
