(* ===== verification/SearchConsole.thy ===== *)
theory SearchConsole
  imports Insight
begin

text \<open>
  The dashboards over search and analytics: the store's \<open>tenant_search.py\<close> and the operator's
  \<open>admin_search_insight.py\<close>. Both surfaces run the same analytics, the store's for the tenant of its token,
  the operator's for the tenant named in the request.
\<close>

record 'w console =
  cn_es :: "'w agg option"
  cn_ping :: "'w \<Rightarrow> bool res"
  cn_cluster :: "'w cluster"
  cn_cfg :: index_cfg
  cn_search :: "'w search_service"
  cn_rag :: "'w rag"
  cn_gen :: "'w generator option"
  cn_redis :: "'w redis option"
  cn_repr :: "pyv \<Rightarrow> string"
  cn_dumps :: "metric \<Rightarrow> string"
  cn_to_int :: "pyv \<Rightarrow> int option"
  cn_llm_url :: string

text \<open>\<open>_es_or_default\<close>: the value, and whether the call failed.\<close>

definition es_or_default :: "'a res \<Rightarrow> 'a \<Rightarrow> 'a \<times> bool" where
  "es_or_default r d = (case r of Inl _ \<Rightarrow> (d, True) | Inr x \<Rightarrow> (x, False))"

subsection \<open>Analytics\<close>

record analytics_reply =
  ar_summary :: summary4
  ar_wanted :: "(pyv \<times> pyv) list"
  ar_zero :: "(pyv \<times> pyv) list"
  ar_funnel :: py_dict
  ar_degraded :: bool

definition analytics_of :: "'w console \<Rightarrow> pool \<Rightarrow> tenant \<Rightarrow> 'w \<Rightarrow> db \<Rightarrow> store \<Rightarrow> analytics_reply reply" where
  "analytics_of A p t w d st =
     (let (wanted, d1) = es_or_default (most_wanted (cn_es A) (cn_cfg A) t 20 w) [];
          (zero, d2) = es_or_default (zero_result_terms (cn_es A) (cn_cfg A) t 20 w) [];
          (stages, d3) = es_or_default (funnel (cn_es A) (cn_cfg A) t w) []
      in case four_dimension_summary p t d st of
           Inl _ \<Rightarrow> Err 500 ''internal_error''
         | Inr s \<Rightarrow> Ok \<lparr>ar_summary = s, ar_wanted = wanted, ar_zero = zero, ar_funnel = stages, ar_degraded = d1 \<or> d2 \<or> d3\<rparr>)"

definition tenant_analytics :: "'w console \<Rightarrow> pool \<Rightarrow> principal option \<Rightarrow> 'w \<Rightarrow> db \<Rightarrow> store \<Rightarrow> analytics_reply reply" where
  "tenant_analytics A p pr w d st =
     (case require_tenant pr of
        None \<Rightarrow> Err 401 ''unauthenticated''
      | Some q \<Rightarrow> analytics_of A p (tenant_of q) w d st)"

definition admin_analytics :: "'w console \<Rightarrow> bool \<Rightarrow> pool \<Rightarrow> tenant \<Rightarrow> 'w \<Rightarrow> db \<Rightarrow> store \<Rightarrow> (tenant \<times> analytics_reply) reply" where
  "admin_analytics A ok p t w d st =
     (if \<not> ok then Err 401 ''unauthorized''
      else case analytics_of A p t w d st of Err c m \<Rightarrow> Err c m | Ok r \<Rightarrow> Ok (t, r))"

definition empty_why :: why where
  "empty_why = \<lparr>wy_gaps = [], wy_funnel = [], wy_drops = [], wy_biggest = None, wy_headline = []\<rparr>"

definition tenant_insight :: "'w console \<Rightarrow> principal option \<Rightarrow> 'w \<Rightarrow> (why \<times> bool) reply" where
  "tenant_insight A pr w =
     (case require_tenant pr of
        None \<Rightarrow> Err 401 ''unauthenticated''
      | Some q \<Rightarrow> Ok (es_or_default (why_summary (cn_es A) (cn_cfg A) (tenant_of q) w) empty_why))"

definition admin_insight :: "'w console \<Rightarrow> bool \<Rightarrow> tenant \<Rightarrow> 'w \<Rightarrow> (tenant \<times> why \<times> bool) reply" where
  "admin_insight A ok t w =
     (if \<not> ok then Err 401 ''unauthorized''
      else Ok (t, es_or_default (why_summary (cn_es A) (cn_cfg A) t w) empty_why))"

definition tenant_zero_results :: "'w console \<Rightarrow> principal option \<Rightarrow> 'w \<Rightarrow> ((pyv \<times> pyv) list \<times> bool) reply" where
  "tenant_zero_results A pr w =
     (case require_tenant pr of
        None \<Rightarrow> Err 401 ''unauthenticated''
      | Some q \<Rightarrow> Ok (es_or_default (zero_result_terms (cn_es A) (cn_cfg A) (tenant_of q) 20 w) []))"

definition admin_zero_results :: "'w console \<Rightarrow> bool \<Rightarrow> tenant \<Rightarrow> 'w \<Rightarrow> (tenant \<times> (pyv \<times> pyv) list \<times> bool) reply" where
  "admin_zero_results A ok t w =
     (if \<not> ok then Err 401 ''unauthorized''
      else Ok (t, es_or_default (zero_result_terms (cn_es A) (cn_cfg A) t 20 w) []))"

text \<open>A failed analysis is an empty answer without grounding.\<close>

definition analyst ::
  "'w console \<Rightarrow> bool \<Rightarrow> py_dict \<Rightarrow> tenant \<Rightarrow> 'w \<Rightarrow> (tenant \<times> analysis option \<times> bool) reply \<times> 'w" where
  "analyst A ok payload t w =
     (let question = py_strip (py_str (cn_repr A) (dict_get_or payload ''question'' (VStr []))) in
      if \<not> ok then (Err 401 ''unauthorized'', w)
      else if question = [] then (Err 422 ''invalid_request'', w)
      else
        let (r, w1) = analyze (cn_dumps A) (cn_es A) (cn_cfg A) (cn_gen A) question t w;
            (a, degraded) = es_or_default (map_ok Some r) None
        in (Ok (t, a, degraded), w1))"

subsection \<open>The state of the assistant\<close>

text \<open>\<open>tenant_doc_count\<close> answers 0 on failure, so that the cluster is asked first whether it is there.\<close>

definition tenant_docs :: "'w console \<Rightarrow> tenant \<Rightarrow> 'w \<Rightarrow> int option \<times> bool" where
  "tenant_docs A t w =
     (if or_else (cn_ping A w) False
      then (Some (tenant_doc_count (cn_to_int A) (cn_cluster A) (cn_cfg A) t w), False)
      else (None, True))"

record assistant_state =
  as_enabled :: bool
  as_configured :: bool
  as_docs :: "int option"
  as_degraded :: bool

definition assistant_status ::
  "'w console \<Rightarrow> pool \<Rightarrow> (string \<times> bool) list \<Rightarrow> principal option \<Rightarrow> 'w \<Rightarrow> assistant_state reply" where
  "assistant_status A p flags pr w =
     (case require_tenant pr of
        None \<Rightarrow> Err 401 ''unauthenticated''
      | Some q \<Rightarrow>
          if p \<noteq> PgUp then Err 500 ''internal_error''
          else
            let (docs, degraded) = tenant_docs A (tenant_of q) w in
            Ok \<lparr>as_enabled = the_or True (map_of flags ''assistant_enabled''), as_configured = cn_llm_url A \<noteq> [],
                as_docs = docs, as_degraded = degraded\<rparr>)"

subsection \<open>Trial searches and turns\<close>

definition test_size :: "'w console \<Rightarrow> py_dict \<Rightarrow> int" where
  "test_size A payload =
     (case cn_to_int A (py_or (dict_get payload ''size'') (VInt 10)) of
        None \<Rightarrow> 10 | Some n \<Rightarrow> min 50 (max 1 n))"

text \<open>The reply of a failed search is empty and flagged.\<close>

definition search_test ::
  "'w console \<Rightarrow> int \<Rightarrow> principal option \<Rightarrow> py_dict \<Rightarrow> 'w \<Rightarrow> (string \<times> search_reply option \<times> bool) reply \<times> 'w" where
  "search_test A lat pr payload w =
     (case require_tenant pr of
        None \<Rightarrow> (Err 401 ''unauthenticated'', w)
      | Some q \<Rightarrow>
          let query = py_strip (py_str (cn_repr A) (dict_get_or payload ''query'' (VStr []))) in
          if query = [] then (Err 422 ''invalid_request'', w)
          else
            let (r, w1) = search (cn_search A) (cn_repr A) lat (tenant_of q) query None (Some (test_size A payload)) None w;
                (x, degraded) = es_or_default (map_ok Some r) None
            in (Ok (query, x, degraded), w1))"

definition agent_test ::
  "'w console \<Rightarrow> int \<Rightarrow> string \<Rightarrow> bool \<Rightarrow> py_dict \<Rightarrow> 'w \<Rightarrow> (tenant \<times> string \<times> rag_reply) reply \<times> 'w" where
  "agent_test A lat token_hex ok payload w =
     (let t = py_strip (py_str (cn_repr A) (dict_get_or payload ''tenant_id'' (VStr [])));
          message = py_strip (py_str (cn_repr A) (dict_get_or payload ''message'' (VStr [])));
          session_id = py_str (cn_repr A) (py_or (dict_get payload ''session_id'') (VStr (''admin-test-'' @ token_hex))) in
      if \<not> ok then (Err 401 ''unauthorized'', w)
      else if t = [] \<or> message = [] then (Err 422 ''invalid_request'', w)
      else case rag_answer (cn_rag A) t session_id message lat w of
             (Inl _, w1) \<Rightarrow> (Err 500 ''agent_error'', w1)
           | (Inr r, w1) \<Rightarrow> (Ok (t, session_id, r), w1))"

definition refusing :: "'w search_service \<Rightarrow> 'w search_service" where
  "refusing V = V\<lparr>sv_es := (\<lambda>_ w. (Inl (Exn ''refused''), w))\<rparr>"

text \<open>
  The filters and the size of the request are handed on as they are. Filters that are no object have no
  \<open>get\<close>; \<open>es_size\<close> is the size that Elasticsearch reads from the value, \<open>None\<close> when it refuses it.
  Either way the search fails after the query was embedded and before a document is read.
\<close>

definition agent_search ::
  "'w console \<Rightarrow> (pyv \<Rightarrow> int option) \<Rightarrow> int \<Rightarrow> bool \<Rightarrow> py_dict \<Rightarrow> 'w \<Rightarrow> (tenant \<times> search_reply) reply \<times> 'w" where
  "agent_search A es_size lat ok payload w =
     (let t = py_strip (py_str (cn_repr A) (dict_get_or payload ''tenant_id'' (VStr [])));
          query = py_strip (py_str (cn_repr A) (dict_get_or payload ''query'' (VStr [])));
          filters = dict_get payload ''filters''; n = dict_get payload ''size'';
          filters_ok = (\<not> truthy filters \<or> (case filters of VDict _ \<Rightarrow> True | _ \<Rightarrow> False));
          fs = (case filters of VDict f \<Rightarrow> Some f | _ \<Rightarrow> None);
          sz = (if truthy n then es_size n else Some 0);
          V = (if filters_ok \<and> sz \<noteq> None then cn_search A else refusing (cn_search A)) in
      if \<not> ok then (Err 401 ''unauthorized'', w)
      else if t = [] \<or> query = [] then (Err 422 ''invalid_request'', w)
      else case search V (cn_repr A) lat t query fs (Some (the_or 0 sz)) None w of
             (Inl _, w1) \<Rightarrow> (Err 500 ''search_error'', w1)
           | (Inr r, w1) \<Rightarrow> (Ok (t, r), w1))"

subsection \<open>Synonyms\<close>

text \<open>The line boundaries of \<open>str.splitlines\<close>.\<close>

definition is_break :: "string \<Rightarrow> bool" where
  "is_break c \<longleftrightarrow> c \<in> {[CHR 0x0A], [CHR 0x0B], [CHR 0x0C], [CHR 0x0D], [CHR 0x1C], [CHR 0x1D], [CHR 0x1E],
     [CHR 0xC2, CHR 0x85], [CHR 0xE2, CHR 0x80, CHR 0xA8], [CHR 0xE2, CHR 0x80, CHR 0xA9]}"

fun split_breaks :: "string \<Rightarrow> string list \<Rightarrow> string list" where
  "split_breaks cur [] = (if cur = [] then [] else [cur])"
| "split_breaks cur (c # cs) =
     (if c = [CHR 0x0D] then
        cur # (case cs of [] \<Rightarrow> [] | d # ds \<Rightarrow> if d = [CHR 0x0A] then split_breaks [] ds else split_breaks [] cs)
      else if is_break c then cur # split_breaks [] cs
      else split_breaks (cur @ c) cs)"

definition splitlines :: "string \<Rightarrow> string list" where
  "splitlines s = split_breaks [] (code_points s)"

definition syn_key :: "tenant \<Rightarrow> string" where "syn_key t = ''synonyms:'' @ t"

definition synonyms_of :: "'w redis option \<Rightarrow> tenant \<Rightarrow> 'w \<Rightarrow> string list reply" where
  "synonyms_of redis t w =
     (case redis of
        None \<Rightarrow> Ok []
      | Some R \<Rightarrow> (case rd_get R (syn_key t) w of
          Inl _ \<Rightarrow> Err 500 ''internal_error''
        | Inr (Some (VStr raw)) \<Rightarrow> Ok (splitlines raw)
        | Inr _ \<Rightarrow> Ok []))"

definition save_synonyms :: "(pyv \<Rightarrow> string) \<Rightarrow> 'w redis option \<Rightarrow> tenant \<Rightarrow> py_dict \<Rightarrow> 'w \<Rightarrow> int reply \<times> 'w" where
  "save_synonyms repr redis t payload w =
     (case dict_get_or payload ''synonyms'' (VList []) of
        VList lines \<Rightarrow>
          (case redis of
             None \<Rightarrow> (Ok (int (length lines)), w)
           | Some R \<Rightarrow>
               (case rd_set R (syn_key t) (VStr (py_join [CHR 0x0A] (map (py_str repr) lines))) None w of
                  (Inl _, w1) \<Rightarrow> (Err 500 ''internal_error'', w1)
                | (Inr _, w1) \<Rightarrow> (Ok (int (length lines)), w1)))
      | _ \<Rightarrow> (Err 422 ''invalid_request'', w))"

definition get_synonyms :: "'w console \<Rightarrow> principal option \<Rightarrow> 'w \<Rightarrow> string list reply" where
  "get_synonyms A pr w =
     (case require_tenant pr of
        None \<Rightarrow> Err 401 ''unauthenticated''
      | Some q \<Rightarrow> synonyms_of (cn_redis A) (tenant_of q) w)"

definition set_synonyms :: "'w console \<Rightarrow> principal option \<Rightarrow> py_dict \<Rightarrow> 'w \<Rightarrow> int reply \<times> 'w" where
  "set_synonyms A pr payload w =
     (case require_tenant pr of
        None \<Rightarrow> (Err 401 ''unauthenticated'', w)
      | Some q \<Rightarrow> save_synonyms (cn_repr A) (cn_redis A) (tenant_of q) payload w)"

definition admin_get_synonyms :: "'w console \<Rightarrow> bool \<Rightarrow> tenant \<Rightarrow> 'w \<Rightarrow> string list reply" where
  "admin_get_synonyms A ok t w = (if \<not> ok then Err 401 ''unauthorized'' else synonyms_of (cn_redis A) t w)"

definition admin_set_synonyms :: "'w console \<Rightarrow> bool \<Rightarrow> tenant \<Rightarrow> py_dict \<Rightarrow> 'w \<Rightarrow> int reply \<times> 'w" where
  "admin_set_synonyms A ok t payload w =
     (if \<not> ok then (Err 401 ''unauthorized'', w) else save_synonyms (cn_repr A) (cn_redis A) t payload w)"

end
