(* ===== verification/InsightProps.thy ===== *)
theory InsightProps
  imports SearchConsole
begin

text \<open>
  What the dashboards promise: the figures of a store depend on its own data only, they need the database
  and never Elasticsearch, the largest drop is the largest, and saved synonyms are read back.
\<close>

subsection \<open>Results\<close>

lemma map_ok_simps [simp]: "map_ok f (Inl e) = Inl e" "map_ok f (Inr x) = Inr (f x)"
  by (simp_all add: map_ok_def)

lemma es_or_default_simps [simp]: "es_or_default (Inl e) d = (d, True)" "es_or_default (Inr x) d = (x, False)"
  by (simp_all add: es_or_default_def)

subsection \<open>Isolation\<close>

text \<open>
  An aggregation is computed from the documents that pass the filter of its query: that is all that is used
  of Elasticsearch. \<open>evs\<close> are the documents of the events index.
\<close>

definition events_scoped :: "'w agg \<Rightarrow> string \<Rightarrow> ('w \<Rightarrow> py_dict list) \<Rightarrow> bool" where
  "events_scoped f i evs \<longleftrightarrow> (\<forall>clauses name col n w w'.
     filter (\<lambda>e. list_all (clause_ok e) clauses) (evs w) = filter (\<lambda>e. list_all (clause_ok e) clauses) (evs w') \<longrightarrow>
     f i (agg_query clauses name col n) w = f i (agg_query clauses name col n) w')"

definition own_events :: "tenant \<Rightarrow> py_dict list \<Rightarrow> py_dict list" where
  "own_events t es = filter (\<lambda>e. clause_ok e (tenant_filter t)) es"

lemma scoped_filter:
  assumes "own_events t es = own_events t es'"
  shows "filter (\<lambda>e. list_all (clause_ok e) (tenant_filter t # cs)) es = filter (\<lambda>e. list_all (clause_ok e) (tenant_filter t # cs)) es'"
proof -
  have "filter (\<lambda>e. list_all (clause_ok e) (tenant_filter t # cs)) xs = filter (\<lambda>e. list_all (clause_ok e) cs) (own_events t xs)" for xs
    by (simp add: own_events_def conj_commute)
  with assms show ?thesis by metis
qed

lemma agg_rows_scoped:
  assumes "\<And>f. es = Some f \<Longrightarrow> events_scoped f i evs" "own_events t (evs w) = own_events t (evs w')"
  shows "agg_rows es i (agg_query (tenant_filter t # cs) name col n) name w = agg_rows es i (agg_query (tenant_filter t # cs) name col n) name w'"
proof (cases es)
  case (Some f)
  have "f i (agg_query (tenant_filter t # cs) name col n) w = f i (agg_query (tenant_filter t # cs) name col n) w'"
    using assms(1) [OF Some] scoped_filter [OF assms(2)] unfolding events_scoped_def by blast
  with Some show ?thesis by (simp add: agg_rows_def)
qed (simp add: agg_rows_def)

lemma runners_scoped:
  assumes "\<And>f. es = Some f \<Longrightarrow> events_scoped f (events_index cfg) evs" "own_events t (evs w) = own_events t (evs w')"
  shows "most_wanted es cfg t n w = most_wanted es cfg t n w'"
    "zero_result_terms es cfg t n w = zero_result_terms es cfg t n w'"
    "funnel es cfg t w = funnel es cfg t w'" "why_summary es cfg t w = why_summary es cfg t w'"
proof -
  note a = agg_rows_scoped [OF assms]
  show m: "most_wanted es cfg t n w = most_wanted es cfg t n w'"
    and z: "zero_result_terms es cfg t n w = zero_result_terms es cfg t n w'" for n
    using a by (simp_all add: most_wanted_def most_wanted_query_def zero_result_terms_def zero_result_query_def)
  show f: "funnel es cfg t w = funnel es cfg t w'" using a by (simp add: funnel_def funnel_query_def)
  show "why_summary es cfg t w = why_summary es cfg t w'" using z f by (simp add: why_summary_def)
qed

definition own_rows :: "tenant \<Rightarrow> db \<Rightarrow> store \<Rightarrow> usage_row list \<times> lead_row list" where
  "own_rows t d st = (filter (\<lambda>r. us_tenant r = t) (usage_events d), filter (\<lambda>r. ld_tenant r = t) (leads st))"

lemma count_own:
  assumes "filter P xs = filter P ys"
  shows "count_where (\<lambda>r. P r \<and> Q r) xs = count_where (\<lambda>r. P r \<and> Q r) ys"
proof -
  have "filter (\<lambda>r. P r \<and> Q r) zs = filter Q (filter P zs)" for zs by (simp add: conj_commute)
  then show ?thesis unfolding count_where_def using assms by metis
qed

lemma summary_scoped:
  assumes "own_rows t d st = own_rows t d' st'"
  shows "four_dimension_summary p t d st = four_dimension_summary p t d' st'"
proof -
  have u: "filter (\<lambda>r. us_tenant r = t) (usage_events d) = filter (\<lambda>r. us_tenant r = t) (usage_events d')"
    and l: "filter (\<lambda>r. ld_tenant r = t) (leads st) = filter (\<lambda>r. ld_tenant r = t) (leads st')"
    using assms by (simp_all add: own_rows_def)
  have "attribution_summary p t d st = attribution_summary p t d' st'"
    using count_own [OF u, of "\<lambda>r. us_route r = ''chat''"] count_own [OF u, of "\<lambda>r. us_route r = ''chat'' \<and> us_rung r = ''frontier''"]
    by (simp add: attribution_summary_def Let_def u count_where_def l)
  moreover have "latencies t d = latencies t d'" by (simp add: latencies_def u)
  ultimately show ?thesis unfolding four_dimension_summary_def Let_def by (simp only:)
qed

text \<open>A store's figures depend on its own data only. Take two states of the world that agree on the events, the
  usage rows and the leads of one store and differ in anything else - the other stores' data included: the
  analytics page, the insight page and the zero-result page of the store answer the same in both.\<close>

theorem analytics_tenant_isolated:
  assumes "require_tenant pr = Some q" and "\<And>f. cn_es A = Some f \<Longrightarrow> events_scoped f (events_index (cn_cfg A)) evs"
    and "own_events (tenant_of q) (evs w) = own_events (tenant_of q) (evs w')"
    and "own_rows (tenant_of q) d st = own_rows (tenant_of q) d' st'"
  shows "tenant_analytics A p pr w d st = tenant_analytics A p pr w' d' st' \<and>
    tenant_insight A pr w = tenant_insight A pr w' \<and> tenant_zero_results A pr w = tenant_zero_results A pr w'"
proof -
  note r = runners_scoped [OF assms(2,3)] and s = summary_scoped [OF assms(4), of p]
  show ?thesis
    by (simp only: tenant_analytics_def analytics_of_def tenant_insight_def tenant_zero_results_def assms(1) option.case r s)
qed

subsection \<open>Degradation\<close>

lemma summary_iff: "(\<exists>s. four_dimension_summary p t d st = Inr s) \<longleftrightarrow> p = PgUp \<and> valid_uuid t"
  by (simp add: four_dimension_summary_def attribution_summary_def no_attribution_def Let_def)

text \<open>The analytics page needs the database and nothing else: for a signed-in store it answers exactly when the
  pool is up and the store's id is a UUID - then whatever Elasticsearch does, an outage showing as empty
  lists and the flag - and is an internal error otherwise, although the attribution behind it has a reply
  for a database that is down.\<close>

theorem analytics_need_only_database:
  assumes "require_tenant pr = Some q"
  shows "(\<exists>r. tenant_analytics A p pr w d st = Ok r \<and>
      (ar_degraded r \<or> most_wanted (cn_es A) (cn_cfg A) (tenant_of q) 20 w = Inr (ar_wanted r))) =
    (p = PgUp \<and> valid_uuid (tenant_of q)) \<and>
    ((p = PgUp \<and> valid_uuid (tenant_of q)) \<or> tenant_analytics A p pr w d st = Err 500 ''internal_error'')"
proof (cases "p = PgUp \<and> valid_uuid (tenant_of q)")
  case True
  then obtain s where s: "four_dimension_summary p (tenant_of q) d st = Inr s" using summary_iff by metis
  obtain r where r: "tenant_analytics A p pr w d st = Ok r"
      "ar_wanted r = fst (es_or_default (most_wanted (cn_es A) (cn_cfg A) (tenant_of q) 20 w) [])"
      "snd (es_or_default (most_wanted (cn_es A) (cn_cfg A) (tenant_of q) 20 w) []) \<longrightarrow> ar_degraded r"
    by (simp add: s tenant_analytics_def analytics_of_def assms Let_def split_def)
  then have "ar_degraded r \<or> most_wanted (cn_es A) (cn_cfg A) (tenant_of q) 20 w = Inr (ar_wanted r)"
    by (cases "most_wanted (cn_es A) (cn_cfg A) (tenant_of q) 20 w") simp_all
  with r(1) True show ?thesis by auto
next
  case False
  then obtain e where "four_dimension_summary p (tenant_of q) d st = Inl e" using summary_iff by (metis old.sum.exhaust)
  with False show ?thesis by (simp add: tenant_analytics_def analytics_of_def assms Let_def split_def)
qed

subsection \<open>The largest drop\<close>

lemma foldl_max:
  "foldl (\<lambda>b x. if df_rate b < df_rate x then x else b) d ds \<in> set (d # ds) \<and>
   (\<forall>x\<in>set (d # ds). df_rate x \<le> df_rate (foldl (\<lambda>b x. if df_rate b < df_rate x then x else b) d ds))"
proof (induction ds arbitrary: d)
  case (Cons y ds)
  from Cons [of "if df_rate d < df_rate y then y else d"] show ?case by (auto split: if_splits)
qed simp

lemma biggest_ofD:
  assumes "biggest_of ds = Some b"
  shows "b \<in> set ds" "x \<in> set ds \<Longrightarrow> df_rate x \<le> df_rate b"
proof -
  obtain d rest where ds: "ds = d # rest" "b = foldl (\<lambda>b x. if df_rate b < df_rate x then x else b) d rest"
    using assms by (auto simp: biggest_of_def split: list.splits)
  show "b \<in> set ds" "x \<in> set ds \<Longrightarrow> df_rate x \<le> df_rate b" using foldl_max [of d rest] unfolding ds by blast+
qed

lemma biggest_of_None: "biggest_of ds = None \<longleftrightarrow> ds = []"
  by (auto simp: biggest_of_def split: list.splits)

lemma round_le_1: "x \<le> 1 \<Longrightarrow> py_round 3 x \<le> 1"
proof -
  assume "x \<le> 1"
  then have "round_even (x * 1000) \<le> 1000"
  proof (cases "x = 1")
    case False
    with \<open>x \<le> 1\<close> have "floor (x * 1000) < 1000" by linarith
    then show ?thesis by (simp add: round_even_def Let_def)
  qed (simp add: round_even_def)
  then show ?thesis by (simp add: py_round_def)
qed

lemma bind_InrD: "bind_res r f = Inr y \<Longrightarrow> \<exists>x. r = Inr x \<and> f x = Inr y"
  by (simp add: bind_res_Inr)

definition counts_nonneg :: "(string \<times> pyv) list \<Rightarrow> bool" where
  "counts_nonneg ps = list_all (\<lambda>(_, v). case num_of v of Inl _ \<Rightarrow> True | Inr x \<Rightarrow> 0 \<le> x) ps"

lemma stage_drops_bound:
  "stage_drops ps = Inr ds \<Longrightarrow> counts_nonneg ps \<Longrightarrow> f \<in> set ds \<Longrightarrow>
   df_rate f \<le> 1 \<and> df_from f \<in> set (map fst ps) \<and> df_to f \<in> set (map fst ps)"
proof (induction ps arbitrary: ds rule: stage_drops.induct)
  case (1 a av b bv rest)
  obtain x where x: "num_of av = Inr x" using bind_InrD [OF "1.prems"(1) [unfolded stage_drops.simps]] by blast
  have nn: "counts_nonneg ((b, bv) # rest)" using "1.prems"(2) by (simp add: counts_nonneg_def)
  show ?case
  proof (cases "0 < x")
    case False
    then have "stage_drops ((b, bv) # rest) = Inr ds" using "1.prems"(1) x by simp
    from "1.IH"(2) [OF False this nn "1.prems"(3)] show ?thesis by auto
  next
    case True
    then obtain y fs where y: "num_of bv = Inr y" "stage_drops ((b, bv) # rest) = Inr fs"
        "ds = \<lparr>df_from = a, df_to = b, df_rate = py_round 3 (1 - y / x), df_count = av\<rparr> # fs"
      using "1.prems"(1) x by (auto simp: bind_res_Inr)
    have "0 \<le> y" using nn y(1) by (simp add: counts_nonneg_def)
    then have "py_round 3 (1 - y / x) \<le> 1" using True by (intro round_le_1) simp
    with "1.IH"(1) [OF True y(2) nn] "1.prems"(3) y(3) show ?thesis by auto
  qed
qed simp_all

text \<open>The headline drop is the largest: whenever the "why" page has figures, no reported drop exceeds 100
  percent or leads from or to a stage outside the funnel, the biggest drop is one of those reported and
  none is larger, and there is none exactly when no drop is reported.\<close>

theorem biggest_dropoff_is_largest:
  assumes "why_summary es cfg t w = Inr y" and "counts_nonneg (present_stages (wy_funnel y))"
  shows "list_all (\<lambda>f. df_rate f \<le> 1 \<and> df_from f \<in> set stage_order \<and> df_to f \<in> set stage_order) (wy_drops y) \<and>
    (case wy_biggest y of None \<Rightarrow> wy_drops y = []
     | Some b \<Rightarrow> b \<in> set (wy_drops y) \<and> list_all (\<lambda>f. df_rate f \<le> df_rate b) (wy_drops y))"
proof -
  have d: "stage_drops (present_stages (wy_funnel y)) = Inr (wy_drops y)" and b: "wy_biggest y = biggest_of (wy_drops y)"
    using assms(1) by (auto simp: why_summary_def bind_res_Inr funnel_dropoff_def)
  have "set (map fst (present_stages (wy_funnel y))) \<subseteq> set stage_order" by (auto simp: present_stages_def)
  with stage_drops_bound [OF d assms(2)]
  have "list_all (\<lambda>f. df_rate f \<le> 1 \<and> df_from f \<in> set stage_order \<and> df_to f \<in> set stage_order) (wy_drops y)"
    unfolding list_all_iff by blast
  then show ?thesis using biggest_ofD [of "wy_drops y"] by (auto simp: b biggest_of_None list_all_iff split: option.splits)
qed

subsection \<open>Synonyms\<close>

definition synonym_line :: "string \<Rightarrow> bool" where
  "synonym_line s \<longleftrightarrow> \<not> list_ex is_break (code_points s) \<and> (s = [] \<or> \<not> is_cont_byte (hd s))"

lemma code_points_append:
  "t = [] \<or> \<not> is_cont_byte (hd t) \<Longrightarrow> code_points (s @ t) = code_points s @ code_points t"
proof (induction s rule: code_points.induct)
  case (2 c cs)
  have tw: "takeWhile is_cont_byte (cs @ t) = takeWhile is_cont_byte cs" "dropWhile is_cont_byte (cs @ t) = dropWhile is_cont_byte cs @ t"
    using "2.prems" by (induction cs) (cases t; simp)+
  from 2 show ?case by (simp add: tw)
qed simp

lemma concat_code_points: "concat (code_points s) = s"
  by (induction s rule: code_points.induct) simp_all

lemma newline_cp: "\<not> is_cont_byte (CHR 0x0A)"
  by (simp add: is_cont_byte_def)

lemma split_breaks_line:
  "\<not> list_ex is_break cs \<Longrightarrow> split_breaks cur (cs @ [CHR 0x0A] # rest) = (cur @ concat cs) # split_breaks [] rest"
  "\<not> list_ex is_break cs \<Longrightarrow> split_breaks cur cs = (if cur @ concat cs = [] then [] else [cur @ concat cs])"
  by (induction cs arbitrary: cur) (auto simp: is_break_def)

lemma join_head: "list_all synonym_line ls \<Longrightarrow> py_join [CHR 0x0A] ls = [] \<or> \<not> is_cont_byte (hd (py_join [CHR 0x0A] ls))"
proof (induction ls rule: induct_list012)
  case (3 x y zs)
  then show ?case by (cases x) (auto simp: synonym_line_def newline_cp)
qed (auto simp: synonym_line_def)

lemma splitlines_join:
  "list_all synonym_line ls \<Longrightarrow> ls = [] \<or> last ls \<noteq> [] \<Longrightarrow> splitlines (py_join [CHR 0x0A] ls) = ls"
proof (induction ls rule: induct_list012)
  case (2 x)
  then show ?case by (simp add: splitlines_def synonym_line_def split_breaks_line(2) concat_code_points)
next
  case (3 x y zs)
  let ?r = "py_join [CHR 0x0A] (y # zs)"
  have h: "?r = [] \<or> \<not> is_cont_byte (hd ?r)" using join_head [of "y # zs"] "3.prems"(1) by simp
  have "code_points (CHR 0x0A # ?r) = [CHR 0x0A] # code_points ?r"
    using h by (cases ?r) simp_all
  then have "code_points (x @ CHR 0x0A # ?r) = code_points x @ [CHR 0x0A] # code_points ?r"
    using code_points_append [of "CHR 0x0A # ?r" x] by (simp add: newline_cp)
  then have "splitlines (x @ CHR 0x0A # ?r) = x # splitlines ?r"
    using "3.prems"(1) by (simp add: splitlines_def synonym_line_def split_breaks_line(1) concat_code_points)
  moreover have "splitlines ?r = y # zs" by (rule "3.IH"(2)) (use "3.prems" in auto)
  ultimately show ?case by simp
qed (simp add: splitlines_def)

text \<open>Saved synonyms are read back: lines without a line boundary, the last of them not empty, that the store
  saves are exactly what its page and the operator's page show next, and the entries of other stores are
  as before.\<close>

theorem synonyms_roundtrip:
  assumes "cn_redis A = Some R" and "redis_kv R" and "require_tenant pr = Some q"
    and "list_all synonym_line ls" and "ls = [] \<or> last ls \<noteq> []"
    and "set_synonyms A pr [(''synonyms'', VList (map VStr ls))] w = (Ok n, w')"
  shows "get_synonyms A pr w' = Ok ls \<and> admin_get_synonyms A True (tenant_of q) w' = Ok ls \<and> n = int (length ls) \<and>
    (t = tenant_of q \<or> admin_get_synonyms A True t w' = admin_get_synonyms A True t w)"
proof -
  have j: "map (py_str (cn_repr A)) (map VStr ls) = ls" by (induction ls) simp_all
  let ?set = "rd_set R (syn_key (tenant_of q)) (VStr (py_join [CHR 0x0A] ls)) None w"
  have s: "fst ?set = Inr ()" "w' = snd ?set" "n = int (length ls)"
    using assms(6) by (auto simp: set_synonyms_def assms(1,3) save_synonyms_def dict_get_or_def j simp del: map_map split: prod.splits sum.splits)
  have g: "rd_get R (syn_key (tenant_of q)) w' = Inr (Some (VStr (py_join [CHR 0x0A] ls)))"
    and o: "t \<noteq> tenant_of q \<Longrightarrow> rd_get R (syn_key t) w' = rd_get R (syn_key t) w"
    using assms(2) s(1) by (auto simp: s(2) redis_kv_def syn_key_def)
  have "t = tenant_of q \<or> admin_get_synonyms A True t w' = admin_get_synonyms A True t w"
    using o by (cases "t = tenant_of q") (simp_all add: admin_get_synonyms_def synonyms_of_def assms(1))
  with g show ?thesis
    by (simp add: get_synonyms_def admin_get_synonyms_def assms(1,3) synonyms_of_def splitlines_join [OF assms(4,5)] s(3))
qed

subsection \<open>Demonstrations\<close>

definition no_cluster :: "'w cluster" where
  "no_cluster = \<lparr>cl_create = \<lambda>_ _ w. (Inl (Exn []), w), cl_get_alias = \<lambda>_ _. Inl (Exn []), cl_update_aliases = \<lambda>_ w. (Inl (Exn []), w),
     cl_reindex = \<lambda>_ _ w. (Inl (Exn []), w), cl_remove = \<lambda>_ w. (Inl (Exn []), w), cl_cat_indices = \<lambda>_ _. Inl (Exn []),
     cl_cat_aliases = \<lambda>_ _. Inl (Exn []), cl_get_mapping = \<lambda>_ _. Inl (Exn []), cl_get_settings = \<lambda>_ _. Inl (Exn []),
     cl_count = \<lambda>_ _ _. Inl (Exn []), cl_health = \<lambda>_. Inl (Exn []), cl_stats = \<lambda>_. Inl (Exn [])\<rparr>"

definition demo_console :: "'w agg option \<Rightarrow> 'w redis option \<Rightarrow> 'w console" where
  "demo_console es redis = \<lparr>cn_es = es, cn_ping = \<lambda>_. Inr False, cn_cluster = no_cluster,
     cn_cfg = \<lparr>ic_shards = 1, ic_replicas = 1, ic_dims = 2, ic_prefix = ''acip'', ic_alias = ''acip-products'', ic_orders_alias = ''acip-orders''\<rparr>,
     cn_search = \<lparr>sv_es = \<lambda>_ w. (Inl (Exn []), w), sv_embed = None, sv_redis = redis, sv_meter = None, sv_reranker = None, sv_cfg = demo_search_cfg\<rparr>,
     cn_rag = \<lparr>ra_router = demo_router, ra_env = demo_turn, ra_memory = None, ra_version = None\<rparr>,
     cn_gen = None, cn_redis = redis, cn_repr = \<lambda>_. [], cn_dumps = \<lambda>_. [], cn_to_int = \<lambda>_. None, cn_llm_url = []\<rparr>"

text \<open>An events index in memory that counts the events which pass the filter, under one key.\<close>

definition body_clauses :: "py_dict \<Rightarrow> pyv list" where
  "body_clauses body = items_of (sub ''filter'' (sub ''bool'' (dict_get body ''query'')))"

definition counting :: "py_dict list agg" where
  "counting i body es =
     (let n = length (filter (\<lambda>e. list_all (clause_ok e) (body_clauses body)) es);
          bs = VDict [(''buckets'', VList [VDict [(''key'', VStr ''search''), (''doc_count'', VInt (int n))]])]
      in Inr [(''aggregations'', VDict [(''terms'', bs), (''stages'', bs)])])"

lemma counting_scoped: "events_scoped counting i (\<lambda>es. es)"
proof -
  have "body_clauses (agg_query cs name col n) = cs" for cs name col n
    by (simp add: body_clauses_def agg_query_def sub_def dict_get_def)
  then show ?thesis by (simp add: events_scoped_def counting_def Let_def)
qed

definition demo_event :: "tenant \<Rightarrow> py_dict" where
  "demo_event t = [(''tenant_id'', VStr t), (''type'', VStr ''search''), (''result_count'', VInt 0)]"

definition shop :: tenant where "shop = ''00000000-0000-0000-0000-00000000000a''"
definition shop_owner :: principal where "shop_owner = demo_owner\<lparr>pp_tenant := Some shop\<rparr>"

lemma shop_owner_signed_in: "require_tenant (Some shop_owner) = Some shop_owner" "tenant_of shop_owner = shop" "valid_uuid shop"
  by (simp_all add: require_tenant_def demo_owner_def shop_owner_def tenant_of_def shop_def valid_uuid_def strip_chars_def
      is_hex_digit_def is_digit_def Let_def)

theorem analytics_tenant_isolated_witness:
  "tenant_analytics (demo_console (Some counting) None) PgUp (Some shop_owner) [demo_event shop] empty_db empty_store =
   tenant_analytics (demo_console (Some counting) None) PgUp (Some shop_owner) [demo_event shop, demo_event ''t2''] empty_db empty_store"
proof -
  have "own_events (tenant_of shop_owner) [demo_event shop] = own_events (tenant_of shop_owner) [demo_event shop, demo_event ''t2'']"
    by (simp add: shop_owner_signed_in own_events_def demo_event_def clause_ok_def tenant_filter_def term_clause_def sub_def dict_get_def
        shop_def)
  from analytics_tenant_isolated [where evs = "\<lambda>es. es", OF shop_owner_signed_in(1) _ this refl, of "demo_console (Some counting) None" PgUp]
  show ?thesis by (simp add: demo_console_def counting_scoped)
qed

theorem analytics_need_only_database_witness:
  "tenant_analytics (demo_console (Some counting) None) PgDown (Some shop_owner) [] empty_db empty_store = Err 500 ''internal_error''"
  using analytics_need_only_database [OF shop_owner_signed_in(1), of "demo_console (Some counting) None" PgDown "[]" empty_db empty_store] by simp

definition two_stages :: "unit agg" where
  "two_stages i body w = Inr [(''aggregations'', VDict [(''stages'', VDict [(''buckets'', VList
     [VDict [(''key'', VStr ''search''), (''doc_count'', VInt 4)], VDict [(''key'', VStr ''click''), (''doc_count'', VInt 1)]])])])]"

theorem biggest_dropoff_is_largest_witness:
  "\<exists>y b. why_summary (Some two_stages) (cn_cfg (demo_console (Some two_stages) None)) ''t1'' () = Inr y \<and> wy_biggest y = Some b \<and>
     b \<in> set (wy_drops y)"
proof -
  let ?cfg = "cn_cfg (demo_console (Some two_stages) None)"
  let ?d = "\<lparr>df_from = ''search'', df_to = ''click'', df_rate = py_round 3 (1 - 1 / 4), df_count = VInt 4\<rparr>"
  let ?st = "[(''search'', VInt 4), (''click'', VInt 1)]"
  have f: "funnel (Some two_stages) ?cfg ''t1'' () = Inr ?st"
    by (simp add: funnel_def agg_rows_def two_stages_def agg_buckets_def attr_get_def dict_get_or_def py_iter_def bucket_pair_def
        item_at_def stage_pair_def)
  have z: "zero_result_terms (Some two_stages) ?cfg ''t1'' 10 () = Inr []"
    by (simp add: zero_result_terms_def agg_rows_def two_stages_def agg_buckets_def attr_get_def dict_get_or_def py_iter_def)
  have p: "present_stages ?st = ?st" by (simp add: present_stages_def stage_order_def dict_get_def)
  have d: "funnel_dropoff ?st = Inr [?d]" by (simp add: funnel_dropoff_def p num_of_def)
  have w: "why_summary (Some two_stages) ?cfg ''t1'' () = Inr \<lparr>wy_gaps = [], wy_funnel = ?st, wy_drops = [?d], wy_biggest = biggest_of [?d],
      wy_headline = headline ([] :: (pyv \<times> pyv) list) (biggest_of [?d])\<rparr>" (is "_ = Inr ?y")
    unfolding why_summary_def by (simp add: f z d del: py_round_def)
  have "counts_nonneg (present_stages (wy_funnel ?y))" by (simp add: p counts_nonneg_def num_of_def)
  from biggest_dropoff_is_largest [OF w this] have "case wy_biggest ?y of None \<Rightarrow> wy_drops ?y = [] | Some b \<Rightarrow> b \<in> set (wy_drops ?y)"
    by (auto split: option.splits)
  moreover have "wy_biggest ?y = Some ?d" by (simp add: biggest_of_def)
  ultimately show ?thesis using w by auto
qed

theorem synonyms_roundtrip_witness:
  "get_synonyms (demo_console None (Some mem_redis)) (Some shop_owner)
     (snd (set_synonyms (demo_console None (Some mem_redis)) (Some shop_owner)
        [(''synonyms'', VList (map VStr [''tv, television'', ''fridge'']))] mem_empty)) = Ok [''tv, television'', ''fridge'']"
proof -
  let ?A = "demo_console None (Some mem_redis)" and ?ls = "[''tv, television'', ''fridge'']"
  have r: "cn_redis ?A = Some mem_redis" by (simp add: demo_console_def)
  have mem_set: "rd_set mem_redis k v n m = (Inr (), m\<lparr>mem_kv := dict_set k v (mem_kv m)\<rparr>)" for k v n m by (simp add: mem_redis_def)
  have "fst (set_synonyms ?A (Some shop_owner) [(''synonyms'', VList (map VStr ?ls))] mem_empty) = Ok 2"
    by (simp add: set_synonyms_def shop_owner_signed_in save_synonyms_def r dict_get_or_def mem_set)
  then have "set_synonyms ?A (Some shop_owner) [(''synonyms'', VList (map VStr ?ls))] mem_empty =
    (Ok 2, snd (set_synonyms ?A (Some shop_owner) [(''synonyms'', VList (map VStr ?ls))] mem_empty))" by (simp add: prod_eq_iff)
  from synonyms_roundtrip [OF r mem_redis_kv shop_owner_signed_in(1) _ _ this]
  show ?thesis by (simp add: synonym_line_def is_break_def is_cont_byte_def)
qed

end
