(* ===== verification/Metrics.thy ===== *)
theory Metrics
  imports PyVal "HOL-Library.List_Lexorder" "HOL-Library.Char_ord"
begin

text \<open>
  The metrics registry of a process (\<open>packages/acip_core/obs.py\<close>): counters, gauges and latency summaries,
  each a dictionary from names to series and a series one from sorted labels to values. \<open>fmt\<close> is the
  number format \<open>:g\<close>. The lock makes each operation atomic.
\<close>

type_synonym labels = "(string \<times> string) list"

record metrics =
  mt_counters :: "(string \<times> (labels \<times> real) list) list"
  mt_gauges :: "(string \<times> (labels \<times> real) list) list"
  mt_summaries :: "(string \<times> (labels \<times> real \<times> real) list) list"

definition no_metrics :: metrics where
  "no_metrics = \<lparr>mt_counters = [], mt_gauges = [], mt_summaries = []\<rparr>"

definition labels_key :: "labels \<Rightarrow> labels" where
  "labels_key ls = sort_key fst ls"

text \<open>An entry of a nested dictionary is updated; a missing one starts at \<open>z\<close>.\<close>

definition upd_cell :: "'v \<Rightarrow> ('v \<Rightarrow> 'v) \<Rightarrow> string \<Rightarrow> labels \<Rightarrow> (string \<times> (labels \<times> 'v) list) list \<Rightarrow> (string \<times> (labels \<times> 'v) list) list" where
  "upd_cell z f name ls d =
     (let series = the_or [] (map_of d name); key = labels_key ls
      in dict_set name (dict_set key (f (the_or z (map_of series key))) series) d)"

definition mt_inc :: "string \<Rightarrow> labels \<Rightarrow> real \<Rightarrow> metrics \<Rightarrow> metrics" where
  "mt_inc name ls v m = m\<lparr>mt_counters := upd_cell 0 (\<lambda>x. x + v) name ls (mt_counters m)\<rparr>"

definition mt_gauge :: "string \<Rightarrow> real \<Rightarrow> labels \<Rightarrow> metrics \<Rightarrow> metrics" where
  "mt_gauge name v ls m = m\<lparr>mt_gauges := upd_cell 0 (\<lambda>_. v) name ls (mt_gauges m)\<rparr>"

definition mt_observe :: "string \<Rightarrow> real \<Rightarrow> labels \<Rightarrow> metrics \<Rightarrow> metrics" where
  "mt_observe name v ls m = m\<lparr>mt_summaries := upd_cell (0, 0) (\<lambda>(s, n). (s + v, n + 1)) name ls (mt_summaries m)\<rparr>"

subsection \<open>The text format\<close>

definition fmt_labels :: "labels \<Rightarrow> string" where
  "fmt_labels key =
     (if key = [] then []
      else ''{'' @ py_join '','' (map (\<lambda>(k, v). k @ [CHR ''='', CHR 0x22] @ v @ [CHR 0x22]) key) @ ''}'')"

definition value_lines :: "(real \<Rightarrow> string) \<Rightarrow> string \<Rightarrow> (string \<times> (labels \<times> real) list) list \<Rightarrow> string list" where
  "value_lines fmt kind d =
     concat (map (\<lambda>(name, series). (''# TYPE '' @ name @ '' '' @ kind) #
       map (\<lambda>(key, v). name @ fmt_labels key @ '' '' @ fmt v) series) d)"

definition summary_lines :: "(real \<Rightarrow> string) \<Rightarrow> (string \<times> (labels \<times> real \<times> real) list) list \<Rightarrow> string list" where
  "summary_lines fmt d =
     concat (map (\<lambda>(name, series). (''# TYPE '' @ name @ '' summary'') #
       concat (map (\<lambda>(key, s, n). [name @ ''_sum'' @ fmt_labels key @ '' '' @ fmt s, name @ ''_count'' @ fmt_labels key @ '' '' @ fmt n]) series)) d)"

definition render :: "(real \<Rightarrow> string) \<Rightarrow> metrics \<Rightarrow> string" where
  "render fmt m =
     py_join [CHR 0x0A]
       ([''# HELP vitrin_build_info Build info.'', ''# TYPE vitrin_build_info gauge'',
         ''vitrin_build_info{version='' @ [CHR 0x22] @ ''0.1.0'' @ [CHR 0x22] @ ''} 1''] @
        value_lines fmt ''counter'' (mt_counters m) @ value_lines fmt ''gauge'' (mt_gauges m) @
        summary_lines fmt (mt_summaries m)) @ [CHR 0x0A]"

subsection \<open>Totals\<close>

definition series_of :: "string \<Rightarrow> (string \<times> (labels \<times> 'v) list) list \<Rightarrow> (labels \<times> 'v) list" where
  "series_of name d = the_or [] (map_of d name)"

definition total :: "string \<Rightarrow> metrics \<Rightarrow> real" where
  "total name m = sum_list (map snd (series_of name (mt_counters m)))"

definition observed :: "string \<Rightarrow> metrics \<Rightarrow> real" where
  "observed name m = sum_list (map (snd \<circ> snd) (series_of name (mt_summaries m)))"

lemma sum_dict_set:
  "sum_list (map (g \<circ> snd) (dict_set k v d)) = sum_list (map (g \<circ> snd) d) + g v - (case map_of d k of None \<Rightarrow> 0 | Some x \<Rightarrow> g x)"
  for g :: "'v \<Rightarrow> real"
  by (induction d) auto

lemma series_upd: "series_of n (upd_cell z f name ls d) =
  (if n = name then dict_set (labels_key ls) (f (the_or z (map_of (series_of name d) (labels_key ls)))) (series_of name d) else series_of n d)"
  by (simp add: series_of_def upd_cell_def Let_def)

lemma total_inc: "total n (mt_inc name ls v m) = total n m + (if n = name then v else 0)"
  by (simp add: total_def mt_inc_def series_upd sum_dict_set [of "\<lambda>x. x", unfolded comp_def] the_or_def split: option.splits)

lemma observed_observe: "observed n (mt_observe name v ls m) = observed n m + (if n = name then 1 else 0)"
  by (simp add: observed_def mt_observe_def series_upd sum_dict_set [of snd, unfolded comp_def] comp_def the_or_def split: option.splits prod.splits)

lemma others_kept [simp]: "total n (mt_observe name v ls m) = total n m" "observed n (mt_inc name ls v m) = observed n m"
  "total n (mt_gauge name v ls m) = total n m" "observed n (mt_gauge name v ls m) = observed n m"
  by (simp_all add: total_def observed_def mt_observe_def mt_inc_def mt_gauge_def)

end
