(* ===== verification/Middleware.thy ===== *)
theory Middleware
  imports Metrics Tokens "HOL-Library.Word"
begin

unbundle bit_operations_syntax

text \<open>
  The middleware of the API: \<open>packages/acip_core/middleware.py\<close>, the error envelope of \<open>errors.py\<close> and the
  stack that \<open>create_app\<close> in \<open>services/api/main.py\<close> builds. An application takes the trace id of its
  context, a request and a state; a middleware turns one application into another. The state is the
  metrics registry and that of the handlers. Header names are in lower case, as Starlette compares them.
  The CORS middleware is a parameter.
\<close>

record request =
  rq_method :: string
  rq_path :: string
  rq_headers :: "(string \<times> string) list"
  rq_cookies :: "(string \<times> string) list"
  rq_host :: "string option"

datatype body = Envelope (env_code: string) (env_request_id: string) | Content pyv

record response =
  rs_status :: nat
  rs_headers :: "(string \<times> string) list"
  rs_body :: body

type_synonym 's app = "string \<Rightarrow> request \<Rightarrow> 's \<Rightarrow> response res \<times> 's"

definition trace_header :: string where "trace_header = ''x-request-id''"
definition csrf_header :: string where "csrf_header = ''x-csrf-token''"
definition no_trace :: string where "no_trace = ''-''"

definition safe_methods :: "string list" where
  "safe_methods = [''GET'', ''HEAD'', ''OPTIONS'', ''TRACE'']"

definition error_response :: "string \<Rightarrow> nat \<Rightarrow> string \<Rightarrow> response" where
  "error_response ctx status code = \<lparr>rs_status = status, rs_headers = [], rs_body = Envelope code ctx\<rparr>"

text \<open>\<open>response.headers[k] = v\<close> and \<open>setdefault\<close>.\<close>

definition put_header :: "string \<Rightarrow> string \<Rightarrow> response \<Rightarrow> response" where
  "put_header k v r = r\<lparr>rs_headers := dict_set k v (rs_headers r)\<rparr>"

definition default_header :: "string \<times> string \<Rightarrow> response \<Rightarrow> response" where
  "default_header kv r = (if map_of (rs_headers r) (fst kv) = None then put_header (fst kv) (snd kv) r else r)"

definition on_response :: "(response \<Rightarrow> response) \<Rightarrow> response res \<times> 's \<Rightarrow> response res \<times> 's" where
  "on_response f x = (case x of (Inl e, s) \<Rightarrow> (Inl e, s) | (Inr r, s) \<Rightarrow> (Inr (f r), s))"

subsection \<open>The middlewares\<close>

definition trace_of :: "string \<Rightarrow> request \<Rightarrow> string" where
  "trace_of fresh rq = (let h = the_or [] (map_of (rq_headers rq) trace_header) in if h = [] then fresh else h)"

definition trace_id_middleware :: "string \<Rightarrow> 's app \<Rightarrow> 's app" where
  "trace_id_middleware fresh app ctx rq s =
     (let t = trace_of fresh rq in on_response (put_header trace_header t) (app t rq s))"

definition requests_total :: string where "requests_total = ''vitrin_http_requests_total''"
definition request_duration :: string where "request_duration = ''vitrin_http_request_duration_seconds''"

text \<open>The \<open>finally\<close> clause counts a raised exception as status 500.\<close>

definition metrics_middleware :: "real \<Rightarrow> (metrics \<times> 'w) app \<Rightarrow> (metrics \<times> 'w) app" where
  "metrics_middleware elapsed app ctx rq s =
     (let (r, (m, w)) = app ctx rq s;
          status = (case r of Inl _ \<Rightarrow> 500 | Inr x \<Rightarrow> rs_status x);
          m1 = mt_inc requests_total [(''method'', rq_method rq), (''status'', nat_str status)] 1 m;
          m2 = mt_observe request_duration elapsed [(''method'', rq_method rq)] m1
      in (r, (m2, w)))"

definition hardening_headers :: "bool \<Rightarrow> (string \<times> string) list" where
  "hardening_headers hsts =
     [(''x-content-type-options'', ''nosniff''), (''x-frame-options'', ''DENY''),
      (''referrer-policy'', ''strict-origin-when-cross-origin''),
      (''permissions-policy'', ''geolocation=(), microphone=(), camera=()''),
      (''content-security-policy'', ''default-src '' @ [CHR 0x27] @ ''none'' @ [CHR 0x27] @ ''; frame-ancestors '' @ [CHR 0x27] @ ''none'' @ [CHR 0x27])] @
     (if hsts then [(''strict-transport-security'', ''max-age=31536000; includeSubDomains'')] else [])"

definition security_headers_middleware :: "bool \<Rightarrow> 's app \<Rightarrow> 's app" where
  "security_headers_middleware hsts app ctx rq s =
     on_response (\<lambda>r. fold default_header (hardening_headers hsts) r) (app ctx rq s)"

definition csrf_exempt :: "string list" where
  "csrf_exempt = [''/auth/'', ''/admin/auth/'', ''/billing/webhook'', ''/contact'']"

definition access_cookie :: "string \<Rightarrow> string" where
  "access_cookie path = (if prefix ''/admin/'' path then ''vitrin_admin_access'' else ''vitrin_access'')"

definition csrf_cookie :: "string \<Rightarrow> string" where
  "csrf_cookie path = (if prefix ''/admin/'' path then ''vitrin_admin_csrf'' else ''vitrin_csrf'')"

text \<open>\<open>hmac.compare_digest\<close> raises on texts that are not ASCII.\<close>

definition compare_digest :: "string \<Rightarrow> string \<Rightarrow> bool res" where
  "compare_digest a b = (if is_ascii a \<and> is_ascii b then Inr (a = b) else Inl (Exn ''TypeError''))"

definition csrf_blocked :: "request \<Rightarrow> string \<Rightarrow> string \<Rightarrow> bool res" where
  "csrf_blocked rq access_name csrf_name =
     (if the_or [] (map_of (rq_cookies rq) access_name) = [] then Inr False
      else
        let header = the_or [] (map_of (rq_headers rq) csrf_header); token = the_or [] (map_of (rq_cookies rq) csrf_name)
        in if header = [] \<or> token = [] then Inr True
           else bind_res (compare_digest header token) (\<lambda>same. Inr (\<not> same)))"

definition csrf_checked :: "request \<Rightarrow> bool" where
  "csrf_checked rq \<longleftrightarrow> rq_method rq \<notin> set safe_methods \<and> list_all (\<lambda>p. \<not> prefix p (rq_path rq)) csrf_exempt \<and>
     map_of (rq_headers rq) ''authorization'' = None"

definition csrf_middleware :: "'s app \<Rightarrow> 's app" where
  "csrf_middleware app ctx rq s =
     (if \<not> csrf_checked rq then app ctx rq s
      else case csrf_blocked rq (access_cookie (rq_path rq)) (csrf_cookie (rq_path rq)) of
             Inl e \<Rightarrow> (Inl e, s)
           | Inr True \<Rightarrow> (Inr (error_response ctx 403 ''csrf_failed''), s)
           | Inr False \<Rightarrow> app ctx rq s)"

subsection \<open>Addresses and networks\<close>

datatype ip = V4 "32 word" | V6 "128 word"
datatype network = N4 "32 word" nat | N6 "128 word" nat

text \<open>Python's \<open>ipaddress\<close> on IPv4 texts; the two functions of \<open>ip6\<close> read IPv6 texts.\<close>

record ip6 =
  i6_addr :: "string \<Rightarrow> 128 word option"
  i6_network :: "string \<Rightarrow> (128 word \<times> nat) option"

definition octet :: "string \<Rightarrow> nat option" where
  "octet s =
     (if s = [] \<or> \<not> list_all is_digit s \<or> 3 < length s \<or> (1 < length s \<and> hd s = CHR ''0'') \<or> 255 < digits_val s then None
      else Some (digits_val s))"

definition v4_addr :: "string \<Rightarrow> 32 word option" where
  "v4_addr s =
     (case map octet (split_on CHR ''.'' s) of
        [Some a, Some b, Some c, Some d] \<Rightarrow> Some (word_of_nat (((a * 256 + b) * 256 + c) * 256 + d))
      | _ \<Rightarrow> None)"

definition netmask :: "nat \<Rightarrow> 32 word" where
  "netmask n = NOT (mask (32 - n))"

text \<open>A prefix length, a netmask or a host mask.\<close>

definition v4_prefix :: "string \<Rightarrow> nat option" where
  "v4_prefix s =
     (if s \<noteq> [] \<and> list_all is_digit s \<and> digits_val s \<le> 32 then Some (digits_val s)
      else case v4_addr s of
             None \<Rightarrow> None
           | Some m \<Rightarrow>
               (case find (\<lambda>n. netmask n = m) [0..<33] of
                  Some n \<Rightarrow> Some n
                | None \<Rightarrow> find (\<lambda>n. NOT (netmask n) = m) [0..<33]))"

definition v4_network :: "string \<Rightarrow> network option" where
  "v4_network s =
     (case split_on CHR ''/'' s of
        [a] \<Rightarrow> map_option (\<lambda>x. N4 x 32) (v4_addr a)
      | [a, m] \<Rightarrow> (case (v4_addr a, v4_prefix m) of (Some x, Some n) \<Rightarrow> Some (N4 (x AND netmask n) n) | _ \<Rightarrow> None)
      | _ \<Rightarrow> None)"

definition ip_network :: "ip6 \<Rightarrow> string \<Rightarrow> network option" where
  "ip_network L s = (case v4_network s of Some n \<Rightarrow> Some n | None \<Rightarrow> map_option (\<lambda>(x, n). N6 x n) (i6_network L s))"

definition ip_address :: "ip6 \<Rightarrow> string \<Rightarrow> ip option" where
  "ip_address L s = (case v4_addr s of Some x \<Rightarrow> Some (V4 x) | None \<Rightarrow> map_option V6 (i6_addr L s))"

fun in_network :: "ip \<Rightarrow> network \<Rightarrow> bool" where
  "in_network (V4 x) (N4 y n) = (x AND netmask n = y)"
| "in_network (V6 x) (N6 y n) = (x AND NOT (mask (128 - n)) = y)"
| "in_network _ _ = False"

text \<open>An entry that is no network stays in the list as a hole, so that a typo closes the operator plane.\<close>

definition allow_networks :: "ip6 \<Rightarrow> string list \<Rightarrow> network option list" where
  "allow_networks L items = map (ip_network L) (filter (\<lambda>x. x \<noteq> []) (map py_strip items))"

definition host_allowed :: "ip6 \<Rightarrow> network option list \<Rightarrow> string option \<Rightarrow> bool" where
  "host_allowed L nets host =
     (case host of
        None \<Rightarrow> False
      | Some h \<Rightarrow> h \<noteq> [] \<and> (case ip_address L h of
          None \<Rightarrow> False
        | Some a \<Rightarrow> list_ex (\<lambda>n. case n of None \<Rightarrow> False | Some x \<Rightarrow> in_network a x) nets))"

definition ip_allowlist_middleware :: "ip6 \<Rightarrow> network option list \<Rightarrow> 's app \<Rightarrow> 's app" where
  "ip_allowlist_middleware L nets app ctx rq s =
     (if nets = [] \<or> \<not> prefix ''/admin'' (rq_path rq) \<or> host_allowed L nets (rq_host rq) then app ctx rq s
      else (Inr (error_response ctx 403 ''ip_not_allowed''), s))"

subsection \<open>The stack\<close>

record stack_cfg =
  sk_allowlist :: string
  sk_metrics :: bool
  sk_csrf :: bool
  sk_headers :: bool
  sk_hsts :: bool

definition comma_list :: "string \<Rightarrow> string list" where
  "comma_list raw = filter (\<lambda>x. x \<noteq> []) (map py_strip (split_on CHR '','' raw))"

definition cors_origins :: "string \<Rightarrow> string \<Rightarrow> string list" where
  "cors_origins raw app_base_url = (if py_strip raw = [] then [app_base_url] else comma_list (py_strip raw))"

definition enabled :: "bool \<Rightarrow> ('s app \<Rightarrow> 's app) \<Rightarrow> 's app \<Rightarrow> 's app" where
  "enabled b mw app = (if b then mw app else app)"

text \<open>\<open>add_middleware\<close> puts the later one outside.\<close>

definition middleware_stack ::
  "ip6 \<Rightarrow> stack_cfg \<Rightarrow> ((metrics \<times> 'w) app \<Rightarrow> (metrics \<times> 'w) app) \<Rightarrow> string \<Rightarrow> real \<Rightarrow> (metrics \<times> 'w) app \<Rightarrow> (metrics \<times> 'w) app" where
  "middleware_stack L cfg cors fresh elapsed handler =
     (let allow = comma_list (sk_allowlist cfg) in
      cors (enabled (sk_headers cfg) (security_headers_middleware (sk_hsts cfg))
        (enabled (sk_csrf cfg) csrf_middleware
          (enabled (sk_metrics cfg) (metrics_middleware elapsed)
            (trace_id_middleware fresh
              (enabled (allow \<noteq> []) (ip_allowlist_middleware L (allow_networks L allow)) handler))))))"

text \<open>\<open>add_exception_handler(Exception, ...)\<close> is the outermost layer: by then no trace id is set.\<close>

definition serve ::
  "ip6 \<Rightarrow> stack_cfg \<Rightarrow> ((metrics \<times> 'w) app \<Rightarrow> (metrics \<times> 'w) app) \<Rightarrow> string \<Rightarrow> real \<Rightarrow> (metrics \<times> 'w) app \<Rightarrow>
   request \<Rightarrow> metrics \<times> 'w \<Rightarrow> response \<times> metrics \<times> 'w" where
  "serve L cfg cors fresh elapsed handler rq s =
     (case middleware_stack L cfg cors fresh elapsed handler no_trace rq s of
        (Inr r, s1) \<Rightarrow> (r, s1)
      | (Inl _, s1) \<Rightarrow> (error_response no_trace 500 ''internal_error'', s1))"

subsection \<open>The session cookies\<close>

text \<open>\<open>_set_auth_cookies\<close> and \<open>_set_admin_cookies\<close>: the two tokens unreadable by scripts, the CSRF token readable.\<close>

record cookie =
  ck_name :: string
  ck_value :: string
  ck_http_only :: bool
  ck_secure :: bool
  ck_samesite :: string
  ck_max_age :: int

record cookie_cfg =
  cc_secure :: bool
  cc_samesite :: string
  cc_access_ttl :: int
  cc_refresh_ttl :: int

definition session_cookies :: "string \<Rightarrow> cookie_cfg \<Rightarrow> string \<Rightarrow> string \<Rightarrow> string \<Rightarrow> cookie list" where
  "session_cookies plane cfg access refresh csrf =
     [\<lparr>ck_name = plane @ ''_access'', ck_value = access, ck_http_only = True, ck_secure = cc_secure cfg,
        ck_samesite = cc_samesite cfg, ck_max_age = cc_access_ttl cfg\<rparr>,
      \<lparr>ck_name = plane @ ''_refresh'', ck_value = refresh, ck_http_only = True, ck_secure = cc_secure cfg,
        ck_samesite = cc_samesite cfg, ck_max_age = cc_refresh_ttl cfg\<rparr>,
      \<lparr>ck_name = plane @ ''_csrf'', ck_value = csrf, ck_http_only = False, ck_secure = cc_secure cfg,
        ck_samesite = cc_samesite cfg, ck_max_age = cc_refresh_ttl cfg\<rparr>]"

definition set_auth_cookies :: "cookie_cfg \<Rightarrow> string \<Rightarrow> string \<Rightarrow> string \<Rightarrow> cookie list" where
  "set_auth_cookies = session_cookies ''vitrin''"

definition set_admin_cookies :: "cookie_cfg \<Rightarrow> string \<Rightarrow> string \<Rightarrow> string \<Rightarrow> cookie list" where
  "set_admin_cookies = session_cookies ''vitrin_admin''"

definition clear_auth_cookies :: "(string \<times> string) list \<Rightarrow> (string \<times> string) list" where
  "clear_auth_cookies jar = fold dict_del [''vitrin_access'', ''vitrin_refresh'', ''vitrin_csrf''] jar"

definition clear_admin_cookies :: "(string \<times> string) list \<Rightarrow> (string \<times> string) list" where
  "clear_admin_cookies jar = fold dict_del [''vitrin_admin_access'', ''vitrin_admin_refresh'', ''vitrin_admin_csrf''] jar"

text \<open>A browser stores the cookies of a reply by name.\<close>

definition store_cookies :: "cookie list \<Rightarrow> (string \<times> string) list \<Rightarrow> (string \<times> string) list" where
  "store_cookies cs jar = fold (\<lambda>c. dict_set (ck_name c) (ck_value c)) cs jar"

text \<open>\<open>_client_ip\<close>: the host when it is an address.\<close>

definition client_ip :: "ip6 \<Rightarrow> string option \<Rightarrow> string option" where
  "client_ip L host =
     (case host of None \<Rightarrow> None | Some h \<Rightarrow> if h = [] \<or> ip_address L h = None then None else Some h)"

end
