(* ===== verification/MiddlewareProps.thy ===== *)
theory MiddlewareProps
  imports Middleware
begin

text \<open>
  What the stack guarantees whatever the handlers do: a forged cookie request changes nothing, the operator
  plane is closed to addresses outside the listed networks, a reply carries the trace id unless it is one of
  the two that are made outside the trace layer, and every request that gets past the CSRF check is counted.
\<close>

subsection \<open>Layers\<close>

text \<open>The CORS middleware adds its own headers to the reply of a request that is no preflight.\<close>

definition cors_header :: "string \<Rightarrow> bool" where
  "cors_header k \<longleftrightarrow> prefix ''access-control-'' k \<or> k = ''vary''"

definition decorates :: "(response \<Rightarrow> response) \<Rightarrow> bool" where
  "decorates f \<longleftrightarrow> (\<forall>r. rs_status (f r) = rs_status r \<and> rs_body (f r) = rs_body r \<and>
     map_of (rs_headers (f r)) trace_header = map_of (rs_headers r) trace_header)"

definition cors_adds :: "('s app \<Rightarrow> 's app) \<Rightarrow> bool" where
  "cors_adds cors \<longleftrightarrow> (\<forall>app ctx rq s. rq_method rq = ''OPTIONS'' \<or>
     (\<exists>f. decorates f \<and> cors app ctx rq s = on_response f (app ctx rq s)))"

lemma on_response_simps [simp]: "on_response f (Inl e, s) = (Inl e, s)" "on_response f (Inr r, s) = (Inr (f r), s)"
  "snd (on_response f x) = snd x"
  by (simp_all add: on_response_def split: prod.splits sum.splits)

lemma on_response_id: "on_response (\<lambda>r. r) x = x"
  by (simp add: on_response_def split: prod.splits sum.splits)

lemma decorates_headers: "decorates (fold default_header hs)" if "list_all (\<lambda>kv. fst kv \<noteq> trace_header) hs"
proof -
  have "rs_status (fold default_header hs r) = rs_status r \<and> rs_body (fold default_header hs r) = rs_body r \<and>
      map_of (rs_headers (fold default_header hs r)) trace_header = map_of (rs_headers r) trace_header" for r
    using that by (induction hs arbitrary: r) (auto simp: default_header_def put_header_def)
  then show ?thesis by (simp add: decorates_def)
qed

lemma hardening_decorates: "decorates (fold default_header (hardening_headers h))"
  by (rule decorates_headers) (auto simp: hardening_headers_def trace_header_def)

lemma on_response_comp: "on_response f (on_response g x) = on_response (f \<circ> g) x"
  by (simp add: on_response_def split: prod.splits sum.splits)

text \<open>What the outer two layers do to the rest of the stack.\<close>

definition inner_stack :: "ip6 \<Rightarrow> stack_cfg \<Rightarrow> string \<Rightarrow> real \<Rightarrow> (metrics \<times> 'w) app \<Rightarrow> (metrics \<times> 'w) app" where
  "inner_stack L cfg fresh elapsed handler =
     enabled (sk_metrics cfg) (metrics_middleware elapsed) (trace_id_middleware fresh
       (enabled (comma_list (sk_allowlist cfg) \<noteq> []) (ip_allowlist_middleware L (allow_networks L (comma_list (sk_allowlist cfg)))) handler))"

lemma stack_outer:
  assumes "cors_adds cors" "rq_method rq \<noteq> ''OPTIONS''"
  shows "\<exists>f. decorates f \<and> middleware_stack L cfg cors fresh elapsed handler ctx rq s =
    on_response f (enabled (sk_csrf cfg) csrf_middleware (inner_stack L cfg fresh elapsed handler) ctx rq s)"
proof -
  let ?in = "enabled (sk_csrf cfg) csrf_middleware (inner_stack L cfg fresh elapsed handler)"
  let ?g = "fold default_header (hardening_headers (sk_hsts cfg))"
  obtain f where f: "decorates f" "middleware_stack L cfg cors fresh elapsed handler ctx rq s =
      on_response f (enabled (sk_headers cfg) (security_headers_middleware (sk_hsts cfg)) ?in ctx rq s)"
    using assms unfolding middleware_stack_def cors_adds_def inner_stack_def Let_def by blast
  show ?thesis
  proof (cases "sk_headers cfg")
    case False
    with f show ?thesis by (auto simp: enabled_def)
  next
    case True
    have "decorates (f \<circ> ?g)" using f(1) hardening_decorates by (simp add: decorates_def)
    with True f(2) show ?thesis
      by (intro exI [of _ "f \<circ> ?g"]) (simp add: enabled_def security_headers_middleware_def on_response_comp)
  qed
qed

lemma serve_outer:
  assumes "cors_adds cors" "rq_method rq \<noteq> ''OPTIONS''"
  shows "\<exists>f. decorates f \<and> serve L cfg cors fresh elapsed handler rq s =
    (case enabled (sk_csrf cfg) csrf_middleware (inner_stack L cfg fresh elapsed handler) no_trace rq s of
       (Inr r, s1) \<Rightarrow> (f r, s1) | (Inl _, s1) \<Rightarrow> (error_response no_trace 500 ''internal_error'', s1))"
proof -
  obtain f where f: "decorates f" "middleware_stack L cfg cors fresh elapsed handler no_trace rq s =
      on_response f (enabled (sk_csrf cfg) csrf_middleware (inner_stack L cfg fresh elapsed handler) no_trace rq s)"
    using stack_outer [OF assms] by blast
  then show ?thesis
    by (intro exI [of _ f]) (simp add: serve_def on_response_def split: prod.splits sum.splits)
qed

subsection \<open>Cross-site request forgery\<close>

definition csrf_tokens :: "request \<Rightarrow> string \<times> string" where
  "csrf_tokens rq = (the_or [] (map_of (rq_headers rq) csrf_header), the_or [] (map_of (rq_cookies rq) (csrf_cookie (rq_path rq))))"

definition cookie_authenticated :: "request \<Rightarrow> bool" where
  "cookie_authenticated rq \<longleftrightarrow> the_or [] (map_of (rq_cookies rq) (access_cookie (rq_path rq))) \<noteq> []"

definition genuine :: "request \<Rightarrow> bool" where
  "genuine rq \<longleftrightarrow> fst (csrf_tokens rq) = snd (csrf_tokens rq) \<and> fst (csrf_tokens rq) \<noteq> [] \<and> is_ascii (fst (csrf_tokens rq))"

lemma csrf_spec:
  "csrf_middleware app ctx rq s =
    (if \<not> csrf_checked rq \<or> \<not> cookie_authenticated rq \<or> genuine rq then app ctx rq s
     else if fst (csrf_tokens rq) \<noteq> [] \<and> snd (csrf_tokens rq) \<noteq> [] \<and>
          \<not> (is_ascii (fst (csrf_tokens rq)) \<and> is_ascii (snd (csrf_tokens rq))) then (Inl (Exn ''TypeError''), s)
     else (Inr (error_response ctx 403 ''csrf_failed''), s))"
  by (auto simp: csrf_middleware_def csrf_blocked_def cookie_authenticated_def genuine_def csrf_tokens_def compare_digest_def Let_def)

text \<open>C31: A forged request changes nothing. With the CSRF layer on, an unsafe request outside the exempt paths that
  carries no authorization header and authenticates by the cookie of its plane, but does not present that
  plane's CSRF cookie as a header, is refused before any handler runs: the state of the handlers and the
  metrics are as before, and the reply is the 403 - a 500 when one of the tokens is not ASCII, which the
  comparison does not take.\<close>

theorem forged_request_changes_nothing:
  assumes "cors_adds cors" and "sk_csrf cfg" and "csrf_checked rq" and "cookie_authenticated rq"
    and "fst (csrf_tokens rq) \<noteq> snd (csrf_tokens rq) \<or> fst (csrf_tokens rq) = []"
  shows "snd (serve L cfg cors fresh elapsed handler rq s) = s \<and>
    rs_status (fst (serve L cfg cors fresh elapsed handler rq s)) =
      (if is_ascii (fst (csrf_tokens rq)) \<and> is_ascii (snd (csrf_tokens rq)) then 403
       else if fst (csrf_tokens rq) = [] \<or> snd (csrf_tokens rq) = [] then 403 else 500)"
proof -
  have m: "rq_method rq \<noteq> ''OPTIONS''" using assms(3) by (auto simp: csrf_checked_def safe_methods_def)
  have g: "\<not> genuine rq" using assms(5) by (auto simp: genuine_def)
  obtain f where f: "decorates f" "serve L cfg cors fresh elapsed handler rq s =
    (case enabled (sk_csrf cfg) csrf_middleware (inner_stack L cfg fresh elapsed handler) no_trace rq s of
       (Inr r, s1) \<Rightarrow> (f r, s1) | (Inl _, s1) \<Rightarrow> (error_response no_trace 500 ''internal_error'', s1))"
    using serve_outer [OF assms(1) m] by blast
  have st: "rs_status (f r) = rs_status r" for r using f(1) by (simp add: decorates_def)
  show ?thesis unfolding f(2) using assms(2-4) g
    by (auto simp: enabled_def csrf_spec st error_response_def)
qed

text \<open>The layer stops nothing else.\<close>

lemma csrf_transparent:
  "\<not> csrf_checked rq \<or> \<not> cookie_authenticated rq \<or> genuine rq \<Longrightarrow> csrf_middleware app ctx rq s = app ctx rq s"
  by (simp add: csrf_spec)

text \<open>A browser that signed in to the store and sends the readable cookie back as the header is let through, and
  signing in to one plane does not change what the other plane's requests need.\<close>

lemma signed_in_passes:
  assumes "map_of (rq_headers rq) csrf_header = Some token" "token \<noteq> []" "is_ascii token" "\<not> prefix ''/admin/'' (rq_path rq)"
    and "rq_cookies rq = store_cookies (set_auth_cookies cfg access refresh token) jar"
  shows "csrf_middleware app ctx rq s = app ctx rq s"
proof (rule csrf_transparent)
  have "map_of (rq_cookies rq) ''vitrin_csrf'' = Some token"
    by (simp add: assms(5) store_cookies_def set_auth_cookies_def session_cookies_def)
  then have "genuine rq" using assms(1-4) by (simp add: genuine_def csrf_tokens_def csrf_cookie_def)
  then show "\<not> csrf_checked rq \<or> \<not> cookie_authenticated rq \<or> genuine rq" by blast
qed

lemma planes_apart:
  "map_of (store_cookies (set_admin_cookies cfg access refresh token) jar) ''vitrin_access'' = map_of jar ''vitrin_access''"
  "map_of (store_cookies (set_admin_cookies cfg access refresh token) jar) ''vitrin_csrf'' = map_of jar ''vitrin_csrf''"
  by (simp_all add: store_cookies_def set_admin_cookies_def session_cookies_def)

lemma signed_out: "map_of (clear_auth_cookies jar) (access_cookie ''/tenant/x'') = None"
  by (simp add: clear_auth_cookies_def access_cookie_def)

subsection \<open>The operator plane\<close>

lemma masked_prefix:
  fixes a b :: "32 word"
  assumes "a AND netmask n = b"
  shows "drop_bit (32 - n) a = drop_bit (32 - n) b"
  unfolding assms [symmetric] netmask_def
  by (rule bit_eqI) (auto simp: bit_simps dest: bit_imp_le_length)

text \<open>No listed IPv4 network has the leading bits of the address in common with it.\<close>

definition outside :: "ip6 \<Rightarrow> string list \<Rightarrow> 32 word \<Rightarrow> bool" where
  "outside L items a \<longleftrightarrow> list_all (\<lambda>x. case ip_network L (py_strip x) of
     Some (N4 b n) \<Rightarrow> drop_bit (32 - n) a \<noteq> drop_bit (32 - n) b | _ \<Rightarrow> True) items"

lemma outside_not_allowed:
  assumes "v4_addr h = Some a" "outside L items a"
  shows "\<not> host_allowed L (allow_networks L items) (Some h)"
proof -
  have "\<not> in_network (V4 a) n" if "x \<in> set items" "ip_network L (py_strip x) = Some n" for x n
    using assms(2) that masked_prefix by (cases n) (force simp: outside_def list_all_iff)+
  then have "\<not> list_ex (\<lambda>n. case n of None \<Rightarrow> False | Some x \<Rightarrow> in_network (V4 a) x) (allow_networks L items)"
    by (auto simp: allow_networks_def list_ex_iff split: option.splits)
  then show ?thesis by (simp add: host_allowed_def ip_address_def assms(1))
qed

lemma strip_nonspace: "c \<in> set s \<Longrightarrow> \<not> is_space c \<Longrightarrow> py_strip s \<noteq> []"
  by (auto simp: py_strip_def dropWhile_eq_Nil_conv dest: set_dropWhileD)
     (metis append_Nil2 set_append Un_iff set_takeWhileD takeWhile_dropWhile_id)

lemma strip_strip: "py_strip s \<noteq> [] \<Longrightarrow> py_strip (py_strip s) \<noteq> []"
proof -
  assume s: "py_strip s \<noteq> []"
  let ?d = "dropWhile is_space (rev (dropWhile is_space s))"
  have "?d \<noteq> []" using s by (simp add: py_strip_def)
  then have "\<not> is_space (hd ?d)" "hd ?d \<in> set (py_strip s)" by (auto simp: hd_dropWhile py_strip_def)
  then show ?thesis by (metis strip_nonspace)
qed

lemma allow_networks_nonempty: "comma_list raw \<noteq> [] \<Longrightarrow> allow_networks L (comma_list raw) \<noteq> []"
proof -
  assume "comma_list raw \<noteq> []"
  then obtain x where x: "x \<in> set (comma_list raw)" by (meson list.set_sel(1))
  then have "py_strip x \<noteq> []" using strip_strip by (auto simp: comma_list_def)
  with x show ?thesis by (auto simp: allow_networks_def filter_empty_conv)
qed

text \<open>C32: The operator plane is closed to other networks: with an allowlist configured - even one in which no entry
  is readable - a request for a path of the operator plane from an IPv4 address that shares its leading bits
  with none of the listed networks never reaches a handler: the handlers' state is as before and the reply
  is a refusal.\<close>

theorem operator_plane_closed:
  assumes "cors_adds cors" and "rq_method rq \<noteq> ''OPTIONS''" and "prefix ''/admin'' (rq_path rq)"
    and "comma_list (sk_allowlist cfg) \<noteq> []"
    and "rq_host rq = Some h" and "v4_addr h = Some a" and "outside L (comma_list (sk_allowlist cfg)) a"
  shows "snd (snd (serve L cfg cors fresh elapsed handler rq (m, w))) = w \<and>
    rs_status (fst (serve L cfg cors fresh elapsed handler rq (m, w))) \<in> {403, 500}"
proof -
  let ?rest = "inner_stack L cfg fresh elapsed handler"
  note closed = allow_networks_nonempty [OF assms(4), of L] outside_not_allowed [OF assms(6,7)]
  have inner: "\<exists>r m'. ?rest ctx rq (m, w) = (Inr r, m', w) \<and> rs_status r = 403" for ctx
    using closed assms(3-5)
    by (simp add: inner_stack_def enabled_def trace_id_middleware_def ip_allowlist_middleware_def metrics_middleware_def
        error_response_def put_header_def Let_def)
  obtain f where f: "decorates f" "serve L cfg cors fresh elapsed handler rq (m, w) =
    (case enabled (sk_csrf cfg) csrf_middleware ?rest no_trace rq (m, w) of
       (Inr r, s1) \<Rightarrow> (f r, s1) | (Inl _, s1) \<Rightarrow> (error_response no_trace 500 ''internal_error'', s1))"
    using serve_outer [OF assms(1,2)] by blast
  have st: "rs_status (f r) = rs_status r" for r using f(1) by (simp add: decorates_def)
  obtain r m' where "?rest no_trace rq (m, w) = (Inr r, m', w)" "rs_status r = 403" using inner by blast
  then show ?thesis unfolding f(2) by (simp add: enabled_def csrf_spec st error_response_def)
qed

subsection \<open>Trace ids\<close>

text \<open>The handler behind the allowlist.\<close>

definition guarded_handler :: "ip6 \<Rightarrow> stack_cfg \<Rightarrow> 's app \<Rightarrow> 's app" where
  "guarded_handler L cfg handler =
     enabled (comma_list (sk_allowlist cfg) \<noteq> []) (ip_allowlist_middleware L (allow_networks L (comma_list (sk_allowlist cfg)))) handler"

lemma inner_stack_result:
  "fst (inner_stack L cfg fresh elapsed handler ctx rq s) =
    fst (on_response (put_header trace_header (trace_of fresh rq)) (guarded_handler L cfg handler (trace_of fresh rq) rq s))"
  by (simp add: inner_stack_def guarded_handler_def enabled_def metrics_middleware_def trace_id_middleware_def Let_def split_def)

text \<open>C33: The trace id reaches the caller unless the handler raises: a request that the CSRF layer lets through is
  handled under the id of its header, or a fresh one, and a reply of the handler carries that id back with
  its status and body unchanged; when the handler raises, the reply is the internal error with neither the
  header nor the id - the envelope says \<open>-\<close>.\<close>

theorem trace_id_reaches_caller:
  assumes "cors_adds cors" and "rq_method rq \<noteq> ''OPTIONS''"
    and "\<not> csrf_checked rq \<or> \<not> cookie_authenticated rq \<or> genuine rq"
  shows "case fst (guarded_handler L cfg handler (trace_of fresh rq) rq s) of
      Inr r \<Rightarrow> map_of (rs_headers (fst (serve L cfg cors fresh elapsed handler rq s))) trace_header = Some (trace_of fresh rq) \<and>
        rs_status (fst (serve L cfg cors fresh elapsed handler rq s)) = rs_status r \<and>
        rs_body (fst (serve L cfg cors fresh elapsed handler rq s)) = rs_body r
    | Inl e \<Rightarrow> fst (serve L cfg cors fresh elapsed handler rq s) = error_response ''-'' 500 ''internal_error''"
proof -
  let ?rest = "inner_stack L cfg fresh elapsed handler"
  obtain f where f: "decorates f" "serve L cfg cors fresh elapsed handler rq s =
    (case enabled (sk_csrf cfg) csrf_middleware ?rest no_trace rq s of
       (Inr r, s1) \<Rightarrow> (f r, s1) | (Inl _, s1) \<Rightarrow> (error_response no_trace 500 ''internal_error'', s1))"
    using serve_outer [OF assms(1,2)] by blast
  have pass: "enabled (sk_csrf cfg) csrf_middleware ?rest no_trace rq s = ?rest no_trace rq s"
    using assms(3) by (simp add: enabled_def csrf_transparent)
  note f2 = f(2) [unfolded pass]
  have e: "error_response no_trace n c = error_response ''-'' n c" for n c by (simp add: no_trace_def)
  show ?thesis
  proof -
    obtain x s1 where Pair: "guarded_handler L cfg handler (trace_of fresh rq) rq s = (x, s1)" by (rule prod.exhaust)
    have r: "fst (?rest no_trace rq s) = fst (on_response (put_header trace_header (trace_of fresh rq)) (x, s1))"
      by (simp add: inner_stack_result Pair)
    show ?thesis
      using r f(1) by (cases x; cases "?rest no_trace rq s")
        (auto simp: Pair f2 e decorates_def put_header_def)
  qed
qed

subsection \<open>Metrics\<close>

text \<open>Handlers that leave the two HTTP series to the middleware.\<close>

definition keeps_http :: "(metrics \<times> 'w) app \<Rightarrow> bool" where
  "keeps_http app \<longleftrightarrow> (\<forall>ctx rq s. total requests_total (fst (snd (app ctx rq s))) = total requests_total (fst s) \<and>
     observed request_duration (fst (snd (app ctx rq s))) = observed request_duration (fst s))"

definition let_through :: "stack_cfg \<Rightarrow> request \<Rightarrow> bool" where
  "let_through cfg rq \<longleftrightarrow> \<not> sk_csrf cfg \<or> \<not> csrf_checked rq \<or> \<not> cookie_authenticated rq \<or> genuine rq"

lemma inner_counts:
  assumes "keeps_http handler" "sk_metrics cfg"
  shows "total requests_total (fst (snd (inner_stack L cfg fresh elapsed handler ctx rq s))) = total requests_total (fst s) + 1 \<and>
    observed request_duration (fst (snd (inner_stack L cfg fresh elapsed handler ctx rq s))) = observed request_duration (fst s) + 1"
proof -
  have "keeps_http (trace_id_middleware fresh (guarded_handler L cfg handler))"
    using assms(1) by (auto simp: keeps_http_def trace_id_middleware_def guarded_handler_def enabled_def ip_allowlist_middleware_def Let_def)
  then have "total requests_total (fst (snd (trace_id_middleware fresh (guarded_handler L cfg handler) ctx rq s))) = total requests_total (fst s)"
      "observed request_duration (fst (snd (trace_id_middleware fresh (guarded_handler L cfg handler) ctx rq s))) = observed request_duration (fst s)"
    unfolding keeps_http_def by blast+
  moreover have "inner_stack L cfg fresh elapsed handler = metrics_middleware elapsed (trace_id_middleware fresh (guarded_handler L cfg handler))"
    using assms(2) by (simp add: inner_stack_def guarded_handler_def enabled_def)
  ultimately show ?thesis by (simp add: metrics_middleware_def Let_def split_def total_inc observed_observe)
qed

text \<open>The request metrics are exact: after any sequence of requests, none a preflight, the counter has grown by
  the number of requests that the CSRF layer let through - whatever became of them, an exception of the
  handler included - and the number of observed latencies by the same.\<close>

theorem every_request_is_counted:
  assumes "cors_adds cors" and "sk_metrics cfg" and "keeps_http handler"
    and "list_all (\<lambda>rq. rq_method rq \<noteq> ''OPTIONS'') rqs"
  shows "total requests_total (fst (fold (\<lambda>rq s. snd (serve L cfg cors fresh elapsed handler rq s)) rqs s)) =
      total requests_total (fst s) + real (length (filter (let_through cfg) rqs)) \<and>
    observed request_duration (fst (fold (\<lambda>rq s. snd (serve L cfg cors fresh elapsed handler rq s)) rqs s)) =
      observed request_duration (fst s) + real (length (filter (let_through cfg) rqs))"
  using assms(4)
proof (induction rqs arbitrary: s)
  case (Cons rq rqs)
  let ?s1 = "snd (serve L cfg cors fresh elapsed handler rq s)" and ?n = "if let_through cfg rq then 1 else 0"
  have "rq_method rq \<noteq> ''OPTIONS''" using Cons.prems by simp
  from serve_outer [OF assms(1) this] obtain f where f: "serve L cfg cors fresh elapsed handler rq s =
    (case enabled (sk_csrf cfg) csrf_middleware (inner_stack L cfg fresh elapsed handler) no_trace rq s of
       (Inr r, s1) \<Rightarrow> (f r, s1) | (Inl _, s1) \<Rightarrow> (error_response no_trace 500 ''internal_error'', s1))" by blast
  then have s1: "?s1 = snd (enabled (sk_csrf cfg) csrf_middleware (inner_stack L cfg fresh elapsed handler) no_trace rq s)"
    by (simp split: prod.splits sum.splits)
  have "total requests_total (fst ?s1) = total requests_total (fst s) + ?n \<and>
      observed request_duration (fst ?s1) = observed request_duration (fst s) + ?n"
    unfolding s1 using inner_counts [OF assms(3,2), of L fresh elapsed no_trace rq s]
    by (auto simp: enabled_def csrf_spec let_through_def)
  with Cons show ?case by simp
qed simp

subsection \<open>Demonstrations\<close>

definition no_ip6 :: ip6 where "no_ip6 = \<lparr>i6_addr = \<lambda>_. None, i6_network = \<lambda>_. None\<rparr>"

definition demo_stack :: stack_cfg where
  "demo_stack = \<lparr>sk_allowlist = ''10.0.0.1, typo'', sk_metrics = True, sk_csrf = True, sk_headers = True, sk_hsts = False\<rparr>"

definition counting_handler :: "(metrics \<times> nat) app" where
  "counting_handler ctx rq s = (Inr \<lparr>rs_status = 200, rs_headers = [], rs_body = Content VNone\<rparr>, (fst s, Suc (snd s)))"

definition forged :: request where
  "forged = \<lparr>rq_method = ''POST'', rq_path = ''/tenant/settings'', rq_headers = [], rq_cookies = [(''vitrin_access'', ''a''), (''vitrin_csrf'', ''c'')],
     rq_host = Some ''10.1.2.3''\<rparr>"

lemma id_cors: "cors_adds (\<lambda>app. app)"
  unfolding cors_adds_def by (intro allI disjI2 exI [of _ "\<lambda>r. r"]) (simp add: decorates_def on_response_id)

lemma forged_props: "csrf_checked forged" "cookie_authenticated forged" "csrf_tokens forged = ([], ''c'')"
  by (simp_all add: csrf_checked_def cookie_authenticated_def csrf_tokens_def forged_def safe_methods_def csrf_exempt_def
      access_cookie_def csrf_cookie_def csrf_header_def)

theorem forged_request_changes_nothing_witness:
  "snd (serve no_ip6 demo_stack (\<lambda>app. app) ''t'' 0 counting_handler forged (no_metrics, 0)) = (no_metrics, 0)"
proof -
  have "sk_csrf demo_stack" by (simp add: demo_stack_def)
  moreover have "fst (csrf_tokens forged) \<noteq> snd (csrf_tokens forged) \<or> fst (csrf_tokens forged) = []" by (simp add: forged_props)
  ultimately show ?thesis using forged_request_changes_nothing [OF id_cors _ forged_props(1,2)] by blast
qed

definition probe :: request where
  "probe = \<lparr>rq_method = ''GET'', rq_path = ''/admin/tenants'', rq_headers = [(''x-request-id'', ''r1'')], rq_cookies = [], rq_host = Some ''11.1.2.3''\<rparr>"

lemma demo_allowlist: "comma_list ''10.0.0.1, typo'' = [''10.0.0.1'', ''typo'']"
  by (simp add: comma_list_def py_strip_def is_space_def)

lemma octets: "octet ''10'' = Some 10" "octet ''0'' = Some 0" "octet ''1'' = Some 1" "octet ''11'' = Some 11" "octet ''2'' = Some 2"
  "octet ''3'' = Some 3" "octet ''typo'' = None"
  by (simp_all add: octet_def is_digit_def digits_val_def)

lemma probe_address: "v4_addr ''11.1.2.3'' = Some 184615427" "outside no_ip6 (comma_list (sk_allowlist demo_stack)) 184615427"
  "comma_list (sk_allowlist demo_stack) \<noteq> []"
proof -
  show "v4_addr ''11.1.2.3'' = Some 184615427" by (simp add: v4_addr_def octets)
  have "ip_network no_ip6 ''10.0.0.1'' = Some (N4 167772161 32)" "ip_network no_ip6 ''typo'' = None"
    by (simp_all add: ip_network_def v4_network_def v4_addr_def octets no_ip6_def)
  then show "outside no_ip6 (comma_list (sk_allowlist demo_stack)) 184615427"
    by (simp add: outside_def demo_stack_def demo_allowlist py_strip_def is_space_def)
  show "comma_list (sk_allowlist demo_stack) \<noteq> []" by (simp add: demo_stack_def demo_allowlist)
qed

theorem operator_plane_closed_witness:
  "snd (snd (serve no_ip6 demo_stack (\<lambda>app. app) ''t'' 0 counting_handler probe (no_metrics, 0))) = 0"
proof -
  have "rq_method probe \<noteq> ''OPTIONS''" "prefix ''/admin'' (rq_path probe)" "rq_host probe = Some ''11.1.2.3''" by (simp_all add: probe_def)
  from operator_plane_closed [OF id_cors this(1,2) probe_address(3) this(3) probe_address(1,2)] show ?thesis by (rule conjunct1)
qed

theorem trace_id_reaches_caller_witness:
  "map_of (rs_headers (fst (serve no_ip6 (demo_stack\<lparr>sk_allowlist := []\<rparr>) (\<lambda>app. app) ''t'' 0 counting_handler probe (no_metrics, 0)))) trace_header
     = Some ''r1''"
proof -
  have "rq_method probe \<noteq> ''OPTIONS''" "\<not> csrf_checked probe \<or> \<not> cookie_authenticated probe \<or> genuine probe"
    by (simp_all add: probe_def csrf_checked_def safe_methods_def)
  note x = trace_id_reaches_caller [OF id_cors this, where L = no_ip6 and cfg = "demo_stack\<lparr>sk_allowlist := []\<rparr>" and handler = counting_handler
      and fresh = "''t''" and s = "(no_metrics, 0)" and elapsed = 0]
  have t: "trace_of ''t'' probe = ''r1''" by (simp add: trace_of_def probe_def trace_header_def)
  have "comma_list [] = []" by (simp add: comma_list_def py_strip_def)
  then have "fst (guarded_handler no_ip6 (demo_stack\<lparr>sk_allowlist := []\<rparr>) counting_handler ''r1'' probe (no_metrics, 0)) =
      Inr \<lparr>rs_status = 200, rs_headers = [], rs_body = Content VNone\<rparr>"
    by (simp add: guarded_handler_def enabled_def counting_handler_def)
  from x [unfolded t this sum.case] show ?thesis by (rule conjunct1)
qed

theorem every_request_is_counted_witness:
  "total requests_total (fst (fold (\<lambda>rq s. snd (serve no_ip6 demo_stack (\<lambda>app. app) ''t'' 0 counting_handler rq s)) [probe, forged, probe] (no_metrics, 0))) = 2"
proof -
  have k: "keeps_http counting_handler" by (simp add: keeps_http_def counting_handler_def)
  have m: "sk_metrics demo_stack" by (simp add: demo_stack_def)
  have o: "list_all (\<lambda>rq. rq_method rq \<noteq> ''OPTIONS'') [probe, forged, probe]" by (simp add: probe_def forged_def)
  have "let_through demo_stack probe" "\<not> let_through demo_stack forged"
    using forged_props by (simp_all add: let_through_def demo_stack_def probe_def csrf_checked_def safe_methods_def genuine_def)
  with every_request_is_counted [OF id_cors m k o, of no_ip6 "''t''" 0 "(no_metrics, 0)"]
  show ?thesis by (simp add: total_def series_of_def no_metrics_def)
qed

end
