(* ===== verification/OpsStatus.thy ===== *)
theory OpsStatus
  imports AuditLog SearchConsole Metrics AiAdmin AdminAuth
begin

text \<open>
  The operator's status pages: the queue and its workers, the inference services and the feature flags
  (\<open>admin_ops_status.py\<close>), account security (\<open>admin_security.py\<close>), the widget defaults (\<open>admin_misc.py\<close>) and
  the probes of \<open>health.py\<close>. The broker, the workers' control channel and the HTTP client are parameters:
  what each call answered, or that it raised. \<open>collate\<close> is the order PostgreSQL gives texts.
\<close>

subsection \<open>Queue and workers\<close>

type_synonym task_info = py_dict

text \<open>The three replies of the control channel; \<open>None\<close> when no worker answered.\<close>

record inspection =
  in_ping :: "string list option"
  in_active :: "(string \<times> task_info list) list option"
  in_registered :: "(string \<times> string list) list option"

record worker_view =
  wk_name :: string
  wk_status :: string
  wk_tasks :: "(pyv \<times> pyv) list"
  wk_count :: nat
  wk_registered :: "string list"

definition sorted_strs :: "string list \<Rightarrow> string list" where
  "sorted_strs xs = foldr insert_str xs []"

definition worker_of :: "inspection \<Rightarrow> string \<Rightarrow> worker_view" where
  "worker_of r name =
     (let tasks = the_or [] (map_of (the_or [] (in_active r)) name) in
      \<lparr>wk_name = name, wk_status = ''online'',
       wk_tasks = map (\<lambda>t. (dict_get t ''name'', dict_get t ''id'')) (take 10 tasks), wk_count = length tasks,
       wk_registered = take 20 (sorted_strs (the_or [] (map_of (the_or [] (in_registered r)) name)))\<rparr>)"

definition inspect_workers :: "inspection \<Rightarrow> worker_view list" where
  "inspect_workers r = map (worker_of r) (sorted_strs (the_or [] (in_ping r)))"

record broker =
  bk_open :: "unit res"
  bk_ping :: "bool res"
  bk_llen :: "int res"
  bk_close :: "unit res"
  bk_inspect :: "inspection res"

record queue_view =
  qv_broker :: string
  qv_reachable :: bool
  qv_pending :: "int option"
  qv_workers :: "worker_view list"

text \<open>The \<open>try ... finally\<close> of the probe: closing the connection may raise after the depth was read.\<close>

definition broker_probe :: "broker \<Rightarrow> bool \<times> int option" where
  "broker_probe b =
     (case bk_open b of
        Inl _ \<Rightarrow> (False, None)
      | Inr _ \<Rightarrow>
          let (reachable, depth, raised) =
            (case bk_ping b of
               Inl _ \<Rightarrow> (False, None, True)
             | Inr False \<Rightarrow> (False, None, False)
             | Inr True \<Rightarrow> (case bk_llen b of Inl _ \<Rightarrow> (True, None, True) | Inr n \<Rightarrow> (True, Some n, False)))
          in if raised \<or> (case bk_close b of Inl _ \<Rightarrow> True | Inr _ \<Rightarrow> False) then (False, depth) else (reachable, depth))"

definition queue_monitoring :: "bool \<Rightarrow> string \<Rightarrow> broker \<Rightarrow> queue_view reply" where
  "queue_monitoring ok url b =
     (if \<not> ok then Err 401 ''unauthorized''
      else
        let (reachable, depth) = broker_probe b;
            workers = (if reachable then or_else (case bk_inspect b of Inl e \<Rightarrow> Inl e | Inr r \<Rightarrow> Inr (inspect_workers r)) [] else [])
        in Ok \<lparr>qv_broker = url, qv_reachable = reachable, qv_pending = depth, qv_workers = workers\<rparr>)"

subsection \<open>Inference services\<close>

record inference_cfg =
  ic_embeddings_url :: string
  ic_reranker_url :: string
  ic_llm_url :: string
  ic_llm_model :: string
  ic_frontier_enabled :: bool
  ic_frontier_model :: string
  ic_rerank_enabled :: bool

record models_view =
  mv_cfg :: inference_cfg
  mv_frontier_model :: "string option"
  mv_by_rung :: "(string \<times> nat) list"

text \<open>\<open>GROUP BY rung ORDER BY n DESC\<close>; every row the program writes has a rung.\<close>

definition rung_counts :: "('a usage_row_scheme) list \<Rightarrow> (string \<times> nat) list" where
  "rung_counts rows = order_desc (\<lambda>g. real (snd g)) (map (\<lambda>(k, xs). (k, length xs)) (group_rows us_rung rows))"

definition model_monitoring :: "bool \<Rightarrow> pool \<Rightarrow> inference_cfg \<Rightarrow> db \<Rightarrow> models_view reply" where
  "model_monitoring ok p cfg d =
     (if \<not> ok then Err 401 ''unauthorized''
      else if p \<noteq> PgUp then Err 500 ''internal_error''
      else Ok \<lparr>mv_cfg = cfg, mv_frontier_model = nonempty (Some (ic_frontier_model cfg)),
              mv_by_rung = rung_counts (usage_events d)\<rparr>)"

record ping_view =
  pg_configured :: bool
  pg_reachable :: bool
  pg_latency :: "int option"

text \<open>\<open>get url\<close> is the milliseconds until any answer, or the exception.\<close>

definition ping_one :: "(string \<Rightarrow> int res) \<Rightarrow> string \<Rightarrow> ping_view" where
  "ping_one get url =
     (if url = [] then \<lparr>pg_configured = False, pg_reachable = False, pg_latency = None\<rparr>
      else case get url of
          Inl _ \<Rightarrow> \<lparr>pg_configured = True, pg_reachable = False, pg_latency = None\<rparr>
        | Inr ms \<Rightarrow> \<lparr>pg_configured = True, pg_reachable = True, pg_latency = Some ms\<rparr>)"

definition model_ping :: "bool \<Rightarrow> (string \<Rightarrow> int res) \<Rightarrow> inference_cfg \<Rightarrow> (string \<times> ping_view) list reply" where
  "model_ping ok get cfg =
     (if \<not> ok then Err 401 ''unauthorized''
      else Ok (map (\<lambda>(name, url). (name, ping_one get url))
        [(''embeddings'', ic_embeddings_url cfg), (''reranker'', ic_reranker_url cfg), (''llm'', ic_llm_url cfg)]))"

subsection \<open>Feature flags\<close>

record flag_row =
  fl_key :: string
  fl_enabled :: bool
  fl_description :: "string option"
  fl_at :: real
  fl_by :: "string option"

definition get_feature_flags :: "(string \<Rightarrow> nat) \<Rightarrow> bool \<Rightarrow> pool \<Rightarrow> flag_row list \<Rightarrow> flag_row list reply" where
  "get_feature_flags collate ok p flags =
     (if \<not> ok then Err 401 ''unauthorized''
      else if p \<noteq> PgUp then Err 500 ''internal_error''
      else Ok (sort_key (\<lambda>r. collate (fl_key r)) flags))"

definition set_feature_flag ::
  "bool \<Rightarrow> pool \<Rightarrow> principal option \<Rightarrow> real \<Rightarrow> string \<Rightarrow> py_dict \<Rightarrow> flag_row list \<times> db \<Rightarrow> (string \<times> bool) reply \<times> flag_row list \<times> db" where
  "set_feature_flag ok p who now key payload w =
     (let (flags, d) = w;
          on = truthy (dict_get_or payload ''enabled'' (VBool False));
          actor = (case who of None \<Rightarrow> ''operator'' | Some q \<Rightarrow> pp_email q) in
      if \<not> ok then (Err 401 ''unauthorized'', w)
      else if p \<noteq> PgUp then (Err 500 ''internal_error'', w)
      else if \<not> list_ex (\<lambda>r. fl_key r = key) flags then (Err 404 ''not_found'', w)
      else (Ok (key, on),
            update_where (\<lambda>r. fl_key r = key) (\<lambda>r. r\<lparr>fl_enabled := on, fl_at := now, fl_by := Some actor\<rparr>) flags,
            audit p actor ''flag.set'' None [(''key'', VStr key), (''enabled'', VBool on)] d))"

subsection \<open>Account security\<close>

record lock_view =
  lv_email :: string
  lv_plane :: string
  lv_failed :: int
  lv_until :: real

definition held :: "real \<Rightarrow> real option \<Rightarrow> bool" where
  "held now l = (case l of None \<Rightarrow> False | Some t \<Rightarrow> now < t)"

definition locked_accounts :: "real \<Rightarrow> adb \<Rightarrow> mdb \<Rightarrow> lock_view list" where
  "locked_accounts now a m =
     order_desc lv_until
       (map (\<lambda>u. \<lparr>lv_email = ur_email u, lv_plane = ''customer'', lv_failed = ur_failed u, lv_until = the (ur_locked u)\<rparr>)
          (filter (\<lambda>u. held now (ur_locked u)) (users a)) @
        map (\<lambda>u. \<lparr>lv_email = am_email u, lv_plane = ''admin'', lv_failed = am_failed u, lv_until = the (am_locked u)\<rparr>)
          (filter (\<lambda>u. held now (am_locked u)) (admins m)))"

record security_view =
  sv_locked :: "lock_view list"
  sv_failing :: nat
  sv_events :: "audit_entry list"

definition is_auth_event :: "string \<Rightarrow> bool" where
  "is_auth_event s \<longleftrightarrow> like ''auth.%'' s \<or> like ''admin_auth.%'' s"

definition security_monitoring :: "bool \<Rightarrow> pool \<Rightarrow> real \<Rightarrow> audit_entry list \<Rightarrow> adb \<times> mdb \<Rightarrow> security_view reply" where
  "security_monitoring ok p now entries w =
     (let (a, m) = w in
      if \<not> ok then Err 401 ''unauthorized''
      else if p \<noteq> PgUp then Err 500 ''internal_error''
      else Ok \<lparr>sv_locked = locked_accounts now a m,
              sv_failing = length (filter (\<lambda>u. ur_failed u > 0) (users a)) + length (filter (\<lambda>u. am_failed u > 0) (admins m)),
              sv_events = take 50 (order_desc ax_at (filter (\<lambda>e. is_auth_event (au_action e)) entries))\<rparr>)"

definition unlock_users :: "string \<Rightarrow> adb \<Rightarrow> adb" where
  "unlock_users email a =
     a\<lparr>users := update_where (\<lambda>u. py_lower (ur_email u) = email) (\<lambda>u. u\<lparr>ur_failed := 0, ur_locked := None\<rparr>) (users a)\<rparr>"

definition unlock_admins :: "string \<Rightarrow> mdb \<Rightarrow> mdb" where
  "unlock_admins email m =
     m\<lparr>admins := update_where (\<lambda>u. py_lower (am_email u) = email) (\<lambda>u. u\<lparr>am_failed := 0, am_locked := None\<rparr>) (admins m)\<rparr>"

definition has_account :: "string \<Rightarrow> string \<Rightarrow> adb \<times> mdb \<Rightarrow> bool" where
  "has_account plane email w \<longleftrightarrow>
     (if plane = ''customer'' then list_ex (\<lambda>u. py_lower (ur_email u) = email) (users (fst w))
      else list_ex (\<lambda>u. py_lower (am_email u) = email) (admins (snd w)))"

definition unlock_account ::
  "env \<Rightarrow> bool \<Rightarrow> pool \<Rightarrow> py_dict \<Rightarrow> adb \<times> mdb \<times> db \<Rightarrow> (string \<times> string) reply \<times> adb \<times> mdb \<times> db" where
  "unlock_account E ok p payload w =
     (let (a, m, d) = w;
          email = py_lower (py_strip (arg_str (fst E) payload ''email'' []));
          plane = arg_str (fst E) payload ''plane'' ''customer'' in
      if \<not> ok then (Err 401 ''unauthorized'', w)
      else if email = [] then (Err 422 ''invalid_request'', w)
      else if plane \<notin> {''customer'', ''admin''} then (Err 422 ''invalid_request'', w)
      else if p \<noteq> PgUp then (Err 500 ''internal_error'', w)
      else if \<not> has_account plane email (a, m) then (Err 404 ''not_found'', w)
      else (Ok (email, plane),
            (if plane = ''customer'' then unlock_users email a else a),
            (if plane = ''customer'' then m else unlock_admins email m),
            audit p ''operator'' ''security.unlock'' None [(''email'', VStr email), (''plane'', VStr plane)] d))"

subsection \<open>Widget defaults\<close>

definition widget_defaults_key :: string where "widget_defaults_key = ''widget:global_defaults''"

definition default_widget_config :: py_dict where
  "default_widget_config =
     take 4 platform_defaults @ [(''platform_brand'', VBool True)] @ drop 4 platform_defaults"

definition widget_default_fields :: "string list" where
  "widget_default_fields =
     [''primary_color'', ''chat_enabled'', ''search_enabled'', ''position'', ''platform_brand'', ''max_results'', ''greeting'']"

definition chosen_defaults :: "py_dict \<Rightarrow> py_dict" where
  "chosen_defaults payload =
     dict_update default_widget_config (filter (\<lambda>kv. fst kv \<in> set widget_default_fields) payload)"

definition get_widget_defaults :: "bool \<Rightarrow> ('r, 'x) redis_scheme option \<Rightarrow> 'r \<Rightarrow> pyv reply" where
  "get_widget_defaults ok redis s =
     (if \<not> ok then Err 401 ''unauthorized''
      else case redis of
          None \<Rightarrow> Ok (VDict default_widget_config)
        | Some R \<Rightarrow> (case rd_get R widget_defaults_key s of
              Inl _ \<Rightarrow> Err 500 ''internal_error''
            | Inr None \<Rightarrow> Ok (VDict default_widget_config)
            | Inr (Some v) \<Rightarrow> Ok v))"

text \<open>The defaults are stored before the pool of the audit log is opened; \<open>NoPool\<close> is a pool that cannot be opened.\<close>

definition set_widget_defaults ::
  "bool \<Rightarrow> pool \<Rightarrow> ('r, 'x) redis_scheme option \<Rightarrow> py_dict \<Rightarrow> 'r \<times> db \<Rightarrow> py_dict reply \<times> 'r \<times> db" where
  "set_widget_defaults ok p redis payload w =
     (let (s, d) = w; v = chosen_defaults payload in
      if \<not> ok then (Err 401 ''unauthorized'', w)
      else
        let (r, s1) = (case redis of None \<Rightarrow> (Inr (), s) | Some R \<Rightarrow> rd_set R widget_defaults_key (VDict v) None s) in
        case r of
          Inl _ \<Rightarrow> (Err 500 ''internal_error'', s1, d)
        | Inr _ \<Rightarrow> if p = NoPool then (Err 500 ''internal_error'', s1, d)
                   else (Ok v, s1, audit p ''operator'' ''widget.defaults'' None v d))"

subsection \<open>Probes\<close>

definition healthz :: "(string \<times> string) list" where "healthz = [(''status'', ''ok'')]"

definition up :: "bool \<Rightarrow> real" where "up b = (if b then 1 else 0)"

record ready_view =
  ry_status :: nat
  ry_word :: string
  ry_deps :: "(string \<times> string) list"

definition readyz :: "dep_check list \<Rightarrow> metrics \<Rightarrow> ready_view \<times> metrics" where
  "readyz checks m =
     (let (ok, deps) = rr_evaluate checks;
          m1 = mt_gauge ''vitrin_readyz_ok'' (up ok) [] m;
          m2 = fold (\<lambda>(name, st). mt_gauge ''vitrin_dependency_up'' (up (st = ''ok'')) [(''dep'', name)]) deps m1
      in (\<lparr>ry_status = (if ok then 200 else 503), ry_word = (if ok then ''ready'' else ''degraded''), ry_deps = deps\<rparr>, m2))"

definition prometheus_metrics :: "(real \<Rightarrow> string) \<Rightarrow> bool \<Rightarrow> metrics \<Rightarrow> nat \<times> string" where
  "prometheus_metrics fmt metrics_enabled m =
     (if \<not> metrics_enabled then (404, ''metrics disabled'' @ [CHR 0x0A]) else (200, render fmt m))"

end
