(* ===== verification/Monitoring.thy ===== *)
theory Monitoring
  imports OpsStatus AiAdmin
begin

text \<open>
  The operator's monitoring pages (\<open>admin_monitoring.py\<close>): the live state of the three dependencies with its
  rolling history in Redis, and the platform's usage, filtered, summed, listed and exported. What each probe
  answered and its milliseconds are arguments; \<open>iso_of\<close> and \<open>num\<close> print times and floats.
\<close>

subsection \<open>Health of the dependencies\<close>

text \<open>\<open>SELECT 1\<close> answers or raises; the two pings answer true or false or raise.\<close>

record probes =
  pr_pg :: "unit res"
  pr_pg_ms :: int
  pr_redis :: "bool res"
  pr_redis_ms :: int
  pr_es :: "bool res"
  pr_es_ms :: int
  pr_ts :: int

definition word_of :: "bool \<Rightarrow> string" where "word_of b = (if b then ''ok'' else ''unavailable'')"

definition answered :: "bool res \<Rightarrow> bool" where "answered r = (case r of Inl _ \<Rightarrow> False | Inr b \<Rightarrow> b)"

definition pg_up :: "probes \<Rightarrow> bool" where "pg_up q = (case pr_pg q of Inl _ \<Rightarrow> False | Inr _ \<Rightarrow> True)"

definition deps_of :: "bool \<Rightarrow> probes \<Rightarrow> (string \<times> bool) list" where
  "deps_of has_redis q =
     [(''postgres'', pg_up q), (''redis'', has_redis \<and> answered (pr_redis q)), (''elasticsearch'', answered (pr_es q))]"

definition latency_of :: "bool \<Rightarrow> int \<Rightarrow> int option" where "latency_of b ms = (if b then Some ms else None)"

definition history_key :: string where "history_key = ''admin:health:history''"

definition opt_int :: "int option \<Rightarrow> pyv" where "opt_int x = (case x of None \<Rightarrow> VNone | Some i \<Rightarrow> VInt i)"

definition health_sample :: "bool \<Rightarrow> probes \<Rightarrow> pyv" where
  "health_sample has_redis q =
     VDict [(''ts'', VInt (pr_ts q)), (''ok'', VInt (int (length (filter snd (deps_of has_redis q))))),
       (''total'', VInt (int (length (deps_of has_redis q)))), (''pg_ms'', opt_int (latency_of (pg_up q) (pr_pg_ms q)))]"

text \<open>Push, trim to 96, read back oldest first; any exception leaves the reply without history.\<close>

definition push_sample :: "('r, 'x) redis_scheme \<Rightarrow> pyv \<Rightarrow> 'r \<Rightarrow> pyv list \<times> 'r" where
  "push_sample R v s =
     (case rd_lpush R history_key v s of
        (Inl _, s1) \<Rightarrow> ([], s1)
      | (Inr _, s1) \<Rightarrow>
          (case rd_ltrim R history_key 0 95 s1 of
             (Inl _, s2) \<Rightarrow> ([], s2)
           | (Inr _, s2) \<Rightarrow> (case rd_lrange R history_key 0 95 s2 of Inl _ \<Rightarrow> ([], s2) | Inr xs \<Rightarrow> (rev xs, s2))))"

record health_view =
  hv_status :: string
  hv_deps :: "(string \<times> string) list"
  hv_latency :: "(string \<times> int option) list"
  hv_history :: "pyv list"

definition system_health :: "bool \<Rightarrow> ('r, 'x) redis_scheme option \<Rightarrow> probes \<Rightarrow> 'r \<Rightarrow> health_view reply \<times> 'r" where
  "system_health ok redis q s =
     (if \<not> ok then (Err 401 ''unauthorized'', s)
      else
        let deps = deps_of (redis \<noteq> None) q;
            redis_ok = the_or False (map_of deps ''redis'');
            latency = [(''postgres'', latency_of (pg_up q) (pr_pg_ms q)), (''redis'', latency_of redis_ok (pr_redis_ms q)),
              (''elasticsearch'', latency_of (answered (pr_es q)) (pr_es_ms q))];
            (history, s1) = (case redis of
                Some R \<Rightarrow> if redis_ok then push_sample R (health_sample True q) s else ([], s)
              | None \<Rightarrow> ([], s))
        in (Ok \<lparr>hv_status = (if list_all snd deps then ''ok'' else ''degraded''),
              hv_deps = map (\<lambda>(n, b). (n, word_of b)) deps, hv_latency = latency, hv_history = history\<rparr>, s1))"

subsection \<open>Usage\<close>

record usage_filter =
  uf_tenant :: "string option"
  uf_route :: "string option"
  uf_rung :: "string option"
  uf_days :: int

definition clamp_days :: "int \<Rightarrow> int" where "clamp_days n = max 1 (min n 366)"

definition store_matches :: "string \<Rightarrow> tenant_row \<Rightarrow> bool" where
  "store_matches s r \<longleftrightarrow> ilike (contains_pattern (py_strip s)) (tn_slug r) \<or> ilike (contains_pattern (py_strip s)) (tn_name r)"

text \<open>\<open>_usage_filters\<close>: the clauses of one \<open>WHERE\<close>, shared by the totals, the list and the export.\<close>

definition usage_matches :: "real \<Rightarrow> db \<Rightarrow> usage_filter \<Rightarrow> usage_at \<Rightarrow> bool" where
  "usage_matches now d f u \<longleftrightarrow>
     AuditLog.given (uf_tenant f) (\<lambda>s. list_ex (\<lambda>r. tn_id r = us_tenant u \<and> store_matches s r) (tenants d)) \<and>
     AuditLog.given (uf_route f) (\<lambda>s. ilike (contains_pattern (py_strip s)) (us_route u)) \<and>
     AuditLog.given (uf_rung f) (\<lambda>s. us_rung u = py_strip s) \<and>
     (uf_days f = 0 \<or> ua_at u \<ge> now - of_int (uf_days f) * 86400)"

text \<open>\<open>_USAGE_SELECT\<close> joins the store of the row, newest first.\<close>

definition usage_select :: "real \<Rightarrow> db \<Rightarrow> usage_filter \<Rightarrow> usage_at list \<Rightarrow> (usage_at \<times> string) list" where
  "usage_select now d f us =
     map (\<lambda>u. (u, tn_slug (the (tenant_row (us_tenant u) d))))
       (filter (\<lambda>u. tenant_row (us_tenant u) d \<noteq> None) (order_desc ua_at (filter (usage_matches now d f) us)))"

definition csv_columns :: "string list" where
  "csv_columns = [''occurred_at'', ''tenant'', ''route'', ''rung'', ''tokens_in'', ''tokens_out'', ''cache_outcome'', ''latency_ms'', ''cost'']"

definition csv_row :: "(real \<Rightarrow> string) \<Rightarrow> (real \<Rightarrow> string) \<Rightarrow> usage_at \<times> string \<Rightarrow> string list" where
  "csv_row iso_of num = (\<lambda>(u, slug).
     [iso_of (ua_at u), slug, us_route u, us_rung u, int_str (us_tokens_in u), int_str (us_tokens_out u),
      us_cache_outcome u, (case us_latency_ms u of None \<Rightarrow> [] | Some ms \<Rightarrow> int_str ms), num (us_cost u)])"

record usage_view =
  uv_calls :: nat
  uv_tokens_in :: int
  uv_tokens_out :: int
  uv_cost :: real
  uv_credits :: real
  uv_by_rung :: "(string \<times> nat) list"
  uv_events :: "(usage_at \<times> string) list"
  uv_days :: int

datatype usage_reply = UsagePage usage_view | UsageCsv "string list list"

text \<open>The sum over the ledger has no \<open>WHERE\<close> but the sign of the change.\<close>

definition credits_spent :: "db \<Rightarrow> real" where
  "credits_spent d = sum_of (\<lambda>r. - lg_delta r) (filter (\<lambda>r. lg_delta r < 0) (ledger d))"

definition usage_page :: "real \<Rightarrow> db \<Rightarrow> usage_filter \<Rightarrow> usage_at list \<Rightarrow> usage_view" where
  "usage_page now d f us =
     (let rows = filter (usage_matches now d f) us in
      \<lparr>uv_calls = length rows, uv_tokens_in = sum_list (map us_tokens_in rows), uv_tokens_out = sum_list (map us_tokens_out rows),
       uv_cost = sum_of us_cost rows, uv_credits = credits_spent d, uv_by_rung = rung_counts rows,
       uv_events = take 50 (usage_select now d f us), uv_days = uf_days f\<rparr>)"

definition usage_csv :: "(real \<Rightarrow> string) \<Rightarrow> (real \<Rightarrow> string) \<Rightarrow> real \<Rightarrow> db \<Rightarrow> usage_filter \<Rightarrow> usage_at list \<Rightarrow> string list list" where
  "usage_csv iso_of num now d f us = csv_columns # map (csv_row iso_of num) (take 10000 (usage_select now d f us))"

definition usage_monitoring ::
  "(real \<Rightarrow> string) \<Rightarrow> (real \<Rightarrow> string) \<Rightarrow> bool \<Rightarrow> pool \<Rightarrow> real \<Rightarrow> usage_filter \<Rightarrow> string option \<Rightarrow> usage_at list \<Rightarrow> db \<Rightarrow> usage_reply reply" where
  "usage_monitoring iso_of num ok p now f0 fmt us d =
     (if \<not> ok then Err 401 ''unauthorized''
      else
        let f = f0\<lparr>uf_days := clamp_days (uf_days f0)\<rparr> in
        if p \<noteq> PgUp then Err 500 ''internal_error''
        else Ok (if fmt = Some ''csv'' then UsageCsv (usage_csv iso_of num now d f us) else UsagePage (usage_page now d f us)))"

end
