(* ===== verification/OpsProps.thy ===== *)
theory OpsProps
  imports Monitoring
begin

text \<open>
  The operator's pages: an unlocked account can sign in again and nothing else changes, the widget defaults reach
  every store, the health history is the last 96 samples, and the three views of the usage describe one slice.
\<close>

subsection \<open>Queue and flags\<close>

lemma reachable_has_depth:
  "queue_monitoring ok url b = Ok v \<Longrightarrow> qv_reachable v \<Longrightarrow> qv_pending v \<noteq> None"
  by (auto simp: queue_monitoring_def broker_probe_def Let_def split: if_splits sum.splits bool.splits)

lemma workers_need_broker:
  "queue_monitoring ok url b = Ok v \<Longrightarrow> \<not> qv_reachable v \<Longrightarrow> qv_workers v = []"
  by (auto simp: queue_monitoring_def Let_def split: if_splits prod.splits)

lemma map_of_flags_update:
  "(\<And>r. fl_key (f r) = fl_key r) \<Longrightarrow> list_ex (\<lambda>r. fl_key r = key) flags \<Longrightarrow>
   map_of (map (\<lambda>r. (fl_key r, fl_enabled r)) (update_where (\<lambda>r. fl_key r = key) f flags)) key =
   Some (fl_enabled (f (hd (filter (\<lambda>r. fl_key r = key) flags))))"
  by (induction flags) auto

text \<open>The store's assistant page shows the flag that was set last.\<close>

lemma assistant_flag_visible:
  assumes "set_feature_flag ok p who now ''assistant_enabled'' payload (flags, d) = (Ok (k, b), flags1, d1)"
    and "assistant_status A PgUp (map (\<lambda>r. (fl_key r, fl_enabled r)) flags1) pr w = Ok v"
  shows "as_enabled v = b"
proof -
  have "map_of (map (\<lambda>r. (fl_key r, fl_enabled r)) flags1) ''assistant_enabled'' = Some b"
    using assms(1) by (auto simp: set_feature_flag_def Let_def map_of_flags_update split: if_splits)
  then show ?thesis using assms(2) by (auto simp: assistant_status_def split: option.splits prod.splits)
qed

subsection \<open>Unlocking\<close>

lemma find_update_same:
  assumes "\<And>x. key (f x) = key x"
  shows "find (\<lambda>x. key x = e) (update_where (\<lambda>x. key x = e) f xs) = map_option f (find (\<lambda>x. key x = e) xs)"
    and "e' \<noteq> e \<Longrightarrow> find (\<lambda>x. key x = e') (update_where (\<lambda>x. key x = e) f xs) = find (\<lambda>x. key x = e') xs"
  using assms by (induction xs) auto

lemma unlock_users_find:
  "user_by_email e (unlock_users e a) = map_option (\<lambda>u. u\<lparr>ur_failed := 0, ur_locked := None\<rparr>) (user_by_email e a)"
  "e' \<noteq> e \<Longrightarrow> user_by_email e' (unlock_users e a) = user_by_email e' a"
  by (simp_all add: user_by_email_def unlock_users_def find_update_same [where key = "\<lambda>u. py_lower (ur_email u)"])

lemma unlock_customer:
  assumes "unlock_account E ok p payload (a, m, d) = (Ok (email, ''customer''), a1, m1, d1)"
  shows "a1 = unlock_users email a" "m1 = m"
  using assms by (auto simp: unlock_account_def Let_def split: if_splits)


lemma unlock_admin_only:
  "unlock_account E ok p payload (a, m, d) = (Ok (email, ''admin''), a1, m1, d1) \<Longrightarrow> a1 = a \<and> asessions m1 = asessions m"
  by (auto simp: unlock_account_def Let_def unlock_admins_def split: if_splits)

lemma update_where_member: "u \<in> set (update_where P f xs) \<Longrightarrow> P u \<Longrightarrow> \<exists>x. u = f x"
  by (induction xs) (auto split: if_splits)

lemma unlocked_users_free:
  assumes "u \<in> set (users (unlock_users e a))" and "py_lower (ur_email u) = e"
  shows "ur_locked u = None"
proof -
  have "u \<in> set (update_where (\<lambda>u. py_lower (ur_email u) = e) (\<lambda>u. u\<lparr>ur_failed := 0, ur_locked := None\<rparr>) (users a))"
    using assms(1) by (simp add: unlock_users_def)
  from update_where_member [OF this assms(2)] show ?thesis by (elim exE) simp
qed

lemma unlocked_not_listed:
  assumes "unlock_account E ok p payload (a, m, d) = (Ok (email, ''customer''), a1, m1, d1)"
    and "l \<in> set (locked_accounts now a1 m1)" and "lv_plane l = ''customer''"
  shows "py_lower (lv_email l) \<noteq> email"
proof
  assume e: "py_lower (lv_email l) = email"
  obtain u where u: "u \<in> set (users a1)" "held now (ur_locked u)" "lv_email l = ur_email u"
    using assms(2,3) by (auto simp: locked_accounts_def)
  then have "ur_locked u = None" using unlocked_users_free e unlock_customer(1) [OF assms(1)] by metis
  with u(2) show False by (simp add: held_def)
qed

subsection \<open>Widget defaults\<close>

lemma map_of_dict_update: "map_of (dict_update d e) k = (case map_of (rev e) k of None \<Rightarrow> map_of d k | Some v \<Rightarrow> Some v)"
  by (induction e arbitrary: d) (auto simp: dict_update_def map_add_def split: option.splits)

lemma chosen_default:
  "map_of (chosen_defaults payload) k =
     (case map_of (rev (filter (\<lambda>kv. fst kv \<in> set widget_default_fields) payload)) k of
        None \<Rightarrow> map_of default_widget_config k | Some v \<Rightarrow> Some v)"
  by (simp add: chosen_defaults_def map_of_dict_update)

lemma map_of_rev_distinct: "distinct (map fst d) \<Longrightarrow> map_of (rev d) = map_of d"
  by (rule map_of_inject_set [THEN iffD2]) (simp_all add: rev_map [symmetric])

lemma map_of_filter_in: "map_of (filter (\<lambda>kv. fst kv \<in> S) d) k = (if k \<in> S then map_of d k else None)"
  by (induction d) auto

lemma default_fields: "k \<notin> set widget_default_fields \<Longrightarrow> map_of default_widget_config k = None"
  by (simp add: widget_default_fields_def default_widget_config_def platform_defaults_def)

lemma chosen_field:
  assumes "distinct (map fst payload)"
  shows "map_of (chosen_defaults payload) k = (if k \<in> set widget_default_fields
     then (case map_of payload k of None \<Rightarrow> map_of default_widget_config k | Some x \<Rightarrow> Some x) else None)"
proof -
  have "map_of (rev (filter (\<lambda>kv. fst kv \<in> set widget_default_fields) payload)) k =
      (if k \<in> set widget_default_fields then map_of payload k else None)"
    using map_of_rev_distinct [OF distinct_map_filter [OF assms]] map_of_filter_in by metis
  then show ?thesis by (simp add: chosen_default default_fields)
qed

lemma dict_update_distinct: "distinct (map fst d) \<Longrightarrow> distinct (map fst (dict_update d e))"
  unfolding dict_update_def by (induction e arbitrary: d) (auto simp: case_prod_beta)

lemma chosen_distinct: "distinct (map fst (chosen_defaults payload))"
  unfolding chosen_defaults_def
  by (rule dict_update_distinct) (simp add: default_widget_config_def platform_defaults_def)

text \<open>C35: What the operator saved is what the operator reads back and what a store without settings of its own shows
  its visitors; a field that was sent has the sent value, a field that was not sent the built-in one, and no
  other key is stored.\<close>

theorem widget_defaults_reach_stores:
  assumes "redis_kv R" and "set_widget_defaults True p (Some R) payload (s, d) = (Ok v, s1, d1)"
    and "distinct (map fst payload)"
    and "the_or [] (ap_tenant (resolve_principal C api_key st)) \<noteq> []" and "principal_allowed (resolve_principal C api_key st) [WIDGET]"
    and "store_settings (the_or [] (ap_tenant (resolve_principal C api_key st))) d1 = []"
  shows "get_widget_defaults True (Some R) s1 = Ok (VDict v) \<and>
     widget_config C (Some R) api_key d1 st s1 = dict_update platform_defaults v \<and>
     map_of v k = (if k \<in> set widget_default_fields
                   then (case map_of payload k of None \<Rightarrow> map_of default_widget_config k | Some x \<Rightarrow> Some x) else None)"
proof -
  have set_ok: "fst (rd_set R widget_defaults_key (VDict v) None s) = Inr ()"
    and s1: "s1 = snd (rd_set R widget_defaults_key (VDict v) None s)" and v: "v = chosen_defaults payload"
    using assms(2) by (auto simp: set_widget_defaults_def Let_def split: sum.splits prod.splits if_splits)
  have got: "rd_get R widget_defaults_key s1 = Inr (Some (VDict v))"
    using redis_kv_laws(1) [OF assms(1) set_ok] by (simp add: s1)
  have gl: "global_defaults (Some R) s1 = v" using got by (simp add: global_defaults_def widget_defaults_key_def)
  have ov: "overlay [] c = c" for c by (simp add: overlay_def dict_get_def overlay_key_def tenant_widget_keys_def)
  have "widget_config C (Some R) api_key d1 st s1 = dict_update platform_defaults v"
    using assms(4-6) by (simp add: widget_config_def Let_def gl ov)
  moreover have "map_of v k = (if k \<in> set widget_default_fields
                   then (case map_of payload k of None \<Rightarrow> map_of default_widget_config k | Some x \<Rightarrow> Some x) else None)"
    unfolding v by (rule chosen_field [OF assms(3)])
  ultimately show ?thesis using got by (simp add: get_widget_defaults_def)
qed

subsection \<open>The health history\<close>

text \<open>A Redis that answers: the three list operations succeed.\<close>

definition lists_answer :: "('r, 'x) redis_scheme \<Rightarrow> bool" where
  "lists_answer R \<longleftrightarrow> (\<forall>k v s. fst (rd_lpush R k v s) = Inr ()) \<and> (\<forall>k i j s. fst (rd_ltrim R k i j s) = Inr ()) \<and>
     (\<forall>k i j s. \<exists>xs. rd_lrange R k i j s = Inr xs)"

lemma redis_range_first: "redis_range 0 95 xs = take 96 xs"
  by (simp add: redis_range_def Let_def)

lemma push_sample_spec:
  assumes "redis_list R rd_list" and "lists_answer R"
  shows "push_sample R v s = (rev (take 96 (v # rd_list history_key s)), snd (push_sample R v s)) \<and>
     rd_list history_key (snd (push_sample R v s)) = take 96 (v # rd_list history_key s)"
proof -
  define s1 where "s1 = snd (rd_lpush R history_key v s)"
  define s2 where "s2 = snd (rd_ltrim R history_key 0 95 s1)"
  have p: "rd_lpush R history_key v s = (Inr (), s1)" "rd_ltrim R history_key 0 95 s1 = (Inr (), s2)"
    using assms(2) by (simp_all add: s1_def s2_def lists_answer_def prod_eq_iff)
  have l1: "rd_list history_key s1 = v # rd_list history_key s"
    using assms(1) p(1) unfolding redis_list_def by (metis fst_conv snd_conv)
  have l2: "rd_list history_key s2 = take 96 (v # rd_list history_key s)"
    using assms(1) p(2) l1 unfolding redis_list_def redis_range_first [symmetric] by (metis fst_conv snd_conv)
  obtain xs where xs: "rd_lrange R history_key 0 95 s2 = Inr xs" using assms(2) unfolding lists_answer_def by blast
  have "xs = redis_range 0 95 (rd_list history_key s2)" using assms(1) xs unfolding redis_list_def by blast
  then have "xs = take 96 (v # rd_list history_key s)" by (simp only: l2 redis_range_first take_take min.idem)
  then show ?thesis using p xs l2 by (simp add: push_sample_def)
qed

definition run_health :: "('r, 'x) redis_scheme \<Rightarrow> probes list \<Rightarrow> 'r \<Rightarrow> 'r" where
  "run_health R qs s = fold (\<lambda>q s. snd (system_health True (Some R) q s)) qs s"

definition redis_seen :: "probes \<Rightarrow> bool" where "redis_seen q \<longleftrightarrow> pr_redis q = Inr True"

lemma health_step:
  assumes "redis_list R rd_list" and "lists_answer R" and "redis_seen q"
  shows "rd_list history_key (snd (system_health True (Some R) q s)) = take 96 (health_sample True q # rd_list history_key s)"
    and "\<exists>v. fst (system_health True (Some R) q s) = Ok v \<and> hv_history v = rev (take 96 (health_sample True q # rd_list history_key s))"
proof -
  have r: "the_or False (map_of (deps_of True q) ''redis'') = True"
    using assms(3) by (simp add: deps_of_def redis_seen_def answered_def)
  note p = push_sample_spec [OF assms(1,2), of "health_sample True q" s]
  show "rd_list history_key (snd (system_health True (Some R) q s)) = take 96 (health_sample True q # rd_list history_key s)"
    using p r by (simp add: system_health_def Let_def split_def)
  show "\<exists>v. fst (system_health True (Some R) q s) = Ok v \<and> hv_history v = rev (take 96 (health_sample True q # rd_list history_key s))"
    using p r by (simp add: system_health_def Let_def split_def prod_eq_iff)
qed

lemma take_cong_less: "take n xs = take n ys \<Longrightarrow> m \<le> n \<Longrightarrow> take m xs = take m ys"
  by (metis min.absorb1 take_take)

lemma take_cons_cong: "take n xs = take n ys \<Longrightarrow> take n (x # xs) = take n (x # ys)"
  by (cases n) (auto intro: take_cong_less)

lemma run_health_list:
  assumes "redis_list R rd_list" and "lists_answer R" and "list_all redis_seen qs"
  shows "take 96 (rd_list history_key (run_health R qs s)) = take 96 (rev (map (health_sample True) qs) @ rd_list history_key s)"
  using assms(3)
proof (induction qs rule: rev_induct)
  case (snoc q qs)
  have "rd_list history_key (run_health R (qs @ [q]) s) = take 96 (health_sample True q # rd_list history_key (run_health R qs s))"
    using snoc.prems by (simp add: run_health_def health_step [OF assms(1,2)])
  also have "\<dots> = take 96 (health_sample True q # rev (map (health_sample True) qs) @ rd_list history_key s)"
    using snoc by (intro take_cons_cong) simp
  finally have "rd_list history_key (run_health R (qs @ [q]) s) =
      take 96 (rev (map (health_sample True) (qs @ [q])) @ rd_list history_key s)" by (simp only: map_append rev_append) simp
  then show ?case by (simp only: take_take min.idem)
qed (simp add: run_health_def)

text \<open>However often the page is opened, the list in Redis holds at most 96 samples; the reply shows the newest 96,
  oldest first, and the sample of the reply's own probes is the last of them.\<close>

theorem health_history_is_newest:
  assumes "redis_list R rd_list" and "lists_answer R" and "list_all redis_seen (qs @ [q])"
  shows "\<exists>v. fst (system_health True (Some R) q (run_health R qs s)) = Ok v \<and>
     hv_history v = rev (take 96 (rev (map (health_sample True) (qs @ [q])) @ rd_list history_key s)) \<and>
     last (hv_history v) = health_sample True q \<and>
     length (rd_list history_key (run_health R (qs @ [q]) s)) \<le> 96"
proof -
  have q: "redis_seen q" and qs: "list_all redis_seen qs" using assms(3) by simp_all
  have t: "take 96 (health_sample True q # rd_list history_key (run_health R qs s)) =
      take 96 (rev (map (health_sample True) (qs @ [q])) @ rd_list history_key s)"
    using take_cons_cong [OF run_health_list [OF assms(1,2) qs, of s]] by simp
  obtain v where v: "fst (system_health True (Some R) q (run_health R qs s)) = Ok v"
    "hv_history v = rev (take 96 (health_sample True q # rd_list history_key (run_health R qs s)))"
    using health_step(2) [OF assms(1,2) q] by blast
  have "last (hv_history v) = health_sample True q" by (simp add: v(2) last_rev)
  moreover have "length (rd_list history_key (run_health R (qs @ [q]) s)) \<le> 96"
    by (simp add: run_health_def health_step(1) [OF assms(1,2) q])
  ultimately show ?thesis using v t by auto
qed

subsection \<open>The three views of the usage\<close>

lemma order_desc_mset: "mset (order_desc f xs) = mset xs"
  by (simp add: order_desc_def)

lemma length_order_desc [simp]: "length (order_desc f xs) = length xs"
  by (simp add: order_desc_def)

lemma sum_list_order_desc: "sum_list (map (g :: 'a \<Rightarrow> int) (order_desc f xs)) = sum_list (map g xs)"
  by (metis mset_map order_desc_mset sum_mset_sum_list)

lemma sum_list_of_nat: "real (sum_list (map g xs)) = sum_list (map (\<lambda>x. real (g x)) xs)"
  by (induction xs) simp_all

lemma rung_counts_total: "sum_list (map snd (rung_counts rows)) = length rows"
proof -
  have "real (sum_list (map snd (rung_counts rows))) = sum_of (\<lambda>g. real (snd g)) (rung_counts rows)"
    by (simp add: sum_of_def sum_list_of_nat)
  also have "\<dots> = sum_of (\<lambda>g. sum_of (\<lambda>_. 1) (snd g)) (group_rows us_rung rows)"
    by (simp add: rung_counts_def) (simp add: sum_of_def comp_def split_def sum_list_triv)
  also have "\<dots> = real (length rows)" unfolding sum_of_groups by (simp add: sum_of_def sum_list_triv)
  finally show ?thesis by simp
qed

definition stores_exist :: "db \<Rightarrow> usage_at list \<Rightarrow> bool" where
  "stores_exist d us \<longleftrightarrow> list_all (\<lambda>u. tenant_row (us_tenant u) d \<noteq> None) us"

lemma select_rows:
  assumes "stores_exist d us"
  shows "map fst (usage_select now d f us) = order_desc ua_at (filter (usage_matches now d f) us)"
proof -
  have "filter (\<lambda>u. tenant_row (us_tenant u) d \<noteq> None) (order_desc ua_at (filter (usage_matches now d f) us)) =
      order_desc ua_at (filter (usage_matches now d f) us)"
    using assms by (intro filter_True) (auto simp: stores_exist_def list_all_iff)
  then show ?thesis by (simp add: usage_select_def comp_def)
qed

text \<open>C36: The summary, the event list and the export describe one slice of the table: for the same filters, and up to
  the 10000 rows of an export, the export has a row for every call counted, its rows add up to the totals, the
  listed events are its first fifty, and the counts by rung add up to the number of calls.\<close>

theorem usage_views_agree:
  assumes "stores_exist d us"
    and "usage_monitoring iso_of num True PgUp now f None us d = Ok (UsagePage v)"
    and "usage_monitoring iso_of num True PgUp now f (Some ''csv'') us d = Ok (UsageCsv rows)"
    and "uv_calls v \<le> 10000"
  shows "\<exists>ev. rows = csv_columns # map (csv_row iso_of num) ev \<and> length ev = uv_calls v \<and> uv_events v = take 50 ev \<and>
     sum_list (map (us_tokens_in \<circ> fst) ev) = uv_tokens_in v \<and> sum_list (map (us_tokens_out \<circ> fst) ev) = uv_tokens_out v \<and>
     sum_list (map (us_cost \<circ> fst) ev) = uv_cost v \<and> sum_list (map snd (uv_by_rung v)) = uv_calls v"
proof -
  let ?f = "f\<lparr>uf_days := clamp_days (uf_days f)\<rparr>"
  define ev where "ev = usage_select now d ?f us"
  have v: "v = usage_page now d ?f us" using assms(2) by (simp add: usage_monitoring_def Let_def)
  have r: "rows = usage_csv iso_of num now d ?f us" using assms(3) by (simp add: usage_monitoring_def Let_def)
  have ev_rows: "map fst ev = order_desc ua_at (filter (usage_matches now d ?f) us)"
    unfolding ev_def by (rule select_rows [OF assms(1)])
  have len: "length ev = uv_calls v" using arg_cong [OF ev_rows, of length] by (simp add: v usage_page_def Let_def)
  have "rows = csv_columns # map (csv_row iso_of num) ev" using assms(4) len by (simp add: r usage_csv_def ev_def)
  moreover have "sum_list (map (us_tokens_in \<circ> fst) ev) = uv_tokens_in v" "sum_list (map (us_tokens_out \<circ> fst) ev) = uv_tokens_out v"
    by (simp_all add: map_map [symmetric] ev_rows sum_list_order_desc v usage_page_def Let_def del: map_map)
  moreover have "sum_list (map (us_cost \<circ> fst) ev) = uv_cost v"
  proof -
    have "sum_list (map (us_cost \<circ> fst) ev) = sum_of us_cost (map fst ev)" by (simp add: sum_of_def)
    then show ?thesis by (simp add: ev_rows v usage_page_def Let_def)
  qed
  moreover have "uv_events v = take 50 ev" "sum_list (map snd (uv_by_rung v)) = uv_calls v"
    by (simp_all add: v usage_page_def Let_def ev_def rung_counts_total)
  ultimately show ?thesis using len by blast
qed

text \<open>The credits of the page are those of all stores at all times, whatever the filters.\<close>

lemma credits_ignore_filters:
  assumes "usage_monitoring iso_of num True PgUp now f None us d = Ok (UsagePage v)"
    and "usage_monitoring iso_of num True PgUp now g None us d = Ok (UsagePage w)"
  shows "uv_credits v = uv_credits w"
  using assms by (auto simp: usage_monitoring_def usage_page_def Let_def)

subsection \<open>Witnesses\<close>

lemma hash_is_current:
  assumes "salt_ok C" and "hash_password C salt n raw = Inr stored"
  shows "needs_rehash n stored = Inr False"
proof -
  have "CHR ''$'' \<notin> set (cr_b64 C x)" for x using assms(1) by (simp add: salt_ok_def)
  then have "split_max 3 (CHR ''$'') stored = [hash_algorithm, nat_str n, cr_b64 C salt, cr_b64 C (cr_pbkdf2 C raw salt n)]"
    using assms(2) by (auto simp: hash_password_def eval_nat_numeral split_max_append split_max_no_sep nat_str_no_dollar hash_algorithm_def split: if_splits)
  then show ?thesis by (simp add: needs_rehash_def parse_nat_str)
qed

definition locked_user :: user_row where
  "locked_user = demo_user\<lparr>ur_failed := 5, ur_locked := Some 900,
     ur_hash := projr (hash_password esc_crypto ''s'' 600000 ''correct horse'')\<rparr>"

definition esc_env :: env where "esc_env = (\<lambda>_. [], ascii_unicode, esc_crypto)"

lemma locked_user_hash:
  "verify_password esc_crypto ''correct horse'' (ur_hash locked_user)" "needs_rehash default_iterations (ur_hash locked_user) = Inr False"
  "ur_status locked_user = ''active''"
proof -
  obtain st where st: "hash_password esc_crypto ''s'' 600000 ''correct horse'' = Inr st"
    by (simp add: hash_password_def)
  have h: "ur_hash locked_user = st" "ur_status locked_user = ''active''" by (simp_all add: locked_user_def st demo_user_def)
  show "ur_status locked_user = ''active''" by (fact h)
  show "verify_password esc_crypto ''correct horse'' (ur_hash locked_user)"
    using password_hash_verifies [OF esc_salt_ok st] by (simp add: h)
  show "needs_rehash default_iterations (ur_hash locked_user) = Inr False"
    using hash_is_current [OF esc_salt_ok st] by (simp add: h default_iterations_def)
qed


theorem health_history_is_newest_witness:
  "let q = \<lparr>pr_pg = Inr (), pr_pg_ms = 3, pr_redis = Inr True, pr_redis_ms = 1, pr_es = Inr False, pr_es_ms = 0, pr_ts = 7\<rparr> in
   \<exists>v. fst (system_health True (Some mem_redis) q (run_health mem_redis (replicate 100 q) mem_empty)) = Ok v \<and>
     last (hv_history v) = health_sample True q"
proof -
  let ?q = "\<lparr>pr_pg = Inr (), pr_pg_ms = 3, pr_redis = Inr True, pr_redis_ms = 1, pr_es = Inr False, pr_es_ms = 0, pr_ts = 7\<rparr> :: probes"
  have r: "lists_answer mem_redis" by (simp add: lists_answer_def mem_redis_def)
  have q: "list_all redis_seen (replicate 100 ?q @ [?q])" by (simp add: list_all_iff redis_seen_def)
  show ?thesis using health_history_is_newest [OF mem_redis_list r q, of mem_empty] unfolding Let_def by blast
qed

definition shop_key_store :: store where
  "shop_key_store = empty_store\<lparr>keys := [\<lparr>ky_id = ''k1'', ky_tenant = ''t1'', ky_hash = hash_key esc_crypto ''wk'', ky_scope = WIDGET,
     ky_label = [], ky_revoked = False\<rparr>]\<rparr>"

theorem widget_defaults_reach_stores_witness:
  "let (r, s1, d1) = set_widget_defaults True PgUp (Some mem_redis) [(''max_results'', VInt 5), (''junk'', VNone)] (mem_empty, empty_db)
   in dict_get (widget_config esc_crypto (Some mem_redis) (Some ''wk'') d1 shop_key_store s1) ''max_results'' = VInt 5"
proof -
  let ?pay = "[(''max_results'', VInt 5), (''junk'', VNone)]"
  obtain s1 d1 where st: "set_widget_defaults True PgUp (Some mem_redis) ?pay (mem_empty, empty_db) = (Ok (chosen_defaults ?pay), s1, d1)"
    and d1: "tenants d1 = []"
    by (simp add: set_widget_defaults_def mem_redis_def Let_def empty_db_def)
  have p: "resolve_principal esc_crypto (Some ''wk'') shop_key_store =
      \<lparr>ap_tenant = Some ''t1'', ap_scope = Some WIDGET, ap_raw = Some ''wk'', ap_verified = True\<rparr>"
    by (simp add: resolve_principal_def shop_key_store_def live_key_def empty_store_def)
  have t: "the_or [] (ap_tenant (resolve_principal esc_crypto (Some ''wk'') shop_key_store)) \<noteq> []"
    "principal_allowed (resolve_principal esc_crypto (Some ''wk'') shop_key_store) [WIDGET]"
    "store_settings (the_or [] (ap_tenant (resolve_principal esc_crypto (Some ''wk'') shop_key_store))) d1 = []"
    by (simp_all add: p principal_allowed_def store_settings_def tenant_row_def d1)
  note w = widget_defaults_reach_stores [OF mem_redis_kv st _ t, of "''max_results''"]
  have "map_of (chosen_defaults ?pay) ''max_results'' = Some (VInt 5)"
    using w by (simp add: widget_default_fields_def)
  moreover have "distinct (map fst (chosen_defaults ?pay))" by (rule chosen_distinct)
  ultimately have "map_of (dict_update platform_defaults (chosen_defaults ?pay)) ''max_results'' = Some (VInt 5)"
    by (simp add: map_of_dict_update map_of_rev_distinct)
  then show ?thesis using w by (simp add: st dict_get_def)
qed

definition usage_demo :: "int \<Rightarrow> real \<Rightarrow> usage_at" where
  "usage_demo n t = \<lparr>us_tenant = ''t1'', us_route = ''chat'', us_rung = ''local'', us_tokens_in = n, us_tokens_out = 1, us_cache_outcome = ''miss'',
     us_latency_ms = None, us_cost = 2, us_provider = None, us_model = None, us_provider_cost = 0, ua_at = t\<rparr>"

definition usage_db :: db where
  "usage_db = empty_db\<lparr>tenants := [\<lparr>tn_id = ''t1'', tn_name = ''Shop'', tn_plan = None, tn_status = ''active'', tn_notes = None,
     tn_slug = ''shop'', tn_settings = [], tn_tracking = True\<rparr>]\<rparr>"

theorem usage_views_agree_witness:
  "let f = \<lparr>uf_tenant = None, uf_route = None, uf_rung = Some ''local'', uf_days = 7\<rparr>;
       us = [usage_demo 3 10, usage_demo 4 20] in
   \<exists>v ev. usage_monitoring (\<lambda>_. []) (\<lambda>_. []) True PgUp 30 f None us usage_db = Ok (UsagePage v) \<and>
     length ev = uv_calls v \<and> uv_events v = take 50 ev \<and> sum_list (map (us_tokens_in \<circ> fst) ev) = uv_tokens_in v"
proof -
  let ?f = "\<lparr>uf_tenant = None, uf_route = None, uf_rung = Some ''local'', uf_days = 7\<rparr>" and ?us = "[usage_demo 3 10, usage_demo 4 20]"
  have e: "stores_exist usage_db ?us" by (simp add: stores_exist_def usage_demo_def usage_db_def tenant_row_def)
  obtain v rows where v: "usage_monitoring (\<lambda>_. []) (\<lambda>_. []) True PgUp 30 ?f None ?us usage_db = Ok (UsagePage v)"
    and r: "usage_monitoring (\<lambda>_. []) (\<lambda>_. []) True PgUp 30 ?f (Some ''csv'') ?us usage_db = Ok (UsageCsv rows)"
    by (simp add: usage_monitoring_def Let_def)
  have "uv_calls v \<le> length ?us"
    using v by (auto simp: usage_monitoring_def usage_page_def Let_def)
  then have "uv_calls v \<le> 10000" by simp
  from usage_views_agree [OF e v r this] show ?thesis using v unfolding Let_def by blast
qed

end
