(* ===== verification/Evaluation.thy ===== *)
theory Evaluation
  imports V1
begin

text \<open>
  The offline evaluation that gates changes of the search (\<open>eval/metrics.py\<close>, \<open>eval/run_eval.py\<close>,
  \<open>eval/es_provider.py\<close>) and of the assistant (\<open>eval/groundedness.py\<close>). Floats are reals, the lines of the golden
  set are an argument, and \<open>loads\<close>, \<open>to_int\<close> and \<open>num\<close> are \<open>json.loads\<close>, \<open>int()\<close> and the float format.
\<close>

subsection \<open>Metrics\<close>

text \<open>The slice \<open>xs[:k]\<close>.\<close>

definition py_slice :: "int \<Rightarrow> 'a list \<Rightarrow> 'a list" where
  "py_slice k xs = take (nat (if k < 0 then int (length xs) + k else k)) xs"

definition gain :: "real \<Rightarrow> real" where "gain rel = 2 powr rel - 1"
definition discount :: "nat \<Rightarrow> real" where "discount i = 1 / log 2 (real i + 2)"

fun dcg_from :: "nat \<Rightarrow> real list \<Rightarrow> real" where
  "dcg_from i [] = 0"
| "dcg_from i (rel # rels) = gain rel * discount i + dcg_from (Suc i) rels"

definition dcg :: "real list \<Rightarrow> int \<Rightarrow> real" where
  "dcg relevances k = dcg_from 0 (py_slice k relevances)"

definition ndcg_at_k :: "real list \<Rightarrow> real list \<Rightarrow> int \<Rightarrow> real" where
  "ndcg_at_k ranked ideal_relevances k =
     (let ideal = dcg (rev (sort ideal_relevances)) k in if ideal = 0 then 0 else dcg ranked k / ideal)"

definition precision_at_k :: "real list \<Rightarrow> int \<Rightarrow> real \<Rightarrow> real" where
  "precision_at_k ranked k threshold =
     (if k \<le> 0 then 0
      else let top = py_slice k ranked in
        if top = [] then 0
        else real (length (filter (\<lambda>r. r \<ge> threshold) top)) / of_int (min k (int (length top))))"

definition zero_result_rate :: "nat list \<Rightarrow> real" where
  "zero_result_rate counts = (if counts = [] then 0 else real (length (filter (\<lambda>c. c = 0) counts)) / real (length counts))"

definition p95 :: "real list \<Rightarrow> real" where
  "p95 values =
     (if values = [] then 0
      else sort values ! nat (min (int (length values) - 1) (max 0 (round_even (95 / 100 * real (length values)) - 1))))"

subsection \<open>The golden set\<close>

record golden_query =
  gq_id :: pyv
  gq_query :: pyv
  gq_category :: pyv
  gq_grades :: "(pyv \<times> int) list"

definition need :: "py_dict \<Rightarrow> string \<Rightarrow> pyv res" where
  "need d k = (case map_of d k of None \<Rightarrow> Inl (Exn ''KeyError'') | Some v \<Rightarrow> Inr v)"

fun grades_of :: "(pyv \<Rightarrow> int res) \<Rightarrow> pyv list \<Rightarrow> (pyv \<times> int) list \<Rightarrow> (pyv \<times> int) list res" where
  "grades_of to_int [] acc = Inr acc"
| "grades_of to_int (VDict j # js) acc =
     bind_res (need j ''product_id'') (\<lambda>i. bind_res (need j ''grade'') (\<lambda>g. bind_res (to_int g) (\<lambda>n.
       grades_of to_int js (dict_set i n acc))))"
| "grades_of to_int (_ # js) acc = Inl (Exn ''TypeError'')"

definition golden_line :: "(pyv \<Rightarrow> int res) \<Rightarrow> py_dict \<Rightarrow> golden_query res" where
  "golden_line to_int obj =
     (case dict_get_or obj ''judgements'' (VList []) of
        VList js \<Rightarrow> bind_res (grades_of to_int js []) (\<lambda>gs. bind_res (need obj ''query_id'') (\<lambda>i. bind_res (need obj ''query'') (\<lambda>q.
          Inr \<lparr>gq_id = i, gq_query = q, gq_category = dict_get_or obj ''category'' (VStr ''unknown''), gq_grades = gs\<rparr>)))
      | _ \<Rightarrow> Inl (Exn ''TypeError''))"

fun load_golden_set :: "(string \<Rightarrow> py_dict res) \<Rightarrow> (pyv \<Rightarrow> int res) \<Rightarrow> string list \<Rightarrow> golden_query list res" where
  "load_golden_set loads to_int [] = Inr []"
| "load_golden_set loads to_int (l # ls) =
     (if py_strip l = [] then load_golden_set loads to_int ls
      else bind_res (loads (py_strip l)) (\<lambda>obj. bind_res (golden_line to_int obj) (\<lambda>q.
        bind_res (load_golden_set loads to_int ls) (\<lambda>qs. Inr (q # qs)))))"

subsection \<open>The run\<close>

text \<open>A provider answers the ids of a query and takes some milliseconds; it may raise.\<close>

type_synonym 'w provider = "pyv \<Rightarrow> 'w \<Rightarrow> pyv list res \<times> 'w"

definition empty_provider :: "'w provider" where "empty_provider q w = (Inr [], w)"

definition es_provider :: "'w search_service \<Rightarrow> (pyv \<Rightarrow> string) \<Rightarrow> int \<Rightarrow> tenant \<Rightarrow> int \<Rightarrow> 'w provider" where
  "es_provider V repr lat t n q w =
     (case search V repr lat t (py_str repr q) None (Some n) None w of
        (Inl e, w1) \<Rightarrow> (Inl e, w1)
      | (Inr r, w1) \<Rightarrow> (Inr (filter truthy (map (\<lambda>d. dict_get d ''product_id'') (sr_results r))), w1))"

definition ranked_grades :: "golden_query \<Rightarrow> pyv list \<Rightarrow> real list" where
  "ranked_grades q ids = map (\<lambda>i. of_int (the_or 0 (map_of (gq_grades q) i))) ids"

definition ideal_grades :: "golden_query \<Rightarrow> real list" where
  "ideal_grades q = map (\<lambda>kv. of_int (snd kv)) (gq_grades q)"

record eval_result =
  ev_ndcg :: real
  ev_precision :: real
  ev_zero :: real
  ev_p95 :: real
  ev_count :: nat

fun rank_all :: "'w provider \<Rightarrow> golden_query list \<Rightarrow> 'w \<Rightarrow> pyv list list res \<times> 'w" where
  "rank_all P [] w = (Inr [], w)"
| "rank_all P (q # qs) w =
     (case P (gq_query q) w of
        (Inl e, w1) \<Rightarrow> (Inl e, w1)
      | (Inr ids, w1) \<Rightarrow>
          (case rank_all P qs w1 of (Inl e, w2) \<Rightarrow> (Inl e, w2) | (Inr rest, w2) \<Rightarrow> (Inr (ids # rest), w2)))"

definition mean_over :: "nat \<Rightarrow> real list \<Rightarrow> real" where "mean_over n xs = sum_list xs / real (max n 1)"

definition scores :: "golden_query list \<Rightarrow> int \<Rightarrow> real list \<Rightarrow> pyv list list \<Rightarrow> eval_result" where
  "scores golden k lats ranked =
     \<lparr>ev_ndcg = mean_over (length golden) (map2 (\<lambda>q ids. ndcg_at_k (ranked_grades q ids) (ideal_grades q) k) golden ranked),
      ev_precision = mean_over (length golden) (map2 (\<lambda>q ids. precision_at_k (ranked_grades q ids) k 1) golden ranked),
      ev_zero = zero_result_rate (map length ranked), ev_p95 = p95 lats, ev_count = length golden\<rparr>"

definition evaluate :: "golden_query list \<Rightarrow> 'w provider \<Rightarrow> int \<Rightarrow> real list \<Rightarrow> 'w \<Rightarrow> eval_result res \<times> 'w" where
  "evaluate golden P k lats w =
     (case rank_all P golden w of (Inl e, w1) \<Rightarrow> (Inl e, w1) | (Inr ranked, w1) \<Rightarrow> (Inr (scores golden k lats ranked), w1))"

subsection \<open>The gate\<close>

text \<open>The targets, with the value of the run; \<open>ndcg@10\<close> is missing when the cutoff is not 10.\<close>

definition kpi_values :: "int \<Rightarrow> eval_result \<Rightarrow> (string \<times> bool \<times> real \<times> real option) list" where
  "kpi_values k r =
     [(''ndcg@10'', True, 8 / 10, if k = 10 then Some (ev_ndcg r) else None),
      (''p95_latency_ms'', False, 150, Some (ev_p95 r)), (''zero_result_rate'', False, 5 / 100, Some (ev_zero r))]"

definition kpi_met :: "bool \<Rightarrow> real \<Rightarrow> real \<Rightarrow> bool" where
  "kpi_met at_least target v = (if at_least then v \<ge> target else v < target)"

definition kpi_report :: "(real \<Rightarrow> string) \<Rightarrow> int \<Rightarrow> eval_result \<Rightarrow> string list \<times> bool" where
  "kpi_report num k r =
     (let present = concat (map (\<lambda>(m, up, target, v). case v of None \<Rightarrow> [] | Some x \<Rightarrow> [(m, up, target, x)]) (kpi_values k r)) in
      ([[], ''KPI report:''] @
        map (\<lambda>(m, up, target, x). ''  '' @ (if kpi_met up target x then ''PASS'' else ''FAIL'') @ ''  '' @ m @ '' = '' @ num x @
          ''  (target '' @ (if up then ''>='' else ''<'') @ '' '' @ num target @ '')'') present,
       list_all (\<lambda>(m, up, target, x). kpi_met up target x) present))"

subsection \<open>Groundedness\<close>

definition no_result_markers :: "string list" where
  "no_result_markers =
     [([CHR 0xD9, CHR 0x85, CHR 0xD9, CHR 0x88, CHR 0xD8, CHR 0xB1, CHR 0xD8, CHR 0xAF, CHR 0xDB, CHR 0x8C] @
      '' '' @ [CHR 0xDB, CHR 0x8C, CHR 0xD8, CHR 0xA7, CHR 0xD9, CHR 0x81, CHR 0xD8, CHR 0xAA] @ '' '' @ [CHR
      0xD9, CHR 0x86, CHR 0xD8, CHR 0xB4, CHR 0xD8, CHR 0xAF]),
      ([CHR 0xD9, CHR 0xBE, CHR 0xD8, CHR 0xA7, CHR 0xD8, CHR 0xB3, CHR 0xD8, CHR 0xAE] @ '' '' @ [CHR 0xD8, CHR
      0xAF, CHR 0xD9, CHR 0x82, CHR 0xDB, CHR 0x8C, CHR 0xD9, CHR 0x82, CHR 0xDB, CHR 0x8C] @ '' '' @ [CHR
      0xD8, CHR 0xAF, CHR 0xD8, CHR 0xB1] @ '' '' @ [CHR 0xD8, CHR 0xAF, CHR 0xD8, CHR 0xA7, CHR 0xD8, CHR
      0xAF, CHR 0xD9, CHR 0x87, CHR 0xE2, CHR 0x80, CHR 0x8C, CHR 0xD9, CHR 0x87, CHR 0xD8, CHR 0xA7, CHR 0xDB,
      CHR 0x8C] @ '' '' @ [CHR 0xD9, CHR 0x81, CHR 0xD8, CHR 0xB1, CHR 0xD9, CHR 0x88, CHR 0xD8, CHR 0xB4, CHR
      0xDA, CHR 0xAF, CHR 0xD8, CHR 0xA7, CHR 0xD9, CHR 0x87] @ '' '' @ [CHR 0xD9, CHR 0xBE, CHR 0xDB, CHR
      0x8C, CHR 0xD8, CHR 0xAF, CHR 0xD8, CHR 0xA7] @ '' '' @ [CHR 0xD9, CHR 0x86, CHR 0xDA, CHR 0xA9, CHR
      0xD8, CHR 0xB1, CHR 0xD8, CHR 0xAF, CHR 0xD9, CHR 0x85])]"

text \<open>\<open>_doc_exists\<close>; an exception counts as missing.\<close>

definition doc_exists :: "(string \<Rightarrow> bool res) \<Rightarrow> tenant \<Rightarrow> string \<Rightarrow> bool" where
  "doc_exists es t pid = or_else (es (doc_id t pid)) False"

definition judge_turn :: "(pyv \<Rightarrow> string) \<Rightarrow> (string \<Rightarrow> bool res) \<Rightarrow> tenant \<Rightarrow> rag_reply \<Rightarrow> bool \<times> string" where
  "judge_turn repr es t r =
     (let citations = dicts_of (rr_citations r) in
      if rr_refused r then (True, ''refused'')
      else if citations = [] then
        (if list_ex (\<lambda>m. str_in m (py_str repr (rr_answer r))) no_result_markers then (True, ''no_results_honest'')
         else (False, ''no_citations''))
      else
        let checks = map (\<lambda>c. doc_exists es t (py_str repr (dict_get c ''product_id''))) (filter (\<lambda>c. truthy (dict_get c ''product_id'')) citations);
            ok = (checks \<noteq> [] \<and> list_all id checks)
        in (ok, if ok then ''cited_products_verified'' else ''cited_unknown_product''))"

record grounded_result =
  gr_rate :: real
  gr_turns :: nat
  gr_total :: nat
  gr_pass :: bool
  gr_details :: "(bool \<times> string) list"

definition grounded_summary :: "(bool \<times> string) list \<Rightarrow> grounded_result" where
  "grounded_summary ds =
     (let grounded = length (filter fst ds); total = max (length ds) 1 in
      \<lparr>gr_rate = real grounded / real total, gr_turns = grounded, gr_total = length ds,
       gr_pass = (real grounded / real total \<ge> 95 / 100), gr_details = ds\<rparr>)"

fun judge_all ::
  "'w rag \<Rightarrow> (pyv \<Rightarrow> string) \<Rightarrow> (string \<Rightarrow> bool res) \<Rightarrow> tenant \<Rightarrow> int \<Rightarrow> (string \<times> golden_query) list \<Rightarrow> 'w \<Rightarrow> (bool \<times> string) list res \<times> 'w" where
  "judge_all A repr es t lat [] w = (Inr [], w)"
| "judge_all A repr es t lat ((sid, q) # qs) w =
     (case rag_answer A t sid (py_str repr (gq_query q)) lat w of
        (Inl e, w1) \<Rightarrow> (Inl e, w1)
      | (Inr r, w1) \<Rightarrow>
          (case judge_all A repr es t lat qs w1 of
             (Inl e, w2) \<Rightarrow> (Inl e, w2)
           | (Inr ds, w2) \<Rightarrow> (Inr (judge_turn repr es t r # ds), w2)))"

definition groundedness_run ::
  "'w rag \<Rightarrow> (pyv \<Rightarrow> string) \<Rightarrow> (string \<Rightarrow> bool res) \<Rightarrow> tenant \<Rightarrow> int \<Rightarrow> string list \<Rightarrow> golden_query list \<Rightarrow> int \<Rightarrow> 'w \<Rightarrow> grounded_result res \<times> 'w" where
  "groundedness_run A repr es t lat sids golden limit w =
     (case judge_all A repr es t lat (zip sids (py_slice limit golden)) w of
        (Inl e, w1) \<Rightarrow> (Inl e, w1) | (Inr ds, w1) \<Rightarrow> (Inr (grounded_summary ds), w1))"

end
