(* ===== verification/EvalProps.thy ===== *)
theory EvalProps
  imports Evaluation
begin

text \<open>
  The metrics are what their names say: the normalised gain of a ranking without repetitions lies between 0 and 1
  and is 1 for the ideal order, the other rates are fractions, and the answers the assistant falls back to count
  as honest.
\<close>

subsection \<open>Discounted gains\<close>

lemma discount_pos: "0 < discount i"
  by (simp add: discount_def)

lemma discount_decreasing: "discount (Suc i) \<le> discount i"
  unfolding discount_def by (intro divide_left_mono) (simp_all add: mult_pos_pos)

lemma gain_mono: "a \<le> b \<Longrightarrow> gain a \<le> gain b"
  by (simp add: gain_def)

lemma gain_nonneg: "0 \<le> r \<Longrightarrow> 0 \<le> gain r"
  by (simp add: gain_def ge_one_powr_ge_zero)

fun weighted :: "nat \<Rightarrow> real list \<Rightarrow> real" where
  "weighted i [] = 0"
| "weighted i (x # xs) = x * discount i + weighted (Suc i) xs"

lemma dcg_from_weighted: "dcg_from i rels = weighted i (map gain rels)"
  by (induction rels arbitrary: i) simp_all

lemma weighted_nonneg: "list_all (\<lambda>x. 0 \<le> x) xs \<Longrightarrow> 0 \<le> weighted i xs"
  by (induction xs arbitrary: i) (simp_all add: less_imp_le [OF discount_pos])

text \<open>Abel summation: as the weights decrease, a bound on the sums of all prefixes bounds the weighted sum.\<close>

lemma weighted_le_prefix:
  assumes "\<And>n. sum_list (take n xs) \<le> c + sum_list (take n ys)" and "0 \<le> c" and "list_all (\<lambda>x. 0 \<le> x) ys"
  shows "weighted i xs \<le> c * discount i + weighted i ys"
  using assms
proof (induction xs arbitrary: i ys c)
  case Nil
  have "0 \<le> c * discount i" by (intro mult_nonneg_nonneg) (simp_all add: Nil less_imp_le [OF discount_pos])
  then show ?case using weighted_nonneg [OF Nil(3), of i] by simp
next
  case (Cons x xs)
  define y where "y = (case ys of [] \<Rightarrow> 0 | y # _ \<Rightarrow> y)"
  have tl: "list_all (\<lambda>x. 0 \<le> x) (tl ys)" using Cons.prems(3) by (cases ys) simp_all
  have split: "sum_list (take (Suc n) ys) = y + sum_list (take n (tl ys))" for n
    by (cases ys) (simp_all add: y_def)
  have c: "0 \<le> c + y - x" using Cons.prems(1) [of 1] split [of 0] by simp
  have "sum_list (take n xs) \<le> (c + y - x) + sum_list (take n (tl ys))" for n
    using Cons.prems(1) [of "Suc n"] split [of n] by simp
  from Cons.IH [OF this c tl, of "Suc i"]
  have "weighted (Suc i) xs \<le> (c + y - x) * discount (Suc i) + weighted (Suc i) (tl ys)" .
  also have "\<dots> \<le> (c + y - x) * discount i + weighted (Suc i) (tl ys)"
    using mult_left_mono [OF discount_decreasing c, of i] by simp
  finally have "weighted i (x # xs) \<le> c * discount i + (y * discount i + weighted (Suc i) (tl ys))"
    by (simp add: algebra_simps)
  also have "y * discount i + weighted (Suc i) (tl ys) = weighted i ys" by (cases ys) (simp_all add: y_def)
  finally show ?case .
qed

text \<open>A list sorted in descending order has the largest sums: no choice of \<open>n\<close> of its elements exceeds its first
  \<open>n\<close>, zeros of the choice aside.\<close>

lemma prefix_is_largest:
  assumes "A \<subseteq># mset ys" and "size A \<le> n" and "sorted_wrt (\<ge>) ys" and "list_all (\<lambda>x. (0 :: real) \<le> x) ys"
  shows "sum_mset A \<le> sum_list (take n ys)"
  using assms
proof (induction ys arbitrary: A n)
  case (Cons y ys)
  show ?case
  proof (cases "A = {#}")
    case True
    have "0 \<le> sum_list (take n (y # ys))"
      by (rule sum_list_nonneg) (use Cons.prems(4) in \<open>metis in_set_takeD list_all_iff\<close>)
    then show ?thesis by (simp add: True)
  next
    case False
    then obtain m where n: "n = Suc m" using Cons.prems(2) by (cases n) auto
    obtain a where a: "a \<in># A" "a \<le> y" "A - {#a#} \<subseteq># mset ys"
    proof (cases "y \<in># A")
      case True
      show thesis by (rule that [OF True order_refl]) (use Cons.prems(1) in \<open>simp add: subset_eq_diff_conv\<close>)
    next
      case nin: False
      obtain a where a: "a \<in># A" using False by blast
      have sub: "A \<subseteq># mset ys"
        using subset_eq_diff_conv [of A "{#y#}" "mset ys"] Cons.prems(1) diff_single_trivial [OF nin] by simp
      have "a \<in> set ys" using a sub by (meson mset_subset_eqD set_mset_mset in_multiset_in_set)
      then have "a \<le> y" using Cons.prems(3) by auto
      then show thesis by (rule that [OF a _ subset_mset.order_trans [OF diff_subset_eq_self sub]])
    qed
    have "size (A - {#a#}) \<le> m" using Cons.prems(2) a(1) by (simp add: n size_Diff_singleton)
    moreover have "sorted_wrt (\<ge>) ys" using Cons.prems(3) by (simp only: sorted_wrt.simps)
    moreover have "list_all (\<lambda>x. 0 \<le> x) ys" using Cons.prems(4) by (simp only: list.pred_inject)
    ultimately have "sum_mset (A - {#a#}) \<le> sum_list (take m ys)" by (rule Cons.IH [OF a(3)])
    moreover have "sum_mset A = a + sum_mset (A - {#a#})" by (rule sum_mset.remove [OF a(1)])
    ultimately show ?thesis using a(2) by (simp add: n)
  qed
qed simp

subsection \<open>The normalised gain\<close>

text \<open>Grades of ranked ids: a ranking without repetitions picks each judged grade at most once, and zeros.\<close>

lemma map_of_mset:
  assumes "distinct (map fst d)" and "distinct ids"
  shows "image_mset f (mset (filter (\<lambda>i. i \<in> fst ` set d) ids)) \<subseteq># image_mset f (mset (map fst d))"
proof (rule image_mset_subseteq_mono)
  let ?ks = "filter (\<lambda>i. i \<in> fst ` set d) ids"
  have "mset ?ks = mset_set (set ?ks)" "mset (map fst d) = mset_set (set (map fst d))"
    by (simp_all only: mset_set_set [symmetric] assms distinct_filter)
  moreover have "set ?ks \<subseteq> set (map fst d)" by auto
  ultimately show "mset ?ks \<subseteq># mset (map fst d)" by (simp only: subset_imp_msubset_mset_set finite_set)
qed

definition well_graded :: "golden_query \<Rightarrow> bool" where
  "well_graded q \<longleftrightarrow> distinct (map fst (gq_grades q)) \<and> list_all (\<lambda>kv. 0 \<le> snd kv) (gq_grades q)"

lemma gain_zero [simp]: "gain 0 = 0" by (simp add: gain_def)

lemma sum_gains_filter:
  "sum_list (map gain (ranked_grades q ids)) =
   sum_list (map gain (ranked_grades q (filter (\<lambda>i. i \<in> fst ` set (gq_grades q)) ids)))"
proof (induction ids)
  case (Cons i ids)
  have "i \<notin> fst ` set (gq_grades q) \<Longrightarrow> map_of (gq_grades q) i = None" by (simp add: map_of_eq_None_iff)
  then show ?case using Cons by (auto simp: ranked_grades_def)
qed (simp add: ranked_grades_def)

lemma graded_submset:
  assumes "distinct (map fst (gq_grades q))" and "distinct ids"
  shows "mset (map gain (ranked_grades q (filter (\<lambda>i. i \<in> fst ` set (gq_grades q)) ids))) \<subseteq># mset (map gain (ideal_grades q))"
proof -
  let ?g = "\<lambda>i. gain (of_int (the_or 0 (map_of (gq_grades q) i)))"
  have "map gain (ideal_grades q) = map ?g (map fst (gq_grades q))"
    using assms(1) by (auto simp: ideal_grades_def)
  then have i: "mset (map gain (ideal_grades q)) = image_mset ?g (mset (map fst (gq_grades q)))" by (simp only: mset_map)
  have r: "mset (map gain (ranked_grades q xs)) = image_mset ?g (mset xs)" for xs
    by (simp add: ranked_grades_def comp_def flip: mset_map)
  show ?thesis unfolding i r by (rule map_of_mset [OF assms])
qed

lemma ideal_sorted: "sorted_wrt (\<ge>) (map gain (rev (sort xs)))"
  by (simp add: sorted_wrt_map sorted_wrt_rev rev_map [symmetric] sorted_wrt_mono_rel [OF _ sorted_sort] gain_mono)

lemma ideal_gains_nonneg:
  assumes "well_graded q"
  shows "list_all (\<lambda>x. 0 \<le> x) (map gain (rev (sort (ideal_grades q))))"
proof -
  have "0 \<le> gain (real_of_int (snd kv))" if "kv \<in> set (gq_grades q)" for kv
    using assms that by (intro gain_nonneg) (auto simp: well_graded_def list_all_iff)
  then show ?thesis by (auto simp: list_all_iff ideal_grades_def)
qed

lemma list_all_take: "list_all P xs \<Longrightarrow> list_all P (take n xs)"
  by (metis append_take_drop_id list_all_append)

lemma take_sum_le:
  assumes "well_graded q" and "distinct ids"
  shows "sum_list (take m (map gain (ranked_grades q ids))) \<le> sum_list (take m (map gain (rev (sort (ideal_grades q)))))"
proof -
  let ?js = "filter (\<lambda>i. i \<in> fst ` set (gq_grades q)) (take m ids)" and ?ys = "map gain (rev (sort (ideal_grades q)))"
  let ?A = "mset (map gain (ranked_grades q ?js))"
  have "sum_list (take m (map gain (ranked_grades q ids))) = sum_list (map gain (ranked_grades q (take m ids)))"
    by (simp add: ranked_grades_def take_map)
  also have "\<dots> = sum_mset ?A" by (subst sum_gains_filter) (simp only: sum_mset_sum_list)
  also have "\<dots> \<le> sum_list (take m ?ys)"
  proof (rule prefix_is_largest)
    show "?A \<subseteq># mset ?ys"
      using graded_submset [of q "take m ids"] assms by (simp add: well_graded_def)
    show "size ?A \<le> m" using length_filter_le [of "\<lambda>i. i \<in> fst ` set (gq_grades q)" "take m ids"] by (simp add: ranked_grades_def del: mset_filter mset_map)
    show "sorted_wrt (\<ge>) ?ys" by (rule ideal_sorted)
    show "list_all (\<lambda>x. 0 \<le> x) ?ys" by (rule ideal_gains_nonneg [OF assms(1)])
  qed
  finally show ?thesis .
qed

lemma dcg_le_ideal:
  assumes "well_graded q" and "distinct ids" and "0 \<le> k"
  shows "dcg (ranked_grades q ids) k \<le> dcg (rev (sort (ideal_grades q))) k"
proof -
  let ?xs = "map gain (take (nat k) (ranked_grades q ids))" and ?ys = "map gain (take (nat k) (rev (sort (ideal_grades q))))"
  have "sum_list (take m ?xs) \<le> 0 + sum_list (take m ?ys)" for m
    using take_sum_le [OF assms(1,2), of "min m (nat k)"] by (simp add: take_map)
  moreover have "list_all (\<lambda>x. 0 \<le> x) ?ys"
    using list_all_take [OF ideal_gains_nonneg [OF assms(1)], of "nat k"] by (simp only: take_map)
  ultimately have "weighted 0 ?xs \<le> 0 * discount 0 + weighted 0 ?ys" by (intro weighted_le_prefix) simp_all
  then show ?thesis using assms(3) by (simp add: dcg_def py_slice_def dcg_from_weighted)
qed

lemma dcg_nonneg:
  assumes "list_all (\<lambda>x. 0 \<le> x) rels"
  shows "0 \<le> dcg rels k"
proof -
  have "list_all (\<lambda>x. 0 \<le> x) (map gain (py_slice k rels))"
    using assms by (auto simp: list_all_iff py_slice_def dest!: in_set_takeD intro: gain_nonneg)
  then show ?thesis by (simp add: dcg_def dcg_from_weighted weighted_nonneg)
qed

lemma ranked_nonneg: "well_graded q \<Longrightarrow> list_all (\<lambda>x. 0 \<le> x) (ranked_grades q ids)"
  by (induction ids) (auto simp: ranked_grades_def well_graded_def list_all_iff the_or_def split: option.splits dest: map_of_SomeD)

lemma ndcg_bounds:
  assumes "well_graded q" and "distinct ids" and "0 \<le> k"
  shows "0 \<le> ndcg_at_k (ranked_grades q ids) (ideal_grades q) k \<and> ndcg_at_k (ranked_grades q ids) (ideal_grades q) k \<le> 1"
proof -
  let ?r = "dcg (ranked_grades q ids) k" and ?i = "dcg (rev (sort (ideal_grades q))) k"
  have "0 \<le> ?r" by (rule dcg_nonneg [OF ranked_nonneg [OF assms(1)]])
  moreover have "?r \<le> ?i" by (rule dcg_le_ideal [OF assms])
  ultimately show ?thesis by (simp add: ndcg_at_k_def Let_def)
qed

lemma ndcg_of_ideal:
  "dcg (rev (sort ideal)) k \<noteq> 0 \<Longrightarrow> ndcg_at_k (rev (sort ideal)) ideal k = 1"
  by (simp add: ndcg_at_k_def Let_def)

text \<open>A provider that repeats an id is rewarded above 1.\<close>

lemma repeated_id_exceeds_one:
  "ndcg_at_k (ranked_grades \<lparr>gq_id = VNone, gq_query = VNone, gq_category = VNone, gq_grades = [(VInt 1, 1)]\<rparr> [VInt 1, VInt 1])
     (ideal_grades \<lparr>gq_id = VNone, gq_query = VNone, gq_category = VNone, gq_grades = [(VInt 1, 1)]\<rparr>) 10 > 1"
  by (simp add: ndcg_at_k_def ranked_grades_def ideal_grades_def dcg_def py_slice_def gain_def discount_def Let_def)

lemma precision_bounds: "0 \<le> precision_at_k xs k t \<and> precision_at_k xs k t \<le> 1"
proof -
  let ?top = "py_slice k xs"
  have "length ?top \<le> nat k" if "0 < k" using that by (simp add: py_slice_def)
  then have "min k (int (length ?top)) = int (length ?top)" if "0 < k" using that by auto
  moreover have "real (length (filter (\<lambda>r. r \<ge> t) ?top)) \<le> real (length ?top)" by simp
  ultimately show ?thesis by (auto simp: precision_at_k_def Let_def divide_le_eq_1)
qed

lemma zero_rate_bounds: "0 \<le> zero_result_rate cs \<and> zero_result_rate cs \<le> 1"
  by (auto simp: zero_result_rate_def divide_le_eq_1)

lemma mean_bounds:
  assumes "\<And>x. x \<in> set xs \<Longrightarrow> 0 \<le> x \<and> x \<le> 1" and "length xs \<le> n"
  shows "0 \<le> mean_over n xs \<and> mean_over n xs \<le> 1"
proof -
  have "0 \<le> sum_list xs" using assms(1) by (simp add: sum_list_nonneg)
  moreover have "sum_list xs \<le> sum_list (map (\<lambda>_. 1) xs)" using sum_list_mono [of xs "\<lambda>x. x" "\<lambda>_. 1"] assms(1) by simp
  ultimately show ?thesis using assms(2) by (simp add: mean_over_def sum_list_triv)
qed

definition ranks_once :: "'w provider \<Rightarrow> bool" where
  "ranks_once P \<longleftrightarrow> (\<forall>q w ids. fst (P q w) = Inr ids \<longrightarrow> distinct ids)"

lemma rank_all_distinct:
  "ranks_once P \<Longrightarrow> rank_all P qs w = (Inr ranked, w1) \<Longrightarrow> length ranked = length qs \<and> list_all distinct ranked"
proof (induction qs arbitrary: w ranked w1)
  case (Cons q qs)
  obtain ids rest w2 w3 where p: "P (gq_query q) w = (Inr ids, w2)" "rank_all P qs w2 = (Inr rest, w3)" "ranked = ids # rest"
    using Cons.prems(2) by (auto split: prod.splits sum.splits)
  have "distinct ids" using Cons.prems(1) p(1) by (metis fst_conv ranks_once_def)
  then show ?case using Cons.IH [OF Cons.prems(1) p(2)] p(3) by simp
qed simp

text \<open>C37: A run over a golden set with grades that are not negative, against a provider that lists no id twice: the three
  rates of the report are between 0 and 1.\<close>

theorem evaluation_scores_bounded:
  assumes "evaluate golden P k lats w = (Inr r, w1)" and "list_all well_graded golden" and "ranks_once P" and "0 \<le> k"
  shows "0 \<le> ev_ndcg r \<and> ev_ndcg r \<le> 1 \<and> 0 \<le> ev_precision r \<and> ev_precision r \<le> 1 \<and> 0 \<le> ev_zero r \<and> ev_zero r \<le> 1"
proof -
  obtain ranked where ra: "rank_all P golden w = (Inr ranked, w1)" and r: "r = scores golden k lats ranked"
    using assms(1) by (auto simp: evaluate_def split: prod.splits sum.splits)
  have d: "list_all distinct ranked" using rank_all_distinct [OF assms(3) ra] by simp
  have "0 \<le> ev_ndcg r \<and> ev_ndcg r \<le> 1"
    unfolding r scores_def eval_result.simps
  proof (rule mean_bounds)
    fix x assume "x \<in> set (map2 (\<lambda>q ids. ndcg_at_k (ranked_grades q ids) (ideal_grades q) k) golden ranked)"
    then obtain q ids where z: "(q, ids) \<in> set (zip golden ranked)" "x = ndcg_at_k (ranked_grades q ids) (ideal_grades q) k"
      by auto
    have "well_graded q" "distinct ids"
      using set_zip_leftD [OF z(1)] set_zip_rightD [OF z(1)] assms(2) d by (simp_all add: list_all_iff)
    then show "0 \<le> x \<and> x \<le> 1" unfolding z(2) by (rule ndcg_bounds [OF _ _ assms(4)])
  qed simp
  moreover have "0 \<le> ev_precision r \<and> ev_precision r \<le> 1"
    unfolding r scores_def eval_result.simps by (rule mean_bounds) (auto simp: precision_bounds)
  ultimately show ?thesis by (simp add: r scores_def zero_rate_bounds)
qed

subsection \<open>Groundedness\<close>

text \<open>The reply the assistant falls back to when it has no documents counts as an honest refusal.\<close>

lemma fallback_is_honest:
  assumes "\<not> rr_refused r" and "dicts_of (rr_citations r) = []" and "rr_answer r = VStr (fallback_text repr [])"
  shows "judge_turn repr es t r = (True, ''no_results_honest'')"
proof -
  have "list_ex (\<lambda>m. str_in m (fallback_text repr [])) no_result_markers"
    by (simp add: no_result_markers_def fallback_text_def)
  then show ?thesis using assms by (simp add: judge_turn_def)
qed

lemma doc_existsD: "doc_exists es t i \<Longrightarrow> es (doc_id t i) = Inr True"
  by (cases "es (doc_id t i)") (simp_all add: doc_exists_def)

lemma cited_documents_exist:
  assumes "judge_turn repr es t r = (True, ''cited_products_verified'')" and "c \<in> set (dicts_of (rr_citations r))"
    and "truthy (dict_get c ''product_id'')"
  shows "es (doc_id t (py_str repr (dict_get c ''product_id''))) = Inr True"
proof -
  have "list_all id (map (\<lambda>c. doc_exists es t (py_str repr (dict_get c ''product_id'')))
      (filter (\<lambda>c. truthy (dict_get c ''product_id'')) (dicts_of (rr_citations r))))"
    using assms(1) unfolding judge_turn_def Let_def by (simp split: if_split_asm)
  then show ?thesis using assms(2,3) by (auto simp: list_all_iff intro: doc_existsD)
qed

lemma grounded_pass_iff: "gr_pass (grounded_summary ds) \<longleftrightarrow> 95 * max (length ds) 1 \<le> 100 * length (filter fst ds)"
  by (auto simp: grounded_summary_def Let_def field_simps)

subsection \<open>Witness\<close>

definition two_golden :: "golden_query list" where
  "two_golden = [\<lparr>gq_id = VInt 1, gq_query = VStr ''tv'', gq_category = VNone, gq_grades = [(VInt 7, 3), (VInt 8, 1)]\<rparr>,
     \<lparr>gq_id = VInt 2, gq_query = VStr ''fan'', gq_category = VNone, gq_grades = []\<rparr>]"

theorem evaluation_scores_bounded_witness:
  "\<exists>r. fst (evaluate two_golden (\<lambda>q w. (Inr [VInt 8, VInt 7, VInt 9], ())) 10 [5, 9] ()) = Inr r \<and> ev_ndcg r \<le> 1 \<and> 0 \<le> ev_ndcg r"
proof -
  let ?P = "(\<lambda>q w. (Inr [VInt 8, VInt 7, VInt 9], ())) :: unit provider"
  obtain r where r: "evaluate two_golden ?P 10 [5, 9] () = (Inr r, ())" by (simp add: evaluate_def two_golden_def)
  have "list_all well_graded two_golden" by (simp add: two_golden_def well_graded_def)
  moreover have "ranks_once ?P" by (simp add: ranks_once_def)
  ultimately show ?thesis using evaluation_scores_bounded [OF r] r by simp
qed

end
