(* ===== verification/Documents.thy ===== *)
theory Documents
  imports Overview Billing
begin

text \<open>
  The texts the platform sends and prints: the bodies of its e-mails (\<open>acip_notify/templates.py\<close>), their
  delivery (\<open>acip_notify/mailer.py\<close>), and the invoice as a page and as a PDF (\<open>billing_invoices.py\<close>,
  \<open>acip_billing/invoice_pdf.py\<close>). \<open>money\<close> and \<open>day_of\<close> are the formats \<open>,.2f\<close> (\<open>.2f\<close> in e-mails) and \<open>strftime\<close>; the SMTP
  connection and the PDF library are parameters.
\<close>

subsection \<open>Escaping\<close>

text \<open>\<open>html.escape\<close>.\<close>

definition escape_char :: "char \<Rightarrow> string" where
  "escape_char c =
     (if c = CHR ''&'' then ''&amp;'' else if c = CHR ''<'' then ''&lt;'' else if c = CHR ''>'' then ''&gt;''
      else if c = CHR 0x22 then ''&quot;'' else if c = CHR 0x27 then ''&#x27;'' else [c])"

definition html_escape :: "string \<Rightarrow> string" where
  "html_escape s = concat (map escape_char s)"

subsection \<open>E-mails\<close>

record message =
  ms_subject :: string
  ms_text :: string
  ms_html :: string

definition brand :: string where "brand = ''Vitrin''"

definition newlines :: "nat \<Rightarrow> string" where "newlines n = replicate n (CHR 0x0A)"

definition button :: "string \<Rightarrow> string \<Rightarrow> string" where
  "button label url =
     (if label = [] \<or> url = [] then []
      else (''<p><a href='' @ [CHR 0x22]) @ url @
        ([CHR 0x22] @ '' style='' @ [CHR 0x22] @ ''display:inline-block;background:#7c5cff;'') @
        (''color:#0a0b14;font-weight:600;padding:10px 18px;border-radius:8px;'') @
        (''text-decoration:none'' @ [CHR 0x22] @ ''>'') @ label @ (''</a></p>''))"

definition wrap :: "string \<Rightarrow> string \<Rightarrow> (string \<times> string) option \<Rightarrow> string" where
  "wrap title body_html cta =
     (''<div style='' @ [CHR 0x22] @ ''font-family:system-ui,sans-serif;max-width:520px;margin:auto'' @ [CHR
      0x22] @ ''>'') @
     (''<h2 style='' @ [CHR 0x22] @ ''color:#7c5cff'' @ [CHR 0x22] @ ''>'') @ brand @ (''</h2><h3>'') @ title @
     (''</h3>'') @ body_html @ (case cta of None \<Rightarrow> [] | Some (label, url) \<Rightarrow> button label url) @
     (''<hr style='' @ [CHR 0x22] @ ''border:none;border-top:1px solid #eee;margin:24px 0'' @ [CHR 0x22] @
      ''>'') @
     (''<small style='' @ [CHR 0x22] @ ''color:#888'' @ [CHR 0x22] @ ''>'') @ brand @
     ('' '' @ [CHR 0xE2, CHR 0x80, CHR 0x94] @ '' AI Commerce Intelligence Platform</small></div>'')"

text \<open>\<open>_loc\<close>: Persian when the locale starts with \<open>fa\<close>.\<close>

definition persian :: "string option \<Rightarrow> bool" where
  "persian locale \<longleftrightarrow> prefix ''fa'' (py_lower (the_or [] locale))"

definition verification_email :: "string \<Rightarrow> string option \<Rightarrow> message" where
  "verification_email link locale =
     (if persian locale then
        \<lparr>ms_subject = ([CHR 0xD8, CHR 0xA7, CHR 0xDB, CHR 0x8C, CHR 0xD9, CHR 0x85, CHR 0xDB, CHR 0x8C, CHR 0xD9, CHR 0x84] @
      '' '') @ brand @ ('' '' @ [CHR 0xD8, CHR 0xAE, CHR 0xD9, CHR 0x88, CHR 0xD8, CHR 0xAF] @ '' '' @ [CHR 0xD8, CHR 0xB1, CHR
      0xD8, CHR 0xA7] @ '' '' @ [CHR 0xD8, CHR 0xAA, CHR 0xD8, CHR 0xA3, CHR 0xDB, CHR 0x8C, CHR 0xDB, CHR
      0x8C, CHR 0xD8, CHR 0xAF] @ '' '' @ [CHR 0xDA, CHR 0xA9, CHR 0xD9, CHR 0x86, CHR 0xDB, CHR 0x8C, CHR
      0xD8, CHR 0xAF]),
         ms_text = ([CHR 0xD8, CHR 0xA8, CHR 0xD9, CHR 0x87] @ '' '') @ brand @ ('' '' @ [CHR 0xD8, CHR 0xAE, CHR 0xD9, CHR 0x88, CHR 0xD8, CHR 0xB4] @ '' '' @ [CHR 0xD8, CHR 0xA2, CHR
      0xD9, CHR 0x85, CHR 0xD8, CHR 0xAF, CHR 0xDB, CHR 0x8C, CHR 0xD8, CHR 0xAF] @ ''!'') @ newlines 2 @
           ([CHR 0xD8, CHR 0xA8, CHR 0xD8, CHR 0xB1, CHR 0xD8, CHR 0xA7, CHR 0xDB, CHR 0x8C] @ '' '' @ [CHR 0xD9, CHR
      0x81, CHR 0xD8, CHR 0xB9, CHR 0xD8, CHR 0xA7, CHR 0xD9, CHR 0x84, CHR 0xE2, CHR 0x80, CHR 0x8C, CHR 0xD8,
      CHR 0xB3, CHR 0xD8, CHR 0xA7, CHR 0xD8, CHR 0xB2, CHR 0xDB, CHR 0x8C] @ '' '' @ [CHR 0xD8, CHR 0xAD, CHR
      0xD8, CHR 0xB3, CHR 0xD8, CHR 0xA7, CHR 0xD8, CHR 0xA8, CHR 0xD8, CHR 0xAA, CHR 0xD8, CHR 0xA7, CHR 0xD9,
      CHR 0x86] @ '' '' @ [CHR 0xD8, CHR 0xA7, CHR 0xDB, CHR 0x8C, CHR 0xD9, CHR 0x85, CHR 0xDB, CHR 0x8C, CHR
      0xD9, CHR 0x84] @ '' '' @ [CHR 0xD8, CHR 0xAE, CHR 0xD9, CHR 0x88, CHR 0xD8, CHR 0xAF] @ '' '' @ [CHR
      0xD8, CHR 0xB1, CHR 0xD8, CHR 0xA7] @ '' '' @ [CHR 0xD8, CHR 0xAA, CHR 0xD8, CHR 0xA3, CHR 0xDB, CHR
      0x8C, CHR 0xDB, CHR 0x8C, CHR 0xD8, CHR 0xAF] @ '' '' @ [CHR 0xDA, CHR 0xA9, CHR 0xD9, CHR 0x86, CHR
      0xDB, CHR 0x8C, CHR 0xD8, CHR 0xAF] @ '':'') @ newlines 1 @ link @ newlines 2 @
           ([CHR 0xD8, CHR 0xA7, CHR 0xDB, CHR 0x8C, CHR 0xD9, CHR 0x86] @ '' '' @ [CHR 0xD9, CHR 0x84, CHR 0xDB, CHR
      0x8C, CHR 0xD9, CHR 0x86, CHR 0xDA, CHR 0xA9] @ '' '' @ [CHR 0xD8, CHR 0xAA, CHR 0xD8, CHR 0xA7] @ '' ''
      @ [CHR 0xDB, CHR 0xB2, CHR 0xDB, CHR 0xB4] @ '' '' @ [CHR 0xD8, CHR 0xB3, CHR 0xD8, CHR 0xA7, CHR 0xD8,
      CHR 0xB9, CHR 0xD8, CHR 0xAA] @ '' '' @ [CHR 0xD9, CHR 0x85, CHR 0xD8, CHR 0xB9, CHR 0xD8, CHR 0xAA, CHR
      0xD8, CHR 0xA8, CHR 0xD8, CHR 0xB1] @ '' '' @ [CHR 0xD8, CHR 0xA7, CHR 0xD8, CHR 0xB3, CHR 0xD8, CHR
      0xAA] @ ''. '' @ [CHR 0xD8, CHR 0xA7, CHR 0xDA, CHR 0xAF, CHR 0xD8, CHR 0xB1] @ '' '' @ [CHR 0xD8, CHR
      0xB4, CHR 0xD9, CHR 0x85, CHR 0xD8, CHR 0xA7] @ '' '' @ [CHR 0xD8, CHR 0xAB, CHR 0xD8, CHR 0xA8, CHR
      0xD8, CHR 0xAA, CHR 0xE2, CHR 0x80, CHR 0x8C, CHR 0xD9, CHR 0x86, CHR 0xD8, CHR 0xA7, CHR 0xD9, CHR 0x85]
      @ '' '' @ [CHR 0xD9, CHR 0x86, CHR 0xDA, CHR 0xA9, CHR 0xD8, CHR 0xB1, CHR 0xD8, CHR 0xAF, CHR 0xD9, CHR
      0x87, CHR 0xE2, CHR 0x80, CHR 0x8C, CHR 0xD8, CHR 0xA7, CHR 0xDB, CHR 0x8C, CHR 0xD8, CHR 0xAF, CHR 0xD8,
      CHR 0x8C] @ '' '' @ [CHR 0xD8, CHR 0xA7, CHR 0xDB, CHR 0x8C, CHR 0xD9, CHR 0x86] @ '' '' @ [CHR 0xD8, CHR
      0xA7, CHR 0xDB, CHR 0x8C, CHR 0xD9, CHR 0x85, CHR 0xDB, CHR 0x8C, CHR 0xD9, CHR 0x84] @ '' '' @ [CHR
      0xD8, CHR 0xB1, CHR 0xD8, CHR 0xA7] @ '' '' @ [CHR 0xD9, CHR 0x86, CHR 0xD8, CHR 0xA7, CHR 0xD8, CHR
      0xAF, CHR 0xDB, CHR 0x8C, CHR 0xD8, CHR 0xAF, CHR 0xD9, CHR 0x87] @ '' '' @ [CHR 0xD8, CHR 0xA8, CHR
      0xDA, CHR 0xAF, CHR 0xDB, CHR 0x8C, CHR 0xD8, CHR 0xB1, CHR 0xDB, CHR 0x8C, CHR 0xD8, CHR 0xAF] @ ''.''),
         ms_html = wrap ([CHR 0xD8, CHR 0xAA, CHR 0xD8, CHR 0xA3, CHR 0xDB, CHR 0x8C, CHR 0xDB, CHR 0x8C, CHR 0xD8, CHR 0xAF] @
      '' '' @ [CHR 0xD8, CHR 0xA7, CHR 0xDB, CHR 0x8C, CHR 0xD9, CHR 0x85, CHR 0xDB, CHR 0x8C, CHR 0xD9, CHR
      0x84])
           (''<p>'' @ [CHR 0xD8, CHR 0xA8, CHR 0xD8, CHR 0xB1, CHR 0xD8, CHR 0xA7, CHR 0xDB, CHR 0x8C] @ '' '' @ [CHR
      0xD9, CHR 0x81, CHR 0xD8, CHR 0xB9, CHR 0xD8, CHR 0xA7, CHR 0xD9, CHR 0x84, CHR 0xE2, CHR 0x80, CHR 0x8C,
      CHR 0xD8, CHR 0xB3, CHR 0xD8, CHR 0xA7, CHR 0xD8, CHR 0xB2, CHR 0xDB, CHR 0x8C] @ '' '' @ [CHR 0xD8, CHR
      0xAD, CHR 0xD8, CHR 0xB3, CHR 0xD8, CHR 0xA7, CHR 0xD8, CHR 0xA8, CHR 0xD8, CHR 0x8C] @ '' '' @ [CHR
      0xD8, CHR 0xA7, CHR 0xDB, CHR 0x8C, CHR 0xD9, CHR 0x85, CHR 0xDB, CHR 0x8C, CHR 0xD9, CHR 0x84] @ '' '' @
      [CHR 0xD8, CHR 0xAE, CHR 0xD9, CHR 0x88, CHR 0xD8, CHR 0xAF] @ '' '' @ [CHR 0xD8, CHR 0xB1, CHR 0xD8, CHR
      0xA7] @ '' '' @ [CHR 0xD8, CHR 0xAA, CHR 0xD8, CHR 0xA3, CHR 0xDB, CHR 0x8C, CHR 0xDB, CHR 0x8C, CHR
      0xD8, CHR 0xAF] @ '' '' @ [CHR 0xDA, CHR 0xA9, CHR 0xD9, CHR 0x86, CHR 0xDB, CHR 0x8C, CHR 0xD8, CHR
      0xAF] @ ''.</p>'')
           (Some (([CHR 0xD8, CHR 0xAA, CHR 0xD8, CHR 0xA3, CHR 0xDB, CHR 0x8C, CHR 0xDB, CHR 0x8C, CHR 0xD8, CHR 0xAF] @
      '' '' @ [CHR 0xD8, CHR 0xA7, CHR 0xDB, CHR 0x8C, CHR 0xD9, CHR 0x85, CHR 0xDB, CHR 0x8C, CHR 0xD9, CHR
      0x84]), link))\<rparr>
      else
        \<lparr>ms_subject = ''Verify your '' @ brand @ '' email'',
         ms_text = ''Welcome to '' @ brand @ ''!'' @ newlines 2 @ ''Confirm your email to activate your account:'' @ newlines 1 @ link @ newlines 2 @
           (''This link expires in 24 hours. If you didn'' @ [CHR 0x27] @ ''t sign up, ignore this email.''),
         ms_html = wrap ''Confirm your email'' ''<p>Confirm your email to activate your account.</p>'' (Some (''Verify email'', link))\<rparr>)"

definition reset_email :: "string \<Rightarrow> string option \<Rightarrow> message" where
  "reset_email link locale =
     (if persian locale then
        \<lparr>ms_subject = ([CHR 0xD8, CHR 0xA8, CHR 0xD8, CHR 0xA7, CHR 0xD8, CHR 0xB2, CHR 0xD9, CHR 0x86, CHR 0xD8, CHR 0xB4, CHR
      0xD8, CHR 0xA7, CHR 0xD9, CHR 0x86, CHR 0xDB, CHR 0x8C] @ '' '' @ [CHR 0xDA, CHR 0xAF, CHR 0xD8, CHR
      0xB0, CHR 0xD8, CHR 0xB1, CHR 0xD9, CHR 0x88, CHR 0xD8, CHR 0xA7, CHR 0xDA, CHR 0x98, CHR 0xD9, CHR 0x87,
      CHR 0xD9, CHR 0x94] @ '' '') @ brand,
         ms_text = ([CHR 0xD8, CHR 0xAF, CHR 0xD8, CHR 0xB1, CHR 0xD8, CHR 0xAE, CHR 0xD9, CHR 0x88, CHR 0xD8, CHR 0xA7, CHR
      0xD8, CHR 0xB3, CHR 0xD8, CHR 0xAA] @ '' '' @ [CHR 0xD8, CHR 0xA8, CHR 0xD8, CHR 0xA7, CHR 0xD8, CHR
      0xB2, CHR 0xD9, CHR 0x86, CHR 0xD8, CHR 0xB4, CHR 0xD8, CHR 0xA7, CHR 0xD9, CHR 0x86, CHR 0xDB, CHR 0x8C]
      @ '' '' @ [CHR 0xDA, CHR 0xAF, CHR 0xD8, CHR 0xB0, CHR 0xD8, CHR 0xB1, CHR 0xD9, CHR 0x88, CHR 0xD8, CHR
      0xA7, CHR 0xDA, CHR 0x98, CHR 0xD9, CHR 0x87, CHR 0xD9, CHR 0x94] @ '' '') @ brand @ ('' '' @ [CHR 0xD8, CHR 0xB4, CHR 0xD9, CHR 0x85, CHR 0xD8, CHR 0xA7] @ '' '' @ [CHR 0xD8, CHR 0xB1, CHR
      0xD8, CHR 0xA7] @ '' '' @ [CHR 0xD8, CHR 0xAF, CHR 0xD8, CHR 0xB1, CHR 0xDB, CHR 0x8C, CHR 0xD8, CHR
      0xA7, CHR 0xD9, CHR 0x81, CHR 0xD8, CHR 0xAA] @ '' '' @ [CHR 0xDA, CHR 0xA9, CHR 0xD8, CHR 0xB1, CHR
      0xD8, CHR 0xAF, CHR 0xDB, CHR 0x8C, CHR 0xD9, CHR 0x85] @ '':'') @
           newlines 1 @ link @ newlines 2 @
           ([CHR 0xD8, CHR 0xA7, CHR 0xDB, CHR 0x8C, CHR 0xD9, CHR 0x86] @ '' '' @ [CHR 0xD9, CHR 0x84, CHR 0xDB, CHR
      0x8C, CHR 0xD9, CHR 0x86, CHR 0xDA, CHR 0xA9] @ '' '' @ [CHR 0xD8, CHR 0xAA, CHR 0xD8, CHR 0xA7] @ '' ''
      @ [CHR 0xDB, CHR 0xB1] @ '' '' @ [CHR 0xD8, CHR 0xB3, CHR 0xD8, CHR 0xA7, CHR 0xD8, CHR 0xB9, CHR 0xD8,
      CHR 0xAA] @ '' '' @ [CHR 0xD9, CHR 0x85, CHR 0xD8, CHR 0xB9, CHR 0xD8, CHR 0xAA, CHR 0xD8, CHR 0xA8, CHR
      0xD8, CHR 0xB1] @ '' '' @ [CHR 0xD8, CHR 0xA7, CHR 0xD8, CHR 0xB3, CHR 0xD8, CHR 0xAA] @ ''. '' @ [CHR
      0xD8, CHR 0xA7, CHR 0xDA, CHR 0xAF, CHR 0xD8, CHR 0xB1] @ '' '' @ [CHR 0xD8, CHR 0xB4, CHR 0xD9, CHR
      0x85, CHR 0xD8, CHR 0xA7] @ '' '' @ [CHR 0xD8, CHR 0xAF, CHR 0xD8, CHR 0xB1, CHR 0xD8, CHR 0xAE, CHR
      0xD9, CHR 0x88, CHR 0xD8, CHR 0xA7, CHR 0xD8, CHR 0xB3, CHR 0xD8, CHR 0xAA] @ '' '' @ [CHR 0xD9, CHR
      0x86, CHR 0xD8, CHR 0xAF, CHR 0xD8, CHR 0xA7, CHR 0xD8, CHR 0xAF, CHR 0xD9, CHR 0x87, CHR 0xE2, CHR 0x80,
      CHR 0x8C, CHR 0xD8, CHR 0xA7, CHR 0xDB, CHR 0x8C, CHR 0xD8, CHR 0xAF, CHR 0xD8, CHR 0x8C] @ '' '' @ [CHR
      0xD8, CHR 0xA7, CHR 0xDB, CHR 0x8C, CHR 0xD9, CHR 0x86] @ '' '' @ [CHR 0xD8, CHR 0xA7, CHR 0xDB, CHR
      0x8C, CHR 0xD9, CHR 0x85, CHR 0xDB, CHR 0x8C, CHR 0xD9, CHR 0x84] @ '' '' @ [CHR 0xD8, CHR 0xB1, CHR
      0xD8, CHR 0xA7] @ '' '' @ [CHR 0xD9, CHR 0x86, CHR 0xD8, CHR 0xA7, CHR 0xD8, CHR 0xAF, CHR 0xDB, CHR
      0x8C, CHR 0xD8, CHR 0xAF, CHR 0xD9, CHR 0x87] @ '' '' @ [CHR 0xD8, CHR 0xA8, CHR 0xDA, CHR 0xAF, CHR
      0xDB, CHR 0x8C, CHR 0xD8, CHR 0xB1, CHR 0xDB, CHR 0x8C, CHR 0xD8, CHR 0xAF] @ ''.''),
         ms_html = wrap ([CHR 0xD8, CHR 0xA8, CHR 0xD8, CHR 0xA7, CHR 0xD8, CHR 0xB2, CHR 0xD9, CHR 0x86, CHR 0xD8, CHR 0xB4, CHR
      0xD8, CHR 0xA7, CHR 0xD9, CHR 0x86, CHR 0xDB, CHR 0x8C] @ '' '' @ [CHR 0xDA, CHR 0xAF, CHR 0xD8, CHR
      0xB0, CHR 0xD8, CHR 0xB1, CHR 0xD9, CHR 0x88, CHR 0xD8, CHR 0xA7, CHR 0xDA, CHR 0x98, CHR 0xD9, CHR 0x87])
           (''<p>'' @ [CHR 0xD8, CHR 0xA8, CHR 0xD8, CHR 0xB1, CHR 0xD8, CHR 0xA7, CHR 0xDB, CHR 0x8C] @ '' '' @ [CHR
      0xD8, CHR 0xA7, CHR 0xD9, CHR 0x86, CHR 0xD8, CHR 0xAA, CHR 0xD8, CHR 0xAE, CHR 0xD8, CHR 0xA7, CHR 0xD8,
      CHR 0xA8] @ '' '' @ [CHR 0xDA, CHR 0xAF, CHR 0xD8, CHR 0xB0, CHR 0xD8, CHR 0xB1, CHR 0xD9, CHR 0x88, CHR
      0xD8, CHR 0xA7, CHR 0xDA, CHR 0x98, CHR 0xD9, CHR 0x87, CHR 0xD9, CHR 0x94] @ '' '' @ [CHR 0xD8, CHR
      0xAC, CHR 0xD8, CHR 0xAF, CHR 0xDB, CHR 0x8C, CHR 0xD8, CHR 0xAF] @ '' '' @ [CHR 0xD8, CHR 0xB1, CHR
      0xD9, CHR 0x88, CHR 0xDB, CHR 0x8C] @ '' '' @ [CHR 0xD8, CHR 0xAF, CHR 0xDA, CHR 0xA9, CHR 0xD9, CHR
      0x85, CHR 0xD9, CHR 0x87] @ '' '' @ [CHR 0xD8, CHR 0xA8, CHR 0xD8, CHR 0xB2, CHR 0xD9, CHR 0x86, CHR
      0xDB, CHR 0x8C, CHR 0xD8, CHR 0xAF] @ ''.</p>'')
           (Some (([CHR 0xD8, CHR 0xA8, CHR 0xD8, CHR 0xA7, CHR 0xD8, CHR 0xB2, CHR 0xD9, CHR 0x86, CHR 0xD8, CHR 0xB4, CHR
      0xD8, CHR 0xA7, CHR 0xD9, CHR 0x86, CHR 0xDB, CHR 0x8C] @ '' '' @ [CHR 0xDA, CHR 0xAF, CHR 0xD8, CHR
      0xB0, CHR 0xD8, CHR 0xB1, CHR 0xD9, CHR 0x88, CHR 0xD8, CHR 0xA7, CHR 0xDA, CHR 0x98, CHR 0xD9, CHR 0x87]), link))\<rparr>
      else
        \<lparr>ms_subject = ''Reset your '' @ brand @ '' password'',
         ms_text = ''We received a request to reset your '' @ brand @ '' password:'' @ newlines 1 @ link @ newlines 2 @
           (''This link expires in 1 hour. If you didn'' @ [CHR 0x27] @ ''t request it, ignore this email.''),
         ms_html = wrap ''Reset your password'' ''<p>Click below to choose a new password.</p>'' (Some (''Reset password'', link))\<rparr>)"

definition invite_email :: "string \<Rightarrow> string \<Rightarrow> string option \<Rightarrow> message" where
  "invite_email link store_name locale =
     (if persian locale then
        \<lparr>ms_subject = ([CHR 0xD8, CHR 0xA8, CHR 0xD9, CHR 0x87] @ '' '') @ store_name @ ('' '' @ [CHR 0xD8, CHR 0xAF, CHR 0xD8, CHR 0xB1] @ '' '') @ brand @ ('' '' @ [CHR 0xD8, CHR 0xAF, CHR 0xD8, CHR 0xB9, CHR 0xD9, CHR 0x88, CHR 0xD8, CHR 0xAA] @ '' '' @ [CHR
      0xD8, CHR 0xB4, CHR 0xD8, CHR 0xAF, CHR 0xD9, CHR 0x87, CHR 0xE2, CHR 0x80, CHR 0x8C, CHR 0xD8, CHR 0xA7,
      CHR 0xDB, CHR 0x8C, CHR 0xD8, CHR 0xAF]),
         ms_text = ([CHR 0xD8, CHR 0xB4, CHR 0xD9, CHR 0x85, CHR 0xD8, CHR 0xA7] @ '' '' @ [CHR 0xD8, CHR 0xA8, CHR 0xD9, CHR
      0x87] @ '' '' @ [CHR 0xD9, CHR 0xBE, CHR 0xDB, CHR 0x8C, CHR 0xD9, CHR 0x88, CHR 0xD8, CHR 0xB3, CHR
      0xD8, CHR 0xAA, CHR 0xD9, CHR 0x86] @ '' '' @ [CHR 0xD8, CHR 0xA8, CHR 0xD9, CHR 0x87] @ '' '') @ store_name @ ('' '' @ [CHR 0xD8, CHR 0xAF, CHR 0xD8, CHR 0xB1] @ '' '') @ brand @
           ('' '' @ [CHR 0xD8, CHR 0xAF, CHR 0xD8, CHR 0xB9, CHR 0xD9, CHR 0x88, CHR 0xD8, CHR 0xAA] @ '' '' @ [CHR
      0xD8, CHR 0xB4, CHR 0xD8, CHR 0xAF, CHR 0xD9, CHR 0x87, CHR 0xE2, CHR 0x80, CHR 0x8C, CHR 0xD8, CHR 0xA7,
      CHR 0xDB, CHR 0x8C, CHR 0xD8, CHR 0xAF] @ ''.'') @ newlines 2 @
           ([CHR 0xD8, CHR 0xA8, CHR 0xD8, CHR 0xB1, CHR 0xD8, CHR 0xA7, CHR 0xDB, CHR 0x8C] @ '' '' @ [CHR 0xD9, CHR
      0xBE, CHR 0xD8, CHR 0xB0, CHR 0xDB, CHR 0x8C, CHR 0xD8, CHR 0xB1, CHR 0xD8, CHR 0xB4, CHR 0xD8, CHR 0x8C]
      @ '' '' @ [CHR 0xDA, CHR 0xAF, CHR 0xD8, CHR 0xB0, CHR 0xD8, CHR 0xB1, CHR 0xD9, CHR 0x88, CHR 0xD8, CHR
      0xA7, CHR 0xDA, CHR 0x98, CHR 0xD9, CHR 0x87, CHR 0xD9, CHR 0x94] @ '' '' @ [CHR 0xD8, CHR 0xAE, CHR
      0xD9, CHR 0x88, CHR 0xD8, CHR 0xAF] @ '' '' @ [CHR 0xD8, CHR 0xB1, CHR 0xD8, CHR 0xA7] @ '' '' @ [CHR
      0xD8, CHR 0xAA, CHR 0xD9, CHR 0x86, CHR 0xD8, CHR 0xB8, CHR 0xDB, CHR 0x8C, CHR 0xD9, CHR 0x85] @ '' '' @
      [CHR 0xDA, CHR 0xA9, CHR 0xD9, CHR 0x86, CHR 0xDB, CHR 0x8C, CHR 0xD8, CHR 0xAF] @ '':'') @ newlines 1 @ link @ newlines 2 @
           ([CHR 0xD8, CHR 0xA7, CHR 0xDB, CHR 0x8C, CHR 0xD9, CHR 0x86] @ '' '' @ [CHR 0xD9, CHR 0x84, CHR 0xDB, CHR
      0x8C, CHR 0xD9, CHR 0x86, CHR 0xDA, CHR 0xA9] @ '' '' @ [CHR 0xD8, CHR 0xAA, CHR 0xD8, CHR 0xA7] @ '' ''
      @ [CHR 0xDB, CHR 0xB7] @ '' '' @ [CHR 0xD8, CHR 0xB1, CHR 0xD9, CHR 0x88, CHR 0xD8, CHR 0xB2] @ '' '' @
      [CHR 0xD9, CHR 0x85, CHR 0xD8, CHR 0xB9, CHR 0xD8, CHR 0xAA, CHR 0xD8, CHR 0xA8, CHR 0xD8, CHR 0xB1] @
      '' '' @ [CHR 0xD8, CHR 0xA7, CHR 0xD8, CHR 0xB3, CHR 0xD8, CHR 0xAA] @ ''.''),
         ms_html = wrap (([CHR 0xD9, CHR 0xBE, CHR 0xDB, CHR 0x8C, CHR 0xD9, CHR 0x88, CHR 0xD8, CHR 0xB3, CHR 0xD8, CHR 0xAA, CHR
      0xD9, CHR 0x86] @ '' '' @ [CHR 0xD8, CHR 0xA8, CHR 0xD9, CHR 0x87] @ '' '') @ store_name)
           ((''<p>'' @ [CHR 0xD8, CHR 0xB4, CHR 0xD9, CHR 0x85, CHR 0xD8, CHR 0xA7] @ '' '' @ [CHR 0xD8, CHR 0xA8, CHR
      0xD9, CHR 0x87] @ '' '' @ [CHR 0xD9, CHR 0xBE, CHR 0xDB, CHR 0x8C, CHR 0xD9, CHR 0x88, CHR 0xD8, CHR
      0xB3, CHR 0xD8, CHR 0xAA, CHR 0xD9, CHR 0x86] @ '' '' @ [CHR 0xD8, CHR 0xA8, CHR 0xD9, CHR 0x87] @
      '' <b>'') @ store_name @ (''</b> '' @ [CHR 0xD8, CHR 0xAF, CHR 0xD8, CHR 0xB9, CHR 0xD9, CHR 0x88, CHR 0xD8, CHR 0xAA] @ '' '' @
      [CHR 0xD8, CHR 0xB4, CHR 0xD8, CHR 0xAF, CHR 0xD9, CHR 0x87, CHR 0xE2, CHR 0x80, CHR 0x8C, CHR 0xD8, CHR
      0xA7, CHR 0xDB, CHR 0x8C, CHR 0xD8, CHR 0xAF] @ ''.</p>''))
           (Some (([CHR 0xD9, CHR 0xBE, CHR 0xD8, CHR 0xB0, CHR 0xDB, CHR 0x8C, CHR 0xD8, CHR 0xB1, CHR 0xD8, CHR 0xB4] @
      '' '' @ [CHR 0xD8, CHR 0xAF, CHR 0xD8, CHR 0xB9, CHR 0xD9, CHR 0x88, CHR 0xD8, CHR 0xAA]), link))\<rparr>
      else
        \<lparr>ms_subject = (''You'' @ [CHR 0x27] @ ''ve been invited to '') @ store_name @ '' on '' @ brand,
         ms_text = (''You'' @ [CHR 0x27] @ ''ve been invited to join '') @ store_name @ '' on '' @ brand @ ''.'' @ newlines 2 @
           ''Set your password to accept:'' @ newlines 1 @ link @ newlines 2 @ ''This link expires in 7 days.'',
         ms_html = wrap (''Join '' @ store_name)
           ((''<p>You'' @ [CHR 0x27] @ ''ve been invited to join <b>'') @ store_name @ ''</b>.</p>'') (Some (''Accept invitation'', link))\<rparr>)"

definition invoice_email :: "(real \<Rightarrow> string) \<Rightarrow> nat \<Rightarrow> string \<Rightarrow> real \<Rightarrow> string \<Rightarrow> message" where
  "invoice_email money number description amount currency =
     \<lparr>ms_subject = brand @ '' invoice #'' @ nat_str number,
      ms_text = ''Thanks for your payment.'' @ newlines 2 @ ''Invoice #'' @ nat_str number @ newlines 1 @ description @ newlines 1 @
        ''Amount: '' @ currency @ '' '' @ money amount @ newlines 2 @ ''This is your receipt.'',
      ms_html = wrap (''Invoice #'' @ nat_str number)
        (''<p>Thanks for your payment.</p><p>'' @ description @ ''<br><b>'' @ currency @ '' '' @ money amount @ ''</b></p>'') None\<rparr>"

definition dunning_email :: "(real \<Rightarrow> string) \<Rightarrow> string \<Rightarrow> real \<Rightarrow> string \<Rightarrow> message" where
  "dunning_email money plan amount currency =
     \<lparr>ms_subject = ''Action needed: your '' @ brand @ '' subscription payment is due'',
      ms_text = ''Your '' @ plan @ '' subscription renewal ('' @ currency @ '' '' @ money amount @ '') is past due.'' @ newlines 2 @
        (''Please complete payment to keep your store'' @ [CHR 0x27] @ ''s AI features active.''),
      ms_html = wrap ''Payment past due''
        (''<p>Your <b>'' @ plan @ ''</b> renewal ('' @ currency @ '' '' @ money amount @ '') is past due. '' @
         ''Complete payment to keep your AI features active.</p>'') None\<rparr>"

definition contact_notification :: "string \<Rightarrow> string \<Rightarrow> string \<Rightarrow> message" where
  "contact_notification name email text_of =
     \<lparr>ms_subject = ''['' @ brand @ ''] New contact message from '' @ name,
      ms_text = ''From: '' @ name @ '' <'' @ email @ ''>'' @ newlines 2 @ text_of,
      ms_html = wrap ''New contact message''
        (''<p><b>'' @ name @ ''</b> &lt;'' @ email @ ''&gt;</p><p>'' @ text_of @ ''</p>'') None\<rparr>"

subsection \<open>Delivery\<close>

record mail_cfg =
  mc_provider :: string
  mc_smtp_host :: string
  mc_from :: string

text \<open>\<open>EmailMessage\<close> refuses a header value with a line break (\<open>ValueError\<close>).\<close>

definition header_ok :: "string \<Rightarrow> bool" where
  "header_ok s \<longleftrightarrow> CHR 0x0A \<notin> set s \<and> CHR 0x0D \<notin> set s"

definition build_message :: "mail_cfg \<Rightarrow> string \<Rightarrow> message \<Rightarrow> (string \<times> string \<times> message) res" where
  "build_message cfg to m =
     (if list_all header_ok [mc_from cfg, to, ms_subject m] then Inr (mc_from cfg, to, m) else Inl (Exn ''ValueError''))"

text \<open>\<open>smtp\<close> is \<open>_send_smtp\<close>: it may raise. The result is false when anything raised.\<close>

definition send_email ::
  "mail_cfg \<Rightarrow> (string \<times> string \<times> message \<Rightarrow> 'w \<Rightarrow> unit res \<times> 'w) \<Rightarrow> string \<Rightarrow> message \<Rightarrow> 'w \<Rightarrow> bool \<times> 'w" where
  "send_email cfg smtp to m w =
     (if mc_provider cfg = ''smtp'' \<and> mc_smtp_host cfg \<noteq> [] then
        (case build_message cfg to m of
           Inl _ \<Rightarrow> (False, w)
         | Inr x \<Rightarrow> (case smtp x w of (Inl _, w1) \<Rightarrow> (False, w1) | (Inr _, w1) \<Rightarrow> (True, w1)))
      else (True, w))"

text \<open>The end of \<open>POST /contact\<close>: the stored message is announced to the inbox, whatever becomes of the mail.\<close>

definition announce_contact ::
  "mail_cfg \<Rightarrow> (string \<times> string \<times> message \<Rightarrow> 'w \<Rightarrow> unit res \<times> 'w) \<Rightarrow> string \<Rightarrow> string \<Rightarrow> string \<Rightarrow> string \<Rightarrow> 'w \<Rightarrow> bool \<times> 'w" where
  "announce_contact cfg smtp inbox name email text_of w =
     send_email cfg smtp inbox (contact_notification name email text_of) w"

end
