(* ===== verification/Invoices.thy ===== *)
theory Invoices
  imports Documents AiAdmin
begin

text \<open>
  The invoice as a printable page and as a PDF (\<open>billing_invoices.py\<close>, \<open>acip_billing/invoice_pdf.py\<close>), the operator's
  list of invoices (\<open>admin_billing_ops.py\<close>), the plan catalogues (\<open>public.py\<close>, \<open>admin_plans.py\<close>) and the reading of the
  credit policy (\<open>admin_credit_policy.py\<close>). \<open>money\<close> is the format \<open>,.2f\<close>, \<open>is_file\<close> the file system, and the PDF library
  is the function \<open>output\<close> of the list of its calls.
\<close>

subsection \<open>The page\<close>

text \<open>\<open>_INVOICE_HTML.format(...)\<close>, with the doubled braces of the template undone.\<close>

definition invoice_pieces :: "string \<Rightarrow> string \<Rightarrow> string \<Rightarrow> string \<Rightarrow> string \<Rightarrow> string \<Rightarrow> string \<Rightarrow> string list" where
  "invoice_pieces number status_fa store date description amount currency =
     [''<!doctype html><html dir='' @ [CHR 0x22] @ ''rtl'' @ [CHR 0x22] @ '' lang='' @ [CHR 0x22] @ ''fa'' @
      [CHR 0x22] @ ''><head><meta charset='' @ [CHR 0x22] @ ''utf-8'' @ [CHR 0x22] @ ''>'' @ [CHR 0x0A] @
      ''<title>'' @ [CHR 0xD9, CHR 0x81, CHR 0xD8, CHR 0xA7, CHR 0xDA, CHR 0xA9, CHR 0xD8, CHR 0xAA, CHR 0xD9,
      CHR 0x88, CHR 0xD8, CHR 0xB1] @ '' '',
      number,
      ''</title>'' @ [CHR 0x0A] @ ''<style>'' @ [CHR 0x0A] @
      ''  body { font-family: Tahoma, sans-serif; max-width: 640px; margin: 3r'' @ ''em auto; color: #111; }''
      @ [CHR 0x0A] @ ''  .head { display: flex; justify-content: space-between; align-items: '' @ ''baseline;''
      @ [CHR 0x0A] @ ''           border-bottom: 2px solid #111; padding-bottom: .75rem; }'' @ [CHR 0x0A] @
      ''  h1 { font-size: 1.3rem; margin: 0; }'' @ [CHR 0x0A] @
      ''  table { width: 100%; border-collapse: collapse; margin-top: 1.5rem; '' @ ''}'' @ [CHR 0x0A] @
      ''  td, th { padding: .6rem .4rem; border-bottom: 1px solid #ddd; text-a'' @ ''lign: right; }'' @ [CHR
      0x0A] @ ''  .total { font-weight: bold; font-size: 1.1rem; }'' @ [CHR 0x0A] @
      ''  .muted { color: #666; font-size: .85rem; }'' @ [CHR 0x0A] @
      ''  .badge { padding: .15rem .6rem; border: 1px solid #111; border-radiu'' @ ''s: 999px;'' @ [CHR 0x0A] @
      ''            font-size: .8rem; }'' @ [CHR 0x0A] @ ''  @media print { body { margin: 1rem; } }'' @ [CHR
      0x0A] @ ''</style></head><body>'' @ [CHR 0x0A] @ ''<div class='' @ [CHR 0x22] @ ''head'' @ [CHR 0x22] @
      ''><h1>'' @ [CHR 0xD9, CHR 0x81, CHR 0xD8, CHR 0xA7, CHR 0xDA, CHR 0xA9, CHR 0xD8, CHR 0xAA, CHR 0xD9,
      CHR 0x88, CHR 0xD8, CHR 0xB1] @ '' '' @ [CHR 0xD8, CHR 0xB4, CHR 0xD9, CHR 0x85, CHR 0xD8, CHR 0xA7, CHR
      0xD8, CHR 0xB1, CHR 0xD9, CHR 0x87, CHR 0xD9, CHR 0x94] @ '' '',
      number,
      ''</h1><span class='' @ [CHR 0x22] @ ''badge'' @ [CHR 0x22] @ ''>'',
      status_fa,
      ''</span></div>'' @ [CHR 0x0A] @ ''<p class='' @ [CHR 0x22] @ ''muted'' @ [CHR 0x22] @ ''>'' @ [CHR 0xD9,
      CHR 0x81, CHR 0xD8, CHR 0xB1, CHR 0xD9, CHR 0x88, CHR 0xD8, CHR 0xB4, CHR 0xDA, CHR 0xAF, CHR 0xD8, CHR
      0xA7, CHR 0xD9, CHR 0x87] @ '': '',
      store,
      '' '' @ [CHR 0xC2, CHR 0xB7] @ '' '' @ [CHR 0xD8, CHR 0xAA, CHR 0xD8, CHR 0xA7, CHR 0xD8, CHR 0xB1, CHR
      0xDB, CHR 0x8C, CHR 0xD8, CHR 0xAE] @ '' '' @ [CHR 0xD8, CHR 0xB5, CHR 0xD8, CHR 0xAF, CHR 0xD9, CHR
      0x88, CHR 0xD8, CHR 0xB1] @ '': '',
      date,
      ''</p>'' @ [CHR 0x0A] @ ''<table>'' @ [CHR 0x0A] @ ''  <thead><tr><th>'' @ [CHR 0xD8, CHR 0xB4, CHR 0xD8,
      CHR 0xB1, CHR 0xD8, CHR 0xAD] @ ''</th><th>'' @ [CHR 0xD9, CHR 0x85, CHR 0xD8, CHR 0xA8, CHR 0xD9, CHR
      0x84, CHR 0xD8, CHR 0xBA] @ ''</th></tr></thead>'' @ [CHR 0x0A] @ ''  <tbody>'' @ [CHR 0x0A] @
      ''    <tr><td>'',
      description,
      ''</td><td>'',
      amount,
      '' '',
      currency,
      ''</td></tr>'' @ [CHR 0x0A] @ ''    <tr class='' @ [CHR 0x22] @ ''total'' @ [CHR 0x22] @ ''><td>'' @ [CHR
      0xD8, CHR 0xAC, CHR 0xD9, CHR 0x85, CHR 0xD8, CHR 0xB9] @ '' '' @ [CHR 0xDA, CHR 0xA9, CHR 0xD9, CHR
      0x84] @ ''</td><td>'',
      amount,
      '' '',
      currency,
      ''</td></tr>'' @ [CHR 0x0A] @ ''  </tbody>'' @ [CHR 0x0A] @ ''</table>'' @ [CHR 0x0A] @ ''<p class='' @
      [CHR 0x22] @ ''muted'' @ [CHR 0x22] @ ''>'' @ [CHR 0xD8, CHR 0xA7, CHR 0xDB, CHR 0x8C, CHR 0xD9, CHR
      0x86] @ '' '' @ [CHR 0xD9, CHR 0x81, CHR 0xD8, CHR 0xA7, CHR 0xDA, CHR 0xA9, CHR 0xD8, CHR 0xAA, CHR
      0xD9, CHR 0x88, CHR 0xD8, CHR 0xB1] @ '' '' @ [CHR 0xD8, CHR 0xAA, CHR 0xD9, CHR 0x88, CHR 0xD8, CHR
      0xB3, CHR 0xD8, CHR 0xB7] @ '' '' @ [CHR 0xD9, CHR 0xBE, CHR 0xD9, CHR 0x84, CHR 0xD8, CHR 0xAA, CHR
      0xD9, CHR 0x81, CHR 0xD8, CHR 0xB1, CHR 0xD9, CHR 0x85] @ '' '' @ [CHR 0xD9, CHR 0x88, CHR 0xDB, CHR
      0x8C, CHR 0xD8, CHR 0xAA, CHR 0xD8, CHR 0xB1, CHR 0xDB, CHR 0x8C, CHR 0xD9, CHR 0x86] @ '' '' @ [CHR
      0xD8, CHR 0xB5, CHR 0xD8, CHR 0xA7, CHR 0xD8, CHR 0xAF, CHR 0xD8, CHR 0xB1] @ '' '' @ [CHR 0xD8, CHR
      0xB4, CHR 0xD8, CHR 0xAF, CHR 0xD9, CHR 0x87] @ '' '' @ [CHR 0xD8, CHR 0xA7, CHR 0xD8, CHR 0xB3, CHR
      0xD8, CHR 0xAA] @ ''. '' @ [CHR 0xD8, CHR 0xA8, CHR 0xD8, CHR 0xB1, CHR 0xD8, CHR 0xA7, CHR 0xDB, CHR
      0x8C] @ '' '' @ [CHR 0xDA, CHR 0x86, CHR 0xD8, CHR 0xA7, CHR 0xD9, CHR 0xBE] @ '' '' @ [CHR 0xDB, CHR
      0x8C, CHR 0xD8, CHR 0xA7] @ '' '' @ [CHR 0xD8, CHR 0xB0, CHR 0xD8, CHR 0xAE, CHR 0xDB, CHR 0x8C, CHR
      0xD8, CHR 0xB1, CHR 0xD9, CHR 0x87] @ '' '' @ [CHR 0xD8, CHR 0xA8, CHR 0xD9, CHR 0x87, CHR 0xE2, CHR
      0x80, CHR 0x8C, CHR 0xD8, CHR 0xB5, CHR 0xD9, CHR 0x88, CHR 0xD8, CHR 0xB1, CHR 0xD8, CHR 0xAA] @
      '' PDF '' @ [CHR 0xD8, CHR 0xA7, CHR 0xD8, CHR 0xB2, CHR 0x0A, CHR 0xDA, CHR 0xAF, CHR 0xD8, CHR 0xB2,
      CHR 0xDB, CHR 0x8C, CHR 0xD9, CHR 0x86, CHR 0xD9, CHR 0x87, CHR 0xD9, CHR 0x94] @ '' Print '' @ [CHR
      0xD9, CHR 0x85, CHR 0xD8, CHR 0xB1, CHR 0xD9, CHR 0x88, CHR 0xD8, CHR 0xB1, CHR 0xDA, CHR 0xAF, CHR 0xD8,
      CHR 0xB1] @ '' '' @ [CHR 0xD8, CHR 0xA7, CHR 0xD8, CHR 0xB3, CHR 0xD8, CHR 0xAA, CHR 0xD9, CHR 0x81, CHR
      0xD8, CHR 0xA7, CHR 0xD8, CHR 0xAF, CHR 0xD9, CHR 0x87] @ '' '' @ [CHR 0xDA, CHR 0xA9, CHR 0xD9, CHR
      0x86, CHR 0xDB, CHR 0x8C, CHR 0xD8, CHR 0xAF] @ ''.</p>'' @ [CHR 0x0A] @ ''</body></html>'']"

definition invoice_page :: "string \<Rightarrow> string \<Rightarrow> string \<Rightarrow> string \<Rightarrow> string \<Rightarrow> string \<Rightarrow> string \<Rightarrow> string" where
  "invoice_page number status_fa store date description amount currency =
     concat (invoice_pieces number status_fa store date description amount currency)"

definition status_fa :: "string \<Rightarrow> string" where
  "status_fa s = (if s = ''paid'' then ([CHR 0xD9, CHR 0xBE, CHR 0xD8, CHR 0xB1, CHR 0xD8, CHR 0xAF, CHR 0xD8, CHR 0xA7, CHR 0xD8, CHR 0xAE, CHR
      0xD8, CHR 0xAA, CHR 0xE2, CHR 0x80, CHR 0x8C, CHR 0xD8, CHR 0xB4, CHR 0xD8, CHR 0xAF, CHR 0xD9, CHR 0x87]) else ([CHR 0xD8, CHR 0xA8, CHR 0xD8, CHR 0xA7, CHR 0xD8, CHR 0xB7, CHR 0xD9, CHR 0x84, CHR 0xE2, CHR 0x80, CHR
      0x8C, CHR 0xD8, CHR 0xB4, CHR 0xD8, CHR 0xAF, CHR 0xD9, CHR 0x87]))"

text \<open>The row joined with the name of its store; only the rows of the signed-in store are looked at.\<close>

definition own_invoice :: "tenant \<Rightarrow> nat \<Rightarrow> db \<Rightarrow> (invoice_row \<times> string) option" where
  "own_invoice t number d =
     (case find (\<lambda>i. iv_tenant i = t \<and> iv_number i = number) (invoices d) of
        None \<Rightarrow> None
      | Some i \<Rightarrow> map_option (\<lambda>r. (i, tn_name r)) (tenant_row t d))"

definition page_of_invoice :: "(real \<Rightarrow> string) \<Rightarrow> (invoice_row \<Rightarrow> string) \<Rightarrow> invoice_row \<times> string \<Rightarrow> string" where
  "page_of_invoice money day_of x =
     (let (i, store) = x in
      invoice_page (nat_str (iv_number i)) (status_fa (iv_status i)) (html_escape store) (day_of i)
        (html_escape (iv_description i)) (money (iv_amount i)) (html_escape (iv_currency i)))"

definition invoice_html :: "(real \<Rightarrow> string) \<Rightarrow> (invoice_row \<Rightarrow> string) \<Rightarrow> pool \<Rightarrow> principal option \<Rightarrow> nat \<Rightarrow> db \<Rightarrow> string reply" where
  "invoice_html money day_of p pr number d =
     (case require_tenant pr of
        None \<Rightarrow> Err 401 ''unauthenticated''
      | Some q \<Rightarrow>
          if p \<noteq> PgUp then Err 500 ''internal_error''
          else case own_invoice (tenant_of q) number d of
              None \<Rightarrow> Err 404 ''not_found''
            | Some x \<Rightarrow> Ok (page_of_invoice money day_of x))"

subsection \<open>The PDF\<close>

text \<open>The calls made to the PDF library, in order. A cell: width, height, text, border, alignment, fill, and whether
  the next cell starts a new line.\<close>

datatype pdf_call =
    AutoBreak nat | AddPage | AddFont string | Shaping | SetFont nat
  | Cell nat nat string bool char bool bool | Space nat | FillColor nat | TextColor nat | MultiCell nat string

definition font_candidates :: "string \<Rightarrow> string list" where
  "font_candidates repo_font =
     [repo_font, ''/usr/share/fonts/truetype/vazirmatn/Vazirmatn-Regular.ttf'', ''/usr/share/fonts/truetype/dejavu/DejaVuSans.ttf'',
      ''/usr/share/fonts/truetype/freefont/FreeSerif.ttf'', ''C:/Windows/Fonts/Vazirmatn-Regular.ttf'', ''C:/Windows/Fonts/tahoma.ttf'',
      ''C:/Windows/Fonts/segoeui.ttf'']"

record font_env =
  fe_is_file :: "string \<Rightarrow> bool"
  fe_repo_font :: string
  fe_environ :: string

definition find_font :: "font_env \<Rightarrow> string \<Rightarrow> string option" where
  "find_font F configured =
     find (\<lambda>c. c \<noteq> [] \<and> fe_is_file F c)
       ((if configured \<noteq> [] then configured else fe_environ F) # font_candidates (fe_repo_font F))"

definition pdf_calls :: "string \<Rightarrow> string \<Rightarrow> string \<Rightarrow> string \<Rightarrow> string \<Rightarrow> string \<Rightarrow> string \<Rightarrow> string \<Rightarrow> pdf_call list" where
  "pdf_calls font number store date description amount currency status =
     [AutoBreak 18, AddPage, AddFont font, Shaping, SetFont 16,
      Cell 0 12 (([CHR 0xD9, CHR 0x81, CHR 0xD8, CHR 0xA7, CHR 0xDA, CHR 0xA9, CHR 0xD8, CHR 0xAA, CHR 0xD9, CHR 0x88, CHR
      0xD8, CHR 0xB1] @ '' '' @ [CHR 0xD8, CHR 0xB4, CHR 0xD9, CHR 0x85, CHR 0xD8, CHR 0xA7, CHR 0xD8, CHR
      0xB1, CHR 0xD9, CHR 0x87, CHR 0xD9, CHR 0x94] @ '' '') @ number) False CHR ''C'' False True, SetFont 10,
      Cell 0 8 (status @ ('' '' @ [CHR 0xC2, CHR 0xB7] @ '' '') @ date) False CHR ''C'' False True,
      Cell 0 8 (([CHR 0xD9, CHR 0x81, CHR 0xD8, CHR 0xB1, CHR 0xD9, CHR 0x88, CHR 0xD8, CHR 0xB4, CHR 0xDA, CHR 0xAF, CHR
      0xD8, CHR 0xA7, CHR 0xD9, CHR 0x87] @ '': '') @ store) False CHR ''C'' False True, Space 6, SetFont 11, FillColor 240,
      Cell 60 10 ([CHR 0xD9, CHR 0x85, CHR 0xD8, CHR 0xA8, CHR 0xD9, CHR 0x84, CHR 0xD8, CHR 0xBA]) True CHR ''C'' True False,
      Cell 130 10 ([CHR 0xD8, CHR 0xB4, CHR 0xD8, CHR 0xB1, CHR 0xD8, CHR 0xAD]) True CHR ''C'' True True,
      Cell 60 10 (amount @ '' '' @ currency) True CHR ''C'' False False,
      Cell 130 10 description True CHR ''R'' False True, SetFont 12,
      Cell 60 10 (amount @ '' '' @ currency) True CHR ''C'' False False,
      Cell 130 10 ([CHR 0xD8, CHR 0xAC, CHR 0xD9, CHR 0x85, CHR 0xD8, CHR 0xB9] @ '' '' @ [CHR 0xDA, CHR 0xA9, CHR 0xD9, CHR
      0x84]) True CHR ''R'' False True, Space 8, SetFont 9, TextColor 100,
      MultiCell 6 ([CHR 0xD8, CHR 0xA7, CHR 0xDB, CHR 0x8C, CHR 0xD9, CHR 0x86] @ '' '' @ [CHR 0xD9, CHR 0x81, CHR 0xD8, CHR
      0xA7, CHR 0xDA, CHR 0xA9, CHR 0xD8, CHR 0xAA, CHR 0xD9, CHR 0x88, CHR 0xD8, CHR 0xB1] @ '' '' @ [CHR
      0xD8, CHR 0xAA, CHR 0xD9, CHR 0x88, CHR 0xD8, CHR 0xB3, CHR 0xD8, CHR 0xB7] @ '' '' @ [CHR 0xD9, CHR
      0xBE, CHR 0xD9, CHR 0x84, CHR 0xD8, CHR 0xAA, CHR 0xD9, CHR 0x81, CHR 0xD8, CHR 0xB1, CHR 0xD9, CHR 0x85]
      @ '' '' @ [CHR 0xD9, CHR 0x88, CHR 0xDB, CHR 0x8C, CHR 0xD8, CHR 0xAA, CHR 0xD8, CHR 0xB1, CHR 0xDB, CHR
      0x8C, CHR 0xD9, CHR 0x86] @ '' '' @ [CHR 0xD8, CHR 0xB5, CHR 0xD8, CHR 0xA7, CHR 0xD8, CHR 0xAF, CHR
      0xD8, CHR 0xB1] @ '' '' @ [CHR 0xD8, CHR 0xB4, CHR 0xD8, CHR 0xAF, CHR 0xD9, CHR 0x87] @ '' '' @ [CHR
      0xD8, CHR 0xA7, CHR 0xD8, CHR 0xB3, CHR 0xD8, CHR 0xAA] @ ''.'')]"

text \<open>\<open>lib\<close> is absent when the import fails; adding a font that is no file raises.\<close>

definition render_invoice_pdf ::
  "font_env \<Rightarrow> (pdf_call list \<Rightarrow> string res) option \<Rightarrow> string option \<Rightarrow> (string \<Rightarrow> pdf_call list) \<Rightarrow> string option res" where
  "render_invoice_pdf F lib font_path calls =
     (case (case nonempty font_path of Some f \<Rightarrow> Some f | None \<Rightarrow> find_font F []) of
        None \<Rightarrow> Inr None
      | Some font \<Rightarrow>
          (case lib of
             None \<Rightarrow> Inr None
           | Some output \<Rightarrow>
               if \<not> fe_is_file F font then Inl (Exn ''FileNotFoundError'')
               else bind_res (output (calls font)) (\<lambda>b. Inr (Some b))))"

definition invoice_pdf ::
  "font_env \<Rightarrow> (pdf_call list \<Rightarrow> string res) option \<Rightarrow> string \<Rightarrow> (real \<Rightarrow> string) \<Rightarrow> (invoice_row \<Rightarrow> string) \<Rightarrow> pool \<Rightarrow> principal option \<Rightarrow> nat \<Rightarrow> db \<Rightarrow> string reply" where
  "invoice_pdf F lib font_setting money day_of p pr number d =
     (case require_tenant pr of
        None \<Rightarrow> Err 401 ''unauthenticated''
      | Some q \<Rightarrow>
          if p \<noteq> PgUp then Err 500 ''internal_error''
          else case own_invoice (tenant_of q) number d of
              None \<Rightarrow> Err 404 ''not_found''
            | Some (i, store) \<Rightarrow>
                (case render_invoice_pdf F lib (nonempty (Some font_setting))
                        (\<lambda>font. pdf_calls font (nat_str (iv_number i)) store (day_of i) (iv_description i) (money (iv_amount i))
                           (iv_currency i) (status_fa (iv_status i))) of
                   Inl _ \<Rightarrow> Err 500 ''internal_error''
                 | Inr None \<Rightarrow> Err 503 ''pdf_unavailable''
                 | Inr (Some b) \<Rightarrow> Ok b))"

subsection \<open>The operator's list\<close>

record invoice_list =
  il_rows :: "(invoice_row \<times> tenant_row) list"
  il_total :: nat
  il_paid_amount :: real
  il_paid_count :: nat
  il_limit :: int
  il_offset :: int

definition invoice_matches :: "string option \<Rightarrow> string option \<Rightarrow> invoice_row \<times> tenant_row \<Rightarrow> bool" where
  "invoice_matches q status x \<longleftrightarrow>
     (the_or [] q = [] \<or> (let pat = contains_pattern (py_strip (the_or [] q)) in ilike pat (tn_slug (snd x)) \<or> ilike pat (tn_name (snd x)))) \<and>
     (status = Some ''paid'' \<or> status = Some ''void'' \<longrightarrow> iv_status (fst x) = the status)"

definition joined_invoices :: "db \<Rightarrow> (invoice_row \<times> tenant_row) list" where
  "joined_invoices d = concat (map (\<lambda>i. case tenant_row (iv_tenant i) d of None \<Rightarrow> [] | Some r \<Rightarrow> [(i, r)]) (invoices d))"

text \<open>The rows are appended as they are created: the newest first is the reverse order.\<close>

definition list_invoices :: "bool \<Rightarrow> pool \<Rightarrow> string option \<Rightarrow> string option \<Rightarrow> int \<Rightarrow> int \<Rightarrow> db \<Rightarrow> invoice_list reply" where
  "list_invoices ok p q status limit0 offset0 d =
     (if \<not> ok then Err 401 ''unauthorized''
      else if p \<noteq> PgUp then Err 500 ''internal_error''
      else
        let lim = max 1 (min limit0 100); off = max 0 offset0;
            rows = filter (invoice_matches q status) (joined_invoices d);
            paid = filter (\<lambda>x. iv_status (fst x) = ''paid'') rows
        in Ok \<lparr>il_rows = take (nat lim) (drop (nat off) (rev rows)), il_total = length rows,
              il_paid_amount = sum_list (map (\<lambda>x. iv_amount (fst x)) paid), il_paid_count = length paid, il_limit = lim, il_offset = off\<rparr>)"

subsection \<open>Plan catalogues and the credit policy\<close>

record plan_x = plan_row +
  px_sort :: int
  px_name_fa :: "string option"
  px_description :: "string option"
  px_description_fa :: "string option"
  px_features :: pyv
  px_features_fa :: pyv

record plan_card =
  pc_code :: string
  pc_name :: string
  pc_name_fa :: "string option"
  pc_description :: "string option"
  pc_description_fa :: "string option"
  pc_price :: real
  pc_currency :: string
  pc_credits :: real
  pc_rate :: int
  pc_features :: pyv
  pc_features_fa :: pyv

definition plan_card_of :: "plan_x \<Rightarrow> plan_card" where
  "plan_card_of r =
     \<lparr>pc_code = pl_code r, pc_name = pl_name r, pc_name_fa = px_name_fa r, pc_description = px_description r,
      pc_description_fa = px_description_fa r, pc_price = pl_price r, pc_currency = pl_currency r, pc_credits = pl_credits r,
      pc_rate = pl_rate r, pc_features = px_features r, pc_features_fa = px_features_fa r\<rparr>"

definition public_plans :: "pool \<Rightarrow> string \<Rightarrow> real \<Rightarrow> plan_x list \<Rightarrow> (plan_card list \<times> string \<times> real) reply" where
  "public_plans p currency topup_rate ps =
     (if p \<noteq> PgUp then Err 500 ''internal_error''
      else Ok (map plan_card_of (sort_key px_sort (filter pl_public ps)), currency, topup_rate))"

text \<open>\<open>ORDER BY sort_order, price_monthly\<close>: two stable sorts.\<close>

definition admin_plans :: "bool \<Rightarrow> pool \<Rightarrow> plan_x list \<Rightarrow> plan_x list reply" where
  "admin_plans ok p ps =
     (if \<not> ok then Err 401 ''unauthorized''
      else if p \<noteq> PgUp then Err 500 ''internal_error''
      else Ok (sort_key px_sort (sort_key pl_price ps)))"

definition get_credit_policy :: "bool \<Rightarrow> pool \<Rightarrow> bool \<times> real \<Rightarrow> (bool \<times> real) reply" where
  "get_credit_policy ok p policy =
     (if \<not> ok then Err 401 ''unauthorized'' else if p \<noteq> PgUp then Err 500 ''internal_error'' else Ok policy)"

end
