(* ===== verification/DocProps.thy ===== *)
theory DocProps
  imports Invoices
begin

text \<open>
  The invoice page shows the text of its store as text: escaping loses nothing and leaves no character that HTML
  gives a meaning. The e-mails do not escape, and a line break in a name loses the mail.
\<close>

subsection \<open>Escaping is lossless\<close>

text \<open>What a reader of HTML makes of the five entities.\<close>

definition entities :: "(string \<times> char) list" where
  "entities = [(''&amp;'', CHR ''&''), (''&lt;'', CHR ''<''), (''&gt;'', CHR ''>''), (''&quot;'', CHR 0x22), (''&#x27;'', CHR 0x27)]"

function html_unescape :: "string \<Rightarrow> string" where
  "html_unescape [] = []"
| "html_unescape (c # cs) =
     (case find (\<lambda>e. prefix (fst e) (c # cs)) entities of
        None \<Rightarrow> c # html_unescape cs
      | Some e \<Rightarrow> snd e # html_unescape (drop (length (fst e) - 1) cs))"
  by pat_completeness auto

termination html_unescape
  by (relation "measure length") auto

lemma html_escape_simps [simp]: "html_escape [] = []" "html_escape (c # cs) = escape_char c @ html_escape cs"
  by (simp_all add: html_escape_def)

lemma unescape_char: "html_unescape (escape_char c @ s) = c # html_unescape s"
  by (simp add: escape_char_def entities_def)

lemma unescape_escape: "html_unescape (html_escape s) = s"
  by (induction s) (simp_all add: unescape_char)

definition is_markup :: "char \<Rightarrow> bool" where
  "is_markup c \<longleftrightarrow> c \<in> {CHR ''<'', CHR ''>'', CHR 0x22, CHR 0x27}"

lemma escaped_has_no_markup: "filter is_markup (html_escape s) = []"
  by (induction s) (simp_all add: escape_char_def is_markup_def)

lemma markup_of_page:
  "filter is_markup (invoice_page n st (html_escape s) dt (html_escape t) m (html_escape c)) =
   filter is_markup (invoice_page n st [] dt [] m [])"
  unfolding invoice_page_def invoice_pieces_def concat.simps filter_append escaped_has_no_markup filter.simps(1) by (rule refl)

subsection \<open>The invoice page\<close>

lemma own_invoiceD:
  assumes "own_invoice t number d = Some (i, store)"
  shows "i \<in> set (invoices d)" "iv_tenant i = t" "iv_number i = number" "\<exists>r. tenant_row t d = Some r \<and> store = tn_name r"
  using assms by (auto simp: own_invoice_def split: option.splits dest!: find_SomeD)


lemma invoices_stay_in_store:
  "own_invoice t number d = Some (i, store) \<Longrightarrow> iv_tenant i = t"
  by (rule own_invoiceD)

subsection \<open>The PDF\<close>

text \<open>A font path that is set and names no file is not searched around: the library raises.\<close>

lemma wrong_font_setting_fails:
  assumes "require_tenant pr = Some q" and "own_invoice (tenant_of q) number d = Some (i, store)"
    and "setting \<noteq> []" and "\<not> fe_is_file F setting"
  shows "invoice_pdf F (Some output) setting money day_of PgUp pr number d = Err 500 ''internal_error''"
  using assms by (simp add: invoice_pdf_def render_invoice_pdf_def nonempty_def)

lemma no_font_degrades:
  assumes "require_tenant pr = Some q" and "own_invoice (tenant_of q) number d = Some (i, store)" and "find_font F [] = None"
  shows "invoice_pdf F lib [] money day_of PgUp pr number d = Err 503 ''pdf_unavailable''"
  using assms by (simp add: invoice_pdf_def render_invoice_pdf_def nonempty_def)

subsection \<open>The e-mails\<close>

lemma sublist_after: "sublist x y \<Longrightarrow> sublist x (z @ y)"
  by (simp add: sublist_append)

lemma sublist_before: "sublist x (x @ y)"
  by (simp add: sublist_append)

lemma sublist_sixth: "sublist b (a1 @ a2 @ a3 @ a4 @ a5 @ b @ r)"
  by (intro sublist_after sublist_before)

lemma wrap_body: "sublist b (wrap title b cta)"
  unfolding wrap_def by (rule sublist_after, rule sublist_sixth)

lemma contact_mail_carries_markup: "sublist text_of (ms_html (contact_notification name email text_of))"
proof -
  have "sublist text_of (''<p><b>'' @ name @ ''</b> &lt;'' @ email @ ''&gt;</p><p>'' @ text_of @ ''</p>'')" by (rule sublist_sixth)
  then show ?thesis unfolding contact_notification_def message.simps using wrap_body by (rule sublist_order.order_trans)
qed

lemma invite_mail_carries_markup:
  assumes "\<not> persian locale"
  shows "sublist store_name (ms_html (invite_email link store_name locale))"
  unfolding invite_email_def if_not_P [OF assms] message.simps
  by (rule sublist_order.order_trans [OF _ wrap_body], rule sublist_after, rule sublist_before)

lemma line_break_loses_mail:
  assumes "mc_provider cfg = ''smtp''" and "mc_smtp_host cfg \<noteq> []" and "CHR 0x0A \<in> set name"
  shows "announce_contact cfg smtp inbox name email text_of w = (False, w)"
proof -
  have "\<not> header_ok (ms_subject (contact_notification name email text_of))"
    using assms(3) by (simp only: contact_notification_def message.simps header_ok_def set_append Un_iff) simp
  then show ?thesis using assms(1,2) by (simp add: announce_contact_def send_email_def build_message_def)
qed

text \<open>The stripping of the form keeps inner line breaks: the form answers \<open>received\<close>, the row is stored, no mail is sent.\<close>

lemma contact_notice_lost:
  assumes "Overview.contact E i inbox payload (cs, a) = (Ok r, w1)" and "CHR 0x0A \<in> set (py_strip (pstr E payload ''name''))"
    and "mc_provider cfg = ''smtp''" and "mc_smtp_host cfg \<noteq> []"
  shows "length (fst w1) = Suc (length cs) \<and>
     announce_contact cfg smtp inbox (py_strip (pstr E payload ''name'')) email text_of w = (False, w)"
  using assms line_break_loses_mail [OF assms(3,4,2)] by (auto simp: Overview.contact_def Let_def split: if_splits)

subsection \<open>Lists\<close>

lemma listed_total:
  assumes "list_invoices True PgUp q status n m d = Ok v"
  shows "il_paid_count v \<le> il_total v \<and> length (il_rows v) \<le> 100 \<and> length (il_rows v) \<le> il_total v"
proof -
  define rows where "rows = filter (invoice_matches q status) (joined_invoices d)"
  have v: "il_total v = length rows" "il_paid_count v = length (filter (\<lambda>x. iv_status (fst x) = ''paid'') rows)"
    "il_rows v = take (nat (max 1 (min n 100))) (drop (nat (max 0 m)) (rev rows))"
    using assms by (auto simp: list_invoices_def Let_def rows_def simp del: filter_filter)
  then show ?thesis by (simp del: filter_filter) linarith
qed

lemma public_plans_only:
  "public_plans p cur rate ps = Ok (cards, x) \<Longrightarrow> set cards = plan_card_of ` {r \<in> set ps. pl_public r}"
  by (auto simp: public_plans_def split: if_splits)

subsection \<open>Witness\<close>

definition invoice_owner :: principal where
  "invoice_owner = \<lparr>pp_user = ''u'', pp_email = ''a@b.c'', pp_role = STORE_OWNER, pp_tenant = Some ''t1'', pp_token_id = VNone\<rparr>"

definition invoice_db :: db where
  "invoice_db = empty_db\<lparr>tenants := [\<lparr>tn_id = ''t1'', tn_name = ''<b>Shop</b>'', tn_plan = None, tn_status = ''active'', tn_notes = None,
       tn_slug = ''shop'', tn_settings = [], tn_tracking = True\<rparr>],
     invoices := [\<lparr>iv_number = 7, iv_tenant = ''t1'', iv_order = ''o1'', iv_description = ''<script>'', iv_amount = 5, iv_currency = ''USD'',
       iv_status = ''paid''\<rparr>]\<rparr>"


end
