(* ===== verification/Pilot.thy ===== *)
theory Pilot
  imports SyncProps Embedding
begin

text \<open>
  The pilot store (\<open>scripts/pilot_store.py\<close>): one catalogue served as a WooCommerce and as an OpenCart store would,
  so that the pull clients of \<open>Worker\<close> can be run against a server of this repository. Query parameters travel as
  texts; \<open>int_of\<close> is Python's \<open>int()\<close> of a text.
\<close>

record pilot_item =
  pi_id :: int
  pi_name :: string
  pi_brand :: string
  pi_cats :: "string list"
  pi_price :: string
  pi_stock :: bool
  pi_m :: string

definition woo_ck :: string where "woo_ck = ''ck_pilot''"
definition woo_cs :: string where "woo_cs = ''cs_pilot''"
definition oc_token :: string where "oc_token = ''pilot-token''"

definition pilot_products :: "pilot_item list" where
  "pilot_products =
     [\<lparr>pi_id = 1, pi_name = ([CHR 0xDA, CHR 0xAF, CHR 0xD9, CHR 0x88, CHR 0xD8, CHR 0xB4, CHR 0xDB, CHR 0x8C] @ '' '' @ [CHR 0xD9, CHR
      0x85, CHR 0xD9, CHR 0x88, CHR 0xD8, CHR 0xA8, CHR 0xD8, CHR 0xA7, CHR 0xDB, CHR 0x8C, CHR 0xD9, CHR 0x84]
      @ '' '' @ [CHR 0xD8, CHR 0xB3, CHR 0xD8, CHR 0xA7, CHR 0xD9, CHR 0x85, CHR 0xD8, CHR 0xB3, CHR 0xD9, CHR
      0x88, CHR 0xD9, CHR 0x86, CHR 0xDA, CHR 0xAF] @ '' '' @ [CHR 0xDA, CHR 0xAF, CHR 0xD9, CHR 0x84, CHR
      0xDA, CHR 0xA9, CHR 0xD8, CHR 0xB3, CHR 0xDB, CHR 0x8C] @ '' A55''), pi_brand = [CHR 0xD8, CHR 0xB3, CHR 0xD8, CHR 0xA7, CHR 0xD9, CHR 0x85, CHR 0xD8, CHR 0xB3, CHR 0xD9, CHR 0x88, CHR
      0xD9, CHR 0x86, CHR 0xDA, CHR 0xAF], pi_cats = [[CHR 0xD9, CHR 0x85, CHR 0xD9, CHR 0x88, CHR 0xD8, CHR 0xA8, CHR 0xD8, CHR 0xA7, CHR 0xDB, CHR 0x8C, CHR
      0xD9, CHR 0x84]], pi_price = ''18500000'', pi_stock = True, pi_m = ''2026-06-01T01:00:00''\<rparr>,
      \<lparr>pi_id = 2, pi_name = ([CHR 0xDA, CHR 0xAF, CHR 0xD9, CHR 0x88, CHR 0xD8, CHR 0xB4, CHR 0xDB, CHR 0x8C] @ '' '' @ [CHR 0xD9, CHR
      0x85, CHR 0xD9, CHR 0x88, CHR 0xD8, CHR 0xA8, CHR 0xD8, CHR 0xA7, CHR 0xDB, CHR 0x8C, CHR 0xD9, CHR 0x84]
      @ '' '' @ [CHR 0xD8, CHR 0xB4, CHR 0xDB, CHR 0x8C, CHR 0xD8, CHR 0xA7, CHR 0xD8, CHR 0xA6, CHR 0xD9, CHR
      0x88, CHR 0xD9, CHR 0x85, CHR 0xDB, CHR 0x8C] @ '' '' @ [CHR 0xD8, CHR 0xB1, CHR 0xD8, CHR 0xAF, CHR
      0xD9, CHR 0x85, CHR 0xDB, CHR 0x8C] @ '' '' @ [CHR 0xD9, CHR 0x86, CHR 0xD9, CHR 0x88, CHR 0xD8, CHR
      0xAA] @ '' 13''), pi_brand = [CHR 0xD8, CHR 0xB4, CHR 0xDB, CHR 0x8C, CHR 0xD8, CHR 0xA7, CHR 0xD8, CHR 0xA6, CHR 0xD9, CHR 0x88, CHR
      0xD9, CHR 0x85, CHR 0xDB, CHR 0x8C], pi_cats = [[CHR 0xD9, CHR 0x85, CHR 0xD9, CHR 0x88, CHR 0xD8, CHR 0xA8, CHR 0xD8, CHR 0xA7, CHR 0xDB, CHR 0x8C, CHR
      0xD9, CHR 0x84]], pi_price = ''12900000'', pi_stock = True, pi_m = ''2026-06-01T02:00:00''\<rparr>,
      \<lparr>pi_id = 3, pi_name = ([CHR 0xD9, CHR 0x84, CHR 0xD9, CHR 0xBE] @ '' '' @ [CHR 0xD8, CHR 0xAA, CHR 0xD8, CHR 0xA7, CHR 0xD9, CHR
      0xBE] @ '' '' @ [CHR 0xD8, CHR 0xA7, CHR 0xDB, CHR 0x8C, CHR 0xD8, CHR 0xB3, CHR 0xD9, CHR 0x88, CHR
      0xD8, CHR 0xB3] @ '' '' @ [CHR 0xD9, CHR 0x88, CHR 0xDB, CHR 0x8C, CHR 0xD9, CHR 0x88, CHR 0xD9, CHR
      0x88, CHR 0xD8, CHR 0xA8, CHR 0xD9, CHR 0x88, CHR 0xDA, CHR 0xA9] @ '' 15''), pi_brand = [CHR 0xD8, CHR 0xA7, CHR 0xDB, CHR 0x8C, CHR 0xD8, CHR 0xB3, CHR 0xD9, CHR 0x88, CHR 0xD8, CHR 0xB3], pi_cats = [[CHR 0xD9, CHR 0x84, CHR 0xD9, CHR 0xBE, CHR 0xE2, CHR 0x80, CHR 0x8C, CHR 0xD8, CHR 0xAA, CHR 0xD8, CHR
      0xA7, CHR 0xD9, CHR 0xBE]], pi_price = ''38500000'', pi_stock = True, pi_m = ''2026-06-02T01:00:00''\<rparr>,
      \<lparr>pi_id = 4, pi_name = ([CHR 0xDA, CHR 0xA9, CHR 0xD9, CHR 0x81, CHR 0xD8, CHR 0xB4] @ '' '' @ [CHR 0xD9, CHR 0x88, CHR 0xD8, CHR
      0xB1, CHR 0xD8, CHR 0xB2, CHR 0xD8, CHR 0xB4, CHR 0xDB, CHR 0x8C] @ '' '' @ [CHR 0xD9, CHR 0x86, CHR
      0xD8, CHR 0xA7, CHR 0xDB, CHR 0x8C, CHR 0xDA, CHR 0xA9, CHR 0xDB, CHR 0x8C] @ '' '' @ [CHR 0xD8, CHR
      0xA7, CHR 0xDB, CHR 0x8C, CHR 0xD8, CHR 0xB1, CHR 0xD9, CHR 0x85, CHR 0xDA, CHR 0xA9, CHR 0xD8, CHR 0xB3]), pi_brand = [CHR 0xD9, CHR 0x86, CHR 0xD8, CHR 0xA7, CHR 0xDB, CHR 0x8C, CHR 0xDA, CHR 0xA9, CHR 0xDB, CHR 0x8C], pi_cats = [[CHR 0xDA, CHR 0xA9, CHR 0xD9, CHR 0x81, CHR 0xD8, CHR 0xB4]], pi_price = ''5200000'', pi_stock = True, pi_m = ''2026-06-02T02:00:00''\<rparr>,
      \<lparr>pi_id = 5, pi_name = ([CHR 0xD9, CHR 0x87, CHR 0xD8, CHR 0xAF, CHR 0xD9, CHR 0x81, CHR 0xD9, CHR 0x88, CHR 0xD9, CHR 0x86] @
      '' '' @ [CHR 0xD8, CHR 0xA8, CHR 0xDB, CHR 0x8C] @ '' '' @ [CHR 0xD8, CHR 0xB3, CHR 0xDB, CHR 0x8C, CHR
      0xD9, CHR 0x85] @ '' '' @ [CHR 0xD8, CHR 0xB3, CHR 0xD9, CHR 0x88, CHR 0xD9, CHR 0x86, CHR 0xDB, CHR
      0x8C] @ '' WH-1000XM5''), pi_brand = [CHR 0xD8, CHR 0xB3, CHR 0xD9, CHR 0x88, CHR 0xD9, CHR 0x86, CHR 0xDB, CHR 0x8C], pi_cats = [[CHR 0xD8, CHR 0xB5, CHR 0xD9, CHR 0x88, CHR 0xD8, CHR 0xAA, CHR 0xDB, CHR 0x8C]], pi_price = ''21500000'', pi_stock = False, pi_m = ''2026-06-03T01:00:00''\<rparr>,
      \<lparr>pi_id = 6, pi_name = ([CHR 0xD8, CHR 0xAA, CHR 0xD9, CHR 0x84, CHR 0xD9, CHR 0x88, CHR 0xDB, CHR 0x8C, CHR 0xD8, CHR 0xB2, CHR
      0xDB, CHR 0x8C, CHR 0xD9, CHR 0x88, CHR 0xD9, CHR 0x86] @ '' '' @ [CHR 0xD9, CHR 0x87, CHR 0xD9, CHR
      0x88, CHR 0xD8, CHR 0xB4, CHR 0xD9, CHR 0x85, CHR 0xD9, CHR 0x86, CHR 0xD8, CHR 0xAF] @ '' '' @ [CHR
      0xD8, CHR 0xA7, CHR 0xD9, CHR 0x84] @ '' '' @ [CHR 0xD8, CHR 0xAC, CHR 0xDB, CHR 0x8C] @ '' 55 '' @ [CHR
      0xD8, CHR 0xA7, CHR 0xDB, CHR 0x8C, CHR 0xD9, CHR 0x86, CHR 0xDA, CHR 0x86]), pi_brand = ([CHR 0xD8, CHR 0xA7, CHR 0xD9, CHR 0x84] @ '' '' @ [CHR 0xD8, CHR 0xAC, CHR 0xDB, CHR 0x8C]), pi_cats = [[CHR 0xD8, CHR 0xAA, CHR 0xD9, CHR 0x84, CHR 0xD9, CHR 0x88, CHR 0xDB, CHR 0x8C, CHR 0xD8, CHR 0xB2, CHR
      0xDB, CHR 0x8C, CHR 0xD9, CHR 0x88, CHR 0xD9, CHR 0x86]], pi_price = ''42800000'', pi_stock = True, pi_m = ''2026-06-03T02:00:00''\<rparr>,
      \<lparr>pi_id = 7, pi_name = ([CHR 0xD8, CHR 0xB3, CHR 0xD8, CHR 0xA7, CHR 0xD8, CHR 0xB9, CHR 0xD8, CHR 0xAA] @ '' '' @ [CHR 0xD9, CHR
      0x87, CHR 0xD9, CHR 0x88, CHR 0xD8, CHR 0xB4, CHR 0xD9, CHR 0x85, CHR 0xD9, CHR 0x86, CHR 0xD8, CHR 0xAF]
      @ '' '' @ [CHR 0xD8, CHR 0xA7, CHR 0xD9, CHR 0xBE, CHR 0xD9, CHR 0x84] @ '' '' @ [CHR 0xD9, CHR 0x88, CHR
      0xD8, CHR 0xA7, CHR 0xDA, CHR 0x86] @ '' SE''), pi_brand = [CHR 0xD8, CHR 0xA7, CHR 0xD9, CHR 0xBE, CHR 0xD9, CHR 0x84], pi_cats = [([CHR 0xD8, CHR 0xB3, CHR 0xD8, CHR 0xA7, CHR 0xD8, CHR 0xB9, CHR 0xD8, CHR 0xAA] @ '' '' @ [CHR 0xD9, CHR
      0x87, CHR 0xD9, CHR 0x88, CHR 0xD8, CHR 0xB4, CHR 0xD9, CHR 0x85, CHR 0xD9, CHR 0x86, CHR 0xD8, CHR 0xAF])], pi_price = ''16900000'', pi_stock = True, pi_m = ''2026-06-04T01:00:00''\<rparr>,
      \<lparr>pi_id = 8, pi_name = ([CHR 0xD9, CHR 0x85, CHR 0xD8, CHR 0xA7, CHR 0xD8, CHR 0xB4, CHR 0xDB, CHR 0x8C, CHR 0xD9, CHR 0x86] @
      '' '' @ [CHR 0xD8, CHR 0xA7, CHR 0xD8, CHR 0xB5, CHR 0xD9, CHR 0x84, CHR 0xD8, CHR 0xA7, CHR 0xD8, CHR
      0xAD] @ '' '' @ [CHR 0xD9, CHR 0x81, CHR 0xDB, CHR 0x8C, CHR 0xD9, CHR 0x84, CHR 0xDB, CHR 0x8C, CHR
      0xD9, CHR 0xBE, CHR 0xD8, CHR 0xB3] @ '' '' @ [CHR 0xD8, CHR 0xB3, CHR 0xD8, CHR 0xB1, CHR 0xDB, CHR
      0x8C] @ '' 5000''), pi_brand = [CHR 0xD9, CHR 0x81, CHR 0xDB, CHR 0x8C, CHR 0xD9, CHR 0x84, CHR 0xDB, CHR 0x8C, CHR 0xD9, CHR 0xBE, CHR
      0xD8, CHR 0xB3], pi_cats = [([CHR 0xD9, CHR 0x84, CHR 0xD9, CHR 0x88, CHR 0xD8, CHR 0xA7, CHR 0xD8, CHR 0xB2, CHR 0xD9, CHR 0x85] @
      '' '' @ [CHR 0xD8, CHR 0xB4, CHR 0xD8, CHR 0xAE, CHR 0xD8, CHR 0xB5, CHR 0xDB, CHR 0x8C])], pi_price = ''4300000'', pi_stock = True, pi_m = ''2026-06-04T02:00:00''\<rparr>]"

definition pilot_description :: "pilot_item \<Rightarrow> string" where
  "pilot_description p = pi_name p @ ('' '' @ [CHR 0xE2, CHR 0x80, CHR 0x94] @ '' '' @ [CHR 0xDA, CHR 0xA9, CHR 0xD8, CHR 0xA7, CHR 0xD9, CHR
      0x84, CHR 0xD8, CHR 0xA7, CHR 0xDB, CHR 0x8C] @ '' '' @ [CHR 0xD9, CHR 0x86, CHR 0xD9, CHR 0x85, CHR
      0xD9, CHR 0x88, CHR 0xD9, CHR 0x86, CHR 0xD9, CHR 0x87, CHR 0xD9, CHR 0x94] @ '' '' @ [CHR 0xD9, CHR
      0x81, CHR 0xD8, CHR 0xB1, CHR 0xD9, CHR 0x88, CHR 0xD8, CHR 0xB4, CHR 0xDA, CHR 0xAF, CHR 0xD8, CHR 0xA7,
      CHR 0xD9, CHR 0x87] @ '' pilot'')"

definition woo_shape :: "pilot_item \<Rightarrow> py_dict" where
  "woo_shape p =
     [(''id'', VInt (pi_id p)), (''name'', VStr (pi_name p)), (''description'', VStr (pilot_description p)),
      (''brands'', VList [VDict [(''name'', VStr (pi_brand p))]]),
      (''categories'', VList (map (\<lambda>c. VDict [(''name'', VStr c)]) (pi_cats p))), (''attributes'', VList []),
      (''price'', VStr (pi_price p)), (''stock_status'', VStr (if pi_stock p then ''instock'' else ''outofstock'')),
      (''date_modified_gmt'', VStr (pi_m p))]"

definition spaced :: "string \<Rightarrow> string" where
  "spaced s = map (\<lambda>c. if c = CHR ''T'' then CHR '' '' else c) s"

text \<open>\<open>float(p["price"])\<close> may raise.\<close>

definition oc_shape :: "pilot_item \<Rightarrow> py_dict res" where
  "oc_shape p =
     bind_res (py_float (VStr (pi_price p))) (\<lambda>x. Inr
       [(''product_id'', VInt (pi_id p)), (''name'', VStr (pi_name p)), (''description'', VStr (pilot_description p)),
        (''manufacturer'', VStr (pi_brand p)), (''categories'', VList (map VStr (pi_cats p))), (''attributes'', VDict []),
        (''price'', VNum x), (''quantity'', VInt (if pi_stock p then 5 else 0)), (''date_modified'', VStr (spaced (pi_m p)))])"

subsection \<open>The two servers\<close>

definition query_text :: "py_dict \<Rightarrow> string \<Rightarrow> string option" where
  "query_text params k = map_option (py_str (\<lambda>_. [])) (map_of params k)"

definition query_int :: "(string \<Rightarrow> int res) \<Rightarrow> py_dict \<Rightarrow> string \<Rightarrow> string \<Rightarrow> int res" where
  "query_int int_of params k d = int_of (the_or d (query_text params k))"

definition by_stamp :: "pilot_item list \<Rightarrow> pilot_item list" where
  "by_stamp ps = sort_key pi_m ps"

definition page_window :: "int \<Rightarrow> int \<Rightarrow> 'a list \<Rightarrow> 'a list" where
  "page_window n per xs = take (nat per) (drop (nat ((n - 1) * per)) xs)"

text \<open>\<open>since.replace("Z", "").split("+")[0]\<close>.\<close>

definition bare_since :: "string \<Rightarrow> string" where
  "bare_since s = takeWhile (\<lambda>c. c \<noteq> CHR ''+'') (filter (\<lambda>c. c \<noteq> CHR ''Z'') s)"

definition woo_changed :: "string option \<Rightarrow> pilot_item list \<Rightarrow> pilot_item list" where
  "woo_changed since ps =
     (if the_or [] since = [] then by_stamp ps else filter (\<lambda>p. bare_since (the_or [] since) < pi_m p) (by_stamp ps))"

definition woo_products :: "(string \<Rightarrow> int res) \<Rightarrow> pilot_item list \<Rightarrow> py_dict \<Rightarrow> pyv reply" where
  "woo_products int_of ps params =
     (if query_text params ''consumer_key'' \<noteq> Some woo_ck \<or> query_text params ''consumer_secret'' \<noteq> Some woo_cs
      then Err 401 ''woocommerce_rest_cannot_view''
      else case (query_int int_of params ''per_page'' ''10'', query_int int_of params ''page'' ''1'') of
          (Inr per, Inr n) \<Rightarrow>
            Ok (VList (map (VDict \<circ> woo_shape)
              (page_window (max 1 n) (max 1 (min 100 per)) (woo_changed (query_text params ''modified_after'') ps))))
        | _ \<Rightarrow> Err 500 ''Internal Server Error'')"

definition oc_changed :: "string option \<Rightarrow> pilot_item list \<Rightarrow> pilot_item list" where
  "oc_changed since ps =
     (if the_or [] since = [] then by_stamp ps else filter (\<lambda>p. the_or [] since < spaced (pi_m p)) (by_stamp ps))"

definition opencart_router :: "(string \<Rightarrow> int res) \<Rightarrow> pilot_item list \<Rightarrow> py_dict \<Rightarrow> string option \<Rightarrow> pyv reply" where
  "opencart_router int_of ps params token =
     (if query_text params ''route'' \<noteq> Some ''extension/module/acip/export'' then Err 404 ''unknown_route''
      else if token \<noteq> Some oc_token then Err 403 ''forbidden''
      else case (query_int int_of params ''limit'' ''100'', query_int int_of params ''page'' ''1'') of
          (Inr l, Inr n0) \<Rightarrow>
            let lim = max 1 (min 500 l); n = max 1 n0; found = oc_changed (query_text params ''since'') ps in
            (case map_res oc_shape (page_window n lim found) of
               Inl _ \<Rightarrow> Err 500 ''Internal Server Error''
             | Inr ds \<Rightarrow> Ok (VDict [(''products'', VList (map VDict ds)), (''more'', VBool (int (length found) > n * lim)),
                   (''page'', VInt n)]))
        | _ \<Rightarrow> Err 500 ''Internal Server Error'')"

text \<open>\<open>POST /touch/{id}\<close>: the first product with the id.\<close>

fun touch :: "string \<Rightarrow> int \<Rightarrow> pilot_item list \<Rightarrow> string reply \<times> pilot_item list" where
  "touch now i [] = (Err 404 ''not_found'', [])"
| "touch now i (p # ps) =
     (if pi_id p = i then (Ok now, p\<lparr>pi_m := now\<rparr> # ps)
      else case touch now i ps of (r, ps') \<Rightarrow> (r, p # ps'))"

definition pilot_health :: "pilot_item list \<Rightarrow> string \<times> nat" where
  "pilot_health ps = (''ok'', length ps)"

text \<open>The server behind the HTTP client of the worker; \<open>raise_for_status\<close> turns an error into an exception.\<close>

definition client_body :: "pyv reply \<Rightarrow> pyv res" where
  "client_body r = (case r of Ok v \<Rightarrow> Inr v | Err n e \<Rightarrow> Inl (Exn ''HTTPStatusError''))"

definition pilot_http :: "(string \<Rightarrow> int res) \<Rightarrow> pilot_item list \<Rightarrow> string \<Rightarrow> http_get" where
  "pilot_http int_of ps base url params cred =
     (if url = base @ ''/wp-json/wc/v3/products'' then client_body (woo_products int_of ps params)
      else if url = base @ ''/index.php'' then
        client_body (opencart_router int_of ps params
          (case cred of None \<Rightarrow> None | Some (h, v) \<Rightarrow> if h = ''X-Acip-Token'' then Some v else None))
      else Inl (Exn ''HTTPStatusError''))"

end
