(* ===== verification/PilotProps.thy ===== *)
theory PilotProps
  imports Pilot
begin

text \<open>
  The pull clients against the pilot store: whichever interface the store is read through, the pull ends, skips
  nothing, and the two interfaces yield the same canonical products.
\<close>

subsection \<open>OpenCart paging\<close>

lemma opencart_pages_from:
  assumes "0 < per"
    and "\<And>k. page_body (get (1 + int k)) = Inr (take per (drop (k * per) items), Suc k * per < length items)"
  shows "opencart_pages get (1 + int k) = Some (drop (k * per) items, None)"
proof (induction "length items - k * per" arbitrary: k rule: less_induct)
  case less
  let ?rest = "drop (k * per) items"
  show ?case
  proof (cases "Suc k * per < length items")
    case False
    then show ?thesis by (simp add: opencart_pages.simps [of get "1 + int k"] assms(2))
  next
    case True
    then have "length items - Suc k * per < length items - k * per" using assms(1) by auto
    from less [OF this] have "opencart_pages get (1 + int k + 1) = Some (drop (Suc k * per) items, None)"
      by (simp add: algebra_simps)
    moreover have "?rest = take per ?rest @ drop (Suc k * per) items"
      by (metis append_take_drop_id drop_drop mult_Suc)
    ultimately show ?thesis using True
      by (simp add: opencart_pages.simps [of get "1 + int k"] assms(2))
  qed
qed

lemma map_res_window: "map_res f xs = Inr ys \<Longrightarrow> map_res f (take n (drop m xs)) = Inr (take n (drop m ys))"
proof (induction xs arbitrary: ys n m)
  case (Cons x xs)
  from Cons.prems obtain y zs where y: "f x = Inr y" "map_res f xs = Inr zs" "ys = y # zs"
    by (auto simp: bind_res_Inr)
  show ?case
  proof (cases m)
    case 0
    with Cons.IH [OF y(2), of _ 0] y show ?thesis by (cases n) auto
  qed (simp add: Cons.IH [OF y(2)] y(3))
qed simp

lemma map_res_length: "map_res f xs = Inr ys \<Longrightarrow> length ys = length xs"
  by (induction xs arbitrary: ys) (auto simp: bind_res_Inr)

lemma map_res_all2: "map_res f xs = Inr ys \<Longrightarrow> list_all2 (\<lambda>x y. f x = Inr y) xs ys"
  by (induction xs arbitrary: ys) (auto simp: bind_res_Inr)

lemma map_res_total: "\<forall>x\<in>set xs. \<exists>y. f x = Inr y \<Longrightarrow> \<exists>ys. map_res f xs = Inr ys"
  by (induction xs) auto

subsection \<open>What the servers answer\<close>

definition reads_ints :: "(string \<Rightarrow> int res) \<Rightarrow> bool" where
  "reads_ints int_of \<longleftrightarrow> (\<forall>i. int_of (int_str i) = Inr i)"

definition plain_base :: "string \<Rightarrow> bool" where
  "plain_base base \<longleftrightarrow> rstrip_slash base = base \<and> \<not> is_https base"

definition since_of :: "string option \<Rightarrow> string option" where
  "since_of since = (if given since then since else None)"

lemma window_at: "page_window (1 + int k) (int per) xs = take per (drop (k * per) xs)"
  by (simp add: page_window_def nat_mult_distrib)

lemma pilot_urls [simp]:
  "base @ ''/wp-json/wc/v3/products'' \<noteq> base @ ''/index.php''" "base @ ''/index.php'' \<noteq> base @ ''/wp-json/wc/v3/products''"
  by simp_all

lemma woo_page:
  assumes "reads_ints int_of" "plain_base base"
  shows "woo_request (pilot_http int_of ps base) base woo_ck woo_cs since page_size (1 + int k) =
    Inr (VList (take page_size (drop (k * page_size) (map (VDict \<circ> woo_shape) (woo_changed (since_of since) ps)))))"
  using assms
  by (auto simp: reads_ints_def plain_base_def woo_request_def Let_def pilot_http_def woo_products_def query_text_def
      query_int_def client_body_def since_of_def page_size_def window_at [of k 100, simplified] take_map drop_map given_def
      the_or_def split: option.splits)

lemma oc_page:
  assumes "reads_ints int_of" "plain_base base"
    and "map_res oc_shape (oc_changed (map_option bare_stamp (since_of since)) ps) = Inr ds"
  shows "page_body (opencart_request (pilot_http int_of ps base) base oc_token since page_size (1 + int k)) =
    Inr (take page_size (drop (k * page_size) (map VDict ds)), Suc k * page_size < length (map VDict ds))"
proof -
  let ?found = "oc_changed (map_option bare_stamp (since_of since)) ps"
  have w: "map_res oc_shape (page_window (1 + int k) 100 ?found) = Inr (take 100 (drop (k * 100) ds))"
    using map_res_window [OF assms(3), of 100 "k * 100"] by (simp add: window_at [of k 100, simplified])
  have l: "length ?found = length ds" using map_res_length [OF assms(3)] by simp
  define params where "params = [(''route'', VStr ''extension/module/acip/export''), (''limit'', VInt 100), (''page'', VInt (1 + int k))] @
        (if given since then [(''since'', VStr (bare_stamp (the since)))] else [])"
  have r: "opencart_request (pilot_http int_of ps base) base oc_token since page_size (1 + int k) =
    client_body (opencart_router int_of ps params (Some oc_token))"
    using assms(2) by (simp add: plain_base_def opencart_request_def pilot_http_def page_size_def params_def)
  have q: "query_text params ''since'' = map_option bare_stamp (since_of since)"
    "query_text params ''route'' = Some ''extension/module/acip/export''"
    by (auto simp: params_def query_text_def since_of_def given_def the_or_def split: option.splits)
  have n: "query_int int_of params ''limit'' ''100'' = Inr 100" "query_int int_of params ''page'' ''1'' = Inr (1 + int k)"
    using assms(1) by (simp_all add: params_def query_int_def query_text_def reads_ints_def)
  have more: "(1 + int k) * 100 < int (length ds) \<longleftrightarrow> Suc k * page_size < length (map VDict ds)"
    by (simp add: page_size_def) arith
  show ?thesis unfolding r opencart_router_def q n
    using w l more
    by (simp add: client_body_def page_body_def page_size_def Let_def dict_get_or_def dict_get_def py_iter_def take_map drop_map)
qed

subsection \<open>Which products a pull selects\<close>

definition changed_since :: "string option \<Rightarrow> pilot_item list \<Rightarrow> pilot_item list" where
  "changed_since since ps = filter (\<lambda>p. case since of None \<Rightarrow> True | Some s \<Rightarrow> bare_since s < pi_m p) (sort_key pi_m ps)"

definition same_layout :: "string \<Rightarrow> string \<Rightarrow> bool" where
  "same_layout a b = list_all2 (\<lambda>c d. (c = CHR ''T'') = (d = CHR ''T'')) a b"

text \<open>A watermark in whole seconds with a numeric offset, as \<open>isoformat\<close> writes it, beside stamps of the same layout.\<close>

definition plain_since :: "pilot_item list \<Rightarrow> string option \<Rightarrow> bool" where
  "plain_since ps since \<longleftrightarrow> (case since of None \<Rightarrow> True | Some s \<Rightarrow>
     s \<noteq> [] \<and> bare_since s \<noteq> [] \<and> CHR ''Z'' \<notin> set s \<and> CHR ''.'' \<notin> set s \<and> list_all (\<lambda>p. same_layout (bare_since s) (pi_m p)) ps)"

lemma spaced_order: "same_layout a b \<Longrightarrow> spaced a < spaced b \<longleftrightarrow> a < b"
  unfolding same_layout_def
  by (induction a b rule: list_all2_induct) (auto simp: spaced_def)

lemma bare_stamp_spaced:
  assumes "CHR ''Z'' \<notin> set s" "CHR ''.'' \<notin> set s"
  shows "bare_stamp s = spaced (bare_since s)"
proof -
  have "filter (\<lambda>c. c \<noteq> CHR ''Z'') s = s" using assms(1) by (auto intro: filter_True)
  moreover have "takeWhile (\<lambda>c. c \<noteq> CHR ''+'') (spaced s) = spaced (takeWhile (\<lambda>c. c \<noteq> CHR ''+'') s)"
    unfolding spaced_def by (induction s) auto
  moreover have "CHR ''.'' \<notin> set (spaced (takeWhile (\<lambda>c. c \<noteq> CHR ''+'') s))"
    using assms(2) by (auto simp: spaced_def dest: set_takeWhileD split: if_splits)
  ultimately show ?thesis
    by (simp add: bare_stamp_def bare_since_def flip: spaced_def) (metis takeWhile_eq_all_conv)
qed

lemma woo_selects: "plain_since ps since \<Longrightarrow> woo_changed (since_of since) ps = changed_since since ps"
  by (auto simp: plain_since_def woo_changed_def since_of_def changed_since_def by_stamp_def given_def split: option.splits)

lemma oc_selects:
  assumes "plain_since ps since"
  shows "oc_changed (map_option bare_stamp (since_of since)) ps = changed_since since ps"
proof (cases since)
  case (Some s)
  have p: "bare_stamp s = spaced (bare_since s)" "spaced (bare_since s) \<noteq> []" "s \<noteq> []"
    "\<forall>p\<in>set ps. same_layout (bare_since s) (pi_m p)"
    using assms Some bare_stamp_spaced [of s] by (auto simp: plain_since_def list_all_iff spaced_def)
  have "filter (\<lambda>p. spaced (bare_since s) < spaced (pi_m p)) (sort_key pi_m ps) =
      filter (\<lambda>p. bare_since s < pi_m p) (sort_key pi_m ps)"
    using p(4) by (intro filter_cong) (auto simp: spaced_order)
  with p Some show ?thesis by (simp add: oc_changed_def since_of_def changed_since_def by_stamp_def given_def)
qed (simp add: oc_changed_def since_of_def changed_since_def by_stamp_def given_def)

subsection \<open>One catalogue, two interfaces\<close>

definition sellable :: "pilot_item \<Rightarrow> bool" where
  "sellable p \<longleftrightarrow> pi_id p \<noteq> 0 \<and> pi_brand p \<noteq> [] \<and> pi_price p \<noteq> [] \<and> parse_float (pi_price p) \<noteq> None"

definition canonical :: "tenant \<Rightarrow> string \<Rightarrow> pilot_item \<Rightarrow> product" where
  "canonical t u p =
     \<lparr>cp_tenant = t, cp_id = int_str (pi_id p), cp_title = pi_name p, cp_description = pilot_description p,
      cp_brand = VStr (pi_brand p), cp_categories = map VStr (pi_cats p), cp_attributes = VDict [],
      cp_price = parse_float (pi_price p), cp_in_stock = pi_stock p, cp_popularity = None, cp_updated = VStr u\<rparr>"

lemma dict_items_dicts: "dict_items (map (\<lambda>x. VDict (f x)) xs) = map f xs"
  by (induction xs) auto

lemma description_set: "pilot_description p \<noteq> []"
  by (simp add: pilot_description_def)

lemma woo_gets:
  "dict_get (woo_shape p) ''id'' = VInt (pi_id p)" "dict_get (woo_shape p) ''name'' = VStr (pi_name p)"
  "dict_get (woo_shape p) ''description'' = VStr (pilot_description p)"
  "dict_get (woo_shape p) ''brands'' = VList [VDict [(''name'', VStr (pi_brand p))]]"
  "dict_get (woo_shape p) ''price'' = VStr (pi_price p)" "dict_get (woo_shape p) ''date_modified_gmt'' = VStr (pi_m p)"
  "dict_get_or (woo_shape p) ''categories'' v = VList (map (\<lambda>c. VDict [(''name'', VStr c)]) (pi_cats p))"
  "dict_get_or (woo_shape p) ''attributes'' v = VList []"
  "dict_get_or (woo_shape p) ''stock_status'' v = VStr (if pi_stock p then ''instock'' else ''outofstock'')"
  by (simp_all add: woo_shape_def dict_get_def dict_get_or_def)

lemma oc_gets:
  assumes "oc_shape p = Inr d"
  obtains x where "parse_float (pi_price p) = Some x" "dict_get d ''product_id'' = VInt (pi_id p)"
    "dict_get d ''name'' = VStr (pi_name p)" "dict_get d ''description'' = VStr (pilot_description p)"
    "dict_get d ''manufacturer'' = VStr (pi_brand p)" "dict_get d ''categories'' = VList (map VStr (pi_cats p))"
    "dict_get d ''attributes'' = VDict []" "dict_get d ''price'' = VNum x" "dict_get d ''in_stock'' = VNone"
    "dict_get d ''quantity'' = VInt (if pi_stock p then 5 else 0)" "dict_get d ''date_modified'' = VStr (spaced (pi_m p))"
    "dict_get d ''title'' = VNone"
proof -
  from assms obtain x where x: "parse_float (pi_price p) = Some x"
    by (auto simp: oc_shape_def bind_res_Inr py_float_def split: option.splits)
  then have d: "d = [(''product_id'', VInt (pi_id p)), (''name'', VStr (pi_name p)), (''description'', VStr (pilot_description p)),
        (''manufacturer'', VStr (pi_brand p)), (''categories'', VList (map VStr (pi_cats p))), (''attributes'', VDict []),
        (''price'', VNum x), (''quantity'', VInt (if pi_stock p then 5 else 0)), (''date_modified'', VStr (spaced (pi_m p)))]"
    using assms by (simp add: oc_shape_def py_float_def)
  show ?thesis by (rule that [OF x]) (simp_all add: d dict_get_def)
qed

lemma py_or_str: "py_or (VStr s) v = (if s = [] then v else VStr s)"
  by (simp add: py_or_def)

lemma woo_canonical:
  assumes "sellable p" "pi_m p \<noteq> []"
  shows "normalize_woo repr t (woo_shape p) = Inr (canonical t (pi_m p) p)"
proof -
  have "parse_float (pi_price p) \<noteq> None" "pi_price p \<noteq> []" using assms(1) by (simp_all add: sellable_def)
  then have "as_float (VStr (pi_price p)) = parse_float (pi_price p)"
    by (auto simp: as_float_def py_float_def)
  moreover have "map (\<lambda>c. dict_get_or c ''name'' (VStr [])) (map (\<lambda>c. [(''name'', VStr c)]) (pi_cats p)) = map VStr (pi_cats p)"
    by (simp add: dict_get_or_def)
  moreover have "woo_brand (woo_shape p) = VStr (pi_brand p)" by (simp add: woo_brand_def woo_gets) (simp add: dict_get_def)
  ultimately show ?thesis
    by (simp add: normalize_woo_def canonical_def woo_gets py_iter_def dict_items_dicts woo_attributes_def last_get_def
      first_of_def py_or_str description_set assms(2) del: map_map)
qed

lemma oc_canonical:
  assumes "sellable p" "pi_m p \<noteq> []" "oc_shape p = Inr d"
  shows "normalize_opencart repr t d = canonical t (spaced (pi_m p)) p"
proof -
  obtain x where x: "parse_float (pi_price p) = Some x" "dict_get d ''product_id'' = VInt (pi_id p)"
    "dict_get d ''name'' = VStr (pi_name p)" "dict_get d ''description'' = VStr (pilot_description p)"
    "dict_get d ''manufacturer'' = VStr (pi_brand p)" "dict_get d ''categories'' = VList (map VStr (pi_cats p))"
    "dict_get d ''attributes'' = VDict []" "dict_get d ''price'' = VNum x" "dict_get d ''in_stock'' = VNone"
    "dict_get d ''quantity'' = VInt (if pi_stock p then 5 else 0)" "dict_get d ''date_modified'' = VStr (spaced (pi_m p))"
    "dict_get d ''title'' = VNone" by (rule oc_gets [OF assms(3)])
  have "pi_id p \<noteq> 0" "pi_brand p \<noteq> []" "spaced (pi_m p) \<noteq> []" using assms(1,2) by (simp_all add: sellable_def spaced_def)
  then show ?thesis
    by (simp add: normalize_opencart_def canonical_def x coerce_categories_def last_get_def as_bool_def first_of_def py_or_str
      description_set as_float_def) (simp add: py_or_def o_def)
qed

lemma source_names: "py_lower ''woocommerce'' = ''woocommerce''" "py_lower ''opencart'' = ''opencart''"
  by code_simp+

text \<open>C39: Read through either interface, from any watermark that \<open>isoformat\<close> writes in whole seconds, the store yields the same
  products: the paging ends, skips and repeats nothing, and each payload becomes the same canonical product - id,
  texts, categories, price, stock - but for the spelling of its time stamp.\<close>

theorem pilot_pulls_agree:
  assumes "reads_ints int_of" and "plain_base base" and "list_all (\<lambda>p. sellable p \<and> pi_m p \<noteq> []) ps" and "plain_since ps since"
  shows "\<exists>ws ds. pull_all (pilot_http int_of ps base) (PullWoo base woo_ck woo_cs since) = Some (ws, None) \<and>
    pull_all (pilot_http int_of ps base) (PullOpencart base oc_token since) = Some (ds, None) \<and>
    map (normalize_raw N t ''woocommerce'') ws = map (\<lambda>p. Inr (canonical t (pi_m p) p)) (changed_since since ps) \<and>
    map (normalize_raw N t ''opencart'') ds = map (\<lambda>p. Inr (canonical t (spaced (pi_m p)) p)) (changed_since since ps)"
proof -
  let ?qs = "changed_since since ps" and ?http = "pilot_http int_of ps base"
  have qs: "\<forall>p\<in>set ?qs. sellable p \<and> pi_m p \<noteq> []" using assms(3) by (auto simp: changed_since_def list_all_iff)
  have "\<exists>ds. map_res oc_shape ?qs = Inr ds"
    using qs by (intro map_res_total) (auto simp: oc_shape_def sellable_def py_float_def)
  then obtain ds where ds: "map_res oc_shape ?qs = Inr ds" ..
  have "woo_pages (woo_request ?http base woo_ck woo_cs since page_size) page_size (1 + int 0) =
      Some (drop (0 * page_size) (map (VDict \<circ> woo_shape) (woo_changed (since_of since) ps)), None)"
    by (rule woo_pages_from [OF _ woo_page [OF assms(1,2)]]) (simp add: page_size_def)
  then have w: "pull_all ?http (PullWoo base woo_ck woo_cs since) = Some (map (VDict \<circ> woo_shape) ?qs, None)"
    by (simp add: pull_all_def woo_selects [OF assms(4)])
  have "opencart_pages (opencart_request ?http base oc_token since page_size) (1 + int 0) =
      Some (drop (0 * page_size) (map VDict ds), None)"
    by (rule opencart_pages_from [OF _ oc_page [OF assms(1,2)]]) (simp_all add: page_size_def oc_selects [OF assms(4)] ds)
  then have o: "pull_all ?http (PullOpencart base oc_token since) = Some (map VDict ds, None)"
    by (simp add: pull_all_def)
  have "map (normalize_raw N t ''woocommerce'') (map (VDict \<circ> woo_shape) ?qs) = map (\<lambda>p. Inr (canonical t (pi_m p) p)) ?qs"
    using qs by (simp add: normalize_raw_def normalize_product_def Let_def source_names woo_canonical)
  moreover have "map (normalize_raw N t ''opencart'') (map VDict ds) = map (\<lambda>p. Inr (canonical t (spaced (pi_m p)) p)) ?qs"
    using map_res_all2 [OF ds] qs
    by (induction rule: list_all2_induct) (simp_all add: normalize_raw_def normalize_product_def Let_def source_names oc_canonical)
  ultimately show ?thesis using w o by blast
qed

text \<open>A product touched in the store is selected by the next pull from any earlier watermark.\<close>

lemma touch_stamps: "touch now i ps = (Ok u, ps') \<Longrightarrow> \<exists>p\<in>set ps'. pi_id p = i \<and> pi_m p = now"
proof (induction ps arbitrary: ps')
  case (Cons q ps)
  show ?case
  proof (cases "pi_id q = i")
    case True
    with Cons.prems show ?thesis by auto
  next
    case False
    obtain r qs where t: "touch now i ps = (r, qs)" by fastforce
    with False Cons.prems have "r = Ok u" "ps' = q # qs" by simp_all
    with Cons.IH [of qs] t show ?thesis by auto
  qed
qed simp

lemma touched_is_selected:
  "touch now i ps = (Ok u, ps') \<Longrightarrow> bare_since s < now \<Longrightarrow> \<exists>p\<in>set (changed_since (Some s) ps'). pi_id p = i \<and> pi_m p = now"
  using touch_stamps by (fastforce simp: changed_since_def)

definition demo_int :: "string \<Rightarrow> int res" where
  "demo_int s = (case s of [] \<Rightarrow> Inl (Exn ''ValueError'')
     | c # cs \<Rightarrow> Inr (if c = CHR ''-'' then - int (digits_val cs) else int (digits_val s)))"

lemma nat_str_ne: "nat_str n \<noteq> []"
  by (subst nat_str.simps) simp

lemma demo_int_reads: "reads_ints demo_int"
  unfolding reads_ints_def
proof
  fix i :: int
  show "demo_int (int_str i) = Inr i"
    using nat_str_roundtrip [of "nat i"] nat_str_roundtrip [of "nat (- i)"] nat_str_not_neg [of "nat i"] nat_str_ne [of "nat i"]
    by (cases "nat_str (nat i)") (auto simp: demo_int_def int_str_def)
qed

definition demo_items :: "pilot_item list" where
  "demo_items =
     [\<lparr>pi_id = 2, pi_name = ''b'', pi_brand = ''x'', pi_cats = [''k''], pi_price = ''5'', pi_stock = True, pi_m = ''4T0''\<rparr>,
      \<lparr>pi_id = 1, pi_name = ''a'', pi_brand = ''x'', pi_cats = [], pi_price = ''7'', pi_stock = False, pi_m = ''3T0''\<rparr>]"

lemma demo_items_order: "sort_key pi_m demo_items = rev demo_items"
  by (simp add: demo_items_def insort_key.simps)

theorem pilot_pulls_agree_witness:
  "\<exists>ws ds. pull_all (pilot_http demo_int demo_items ''s'') (PullWoo ''s'' woo_ck woo_cs (Some ''3T0+'')) = Some (ws, None) \<and>
    pull_all (pilot_http demo_int demo_items ''s'') (PullOpencart ''s'' oc_token (Some ''3T0+'')) = Some (ds, None) \<and>
    map (normalize_raw demo_env_sync ''t'' ''woocommerce'') ws = [Inr (canonical ''t'' ''4T0'' (hd demo_items))] \<and>
    map (normalize_raw demo_env_sync ''t'' ''opencart'') ds = [Inr (canonical ''t'' ''4 0'' (hd demo_items))]"
proof -
  have c: "changed_since (Some ''3T0+'') demo_items = [hd demo_items]"
    unfolding changed_since_def demo_items_order by (simp add: demo_items_def bare_since_def)
  have "plain_base ''s''" by (simp add: plain_base_def rstrip_slash_def is_https_def py_lower_def)
  moreover have "list_all (\<lambda>p. sellable p \<and> pi_m p \<noteq> []) demo_items"
    by (simp add: demo_items_def sellable_def parse_float_def parse_unsigned_def parse_exponent_def py_strip_def
      is_space_def is_digit_def Let_def)
  moreover have "plain_since demo_items (Some ''3T0+'')"
    by (simp add: plain_since_def demo_items_def bare_since_def same_layout_def)
  ultimately show ?thesis
    using pilot_pulls_agree [OF demo_int_reads, of "''s''" demo_items "Some ''3T0+''" demo_env_sync "''t''"]
    unfolding c by (simp add: demo_items_def spaced_def)
qed

end
