(* ===== verification/Seeding.thy ===== *)
theory Seeding
  imports SyncProps IndexProps Isolation
begin

text \<open>
  The seed of a demonstration store (\<open>scripts/seed_catalog.py\<close>): a tenant, two fresh keys, the catalogue index and
  the products of a fixture, sent through the sync pipeline; and its dry run. The fixture is the decoded file, the
  two key texts are what \<open>secrets\<close> produced, \<open>refreshed\<close> is the call \<open>indices.refresh\<close> of the index service.
\<close>

subsection \<open>The tenant and its keys\<close>

definition seed_tenant :: "tenant \<Rightarrow> string \<Rightarrow> string \<Rightarrow> db \<Rightarrow> tenant \<times> db" where
  "seed_tenant i slug name d =
     (case find (\<lambda>r. tn_slug r = slug) (tenants d) of
        Some r \<Rightarrow> (tn_id r, d\<lparr>tenants := update_where (\<lambda>x. tn_slug x = slug) (\<lambda>x. x\<lparr>tn_name := name\<rparr>) (tenants d)\<rparr>)
      | None \<Rightarrow>
          (i, d\<lparr>tenants := tenants d @
             [\<lparr>tn_id = i, tn_name = name, tn_plan = None, tn_status = ''active'', tn_notes = None, tn_slug = slug,
               tn_settings = [], tn_tracking = True\<rparr>]\<rparr>))"

definition seed_labels :: "string list" where "seed_labels = [''seed widget'', ''seed sync'']"

definition revoke_seeded :: "tenant \<Rightarrow> store \<Rightarrow> store" where
  "revoke_seeded t st =
     st\<lparr>keys := update_where (\<lambda>r. ky_tenant r = t \<and> ky_label r \<in> set seed_labels \<and> \<not> ky_revoked r)
        (\<lambda>r. r\<lparr>ky_revoked := True\<rparr>) (keys st)\<rparr>"

definition seed_key :: "crypto \<Rightarrow> tenant \<Rightarrow> string \<Rightarrow> string \<Rightarrow> key_scope \<Rightarrow> string \<Rightarrow> store \<Rightarrow> store" where
  "seed_key C t i raw scope label st =
     insert_key \<lparr>ky_id = i, ky_tenant = t, ky_hash = hash_key C raw, ky_scope = scope, ky_label = label, ky_revoked = False\<rparr> st"

record seed_fresh =
  sf_tenant :: tenant
  sf_widget_id :: string
  sf_sync_id :: string
  sf_widget :: string
  sf_sync :: string

definition widget_text :: "seed_fresh \<Rightarrow> string" where "widget_text F = ''acip_'' @ sf_widget F"
definition sync_text :: "seed_fresh \<Rightarrow> string" where "sync_text F = ''acip_'' @ sf_sync F"

definition ensure_tenant ::
  "crypto \<Rightarrow> seed_fresh \<Rightarrow> string \<Rightarrow> string \<Rightarrow> db \<times> store \<Rightarrow> (tenant \<times> string \<times> string) \<times> db \<times> store" where
  "ensure_tenant C F slug name p =
     (let (d, st) = p; (t, d1) = seed_tenant (sf_tenant F) slug name d in
      ((t, widget_text F, sync_text F), d1,
       seed_key C t (sf_sync_id F) (sync_text F) SYNC ''seed sync''
         (seed_key C t (sf_widget_id F) (widget_text F) WIDGET ''seed widget'' (revoke_seeded t st))))"

subsection \<open>The products\<close>

definition load_fixture :: "pyv \<Rightarrow> pyv list res" where
  "load_fixture v = (case v of VList (x # xs) \<Rightarrow> Inr (x # xs) | _ \<Rightarrow> Inl (Exn ''AssertionError''))"

text \<open>The vector of a product and whether the embedder stays in use; any exception of the \<open>try\<close> block retires it.\<close>

definition seed_vector :: "'s sync_env \<Rightarrow> bool \<Rightarrow> product \<Rightarrow> real list option" where
  "seed_vector N on p =
     (if on then case embedding_text (sn_repr N) p of Inl _ \<Rightarrow> None | Inr x \<Rightarrow> sn_embed N x else None)"

fun seed_products :: "'s sync_env \<Rightarrow> tenant \<Rightarrow> bool \<Rightarrow> nat \<Rightarrow> pyv list \<Rightarrow> 's \<Rightarrow> nat res \<times> 's" where
  "seed_products N t on n [] s = (Inr n, s)"
| "seed_products N t on n (raw # raws) s =
     (case normalize_raw N t ''rest'' raw of
        Inl e \<Rightarrow> (Inl e, s)
      | Inr p \<Rightarrow>
          let v = seed_vector N on p in
          (case upsert_product (sn_ts N) (sn_es N) (sn_idx N) p v s of
             (Inl e, s1) \<Rightarrow> (Inl e, s1)
           | (Inr _, s1) \<Rightarrow> seed_products N t (v \<noteq> None) (if v = None then n else Suc n) raws s1))"

record seeded =
  se_slug :: string
  se_tenant :: tenant
  se_count :: nat
  se_embedded :: nat
  se_widget :: string
  se_sync :: string

text \<open>What the run prints at its end, or the exception that ends it.\<close>

definition seed ::
  "crypto \<Rightarrow> 's sync_env \<Rightarrow> ('c, 'x) cluster_scheme \<Rightarrow> index_cfg \<Rightarrow> ('w, 'y) redis_scheme option \<Rightarrow> ('s \<Rightarrow> unit res \<times> 's)
     \<Rightarrow> seed_fresh \<Rightarrow> string \<Rightarrow> pyv \<Rightarrow> string \<Rightarrow> string \<Rightarrow> bool \<Rightarrow> (db \<times> store) \<times> 'c \<times> 's \<times> 'w
     \<Rightarrow> seeded res \<times> (db \<times> store) \<times> 'c \<times> 's \<times> 'w" where
  "seed C N CL cfg redis refreshed F stamp fixture slug name use_embeddings W =
     (let (p, c, s, w) = W in
      case load_fixture fixture of
        Inl e \<Rightarrow> (Inl e, W)
      | Inr raws \<Rightarrow>
          let ((t, wk, sk), p1) = ensure_tenant C F slug name p in
          (case ensure_catalogue_index CL cfg stamp c of
             (Inl e, c1) \<Rightarrow> (Inl e, p1, c1, s, w)
           | (Inr _, c1) \<Rightarrow>
               (case seed_products N t use_embeddings 0 raws s of
                  (Inl e, s1) \<Rightarrow> (Inl e, p1, c1, s1, w)
                | (Inr k, s1) \<Rightarrow>
                    (case refreshed s1 of
                       (Inl e, s2) \<Rightarrow> (Inl e, p1, c1, s2, w)
                     | (Inr _, s2) \<Rightarrow>
                         (Inr \<lparr>se_slug = slug, se_tenant = t, se_count = length raws, se_embedded = k, se_widget = wk, se_sync = sk\<rparr>,
                          p1, c1, s2, bump redis t w)))))"

subsection \<open>The dry run\<close>

definition py_assert :: "bool \<Rightarrow> unit res" where
  "py_assert b = (if b then Inr () else Inl (Exn ''AssertionError''))"

fun dry_products :: "'s sync_env \<Rightarrow> string set \<Rightarrow> pyv list \<Rightarrow> unit res" where
  "dry_products N seen [] = Inr ()"
| "dry_products N seen (raw # raws) =
     bind_res (normalize_raw N ''dry-run-tenant'' ''rest'' raw) (\<lambda>p.
     bind_res (py_assert (cp_id p \<noteq> [] \<and> cp_id p \<notin> seen)) (\<lambda>_.
     bind_res (py_assert (cp_title p \<noteq> [] \<and> cp_price p \<noteq> None)) (\<lambda>_.
     bind_res (embedding_text (sn_repr N) p) (\<lambda>x.
     bind_res (py_assert (x \<noteq> [])) (\<lambda>_. dry_products N (insert (cp_id p) seen) raws)))))"

definition dry_run :: "'s sync_env \<Rightarrow> pyv \<Rightarrow> nat res" where
  "dry_run N fixture =
     bind_res (load_fixture fixture) (\<lambda>raws. bind_res (dry_products N {} raws) (\<lambda>_. Inr (length raws)))"

end
