(* ===== verification/SeedProps.thy ===== *)
theory SeedProps
  imports Seeding
begin

text \<open>
  What the seed promises: however often it runs, one pair of seed keys is live and nothing else of the key table
  moves; the dry run decides whether the catalogue can be written; and what a failing index leaves behind.
\<close>

subsection \<open>Keys\<close>

definition seeded_key :: "tenant \<Rightarrow> key_row \<Rightarrow> bool" where
  "seeded_key t r \<longleftrightarrow> ky_tenant r = t \<and> ky_label r \<in> set seed_labels"

lemma update_where_map: "update_where P f xs = map (\<lambda>x. if P x then f x else x) xs"
  by (induction xs) (auto simp: update_where_def)

lemma seed_tenant_again: "fst (seed_tenant j slug name' (snd (seed_tenant i slug name d))) = fst (seed_tenant i slug name d)"
proof (cases "find (\<lambda>r. tn_slug r = slug) (tenants d)")
  case None
  then show ?thesis by (simp add: seed_tenant_def find_append)
next
  case (Some r)
  let ?f = "\<lambda>x. if tn_slug x = slug then x\<lparr>tn_name := name\<rparr> else x"
  have "find (\<lambda>r. tn_slug r = slug) (map ?f xs) = map_option ?f (find (\<lambda>r. tn_slug r = slug) xs)" for xs :: "tenant_row list"
    by (induction xs) auto
  then have f: "find (\<lambda>r. tn_slug r = slug) (tenants (snd (seed_tenant i slug name d))) = Some (?f r)"
    by (simp add: seed_tenant_def Some update_where_map)
  have "tn_id (?f r) = tn_id r" by simp
  moreover have "fst (seed_tenant i slug name d) = tn_id r" by (simp add: seed_tenant_def Some)
  ultimately show ?thesis unfolding seed_tenant_def [of j] f by simp
qed

lemma insert_key_keys: "keys (insert_key r st) = keys st @ [r]"
  by (simp add: insert_key_def)

lemma ensure_tenant_keys:
  assumes "ensure_tenant C F slug name p = ((t, wk, sk), p')"
  shows "keys (snd p') = keys (revoke_seeded t (snd p)) @
    [\<lparr>ky_id = sf_widget_id F, ky_tenant = t, ky_hash = hash_key C wk, ky_scope = WIDGET, ky_label = ''seed widget'', ky_revoked = False\<rparr>,
     \<lparr>ky_id = sf_sync_id F, ky_tenant = t, ky_hash = hash_key C sk, ky_scope = SYNC, ky_label = ''seed sync'', ky_revoked = False\<rparr>]"
proof -
  obtain d st where p: "p = (d, st)" by (cases p)
  obtain t' d1 where n: "seed_tenant (sf_tenant F) slug name d = (t', d1)" by fastforce
  note e = assms [unfolded p ensure_tenant_def n Let_def split_conv prod.inject]
  show ?thesis unfolding e [THEN conjunct2, symmetric] e [THEN conjunct1, THEN conjunct1, symmetric]
      e [THEN conjunct1, THEN conjunct2, THEN conjunct1, symmetric] e [THEN conjunct1, THEN conjunct2, THEN conjunct2, symmetric]
    by (simp only: seed_key_def insert_key_keys p snd_conv append_assoc append.simps)
qed

lemma revoke_seeded_dead: "filter (\<lambda>r. seeded_key t r \<and> \<not> ky_revoked r) (keys (revoke_seeded t st)) = []"
proof -
  have "filter (\<lambda>r. seeded_key t r \<and> \<not> ky_revoked r) (map (\<lambda>r. if ky_tenant r = t \<and> ky_label r \<in> set seed_labels \<and> \<not> ky_revoked r
      then r\<lparr>ky_revoked := True\<rparr> else r) xs) = []" for xs
    by (induction xs) (auto simp: seeded_key_def)
  then show ?thesis by (simp add: revoke_seeded_def update_where_map)
qed

lemma revoke_seeded_others: "filter (\<lambda>r. \<not> seeded_key t r) (keys (revoke_seeded t st)) = filter (\<lambda>r. \<not> seeded_key t r) (keys st)"
proof -
  have "filter (\<lambda>r. \<not> seeded_key t r) (map (\<lambda>r. if ky_tenant r = t \<and> ky_label r \<in> set seed_labels \<and> \<not> ky_revoked r
      then r\<lparr>ky_revoked := True\<rparr> else r) xs) = filter (\<lambda>r. \<not> seeded_key t r) xs" for xs
    by (induction xs) (auto simp: seeded_key_def)
  then show ?thesis by (simp add: revoke_seeded_def update_where_map)
qed

text \<open>After a run the live seed keys of the store are exactly the two that were printed, every other key is as it
  was, the printed keys resolve to the store in their scopes, and the next run finds the same store.\<close>

theorem seed_leaves_two_live_keys:
  assumes "ensure_tenant C F slug name p = ((t, wk, sk), p')"
    and "\<forall>r\<in>set (keys (snd p)). ky_hash r \<notin> {hash_key C wk, hash_key C sk}" and "hash_key C wk \<noteq> hash_key C sk"
  shows "map ky_hash (filter (\<lambda>r. seeded_key t r \<and> \<not> ky_revoked r) (keys (snd p'))) = [hash_key C wk, hash_key C sk] \<and>
    filter (\<lambda>r. \<not> seeded_key t r) (keys (snd p')) = filter (\<lambda>r. \<not> seeded_key t r) (keys (snd p)) \<and>
    resolve_principal C (Some wk) (snd p') = \<lparr>ap_tenant = Some t, ap_scope = Some WIDGET, ap_raw = Some wk, ap_verified = True\<rparr> \<and>
    resolve_principal C (Some sk) (snd p') = \<lparr>ap_tenant = Some t, ap_scope = Some SYNC, ap_raw = Some sk, ap_verified = True\<rparr> \<and>
    fst (fst (ensure_tenant C G slug name' p')) = t"
proof -
  note k = ensure_tenant_keys [OF assms(1)]
  have old: "find (live_key h) (keys (revoke_seeded t (snd p))) = None" if "h \<in> {hash_key C wk, hash_key C sk}" for h
    using assms(2) that by (auto simp: find_None_iff live_key_def revoke_seeded_def update_where_map)
  obtain d st where p: "p = (d, st)" by (cases p)
  obtain t1 d1 where n: "seed_tenant (sf_tenant F) slug name d = (t1, d1)" by fastforce
  have t: "t1 = t" "wk = widget_text F" "sk = sync_text F" "fst p' = d1"
    using assms(1) unfolding p ensure_tenant_def n Let_def split_conv prod.inject by auto
  have ne: "wk \<noteq> []" "sk \<noteq> []" by (simp_all add: t widget_text_def sync_text_def)
  have "resolve_principal C (Some wk) (snd p') = \<lparr>ap_tenant = Some t, ap_scope = Some WIDGET, ap_raw = Some wk, ap_verified = True\<rparr>"
    "resolve_principal C (Some sk) (snd p') = \<lparr>ap_tenant = Some t, ap_scope = Some SYNC, ap_raw = Some sk, ap_verified = True\<rparr>"
    using ne assms(3) by (simp_all add: resolve_principal_def k find_append old live_key_def)
  moreover have "fst (fst (ensure_tenant C G slug name' p')) = t"
    using seed_tenant_again [of "sf_tenant G" slug name' "sf_tenant F" name d] t
    by (cases p') (auto simp: ensure_tenant_def n Let_def split_def)
  ultimately show ?thesis
    by (simp add: k revoke_seeded_dead revoke_seeded_others) (simp add: seeded_key_def seed_labels_def)
qed

subsection \<open>The dry run decides\<close>

definition rest_product :: "'s sync_env \<Rightarrow> tenant \<Rightarrow> pyv \<Rightarrow> product" where
  "rest_product N t raw = (case raw of VDict d \<Rightarrow> normalize_rest (sn_repr N) t d)"

lemma normalize_rest_raw: "normalize_raw N t ''rest'' (VDict d) = Inr (normalize_rest (sn_repr N) t d)"
proof -
  have "py_lower ''rest'' = ''rest''" by code_simp
  then show ?thesis by (simp add: normalize_raw_def normalize_product_def Let_def)
qed

lemma rest_tenant: "normalize_rest repr t d = (normalize_rest repr t' d)\<lparr>cp_tenant := t\<rparr>"
  by (simp add: normalize_rest_def)

definition dry_ok :: "'s sync_env \<Rightarrow> product \<Rightarrow> bool" where
  "dry_ok N p \<longleftrightarrow> cp_id p \<noteq> [] \<and> cp_title p \<noteq> [] \<and> cp_price p \<noteq> None \<and> (\<exists>x. embedding_text (sn_repr N) p = Inr x \<and> x \<noteq> [])"

lemma dry_productsD:
  assumes "dry_products N seen raws = Inr ()"
  shows "\<exists>ds. raws = map VDict ds \<and> (let ps = map (normalize_rest (sn_repr N) ''dry-run-tenant'') ds in
    list_all (dry_ok N) ps \<and> distinct (map cp_id ps) \<and> cp_id ` set ps \<inter> seen = {})"
  using assms
proof (induction raws arbitrary: seen)
  case Nil
  then show ?case by simp
next
  case (Cons raw raws)
  from Cons.prems [unfolded dry_products.simps bind_res_Inr] obtain p u u' x u''
    where p: "normalize_raw N ''dry-run-tenant'' ''rest'' raw = Inr p"
    and a: "py_assert (cp_id p \<noteq> [] \<and> cp_id p \<notin> seen) = Inr u" "py_assert (cp_title p \<noteq> [] \<and> cp_price p \<noteq> None) = Inr u'"
    and x: "embedding_text (sn_repr N) p = Inr x" "py_assert (x \<noteq> []) = Inr u''"
    and r: "dry_products N (insert (cp_id p) seen) raws = Inr ()"
    by (elim exE conjE) (rule that, assumption+)
  from p obtain d where d: "raw = VDict d" by (cases raw) (simp_all add: normalize_raw_def)
  with p have pd: "p = normalize_rest (sn_repr N) ''dry-run-tenant'' d" by (simp only: normalize_rest_raw sum.inject)
  have ok: "dry_ok N p" "cp_id p \<notin> seen"
    using a x by (auto simp: dry_ok_def py_assert_def split: if_splits)
  from Cons.IH [OF r] obtain ds where ds: "raws = map VDict ds"
    "let ps = map (normalize_rest (sn_repr N) ''dry-run-tenant'') ds in
      list_all (dry_ok N) ps \<and> distinct (map cp_id ps) \<and> cp_id ` set ps \<inter> insert (cp_id p) seen = {}" by blast
  have "raw # raws = map VDict (d # ds)" by (simp add: d ds(1))
  moreover have "let ps = map (normalize_rest (sn_repr N) ''dry-run-tenant'') (d # ds) in
      list_all (dry_ok N) ps \<and> distinct (map cp_id ps) \<and> cp_id ` set ps \<inter> seen = {}"
    using ds(2) ok unfolding pd Let_def by auto
  ultimately show ?case by (intro exI [of _ "d # ds"] conjI)
qed

definition seed_event :: "'s sync_env \<Rightarrow> bool \<Rightarrow> product \<Rightarrow> ingest_event" where
  "seed_event N on p = (p, seed_vector N on p)"

fun seed_events :: "'s sync_env \<Rightarrow> bool \<Rightarrow> product list \<Rightarrow> ingest_event list" where
  "seed_events N on [] = []"
| "seed_events N on (p # ps) = seed_event N on p # seed_events N (seed_vector N on p \<noteq> None) ps"

lemma seed_events_products [simp]: "map fst (seed_events N on ps) = ps"
  by (induction ps arbitrary: on) (simp_all add: seed_event_def)

lemma seed_products_run:
  assumes "es_up (sn_es N) doc" "es_versioned (sn_es N) doc" "list_all (dated (sn_ts N)) (seed_events N on ps)"
    and "map (normalize_raw N t ''rest'') raws = map Inr ps"
  shows "\<exists>k. seed_products N t on n raws s = (Inr k, foldl (ingest (sn_ts N) (sn_es N) (sn_idx N)) s (seed_events N on ps))"
  using assms(3,4)
proof (induction ps arbitrary: raws on n s)
  case Nil
  then show ?case by simp
next
  case (Cons p ps)
  obtain raw raws' where r: "raws = raw # raws'" "normalize_raw N t ''rest'' raw = Inr p"
    "map (normalize_raw N t ''rest'') raws' = map Inr ps" using Cons.prems(2) by (cases raws) auto
  let ?e = "seed_event N on p" and ?on = "seed_vector N on p \<noteq> None"
  have u: "upsert_product (sn_ts N) (sn_es N) (sn_idx N) p (seed_vector N on p) s =
      (Inr (), ingest (sn_ts N) (sn_es N) (sn_idx N) s ?e)"
    using upsert_ok [OF assms(1,2), of ?e] Cons.prems(1) by (simp add: seed_event_def)
  have "list_all (dated (sn_ts N)) (seed_events N ?on ps)" using Cons.prems(1) by simp
  from Cons.IH [OF this r(3)] show ?case unfolding r(1) seed_products.simps r(2) sum.case Let_def u prod.case
    by simp
qed

lemma seed_events_dated:
  "list_all (\<lambda>p. dated (sn_ts N) (p, None)) ps \<Longrightarrow> list_all (dated (sn_ts N)) (seed_events N on ps)"
  by (induction ps arbitrary: on) (simp_all add: seed_event_def dated_def)

lemma seed_events_indexed:
  assumes "es_up (sn_es N) doc" "es_versioned (sn_es N) doc" "list_all (dated (sn_ts N)) es" "e \<in> set es"
  shows "\<exists>m. doc (sn_idx N) (event_id e) (foldl (ingest (sn_ts N) (sn_es N) (sn_idx N)) s es) = Some m \<and> snd (event_entry (sn_ts N) e) \<le> snd m"
proof -
  have "event_entry (sn_ts N) e \<in> set (map (event_entry (sn_ts N)) (filter (\<lambda>x. event_id x = event_id e) es))"
    using assms(4) by auto
  then show ?thesis
    using fold_newest_max [of "event_entry (sn_ts N) e"] by (metis UnI1 ingest_run [OF assms(2,1,3)])
qed

text \<open>A fixture that passes the dry run is written: when the index exists, answers, and the products carry readable
  time stamps, the run ends with its report, counts every product and each of them is in the index.\<close>

theorem dry_run_predicts_seed:
  assumes "dry_run N (VList raws) = Inr n" and "es_up (sn_es N) doc" and "es_versioned (sn_es N) doc"
    and "list_all (\<lambda>raw. dated (sn_ts N) (rest_product N [] raw, None)) raws"
    and "ensure_catalogue_index CL cfg stamp c = (Inr r, c1)"
    and "\<forall>s. fst (refreshed s) = Inr () \<and> (\<forall>k. doc (sn_idx N) k (snd (refreshed s)) = doc (sn_idx N) k s)"
  shows "\<exists>rep p1 s1 w1. seed C N CL cfg redis refreshed F stamp (VList raws) slug name on (p, c, s, w) = (Inr rep, p1, c1, s1, w1) \<and>
    se_count rep = n \<and>
    (\<forall>raw\<in>set raws. \<exists>m. doc (sn_idx N) (doc_id (se_tenant rep) (cp_id (rest_product N [] raw))) s1 = Some m)"
proof -
  obtain y ys where ne: "raws = y # ys" and dry: "dry_products N {} raws = Inr ()" and n: "n = length raws"
    using assms(1) by (cases raws) (auto simp: dry_run_def load_fixture_def bind_res_Inr simp del: dry_products.simps)
  have l: "load_fixture (VList raws) = Inr raws" by (simp add: ne load_fixture_def)
  obtain ds where ds: "raws = map VDict ds" using dry_productsD [OF dry] by blast
  obtain t p1 where e: "ensure_tenant C F slug name p = ((t, widget_text F, sync_text F), p1)"
    by (cases p) (simp add: ensure_tenant_def Let_def split_def)
  let ?ps = "map (normalize_rest (sn_repr N) t) ds" and ?ing = "ingest (sn_ts N) (sn_es N) (sn_idx N)"
  have upd: "cp_updated (normalize_rest (sn_repr N) t d) = cp_updated (normalize_rest (sn_repr N) [] d)"
    and ids: "cp_id (normalize_rest (sn_repr N) t d) = cp_id (normalize_rest (sn_repr N) [] d)"
    and own: "cp_tenant (normalize_rest (sn_repr N) t d) = t" for d by (simp_all add: normalize_rest_def)
  have dated: "list_all (dated (sn_ts N)) (seed_events N on ?ps)"
    using assms(4) by (intro seed_events_dated) (simp add: ds list_all_iff dated_def upd rest_product_def)
  obtain k where k: "seed_products N t on 0 raws s = (Inr k, foldl ?ing s (seed_events N on ?ps))"
    using seed_products_run [OF assms(2,3) dated, of t raws 0 s] by (auto simp: ds normalize_rest_raw)
  obtain s1 where s1: "refreshed (foldl ?ing s (seed_events N on ?ps)) = (Inr (), s1)"
    "\<And>k. doc (sn_idx N) k s1 = doc (sn_idx N) k (foldl ?ing s (seed_events N on ?ps))"
    using assms(6) by (metis prod.collapse)
  let ?rep = "\<lparr>se_slug = slug, se_tenant = t, se_count = length raws, se_embedded = k, se_widget = widget_text F, se_sync = sync_text F\<rparr>"
  have run: "seed C N CL cfg redis refreshed F stamp (VList raws) slug name on (p, c, s, w) = (Inr ?rep, p1, c1, s1, bump redis t w)"
    by (simp add: seed_def l e assms(5) k s1(1))
  have "\<exists>m. doc (sn_idx N) (doc_id t (cp_id (rest_product N [] raw))) s1 = Some m" if raw: "raw \<in> set raws" for raw
  proof -
    obtain d where d: "raw = VDict d" "d \<in> set ds" using raw ds by auto
    then have "normalize_rest (sn_repr N) t d \<in> set (map fst (seed_events N on ?ps))" by simp
    then obtain e where e: "e \<in> set (seed_events N on ?ps)" "fst e = normalize_rest (sn_repr N) t d"
      by (metis imageE set_map)
    have "event_id e = doc_id t (cp_id (rest_product N [] raw))"
      by (simp add: event_id_def e(2) own ids d(1) rest_product_def)
    with seed_events_indexed [OF assms(2,3) dated e(1), of s] show ?thesis by (auto simp: s1(2))
  qed
  with run n show ?thesis by fastforce
qed

text \<open>The keys are exchanged before the index is asked for: a run that fails there has revoked the keys in use
  and prints neither of the new ones.\<close>

theorem failed_seed_retires_keys:
  assumes "load_fixture fixture = Inr raws" and "ensure_catalogue_index CL cfg stamp c = (Inl x, c1)"
    and "ensure_tenant C F slug name p = ((t, wk, sk), p1)"
    and "\<forall>r\<in>set (keys (snd p)). ky_hash r = hash_key C k \<longrightarrow> seeded_key t r" and "hash_key C k \<notin> {hash_key C wk, hash_key C sk}"
  shows "seed C N CL cfg redis refreshed F stamp fixture slug name on (p, c, s, w) = (Inl x, p1, c1, s, w) \<and>
    resolve_principal C (Some k) (snd p1) = extract_principal (Some k)"
proof -
  have "seed C N CL cfg redis refreshed F stamp fixture slug name on (p, c, s, w) = (Inl x, p1, c1, s, w)"
    by (simp add: seed_def assms(1-3))
  moreover have "find (live_key (hash_key C k)) (keys (revoke_seeded t (snd p))) = None"
    using assms(4) by (auto simp: find_None_iff live_key_def revoke_seeded_def update_where_map seeded_key_def)
  then have "find (live_key (hash_key C k)) (keys (snd p1)) = None"
    using assms(5) by (auto simp: ensure_tenant_keys [OF assms(3)] find_append live_key_def)
  then have "resolve_principal C (Some k) (snd p1) = extract_principal (Some k)"
    by (simp add: resolve_principal_def extract_principal_def)
  ultimately show ?thesis by blast
qed

subsection \<open>A run\<close>

definition demo_fresh_seed :: seed_fresh where
  "demo_fresh_seed = \<lparr>sf_tenant = ''n'', sf_widget_id = ''1'', sf_sync_id = ''2'', sf_widget = ''w'', sf_sync = ''s''\<rparr>"

definition demo_old_key :: key_row where
  "demo_old_key = \<lparr>ky_id = ''0'', ky_tenant = ''n'', ky_hash = ''old'', ky_scope = WIDGET, ky_label = ''seed widget'', ky_revoked = False\<rparr>"

definition demo_run :: "(tenant \<times> string \<times> string) \<times> db \<times> store" where
  "demo_run = ensure_tenant (toy_crypto []) demo_fresh_seed ''demo'' ''Demo'' (empty_db, empty_store\<lparr>keys := [demo_old_key]\<rparr>)"

lemma demo_run_eq: "demo_run = ((''n'', ''acip_w'', ''acip_s''), snd demo_run)"
  by (simp add: demo_run_def ensure_tenant_def seed_tenant_def empty_db_def demo_fresh_seed_def widget_text_def sync_text_def Let_def)

theorem seed_leaves_two_live_keys_witness:
  "resolve_principal (toy_crypto []) (Some ''acip_w'') (snd (snd demo_run)) =
    \<lparr>ap_tenant = Some ''n'', ap_scope = Some WIDGET, ap_raw = Some ''acip_w'', ap_verified = True\<rparr>"
  by (rule seed_leaves_two_live_keys [OF demo_run_eq [unfolded demo_run_def], folded demo_run_def,
        THEN conjunct2, THEN conjunct2, THEN conjunct1])
    (simp_all add: hash_key_def toy_crypto_def demo_old_key_def empty_store_def)

theorem failed_seed_retires_keys_witness:
  "resolve_principal (toy_crypto []) (Some ''old'') (snd (snd demo_run)) = extract_principal (Some ''old'')"
proof -
  have l: "load_fixture (VList [VNone]) = Inr [VNone]" by (simp add: load_fixture_def)
  obtain x c1 where e: "ensure_catalogue_index ((mem_cl False)\<lparr>cl_create := (\<lambda>i b c. (Inl (Exn ''ConnectionError''), c))\<rparr>)
      demo_index ''1'' \<lparr>mc_docs = [], mc_alias = [], mc_busy = False\<rparr> = (Inl x, c1)"
    by (simp add: ensure_catalogue_index_def ensure_index_def then_do_def mem_ops behind_list_def demo_index_def)
  show ?thesis
    by (rule failed_seed_retires_keys [OF l e demo_run_eq [unfolded demo_run_def], folded demo_run_def, THEN conjunct2])
      (simp_all add: hash_key_def toy_crypto_def demo_old_key_def empty_store_def seeded_key_def seed_labels_def)
qed

definition demo_offer :: pyv where
  "demo_offer = VDict [(''product_id'', VStr ''p''), (''title'', VStr ''new''), (''price'', VInt 3), (''updated_at'', VStr ''22'')]"

lemma demo_offer_ok: "dry_run demo_env_sync (VList [demo_offer]) = Inr 1"
proof -
  let ?p = "normalize_rest (\<lambda>_. []) ''dry-run-tenant''
    [(''product_id'', VStr ''p''), (''title'', VStr ''new''), (''price'', VInt 3), (''updated_at'', VStr ''22'')]"
  have p: "cp_id ?p = ''p''" "cp_title ?p = ''new''" "cp_price ?p = Some 3" "cp_brand ?p = VNone" "cp_categories ?p = []"
    "cp_attributes ?p = VDict []" "cp_description ?p = []"
    by (simp_all add: normalize_rest_def last_get_def first_of_def py_or_def dict_get_def as_float_def coerce_categories_def)
  have "embedding_text (\<lambda>_. []) ?p = Inr ''new''"
    by (simp only: embedding_text_def p) (simp add: attribute_part_def py_strip_def is_space_def)
  then show ?thesis
    by (simp add: dry_run_def load_fixture_def demo_offer_def normalize_rest_raw demo_env_sync_def p py_assert_def)
qed

theorem dry_run_predicts_seed_witness:
  "\<exists>rep p1 s1 w1 c1. seed (toy_crypto []) demo_env_sync (mem_cl False) demo_index (None :: unit redis option) (\<lambda>s. (Inr (), s)) demo_fresh_seed ''1''
      (VList [demo_offer]) ''demo'' ''Demo'' True ((empty_db, empty_store), demo_cluster False, [], ()) = (Inr rep, p1, c1, s1, w1) \<and>
    se_count rep = 1"
proof -
  have e: "ensure_catalogue_index (mem_cl False) demo_index ''1'' (demo_cluster False) =
    (Inr (ensure_reply ''exists'' ''acip-products'' ''old''), demo_cluster False)"
    by (simp add: ensure_catalogue_index_def ensure_index_def mem_ops behind_list_def demo_index_def demo_cluster_def)
  have d: "list_all (\<lambda>raw. dated (sn_ts demo_env_sync) (rest_product demo_env_sync [] raw, None)) [demo_offer]"
    by (simp add: demo_offer_def rest_product_def demo_env_sync_def dated_def version_from_def normalize_rest_def dict_get_def toy_ts_def)
  have u: "es_up (sn_es demo_env_sync) mem_doc" "es_versioned (sn_es demo_env_sync) mem_doc" by (simp_all add: demo_env_sync_def)
  show ?thesis
    using dry_run_predicts_seed [OF demo_offer_ok u d e, of "\<lambda>s. (Inr (), s)" "toy_crypto []" "None :: unit redis option"
        demo_fresh_seed "''demo''" "''Demo''" True "(empty_db, empty_store)" "[]" "()"]
    by simp blast
qed

end
