(* ===== verification/Runtime.thy ===== *)
theory Runtime
  imports Search Assistant
begin

text \<open>
  The assistant as the API process wires it (\<open>services/api/runtime.py\<close>): the gateway with both caches, the wallet
  guard, the chain of the registry, the meter and the pricer, over the search service and the session memory. A
  platform gives the shared services over one world; \<open>pz_up\<close> says whether PostgreSQL answers and \<open>pz_opened\<close> whether
  the process holds a pool.
\<close>

record 'w platform =
  pz_redis :: "'w redis option"
  pz_up :: "'w \<Rightarrow> bool"
  pz_opened :: "'w \<Rightarrow> bool"
  pz_open :: "'w \<Rightarrow> 'w"
  pz_db :: "'w \<Rightarrow> db"
  pz_put :: "db \<Rightarrow> 'w \<Rightarrow> 'w"
  pz_ai :: "'w \<Rightarrow> aidb"
  pz_reg :: "'w \<Rightarrow> snapshot option"
  pz_set_reg :: "snapshot option \<Rightarrow> 'w \<Rightarrow> 'w"
  pz_net :: "'w network"
  pz_vendors :: "'w vendor_net"
  pz_es :: "'w es_search"
  pz_now :: "'w \<Rightarrow> real"
  pz_sha :: "string \<Rightarrow> string"
  pz_unicode :: unicode_db
  pz_repr :: "pyv \<Rightarrow> string"
  pz_settings :: ai_settings
  pz_search :: search_cfg
  pz_threshold :: real
  pz_default_cap :: real

text \<open>\<open>get_pg_pool\<close>: the first call opens the pool and raises when the server does not answer; later calls return it.\<close>

definition get_pg_pool :: "'w platform \<Rightarrow> 'w \<Rightarrow> pool res \<times> 'w" where
  "get_pg_pool P w =
     (if pz_opened P w then (Inr (if pz_up P w then PgUp else PgDown), w)
      else if pz_up P w then (Inr PgUp, pz_open P w)
      else (Inl (Exn ''ConnectionError''), w))"

text \<open>For the callers that treat a missing pool as an unreachable database.\<close>

definition pool_or_down :: "pool res \<Rightarrow> pool" where
  "pool_or_down r = (case r of Inl _ \<Rightarrow> PgDown | Inr p \<Rightarrow> p)"

subsection \<open>Metering and pricing\<close>

definition usage_of_turn :: "turn_usage \<Rightarrow> usage_args option" where
  "usage_of_turn u =
     (case (tu_tokens_in u, tu_tokens_out u) of
        (VInt i, VInt j) \<Rightarrow> Some
          \<lparr>ua_route = ''chat'', ua_rung = tu_rung u, ua_tokens_in = i, ua_tokens_out = j, ua_cache_outcome = tu_outcome u,
           ua_latency_ms = Some (tu_latency u), ua_cost = tu_cost u, ua_provider = tu_provider u, ua_model = tu_model u,
           ua_provider_cost = tu_provider_cost u\<rparr>
      | _ \<Rightarrow> None)"

text \<open>\<open>_meter\<close>: the pool is asked for outside the handlers of the two writers. A token count that the integer
  column refuses costs the usage row, not the charge.\<close>

definition runtime_meter :: "'w platform \<Rightarrow> tenant \<Rightarrow> turn_usage \<Rightarrow> 'w \<Rightarrow> unit res \<times> 'w" where
  "runtime_meter P t u w =
     (case get_pg_pool P w of
        (Inl e, w1) \<Rightarrow> (Inl e, w1)
      | (Inr p, w1) \<Rightarrow>
          (Inr (), pz_put P
             (case usage_of_turn u of
                Some a \<Rightarrow> meter p t a (pz_now P w1) (pz_db P w1)
              | None \<Rightarrow> if tu_cost u > 0 then record_charge p t (tu_rung u) (tu_cost u) ''turn'' (pz_now P w1) (pz_db P w1)
                        else pz_db P w1) w1))"

definition usage_of_search :: "int \<Rightarrow> usage_args" where
  "usage_of_search lat =
     \<lparr>ua_route = ''search'', ua_rung = ''search'', ua_tokens_in = 0, ua_tokens_out = 0, ua_cache_outcome = ''miss'',
      ua_latency_ms = Some lat, ua_cost = 0, ua_provider = [], ua_model = [], ua_provider_cost = 0\<rparr>"

definition search_meter :: "'w platform \<Rightarrow> tenant \<Rightarrow> int \<Rightarrow> 'w \<Rightarrow> unit res \<times> 'w" where
  "search_meter P t lat w =
     (case get_pg_pool P w of
        (Inl e, w1) \<Rightarrow> (Inl e, w1)
      | (Inr p, w1) \<Rightarrow> (Inr (), pz_put P (meter p t (usage_of_search lat) (pz_now P w1) (pz_db P w1)) w1))"

text \<open>The registry's snapshot; the pool is asked for only when the snapshot is missing or older than 30 seconds.\<close>

definition runtime_snapshot :: "'w platform \<Rightarrow> 'w \<Rightarrow> snapshot \<times> 'w" where
  "runtime_snapshot P w =
     (case pz_reg P w of
        Some s \<Rightarrow>
          if pz_now P w - sn_loaded_at s < 30 then (s, w)
          else (let (r, w1) = get_pg_pool P w; (s', reg) = registry_snapshot 30 (pool_or_down r) (pz_now P w1) (pz_ai P w1) (Some s)
                in (s', pz_set_reg P reg w1))
      | None \<Rightarrow>
          (let (r, w1) = get_pg_pool P w; (s', reg) = registry_snapshot 30 (pool_or_down r) (pz_now P w1) (pz_ai P w1) None
           in (s', pz_set_reg P reg w1)))"

text \<open>\<open>_pricer\<close>: the configuration, then the price sheet of the model that answered.\<close>

definition runtime_pricer :: "'w platform \<Rightarrow> string \<Rightarrow> turn_result \<Rightarrow> 'w \<Rightarrow> (real \<times> real) res \<times> 'w" where
  "runtime_pricer P rung r w =
     (let (s, w1) = runtime_snapshot P w;
          (sheet, w2) = (if tr_provider r \<noteq> [] \<and> tr_model r \<noteq> []
             then (let (s2, w2) = runtime_snapshot P w1 in (price_for s2 (tr_provider r) (tr_model r), w2)) else (None, w1))
      in case (tr_tokens_in r, tr_tokens_out r) of
           (VInt i, VInt j) \<Rightarrow> (Inr (charge_for_turn rung (sn_pricing s) sheet i j), w2)
         | _ \<Rightarrow> (Inl (Exn ''TypeError''), w2))"

subsection \<open>The guard and the chain\<close>

text \<open>The wallet guard asks for the pool only when the limits in Redis are open and no balance is cached.\<close>

definition runtime_state :: "'w platform \<Rightarrow> tenant \<Rightarrow> 'w \<Rightarrow> budget_state \<times> 'w" where
  "runtime_state P t w =
     (if bs_local_only (budget_state (pz_redis P) (pz_default_cap P) t w) \<or> wallet_cached (pz_redis P) t w \<noteq> None
      then wallet_state (pz_redis P) (pz_default_cap P) 30 PgDown t (pz_db P w) w
      else (let (r, w1) = get_pg_pool P w
            in wallet_state (pz_redis P) (pz_default_cap P) 30 (pool_or_down r) t (pz_db P w1) w1))"

definition runtime_generate :: "'w platform \<Rightarrow> py_dict list \<Rightarrow> bool \<Rightarrow> int \<Rightarrow> 'w \<Rightarrow> llm_response res \<times> 'w" where
  "runtime_generate P messages prefer_local max_tokens w =
     (let (s, w1) = runtime_snapshot P w
      in dynamic_generate (pz_settings P) (pz_net P) ''chat'' s messages prefer_local max_tokens w1)"

definition runtime_router :: "'w platform \<Rightarrow> 'w router" where
  "runtime_router P =
     \<lparr>gr_l1 = Some (pz_redis P, 3600), gr_l2 = Some (pz_redis P, pz_threshold P, 500),
      gr_budget = Some (runtime_state P, budget_charge (pz_redis P)), gr_providers = Some (runtime_generate P),
      gr_meter = Some (runtime_meter P), gr_pricer = Some (runtime_pricer P)\<rparr>"

subsection \<open>Search, embedding and the assistant\<close>

definition search_service_of :: "'w platform \<Rightarrow> 'w search_service" where
  "search_service_of P =
     runtime_search (pz_es P) (pz_vendors P) (pz_sha P) (pz_redis P) (pz_settings P) (runtime_snapshot P) (search_meter P) (pz_search P)"

definition runtime_retrieve :: "'w platform \<Rightarrow> int \<Rightarrow> tenant \<Rightarrow> string \<Rightarrow> 'w \<Rightarrow> py_dict list res \<times> 'w" where
  "runtime_retrieve P lat t query w =
     (case search (search_service_of P) (pz_repr P) lat t query None None None w of
        (Inl e, w1) \<Rightarrow> (Inl e, w1)
      | (Inr r, w1) \<Rightarrow> (Inr (sr_results r), w1))"

definition runtime_embed :: "'w platform \<Rightarrow> string \<Rightarrow> 'w \<Rightarrow> real list option res \<times> 'w" where
  "runtime_embed P s w =
     (let (snap, w1) = runtime_snapshot P w in
      case embed_one (pz_vendors P) (pz_sha P) (pz_redis P) (pz_settings P) (embedding_chain (pz_settings P) snap) s w1 of
        (Inl _, w2) \<Rightarrow> (Inr None, w2)
      | (Inr v, w2) \<Rightarrow> (Inr (Some v), w2))"

definition runtime_assistant :: "'w platform \<Rightarrow> int \<Rightarrow> 'w rag" where
  "runtime_assistant P lat =
     \<lparr>ra_router = runtime_router P,
      ra_env = \<lparr>te_retrieve = Some (runtime_retrieve P lat), te_build = None, te_embed = Some (runtime_embed P), te_rule = None,
                te_sha = pz_sha P, te_unicode = pz_unicode P, te_repr = pz_repr P\<rparr>,
      ra_memory = Some (pz_redis P), ra_version = Some (current_data_version (pz_redis P))\<rparr>"

end
