(* ===== verification/RuntimeProps.thy ===== *)
theory RuntimeProps
  imports Runtime
begin

text \<open>
  What the wiring makes of the outages its parts are prepared for: with a pool that was once opened the assistant
  goes on as long as the index answers; with a pool that never was, it computes its answers and fails to deliver them.
\<close>

definition models_down :: "('w, 'z) network_scheme \<Rightarrow> bool" where
  "models_down net \<longleftrightarrow> (\<forall>rq w. isl (fst (nt_post net rq w)))"

definition pool_lost :: "'w platform \<Rightarrow> bool" where
  "pool_lost P \<longleftrightarrow> (\<forall>w. \<not> pz_up P w \<and> \<not> pz_opened P w)"

lemma get_pg_pool_lost: "pool_lost P \<Longrightarrow> get_pg_pool P w = (Inl (Exn ''ConnectionError''), w)"
  by (simp add: pool_lost_def get_pg_pool_def)

lemma get_pg_pool_opened: "\<forall>w. pz_opened P w \<Longrightarrow> \<exists>p. get_pg_pool P w = (Inr p, w)"
  by (simp add: get_pg_pool_def)

subsection \<open>A pool that was never opened\<close>

lemma finish_turn_unmetered:
  assumes "gr_meter G = Some M" "\<And>u w. isl (fst (M t u w))"
  shows "isl (fst (finish_turn G t r outcome store w))"
proof -
  obtain c p w1 where c: "turn_cost G (tr_rung r) r w = ((c, p), w1)" by (metis prod.collapse)
  have "isl (fst (record_turn G t (tr_rung r) r outcome w))"
    unfolding record_turn_def c Let_def split_conv assms(1) option.case by (rule assms(2))
  then show ?thesis by (auto simp: finish_turn_def isl_def split: prod.split)
qed

lemma escalate_unmetered:
  assumes "gr_meter G = Some M" "\<And>u w. isl (fst (M t u w))"
  shows "isl (fst (escalate G V t query dv qv mt lat w))"
  using finish_turn_unmetered [OF assms]
  unfolding escalate_def Let_def by (auto split: prod.split sum.split option.split)

lemma after_l1_unmetered:
  assumes "gr_meter G = Some M" "\<And>u w. isl (fst (M t u w))"
  shows "isl (fst (after_l1 G V t query dv mt lat w))"
  using finish_turn_unmetered [OF assms] escalate_unmetered [OF assms]
  unfolding after_l1_def Let_def by (auto split: prod.split sum.split option.split)

lemma answer_turn_unmetered:
  assumes "gr_meter G = Some M" "\<And>u w. isl (fst (M t u w))"
  shows "isl (fst (answer_turn G V t query dv mt lat w))"
  using finish_turn_unmetered [OF assms] after_l1_unmetered [OF assms]
  unfolding answer_turn_def by (auto split: sum.split option.split)

text \<open>When PostgreSQL did not answer at the first use of the pool and still does not, every question that passes the
  input guardrail ends in an exception - also one whose answer is in the cache: the meter asks for the pool outside
  the handlers that make metering best-effort.\<close>

theorem unopened_pool_silences_assistant:
  assumes "pool_lost P" and "passes_input_guardrail message"
  shows "isl (fst (rag_answer (runtime_assistant P lat) t session_id message lat w))"
proof -
  have "isl (fst (runtime_meter P t u w))" for u w
    by (simp add: runtime_meter_def get_pg_pool_lost [OF assms(1)])
  then have turn: "isl (fst (answer_turn (runtime_router P) V t message dv 512 lat w'))" for V dv w'
    by (intro answer_turn_unmetered [of _ "runtime_meter P"]) (simp_all add: runtime_router_def)
  let ?V = "(ra_env (runtime_assistant P lat))\<lparr>te_build := Some (build_messages (te_repr (ra_env (runtime_assistant P lat))))\<rparr>"
  let ?w = "remember_turn (runtime_assistant P lat) t session_id ''user'' (VStr message) w"
  obtain e w2 where e: "answer_turn (runtime_router P) ?V t message (current_data_version (pz_redis P) t ?w) 512 lat ?w = (Inl e, w2)"
    using turn by (metis isl_def prod.collapse)
  have "ra_router (runtime_assistant P lat) = runtime_router P" "ra_version (runtime_assistant P lat) = Some (current_data_version (pz_redis P))"
    by (simp_all add: runtime_assistant_def)
  then have "rag_answer (runtime_assistant P lat) t session_id message lat w = (Inl e, w2)"
    using assms(2) e by (simp add: rag_answer_def Let_def)
  then show ?thesis by simp
qed

text \<open>The public search shares the meter and its failure.\<close>

lemma unopened_pool_silences_search:
  assumes "pool_lost P"
  shows "isl (fst (search (search_service_of P) repr lat t text filters n rerank w))"
proof -
  have "isl (fst (finish_search (search_service_of P) t text lexical lat rs w))" for lexical rs w
    by (simp add: finish_search_def search_service_of_def runtime_search_def search_meter_def get_pg_pool_lost [OF assms] split: prod.split)
  then show ?thesis unfolding search_def Let_def by (auto split: prod.split sum.split option.split)
qed

subsection \<open>Everything but the index is down\<close>

lemma runtime_generate_down:
  assumes "models_down (pz_net P)"
  shows "isl (fst (runtime_generate P m pl mt w))"
proof -
  have "isl (fst (chat (pz_net P) c m model mt w))" for c model w
    using assms by (auto simp: models_down_def chat_def isl_def split: prod.split sum.split) (metis fst_conv sum.disc(2) isl_def)
  then have "isl (fst (call_endpoint (pz_net P) m mt e w))" for e w
    by (simp add: call_endpoint_def call_with_retry_def retry_loop_fails)
  then show ?thesis
    by (auto simp: runtime_generate_def dynamic_generate_def Let_def intro: chain_try_fails split: prod.split)
qed

text \<open>Only the index is left: no Redis, no model, no embedder; the pool was opened before PostgreSQL became unreachable
  (or did not). The index answers every query with the same well-formed hits.\<close>

definition only_index :: "'w platform \<Rightarrow> pyv \<Rightarrow> py_dict list \<Rightarrow> bool" where
  "only_index P resp rs \<longleftrightarrow> pz_redis P = None \<and> (\<forall>w. pz_opened P w) \<and> models_down (pz_net P) \<and> vendors_down (pz_vendors P) \<and>
     (\<forall>body w. fst (pz_es P body w) = Inr resp) \<and> bind_res (hits_of resp) (map_res hit_result) = Inr rs"

lemma only_indexD:
  assumes "only_index P resp rs"
  shows "pz_redis P = None" "\<forall>w. pz_opened P w" "models_down (pz_net P)" "vendors_down (pz_vendors P)"
    "fst (pz_es P body w) = Inr resp" "bind_res (hits_of resp) (map_res hit_result) = Inr rs"
  using assms unfolding only_index_def by blast+

lemma retrieve_degraded:
  assumes "only_index P resp rs" "t \<noteq> []"
  shows "\<exists>w1. runtime_retrieve P lat t query w = (Inr rs, w1)"
proof -
  have m: "fst (search_meter P t lat w) = Inr ()" for w
    using get_pg_pool_opened [OF only_indexD(2) [OF assms(1)], of w] by (auto simp: search_meter_def)
  obtain r w1 where r: "search (runtime_search (pz_es P) (pz_vendors P) (pz_sha P) None (pz_settings P) (runtime_snapshot P) (search_meter P) (pz_search P))
      (pz_repr P) lat t query None None None w = (Inr r, w1)" "sr_results r = rs"
    using degraded_search [OF only_indexD(4) [OF assms(1)] assms(2) _ only_indexD(6) [OF assms(1)],
        of "pz_es P" "search_meter P" lat "pz_sha P" "pz_settings P" "runtime_snapshot P" "pz_search P" "pz_repr P" query None None None w]
      only_indexD(5) [OF assms(1)] m by blast
  then show ?thesis by (simp add: runtime_retrieve_def search_service_of_def only_indexD(1) [OF assms(1)])
qed

lemma embed_degraded:
  assumes "only_index P resp rs"
  shows "\<exists>w1. runtime_embed P q w = (Inr None, w1)"
proof -
  obtain s w1 where s: "runtime_snapshot P w = (s, w1)" by (cases "runtime_snapshot P w")
  obtain e w2 where "embed_one (pz_vendors P) (pz_sha P) (None :: 'a redis option) (pz_settings P) (embedding_chain (pz_settings P) s) q w1 = (Inl e, w2)"
    using embed_down [OF only_indexD(4) [OF assms]] by (metis isl_def prod.collapse)
  then show ?thesis by (simp add: runtime_embed_def s only_indexD(1) [OF assms])
qed

lemma metered:
  assumes "only_index P resp rs"
  shows "\<exists>w'. finish_turn (runtime_router P) t r outcome store w = (Inr r, w')"
proof (rule finish_turn_answers)
  fix M u w assume "gr_meter (runtime_router P) = Some M"
  then have "M = runtime_meter P" by (simp add: runtime_router_def)
  then show "\<exists>w'. M t u w = (Inr (), w')"
    using get_pg_pool_opened [OF only_indexD(2) [OF assms], of w] by (auto simp: runtime_meter_def)
qed

definition index_answer :: "'w platform \<Rightarrow> py_dict list \<Rightarrow> turn_result \<Rightarrow> bool" where
  "index_answer P rs r \<longleftrightarrow> tr_answer r = VStr (search_answer (pz_repr P) rs) \<and> tr_rung r = SEARCH \<and> tr_citations r = citations_of rs \<and> \<not> tr_cached r"

lemma escalate_degraded:
  assumes "only_index P resp rs" "t \<noteq> []"
    and "te_retrieve V = Some (runtime_retrieve P lat)" "te_repr V = pz_repr P"
  shows "\<exists>r w'. escalate (runtime_router P) V t query dv qv mt lat w = (Inr r, w') \<and> index_answer P rs r"
proof -
  let ?G = "runtime_router P" and ?tier = "classify (te_unicode V) query"
  obtain b w1 where b: "(case gr_budget ?G of None \<Rightarrow> (False, w)
      | Some (state, _) \<Rightarrow> (case state t w of (b, w') \<Rightarrow> (bs_local_only b, w'))) = (b, w1)" by fastforce
  obtain w2 where d: "runtime_retrieve P lat t query w1 = (Inr rs, w2)" using retrieve_degraded [OF assms(1,2)] by blast
  let ?s = "plain_result (VStr (search_answer (te_repr V) rs)) SEARCH (Some SearchTier) (citations_of rs) lat"
  have ok: "index_answer P rs ?s" "index_answer P rs (?s\<lparr>tr_tier := Some ?tier\<rparr>)"
    by (simp_all add: index_answer_def plain_result_def assms(4))
  have m: "\<exists>r'. (\<exists>w'. finish_turn ?G t r outcome store w = (Inr r', w')) \<and> index_answer P rs r'" if "index_answer P rs r" for r outcome store w
    using metered [OF assms(1)] that by blast
  obtain f where f: "gr_providers ?G = Some f" "f = runtime_generate P" by (simp add: runtime_router_def)
  show ?thesis
  proof (cases "if ?tier = SearchTier then None else te_build V")
    case None
    then show ?thesis unfolding escalate_def b split_conv Let_def assms(3) option.case d sum.case f(1)
      by (simp add: m [OF ok(1)])
  next
    case (Some build)
    obtain e w3 where "runtime_generate P (build query rs) (b \<or> ?tier = SynthesisTier) mt w2 = (Inl e, w3)"
      using runtime_generate_down [OF only_indexD(3) [OF assms(1)]] by (metis isl_def prod.collapse)
    then show ?thesis unfolding escalate_def b split_conv Let_def assms(3) option.case d sum.case f Some prod.case
      by (simp add: m [OF ok(2)])
  qed
qed


subsection \<open>A platform\<close>

definition demo_platform :: "bool \<Rightarrow> unit platform" where
  "demo_platform opened =
     \<lparr>pz_redis = None, pz_up = (\<lambda>_. False), pz_opened = (\<lambda>_. opened), pz_open = id, pz_db = (\<lambda>_. empty_db), pz_put = (\<lambda>_ w. w),
      pz_ai = (\<lambda>_. \<lparr>ai_providers = [], ai_models = [], ai_routes = [], pricing_settings = None, failover_setting = None\<rparr>), pz_reg = (\<lambda>_. None), pz_set_reg = (\<lambda>_ w. w),
      pz_net = \<lparr>nt_post = (\<lambda>rq w. (Inl ConnectErr, w)), nt_sleep = (\<lambda>d w. w)\<rparr>, pz_vendors = down_net,
      pz_es = (\<lambda>b w. (Inr demo_hits, w)), pz_now = (\<lambda>_. 0), pz_sha = (\<lambda>s. s), pz_unicode = ascii_unicode, pz_repr = (\<lambda>_. []),
      pz_settings = demo_settings, pz_search = demo_search_cfg, pz_threshold = 9 / 10, pz_default_cap = 1000\<rparr>"

lemma demo_only_index: "only_index (demo_platform True) demo_hits [[(''title'', VStr ''a''), (''score'', VInt 2)]]"
  by (simp add: only_index_def demo_platform_def models_down_def vendors_down_def down_net_def
      hits_of_def demo_hits_def py_item_def py_iter_def hit_result_def hit_source_def dict_get_def)

lemma shoes_pass: "passes_input_guardrail ''shoes''"
  by (simp add: passes_input_guardrail_def py_strip_def is_space_def py_len_def is_cont_byte_def Let_def)


theorem unopened_pool_silences_assistant_witness:
  "\<exists>e. fst (rag_answer (runtime_assistant (demo_platform False) 3) ''t'' ''s'' ''shoes'' 3 ()) = Inl e"
proof -
  have "passes_input_guardrail ''shoes''" by (rule shoes_pass)
  moreover have "pool_lost (demo_platform False)" by (simp add: pool_lost_def demo_platform_def)
  ultimately show ?thesis using unopened_pool_silences_assistant [of "demo_platform False"] by (simp add: isl_def)
qed

end
