(* ===== verification/Tasks.thy ===== *)
theory Tasks
  imports Runtime Documents BillingProps
begin

text \<open>
  The scheduled jobs and the embedding helpers of the worker (\<open>services/worker/tasks.py\<close>). The worker's process has a
  pool and a registry of its own, again a platform; \<open>money\<close> prints an amount with two decimals and \<open>smtp\<close> is the
  SMTP session. A job that raises ends as a failed task.
\<close>

definition process_renewals_task :: "'w platform \<Rightarrow> string \<Rightarrow> 'w \<Rightarrow> (nat \<times> nat) res \<times> 'w" where
  "process_renewals_task P trial_plan w =
     (case get_pg_pool P w of
        (Inl e, w1) \<Rightarrow> (Inl e, w1)
      | (Inr p, w1) \<Rightarrow> (let (r, d) = process_renewals p trial_plan (pz_now P w1) (pz_db P w1) in (r, pz_put P d w1)))"

definition dunning_of :: "(real \<Rightarrow> string) \<Rightarrow> dunning_row \<Rightarrow> message" where
  "dunning_of money row =
     dunning_email money (if the_or [] (dn_plan row) = [] then ''your plan'' else the (dn_plan row)) (dn_amount row)
       (if the_or [] (dn_currency row) = [] then ''USD'' else the (dn_currency row))"

definition reachable_row :: "dunning_row \<Rightarrow> bool" where
  "reachable_row row \<longleftrightarrow> the_or [] (dn_email row) \<noteq> []"

text \<open>Each reminder counts as sent, whatever \<open>send_email\<close> returns.\<close>

fun remind :: "mail_cfg \<Rightarrow> (string \<times> string \<times> message \<Rightarrow> 'w \<Rightarrow> unit res \<times> 'w) \<Rightarrow> (real \<Rightarrow> string) \<Rightarrow> dunning_row list \<Rightarrow> 'w \<Rightarrow> nat \<times> 'w" where
  "remind cfg smtp money [] w = (0, w)"
| "remind cfg smtp money (row # rows) w =
     (if reachable_row row then
        (let (_, w1) = send_email cfg smtp (the (dn_email row)) (dunning_of money row) w;
             (n, w2) = remind cfg smtp money rows w1
         in (Suc n, w2))
      else remind cfg smtp money rows w)"

definition run_dunning_task ::
  "'w platform \<Rightarrow> (tenant \<Rightarrow> string list) \<Rightarrow> mail_cfg \<Rightarrow> (string \<times> string \<times> message \<Rightarrow> 'w \<Rightarrow> unit res \<times> 'w) \<Rightarrow> (real \<Rightarrow> string) \<Rightarrow> 'w \<Rightarrow> nat res \<times> 'w" where
  "run_dunning_task P owners cfg smtp money w =
     (case get_pg_pool P w of
        (Inl e, w1) \<Rightarrow> (Inl e, w1)
      | (Inr p, w1) \<Rightarrow>
          (case list_past_due p owners (pz_db P w1) of
             Inl e \<Rightarrow> (Inl e, w1)
           | Inr due \<Rightarrow> (let (n, w2) = remind cfg smtp money due w1 in (Inr n, w2))))"

definition worker_embed_text :: "'w platform \<Rightarrow> string \<Rightarrow> 'w \<Rightarrow> real list option \<times> 'w" where
  "worker_embed_text P s w =
     (let (snap, w1) = runtime_snapshot P w in
      case embed_one (pz_vendors P) (pz_sha P) (pz_redis P) (pz_settings P) (embedding_chain (pz_settings P) snap) s w1 of
        (Inl _, w2) \<Rightarrow> (None, w2)
      | (Inr v, w2) \<Rightarrow> (Some v, w2))"

definition batch_embed :: "'w platform \<Rightarrow> string list \<Rightarrow> 'w \<Rightarrow> nat res \<times> 'w" where
  "batch_embed P texts w =
     (let (snap, w1) = (if texts = [] then (empty_snapshot 0, w) else runtime_snapshot P w) in
      case chain_embed (pz_vendors P) (pz_settings P) (embedding_chain (pz_settings P) snap) texts w1 of
        (Inl e, w2) \<Rightarrow> (Inl e, w2)
      | (Inr vs, w2) \<Rightarrow> (Inr (length vs), w2))"

subsection \<open>Dunning\<close>

lemma remind_counts: "fst (remind cfg smtp money rows w) = length (filter reachable_row rows)"
  by (induction rows arbitrary: w) (auto simp: split_def)

text \<open>A session that takes every message.\<close>

definition mailbox :: "string \<times> string \<times> message \<Rightarrow> (string \<times> message) list \<Rightarrow> unit res \<times> (string \<times> message) list" where
  "mailbox m w = (Inr (), w @ [(fst (snd m), snd (snd m))])"

lemma dunning_subject: "header_ok (ms_subject (dunning_email money plan amount currency))"
  by (simp add: dunning_email_def header_ok_def brand_def)

lemma remind_mailbox:
  assumes "mc_provider cfg = ''smtp''" "mc_smtp_host cfg \<noteq> []" "header_ok (mc_from cfg)"
    and "list_all (\<lambda>r. header_ok (the_or [] (dn_email r))) rows"
  shows "snd (remind cfg mailbox money rows w) =
    w @ map (\<lambda>r. (the (dn_email r), dunning_of money r)) (filter reachable_row rows)"
  using assms(4)
proof (induction rows arbitrary: w)
  case (Cons row rows)
  show ?case
  proof (cases "reachable_row row")
    case True
    then obtain e where e: "dn_email row = Some e" "e \<noteq> []" by (cases "dn_email row") (auto simp: reachable_row_def)
    have "snd (send_email cfg mailbox e (dunning_of money row) w) = w @ [(e, dunning_of money row)]"
      using assms(1-3) Cons.prems e dunning_subject
      by (simp add: send_email_def build_message_def mailbox_def dunning_of_def)
    with Cons True e show ?thesis by (simp add: split_def)
  qed (use Cons in simp)
qed simp

text \<open>The nightly reminder writes to exactly the owners of the stores in arrears, in the order of the table, each in the
  name, the amount and the currency of its plan; and it reports as many reminders even when none could be delivered.\<close>

theorem dunning_reaches_owners:
  assumes "mc_provider cfg = ''smtp''" and "mc_smtp_host cfg \<noteq> []" and "header_ok (mc_from cfg)"
    and "get_pg_pool P w = (Inr PgUp, w)" and "list_past_due PgUp owners (pz_db P w) = Inr due"
    and "list_all (\<lambda>r. header_ok (the_or [] (dn_email r))) due"
  shows "run_dunning_task P owners cfg mailbox money w =
      (Inr (length (filter reachable_row due)), w @ map (\<lambda>r. (the (dn_email r), dunning_of money r)) (filter reachable_row due)) \<and>
    (\<forall>smtp. fst (run_dunning_task P owners cfg smtp money w) = Inr (length (filter reachable_row due)))"
proof -
  have "run_dunning_task P owners cfg smtp money w =
      (Inr (length (filter reachable_row due)), snd (remind cfg smtp money due w))" for smtp
    by (simp add: run_dunning_task_def assms(4,5) split_def remind_counts)
  then show ?thesis by (simp add: remind_mailbox [OF assms(1-3,6)])
qed

end
