(* ===== verification/QueryCheck.thy ===== *)
theory QueryCheck
  imports Search
begin

text \<open>
  The checker that goes with the query builder (\<open>query_has_tenant_filter\<close> in \<open>packages/acip_search/query.py\<close>): it walks a
  request and compares the legs it meets with those that carry the tenant's term. It accepts every query of the
  builder, unless the caller's filters bring legs of their own.
\<close>

text \<open>\<open>term in clauses\<close>: membership in a list; a dictionary is not hashable and not a text.\<close>

definition term_in :: "pyv \<Rightarrow> pyv \<Rightarrow> bool res" where
  "term_in c clauses = (case clauses of VList vs \<Rightarrow> Inr (c \<in> set vs) | _ \<Rightarrow> Inl (Exn ''TypeError''))"

definition get_filter :: "pyv \<Rightarrow> pyv res" where
  "get_filter v = (case v of VDict d \<Rightarrow> Inr (dict_get_or d ''filter'' (VList [])) | _ \<Rightarrow> Inl (Exn ''AttributeError''))"

text \<open>Found and filtered legs of one dictionary.\<close>

definition leg_count :: "tenant \<Rightarrow> pyv res \<Rightarrow> (nat \<times> nat) res" where
  "leg_count t clauses = bind_res clauses (\<lambda>cs. bind_res (term_in (tenant_term t) cs) (\<lambda>b. Inr (1, if b then 1 else 0)))"

definition standard_clauses :: "pyv \<Rightarrow> pyv res" where
  "standard_clauses v = bind_res (py_item ''query'' v) (\<lambda>q. bind_res (py_item ''bool'' q) get_filter)"

definition add_legs :: "(nat \<times> nat) res \<Rightarrow> (nat \<times> nat) res \<Rightarrow> (nat \<times> nat) res" where
  "add_legs a b = bind_res a (\<lambda>(i, j). bind_res b (\<lambda>(k, l). Inr (i + k, j + l)))"

definition own_legs :: "tenant \<Rightarrow> py_dict \<Rightarrow> (nat \<times> nat) res" where
  "own_legs t d =
     add_legs (case map_of d ''standard'' of None \<Rightarrow> Inr (0, 0) | Some v \<Rightarrow> leg_count t (standard_clauses v))
       (case map_of d ''knn'' of None \<Rightarrow> Inr (0, 0) | Some v \<Rightarrow> leg_count t (get_filter v))"

fun walk :: "tenant \<Rightarrow> pyv \<Rightarrow> (nat \<times> nat) res" and walk_values :: "tenant \<Rightarrow> pyv list \<Rightarrow> (nat \<times> nat) res"
  and walk_entries :: "tenant \<Rightarrow> (string \<times> pyv) list \<Rightarrow> (nat \<times> nat) res" where
  "walk t (VDict d) = add_legs (own_legs t d) (walk_entries t d)"
| "walk t (VList vs) = walk_values t vs"
| "walk t _ = Inr (0, 0)"
| "walk_values t [] = Inr (0, 0)"
| "walk_values t (v # vs) = add_legs (walk t v) (walk_values t vs)"
| "walk_entries t [] = Inr (0, 0)"
| "walk_entries t ((k, v) # d) = add_legs (walk t v) (walk_entries t d)"

definition query_has_tenant_filter :: "py_dict \<Rightarrow> tenant \<Rightarrow> bool res" where
  "query_has_tenant_filter body t = bind_res (walk t (VDict body)) (\<lambda>(found, filtered). Inr (found > 0 \<and> found = filtered))"

subsection \<open>The builder passes the check\<close>

text \<open>No dictionary inside has a key that the checker takes for a leg.\<close>

fun legless :: "pyv \<Rightarrow> bool" and legless_values :: "pyv list \<Rightarrow> bool" and legless_entries :: "(string \<times> pyv) list \<Rightarrow> bool" where
  "legless (VDict d) = (''standard'' \<notin> fst ` set d \<and> ''knn'' \<notin> fst ` set d \<and> legless_entries d)"
| "legless (VList vs) = legless_values vs"
| "legless _ = True"
| "legless_values [] = True"
| "legless_values (v # vs) = (legless v \<and> legless_values vs)"
| "legless_entries [] = True"
| "legless_entries ((k, v) # d) = (legless v \<and> legless_entries d)"

lemma add_legs_zero [simp]: "add_legs (Inr (0, 0)) a = a" "add_legs a (Inr (0, 0)) = a"
  by (cases a; auto simp: add_legs_def)+

lemma add_legs_Inr [simp]: "add_legs (Inr (i, j)) (Inr (k, l)) = Inr (i + k, j + l)"
  by (simp add: add_legs_def)

lemma no_own_legs: "''standard'' \<notin> fst ` set d \<Longrightarrow> ''knn'' \<notin> fst ` set d \<Longrightarrow> own_legs t d = Inr (0, 0)"
  unfolding map_of_eq_None_iff [symmetric] by (simp add: own_legs_def)

lemma walk_legless:
  "legless v \<Longrightarrow> walk t v = Inr (0, 0)"
  "legless_values vs \<Longrightarrow> walk_values t vs = Inr (0, 0)"
  "legless_entries d \<Longrightarrow> walk_entries t d = Inr (0, 0)"
  by (induction v and vs and d rule: legless_legless_values_legless_entries.induct) (simp_all add: no_own_legs)

lemma legless_values_all: "legless_values vs \<longleftrightarrow> list_all legless vs"
  by (induction vs) simp_all

lemma legless_entries_all: "legless_entries d \<longleftrightarrow> list_all (legless \<circ> snd) d"
proof (induction d)
  case (Cons e d)
  then show ?case by (cases e) simp
qed simp

lemma legless_get: "legless (VDict d) \<Longrightarrow> legless (dict_get d k)"
  by (cases "map_of d k") (auto simp: dict_get_def legless_entries_all list_all_iff dest!: map_of_SomeD)

lemma clauses_legless:
  assumes "legless (VDict (the_or [] filters))"
  shows "legless_values (normalise_filters t filters)"
proof -
  let ?f = "the_or [] filters"
  note g = legless_get [OF assms]
  have range: "legless_values (price_range (dict_get ?f ''price''))"
  proof (cases "dict_get ?f ''price''")
    case (VDict d)
    then have "legless (dict_get d k)" for k using g [of "''price''"] legless_get by metis
    then show ?thesis by (auto simp: VDict price_range_def legless_entries_all)
  qed (simp_all add: price_range_def)
  have "legless (case dict_get ?f ''categories'' of VList _ \<Rightarrow> dict_get ?f ''categories'' | _ \<Rightarrow> VList [dict_get ?f ''categories''])"
    using g [of "''categories''"] by (cases "dict_get ?f ''categories''") simp_all
  with range g show ?thesis
    by (simp add: normalise_filters_def Let_def legless_values_all tenant_term_def)
qed

lemma leg_count_tenant: "tenant_term t \<in> set cs \<Longrightarrow> leg_count t (Inr (VList cs)) = Inr (1, 1)"
  by (simp add: leg_count_def term_in_def)

lemma walk_legs:
  assumes "tenant_term t \<in> set cs" "legless_values cs"
  shows "walk t (bm25_leg q cs) = Inr (1, 1)" "walk t (knn_leg c v cs) = Inr (1, 1)"
proof -
  have "legless_values (map VNum v)" by (simp add: legless_values_all list_all_iff)
  then show "walk t (knn_leg c v cs) = Inr (1, 1)"
    using walk_legless(2) assms(2) leg_count_tenant [OF assms(1)]
    by (simp add: knn_leg_def own_legs_def get_filter_def dict_get_or_def)
  show "walk t (bm25_leg q cs) = Inr (1, 1)"
    using walk_legless(2) assms(2) leg_count_tenant [OF assms(1)]
    by (simp add: bm25_leg_def own_legs_def standard_clauses_def get_filter_def dict_get_or_def py_item_def search_fields_def)
qed

text \<open>The builder and its checker agree: every query that is built carries the tenant's term on every leg, as the
  checker reads it, whatever the text, the vector and the reranking are and whatever filters without legs of their
  own the caller sends.\<close>

theorem built_queries_pass_check:
  assumes "build_hybrid_query c t q vector filters n rerank = Inr body" and "legless (VDict (the_or [] filters))"
  shows "query_has_tenant_filter body t = Inr True"
proof -
  let ?cs = "normalise_filters t filters"
  let ?legs = "bm25_leg q ?cs # (case vector of None \<Rightarrow> [] | Some v \<Rightarrow> [knn_leg c v ?cs])"
  note w = walk_legs [OF tenant_term_in clauses_legless [OF assms(2)]]
  have f: "\<exists>k. walk t (fused_legs c ?legs) = Inr (Suc k, Suc k)"
    by (cases vector) (simp_all add: fused_legs_def w own_legs_def)
  then obtain k where k: "walk t (fused_legs c ?legs) = Inr (Suc k, Suc k)" ..
  then have r: "walk t (if rerank then reranked c q (fused_legs c ?legs) else fused_legs c ?legs) = Inr (Suc k, Suc k)"
    by (simp add: reranked_def own_legs_def)
  have s: "walk_values t (map VStr search_source) = Inr (0, 0)"
    by (rule walk_legless) (simp add: legless_values_all list_all_iff)
  have body: "body = [(''retriever'', if rerank then reranked c q (fused_legs c ?legs) else fused_legs c ?legs), (''size'', VInt n),
      (''_source'', VList (map VStr search_source))]"
    using assms(1) by (simp add: build_hybrid_query_def Let_def split: if_splits)
  show ?thesis unfolding body query_has_tenant_filter_def walk.simps walk_entries.simps r s
    by (simp add: own_legs_def)
qed

text \<open>A filter value with a leg of its own makes the checker reject a query whose legs all carry the term.\<close>

lemma nested_leg_fools_check:
  "query_has_tenant_filter [(''retriever'', bm25_leg ''q'' [tenant_term ''t'', VDict [(''term'', VDict [(''brand'',
     VDict [(''knn'', VDict [])])])]])] ''t'' = Inr False"
  by (simp add: query_has_tenant_filter_def bm25_leg_def own_legs_def leg_count_def standard_clauses_def get_filter_def
      dict_get_or_def py_item_def search_fields_def term_in_def tenant_term_def)

theorem built_queries_pass_check_witness:
  "\<exists>body. build_hybrid_query demo_search_cfg ''t'' ''q'' (Some [1]) (Some [(''brand'', VStr ''b'')]) 5 True = Inr body \<and>
    query_has_tenant_filter body ''t'' = Inr True"
proof -
  obtain body where b: "build_hybrid_query demo_search_cfg ''t'' ''q'' (Some [1]) (Some [(''brand'', VStr ''b'')]) 5 True = Inr body"
    by (simp add: build_hybrid_query_def Let_def)
  show ?thesis using built_queries_pass_check [OF b] b by simp
qed

end
