(* ===== verification/Spec2Isabelle.thy ===== *)
theory Spec2Isabelle
  imports Resilience Tools Ledger Budget Billing AdminAuth Assistant Overview V1Props AiGateway Governance AuditLog IndexProps InsightProps MiddlewareProps OpsProps EvalProps DocProps PilotProps SeedProps RuntimeProps Tasks QueryCheck
begin

text \<open>
  \<^bold>\<open>A verification library of the AI widget platform.\<close> The program is a multi-tenant service: a store's
  site embeds a chat and search widget; shoppers' questions are answered from caches, from the catalogue
  or by a language model; every turn is priced, charged to the store's credit ledger and limited by a
  budget guard; stores buy plans and credits; a worker keeps the catalogue index in step with the store;
  operators run the platform. The Python code under \<open>src/packages\<close> (domain logic) and
  \<open>src/services\<close> (HTTP API and worker) is modelled; this header says where.

  \<^bold>\<open>Conventions.\<close>
  \<^item> A \<open>str\<close> is the list of its UTF-8 bytes, lower-casing and stripping act on ASCII; a \<open>float\<close> is a
    \<open>real\<close> (rounding error is not modelled), an \<open>int\<close> is an \<open>int\<close>; JSON and request bodies are
    \<open>PyVal.pyv\<close> with dictionaries as association lists in insertion order. SQL \<open>NUMERIC(p,s)\<close> columns
    round half away from zero (\<open>Db.pg_numeric\<close>).
  \<^item> A raise is \<open>Inl\<close> of an \<open>exn\<close>; an endpoint answers \<open>Ok\<close> or \<open>Err status code\<close>, so every guard,
    early return and error envelope of a handler is a branch of its definition.
  \<^item> PostgreSQL is modelled from the SQL text of the sources: a table is a list of records, a statement
    an update of the list, and the pool is \<open>NoPool\<close>, \<open>PgDown\<close> or \<open>PgUp\<close>, which gives the fallback paths.
    Identifiers are canonical text. Interleavings of requests are modelled where a property depends on
    them, by splitting a handler at its statements (payments, refresh, suspension of operators).
  \<^item> What is outside \<open>src/\<close> is a parameter, with what the code relies on as a named predicate and an
    instance that satisfies it: Redis (\<open>redis_kv\<close>, \<open>redis_counter\<close>, \<open>redis_list\<close>; \<open>mem_redis\<close>),
    Elasticsearch writes (\<open>es_versioned\<close>, \<open>es_up\<close>; \<open>mem_es\<close>), Celery's retry (\<open>celery_retry\<close>), the payment
    provider, HMAC, SHA-256 and PBKDF2 with their encodings, the chat and embedding endpoints, the
    stores' HTTP, the clock and the random identifiers (a record of fresh values per request).
  \<^item> Loops are structural recursion, or a bounded counter as in the code (retries); the paging loops of
    the pull clients, which the server's answers end, are \<open>partial_function (option)\<close> and
    \<open>woo_pull_complete\<close> and \<open>opencart_pages_from\<close> prove that they end for a server that pages as documented.

  \<^bold>\<open>Parts, theories and what their lemmas show.\<close>
  \<^enum> \<open>Prelude\<close>, \<open>PyVal\<close>, \<open>Redis\<close>, \<open>Db\<close>: values, results, list updates, the services and the tables. The
    locales \<open>invariant_machine\<close>, \<open>monotone_machine\<close>, \<open>framed_machine\<close> and \<open>isolated_machine\<close> are the
    interfaces of a component seen as a machine of operations (an invariant that each operation keeps, a
    quantity that only grows, a view of one tenant that others' operations frame); each component's
    operations interpret them.
  \<^enum> \<open>Resilience\<close> (\<open>acip_core/resilience.py\<close>, \<open>ratelimit.py\<close>, \<open>health.py\<close>): the circuit breaker
    refines a specification over its history; the fixed window admits exactly the limit.
  \<^enum> \<open>Pricing\<close>, \<open>Ledger\<close>, \<open>Budget\<close> (\<open>acip_billing/pricing.py\<close>, \<open>ledger.py\<close>, \<open>wallet.py\<close>,
    \<open>acip_cache/metering.py\<close>, \<open>acip_gateway/budget.py\<close>): a charged turn never sells below its cost, the ledger
    is append-only and isolated by tenant, the balance is what was granted minus what was used.
  \<^enum> \<open>Subscription\<close>, \<open>BillingProps\<close>, \<open>Billing\<close> (\<open>acip_billing/subscription.py\<close>, \<open>psp.py\<close>, the \<open>billing*\<close>
    routers and \<open>admin_billing_ops.py\<close>): orders, proration, plan activation, payment by callback, webhook
    and operator; paying twice grants once in sequence, and twice when interleaved; at most one invoice per
    order, keys of the tables stay valid.
  \<^enum> \<open>Tokens\<close>, \<open>Identity\<close>, \<open>AuthDb\<close>, \<open>Sessions\<close>, \<open>AdminAuth\<close> (\<open>acip_auth\<close>, the \<open>auth*\<close>, \<open>admin_auth*\<close> and
    \<open>admin_operators\<close> routers): claims that decode are claims that were signed, a refresh token, a reset
    link and a one-time code each work once, an active administrator always remains (in sequence).
  \<^enum> \<open>Failover\<close>, \<open>Cache\<close>, \<open>Router\<close>, \<open>Assistant\<close> (\<open>acip_gateway\<close>, \<open>acip_cache\<close>, \<open>acip_assistant\<close>): retries,
    chains that end with a local endpoint, exact and semantic answer caches, the turn (classification,
    caches, catalogue, generation, metering) and the assistant's pipeline with its guardrails and memory;
    a closed budget keeps the turn local, every turn answers.
  \<^enum> \<open>Tools\<close> (\<open>acip_assistant/tools.py\<close>): a tool that moves money runs only when enabled and confirmed.
  \<^enum> \<open>Stores\<close>, \<open>Team\<close>, \<open>Dashboard\<close>, \<open>Widget\<close>, \<open>Isolation\<close> (\<open>deps.py\<close>, the \<open>tenant_*\<close> routers, \<open>widget.py\<close>):
    API keys and their guard, teams, settings, leads, knowledge base, sync requests; no request of one
    store changes what another store owns, a revoked key stays dead.
  \<^enum> \<open>TenantAdmin\<close>, \<open>Overview\<close> (\<open>admin.py\<close>, \<open>admin_tenant_ops.py\<close>, \<open>admin_plans.py\<close>, \<open>admin_users.py\<close>,
    \<open>admin_contact.py\<close>, \<open>admin_credit_policy.py\<close>): provisioning, plans, the overview and its daily series.
  \<^enum> \<open>Normalize\<close>, \<open>Orders\<close>, \<open>Ingest\<close>, \<open>Worker\<close>, \<open>SyncProps\<close> (\<open>acip_sync\<close>, \<open>services/worker/tasks.py\<close>): payloads
    and canonical documents, guarded index writes, pull clients, reconciliation, tasks; deliveries
    converge in any order and repetition, a pull is complete, a reconciliation repairs what it pulled.

  \<^enum> \<open>Embedding\<close>, \<open>Search\<close>, \<open>V1\<close>, \<open>V1Props\<close> (\<open>acip_gateway/embedding_endpoints.py\<close>, \<open>acip_search\<close>, \<open>v1.py\<close>): the
    embedding chain and its cache, the hybrid query and its degraded forms, lead capture and the eight
    public endpoints; a search only returns documents of the key's store, every endpoint needs a live key
    of its scope, and a sync event stays in the store of the key that sent it.
  \<^enum> \<open>Aggregate\<close>, \<open>AiAdmin\<close>, \<open>AiModels\<close>, \<open>AiDiscovery\<close>, \<open>AiProps\<close>, \<open>AiGateway\<close> (the \<open>admin_ai_*\<close> routers,
    \<open>provider_templates.py\<close>, \<open>provider_credit.py\<close>): vendors, models, routing chains, pricing and the profit view. Each
    handler is a sequence of the writes of the step relation \<open>cat_write\<close>; keys and references stay valid, chains
    stay well-typed unless a model is retyped, a stored chain is the one the next turn reads, every model has
    its own price.
  \<^enum> \<open>Governance\<close>, \<open>AuditLog\<close> (\<open>admin_governance.py\<close>, \<open>self_erase\<close> of \<open>tenant_governance.py\<close>, \<open>admin_audit.py\<close>): erasure
    removes what it names and nothing of another tenant, yet lets cached answers return; the pages of the
    audit log cover it.
  \<^enum> \<open>IndexMapping\<close>, \<open>IndexAdmin\<close>, \<open>IndexProps\<close> (\<open>analyzer.py\<close>, \<open>mapping.py\<close>, \<open>order_mapping.py\<close>, \<open>index_admin.py\<close>,
    \<open>orders_index.py\<close>, \<open>admin_es.py\<close>): the schema, and that the documents written fit it; the life cycle of the
    indices: a reindex can be rolled back, creation is idempotent, a live index is not deleted.
  \<^enum> \<open>Insight\<close>, \<open>SearchConsole\<close>, \<open>InsightProps\<close> (\<open>packages/acip_analytics\<close>, \<open>tenant_search.py\<close>,
    \<open>admin_search_insight.py\<close>): aggregations, attribution, the insight engine and the analyst, and the dashboards
    over them; a store's figures depend on its own data only, need the database and never Elasticsearch.
  \<^enum> \<open>Metrics\<close>, \<open>Middleware\<close>, \<open>MiddlewareProps\<close> (\<open>acip_core/obs.py\<close>, \<open>middleware.py\<close>): the metrics registry and the layers
    around every request; a forged request reaches no handler, the operators' routes are closed to other hosts, and
    the caller gets the trace id of its request.
  \<^enum> \<open>OpsStatus\<close>, \<open>Monitoring\<close>, \<open>OpsProps\<close> (\<open>admin_ops_status.py\<close>, \<open>admin_security.py\<close>, \<open>admin_misc.py\<close>,
    \<open>admin_monitoring.py\<close>, \<open>health.py\<close>): status pages, flags, unlocking, widget defaults and usage views; an unlocked
    account can sign in, the defaults of the platform reach the stores, the page and the export agree.
  \<^enum> \<open>Evaluation\<close>, \<open>EvalProps\<close> (\<open>eval/metrics.py\<close>, \<open>run_eval.py\<close>, \<open>groundedness.py\<close>, \<open>es_provider.py\<close>): the ranking
    metrics and the two runs that gate a release; every score lies between 0 and 1.
  \<^enum> \<open>Documents\<close>, \<open>Invoices\<close>, \<open>DocProps\<close> (\<open>acip_notify\<close>, \<open>billing_invoices.py\<close>, \<open>invoice_pdf.py\<close>): e-mail texts and
    their delivery, the invoice as page and PDF, plan catalogues; nothing a store types becomes markup of its
    invoice, while two of the e-mails carry it.
  \<^enum> \<open>Pilot\<close>, \<open>PilotProps\<close> (\<open>scripts/pilot_store.py\<close>): a store behind both interfaces the worker pulls from; the two
    pulls end, skip nothing and yield the same products.
  \<^enum> \<open>Seeding\<close>, \<open>SeedProps\<close> (\<open>scripts/seed_catalog.py\<close>): after a seed exactly its two keys are live; the dry run decides
    whether the fixture can be written; a run that fails has retired the keys in use.
  \<^enum> \<open>Runtime\<close>, \<open>RuntimeProps\<close> (\<open>services/api/runtime.py\<close>, \<open>clients/postgres.py\<close>): the router, the search service, the
    memory and the meters wired together over one world; with only the index left a question is still answered,
    but with a pool that never opened none is.
  \<^enum> \<open>Tasks\<close>, \<open>QueryCheck\<close> (\<open>services/worker/tasks.py\<close>, \<open>query_has_tenant_filter\<close> of \<open>acip_search/query.py\<close>): the
    scheduled billing jobs; the checker of queries accepts what the builder builds.

  \<^bold>\<open>Where the code falls short.\<close> Several properties state what the code does against what it promises: a
  payment interleaved with another grants twice, two refreshes fork a session, two suspensions lock out
  the platform, a rejected answer is replayed from the cache, the semantic cache survives an invalidation,
  an invited teammate cannot sign in, a suspended store is still served, a failing event is never
  parked. The manifest's findings name the lines.

  \<^bold>\<open>Not modelled.\<close>
  Reading the configuration, constructing the clients of the services, logging and OpenTelemetry set-up
  (\<open>config.py\<close>, \<open>clients\<close>, \<open>logging.py\<close>, \<open>setup_telemetry\<close>): framework calls whose results are parameters; the start-up
  of the application (the list of routers and the order of its layers apart, which \<open>Middleware\<close> has); the token
  stream of the chat client, which has no caller; the argument parsing and printing of the command-line tools, and
  those that only drive HTTP servers or files (load tests, migration runner, size check); the web front-end, the
  infrastructure files and the database migrations (the constraints they declare are part of the table operations).
\<close>

end
